(* ===== verification/Prelude.thy ===== *)
theory Prelude
  imports
    Complex_Main
    "HOL-Library.Finite_Map"
    "HOL-Library.Multiset"
    "HOL-Library.Sublist"
    "HOL-Library.Char_ord"
    "HOL-Library.List_Lexorder"
begin

text \<open>
  Shared vocabulary of the development.

  Go's data is modelled as follows.  A \<^verbatim>\<open>string\<close> is a \<^typ>\<open>string\<close> (a list of bytes);
  a \<^verbatim>\<open>map[string]T\<close> is a finite map \<^typ>\<open>(string, 'v) fmap\<close>, so that equality of maps is
  what \<^verbatim>\<open>reflect.DeepEqual\<close> decides; a slice is a list, and where the code tells a nil slice or map from an empty
  one (a comparison with nil, or \<^verbatim>\<open>DeepEqual\<close> on user input) a \<open>slice\<close> or \<open>gomap\<close> below;
  a pointer that may be nil is an \<^verbatim>\<open>option\<close>; a \<^verbatim>\<open>time.Time\<close> is the number of nanoseconds since Go's zero time.
  JSON values (\<^verbatim>\<open>interface{}\<close> values decoded from JSON) are the datatype \<open>json\<close> below, with one
  constructor per dynamic type: objects of the cluster and of YAML files have integers that are \<^verbatim>\<open>int64\<close> (\<open>JInt\<close>, with its value), while
  \<^verbatim>\<open>encoding/json\<close> makes every number a finite \<^verbatim>\<open>float64\<close> (\<open>JNum\<close>, a rational).  Equality of \<open>json\<close> tells the two apart, as
  \<^verbatim>\<open>reflect.DeepEqual\<close> and \<^verbatim>\<open>cmp.Diff\<close> do.
\<close>

named_theorems api_defs \<open>constants and constructors of the API package\<close>
named_theorems msg_defs \<open>texts of errors and conditions\<close>

section \<open>Time\<close>

type_synonym time = int

text \<open>\<^verbatim>\<open>t.After(u)\<close>, \<^verbatim>\<open>t.Unix()\<close> and the zero time of the Go library.\<close>

definition zero_time :: time where
  "zero_time = 0"

definition time_After :: "time \<Rightarrow> time \<Rightarrow> bool" where
  "time_After t u \<longleftrightarrow> u < t"

definition time_Unix :: "time \<Rightarrow> int" where
  "time_Unix t = t div 1000000000 - 62135596800"

lemma time_Unix_mono: "t \<le> u \<Longrightarrow> time_Unix t \<le> time_Unix u"
  by (simp add: time_Unix_def zdiv_mono1)

text \<open>A Kubernetes timestamp has whole seconds; on those \<^verbatim>\<open>Unix\<close> loses nothing.\<close>

definition whole_seconds :: "time \<Rightarrow> bool" where
  "whole_seconds t \<longleftrightarrow> t mod 1000000000 = 0"

lemma time_Unix_whole:
  assumes "whole_seconds t" "whole_seconds u"
  shows "time_Unix t \<le> time_Unix u \<longleftrightarrow> t \<le> u"
proof -
  have "t = 1000000000 * (t div 1000000000)" "u = 1000000000 * (u div 1000000000)"
    using assms by (auto simp: whole_seconds_def)
  then show ?thesis unfolding time_Unix_def by linarith
qed

section \<open>Nil slices and maps\<close>

type_synonym 'a slice = "'a list option"

type_synonym 'v gomap = "(string, 'v) fmap option"

definition elems :: "'a slice \<Rightarrow> 'a list" where
  "elems s = (case s of None \<Rightarrow> [] | Some xs \<Rightarrow> xs)"

definition entries :: "'v gomap \<Rightarrow> (string, 'v) fmap" where
  "entries m = (case m of None \<Rightarrow> fmempty | Some f \<Rightarrow> f)"

lemma elems_simps [simp]: "elems None = []" "elems (Some xs) = xs"
  by (simp_all add: elems_def)

lemma entries_simps [simp]: "entries None = fmempty" "entries (Some m) = m"
  by (simp_all add: entries_def)

section \<open>JSON values\<close>

datatype json =
    JNull
  | JBool bool
  | JInt int
  | JNum rat
  | JStr string
  | JArr "json list"
  | JObj "(string, json) fmap"

text \<open>
  Go's \<^verbatim>\<open>==\<close> on two \<^verbatim>\<open>interface{}\<close> values: values of different dynamic types differ; two
  values of the same uncomparable dynamic type (two slices or two maps) make the program
  panic, which is \<^const>\<open>None\<close> here.
\<close>

fun iface_eq :: "json \<Rightarrow> json \<Rightarrow> bool option" where
  "iface_eq (JArr _) (JArr _) = None"
| "iface_eq (JObj _) (JObj _) = None"
| "iface_eq a b = Some (a = b)"

lemma iface_eq_Some: "iface_eq a b = Some r \<Longrightarrow> r \<longleftrightarrow> a = b"
  by (induction a b rule: iface_eq.induct) auto

lemma iface_eq_None:
  "iface_eq a b = None \<longleftrightarrow>
     (\<exists>xs ys. a = JArr xs \<and> b = JArr ys) \<or> (\<exists>m n. a = JObj m \<and> b = JObj n)"
  by (induction a b rule: iface_eq.induct) auto

lemma iface_eq_JStr [simp]:
  "iface_eq (JStr s) b = Some (b = JStr s)" "iface_eq a (JStr s) = Some (a = JStr s)"
  by (cases b; auto) (cases a; auto)

text \<open>The entry of a JSON object (\<^verbatim>\<open>m[key]\<close> with the comma-ok form).\<close>

fun json_field :: "json \<Rightarrow> string \<Rightarrow> json option" where
  "json_field (JObj m) k = fmlookup m k"
| "json_field _ _ = None"

section \<open>Strings\<close>

fun strings_Join :: "string list \<Rightarrow> string \<Rightarrow> string" where
  "strings_Join [] sep = []"
| "strings_Join [x] sep = x"
| "strings_Join (x # y # ys) sep = x @ sep @ strings_Join (y # ys) sep"

definition hasPrefix :: "string \<Rightarrow> string \<Rightarrow> bool" where
  "hasPrefix s p \<longleftrightarrow> take (length p) s = p"

definition hasSuffix :: "string \<Rightarrow> string \<Rightarrow> bool" where
  "hasSuffix s p \<longleftrightarrow> hasPrefix (rev s) (rev p)"

lemma hasPrefix_iff: "hasPrefix s p \<longleftrightarrow> (\<exists>r. s = p @ r)"
  unfolding hasPrefix_def by (metis append_eq_conv_conj append_take_drop_id)

lemma hasSuffix_iff: "hasSuffix s p \<longleftrightarrow> (\<exists>r. s = r @ p)"
  unfolding hasSuffix_def hasPrefix_iff
  by (metis rev_append rev_rev_ident)

lemma hasPrefix_append [simp]: "hasPrefix (p @ r) p"
  by (auto simp: hasPrefix_iff)

lemma hasSuffix_append [simp]: "hasSuffix (r @ p) p"
  by (auto simp: hasSuffix_iff)

lemma append_sep_inject:
  assumes "c \<notin> set xs" "c \<notin> set xs'"
  shows "xs @ c # ys = xs' @ c # ys' \<longleftrightarrow> xs = xs' \<and> ys = ys'"
proof -
  have "takeWhile (\<lambda>x. x \<noteq> c) (zs @ c # ws) = zs" if "c \<notin> set zs" for zs ws
    using that by (induction zs) auto
  with assms show ?thesis by (metis append_same_eq same_append_eq list.inject)
qed

text \<open>Decimal digits of a count, as \<^verbatim>\<open>%d\<close> prints them.\<close>

fun show_nat :: "nat \<Rightarrow> string" where
  "show_nat n =
     (if n < 10 then [char_of (48 + n)] else show_nat (n div 10) @ [char_of (48 + n mod 10)])"

declare show_nat.simps [simp del]

text \<open>A string map as \<^verbatim>\<open>%v\<close> prints it: \<^verbatim>\<open>map[k1:v1 k2:v2]\<close>, keys in order.\<close>

definition fmap_keys :: "(string, 'v) fmap \<Rightarrow> string list" where
  "fmap_keys m = sorted_list_of_fset (fmdom m)"

lemma set_fmap_keys [simp]: "set (fmap_keys m) = fmdom' m"
  by (simp add: fmap_keys_def fmdom'_alt_def)

lemma fmap_keys_sorted [simp]: "sorted (fmap_keys m)" "distinct (fmap_keys m)"
  by (simp_all add: fmap_keys_def sorted_list_of_fset.rep_eq)

lemma fmap_keys_empty [simp]: "fmap_keys fmempty = []"
  by (simp add: fmap_keys_def sorted_list_of_fset.rep_eq)

definition fmap_len :: "('k, 'v) fmap \<Rightarrow> nat" where
  "fmap_len m = fcard (fmdom m)"

lemma fmap_len_empty [simp]: "fmap_len fmempty = 0"
  by (simp add: fmap_len_def)

lemma fmap_len_eq_0 [simp]: "fmap_len m = 0 \<longleftrightarrow> m = fmempty"
proof
  assume "fmap_len m = 0"
  then have "fmdom m = {||}" by (simp add: fmap_len_def)
  then show "m = fmempty" by (auto intro!: fmap_ext simp: fmdom_notD)
qed simp

definition show_string_map :: "(string, string) fmap \<Rightarrow> string" where
  "show_string_map m =
     ''map['' @ strings_Join (map (\<lambda>k. k @ '':'' @ the (fmlookup m k)) (fmap_keys m)) '' '' @ '']''"

section \<open>Loops over slices\<close>

text \<open>
  \<^verbatim>\<open>for _, x := range xs { if p(x) { return &x } }; return nil\<close> is \<^const>\<open>find\<close>; these are the
  facts about it that the components share.
\<close>

lemma find_Some_D: "find P xs = Some x \<Longrightarrow> x \<in> set xs \<and> P x"
  by (induction xs) (auto split: if_splits)

lemma find_None_D: "find P xs = None \<Longrightarrow> x \<in> set xs \<Longrightarrow> \<not> P x"
  by (induction xs) (auto split: if_splits)

lemma find_distinct_key:
  "distinct (map f xs) \<Longrightarrow> x \<in> set xs \<Longrightarrow> find (\<lambda>y. f y = f x) xs = Some x"
  by (induction xs) (force split: if_splits)+

lemma find_append: "find P (xs @ ys) = (case find P xs of None \<Rightarrow> find P ys | Some x \<Rightarrow> Some x)"
  by (induction xs) auto

text \<open>A Go loop that returns the first error: \<^verbatim>\<open>for ... { if err := f(x); err != nil { return err } }\<close>.\<close>

fun first_error :: "('a \<Rightarrow> 'e option) \<Rightarrow> 'a list \<Rightarrow> 'e option" where
  "first_error f [] = None"
| "first_error f (x # xs) = (case f x of Some e \<Rightarrow> Some e | None \<Rightarrow> first_error f xs)"

lemma first_error_None [simp]: "first_error f xs = None \<longleftrightarrow> (\<forall>x\<in>set xs. f x = None)"
  by (induction xs) (auto split: option.splits)

lemma first_error_SomeD: "first_error f xs = Some e \<Longrightarrow> \<exists>x\<in>set xs. f x = Some e"
  by (induction xs) (auto split: option.splits)

lemma first_error_append:
  "first_error f (xs @ ys) = (case first_error f xs of Some e \<Rightarrow> Some e | None \<Rightarrow> first_error f ys)"
  by (induction xs) (simp_all split: option.split del: first_error_None)

end
