(* ===== verification/Api_Types.thy ===== *)
theory Api_Types
  imports Prelude
begin

text \<open>
  The data of \<^verbatim>\<open>pkg/apis/v1alpha1\<close>: the records and datatypes below have the fields of the Go
  structs (each field name carries a prefix for its struct, because HOL field names are
  global), followed by the package's constants and its small functions.  Fields that no
  modelled operation reads (Go \<^verbatim>\<open>TypeMeta\<close>, environment variables, service claims) are left
  out.  \<^verbatim>\<open>metav1.Condition\<close>, \<^verbatim>\<open>corev1.ObjectReference\<close>, \<^verbatim>\<open>metav1.LabelSelector\<close> and
  \<^verbatim>\<open>unstructured.Unstructured\<close> are data of Kubernetes libraries: an \<open>unstructured\<close> object is
  what its accessors return (\<^verbatim>\<open>GetName()\<close>, \<^verbatim>\<open>GetNamespace()\<close>, \<dots>) and its content.
\<close>

section \<open>Kubernetes data\<close>

type_synonym ConditionStatus = string

abbreviation (input) ConditionTrue :: ConditionStatus where "ConditionTrue \<equiv> ''True''"
abbreviation (input) ConditionFalse :: ConditionStatus where "ConditionFalse \<equiv> ''False''"
abbreviation (input) ConditionUnknown :: ConditionStatus where "ConditionUnknown \<equiv> ''Unknown''"

record condition =
  cond_Type :: string
  cond_Status :: ConditionStatus
  cond_ObservedGeneration :: int
  cond_LastTransitionTime :: time
  cond_Reason :: string
  cond_Message :: string

text \<open>A Go composite literal that sets the four fields the code sets.\<close>

definition mk_condition :: "string \<Rightarrow> ConditionStatus \<Rightarrow> string \<Rightarrow> string \<Rightarrow> condition" where
  "mk_condition ty st reason message =
     \<lparr>cond_Type = ty, cond_Status = st, cond_ObservedGeneration = 0,
      cond_LastTransitionTime = zero_time, cond_Reason = reason, cond_Message = message\<rparr>"

lemma mk_condition_sel [simp]:
  "cond_Type (mk_condition ty st r m) = ty" "cond_Status (mk_condition ty st r m) = st"
  "cond_Reason (mk_condition ty st r m) = r" "cond_Message (mk_condition ty st r m) = m"
  by (simp_all add: mk_condition_def)

record ObjectReference =
  or_Kind :: string
  or_Namespace :: string
  or_Name :: string
  or_APIVersion :: string

record GroupVersionKind =
  gvk_Group :: string
  gvk_Version :: string
  gvk_Kind :: string

record NamespacedName =
  nn_Namespace :: string
  nn_Name :: string

type_synonym labels = "(string, string) fmap"

record unstructured =
  u_APIVersion :: string
  u_Kind :: string
  u_GVK :: GroupVersionKind
  u_Namespace :: string
  u_Name :: string
  u_GenerateName :: string
  u_Labels :: labels
  u_CreationTimestamp :: time
  u_ResourceVersion :: string
  u_Content :: json

record LabelSelectorRequirement =
  lsr_Key :: string
  lsr_Operator :: string
  lsr_Values :: "string slice"

record LabelSelector =
  ls_MatchLabels :: "string gomap"
  ls_MatchExpressions :: "LabelSelectorRequirement slice"

section \<open>Data of the API package\<close>

text \<open>A JSON document the code passes on without decoding it (\<^verbatim>\<open>apiextensionsv1.JSON\<close>,
  \<^verbatim>\<open>runtime.RawExtension\<close>): its bytes.\<close>

type_synonym raw = string

record TemplateParam =
  tp_Name :: string
  tp_DefaultValue :: raw

record OwnerParam =
  op_Name :: string
  op_Value :: raw

record BlueprintParam =
  bp_Name :: string
  bp_Value :: "raw option"
  bp_DefaultValue :: "raw option"

record ResourceReference =
  ref_Name :: string
  ref_Resource :: string

record DeploymentReference =
  dref_Resource :: string

record ServiceAccountRef =
  sar_Name :: string
  sar_Namespace :: string

record TemplateReference =
  tref_Kind :: string
  tref_Name :: string

record FieldSelectorRequirement =
  fsr_Key :: string
  fsr_Operator :: string
  fsr_Values :: "string slice"

record Selector =
  sel_LabelSelector :: LabelSelector
  sel_MatchFields :: "FieldSelectorRequirement slice"

record LegacySelector =
  leg_Selector :: "string gomap"
  leg_SelectorMatchExpressions :: "LabelSelectorRequirement slice"
  leg_SelectorMatchFields :: "FieldSelectorRequirement slice"

record TemplateOption =
  opt_Name :: string
  opt_PassThrough :: string
  opt_Selector :: Selector

record StampedRef =
  sref_ObjectReference :: ObjectReference
  sref_Resource :: string

record Input =
  in_Name :: string

record Output =
  out_Name :: string
  out_Preview :: string
  out_Digest :: string
  out_LastTransitionTime :: time

record RealizedResource =
  rr_Name :: string
  rr_StampedRef :: "StampedRef option"
  rr_TemplateRef :: "ObjectReference option"
  rr_Inputs :: "Input list"
  rr_Outputs :: "Output list"

record ResourceStatus =
  rs_RealizedResource :: RealizedResource
  rs_Conditions :: "condition list"

record ConditionRequirement =
  cr_Type :: string
  cr_Status :: ConditionStatus

record HealthMatchFieldSelectorRequirement =
  hm_FieldSelectorRequirement :: FieldSelectorRequirement
  hm_MessagePath :: string

record HealthMatchRule =
  hmr_MatchConditions :: "ConditionRequirement list"
  hmr_MatchFields :: "HealthMatchFieldSelectorRequirement list"

record MultiMatchHealthRule =
  mm_Healthy :: HealthMatchRule
  mm_Unhealthy :: HealthMatchRule

record HealthRule =
  hr_AlwaysHealthy :: "raw option"
  hr_SingleConditionType :: string
  hr_MultiMatch :: "MultiMatchHealthRule option"

record RetentionPolicy =
  rp_MaxFailedRuns :: int
  rp_MaxSuccessfulRuns :: int

record TemplateSpec =
  ts_Template :: "raw option"
  ts_Ytt :: string
  ts_Params :: "TemplateParam list"
  ts_HealthRule :: "HealthRule option"
  ts_Lifecycle :: string
  ts_RetentionPolicy :: "RetentionPolicy option"

record ObservedMatch =
  om_Input :: string
  om_Output :: string

text \<open>The struct \<^verbatim>\<open>v1alpha1.Condition\<close> of a deployment template, a key and its expected value.\<close>

record KeyCondition =
  kc_Key :: string
  kc_Value :: string

record ObservedCompletion =
  oc_SucceededCondition :: KeyCondition
  oc_FailedCondition :: "KeyCondition option"

record SourceTemplateSpec =
  src_TemplateSpec :: TemplateSpec
  src_URLPath :: string
  src_RevisionPath :: string

record ImageTemplateSpec =
  img_TemplateSpec :: TemplateSpec
  img_ImagePath :: string

record ConfigTemplateSpec =
  cfg_TemplateSpec :: TemplateSpec
  cfg_ConfigPath :: string

record DeploymentSpec =
  dep_TemplateSpec :: TemplateSpec
  dep_ObservedMatches :: "ObservedMatch slice"
  dep_ObservedCompletion :: "ObservedCompletion option"

text \<open>The five kinds of template a blueprint can name (a Go \<^verbatim>\<open>client.Object\<close> behind a type
  switch), each with its \<^verbatim>\<open>metadata.name\<close>.\<close>

datatype api_template =
    ClusterSourceTemplate string SourceTemplateSpec
  | ClusterImageTemplate string ImageTemplateSpec
  | ClusterConfigTemplate string ConfigTemplateSpec
  | ClusterDeploymentTemplate string DeploymentSpec
  | ClusterTemplate string TemplateSpec

record BlueprintTemplateReference =
  btr_Kind :: string
  btr_Name :: string
  btr_Options :: "TemplateOption list"

record SupplyChainResource =
  scr_Name :: string
  scr_TemplateRef :: BlueprintTemplateReference
  scr_Params :: "BlueprintParam list"
  scr_Sources :: "ResourceReference list"
  scr_Images :: "ResourceReference list"
  scr_Configs :: "ResourceReference list"

record SupplyChainSpec =
  scs_LegacySelector :: LegacySelector
  scs_Resources :: "SupplyChainResource list"
  scs_Params :: "BlueprintParam list"
  scs_ServiceAccountRef :: ServiceAccountRef

record ClusterSupplyChain =
  sc_Name :: string
  sc_Spec :: SupplyChainSpec
  sc_Conditions :: "condition list"
  sc_ObservedGeneration :: int
  sc_Generation :: int

record DeliveryResource =
  dr_Name :: string
  dr_TemplateRef :: BlueprintTemplateReference
  dr_Params :: "BlueprintParam list"
  dr_Sources :: "ResourceReference list"
  dr_Deployment :: "DeploymentReference option"
  dr_Configs :: "ResourceReference slice"

record DeliverySpec =
  ds_LegacySelector :: LegacySelector
  ds_Resources :: "DeliveryResource list"
  ds_Params :: "BlueprintParam list"
  ds_ServiceAccountRef :: ServiceAccountRef

record ClusterDelivery =
  cd_Name :: string
  cd_Spec :: DeliverySpec
  cd_Conditions :: "condition list"
  cd_ObservedGeneration :: int
  cd_Generation :: int

record ResourceType =
  rt_APIVersion :: string
  rt_Kind :: string

record ResourceSelector =
  rsel_Resource :: ResourceType
  rsel_MatchingLabels :: labels

record OwnerStatus =
  os_ObservedGeneration :: int
  os_Conditions :: "condition list"

record WorkloadSpec =
  wls_Params :: "OwnerParam list"
  wls_ServiceAccountName :: string

record WorkloadStatus =
  wst_OwnerStatus :: OwnerStatus
  wst_SupplyChainRef :: ObjectReference
  wst_Resources :: "ResourceStatus list"

record Workload =
  wl_Namespace :: string
  wl_Name :: string
  wl_Labels :: labels
  wl_Generation :: int
  wl_Spec :: WorkloadSpec
  wl_Status :: WorkloadStatus

record DeliverableSpec =
  dls_Params :: "OwnerParam list"
  dls_ServiceAccountName :: string

record DeliverableStatus =
  dst_OwnerStatus :: OwnerStatus
  dst_DeliveryRef :: ObjectReference
  dst_Resources :: "ResourceStatus list"

record Deliverable =
  dl_Namespace :: string
  dl_Name :: string
  dl_Labels :: labels
  dl_Generation :: int
  dl_Spec :: DeliverableSpec
  dl_Status :: DeliverableStatus

record RunnableSpec =
  rns_RunTemplateRef :: TemplateReference
  rns_Selector :: "ResourceSelector option"
  rns_Inputs :: "(string, raw) fmap"
  rns_ServiceAccountName :: string
  rns_RetentionPolicy :: RetentionPolicy

record RunnableStatus =
  rst_ObservedGeneration :: int
  rst_Conditions :: "condition list"
  rst_Outputs :: "raw gomap"

record Runnable =
  rn_Namespace :: string
  rn_Name :: string
  rn_Labels :: labels
  rn_Generation :: int
  rn_Spec :: RunnableSpec
  rn_Status :: RunnableStatus

record ClusterRunTemplate =
  crt_Name :: string
  crt_Template :: raw
  crt_Outputs :: "(string, string) fmap"

text \<open>What the code reads of a \<^verbatim>\<open>corev1.ServiceAccount\<close>.\<close>

record ServiceAccount =
  sa_Namespace :: string
  sa_Name :: string
  sa_UID :: string

section \<open>Constants\<close>

definition SchemeGroup :: string where [api_defs]: "SchemeGroup = ''carto.run''"
definition SchemeVersion :: string where [api_defs]: "SchemeVersion = ''v1alpha1''"

text \<open>Condition types (\<^verbatim>\<open>conditions.go\<close>).\<close>

definition OwnerReady :: string where [api_defs]: "OwnerReady = ''Ready''"
definition ResourcesHealthy :: string where [api_defs]: "ResourcesHealthy = ''ResourcesHealthy''"
definition WorkloadSupplyChainReady :: string where [api_defs]: "WorkloadSupplyChainReady = ''SupplyChainReady''"
definition DeliverableDeliveryReady :: string where [api_defs]: "DeliverableDeliveryReady = ''DeliveryReady''"
definition OwnerResourcesSubmitted :: string where [api_defs]: "OwnerResourcesSubmitted = ''ResourcesSubmitted''"
definition ResourceReady :: string where [api_defs]: "ResourceReady = ''Ready''"
definition ResourceSubmitted :: string where [api_defs]: "ResourceSubmitted = ''ResourceSubmitted''"
definition ResourceHealthy :: string where [api_defs]: "ResourceHealthy = ''Healthy''"
definition BlueprintTemplatesReady :: string where [api_defs]: "BlueprintTemplatesReady = ''TemplatesReady''"
definition BlueprintReady :: string where [api_defs]: "BlueprintReady = ''Ready''"
definition RunnableReady :: string where [api_defs]: "RunnableReady = ''Ready''"
definition RunTemplateReady :: string where [api_defs]: "RunTemplateReady = ''RunTemplateReady''"
definition StampedObjectCondition :: string where [api_defs]: "StampedObjectCondition = ''StampedObjectCondition''"

text \<open>Condition reasons (\<^verbatim>\<open>conditions.go\<close>).\<close>

definition ReadySupplyChainReason :: string where [api_defs]: "ReadySupplyChainReason = ''Ready''"
definition WorkloadLabelsMissingSupplyChainReason :: string where [api_defs]: "WorkloadLabelsMissingSupplyChainReason = ''WorkloadLabelsMissing''"
definition NotFoundSupplyChainReadyReason :: string where [api_defs]: "NotFoundSupplyChainReadyReason = ''SupplyChainNotFound''"
definition MultipleMatchesSupplyChainReadyReason :: string where [api_defs]: "MultipleMatchesSupplyChainReadyReason = ''MultipleSupplyChainMatches''"
definition ReadyDeliveryReason :: string where [api_defs]: "ReadyDeliveryReason = ''Ready''"
definition DeliverableLabelsMissingDeliveryReason :: string where [api_defs]: "DeliverableLabelsMissingDeliveryReason = ''DeliverableLabelsMissing''"
definition NotFoundDeliveryReadyReason :: string where [api_defs]: "NotFoundDeliveryReadyReason = ''DeliveryNotFound''"
definition MultipleMatchesDeliveryReadyReason :: string where [api_defs]: "MultipleMatchesDeliveryReadyReason = ''MultipleDeliveryMatches''"
definition CompleteResourcesSubmittedReason :: string where [api_defs]: "CompleteResourcesSubmittedReason = ''ResourceSubmissionComplete''"
definition TemplateObjectRetrievalFailureResourcesSubmittedReason :: string where [api_defs]: "TemplateObjectRetrievalFailureResourcesSubmittedReason = ''TemplateObjectRetrievalFailure''"
definition MissingValueAtPathResourcesSubmittedReason :: string where [api_defs]: "MissingValueAtPathResourcesSubmittedReason = ''MissingValueAtPath''"
definition TemplateStampFailureResourcesSubmittedReason :: string where [api_defs]: "TemplateStampFailureResourcesSubmittedReason = ''TemplateStampFailure''"
definition TemplateRejectedByAPIServerResourcesSubmittedReason :: string where [api_defs]: "TemplateRejectedByAPIServerResourcesSubmittedReason = ''TemplateRejectedByAPIServer''"
definition UnknownErrorResourcesSubmittedReason :: string where [api_defs]: "UnknownErrorResourcesSubmittedReason = ''UnknownError''"
definition ResolveTemplateOptionsErrorResourcesSubmittedReason :: string where [api_defs]: "ResolveTemplateOptionsErrorResourcesSubmittedReason = ''ResolveTemplateOptionsError''"
definition TemplateOptionsMatchErrorResourcesSubmittedReason :: string where [api_defs]: "TemplateOptionsMatchErrorResourcesSubmittedReason = ''TemplateOptionsMatchError''"
definition PassThroughReason :: string where [api_defs]: "PassThroughReason = ''PassThrough''"
definition DeploymentConditionNotMetResourcesSubmittedReason :: string where [api_defs]: "DeploymentConditionNotMetResourcesSubmittedReason = ''ConditionNotMet''"
definition DeploymentFailedConditionMetResourcesSubmittedReason :: string where [api_defs]: "DeploymentFailedConditionMetResourcesSubmittedReason = ''FailedConditionMet''"
definition ServiceAccountErrorResourcesSubmittedReason :: string where [api_defs]: "ServiceAccountErrorResourcesSubmittedReason = ''ServiceAccountError''"
definition ServiceAccountTokenErrorResourcesSubmittedReason :: string where [api_defs]: "ServiceAccountTokenErrorResourcesSubmittedReason = ''ServiceAccountTokenError''"
definition ResourceRealizerBuilderErrorResourcesSubmittedReason :: string where [api_defs]: "ResourceRealizerBuilderErrorResourcesSubmittedReason = ''ResourceRealizerBuilderError''"
definition ReadyTemplatesReadyReason :: string where [api_defs]: "ReadyTemplatesReadyReason = ''Ready''"
definition NotFoundTemplatesReadyReason :: string where [api_defs]: "NotFoundTemplatesReadyReason = ''TemplatesNotFound''"
definition OutputAvailableResourcesHealthyReason :: string where [api_defs]: "OutputAvailableResourcesHealthyReason = ''OutputsAvailable''"
definition AlwaysHealthyResourcesHealthyReason :: string where [api_defs]: "AlwaysHealthyResourcesHealthyReason = ''AlwaysHealthy''"
definition NoResourceResourcesHealthyReason :: string where [api_defs]: "NoResourceResourcesHealthyReason = ''NoResource''"
definition OutputNotAvailableResourcesHealthyReason :: string where [api_defs]: "OutputNotAvailableResourcesHealthyReason = ''OutputNotAvailable''"
definition NoStampedObjectHealthyReason :: string where [api_defs]: "NoStampedObjectHealthyReason = ''NoStampedObject''"
definition NoMatchesFulfilledReason :: string where [api_defs]: "NoMatchesFulfilledReason = ''NoMatchesFulfilled''"
definition MultiMatchConditionHealthyReason :: string where [api_defs]: "MultiMatchConditionHealthyReason = ''MatchedCondition''"
definition MultiMatchFieldHealthyReason :: string where [api_defs]: "MultiMatchFieldHealthyReason = ''MatchedField''"
definition ReadyRunTemplateReason :: string where [api_defs]: "ReadyRunTemplateReason = ''Ready''"
definition NotFoundRunTemplateReason :: string where [api_defs]: "NotFoundRunTemplateReason = ''RunTemplateNotFound''"
definition StampedObjectRejectedByAPIServerRunTemplateReason :: string where [api_defs]: "StampedObjectRejectedByAPIServerRunTemplateReason = ''StampedObjectRejectedByAPIServer''"
definition OutputPathNotSatisfiedRunTemplateReason :: string where [api_defs]: "OutputPathNotSatisfiedRunTemplateReason = ''OutputPathNotSatisfied''"
definition TemplateStampFailureRunTemplateReason :: string where [api_defs]: "TemplateStampFailureRunTemplateReason = ''TemplateStampFailure''"
definition FailedToListCreatedObjectsReason :: string where [api_defs]: "FailedToListCreatedObjectsReason = ''FailedToListCreatedObjects''"
definition UnknownErrorReason :: string where [api_defs]: "UnknownErrorReason = ''UnknownError''"
definition ClientBuilderErrorResourcesSubmittedReason :: string where [api_defs]: "ClientBuilderErrorResourcesSubmittedReason = ''ClientBuilderError''"
definition SucceededStampedObjectConditionReason :: string where [api_defs]: "SucceededStampedObjectConditionReason = ''SucceededCondition''"
definition UnknownStampedObjectConditionReason :: string where [api_defs]: "UnknownStampedObjectConditionReason = ''Unknown''"

text \<open>The paths of an owner that a field selector may name, exactly or as a prefix.\<close>

definition ValidWorkloadPaths :: "string list" where
  "ValidWorkloadPaths =
     [''spec.source'',
      ''spec.source.git'',
      ''spec.source.git.url'',
      ''spec.source.git.ref'',
      ''spec.source.git.ref.branch'',
      ''spec.source.git.ref.tag'',
      ''spec.source.git.ref.commit'',
      ''spec.source.image'',
      ''spec.source.subPath'',
      ''spec.build'',
      ''spec.image'',
      ''spec.serviceAccountName'']"

definition ValidWorkloadPrefixes :: "string list" where
  "ValidWorkloadPrefixes =
     [''spec.params'',
      ''spec.build.env'',
      ''spec.env'',
      ''spec.resources'',
      ''spec.serviceClaims'',
      ''metadata'']"

definition ValidDeliverablePaths :: "string list" where
  "ValidDeliverablePaths =
     [''spec.source'',
      ''spec.source.git'',
      ''spec.source.git.url'',
      ''spec.source.git.ref'',
      ''spec.source.git.ref.branch'',
      ''spec.source.git.ref.tag'',
      ''spec.source.git.ref.commit'',
      ''spec.source.image'',
      ''spec.source.subPath'',
      ''spec.serviceAccountName'']"

definition ValidDeliverablePrefixes :: "string list" where
  "ValidDeliverablePrefixes =
     [''spec.params'',
      ''metadata'']"

text \<open>Field selector operators (\<^verbatim>\<open>common.go\<close>).\<close>

definition FieldSelectorOpIn :: string where [api_defs]: "FieldSelectorOpIn = ''In''"
definition FieldSelectorOpNotIn :: string where [api_defs]: "FieldSelectorOpNotIn = ''NotIn''"
definition FieldSelectorOpExists :: string where [api_defs]: "FieldSelectorOpExists = ''Exists''"
definition FieldSelectorOpDoesNotExist :: string where [api_defs]: "FieldSelectorOpDoesNotExist = ''DoesNotExist''"

section \<open>Functions\<close>

fun template_spec :: "api_template \<Rightarrow> TemplateSpec" where
  "template_spec (ClusterSourceTemplate n s) = src_TemplateSpec s"
| "template_spec (ClusterImageTemplate n s) = img_TemplateSpec s"
| "template_spec (ClusterConfigTemplate n s) = cfg_TemplateSpec s"
| "template_spec (ClusterDeploymentTemplate n s) = dep_TemplateSpec s"
| "template_spec (ClusterTemplate n s) = s"

fun template_kind :: "api_template \<Rightarrow> string" where
  "template_kind (ClusterSourceTemplate n s) = ''ClusterSourceTemplate''"
| "template_kind (ClusterImageTemplate n s) = ''ClusterImageTemplate''"
| "template_kind (ClusterConfigTemplate n s) = ''ClusterConfigTemplate''"
| "template_kind (ClusterDeploymentTemplate n s) = ''ClusterDeploymentTemplate''"
| "template_kind (ClusterTemplate n s) = ''ClusterTemplate''"

definition TemplateOptionSelectors :: "TemplateOption list \<Rightarrow> Selector list" where
  "TemplateOptionSelectors opts = map opt_Selector opts"

definition bothValuesSet :: "BlueprintParam \<Rightarrow> bool" where
  "bothValuesSet p \<longleftrightarrow> bp_DefaultValue p \<noteq> None \<and> bp_Value p \<noteq> None"

definition neitherValueSet :: "BlueprintParam \<Rightarrow> bool" where
  "neitherValueSet p \<longleftrightarrow> bp_DefaultValue p = None \<and> bp_Value p = None"

end
