(* ===== verification/Go_Errors.thy ===== *)
theory Go_Errors
  imports Api_Types
begin

text \<open>
  Error values.  The Go code tells errors apart by their dynamic type, so every error type of
  \<^verbatim>\<open>pkg/errors\<close>, \<^verbatim>\<open>pkg/stamp/errors.go\<close>, \<^verbatim>\<open>pkg/eval\<close> and \<^verbatim>\<open>pkg/selector\<close> is a constructor of
  one datatype.  \<open>ErrorString\<close> is an error made by \<^verbatim>\<open>errors.New\<close> or by \<^verbatim>\<open>fmt.Errorf\<close> without
  \<^verbatim>\<open>%w\<close>; \<open>WrapError t e\<close> is \<^verbatim>\<open>fmt.Errorf(t + "%w", e)\<close>, which hides the type of \<open>e\<close> from a type
  switch but not from \<^verbatim>\<open>errors.Is\<close> and \<^verbatim>\<open>errors.As\<close>; \<open>ApiStatusError\<close> is an error of the
  Kubernetes API server with its reason and message.

  The theory models \<^verbatim>\<open>Error()\<close> of every type, \<^verbatim>\<open>IsUnhandledErrorType\<close>, \<^verbatim>\<open>WrapUnhandledError\<close>,
  \<^verbatim>\<open>NewUnhandledError\<close> and \<^verbatim>\<open>IsUnhandledError\<close>, and shows which errors make a reconciler requeue.
\<close>

datatype gerror =
    ErrorString string
  | WrapError string gerror
  | ApiStatusError string string
  | JsonPathDoesNotExistError string
  | SelectorMatchError gerror nat
  | JsonPathError gerror string
  | ObservedGenerationError gerror
  | DeploymentConditionError gerror
  | DeploymentFailedConditionMetError gerror
  | GetTemplateError gerror (gte_ResourceName: string) (gte_TemplateName: string)
      (gte_BlueprintName: string) (gte_BlueprintType: string)
  | ResolveTemplateOptionError gerror (rto_ResourceName: string) (rto_OptionName: string)
      (rto_BlueprintName: string) (rto_BlueprintType: string)
  | TemplateOptionsMatchError (tom_ResourceName: string) (tom_OptionNames: "string list")
      (tom_BlueprintName: string) (tom_BlueprintType: string)
  | ApplyStampedObjectError gerror (aso_StampedObject: unstructured) (aso_ResourceName: string)
      (aso_BlueprintName: string) (aso_BlueprintType: string)
  | StampError gerror (ste_ResourceName: string) (ste_TemplateName: string)
      (ste_TemplateKind: string) (ste_BlueprintName: string) (ste_BlueprintType: string)
  | RetrieveOutputError gerror (roe_ResourceName: string) (roe_StampedObject: "unstructured option")
      (roe_BlueprintName: string) (roe_BlueprintType: string) (roe_QualifiedResource: string)
      (roe_PassThroughInput: string) (roe_Healthy: ConditionStatus)
  | ListCreatedObjectsError gerror (lco_Namespace: string) (lco_Labels: labels)
  | RunnableGetRunTemplateError gerror (rgt_TemplateRef: TemplateReference)
  | RunnableResolveSelectorError gerror (rrs_Selector: ResourceSelector)
  | RunnableStampError gerror (rse_TemplateRef: TemplateReference)
  | RunnableApplyStampedObjectError gerror (raso_StampedObject: unstructured)
      (raso_TemplateRef: TemplateReference)
  | RunnableRetrieveOutputError gerror (rro_StampedObject: unstructured)
      (rro_TemplateRef: TemplateReference) (rro_QualifiedResource: string)
  | UnhandledError gerror

text \<open>The blueprint types the realizer puts into its errors.\<close>

definition SupplyChain :: string where [msg_defs]: "SupplyChain = ''supply chain''"

definition NoJsonpathContext :: string where [msg_defs]: "NoJsonpathContext = ''<no jsonpath context>''"

section \<open>Texts\<close>

text \<open>\<^verbatim>\<open>RetrieveOutputError.JsonPathExpression()\<close>: only a \<^verbatim>\<open>stamp.JsonPathError\<close> has one.\<close>

fun JsonPathExpression :: "gerror \<Rightarrow> string" where
  "JsonPathExpression (JsonPathError e expr) = expr"
| "JsonPathExpression _ = NoJsonpathContext"

text \<open>\<^verbatim>\<open>GetName()\<close>, falling back on \<^verbatim>\<open>GetGenerateName()\<close>.\<close>

definition name_or_generateName :: "unstructured \<Rightarrow> string" where
  "name_or_generateName obj = (if u_Name obj = '''' then u_GenerateName obj else u_Name obj)"

text \<open>
  \<^verbatim>\<open>Error()\<close>.  A \<^verbatim>\<open>RetrieveOutputError\<close> reads its stamped object only when it carries no pass
  through input; the code never builds one with neither (the text of that branch is then
  that of a nil dereference, \<open>''''\<close> here).
\<close>

fun Error :: "gerror \<Rightarrow> string" where
  "Error (ErrorString s) = s"
| "Error (WrapError t e) = t @ Error e"
| "Error (ApiStatusError r m) = m"
| "Error (JsonPathDoesNotExistError p) = ''jsonpath returned empty list: '' @ p"
| "Error (SelectorMatchError e i) = Error e"
| "Error (JsonPathError e x) = ''failed to evaluate json path '' @ [CHR 0x27] @ x @ [CHR 0x27] @ '': '' @ Error e"
| "Error (ObservedGenerationError e) = Error e"
| "Error (DeploymentConditionError e) = Error e"
| "Error (DeploymentFailedConditionMetError e) = Error e"
| "Error (GetTemplateError e rn tn bn bt) =
     ''unable to get template ['' @ tn @ ''] for resource ['' @ rn @ ''] in '' @ bt @ '' ['' @ bn @ '']: '' @ Error e"
| "Error (ResolveTemplateOptionError e rn opn bn bt) =
     ''error matching against template option ['' @ opn @ ''] for resource ['' @ rn @ ''] in '' @ bt @ '' ['' @ bn
       @ '']: '' @ Error e"
| "Error (TemplateOptionsMatchError rn ons bn bt) =
     ''expected exactly 1 option to match, found ['' @ show_nat (length ons) @ ''] matching options ''
       @ (if ons \<noteq> [] then ''['' @ strings_Join ons '', '' @ ''] '' else '''')
       @ ''for resource ['' @ rn @ ''] in '' @ bt @ '' ['' @ bn @ '']''"
| "Error (ApplyStampedObjectError e obj rn bn bt) =
     ''unable to apply object ['' @ u_Namespace obj @ ''/'' @ u_Name obj @ ''] for resource ['' @ rn @ ''] in ''
       @ bt @ '' ['' @ bn @ '']: '' @ Error e"
| "Error (StampError e rn tn tk bn bt) =
     ''unable to stamp object for resource ['' @ rn @ ''] for template ['' @ tk @ ''/'' @ tn @ ''] in '' @ bt
       @ '' ['' @ bn @ '']: '' @ Error e"
| "Error (RetrieveOutputError e rn sobj bn bt qr pt h) =
     (if pt \<noteq> '''' then
        ''unable to retrieve outputs from pass through ['' @ pt @ ''] for resource ['' @ rn @ ''] in '' @ bt
          @ '' ['' @ bn @ '']: '' @ Error e
      else (case sobj of None \<Rightarrow> '''' | Some obj \<Rightarrow>
        (if JsonPathExpression e = NoJsonpathContext then
           ''unable to retrieve outputs from stamped object ['' @ u_Namespace obj @ ''/'' @ u_Name obj
             @ ''] of type ['' @ qr @ ''] for resource ['' @ rn @ ''] in '' @ bt @ '' ['' @ bn @ '']: '' @ Error e
         else
           ''unable to retrieve outputs ['' @ JsonPathExpression e @ ''] from stamped object [''
             @ u_Namespace obj @ ''/'' @ u_Name obj @ ''] of type ['' @ qr @ ''] for resource ['' @ rn @ ''] in ''
             @ bt @ '' ['' @ bn @ '']: '' @ Error e)))"
| "Error (ListCreatedObjectsError e ns ls) =
     ''unable to list objects in namespace ['' @ ns @ ''] with labels ['' @ show_string_map ls @ '']: '' @ Error e"
| "Error (RunnableGetRunTemplateError e tr) =
     ''unable to get run template ['' @ tref_Name tr @ '']: '' @ Error e"
| "Error (RunnableResolveSelectorError e s) =
     ''unable to resolve selector ['' @ show_string_map (rsel_MatchingLabels s) @ ''], apiVersion [''
       @ rt_APIVersion (rsel_Resource s) @ ''], kind ['' @ rt_Kind (rsel_Resource s) @ '']: '' @ Error e"
| "Error (RunnableStampError e tr) =
     ''unable to stamp object for run template ['' @ tref_Name tr @ '']: '' @ Error e"
| "Error (RunnableApplyStampedObjectError e obj tr) =
     ''unable to apply object ['' @ u_Namespace obj @ ''/'' @ name_or_generateName obj @ ''] for run template [''
       @ tref_Name tr @ '']: '' @ Error e"
| "Error (RunnableRetrieveOutputError e obj tr qr) =
     ''unable to retrieve outputs from stamped object ['' @ u_Namespace obj @ ''/'' @ name_or_generateName obj
       @ ''] of type ['' @ qr @ ''] for run template ['' @ tref_Name tr @ '']: '' @ Error e"
| "Error (UnhandledError e) = Error e"

text \<open>No proof below depends on the texts; they unfold on demand only.\<close>

declare Error.simps [simp del]

section \<open>Handled and unhandled errors\<close>

definition NewUnhandledError :: "gerror \<Rightarrow> gerror" where
  "NewUnhandledError e = UnhandledError e"

text \<open>\<^verbatim>\<open>errors.Is(err, unhandledError{})\<close>: the walk along \<^verbatim>\<open>Unwrap\<close>, which only \<^verbatim>\<open>%w\<close> errors and
  \<^verbatim>\<open>unhandledError\<close> implement.\<close>

fun IsUnhandledError :: "gerror \<Rightarrow> bool" where
  "IsUnhandledError (UnhandledError e) = True"
| "IsUnhandledError (WrapError t e) = IsUnhandledError e"
| "IsUnhandledError _ = False"

text \<open>\<^verbatim>\<open>kerrors.IsForbidden\<close> is library code: a parameter.\<close>

definition IsUnhandledErrorType :: "(gerror \<Rightarrow> bool) \<Rightarrow> gerror \<Rightarrow> bool" where
  "IsUnhandledErrorType isForbidden err =
     (case err of
        GetTemplateError e rn tn bn bt \<Rightarrow> True
      | ApplyStampedObjectError e obj rn bn bt \<Rightarrow> (if \<not> isForbidden e then True else False)
      | StampError e rn tn tk bn bt \<Rightarrow> False
      | RetrieveOutputError e rn obj bn bt qr pt h \<Rightarrow> False
      | ResolveTemplateOptionError e rn opn bn bt \<Rightarrow> False
      | TemplateOptionsMatchError rn ons bn bt \<Rightarrow> False
      | _ \<Rightarrow> True)"

definition WrapUnhandledError :: "(gerror \<Rightarrow> bool) \<Rightarrow> gerror \<Rightarrow> gerror" where
  "WrapUnhandledError isForbidden err =
     (if IsUnhandledErrorType isForbidden err then NewUnhandledError err else err)"

text \<open>\<^verbatim>\<open>errors.As(err, &typedErr)\<close> for a \<^verbatim>\<open>RetrieveOutputError\<close>: the first one along \<^verbatim>\<open>Unwrap\<close>.\<close>

fun as_RetrieveOutputError :: "gerror \<Rightarrow> gerror option" where
  "as_RetrieveOutputError (RetrieveOutputError e rn obj bn bt qr pt h) =
     Some (RetrieveOutputError e rn obj bn bt qr pt h)"
| "as_RetrieveOutputError (WrapError t e) = as_RetrieveOutputError e"
| "as_RetrieveOutputError (UnhandledError e) = as_RetrieveOutputError e"
| "as_RetrieveOutputError _ = None"

lemma as_RetrieveOutputError_shape:
  "as_RetrieveOutputError err = Some err' \<Longrightarrow>
     \<exists>e rn obj bn bt qr pt h. err' = RetrieveOutputError e rn obj bn bt qr pt h"
  by (induction err rule: as_RetrieveOutputError.induct) auto

text \<open>The classification is closed under wrapping: a wrapped error is always unhandled, whatever it
  wraps, because the type switch does not look through \<^verbatim>\<open>%w\<close>.\<close>

lemma IsUnhandledErrorType_Wrap [simp]: "IsUnhandledErrorType f (WrapError t e)"
  by (simp add: IsUnhandledErrorType_def)

lemma IsUnhandledErrorType_Unhandled [simp]: "IsUnhandledErrorType f (UnhandledError e)"
  by (simp add: IsUnhandledErrorType_def)

text \<open>
  after \<^verbatim>\<open>WrapUnhandledError\<close>, \<^verbatim>\<open>IsUnhandledError\<close> reports exactly the errors that the type switch of
  \<^verbatim>\<open>IsUnhandledErrorType\<close> classifies as unhandled, so the reconcilers requeue on those and on no others.
\<close>

theorem unhandled_iff_type:
  "IsUnhandledError (WrapUnhandledError isForbidden err) = IsUnhandledErrorType isForbidden err"
  by (cases err) (simp_all add: WrapUnhandledError_def NewUnhandledError_def IsUnhandledErrorType_def)

end
