(* ===== verification/Json_Path.thy ===== *)
theory Json_Path
  imports Go_Errors
begin

text \<open>
  \<^verbatim>\<open>pkg/eval/jsonpath.go\<close> and \<^verbatim>\<open>pkg/utils/json_path.go\<close>.  The JSONPath engine of
  \<^verbatim>\<open>k8s.io/client-go\<close> is library code and a parameter, the record \<open>jsonpath_lib\<close>: parsing an
  expression, finding the results of a parsed expression (one list per query of the
  template), printing one list of results as JSON text, and formatting all results with
  \<^verbatim>\<open>%v\<close>; decoding the printed text with \<^verbatim>\<open>encoding/json\<close> is its last field.
\<close>

record jsonpath_lib =
  jp_Parse :: "string \<Rightarrow> gerror option"
  jp_FindResults :: "string \<Rightarrow> json \<Rightarrow> gerror + json list list"
  jp_PrintResults :: "json list \<Rightarrow> gerror + string"
  jp_ShowResults :: "json list list \<Rightarrow> string"
  jp_Unmarshal :: "string \<Rightarrow> gerror + json list"

text \<open>The results of calls that may fail or panic.\<close>

datatype 'a go =
    Ret 'a
  | Err gerror
  | Panic string

text \<open>Continuing after a call: \<open>go_bind\<close> returns its error at once, \<open>go_catch\<close> hands error and value to
  the caller; a panic passes through both.\<close>

fun go_bind :: "'a go \<Rightarrow> ('a \<Rightarrow> 'b go) \<Rightarrow> 'b go" where
  "go_bind (Ret v) k = k v"
| "go_bind (Err e) k = Err e"
| "go_bind (Panic p) k = Panic p"

fun go_catch :: "'a go \<Rightarrow> (gerror + 'a \<Rightarrow> 'b go) \<Rightarrow> 'b go" where
  "go_catch (Ret v) k = k (Inr v)"
| "go_catch (Err e) k = k (Inl e)"
| "go_catch (Panic p) k = Panic p"

fun panics :: "'a go \<Rightarrow> bool" where
  "panics (Panic p) = True"
| "panics _ = False"

lemma go_bind_Ret_iff: "go_bind m k = Ret r \<longleftrightarrow> (\<exists>v. m = Ret v \<and> k v = Ret r)"
  by (cases m) simp_all

lemma panics_bind: "panics (go_bind m k) \<longleftrightarrow> panics m \<or> (\<exists>v. m = Ret v \<and> panics (k v))"
  by (cases m) simp_all

lemma panics_catch:
  "panics (go_catch m k) \<longleftrightarrow>
     panics m \<or> (\<exists>v. m = Ret v \<and> panics (k (Inr v))) \<or> (\<exists>e. m = Err e \<and> panics (k (Inl e)))"
  by (cases m) simp_all

lemma not_panics_iff: "\<not> panics m \<longleftrightarrow> (\<exists>v. m = Ret v) \<or> (\<exists>e. m = Err e)"
  by (cases m) simp_all

definition SinglePathEvaluate :: "jsonpath_lib \<Rightarrow> string \<Rightarrow> json \<Rightarrow> json list go" where
  "SinglePathEvaluate jp expr obj =
     (case jp_Parse jp expr of
        Some e \<Rightarrow> Err (WrapError (''failed to parse jsonpath '' @ [CHR 0x27] @ expr @ [CHR 0x27] @ '': '') e)
      | None \<Rightarrow>
          (case jp_FindResults jp expr obj of
             Inl e \<Rightarrow> Err (WrapError ''failed to find results: '' e)
           | Inr values \<Rightarrow>
               (if length values > 1 then 
                  Err (ErrorString (''more queries than expected: '' @ jp_ShowResults jp values))
                else (case values of
                   [] \<Rightarrow> Panic ''index out of range''
                 | v # _ \<Rightarrow>
                     (case jp_PrintResults jp v of
                        Inl e \<Rightarrow> Err (WrapError ''failed to print results: '' e)
                      | Inr bufBytes \<Rightarrow>
                          (case jp_Unmarshal jp bufBytes of
                             Inl e \<Rightarrow> Err (WrapError ''failed to unmarshall: '' e)
                           | Inr interfaceList \<Rightarrow> Ret interfaceList))))))"

definition ensureValidWrapping :: "string \<Rightarrow> string" where
  "ensureValidWrapping expr =
     (let e1 = (if \<not> hasPrefix expr ''{.'' then
                  (if \<not> hasPrefix expr ''.'' then ''{.'' @ expr else ''{'' @ expr)
                else expr)
      in if \<not> hasSuffix e1 ''}'' then e1 @ ''}'' else e1)"

definition EvaluateJsonPath :: "jsonpath_lib \<Rightarrow> string \<Rightarrow> json \<Rightarrow> json go" where
  "EvaluateJsonPath jp path obj =
     (if path = '''' then Err (ErrorString ''empty jsonpath not allowed'')
      else (case SinglePathEvaluate jp (ensureValidWrapping path) obj of
         Panic p \<Rightarrow> Panic p
       | Err e \<Rightarrow> Err (WrapError ''evaluate: '' e)
       | Ret interfaceList \<Rightarrow>
           (if length interfaceList > 1 then
              Err (ErrorString (''too many results for the query: '' @ path))
            else (case interfaceList of
               [] \<Rightarrow> Err (JsonPathDoesNotExistError path)
             | x # _ \<Rightarrow> Ret x))))"

section \<open>Wrapping\<close>

text \<open>
  \<^verbatim>\<open>ensureValidWrapping\<close> always produces an expression of the form \<^verbatim>\<open>{. \<dots> }\<close>, keeps the text of
  the path in the middle, and is idempotent, so wrapping an already wrapped path changes nothing.
\<close>

theorem ensureValidWrapping_wraps:
  "hasPrefix (ensureValidWrapping p) ''{.'' \<and> hasSuffix (ensureValidWrapping p) ''}'' \<and>
   ensureValidWrapping (ensureValidWrapping p) = ensureValidWrapping p \<and>
   (\<exists>l r. ensureValidWrapping p = l @ p @ r)"
proof -
  define e1 where "e1 = (if \<not> hasPrefix p ''{.'' then
     (if \<not> hasPrefix p ''.'' then ''{.'' @ p else ''{'' @ p) else p)"
  have w: "ensureValidWrapping p = (if \<not> hasSuffix e1 ''}'' then e1 @ ''}'' else e1)"
    by (simp add: ensureValidWrapping_def e1_def Let_def)
  have "hasPrefix e1 ''{.''"
    by (auto simp: e1_def hasPrefix_iff)
  then have pre: "hasPrefix (ensureValidWrapping p) ''{.''"
    by (auto simp: w hasPrefix_iff)
  have suf: "hasSuffix (ensureValidWrapping p) ''}''"
    by (simp add: w)
  have "\<exists>l. e1 = l @ p"
    by (auto simp: e1_def intro: exI [of _ "''{.''"] exI [of _ "''{''"])
  then obtain l where "e1 = l @ p" ..
  then have "ensureValidWrapping p = l @ p @ (if hasSuffix e1 ''}'' then '''' else ''}'')"
    by (simp add: w)
  then have "\<exists>l r. ensureValidWrapping p = l @ p @ r"
    by blast
  with pre suf show ?thesis
    by (simp add: ensureValidWrapping_def [of "ensureValidWrapping p"])
qed

section \<open>Evaluation\<close>

text \<open>
  A panic can only come from an engine that finds no query at all in a template it parsed.  The engine of client-go returns one list of results
  per node of the template, and a template that starts with \<^verbatim>\<open>{.\<close>, as every wrapped path does, has at least one node.
\<close>

lemma EvaluateJsonPath_no_panic:
  assumes "\<And>e v. hasPrefix e ''{.'' \<Longrightarrow> jp_Parse jp e = None \<Longrightarrow> jp_FindResults jp e v \<noteq> Inr []"
  shows "EvaluateJsonPath jp path obj \<noteq> Panic m"
proof -
  have "hasPrefix (ensureValidWrapping path) ''{.''" using ensureValidWrapping_wraps by blast
  note found = assms [OF this]
  then show ?thesis
    by (auto simp: EvaluateJsonPath_def SinglePathEvaluate_def split: go.splits list.splits option.splits sum.splits if_splits)
qed

lemma EvaluateJsonPath_empty [simp]:
  "EvaluateJsonPath jp '''' obj = Err (ErrorString ''empty jsonpath not allowed'')"
  by (simp add: EvaluateJsonPath_def)

text \<open>A path is missing exactly when the engine accepts it and finds no value.\<close>

lemma EvaluateJsonPath_missing_iff:
  "EvaluateJsonPath jp path obj = Err (JsonPathDoesNotExistError q) \<longleftrightarrow>
     path \<noteq> '''' \<and> q = path \<and> SinglePathEvaluate jp (ensureValidWrapping path) obj = Ret []"
  by (auto simp: EvaluateJsonPath_def split: go.splits list.splits if_splits)

lemma EvaluateJsonPath_Ret_iff:
  "EvaluateJsonPath jp path obj = Ret v \<longleftrightarrow>
     path \<noteq> '''' \<and> SinglePathEvaluate jp (ensureValidWrapping path) obj = Ret [v]"
  by (auto simp: EvaluateJsonPath_def split: go.splits list.splits if_splits)

end
