(* ===== verification/Selector_Matching.thy ===== *)
theory Selector_Matching
  imports Json_Path
begin

text \<open>
  \<^verbatim>\<open>pkg/selector\<close> and \<^verbatim>\<open>pkg/repository/selector_matcher.go\<close>: which blueprints (or template
  options) select an owner.  \<^verbatim>\<open>metav1.LabelSelectorAsSelector\<close> and the \<^verbatim>\<open>Matches\<close> of its result are
  library code, the parameter \<open>lsel\<close>.  A \<^verbatim>\<open>Selectable\<close> is its labels and the JSON view of
  the object that the JSONPath engine reads; the Go interface \<^verbatim>\<open>SelectingObject\<close> is the record
  of its methods.

  The main result is that \<^verbatim>\<open>BestSelectorMatchIndices\<close> returns, in ascending order, exactly the
  indices of the matching selectors with the highest number of requirements.
\<close>

type_synonym label_selector = "LabelSelector \<Rightarrow> gerror + (labels \<Rightarrow> bool)"

record selectable =
  sb_Labels :: labels
  sb_Object :: json

section \<open>The model\<close>

fun is_JsonPathDoesNotExist :: "gerror \<Rightarrow> bool" where
  "is_JsonPathDoesNotExist (JsonPathDoesNotExistError p) = True"
| "is_JsonPathDoesNotExist _ = False"

text \<open>\<^verbatim>\<open>actualValue == v\<close> compares an \<^verbatim>\<open>interface{}\<close> with a string: true only for that very string.\<close>

definition match_operator :: "FieldSelectorRequirement \<Rightarrow> json \<Rightarrow> bool go" where
  "match_operator req actualValue =
     (if fsr_Operator req = FieldSelectorOpIn then
        Ret (\<exists>v\<in>set (elems (fsr_Values req)). actualValue = JStr v)
      else if fsr_Operator req = FieldSelectorOpNotIn then
        Ret (\<not> (\<exists>v\<in>set (elems (fsr_Values req)). actualValue = JStr v))
      else if fsr_Operator req = FieldSelectorOpExists then Ret (actualValue \<noteq> JNull)
      else if fsr_Operator req = FieldSelectorOpDoesNotExist then Ret (actualValue = JNull)
      else Err (ErrorString (''invalid operator '' @ fsr_Operator req @ '' for field selector'')))"

definition Matches :: "jsonpath_lib \<Rightarrow> FieldSelectorRequirement \<Rightarrow> json \<Rightarrow> bool go" where
  "Matches jp req ctx =
     (case EvaluateJsonPath jp (fsr_Key req) ctx of
        Panic p \<Rightarrow> Panic p
      | Err err \<Rightarrow>
          (if \<not> is_JsonPathDoesNotExist err \<or> fsr_Operator req \<noteq> FieldSelectorOpDoesNotExist
           then Err err else match_operator req JNull)
      | Ret actualValue \<Rightarrow> match_operator req actualValue)"

fun matchesAllFields :: "jsonpath_lib \<Rightarrow> json \<Rightarrow> FieldSelectorRequirement list \<Rightarrow> bool go" where
  "matchesAllFields jp source [] = Ret True"
| "matchesAllFields jp source (requirement # rs) =
     (case Matches jp requirement source of
        Panic p \<Rightarrow> Panic p
      | Err err \<Rightarrow>
          (if \<not> is_JsonPathDoesNotExist err then
             Err (WrapError (''unable to match field requirement with key ['' @ fsr_Key requirement
               @ ''] operator ['' @ fsr_Operator requirement @ ''] values [['' @
               strings_Join (elems (fsr_Values requirement)) '' '' @ '']]: '') err)
           else Ret False)
      | Ret match \<Rightarrow> (if \<not> match then Ret False else matchesAllFields jp source rs))"

text \<open>
  The loop of \<^verbatim>\<open>BestSelectorMatchIndices\<close>: \<open>idx\<close> is the index of the first remaining selector,
  \<open>hwm\<close> the high water mark and \<open>best\<close> the indices found so far.
\<close>

fun best_loop ::
  "label_selector \<Rightarrow> jsonpath_lib \<Rightarrow> selectable \<Rightarrow> nat \<Rightarrow> nat \<Rightarrow> nat list \<Rightarrow> Selector list \<Rightarrow> nat list go"
where
  "best_loop lsel jp s idx hwm best [] = Ret best"
| "best_loop lsel jp s idx hwm best (sel # sels) =
     (case lsel (sel_LabelSelector sel) of
        Inl err \<Rightarrow>
          Err (SelectorMatchError
            (WrapError ''selector labels or matchExpressions are not valid: '' err) idx)
      | Inr matches \<Rightarrow>
          (if \<not> matches (sb_Labels s) then best_loop lsel jp s (Suc idx) hwm best sels
           else
             (case matchesAllFields jp (sb_Object s) (elems (sel_MatchFields sel)) of
                Panic p \<Rightarrow> Panic p
              | Err err \<Rightarrow>
                  Err (SelectorMatchError (WrapError ''failed to evaluate selector matchFields: '' err) idx)
              | Ret allFieldsMatched \<Rightarrow>
                  (if \<not> allFieldsMatched then best_loop lsel jp s (Suc idx) hwm best sels
                   else
                     (let matchScore = fmap_len (entries (ls_MatchLabels (sel_LabelSelector sel)))
                            + length (elems (ls_MatchExpressions (sel_LabelSelector sel)))
                            + length (elems (sel_MatchFields sel))
                      in if matchScore = hwm then best_loop lsel jp s (Suc idx) hwm (best @ [idx]) sels
                         else if matchScore > hwm then best_loop lsel jp s (Suc idx) matchScore [idx] sels
                         else best_loop lsel jp s (Suc idx) hwm best sels)))))"

definition BestSelectorMatchIndices ::
  "label_selector \<Rightarrow> jsonpath_lib \<Rightarrow> selectable \<Rightarrow> Selector list \<Rightarrow> nat list go" where
  "BestSelectorMatchIndices lsel jp s selectors = best_loop lsel jp s 0 1 [] selectors"

definition legacySelectorToSelector :: "LegacySelector \<Rightarrow> Selector" where
  "legacySelectorToSelector l =
     \<lparr>sel_LabelSelector = \<lparr>ls_MatchLabels = leg_Selector l,
                            ls_MatchExpressions = leg_SelectorMatchExpressions l\<rparr>,
      sel_MatchFields = leg_SelectorMatchFields l\<rparr>"

record 'o SelectingObject =
  so_GetSelectors :: "'o \<Rightarrow> LegacySelector"
  so_Kind :: "'o \<Rightarrow> string"
  so_GetName :: "'o \<Rightarrow> string"

definition selectingObjectsSelectors :: "'o SelectingObject \<Rightarrow> 'o list \<Rightarrow> Selector list" where
  "selectingObjectsSelectors ob objs = map (\<lambda>x. legacySelectorToSelector (so_GetSelectors ob x)) objs"

text \<open>The index of an error: it always lies in range, so \<^verbatim>\<open>selectingObjects[err.SelectorIndex()]\<close>
  does not panic (\<open>best_loop_error_index\<close> below).\<close>

definition BestSelectorMatch ::
  "label_selector \<Rightarrow> jsonpath_lib \<Rightarrow> 'o SelectingObject \<Rightarrow> selectable \<Rightarrow> 'o list \<Rightarrow> 'o list go" where
  "BestSelectorMatch lsel jp ob s objs =
     (case BestSelectorMatchIndices lsel jp s (selectingObjectsSelectors ob objs) of
        Panic p \<Rightarrow> Panic p
      | Err (SelectorMatchError e i) \<Rightarrow>
          (if i < length objs then
             (let target = objs ! i in
              Err (WrapError (''error handling selectors, selectorMatchExpressions or selectorMatchFields of [''
                @ so_Kind ob target @ ''/'' @ so_GetName ob target @ '']: '') (SelectorMatchError e i)))
           else Panic ''index out of range'')
      | Err e \<Rightarrow> Err e
      | Ret is \<Rightarrow> Ret (map (\<lambda>i. objs ! i) is))"

section \<open>Field requirements\<close>

lemma match_operator_no_panic [simp]: "match_operator req v \<noteq> Panic p"
  by (simp add: match_operator_def)

lemmas operator_defs = FieldSelectorOpIn_def FieldSelectorOpNotIn_def FieldSelectorOpExists_def
  FieldSelectorOpDoesNotExist_def

definition valid_operator :: "FieldSelectorRequirement \<Rightarrow> bool" where
  "valid_operator req \<longleftrightarrow> fsr_Operator req \<in>
     {FieldSelectorOpIn, FieldSelectorOpNotIn, FieldSelectorOpExists, FieldSelectorOpDoesNotExist}"

lemma match_operator_Ret: "valid_operator req \<Longrightarrow> \<exists>b. match_operator req v = Ret b"
  by (auto simp: valid_operator_def match_operator_def)

lemma Matches_Ret_complement:
  assumes "EvaluateJsonPath jp k ctx = Ret v"
  shows "Matches jp \<lparr>fsr_Key = k, fsr_Operator = FieldSelectorOpIn, fsr_Values = vs\<rparr> ctx = Ret b \<longleftrightarrow>
         Matches jp \<lparr>fsr_Key = k, fsr_Operator = FieldSelectorOpNotIn, fsr_Values = vs\<rparr> ctx = Ret (\<not> b)"
  using assms by (auto simp: Matches_def match_operator_def operator_defs)

text \<open>A conjunction of requirements holds exactly when each of them does.\<close>

lemma matchesAllFields_True_iff:
  "matchesAllFields jp ctx reqs = Ret True \<longleftrightarrow> (\<forall>r\<in>set reqs. Matches jp r ctx = Ret True)"
  by (induction reqs) (auto split: go.splits if_splits)

section \<open>Scores\<close>

text \<open>What one selector is worth: no value when it does not match, its number of requirements when it does.\<close>

definition match_score ::
  "label_selector \<Rightarrow> jsonpath_lib \<Rightarrow> selectable \<Rightarrow> Selector \<Rightarrow> nat option go" where
  "match_score lsel jp s sel =
     (case lsel (sel_LabelSelector sel) of
        Inl err \<Rightarrow> Err (WrapError ''selector labels or matchExpressions are not valid: '' err)
      | Inr matches \<Rightarrow>
          (if \<not> matches (sb_Labels s) then Ret None
           else
             (case matchesAllFields jp (sb_Object s) (elems (sel_MatchFields sel)) of
                Panic p \<Rightarrow> Panic p
              | Err err \<Rightarrow> Err (WrapError ''failed to evaluate selector matchFields: '' err)
              | Ret False \<Rightarrow> Ret None
              | Ret True \<Rightarrow>
                  Ret (Some (fmap_len (entries (ls_MatchLabels (sel_LabelSelector sel)))
                    + length (elems (ls_MatchExpressions (sel_LabelSelector sel)))
                    + length (elems (sel_MatchFields sel)))))))"

lemma best_loop_Cons:
  "best_loop lsel jp s idx hwm best (sel # sels) =
     (case match_score lsel jp s sel of
        Panic p \<Rightarrow> Panic p
      | Err e \<Rightarrow> Err (SelectorMatchError e idx)
      | Ret None \<Rightarrow> best_loop lsel jp s (Suc idx) hwm best sels
      | Ret (Some k) \<Rightarrow>
          if k = hwm then best_loop lsel jp s (Suc idx) hwm (best @ [idx]) sels
          else if k > hwm then best_loop lsel jp s (Suc idx) k [idx] sels
          else best_loop lsel jp s (Suc idx) hwm best sels)"
  by (simp add: match_score_def Let_def split: sum.split go.split bool.split)

declare best_loop.simps(2) [simp del]

text \<open>
  The invariant of the loop over a prefix \<open>xs\<close> of the selectors, with scores \<open>f\<close>: \<open>best\<close> lists in ascending order the
  indices whose score is the high water mark, and no score exceeds the mark.
\<close>

definition scores_ok :: "('s \<Rightarrow> nat option go) \<Rightarrow> nat \<Rightarrow> nat list \<Rightarrow> 's list \<Rightarrow> bool" where
  "scores_ok f hwm best xs \<longleftrightarrow>
     1 \<le> hwm \<and>
     best = filter (\<lambda>i. f (xs ! i) = Ret (Some hwm)) [0..<length xs] \<and>
     (\<forall>x\<in>set xs. \<exists>o'. f x = Ret o' \<and> (\<forall>k. o' = Some k \<longrightarrow> k \<le> hwm)) \<and>
     (best = [] \<longrightarrow> hwm = 1)"

lemma scores_ok_Nil: "scores_ok f 1 [] []"
  by (simp add: scores_ok_def)

lemma filter_nth_snoc:
  "filter (\<lambda>i. P ((xs @ [x]) ! i)) [0..<length (xs @ [x])] =
     filter (\<lambda>i. P (xs ! i)) [0..<length xs] @ (if P x then [length xs] else [])"
proof -
  have "filter (\<lambda>i. P ((xs @ [x]) ! i)) [0..<length xs] = filter (\<lambda>i. P (xs ! i)) [0..<length xs]"
    by (rule filter_cong) (simp_all add: nth_append)
  then show ?thesis by simp
qed

lemma scores_okI:
  assumes "1 \<le> hwm" "filter (\<lambda>i. f (xs ! i) = Ret (Some hwm)) [0..<length xs] = best"
    and "\<And>x. x \<in> set xs \<Longrightarrow> \<exists>o'. f x = Ret o' \<and> (\<forall>k. o' = Some k \<longrightarrow> k \<le> hwm)"
    and "best = [] \<Longrightarrow> hwm = 1"
  shows "scores_ok f hwm best xs"
  using assms unfolding scores_ok_def by blast

lemma scores_okD:
  assumes "scores_ok f hwm best xs"
  shows "1 \<le> hwm" "filter (\<lambda>i. f (xs ! i) = Ret (Some hwm)) [0..<length xs] = best"
    and "x \<in> set xs \<Longrightarrow> \<exists>o'. f x = Ret o' \<and> (\<forall>k. o' = Some k \<longrightarrow> k \<le> hwm)"
    and "best = [] \<Longrightarrow> hwm = 1"
  using assms unfolding scores_ok_def by blast+

lemma scores_ok_bound_snoc:
  assumes "scores_ok f hwm best xs" "f x = Ret o'" "\<And>k. o' = Some k \<Longrightarrow> k \<le> m" "hwm \<le> m" "y \<in> set (xs @ [x])"
  shows "\<exists>o'. f y = Ret o' \<and> (\<forall>k. o' = Some k \<longrightarrow> k \<le> m)"
proof (cases "y \<in> set xs")
  case True
  then obtain o'' where "f y = Ret o''" "\<forall>k. o'' = Some k \<longrightarrow> k \<le> hwm"
    using scores_okD(3) [OF assms(1)] by blast
  then show ?thesis using assms(4) by (intro exI [of _ o'']) auto
next
  case False
  then have "y = x" using assms(5) by simp
  then show ?thesis using assms(2,3) by simp
qed

lemma scores_ok_snoc_lower:
  assumes "scores_ok f hwm best xs" "f x = Ret o'" "\<And>k. o' = Some k \<Longrightarrow> k < hwm"
  shows "scores_ok f hwm best (xs @ [x])"
proof (rule scores_okI)
  have "o' \<noteq> Some hwm" using assms(3) by blast
  then show "filter (\<lambda>i. f ((xs @ [x]) ! i) = Ret (Some hwm)) [0..<length (xs @ [x])] = best"
    unfolding filter_nth_snoc [where P = "\<lambda>y. f y = Ret (Some hwm)"]
    by (simp add: scores_okD(2) [OF assms(1)] assms(2))
  show "\<exists>o'. f y = Ret o' \<and> (\<forall>k. o' = Some k \<longrightarrow> k \<le> hwm)" if "y \<in> set (xs @ [x])" for y
    by (rule scores_ok_bound_snoc [OF assms(1,2) _ _ that]) (simp_all add: assms(3) less_imp_le)
qed (rule scores_okD(1,4) [OF assms(1)], assumption?)+

lemma scores_ok_snoc_equal:
  assumes "scores_ok f hwm best xs" "f x = Ret (Some hwm)"
  shows "scores_ok f hwm (best @ [length xs]) (xs @ [x])"
proof (rule scores_okI)
  show "filter (\<lambda>i. f ((xs @ [x]) ! i) = Ret (Some hwm)) [0..<length (xs @ [x])] = best @ [length xs]"
    unfolding filter_nth_snoc [where P = "\<lambda>y. f y = Ret (Some hwm)"]
    by (simp add: scores_okD(2) [OF assms(1)] assms(2))
qed (use scores_okD(1) [OF assms(1)] scores_ok_bound_snoc [OF assms, of hwm] in auto)

lemma scores_ok_snoc_higher:
  assumes "scores_ok f hwm best xs" "f x = Ret (Some k)" "hwm < k"
  shows "scores_ok f k [length xs] (xs @ [x])"
proof (rule scores_okI)
  have "f (xs ! i) \<noteq> Ret (Some k)" if "i < length xs" for i
    using scores_okD(3) [OF assms(1) nth_mem [OF that]] assms(3) by auto
  then have "filter (\<lambda>i. f (xs ! i) = Ret (Some k)) [0..<length xs] = []"
    by (simp add: filter_empty_conv)
  then show "filter (\<lambda>i. f ((xs @ [x]) ! i) = Ret (Some k)) [0..<length (xs @ [x])] = [length xs]"
    unfolding filter_nth_snoc [where P = "\<lambda>y. f y = Ret (Some k)"] by (simp add: assms(2))
qed (use scores_okD(1) [OF assms(1)] assms(3) scores_ok_bound_snoc [OF assms(1,2), of k] in auto)

text \<open>The loop returns the indices of the final invariant.\<close>

lemma best_loop_Ret:
  assumes "scores_ok (match_score lsel jp s) hwm best xs" "best_loop lsel jp s (length xs) hwm best ys = Ret is"
  shows "\<exists>m. scores_ok (match_score lsel jp s) m is (xs @ ys)"
  using assms
proof (induction ys arbitrary: xs hwm best)
  case (Cons y ys)
  have step: "\<exists>m. scores_ok (match_score lsel jp s) m is (xs @ y # ys)"
    if "scores_ok (match_score lsel jp s) h b (xs @ [y])" "best_loop lsel jp s (Suc (length xs)) h b ys = Ret is" for h b
    using Cons.IH [of h b "xs @ [y]"] that by simp
  obtain o' where o': "match_score lsel jp s y = Ret o'"
    using Cons.prems(2) by (cases "match_score lsel jp s y") (auto simp: best_loop_Cons)
  show ?case
  proof (cases o')
    case None
    then show ?thesis
      using Cons.prems o' by (intro step [of hwm best] scores_ok_snoc_lower) (auto simp: best_loop_Cons)
  next
    case (Some k)
    consider "k = hwm" | "k > hwm" | "k < hwm" by linarith
    then show ?thesis
    proof cases
      case 1
      then show ?thesis using Cons.prems o' Some
        by (intro step [of hwm "best @ [length xs]"] scores_ok_snoc_equal) (auto simp: best_loop_Cons)
    next
      case 2
      then show ?thesis using Cons.prems o' Some
        by (intro step [of k "[length xs]"] scores_ok_snoc_higher [of _ hwm best])
          (auto simp: best_loop_Cons)
    next
      case 3
      then show ?thesis using Cons.prems o' Some
        by (intro step [of hwm best] scores_ok_snoc_lower) (auto simp: best_loop_Cons)
    qed
  qed
qed auto

text \<open>An error is that of the first selector in error; before it every selector has a score.\<close>

lemma best_loop_Err_iff:
  "best_loop lsel jp s idx hwm best ys = Err err \<longleftrightarrow>
     (\<exists>i<length ys. \<exists>e. err = SelectorMatchError e (idx + i) \<and> match_score lsel jp s (ys ! i) = Err e \<and>
        (\<forall>j<i. \<exists>o'. match_score lsel jp s (ys ! j) = Ret o'))" (is "?L idx hwm best ys \<longleftrightarrow> ?R idx ys")
proof (induction ys arbitrary: idx hwm best)
  case (Cons y ys)
  have shift: "?R idx (y # ys) \<longleftrightarrow> ?R (Suc idx) ys" if "match_score lsel jp s y = Ret o'" for o'
    using that by (simp add: Ex_less_Suc2 All_less_Suc2)
  show ?case
  proof (cases "match_score lsel jp s y")
    case (Ret o')
    then show ?thesis
      unfolding shift [OF Ret] by (cases o') (simp_all add: best_loop_Cons Cons.IH)
  next
    case (Err e)
    then show ?thesis by (auto simp: best_loop_Cons Ex_less_Suc2 All_less_Suc2)
  next
    case (Panic p)
    then show ?thesis by (auto simp: best_loop_Cons Ex_less_Suc2 All_less_Suc2)
  qed
qed simp

lemma best_loop_total:
  assumes "\<And>x. x \<in> set ys \<Longrightarrow> \<exists>o'. match_score lsel jp s x = Ret o'"
  shows "\<exists>is. best_loop lsel jp s idx hwm best ys = Ret is"
  using assms
proof (induction ys arbitrary: idx hwm best)
  case (Cons y ys)
  obtain o' where "match_score lsel jp s y = Ret o'" using Cons.prems by auto
  then show ?case
    using Cons.IH Cons.prems by (cases o') (auto simp: best_loop_Cons)
qed auto

text \<open>The final mark is the highest score of at least one, so the invariant determines the indices.\<close>

lemma scores_ok_index_iff:
  assumes "scores_ok f m is xs"
  shows "i \<in> set is \<longleftrightarrow> i < length xs \<and>
     (\<exists>k\<ge>1. f (xs ! i) = Ret (Some k) \<and> (\<forall>j<length xs. \<forall>k'. f (xs ! j) = Ret (Some k') \<longrightarrow> k' \<le> k))"
proof -
  have mem: "i \<in> set is \<longleftrightarrow> i < length xs \<and> f (xs ! i) = Ret (Some m)" for i
    using scores_okD(2) [OF assms] by auto
  have max: "k' \<le> m" if "j < length xs" "f (xs ! j) = Ret (Some k')" for j k'
    using scores_okD(3) [OF assms nth_mem [OF that(1)]] that(2) by auto
  have "k = m" if i: "i < length xs" "1 \<le> k" "f (xs ! i) = Ret (Some k)"
      "\<forall>j<length xs. \<forall>k'. f (xs ! j) = Ret (Some k') \<longrightarrow> k' \<le> k" for k
  proof (cases "is = []")
    case True
    then show ?thesis using scores_okD(4) [OF assms True] max [OF i(1,3)] i(2) by simp
  next
    case False
    then obtain i0 where "i0 \<in> set is" by (cases "is") auto
    then have "m \<le> k" using i(4) mem by blast
    then show ?thesis using max [OF i(1,3)] by simp
  qed
  then show ?thesis using mem max scores_okD(1) [OF assms] by blast
qed

lemma BestSelectorMatchIndices_ok:
  assumes "BestSelectorMatchIndices lsel jp s sels = Ret is"
  obtains m where "scores_ok (match_score lsel jp s) m is sels"
  using assms best_loop_Ret [OF scores_ok_Nil, of lsel jp s sels "is"]
  by (auto simp: BestSelectorMatchIndices_def)

lemma BestSelectorMatchIndices_range:
  "BestSelectorMatchIndices lsel jp s sels = Ret is \<Longrightarrow> i \<in> set is \<Longrightarrow> i < length sels"
  by (metis BestSelectorMatchIndices_ok scores_ok_index_iff)

lemma BestSelectorMatchIndices_Err_iff:
  "BestSelectorMatchIndices lsel jp s sels = Err err \<longleftrightarrow>
     (\<exists>i<length sels. \<exists>e. err = SelectorMatchError e i \<and> match_score lsel jp s (sels ! i) = Err e \<and>
        (\<forall>j<i. \<exists>o'. match_score lsel jp s (sels ! j) = Ret o'))"
  unfolding BestSelectorMatchIndices_def best_loop_Err_iff by simp

text \<open>A panic can only come from the JSONPath engine.\<close>

lemma matchesAllFields_no_panic:
  assumes "\<And>k ctx p. EvaluateJsonPath jp k ctx \<noteq> Panic p"
  shows "matchesAllFields jp ctx rs \<noteq> Panic p"
  using assms by (induction rs) (auto simp: Matches_def split: go.splits if_splits)

lemma best_loop_no_panic:
  assumes "\<And>k ctx p. EvaluateJsonPath jp k ctx \<noteq> Panic p"
  shows "best_loop lsel jp s idx hwm best sels \<noteq> Panic p"
  using matchesAllFields_no_panic [OF assms]
  by (induction sels arbitrary: idx hwm best)
    (auto simp: best_loop_Cons match_score_def split: go.splits sum.splits option.splits bool.splits if_splits)

lemma BestSelectorMatch_no_panic:
  assumes "\<And>k ctx p. EvaluateJsonPath jp k ctx \<noteq> Panic p"
  shows "BestSelectorMatch lsel jp ob s objs \<noteq> Panic p"
proof (cases "BestSelectorMatchIndices lsel jp s (selectingObjectsSelectors ob objs)")
  case (Err err)
  then obtain i e where "i < length objs" "err = SelectorMatchError e i"
    by (auto simp: BestSelectorMatchIndices_Err_iff selectingObjectsSelectors_def)
  with Err show ?thesis by (simp add: BestSelectorMatch_def Let_def)
next
  case (Panic q)
  then show ?thesis
    using best_loop_no_panic [OF assms] by (simp add: BestSelectorMatchIndices_def)
qed (simp add: BestSelectorMatch_def)

section \<open>Properties\<close>

text \<open>
  C2: when \<^verbatim>\<open>BestSelectorMatchIndices\<close> returns without an error, it returns in strictly ascending order
  exactly the indices of those selectors that match the object and whose number of
  requirements (at least one) is the highest among all matching selectors.
\<close>

theorem best_match_indices:
  assumes "BestSelectorMatchIndices lsel jp s sels = Ret is"
  shows "sorted is \<and> distinct is \<and>
    (\<forall>i. i \<in> set is \<longleftrightarrow> i < length sels \<and>
       (\<exists>k\<ge>1. match_score lsel jp s (sels ! i) = Ret (Some k) \<and>
          (\<forall>j<length sels. \<forall>k'. match_score lsel jp s (sels ! j) = Ret (Some k') \<longrightarrow> k' \<le> k)))"
proof -
  obtain m where m: "scores_ok (match_score lsel jp s) m is sels"
    using BestSelectorMatchIndices_ok [OF assms] .
  have "sorted is" "distinct is"
    using scores_okD(2) [OF m] by (metis sorted_filter sorted_upt map_ident, metis distinct_filter distinct_upt)
  then show ?thesis using scores_ok_index_iff [OF m] by blast
qed

theorem best_match_indices_witness:
  "BestSelectorMatchIndices (\<lambda>l. Inr (\<lambda>ls. \<forall>k\<in>set (fmap_keys (entries (ls_MatchLabels l))).
        fmlookup (entries (ls_MatchLabels l)) k = fmlookup ls k))
     \<lparr>jp_Parse = \<lambda>e. None, jp_FindResults = \<lambda>e v. Inr [[v]], jp_PrintResults = \<lambda>r. Inr '''',
      jp_ShowResults = \<lambda>r. '''', jp_Unmarshal = \<lambda>b. Inr [JNull]\<rparr>
     \<lparr>sb_Labels = fmap_of_list [(''a'', ''1''), (''b'', ''2'')], sb_Object = JNull\<rparr>
     [legacySelectorToSelector \<lparr>leg_Selector = Some (fmap_of_list [(''a'', ''1'')]),
        leg_SelectorMatchExpressions = None, leg_SelectorMatchFields = None\<rparr>,
      legacySelectorToSelector \<lparr>leg_Selector = Some (fmap_of_list [(''a'', ''1''), (''b'', ''2'')]),
        leg_SelectorMatchExpressions = None, leg_SelectorMatchFields = None\<rparr>] = Ret [1] \<and> sorted [1::nat]"
  (is "?f = _ \<and> _")
proof -
  have "?f = Ret [1]"
    by (simp add: BestSelectorMatchIndices_def best_loop.simps legacySelectorToSelector_def fmap_keys_def
        fmap_len_def Let_def fcard_finsert_if)
  then show ?thesis using best_match_indices [of _ _ _ _ "[1]"] by blast
qed

text \<open>
  \<^verbatim>\<open>BestSelectorMatchIndices\<close> fails exactly when some selector cannot be evaluated, and the error carries
  the index of the first such selector, which is a valid index into the selectors.
\<close>

theorem best_match_error_iff:
  "BestSelectorMatchIndices lsel jp s sels = Err err \<longleftrightarrow>
     (\<exists>i<length sels. \<exists>e. err = SelectorMatchError e i \<and> match_score lsel jp s (sels ! i) = Err e \<and>
        (\<forall>j<i. \<exists>o'. match_score lsel jp s (sels ! j) = Ret o'))"
  by (rule BestSelectorMatchIndices_Err_iff)

theorem best_match_error_iff_witness:
  "BestSelectorMatchIndices (\<lambda>l. Inl (ErrorString ''bad''))
     \<lparr>jp_Parse = \<lambda>e. None, jp_FindResults = \<lambda>e v. Inr [[v]], jp_PrintResults = \<lambda>r. Inr '''',
      jp_ShowResults = \<lambda>r. '''', jp_Unmarshal = \<lambda>b. Inr [JNull]\<rparr>
     \<lparr>sb_Labels = fmempty, sb_Object = JNull\<rparr>
     [legacySelectorToSelector \<lparr>leg_Selector = Some (fmap_of_list [(''a'', ''1'')]),
        leg_SelectorMatchExpressions = None, leg_SelectorMatchFields = None\<rparr>]
   = Err (SelectorMatchError (WrapError ''selector labels or matchExpressions are not valid: '' (ErrorString ''bad'')) 0)"
  unfolding best_match_error_iff
  by (intro exI [of _ 0]) (simp add: match_score_def legacySelectorToSelector_def)

text \<open>
  \<^verbatim>\<open>In\<close> and \<^verbatim>\<open>NotIn\<close> are complementary on a key that has a value, \<^verbatim>\<open>Exists\<close> and \<^verbatim>\<open>DoesNotExist\<close> are
  complementary on every key that can be read or is missing, and a missing key satisfies only \<^verbatim>\<open>DoesNotExist\<close>
  among the four operators when a whole list of requirements is checked.
\<close>

theorem field_operator_laws:
  "(\<forall>v b. EvaluateJsonPath jp k ctx = Ret v \<longrightarrow>
      Matches jp \<lparr>fsr_Key = k, fsr_Operator = FieldSelectorOpIn, fsr_Values = vs\<rparr> ctx = Ret b \<longrightarrow>
      Matches jp \<lparr>fsr_Key = k, fsr_Operator = FieldSelectorOpNotIn, fsr_Values = vs\<rparr> ctx = Ret (\<not> b)) \<and>
   (\<forall>p. EvaluateJsonPath jp k ctx = Err (JsonPathDoesNotExistError p) \<longrightarrow>
      valid_operator \<lparr>fsr_Key = k, fsr_Operator = opr, fsr_Values = vs\<rparr> \<longrightarrow>
      matchesAllFields jp ctx [\<lparr>fsr_Key = k, fsr_Operator = opr, fsr_Values = vs\<rparr>] =
        Ret (opr = FieldSelectorOpDoesNotExist)) \<and>
   (\<forall>v. EvaluateJsonPath jp k ctx = Ret v \<longrightarrow>
      Matches jp \<lparr>fsr_Key = k, fsr_Operator = FieldSelectorOpExists, fsr_Values = vs\<rparr> ctx = Ret (v \<noteq> JNull) \<and>
      Matches jp \<lparr>fsr_Key = k, fsr_Operator = FieldSelectorOpDoesNotExist, fsr_Values = vs\<rparr> ctx = Ret (v = JNull))"
  by (auto simp: Matches_def match_operator_def operator_defs valid_operator_def)

theorem field_operator_laws_witness:
  "Matches \<lparr>jp_Parse = \<lambda>e. None, jp_FindResults = \<lambda>e v. Inr [[v]], jp_PrintResults = \<lambda>r. Inr ''x'',
      jp_ShowResults = \<lambda>r. '''', jp_Unmarshal = \<lambda>b. Inr [JStr b]\<rparr>
     \<lparr>fsr_Key = ''k'', fsr_Operator = FieldSelectorOpNotIn, fsr_Values = Some [''y'']\<rparr> JNull = Ret True"
proof -
  let ?jp = "\<lparr>jp_Parse = \<lambda>e. None, jp_FindResults = \<lambda>e v. Inr [[v]], jp_PrintResults = \<lambda>r. Inr ''x'',
      jp_ShowResults = \<lambda>r. '''', jp_Unmarshal = \<lambda>b. Inr [JStr b]\<rparr>"
  have "EvaluateJsonPath ?jp ''k'' JNull = Ret (JStr ''x'')"
    by (simp add: EvaluateJsonPath_def SinglePathEvaluate_def)
  moreover from this have "Matches ?jp \<lparr>fsr_Key = ''k'', fsr_Operator = FieldSelectorOpIn,
      fsr_Values = Some [''y'']\<rparr> JNull = Ret False"
    by (simp add: Matches_def match_operator_def)
  ultimately show ?thesis
    using field_operator_laws [of ?jp "''k''" JNull "Some [''y'']"] by auto
qed

end
