(* ===== verification/Validation.thy ===== *)
theory Validation
  imports Selector_Matching
begin

text \<open>
  The admission checks of \<^verbatim>\<open>pkg/apis/v1alpha1\<close>: \<^verbatim>\<open>common_validations.go\<close> and the webhooks of supply
  chains, deliveries, templates and run templates.  An error is a value of \<^typ>\<open>gerror option\<close>, where
  \<^const>\<open>None\<close> is Go's nil.  \<^verbatim>\<open>metav1.LabelSelectorAsSelector\<close> is the parameter \<open>lsel\<close>, the JSONPath
  parser the field \<^const>\<open>jp_Parse\<close>, and the JSON decoder the record \<open>json_codec\<close>.  The maps of valid paths have the value
  true for every key, so they are lists of keys here.

  The results say what the checks establish: acceptance is equivalent to a declarative
  well-formedness predicate, and an accepted blueprint satisfies what the realizer relies on.
\<close>

record json_codec =
  jc_Object :: "raw \<Rightarrow> gerror + unstructured"
  jc_Value :: "raw \<Rightarrow> gerror + json"
  jc_Show :: "json \<Rightarrow> string"

text \<open>A sequence of checks with early return.\<close>

definition checks :: "'e option list \<Rightarrow> 'e option" where
  "checks es = first_error id es"

lemma checks_Nil [simp]: "checks [] = None"
  by (simp add: checks_def)

lemma checks_Cons [simp]: "checks (e # es) = (case e of Some x \<Rightarrow> Some x | None \<Rightarrow> checks es)"
  by (cases e) (simp_all add: checks_def)

lemma checks_None_iff: "checks es = None \<longleftrightarrow> (\<forall>e\<in>set es. e = None)"
  by (simp add: checks_def)

definition check :: "bool \<Rightarrow> gerror \<Rightarrow> gerror option" where
  "check bad e = (if bad then Some e else None)"

lemma check_None [simp]: "check bad e = None \<longleftrightarrow> \<not> bad"
  by (simp add: check_def)

text \<open>\<^verbatim>\<open>if err := f(); err != nil { return fmt.Errorf(t + "%w", err) }\<close>.\<close>

definition wrap_error :: "string \<Rightarrow> gerror option \<Rightarrow> gerror option" where
  "wrap_error t = map_option (WrapError t)"

lemma wrap_error_None [simp]: "wrap_error t e = None \<longleftrightarrow> e = None"
  by (simp add: wrap_error_def)

section \<open>Selectors and options\<close>

definition validPath :: "string \<Rightarrow> string list \<Rightarrow> string list \<Rightarrow> bool" where
  "validPath path validPaths validPrefixes \<longleftrightarrow>
     (if path \<in> set validPaths then True else (\<exists>prefix\<in>set validPrefixes. hasPrefix path prefix))"

definition validJsonpath :: "jsonpath_lib \<Rightarrow> string \<Rightarrow> gerror option" where
  "validJsonpath jp path = jp_Parse jp path"

definition validate_requirement ::
  "jsonpath_lib \<Rightarrow> string list \<Rightarrow> string list \<Rightarrow> FieldSelectorRequirement \<Rightarrow> gerror option" where
  "validate_requirement jp validPaths validPrefixes req =
     checks
       [if fsr_Operator req \<in> {FieldSelectorOpExists, FieldSelectorOpDoesNotExist} then
          check (length (elems (fsr_Values req)) \<noteq> 0)
            (ErrorString (''cannot specify values with operator ['' @ fsr_Operator req @ '']''))
        else if fsr_Operator req \<in> {FieldSelectorOpIn, FieldSelectorOpNotIn} then
          check (length (elems (fsr_Values req)) = 0)
            (ErrorString (''must specify values with operator ['' @ fsr_Operator req @ '']''))
        else Some (ErrorString (''operator ['' @ fsr_Operator req @ ''] is invalid'')),
        check (\<not> validPath (fsr_Key req) validPaths validPrefixes)
          (ErrorString (''requirement key ['' @ fsr_Key req @ ''] is not a valid path'')),
        wrap_error (''invalid jsonpath for key ['' @ fsr_Key req @ '']: '') (validJsonpath jp (fsr_Key req))]"

definition validateFieldSelectorRequirements ::
  "jsonpath_lib \<Rightarrow> FieldSelectorRequirement list \<Rightarrow> string list \<Rightarrow> string list \<Rightarrow> gerror option" where
  "validateFieldSelectorRequirements jp reqs validPaths validPrefixes =
     first_error (validate_requirement jp validPaths validPrefixes) reqs"

text \<open>The error of \<^verbatim>\<open>metav1.LabelSelectorAsSelector\<close>, its selector ignored.\<close>

definition selector_error :: "label_selector \<Rightarrow> LabelSelector \<Rightarrow> gerror option" where
  "selector_error lsel l = (case lsel l of Inl e \<Rightarrow> Some e | Inr _ \<Rightarrow> None)"

definition validateSelector ::
  "label_selector \<Rightarrow> jsonpath_lib \<Rightarrow> Selector \<Rightarrow> string list \<Rightarrow> string list \<Rightarrow> gerror option" where
  "validateSelector lsel jp selector validPaths validPrefixes =
     (let ml = ls_MatchLabels (sel_LabelSelector selector);
          me = ls_MatchExpressions (sel_LabelSelector selector);
          mf = elems (sel_MatchFields selector)
      in checks
        [check (fmap_len (entries ml) = 0 \<and> length (elems me) = 0 \<and> length mf = 0)
           (ErrorString ''at least one of matchLabels, matchExpressions or MatchFields must be specified''),
         wrap_error ''matchLabels are not valid: ''
           (selector_error lsel \<lparr>ls_MatchLabels = ml, ls_MatchExpressions = None\<rparr>),
         wrap_error ''matchExpressions are not valid: ''
           (selector_error lsel \<lparr>ls_MatchLabels = None, ls_MatchExpressions = me\<rparr>),
         if length mf \<noteq> 0 then validateFieldSelectorRequirements jp mf validPaths validPrefixes else None])"

definition validateLegacySelector ::
  "label_selector \<Rightarrow> jsonpath_lib \<Rightarrow> LegacySelector \<Rightarrow> string list \<Rightarrow> string list \<Rightarrow> gerror option" where
  "validateLegacySelector lsel jp selectors validPaths validPrefixes =
     checks
       [wrap_error ''selector is not valid: ''
          (selector_error lsel \<lparr>ls_MatchLabels = leg_Selector selectors, ls_MatchExpressions = None\<rparr>),
        wrap_error ''selectorMatchExpressions are not valid: ''
          (selector_error lsel \<lparr>ls_MatchLabels = None, ls_MatchExpressions = leg_SelectorMatchExpressions selectors\<rparr>),
        if length (elems (leg_SelectorMatchFields selectors)) \<noteq> 0
        then validateFieldSelectorRequirements jp (elems (leg_SelectorMatchFields selectors)) validPaths validPrefixes
        else None]"

definition option_label :: "TemplateOption \<Rightarrow> string" where
  "option_label opt = (if opt_Name opt = '''' then ''passThrough'' else opt_Name opt)"

definition validateResourceOptions ::
  "label_selector \<Rightarrow> jsonpath_lib \<Rightarrow> TemplateOption list \<Rightarrow> string list \<Rightarrow> string list \<Rightarrow> gerror option" where
  "validateResourceOptions lsel jp options validPaths validPrefixes =
     (let passThroughCount = length (filter (\<lambda>opt. opt_PassThrough opt \<noteq> '''') options)
      in checks
        [check (passThroughCount > 1)
           (ErrorString (''cannot have more than one pass through option, found '' @ show_nat passThroughCount)),
         first_error (\<lambda>opt. checks
           [check (opt_Name opt \<noteq> '''' \<and> opt_PassThrough opt \<noteq> '''')
              (ErrorString ''exactly one of option.Name or option.PassThrough must be specified, found both''),
            check (opt_Name opt = '''' \<and> opt_PassThrough opt = '''')
              (ErrorString ''exactly one of option.Name or option.PassThrough must be specified, found neither''),
            wrap_error (''error validating option ['' @ option_label opt @ ''] selector: '')
              (validateSelector lsel jp (opt_Selector opt) validPaths validPrefixes)]) options,
         first_error (\<lambda>option1. first_error (\<lambda>option2.
             check (opt_Name option1 \<noteq> opt_Name option2 \<and> opt_Selector option1 = opt_Selector option2)
               (ErrorString (''duplicate selector found in options ['' @ option_label option1 @ '', ''
                 @ option_label option2 @ '']''))) options) options])"

section \<open>Parameters and templates\<close>

definition BlueprintParam_validate :: "BlueprintParam \<Rightarrow> gerror option" where
  "BlueprintParam_validate p =
     check (bothValuesSet p \<or> neitherValueSet p)
       (ErrorString (''param ['' @ bp_Name p @ ''] is invalid: must set exactly one of value and default''))"

definition MultiMatchHealthRule_validate :: "MultiMatchHealthRule \<Rightarrow> gerror option" where
  "MultiMatchHealthRule_validate m =
     checks
       [check (hmr_MatchConditions (mm_Unhealthy m) = [] \<and> hmr_MatchFields (mm_Unhealthy m) = [])
          (ErrorString ''invalid multi match health rule: unhealthy rule has no matchFields or matchConditions''),
        check (hmr_MatchConditions (mm_Healthy m) = [] \<and> hmr_MatchFields (mm_Healthy m) = [])
          (ErrorString ''invalid multi match health rule: healthy rule has no matchFields or matchConditions'')]"

definition HealthRule_validate :: "HealthRule \<Rightarrow> gerror option" where
  "HealthRule_validate r =
     (let nRules = (if hr_AlwaysHealthy r \<noteq> None then 1 else 0)
                 + (if hr_SingleConditionType r \<noteq> '''' then 1 else 0)
                 + (if hr_MultiMatch r \<noteq> None then 1 else (0::nat))
      in checks
        [check (nRules = 0) (ErrorString
           ''invalid health rule: must specify one of alwaysHealthy, singleConditionType or multiMatch, found neither''),
         check (nRules > 1) (ErrorString
           ''invalid health rule: must specify one of alwaysHealthy, singleConditionType or multiMatch, found multiple''),
         case hr_MultiMatch r of Some m \<Rightarrow> MultiMatchHealthRule_validate m | None \<Rightarrow> None])"

text \<open>\<^verbatim>\<open>metav1.NamespaceNone\<close> is the empty string.  The check returns early when there is a health rule.\<close>

definition TemplateSpec_validate :: "json_codec \<Rightarrow> TemplateSpec \<Rightarrow> gerror option" where
  "TemplateSpec_validate jc t =
     checks
       [check (ts_Template t = None \<and> ts_Ytt t = '''')
          (ErrorString ''invalid template: must specify one of template or ytt, found neither''),
        check (ts_Template t \<noteq> None \<and> ts_Ytt t \<noteq> '''')
          (ErrorString ''invalid template: must specify one of template or ytt, found both''),
        case ts_Template t of
          None \<Rightarrow> None
        | Some raw \<Rightarrow>
            (case jc_Object jc raw of
               Inl err \<Rightarrow> Some (WrapError ''invalid template: failed to parse object: '' err)
             | Inr obj \<Rightarrow> check (u_Namespace obj \<noteq> '''')
                 (ErrorString ''invalid template: template should not set metadata.namespace on the child object'')),
        case ts_HealthRule t of
          Some r \<Rightarrow> HealthRule_validate r
        | None \<Rightarrow> check (ts_RetentionPolicy t \<noteq> None \<and> ts_Lifecycle t = ''mutable'')
            (ErrorString ''invalid template: if lifecycle is mutable, no retention policy may be set'')]"

definition bothConditionsSet :: "DeploymentSpec \<Rightarrow> bool" where
  "bothConditionsSet s \<longleftrightarrow> dep_ObservedMatches s \<noteq> None \<and> dep_ObservedCompletion s \<noteq> None"

definition neitherConditionSet :: "DeploymentSpec \<Rightarrow> bool" where
  "neitherConditionSet s \<longleftrightarrow> dep_ObservedMatches s = None \<and> dep_ObservedCompletion s = None"

definition ClusterDeploymentTemplate_validate :: "json_codec \<Rightarrow> DeploymentSpec \<Rightarrow> gerror option" where
  "ClusterDeploymentTemplate_validate jc s =
     checks
       [TemplateSpec_validate jc (dep_TemplateSpec s),
        check (bothConditionsSet s \<or> neitherConditionSet s)
          (ErrorString ''invalid spec: must set exactly one of spec.ObservedMatches and spec.ObservedCompletion'')]"

text \<open>\<^verbatim>\<open>ValidateCreate\<close> and \<^verbatim>\<open>ValidateUpdate\<close> of the five kinds of template (they do the same).\<close>

fun ValidateTemplate :: "json_codec \<Rightarrow> api_template \<Rightarrow> gerror option" where
  "ValidateTemplate jc (ClusterSourceTemplate n s) = TemplateSpec_validate jc (src_TemplateSpec s)"
| "ValidateTemplate jc (ClusterImageTemplate n s) = TemplateSpec_validate jc (img_TemplateSpec s)"
| "ValidateTemplate jc (ClusterConfigTemplate n s) = TemplateSpec_validate jc (cfg_TemplateSpec s)"
| "ValidateTemplate jc (ClusterDeploymentTemplate n s) = ClusterDeploymentTemplate_validate jc s"
| "ValidateTemplate jc (ClusterTemplate n s) = TemplateSpec_validate jc s"

definition RunTemplateSpec_validate :: "json_codec \<Rightarrow> ClusterRunTemplate \<Rightarrow> gerror option" where
  "RunTemplateSpec_validate jc t =
     (case jc_Object jc (crt_Template t) of
        Inl err \<Rightarrow> Some (WrapError ''invalid template: failed to parse object: '' err)
      | Inr obj \<Rightarrow>
          (if u_Namespace obj \<noteq> '''' then Some (ErrorString
             ''invalid template: template should not set metadata.namespace on the child object'')
           else (case jc_Value jc (crt_Template t) of
              Inl err \<Rightarrow> Some (WrapError ''invalid template: failed to unmarshal: '' err)
            | Inr (JObj m) \<Rightarrow>
                check (fmlookup m ''spec'' = None)
                  (ErrorString (''invalid template: object must have a spec; templated object: '' @ jc_Show jc (JObj m)))
            | Inr v \<Rightarrow>
                Some (ErrorString (''invalid template: not a map[string]interface{}; templated object: ''
                  @ jc_Show jc v)))))"

section \<open>Supply chains\<close>

text \<open>\<^verbatim>\<open>names[x]\<close> in a loop: the first element that was seen before.\<close>

fun first_duplicate :: "'a list \<Rightarrow> 'a list \<Rightarrow> 'a option" where
  "first_duplicate seen [] = None"
| "first_duplicate seen (x # xs) = (if x \<in> set seen then Some x else first_duplicate (x # seen) xs)"

definition validate_option_names :: "string \<Rightarrow> TemplateOption list \<Rightarrow> gerror option" where
  "validate_option_names resourceName options =
     map_option (\<lambda>n. ErrorString (''duplicate template name ['' @ n @ ''] found in options for resource [''
       @ resourceName @ '']'')) (first_duplicate [] (map opt_Name options))"

definition isPassThroughInputFound :: "ResourceReference list \<Rightarrow> string \<Rightarrow> bool" where
  "isPassThroughInputFound refs passThrough \<longleftrightarrow> (\<exists>ref\<in>set refs. ref_Name ref = passThrough)"

definition no_selector :: "LegacySelector \<Rightarrow> bool" where
  "no_selector l \<longleftrightarrow> fmap_len (entries (leg_Selector l)) = 0 \<and>
     length (elems (leg_SelectorMatchExpressions l)) = 0 \<and> length (elems (leg_SelectorMatchFields l)) = 0"

definition validate_templateRef ::
  "label_selector \<Rightarrow> jsonpath_lib \<Rightarrow> BlueprintTemplateReference \<Rightarrow> string list \<Rightarrow> string list \<Rightarrow> gerror option" where
  "validate_templateRef lsel jp ref validPaths validPrefixes =
     checks
       [check (btr_Name ref \<noteq> '''' \<and> length (btr_Options ref) > 0) (ErrorString
          ''exactly one of templateRef.Name or templateRef.Options must be specified, found both''),
        if btr_Name ref = '''' \<and> length (btr_Options ref) < 2 then
          (if length (btr_Options ref) = 1 then
             Some (ErrorString ''templateRef.Options must have more than one option'')
           else Some (ErrorString
             ''exactly one of templateRef.Name or templateRef.Options must be specified, found neither''))
        else None,
        validateResourceOptions lsel jp (btr_Options ref) validPaths validPrefixes]"

definition validateSupplyChainTemplateRef ::
  "label_selector \<Rightarrow> jsonpath_lib \<Rightarrow> BlueprintTemplateReference \<Rightarrow> gerror option" where
  "validateSupplyChainTemplateRef lsel jp ref =
     validate_templateRef lsel jp ref ValidWorkloadPaths ValidWorkloadPrefixes"

definition getResourceByName :: "ClusterSupplyChain \<Rightarrow> string \<Rightarrow> SupplyChainResource option" where
  "getResourceByName c name = find (\<lambda>r. scr_Name r = name) (scs_Resources (sc_Spec c))"

definition validateResourceRefs ::
  "ClusterSupplyChain \<Rightarrow> ResourceReference list \<Rightarrow> string \<Rightarrow> gerror option" where
  "validateResourceRefs c references targetKind =
     first_error (\<lambda>ref.
       case getResourceByName c (ref_Resource ref) of
         None \<Rightarrow> Some (ErrorString (''['' @ ref_Name ref @ ''] is provided by unknown resource ['' @ ref_Resource ref @ '']''))
       | Some r \<Rightarrow> check (btr_Kind (scr_TemplateRef r) \<noteq> targetKind)
           (ErrorString (''resource ['' @ scr_Name r @ ''] providing ['' @ ref_Name ref @ ''] must reference a '' @ targetKind)))
       references"

definition ClusterSupplyChain_validateParams :: "ClusterSupplyChain \<Rightarrow> gerror option" where
  "ClusterSupplyChain_validateParams c =
     checks
       [first_error BlueprintParam_validate (scs_Params (sc_Spec c)),
        first_error (\<lambda>r. first_error (\<lambda>p.
            wrap_error (''resource ['' @ scr_Name r @ ''] is invalid: '') (BlueprintParam_validate p)) (scr_Params r))
          (scs_Resources (sc_Spec c))]"

definition validate_passThrough :: "SupplyChainResource \<Rightarrow> TemplateOption \<Rightarrow> gerror option" where
  "validate_passThrough r opt =
     (if opt_PassThrough opt \<noteq> '''' then
        (let kind = btr_Kind (scr_TemplateRef r);
             not_found = (\<lambda>refs. check (\<not> isPassThroughInputFound refs (opt_PassThrough opt))
               (ErrorString (''error validating resource ['' @ scr_Name r @ '']: pass through ['' @ opt_PassThrough opt
                  @ ''] does not refer to a known input'')))
         in if kind = ''ClusterSourceTemplate'' then not_found (scr_Sources r)
            else if kind = ''ClusterImageTemplate'' then not_found (scr_Images r)
            else if kind = ''ClusterConfigTemplate'' then not_found (scr_Configs r)
            else Some (ErrorString (''error validating resource ['' @ scr_Name r @ '']: TemplateRef.Kind ['' @ kind
               @ ''] is not a known type'')))
      else None)"

definition ClusterSupplyChain_validateNewState ::
  "label_selector \<Rightarrow> jsonpath_lib \<Rightarrow> ClusterSupplyChain \<Rightarrow> gerror option" where
  "ClusterSupplyChain_validateNewState lsel jp c =
     (let resources = scs_Resources (sc_Spec c); sel = scs_LegacySelector (sc_Spec c)
      in checks
        [check (no_selector sel)
           (ErrorString ''at least one selector, selectorMatchExpression, selectorMatchField must be specified''),
         ClusterSupplyChain_validateParams c,
         validateLegacySelector lsel jp sel ValidWorkloadPaths ValidWorkloadPrefixes,
         map_option (\<lambda>n. ErrorString (''duplicate resource name ['' @ n @ ''] found''))
           (first_duplicate [] (map scr_Name resources)),
         first_error (\<lambda>r. validate_option_names (scr_Name r) (btr_Options (scr_TemplateRef r))) resources,
         first_error (\<lambda>r. wrap_error (''error validating resource ['' @ scr_Name r @ '']: '')
           (validateSupplyChainTemplateRef lsel jp (scr_TemplateRef r))) resources,
         first_error (\<lambda>r. first_error (validate_passThrough r) (btr_Options (scr_TemplateRef r))) resources,
         first_error (\<lambda>r. checks
           [wrap_error (''invalid sources for resource ['' @ scr_Name r @ '']: '')
              (validateResourceRefs c (scr_Sources r) ''ClusterSourceTemplate''),
            wrap_error (''invalid images for resource ['' @ scr_Name r @ '']: '')
              (validateResourceRefs c (scr_Images r) ''ClusterImageTemplate''),
            wrap_error (''invalid configs for resource ['' @ scr_Name r @ '']: '')
              (validateResourceRefs c (scr_Configs r) ''ClusterConfigTemplate'')]) resources])"

text \<open>\<^verbatim>\<open>ValidateCreate\<close> and \<^verbatim>\<open>ValidateUpdate\<close>; \<^verbatim>\<open>ValidateDelete\<close> accepts everything.\<close>

definition ClusterSupplyChain_ValidateCreate ::
  "label_selector \<Rightarrow> jsonpath_lib \<Rightarrow> ClusterSupplyChain \<Rightarrow> gerror option" where
  "ClusterSupplyChain_ValidateCreate lsel jp c =
     wrap_error (''error validating clustersupplychain ['' @ sc_Name c @ '']: '')
       (ClusterSupplyChain_validateNewState lsel jp c)"

section \<open>Deliveries\<close>

definition validateDeploymentPassedToProperReceivers :: "ClusterDelivery \<Rightarrow> gerror option" where
  "validateDeploymentPassedToProperReceivers c =
     first_error (\<lambda>r. checks
       [check (btr_Kind (dr_TemplateRef r) = ''ClusterDeploymentTemplate'' \<and> dr_Deployment r = None)
          (ErrorString (''spec.resources['' @ dr_Name r
            @ ''] is a ClusterDeploymentTemplate and must receive a deployment'')),
        check (dr_Deployment r \<noteq> None \<and> btr_Kind (dr_TemplateRef r) \<noteq> ''ClusterDeploymentTemplate'')
          (ErrorString (''spec.resources['' @ dr_Name r
            @ ''] receives a deployment but is not a ClusterDeploymentTemplate''))])
       (ds_Resources (cd_Spec c))"

fun names_unique :: "nat \<Rightarrow> string list \<Rightarrow> string list \<Rightarrow> gerror option" where
  "names_unique idx seen [] = None"
| "names_unique idx seen (n # ns) =
     (if n \<in> set seen then
        Some (ErrorString (''spec.resources['' @ show_nat idx @ ''].name '' @ [CHR 0x22] @ n @ [CHR 0x22]
          @ '' cannot appear twice''))
      else names_unique (Suc idx) (n # seen) ns)"

definition validateResourceNamesUnique :: "ClusterDelivery \<Rightarrow> gerror option" where
  "validateResourceNamesUnique c = names_unique 0 [] (map dr_Name (ds_Resources (cd_Spec c)))"

definition validateDeploymentTemplateDidNotReceiveConfig :: "ClusterDelivery \<Rightarrow> gerror option" where
  "validateDeploymentTemplateDidNotReceiveConfig c =
     first_error (\<lambda>r. check (btr_Kind (dr_TemplateRef r) = ''ClusterDeploymentTemplate'' \<and> dr_Configs r \<noteq> None)
       (ErrorString (''spec.resources['' @ dr_Name r @ ''] is a ClusterDeploymentTemplate and must not receive config'')))
       (ds_Resources (cd_Spec c))"

definition ClusterDelivery_validateParams :: "ClusterDelivery \<Rightarrow> gerror option" where
  "ClusterDelivery_validateParams c =
     checks
       [first_error BlueprintParam_validate (ds_Params (cd_Spec c)),
        first_error (\<lambda>r. first_error (\<lambda>p.
            wrap_error (''resource ['' @ dr_Name r @ ''] is invalid: '') (BlueprintParam_validate p)) (dr_Params r))
          (ds_Resources (cd_Spec c))]"

definition validateDeliveryTemplateRef ::
  "label_selector \<Rightarrow> jsonpath_lib \<Rightarrow> BlueprintTemplateReference \<Rightarrow> gerror option" where
  "validateDeliveryTemplateRef lsel jp ref =
     validate_templateRef lsel jp ref ValidDeliverablePaths ValidDeliverablePrefixes"

definition validate_delivery_passThrough :: "DeliveryResource \<Rightarrow> TemplateOption \<Rightarrow> gerror option" where
  "validate_delivery_passThrough r opt =
     (if opt_PassThrough opt \<noteq> '''' then
        (let kind = btr_Kind (dr_TemplateRef r);
             not_found = (\<lambda>refs. check (\<not> isPassThroughInputFound refs (opt_PassThrough opt))
               (ErrorString (''error validating resource ['' @ dr_Name r @ '']: pass through ['' @ opt_PassThrough opt
                  @ ''] does not refer to a known input'')))
         in if kind = ''ClusterSourceTemplate'' then not_found (dr_Sources r)
            else if kind = ''ClusterConfigTemplate'' then not_found (elems (dr_Configs r))
            else Some (ErrorString (''error validating resource ['' @ dr_Name r @ '']: TemplateRef.Kind ['' @ kind
               @ ''] is not a known type'')))
      else None)"

definition ClusterDelivery_validateNewState ::
  "label_selector \<Rightarrow> jsonpath_lib \<Rightarrow> ClusterDelivery \<Rightarrow> gerror option" where
  "ClusterDelivery_validateNewState lsel jp c =
     (let resources = ds_Resources (cd_Spec c); sel = ds_LegacySelector (cd_Spec c)
      in checks
        [check (no_selector sel)
           (ErrorString ''at least one selector, selectorMatchExpression, selectorMatchField must be specified''),
         ClusterDelivery_validateParams c,
         validateLegacySelector lsel jp sel ValidDeliverablePaths ValidDeliverablePrefixes,
         validateResourceNamesUnique c,
         first_error (\<lambda>r. validate_option_names (dr_Name r) (btr_Options (dr_TemplateRef r))) resources,
         first_error (\<lambda>r. wrap_error (''error validating resource ['' @ dr_Name r @ '']: '')
           (validateDeliveryTemplateRef lsel jp (dr_TemplateRef r))) resources,
         first_error (\<lambda>r. first_error (validate_delivery_passThrough r) (btr_Options (dr_TemplateRef r))) resources,
         validateDeploymentPassedToProperReceivers c,
         validateDeploymentTemplateDidNotReceiveConfig c])"

definition ClusterDelivery_ValidateCreate ::
  "label_selector \<Rightarrow> jsonpath_lib \<Rightarrow> ClusterDelivery \<Rightarrow> gerror option" where
  "ClusterDelivery_ValidateCreate lsel jp c =
     wrap_error (''error validating clusterdelivery ['' @ cd_Name c @ '']: '')
       (ClusterDelivery_validateNewState lsel jp c)"

section \<open>What acceptance means\<close>

text \<open>Declarative counterparts of the checks.\<close>

definition wf_requirement ::
  "jsonpath_lib \<Rightarrow> string list \<Rightarrow> string list \<Rightarrow> FieldSelectorRequirement \<Rightarrow> bool" where
  "wf_requirement jp paths pfxs req \<longleftrightarrow>
     valid_operator req \<and>
     (elems (fsr_Values req) = [] \<longleftrightarrow> fsr_Operator req \<in> {FieldSelectorOpExists, FieldSelectorOpDoesNotExist}) \<and>
     (fsr_Key req \<in> set paths \<or> (\<exists>p\<in>set pfxs. \<exists>r. fsr_Key req = p @ r)) \<and>
     jp_Parse jp (fsr_Key req) = None"

definition wf_label_selectors ::
  "label_selector \<Rightarrow> string gomap \<Rightarrow> LabelSelectorRequirement slice \<Rightarrow> bool" where
  "wf_label_selectors lsel ml me \<longleftrightarrow>
     (\<exists>f. lsel \<lparr>ls_MatchLabels = ml, ls_MatchExpressions = None\<rparr> = Inr f) \<and>
     (\<exists>f. lsel \<lparr>ls_MatchLabels = None, ls_MatchExpressions = me\<rparr> = Inr f)"

definition wf_selector ::
  "label_selector \<Rightarrow> jsonpath_lib \<Rightarrow> string list \<Rightarrow> string list \<Rightarrow> Selector \<Rightarrow> bool" where
  "wf_selector lsel jp paths pfxs sel \<longleftrightarrow>
     (entries (ls_MatchLabels (sel_LabelSelector sel)) \<noteq> fmempty \<or>
      elems (ls_MatchExpressions (sel_LabelSelector sel)) \<noteq> [] \<or> elems (sel_MatchFields sel) \<noteq> []) \<and>
     wf_label_selectors lsel (ls_MatchLabels (sel_LabelSelector sel)) (ls_MatchExpressions (sel_LabelSelector sel)) \<and>
     (\<forall>req\<in>set (elems (sel_MatchFields sel)). wf_requirement jp paths pfxs req)"

definition wf_param :: "BlueprintParam \<Rightarrow> bool" where
  "wf_param p \<longleftrightarrow> (bp_Value p = None) \<noteq> (bp_DefaultValue p = None)"

text \<open>
  A template reference names one template, or it has at least two options with pairwise different names
  and selectors, each of which has either a name or a pass through.
\<close>

definition wf_template_ref ::
  "label_selector \<Rightarrow> jsonpath_lib \<Rightarrow> string list \<Rightarrow> string list \<Rightarrow> BlueprintTemplateReference \<Rightarrow> bool" where
  "wf_template_ref lsel jp paths pfxs ref \<longleftrightarrow>
     (if btr_Name ref \<noteq> '''' then btr_Options ref = []
      else length (btr_Options ref) \<ge> 2 \<and> distinct (map opt_Name (btr_Options ref)) \<and>
        distinct (map opt_Selector (btr_Options ref)) \<and>
        (\<forall>opt\<in>set (btr_Options ref).
           (opt_Name opt = '''') \<noteq> (opt_PassThrough opt = '''') \<and>
           wf_selector lsel jp paths pfxs (opt_Selector opt)))"

text \<open>The inputs of a resource that a pass through of its kind can name.\<close>

definition inputs_of_kind :: "SupplyChainResource \<Rightarrow> ResourceReference list" where
  "inputs_of_kind r =
     (let kind = btr_Kind (scr_TemplateRef r)
      in if kind = ''ClusterSourceTemplate'' then scr_Sources r
         else if kind = ''ClusterImageTemplate'' then scr_Images r
         else if kind = ''ClusterConfigTemplate'' then scr_Configs r else [])"

definition resolves :: "SupplyChainResource list \<Rightarrow> string \<Rightarrow> ResourceReference \<Rightarrow> bool" where
  "resolves rs kind ref \<longleftrightarrow>
     (\<exists>q\<in>set rs. scr_Name q = ref_Resource ref \<and> btr_Kind (scr_TemplateRef q) = kind)"

definition wf_supply_chain :: "label_selector \<Rightarrow> jsonpath_lib \<Rightarrow> ClusterSupplyChain \<Rightarrow> bool" where
  "wf_supply_chain lsel jp c \<longleftrightarrow>
     (let rs = scs_Resources (sc_Spec c) in
      wf_selector lsel jp ValidWorkloadPaths ValidWorkloadPrefixes
        (legacySelectorToSelector (scs_LegacySelector (sc_Spec c))) \<and>
      (\<forall>p\<in>set (scs_Params (sc_Spec c)). wf_param p) \<and>
      distinct (map scr_Name rs) \<and>
      (\<forall>r\<in>set rs.
         (\<forall>p\<in>set (scr_Params r). wf_param p) \<and>
         wf_template_ref lsel jp ValidWorkloadPaths ValidWorkloadPrefixes (scr_TemplateRef r) \<and>
         (\<forall>opt\<in>set (btr_Options (scr_TemplateRef r)). opt_PassThrough opt \<noteq> '''' \<longrightarrow>
            opt_PassThrough opt \<in> ref_Name ` set (inputs_of_kind r)) \<and>
         (\<forall>ref\<in>set (scr_Sources r). resolves rs ''ClusterSourceTemplate'' ref) \<and>
         (\<forall>ref\<in>set (scr_Images r). resolves rs ''ClusterImageTemplate'' ref) \<and>
         (\<forall>ref\<in>set (scr_Configs r). resolves rs ''ClusterConfigTemplate'' ref)))"

text \<open>
  Deliveries are the same but for the references between resources, which their webhook does not check, and for deployments: these go to
  deployment templates and nowhere else.
\<close>

definition delivery_inputs_of_kind :: "DeliveryResource \<Rightarrow> ResourceReference list" where
  "delivery_inputs_of_kind r =
     (let kind = btr_Kind (dr_TemplateRef r)
      in if kind = ''ClusterSourceTemplate'' then dr_Sources r
         else if kind = ''ClusterConfigTemplate'' then elems (dr_Configs r) else [])"

definition wf_delivery :: "label_selector \<Rightarrow> jsonpath_lib \<Rightarrow> ClusterDelivery \<Rightarrow> bool" where
  "wf_delivery lsel jp c \<longleftrightarrow>
     (let rs = ds_Resources (cd_Spec c) in
      wf_selector lsel jp ValidDeliverablePaths ValidDeliverablePrefixes
        (legacySelectorToSelector (ds_LegacySelector (cd_Spec c))) \<and>
      (\<forall>p\<in>set (ds_Params (cd_Spec c)). wf_param p) \<and>
      distinct (map dr_Name rs) \<and>
      (\<forall>r\<in>set rs.
         (\<forall>p\<in>set (dr_Params r). wf_param p) \<and>
         wf_template_ref lsel jp ValidDeliverablePaths ValidDeliverablePrefixes (dr_TemplateRef r) \<and>
         (\<forall>opt\<in>set (btr_Options (dr_TemplateRef r)). opt_PassThrough opt \<noteq> '''' \<longrightarrow>
            opt_PassThrough opt \<in> ref_Name ` set (delivery_inputs_of_kind r)) \<and>
         (dr_Deployment r \<noteq> None \<longleftrightarrow> btr_Kind (dr_TemplateRef r) = ''ClusterDeploymentTemplate'') \<and>
         (btr_Kind (dr_TemplateRef r) = ''ClusterDeploymentTemplate'' \<longrightarrow> dr_Configs r = None)))"

text \<open>A health rule is of one of three kinds; both sides of a multi match have something to match.\<close>

definition wf_match_rule :: "HealthMatchRule \<Rightarrow> bool" where
  "wf_match_rule m \<longleftrightarrow> hmr_MatchConditions m \<noteq> [] \<or> hmr_MatchFields m \<noteq> []"

definition wf_health_rule :: "HealthRule \<Rightarrow> bool" where
  "wf_health_rule r \<longleftrightarrow>
     (hr_AlwaysHealthy r \<noteq> None \<and> hr_SingleConditionType r = '''' \<and> hr_MultiMatch r = None) \<or>
     (hr_AlwaysHealthy r = None \<and> hr_SingleConditionType r \<noteq> '''' \<and> hr_MultiMatch r = None) \<or>
     (hr_AlwaysHealthy r = None \<and> hr_SingleConditionType r = '''' \<and>
       (\<exists>m. hr_MultiMatch r = Some m \<and> wf_match_rule (mm_Unhealthy m) \<and> wf_match_rule (mm_Healthy m)))"

text \<open>A template is either a JSON object without a namespace or a ytt script.\<close>

definition wf_template_spec :: "json_codec \<Rightarrow> TemplateSpec \<Rightarrow> bool" where
  "wf_template_spec jc t \<longleftrightarrow>
     (case ts_Template t of
        None \<Rightarrow> ts_Ytt t \<noteq> ''''
      | Some raw \<Rightarrow> ts_Ytt t = '''' \<and> (\<exists>obj. jc_Object jc raw = Inr obj \<and> u_Namespace obj = '''')) \<and>
     (case ts_HealthRule t of
        None \<Rightarrow> ts_RetentionPolicy t = None \<or> ts_Lifecycle t \<noteq> ''mutable''
      | Some r \<Rightarrow> wf_health_rule r)"

definition wf_deployment_template :: "json_codec \<Rightarrow> DeploymentSpec \<Rightarrow> bool" where
  "wf_deployment_template jc s \<longleftrightarrow>
     wf_template_spec jc (dep_TemplateSpec s) \<and> (dep_ObservedMatches s = None) \<noteq> (dep_ObservedCompletion s = None)"

definition wf_run_template :: "json_codec \<Rightarrow> ClusterRunTemplate \<Rightarrow> bool" where
  "wf_run_template jc t \<longleftrightarrow>
     (\<exists>obj m. jc_Object jc (crt_Template t) = Inr obj \<and> u_Namespace obj = '''' \<and>
        jc_Value jc (crt_Template t) = Inr (JObj m) \<and> fmlookup m ''spec'' \<noteq> None)"

subsection \<open>Each check against its counterpart\<close>

lemma validate_requirement_iff [simp]:
  "validate_requirement jp paths pfxs req = None \<longleftrightarrow> wf_requirement jp paths pfxs req"
  by (auto simp: validate_requirement_def wf_requirement_def checks_None_iff valid_operator_def validPath_def
      validJsonpath_def hasPrefix_iff operator_defs simp del: checks_Cons)

lemma selector_error_iff: "selector_error lsel l = None \<longleftrightarrow> (\<exists>f. lsel l = Inr f)"
  by (simp add: selector_error_def split: sum.split)

lemma validateSelector_iff:
  "validateSelector lsel jp sel paths pfxs = None \<longleftrightarrow> wf_selector lsel jp paths pfxs sel"
  by (auto simp: validateSelector_def wf_selector_def wf_label_selectors_def checks_None_iff Let_def
      selector_error_iff validateFieldSelectorRequirements_def simp del: checks_Cons)

lemma validateLegacySelector_iff:
  "\<not> no_selector l \<and> validateLegacySelector lsel jp l paths pfxs = None \<longleftrightarrow>
     wf_selector lsel jp paths pfxs (legacySelectorToSelector l)"
  by (auto simp: validateLegacySelector_def wf_selector_def wf_label_selectors_def checks_None_iff
      selector_error_iff validateFieldSelectorRequirements_def legacySelectorToSelector_def no_selector_def
      simp del: checks_Cons)

lemma BlueprintParam_validate_iff [simp]: "BlueprintParam_validate p = None \<longleftrightarrow> wf_param p"
  by (auto simp: BlueprintParam_validate_def wf_param_def bothValuesSet_def neitherValueSet_def)

lemma first_duplicate_None:
  "first_duplicate seen xs = None \<longleftrightarrow> distinct xs \<and> set seen \<inter> set xs = {}"
  by (induction xs arbitrary: seen) auto

lemma names_unique_None: "names_unique i seen xs = None \<longleftrightarrow> distinct xs \<and> set seen \<inter> set xs = {}"
  by (induction xs arbitrary: i seen) auto

text \<open>With different names everywhere, no two options share a selector exactly when the selectors are distinct.\<close>

lemma distinct_selectors_iff:
  assumes "distinct (map opt_Name opts)"
  shows "(\<forall>a\<in>set opts. \<forall>b\<in>set opts. opt_Name a \<noteq> opt_Name b \<longrightarrow> opt_Selector a \<noteq> opt_Selector b) \<longleftrightarrow>
         distinct (map opt_Selector opts)"
  using assms by (auto simp: distinct_map inj_on_def)

lemma one_passThrough:
  assumes "distinct (map opt_Name opts)"
    and "\<And>opt. opt \<in> set opts \<Longrightarrow> (opt_Name opt = '''') \<noteq> (opt_PassThrough opt = '''')"
  shows "length (filter (\<lambda>opt. opt_PassThrough opt \<noteq> '''') opts) \<le> 1"
proof -
  have "filter (\<lambda>opt. opt_PassThrough opt \<noteq> '''') opts = filter (\<lambda>opt. opt_Name opt = '''') opts"
    using assms(2) by (intro filter_cong) auto
  moreover have "length (filter (\<lambda>opt. opt_Name opt = '''') opts) \<le> 1"
    using assms(1) by (induction opts) (force simp: filter_empty_conv split: if_splits)+
  ultimately show ?thesis by simp
qed

lemma validateResourceOptions_iff:
  assumes "distinct (map opt_Name opts)"
  shows "validateResourceOptions lsel jp opts paths pfxs = None \<longleftrightarrow>
     distinct (map opt_Selector opts) \<and>
     (\<forall>opt\<in>set opts. (opt_Name opt = '''') \<noteq> (opt_PassThrough opt = '''') \<and>
        wf_selector lsel jp paths pfxs (opt_Selector opt))"
proof -
  have "validateResourceOptions lsel jp opts paths pfxs = None \<longleftrightarrow>
      \<not> length (filter (\<lambda>opt. opt_PassThrough opt \<noteq> '''') opts) > 1 \<and>
      (\<forall>opt\<in>set opts. (opt_Name opt = '''') \<noteq> (opt_PassThrough opt = '''') \<and>
        wf_selector lsel jp paths pfxs (opt_Selector opt)) \<and>
      (\<forall>a\<in>set opts. \<forall>b\<in>set opts. opt_Name a \<noteq> opt_Name b \<longrightarrow> opt_Selector a \<noteq> opt_Selector b)"
    unfolding validateResourceOptions_def Let_def
    by (auto simp: checks_None_iff validateSelector_iff simp del: checks_Cons)
  then show ?thesis
    unfolding distinct_selectors_iff [OF assms] using one_passThrough [OF assms] by fastforce
qed

lemma validate_templateRef_iff:
  "validate_option_names n (btr_Options ref) = None \<and> validate_templateRef lsel jp ref paths pfxs = None \<longleftrightarrow>
     wf_template_ref lsel jp paths pfxs ref"
proof (cases "distinct (map opt_Name (btr_Options ref))")
  case True
  then show ?thesis
    by (auto simp: validate_option_names_def first_duplicate_None validate_templateRef_def wf_template_ref_def
        checks_None_iff validateResourceOptions_iff simp del: checks_Cons)
next
  case False
  then have "btr_Options ref \<noteq> []" by auto
  with False show ?thesis
    by (auto simp: validate_option_names_def first_duplicate_None wf_template_ref_def)
qed

lemma isPassThroughInputFound_iff: "isPassThroughInputFound refs p \<longleftrightarrow> p \<in> ref_Name ` set refs"
  unfolding isPassThroughInputFound_def by (metis image_iff)

lemma validate_passThrough_iff:
  "validate_passThrough r opt = None \<longleftrightarrow>
     (opt_PassThrough opt \<noteq> '''' \<longrightarrow> opt_PassThrough opt \<in> ref_Name ` set (inputs_of_kind r))"
  by (simp add: validate_passThrough_def inputs_of_kind_def isPassThroughInputFound_iff Let_def)

lemma validateResourceRefs_iff:
  assumes "distinct (map scr_Name (scs_Resources (sc_Spec c)))"
  shows "validateResourceRefs c refs kind = None \<longleftrightarrow> (\<forall>ref\<in>set refs. resolves (scs_Resources (sc_Spec c)) kind ref)"
proof -
  let ?rs = "scs_Resources (sc_Spec c)"
  have "(case getResourceByName c (ref_Resource ref) of None \<Rightarrow> False | Some q \<Rightarrow> btr_Kind (scr_TemplateRef q) = kind)
      \<longleftrightarrow> resolves ?rs kind ref" for ref
  proof (cases "getResourceByName c (ref_Resource ref)")
    case None
    then show ?thesis by (auto simp: getResourceByName_def resolves_def dest: find_None_D)
  next
    case (Some q)
    then have q: "q \<in> set ?rs" "scr_Name q = ref_Resource ref"
      by (auto simp: getResourceByName_def dest: find_Some_D)
    then have "q' = q" if "q' \<in> set ?rs" "scr_Name q' = ref_Resource ref" for q'
      using assms that q by (auto simp: distinct_map inj_on_def)
    with q have "resolves ?rs kind ref \<longleftrightarrow> btr_Kind (scr_TemplateRef q) = kind"
      unfolding resolves_def by blast
    with Some show ?thesis by simp
  qed
  then show ?thesis
    unfolding validateResourceRefs_def by (fastforce split: option.splits)
qed

lemma ClusterSupplyChain_validateParams_iff:
  "ClusterSupplyChain_validateParams c = None \<longleftrightarrow>
     (\<forall>p\<in>set (scs_Params (sc_Spec c)). wf_param p) \<and>
     (\<forall>r\<in>set (scs_Resources (sc_Spec c)). \<forall>p\<in>set (scr_Params r). wf_param p)"
  by (simp add: ClusterSupplyChain_validateParams_def checks_None_iff del: checks_Cons)

lemma validateNewState_iff:
  "ClusterSupplyChain_validateNewState lsel jp c = None \<longleftrightarrow> wf_supply_chain lsel jp c"
proof (cases "distinct (map scr_Name (scs_Resources (sc_Spec c)))")
  case True
  let ?rs = "scs_Resources (sc_Spec c)" and ?sel = "scs_LegacySelector (sc_Spec c)"
  have refs: "validateSupplyChainTemplateRef lsel jp ref = None \<and> validate_option_names n (btr_Options ref) = None \<longleftrightarrow>
      wf_template_ref lsel jp ValidWorkloadPaths ValidWorkloadPrefixes ref" for ref n
    unfolding validateSupplyChainTemplateRef_def using validate_templateRef_iff by blast
  have "ClusterSupplyChain_validateNewState lsel jp c = None \<longleftrightarrow>
     (\<not> no_selector ?sel \<and> validateLegacySelector lsel jp ?sel ValidWorkloadPaths ValidWorkloadPrefixes = None) \<and>
     ClusterSupplyChain_validateParams c = None \<and>
     (\<forall>r\<in>set ?rs.
        (validateSupplyChainTemplateRef lsel jp (scr_TemplateRef r) = None \<and>
         validate_option_names (scr_Name r) (btr_Options (scr_TemplateRef r)) = None) \<and>
        (\<forall>opt\<in>set (btr_Options (scr_TemplateRef r)). validate_passThrough r opt = None) \<and>
        validateResourceRefs c (scr_Sources r) ''ClusterSourceTemplate'' = None \<and>
        validateResourceRefs c (scr_Images r) ''ClusterImageTemplate'' = None \<and>
        validateResourceRefs c (scr_Configs r) ''ClusterConfigTemplate'' = None)"
    unfolding ClusterSupplyChain_validateNewState_def Let_def
    using True by (auto simp: checks_None_iff first_duplicate_None simp del: checks_Cons)
  then show ?thesis
    unfolding validateLegacySelector_iff refs ClusterSupplyChain_validateParams_iff validate_passThrough_iff
      validateResourceRefs_iff [OF True] wf_supply_chain_def Let_def
    using True by blast
next
  case False
  then have "ClusterSupplyChain_validateNewState lsel jp c \<noteq> None"
    unfolding ClusterSupplyChain_validateNewState_def Let_def
    by (simp add: checks_None_iff first_duplicate_None del: checks_Cons)
  with False show ?thesis by (simp add: wf_supply_chain_def Let_def)
qed

lemma validate_delivery_passThrough_iff:
  "validate_delivery_passThrough r opt = None \<longleftrightarrow>
     (opt_PassThrough opt \<noteq> '''' \<longrightarrow> opt_PassThrough opt \<in> ref_Name ` set (delivery_inputs_of_kind r))"
  by (simp add: validate_delivery_passThrough_def delivery_inputs_of_kind_def isPassThroughInputFound_iff Let_def)

lemma deployment_receivers_iff:
  "validateDeploymentPassedToProperReceivers c = None \<and> validateDeploymentTemplateDidNotReceiveConfig c = None \<longleftrightarrow>
     (\<forall>r\<in>set (ds_Resources (cd_Spec c)).
        (dr_Deployment r \<noteq> None \<longleftrightarrow> btr_Kind (dr_TemplateRef r) = ''ClusterDeploymentTemplate'') \<and>
        (btr_Kind (dr_TemplateRef r) = ''ClusterDeploymentTemplate'' \<longrightarrow> dr_Configs r = None))"
  by (auto simp: validateDeploymentPassedToProperReceivers_def validateDeploymentTemplateDidNotReceiveConfig_def
      checks_None_iff simp del: checks_Cons)

lemma ClusterDelivery_validateParams_iff:
  "ClusterDelivery_validateParams c = None \<longleftrightarrow>
     (\<forall>p\<in>set (ds_Params (cd_Spec c)). wf_param p) \<and>
     (\<forall>r\<in>set (ds_Resources (cd_Spec c)). \<forall>p\<in>set (dr_Params r). wf_param p)"
  by (simp add: ClusterDelivery_validateParams_def checks_None_iff del: checks_Cons)

lemma delivery_validateNewState_iff:
  "ClusterDelivery_validateNewState lsel jp c = None \<longleftrightarrow> wf_delivery lsel jp c"
proof -
  let ?rs = "ds_Resources (cd_Spec c)" and ?sel = "ds_LegacySelector (cd_Spec c)"
  have refs: "validateDeliveryTemplateRef lsel jp ref = None \<and> validate_option_names n (btr_Options ref) = None \<longleftrightarrow>
      wf_template_ref lsel jp ValidDeliverablePaths ValidDeliverablePrefixes ref" for ref n
    unfolding validateDeliveryTemplateRef_def using validate_templateRef_iff by blast
  have names: "validateResourceNamesUnique c = None \<longleftrightarrow> distinct (map dr_Name ?rs)"
    by (simp add: validateResourceNamesUnique_def names_unique_None)
  have "ClusterDelivery_validateNewState lsel jp c = None \<longleftrightarrow>
     (\<not> no_selector ?sel \<and> validateLegacySelector lsel jp ?sel ValidDeliverablePaths ValidDeliverablePrefixes = None) \<and>
     ClusterDelivery_validateParams c = None \<and> validateResourceNamesUnique c = None \<and>
     (\<forall>r\<in>set ?rs.
        (validateDeliveryTemplateRef lsel jp (dr_TemplateRef r) = None \<and>
         validate_option_names (dr_Name r) (btr_Options (dr_TemplateRef r)) = None) \<and>
        (\<forall>opt\<in>set (btr_Options (dr_TemplateRef r)). validate_delivery_passThrough r opt = None)) \<and>
     (validateDeploymentPassedToProperReceivers c = None \<and> validateDeploymentTemplateDidNotReceiveConfig c = None)"
    unfolding ClusterDelivery_validateNewState_def Let_def by (auto simp: checks_None_iff simp del: checks_Cons)
  then show ?thesis
    unfolding validateLegacySelector_iff refs names ClusterDelivery_validateParams_iff validate_delivery_passThrough_iff
      deployment_receivers_iff wf_delivery_def Let_def
    by blast
qed

lemma HealthRule_validate_iff: "HealthRule_validate r = None \<longleftrightarrow> wf_health_rule r"
  by (auto simp: HealthRule_validate_def MultiMatchHealthRule_validate_def wf_health_rule_def wf_match_rule_def checks_None_iff Let_def
      simp del: checks_Cons split: option.split)

lemma TemplateSpec_validate_iff: "TemplateSpec_validate jc t = None \<longleftrightarrow> wf_template_spec jc t"
  unfolding TemplateSpec_validate_def wf_template_spec_def
  by (cases "ts_HealthRule t"; cases "ts_Template t")
    (auto simp: checks_None_iff HealthRule_validate_iff simp del: checks_Cons split: sum.splits)

lemma deployment_template_accepted: "ClusterDeploymentTemplate_validate jc c = None \<longleftrightarrow> wf_deployment_template jc c"
  by (auto simp: ClusterDeploymentTemplate_validate_def wf_deployment_template_def TemplateSpec_validate_iff bothConditionsSet_def
      neitherConditionSet_def checks_None_iff simp del: checks_Cons)

lemma run_template_accepted: "RunTemplateSpec_validate jc t = None \<longleftrightarrow> wf_run_template jc t"
  by (auto simp: RunTemplateSpec_validate_def wf_run_template_def split: sum.splits json.splits)

text \<open>A validated selector never scores zero, so when it matches it is not lost below the first high water mark.\<close>

lemma wf_selector_score:
  "wf_selector lsel jp paths pfxs sel \<Longrightarrow> match_score lsel jp s sel = Ret (Some k) \<Longrightarrow> 1 \<le> k"
  by (auto simp: wf_selector_def match_score_def Suc_le_eq split: sum.splits go.splits bool.splits if_splits)

text \<open>When every selector has a score and some match, the best matches are not empty.\<close>

lemma scores_ok_nonempty:
  assumes "scores_ok f m is xs" "i < length xs" "f (xs ! i) = Ret (Some k)" "1 \<le> k"
  shows "is \<noteq> []"
proof
  assume e: "is = []"
  have "k \<le> m" using scores_okD(3) [OF assms(1) nth_mem [OF assms(2)]] assms(3) by auto
  then have "f (xs ! i) = Ret (Some m)" using scores_okD(4) [OF assms(1) e] assms(3,4) by simp
  then have "i \<in> set is" using scores_okD(2) [OF assms(1)] assms(2) by auto
  with e show False by simp
qed

section \<open>Properties\<close>


text \<open>
  When a set of selectors passed validation and one of them matches an object, a successful
  \<^verbatim>\<open>BestSelectorMatchIndices\<close> is never empty: no validated selector is lost for having no requirements.
\<close>

theorem validated_match_found:
  assumes "BestSelectorMatchIndices lsel jp s sels = Ret is" "i < length sels"
    and "validateSelector lsel jp (sels ! i) paths pfxs = None"
    and "match_score lsel jp s (sels ! i) = Ret (Some k)"
  shows "is \<noteq> []"
proof -
  obtain m where "scores_ok (match_score lsel jp s) m is sels"
    using BestSelectorMatchIndices_ok [OF assms(1)] .
  moreover have "1 \<le> k"
    using wf_selector_score assms(3,4) unfolding validateSelector_iff by blast
  ultimately show ?thesis using scores_ok_nonempty assms(2,4) by blast
qed

theorem validated_match_found_witness:
  "\<exists>is. BestSelectorMatchIndices (\<lambda>l. Inr (\<lambda>ls. True))
     \<lparr>jp_Parse = \<lambda>e. None, jp_FindResults = \<lambda>e v. Inr [[v]], jp_PrintResults = \<lambda>r. Inr '''',
      jp_ShowResults = \<lambda>r. '''', jp_Unmarshal = \<lambda>b. Inr [JNull]\<rparr>
     \<lparr>sb_Labels = fmempty, sb_Object = JNull\<rparr>
     [\<lparr>sel_LabelSelector = \<lparr>ls_MatchLabels = Some (fmap_of_list [(''a'', ''1'')]), ls_MatchExpressions = None\<rparr>,
       sel_MatchFields = None\<rparr>] = Ret is \<and> is \<noteq> []"
proof -
  let ?lsel = "\<lambda>l :: LabelSelector. Inr (\<lambda>ls. True) :: gerror + (labels \<Rightarrow> bool)"
  let ?jp = "\<lparr>jp_Parse = \<lambda>e. None, jp_FindResults = \<lambda>e v. Inr [[v]], jp_PrintResults = \<lambda>r. Inr '''',
      jp_ShowResults = \<lambda>r. '''', jp_Unmarshal = \<lambda>b. Inr [JNull]\<rparr>"
  let ?s = "\<lparr>sb_Labels = fmempty, sb_Object = JNull\<rparr>"
  let ?sel = "\<lparr>sel_LabelSelector = \<lparr>ls_MatchLabels = Some (fmap_of_list [(''a'', ''1'')]), ls_MatchExpressions = None\<rparr>,
       sel_MatchFields = None\<rparr>"
  have 1: "BestSelectorMatchIndices ?lsel ?jp ?s [?sel] = Ret [0]"
    by (simp add: BestSelectorMatchIndices_def best_loop.simps fmap_len_def Let_def fcard_finsert_if)
  have 2: "validateSelector ?lsel ?jp ([?sel] ! 0) [] [] = None"
    by (simp add: validateSelector_def Let_def check_def selector_error_def wrap_error_def)
  have 3: "match_score ?lsel ?jp ?s ([?sel] ! 0) = Ret (Some 1)"
    by (simp add: match_score_def fmap_len_def fcard_finsert_if)
  show ?thesis using validated_match_found [OF 1 _ 2 3] 1 by simp
qed

text \<open>
  An accepted delivery has distinct resource names, gives a deployment to its deployment templates and to no
  other resource, passes no configs to them, has exactly one of value and default in every
  parameter, and its pass throughs are on source or config templates and name one of their inputs.
\<close>

theorem delivery_accepted:
  assumes "ClusterDelivery_ValidateCreate lsel jp c = None"
  shows "distinct (map dr_Name (ds_Resources (cd_Spec c))) \<and>
    (\<forall>p\<in>set (ds_Params (cd_Spec c)). wf_param p) \<and>
    (\<forall>r\<in>set (ds_Resources (cd_Spec c)).
       (dr_Deployment r \<noteq> None \<longleftrightarrow> btr_Kind (dr_TemplateRef r) = ''ClusterDeploymentTemplate'') \<and>
       (btr_Kind (dr_TemplateRef r) = ''ClusterDeploymentTemplate'' \<longrightarrow> dr_Configs r = None) \<and>
       (\<forall>p\<in>set (dr_Params r). wf_param p) \<and>
       (\<forall>opt\<in>set (btr_Options (dr_TemplateRef r)). opt_PassThrough opt \<noteq> '''' \<longrightarrow>
          btr_Kind (dr_TemplateRef r) \<in> {''ClusterSourceTemplate'', ''ClusterConfigTemplate''} \<and>
          opt_PassThrough opt \<in> ref_Name ` (set (dr_Sources r) \<union> set (elems (dr_Configs r)))))"
proof -
  have wf: "wf_delivery lsel jp c" using assms by (simp add: ClusterDelivery_ValidateCreate_def delivery_validateNewState_iff)
  have "btr_Kind (dr_TemplateRef r) \<in> {''ClusterSourceTemplate'', ''ClusterConfigTemplate''} \<and>
      opt_PassThrough opt \<in> ref_Name ` (set (dr_Sources r) \<union> set (elems (dr_Configs r)))"
    if "opt_PassThrough opt \<in> ref_Name ` set (delivery_inputs_of_kind r)" for r opt
    using that by (auto simp: delivery_inputs_of_kind_def Let_def split: if_splits)
  with wf show ?thesis unfolding wf_delivery_def Let_def by blast
qed

theorem delivery_accepted_witness:
  "distinct (map dr_Name (ds_Resources (cd_Spec
     \<lparr>cd_Name = ''d'', cd_Spec = \<lparr>ds_LegacySelector = \<lparr>leg_Selector = Some (fmap_of_list [(''a'', ''1'')]),
        leg_SelectorMatchExpressions = None, leg_SelectorMatchFields = None\<rparr>,
      ds_Resources = [\<lparr>dr_Name = ''r'', dr_TemplateRef = \<lparr>btr_Kind = ''ClusterSourceTemplate'', btr_Name = ''t'',
         btr_Options = []\<rparr>, dr_Params = [], dr_Sources = [], dr_Deployment = None, dr_Configs = None\<rparr>],
      ds_Params = [], ds_ServiceAccountRef = \<lparr>sar_Name = '''', sar_Namespace = ''''\<rparr>\<rparr>,
      cd_Conditions = [], cd_ObservedGeneration = 0, cd_Generation = 1\<rparr>)))" (is "distinct (map dr_Name (ds_Resources (cd_Spec ?c)))")
proof -
  have "ClusterDelivery_ValidateCreate (\<lambda>l. Inr (\<lambda>ls. True))
     \<lparr>jp_Parse = \<lambda>e. None, jp_FindResults = \<lambda>e v. Inr [[v]], jp_PrintResults = \<lambda>r. Inr '''',
      jp_ShowResults = \<lambda>r. '''', jp_Unmarshal = \<lambda>b. Inr [JNull]\<rparr> ?c = None"
    by (simp add: ClusterDelivery_ValidateCreate_def ClusterDelivery_validateNewState_def check_def no_selector_def
        ClusterDelivery_validateParams_def validateLegacySelector_def wrap_error_def selector_error_def
        validateResourceNamesUnique_def validate_option_names_def validateDeliveryTemplateRef_def
        validate_templateRef_def validateResourceOptions_def validateDeploymentPassedToProperReceivers_def
        validateDeploymentTemplateDidNotReceiveConfig_def)
  from delivery_accepted [OF this] show ?thesis by blast
qed

text \<open>
  \<^verbatim>\<open>TemplateSpec.validate\<close> accepts exactly the templates with one of template and ytt, a parsable
  template without namespace, and then either a health rule with exactly one alternative (both sides of a multi match
  being non-empty) or, without a health rule, no retention policy on a mutable template.  In particular
  a mutable template with a retention policy is accepted as soon as it has a valid health rule.
\<close>

theorem template_accepted_iff:
  "TemplateSpec_validate jc t = None \<longleftrightarrow>
     (ts_Template t = None) \<noteq> (ts_Ytt t = '''') \<and>
     (\<forall>raw. ts_Template t = Some raw \<longrightarrow> (\<exists>obj. jc_Object jc raw = Inr obj \<and> u_Namespace obj = '''')) \<and>
     (case ts_HealthRule t of
        None \<Rightarrow> \<not> (ts_RetentionPolicy t \<noteq> None \<and> ts_Lifecycle t = ''mutable'')
      | Some r \<Rightarrow>
          (hr_AlwaysHealthy r \<noteq> None \<and> hr_SingleConditionType r = '''' \<and> hr_MultiMatch r = None) \<or>
          (hr_AlwaysHealthy r = None \<and> hr_SingleConditionType r \<noteq> '''' \<and> hr_MultiMatch r = None) \<or>
          (hr_AlwaysHealthy r = None \<and> hr_SingleConditionType r = '''' \<and>
            (\<exists>m. hr_MultiMatch r = Some m \<and>
               (hmr_MatchConditions (mm_Unhealthy m) \<noteq> [] \<or> hmr_MatchFields (mm_Unhealthy m) \<noteq> []) \<and>
               (hmr_MatchConditions (mm_Healthy m) \<noteq> [] \<or> hmr_MatchFields (mm_Healthy m) \<noteq> []))))"
  unfolding TemplateSpec_validate_iff wf_template_spec_def wf_health_rule_def wf_match_rule_def
  by (cases "ts_Template t"; cases "ts_HealthRule t") auto

theorem template_accepted_iff_witness:
  "TemplateSpec_validate \<lparr>jc_Object = \<lambda>r. Inl (ErrorString ''invalid''), jc_Value = \<lambda>r. Inl (ErrorString ''invalid''), jc_Show = \<lambda>v. ''''\<rparr>
     \<lparr>ts_Template = None, ts_Ytt = ''ytt'', ts_Params = [],
      ts_HealthRule = Some \<lparr>hr_AlwaysHealthy = None, hr_SingleConditionType = ''Ready'', hr_MultiMatch = None\<rparr>,
      ts_Lifecycle = ''mutable'',
      ts_RetentionPolicy = Some \<lparr>rp_MaxFailedRuns = 1, rp_MaxSuccessfulRuns = 1\<rparr>\<rparr> = None"
  unfolding template_accepted_iff by simp

end
