(* ===== verification/Nested_Fields.thy ===== *)
theory Nested_Fields
  imports Json_Path
begin

text \<open>
  \<^verbatim>\<open>AlterFieldOfNestedStringMaps\<close> of \<^verbatim>\<open>pkg/utils/util.go\<close>, which sets one field deep inside an unstructured object.  The Go function changes the
  innermost map in place; here the changed object is returned.  The object is a tree, no two of its fields share a map.

  \<open>get_field\<close> reads the field that a key names.  Setting a field and then reading it gives the new value back, the last of two writes wins, and
  exactly the keys that can be read from a map can be written.
\<close>

section \<open>Keys\<close>

text \<open>\<open>cut c s\<close> is what the code does with \<^verbatim>\<open>strings.Index(s, c)\<close>: the text before and the text after the first \<open>c\<close>.\<close>

fun cut :: "char \<Rightarrow> string \<Rightarrow> (string \<times> string) option" where
  "cut c [] = None"
| "cut c (x # s) = (if x = c then Some ('''', s) else map_option (\<lambda>(a, b). (x # a, b)) (cut c s))"

lemma cut_shorter: "cut c s = Some (a, b) \<Longrightarrow> length b < length s"
  by (induction s arbitrary: a) (auto simp: less_Suc_eq split: if_splits)

text \<open>\<^verbatim>\<open>strconv.Atoi\<close>: an optional sign and decimal digits, within 64 bits.\<close>

definition is_digit :: "char \<Rightarrow> bool" where
  "is_digit c \<longleftrightarrow> of_char c \<ge> (48 :: nat) \<and> of_char c \<le> (57 :: nat)"

definition decimal :: "string \<Rightarrow> int option" where
  "decimal s = (if s \<noteq> '''' \<and> list_all is_digit s then Some (foldl (\<lambda>n c. 10 * n + (of_char c - 48)) 0 s) else None)"

definition Atoi :: "string \<Rightarrow> int option" where
  "Atoi s =
     (let value =
        (case s of
           [] \<Rightarrow> None
         | c # s' \<Rightarrow> if c = CHR ''-'' then map_option uminus (decimal s') else if c = CHR ''+'' then decimal s' else decimal s)
      in Option.bind value (\<lambda>n. if - (2 ^ 63) \<le> n \<and> n < 2 ^ 63 then Some n else None))"

section \<open>Setting a field\<close>

abbreviation field_not_found :: "json go" where
  "field_not_found \<equiv> Err (ErrorString ''field not found'')"

text \<open>\<open>dyn\<close> is the verb \<^verbatim>\<open>%T\<close>, the name of the dynamic type of a value.\<close>

function AlterFieldOfNestedStringMaps :: "(json \<Rightarrow> string) \<Rightarrow> json \<Rightarrow> string \<Rightarrow> string \<Rightarrow> json go" where
  "AlterFieldOfNestedStringMaps dyn (JObj knownType) key v =
     (case cut CHR ''.'' key of
        None \<Rightarrow>
          (case fmlookup knownType key of
             None \<Rightarrow> field_not_found
           | Some _ \<Rightarrow> Ret (JObj (fmupd key (JStr v) knownType)))
      | Some (keyPrefix, keySuffix) \<Rightarrow>
          (case fmlookup knownType keyPrefix of
             None \<Rightarrow> field_not_found
           | Some subMap \<Rightarrow>
               go_bind (AlterFieldOfNestedStringMaps dyn subMap keySuffix v) (\<lambda>subMap'. Ret (JObj (fmupd keyPrefix subMap' knownType)))))"
| "AlterFieldOfNestedStringMaps dyn (JArr knownType) key v =
     (if key = '''' then Panic ''slice bounds out of range''
      else if hd key \<noteq> CHR ''['' then field_not_found
      else
        (case cut CHR '']'' key of
           None \<Rightarrow> field_not_found
         | Some (bracket, keySuffix) \<Rightarrow>
             (case Atoi (tl bracket) of
                None \<Rightarrow> field_not_found
              | Some intIndex \<Rightarrow>
                  (if intIndex < 0 \<or> int (length knownType) \<le> intIndex then Panic ''index out of range''
                   else
                     go_bind (AlterFieldOfNestedStringMaps dyn (knownType ! nat intIndex) keySuffix v)
                       (\<lambda>x. Ret (JArr (knownType[nat intIndex := x])))))))"
| "AlterFieldOfNestedStringMaps dyn JNull key v = Err (ErrorString (''unexpected type: '' @ dyn JNull))"
| "AlterFieldOfNestedStringMaps dyn (JBool b) key v = Err (ErrorString (''unexpected type: '' @ dyn (JBool b)))"
| "AlterFieldOfNestedStringMaps dyn (JInt i) key v = Err (ErrorString (''unexpected type: '' @ dyn (JInt i)))"
| "AlterFieldOfNestedStringMaps dyn (JNum n) key v = Err (ErrorString (''unexpected type: '' @ dyn (JNum n)))"
| "AlterFieldOfNestedStringMaps dyn (JStr s) key v = Err (ErrorString (''unexpected type: '' @ dyn (JStr s)))"
  by pat_completeness auto
termination
  by (relation "measure (\<lambda>(dyn, obj, key, v). length key)") (auto simp: cut_shorter)

section \<open>Reading a field\<close>

function get_field :: "json \<Rightarrow> string \<Rightarrow> json option" where
  "get_field (JObj m) key =
     (case cut CHR ''.'' key of
        None \<Rightarrow> fmlookup m key
      | Some (p, s) \<Rightarrow> Option.bind (fmlookup m p) (\<lambda>sub. get_field sub s))"
| "get_field (JArr xs) key =
     (if key = '''' \<or> hd key \<noteq> CHR ''['' then None
      else
        Option.bind (cut CHR '']'' key) (\<lambda>(bracket, s).
          Option.bind (Atoi (tl bracket)) (\<lambda>i. if i < 0 \<or> int (length xs) \<le> i then None else get_field (xs ! nat i) s)))"
| "get_field JNull key = None"
| "get_field (JBool b) key = None"
| "get_field (JInt i) key = None"
| "get_field (JNum n) key = None"
| "get_field (JStr s) key = None"
  by pat_completeness auto
termination
  by (relation "measure (\<lambda>(obj, key). length key)") (auto simp: cut_shorter)

lemmas alter_splits = option.splits if_splits prod.splits

text \<open>Writing succeeds exactly for the keys that can be read.\<close>

theorem altered_iff_readable:
  "(\<exists>obj'. AlterFieldOfNestedStringMaps dyn obj key v = Ret obj') \<longleftrightarrow> get_field obj key \<noteq> None"
proof (induction dyn obj key v rule: AlterFieldOfNestedStringMaps.induct)
  case (1 dyn m key v)
  then show ?case by (auto simp: go_bind_Ret_iff split: alter_splits)
next
  case (2 dyn xs key v)
  then show ?case by (auto simp: go_bind_Ret_iff split: alter_splits)
qed simp_all

text \<open>The field that was set has the new value.\<close>

theorem altered_field:
  "AlterFieldOfNestedStringMaps dyn obj key v = Ret obj' \<Longrightarrow> get_field obj' key = Some (JStr v)"
proof (induction dyn obj key v arbitrary: obj' rule: AlterFieldOfNestedStringMaps.induct)
  case (1 dyn m key v)
  then show ?case by (auto simp: go_bind_Ret_iff split: alter_splits)
next
  case (2 dyn xs key v)
  then show ?case by (auto simp: go_bind_Ret_iff split: alter_splits)
qed simp_all

text \<open>The last of two writes to a field wins.\<close>

theorem altered_twice:
  "AlterFieldOfNestedStringMaps dyn obj key v = Ret obj' \<Longrightarrow>
     AlterFieldOfNestedStringMaps dyn obj' key w = AlterFieldOfNestedStringMaps dyn obj key w"
proof (induction dyn obj key v arbitrary: obj' rule: AlterFieldOfNestedStringMaps.induct)
  case (1 dyn m key v)
  then show ?case by (auto simp: go_bind_Ret_iff split: alter_splits)
next
  case (2 dyn xs key v)
  then show ?case by (auto simp: go_bind_Ret_iff split: alter_splits)
qed simp_all

end
