(* ===== verification/Go_Store.thy ===== *)
theory Go_Store
  imports Prelude
begin

text \<open>
  Go values with pointers, slices and maps, in an explicit store.  Everywhere else in the development values are trees, and copying them is the
  identity; this theory is for the code that makes copies, \<^verbatim>\<open>zz_generated.deepcopy.go\<close>, whose purpose is that a copy shares no memory
  with the original.

  A store is a list of cells, an address is a position in it and allocation appends.  A \<open>go_type\<close> says which values of a store belong to a type:
  \<open>ty_read\<close> gives the tree that such a value stands for (\<open>None\<close> for anything else) and \<open>ty_owns\<close> the addresses that the tree was read from.
  \<open>is_local\<close> is the frame condition: the tree depends on these addresses only.
\<close>

section \<open>Values, cells and stores\<close>

datatype basic = BString string | BInt int | BBool bool

datatype gval =
    VBasic basic
  | VStruct "(string \<times> gval) list"
  | VPtr "nat option"
  | VSlice "nat option"
  | VMap "nat option"

text \<open>The cell of a pointer, the array of a slice, the entries of a map in the order in which a loop ranges over them.\<close>

datatype cell = Cell gval | Elements "gval list" | Entries "(string \<times> gval) list"

type_synonym store = "cell list"

definition cell_at :: "store \<Rightarrow> nat \<Rightarrow> cell option" where
  "cell_at s a = (if a < length s then Some (s ! a) else None)"

lemma cell_at_append [simp]: "cell_at s a = Some c \<Longrightarrow> cell_at (s @ s') a = Some c"
  by (auto simp: cell_at_def nth_append split: if_splits)

lemma cell_at_new [simp]: "cell_at (s @ [c]) (length s) = Some c"
  by (simp add: cell_at_def)

lemma cell_at_less: "cell_at s a = Some c \<Longrightarrow> a < length s"
  by (simp add: cell_at_def split: if_splits)

section \<open>Types\<close>

datatype tree =
    LBasic basic
  | LStruct "(string \<times> tree) list"
  | LPtr "tree option"
  | LSlice "tree list option"
  | LMap "(string \<times> tree) list option"

record go_type =
  ty_read :: "store \<Rightarrow> gval \<Rightarrow> tree option"
  ty_owns :: "store \<Rightarrow> gval \<Rightarrow> nat set"

definition t_basic :: "(basic \<Rightarrow> bool) \<Rightarrow> go_type" where
  "t_basic P =
     \<lparr>ty_read = \<lambda>s v. (case v of VBasic b \<Rightarrow> if P b then Some (LBasic b) else None | _ \<Rightarrow> None),
      ty_owns = \<lambda>s v. {}\<rparr>"

definition t_string :: go_type where
  "t_string = t_basic (\<lambda>b. case b of BString _ \<Rightarrow> True | _ \<Rightarrow> False)"

definition t_int64 :: go_type where
  "t_int64 = t_basic (\<lambda>b. case b of BInt n \<Rightarrow> - (2 ^ 63) \<le> n \<and> n < 2 ^ 63 | _ \<Rightarrow> False)"

definition t_bool :: go_type where
  "t_bool = t_basic (\<lambda>b. case b of BBool _ \<Rightarrow> True | _ \<Rightarrow> False)"

text \<open>All values of a list of types, and everything they own.\<close>

fun read_list :: "go_type list \<Rightarrow> store \<Rightarrow> gval list \<Rightarrow> tree list option" where
  "read_list [] s [] = Some []"
| "read_list (T # Ts) s (v # vs) =
     (case ty_read T s v of
        None \<Rightarrow> None
      | Some t \<Rightarrow> map_option (\<lambda>ts. t # ts) (read_list Ts s vs))"
| "read_list _ s _ = None"

fun owns_list :: "go_type list \<Rightarrow> store \<Rightarrow> gval list \<Rightarrow> nat set" where
  "owns_list (T # Ts) s (v # vs) = ty_owns T s v \<union> owns_list Ts s vs"
| "owns_list _ s _ = {}"

definition t_struct :: "(string \<times> go_type) list \<Rightarrow> go_type" where
  "t_struct Ts =
     \<lparr>ty_read = \<lambda>s v.
        (case v of
           VStruct fs \<Rightarrow>
             (if map fst fs = map fst Ts
              then map_option (\<lambda>ts. LStruct (zip (map fst Ts) ts)) (read_list (map snd Ts) s (map snd fs)) else None)
         | _ \<Rightarrow> None),
      ty_owns = \<lambda>s v. (case v of VStruct fs \<Rightarrow> owns_list (map snd Ts) s (map snd fs) | _ \<Rightarrow> {})\<rparr>"

definition t_ptr :: "go_type \<Rightarrow> go_type" where
  "t_ptr T =
     \<lparr>ty_read = \<lambda>s v.
        (case v of
           VPtr None \<Rightarrow> Some (LPtr None)
         | VPtr (Some a) \<Rightarrow>
             (case cell_at s a of
                Some (Cell w) \<Rightarrow> map_option (\<lambda>t. LPtr (Some t)) (ty_read T s w)
              | _ \<Rightarrow> None)
         | _ \<Rightarrow> None),
      ty_owns = \<lambda>s v.
        (case v of
           VPtr (Some a) \<Rightarrow> insert a (case cell_at s a of Some (Cell w) \<Rightarrow> ty_owns T s w | _ \<Rightarrow> {})
         | _ \<Rightarrow> {})\<rparr>"

definition t_slice :: "go_type \<Rightarrow> go_type" where
  "t_slice T =
     \<lparr>ty_read = \<lambda>s v.
        (case v of
           VSlice None \<Rightarrow> Some (LSlice None)
         | VSlice (Some a) \<Rightarrow>
             (case cell_at s a of
                Some (Elements vs) \<Rightarrow> map_option (\<lambda>ts. LSlice (Some ts)) (read_list (map (\<lambda>_. T) vs) s vs)
              | _ \<Rightarrow> None)
         | _ \<Rightarrow> None),
      ty_owns = \<lambda>s v.
        (case v of
           VSlice (Some a) \<Rightarrow> insert a (case cell_at s a of Some (Elements vs) \<Rightarrow> owns_list (map (\<lambda>_. T) vs) s vs | _ \<Rightarrow> {})
         | _ \<Rightarrow> {})\<rparr>"

definition t_map :: "go_type \<Rightarrow> go_type" where
  "t_map T =
     \<lparr>ty_read = \<lambda>s v.
        (case v of
           VMap None \<Rightarrow> Some (LMap None)
         | VMap (Some a) \<Rightarrow>
             (case cell_at s a of
                Some (Entries es) \<Rightarrow>
                  (if distinct (map fst es)
                   then map_option (\<lambda>ts. LMap (Some (zip (map fst es) ts))) (read_list (map (\<lambda>_. T) es) s (map snd es)) else None)
              | _ \<Rightarrow> None)
         | _ \<Rightarrow> None),
      ty_owns = \<lambda>s v.
        (case v of
           VMap (Some a) \<Rightarrow> insert a (case cell_at s a of Some (Entries es) \<Rightarrow> owns_list (map (\<lambda>_. T) es) s (map snd es) | _ \<Rightarrow> {})
         | _ \<Rightarrow> {})\<rparr>"

section \<open>The frame condition\<close>

definition agree :: "nat set \<Rightarrow> store \<Rightarrow> store \<Rightarrow> bool" where
  "agree A s s' \<longleftrightarrow> (\<forall>a\<in>A. cell_at s' a = cell_at s a)"

lemma agree_Un [simp]: "agree (A \<union> B) s s' \<longleftrightarrow> agree A s s' \<and> agree B s s'"
  by (auto simp: agree_def)

lemma agree_insert [simp]: "agree (insert a A) s s' \<longleftrightarrow> cell_at s' a = cell_at s a \<and> agree A s s'"
  by (auto simp: agree_def)

definition is_local :: "go_type \<Rightarrow> bool" where
  "is_local T \<longleftrightarrow>
     (\<forall>s v t. ty_read T s v = Some t \<longrightarrow>
        ty_owns T s v \<subseteq> {..<length s} \<and>
        (\<forall>s'. agree (ty_owns T s v) s s' \<longrightarrow> ty_read T s' v = Some t \<and> ty_owns T s' v = ty_owns T s v))"

text \<open>A type without references: its values own nothing.\<close>

definition plain :: "go_type \<Rightarrow> bool" where
  "plain T \<longleftrightarrow> (\<forall>s v t. ty_read T s v = Some t \<longrightarrow> ty_owns T s v = {})"

lemma is_localD:
  assumes "is_local T" "ty_read T s v = Some t"
  shows "ty_owns T s v \<subseteq> {..<length s}"
    and "agree (ty_owns T s v) s s' \<Longrightarrow> ty_read T s' v = Some t \<and> ty_owns T s' v = ty_owns T s v"
  using assms unfolding is_local_def by blast+

lemma agree_append: "A \<subseteq> {..<length s} \<Longrightarrow> agree A s (s @ s')"
  by (auto simp: agree_def cell_at_def nth_append)

lemma read_append:
  assumes "is_local T" "ty_read T s v = Some t"
  shows "ty_read T (s @ s') v = Some t \<and> ty_owns T (s @ s') v = ty_owns T s v"
  using is_localD [OF assms] agree_append by blast

lemma read_list_local:
  assumes "list_all is_local Ts" "read_list Ts s vs = Some ts"
  shows "owns_list Ts s vs \<subseteq> {..<length s} \<and>
    (\<forall>s'. agree (owns_list Ts s vs) s s' \<longrightarrow> read_list Ts s' vs = Some ts \<and> owns_list Ts s' vs = owns_list Ts s vs)"
  using assms
proof (induction Ts s vs arbitrary: ts rule: read_list.induct)
  case (2 T Ts s v vs)
  from "2.prems"(2) obtain t ts' where r: "ty_read T s v = Some t" "read_list Ts s vs = Some ts'" "ts = t # ts'"
    by (auto split: option.splits)
  moreover from "2.prems"(1) have "is_local T" by simp
  ultimately have "ty_owns T s v \<subseteq> {..<length s}"
      "agree (ty_owns T s v) s s' \<Longrightarrow> ty_read T s' v = Some t \<and> ty_owns T s' v = ty_owns T s v" for s'
    using is_localD by blast+
  moreover have "owns_list Ts s vs \<subseteq> {..<length s} \<and>
      (\<forall>s'. agree (owns_list Ts s vs) s s' \<longrightarrow> read_list Ts s' vs = Some ts' \<and> owns_list Ts s' vs = owns_list Ts s vs)"
    using "2.IH" [OF r(1) _ r(2)] "2.prems" by simp
  ultimately show ?case by (simp add: r(3))
qed auto

lemma read_list_append:
  assumes "list_all is_local Ts" "read_list Ts s vs = Some ts"
  shows "read_list Ts (s @ s') vs = Some ts \<and> owns_list Ts (s @ s') vs = owns_list Ts s vs"
  using read_list_local [OF assms] agree_append by blast

named_theorems go_types

lemma local_basic [go_types]: "is_local (t_basic P)" "plain (t_basic P)"
  by (auto simp: is_local_def plain_def t_basic_def split: gval.splits if_splits)

lemma local_named_basic [go_types]:
  "is_local t_string" "plain t_string" "is_local t_int64" "plain t_int64" "is_local t_bool" "plain t_bool"
  by (simp_all add: t_string_def t_int64_def t_bool_def go_types)

lemma all_local [simp]: "list_all is_local (map (\<lambda>_. T) vs) \<longleftrightarrow> vs = [] \<or> is_local T"
  by (induction vs) auto

lemma local_struct:
  assumes "list_all is_local (map snd Ts)"
  shows "is_local (t_struct Ts)"
  unfolding is_local_def
proof (intro allI impI)
  fix s v t
  assume "ty_read (t_struct Ts) s v = Some t"
  then obtain fs ts where v: "v = VStruct fs" "map fst fs = map fst Ts" "read_list (map snd Ts) s (map snd fs) = Some ts"
      "t = LStruct (zip (map fst Ts) ts)"
    by (auto simp: t_struct_def split: gval.splits if_splits)
  with read_list_local [OF assms v(3)]
  show "ty_owns (t_struct Ts) s v \<subseteq> {..<length s} \<and>
      (\<forall>s'. agree (ty_owns (t_struct Ts) s v) s s' \<longrightarrow> ty_read (t_struct Ts) s' v = Some t \<and> ty_owns (t_struct Ts) s' v = ty_owns (t_struct Ts) s v)"
    by (auto simp: t_struct_def)
qed

lemma local_ptr:
  assumes "is_local T"
  shows "is_local (t_ptr T)"
  unfolding is_local_def
proof (intro allI impI)
  fix s v t
  assume "ty_read (t_ptr T) s v = Some t"
  then consider "v = VPtr None" "t = LPtr None"
    | a w u where "v = VPtr (Some a)" "cell_at s a = Some (Cell w)" "ty_read T s w = Some u" "t = LPtr (Some u)"
    by (auto simp: t_ptr_def split: gval.splits option.splits cell.splits)
  then show "ty_owns (t_ptr T) s v \<subseteq> {..<length s} \<and>
      (\<forall>s'. agree (ty_owns (t_ptr T) s v) s s' \<longrightarrow> ty_read (t_ptr T) s' v = Some t \<and> ty_owns (t_ptr T) s' v = ty_owns (t_ptr T) s v)"
  proof cases
    case 2
    with is_localD [OF assms 2(3)] cell_at_less [OF 2(2)] show ?thesis by (auto simp: t_ptr_def)
  qed (simp add: t_ptr_def)
qed

lemma local_slice:
  assumes "is_local T"
  shows "is_local (t_slice T)"
  unfolding is_local_def
proof (intro allI impI)
  fix s v t
  assume "ty_read (t_slice T) s v = Some t"
  then consider "v = VSlice None" "t = LSlice None"
    | a vs ts where "v = VSlice (Some a)" "cell_at s a = Some (Elements vs)" "read_list (map (\<lambda>_. T) vs) s vs = Some ts" "t = LSlice (Some ts)"
    by (auto simp: t_slice_def split: gval.splits option.splits cell.splits)
  then show "ty_owns (t_slice T) s v \<subseteq> {..<length s} \<and>
      (\<forall>s'. agree (ty_owns (t_slice T) s v) s s' \<longrightarrow> ty_read (t_slice T) s' v = Some t \<and> ty_owns (t_slice T) s' v = ty_owns (t_slice T) s v)"
  proof cases
    case 2
    with read_list_local [OF _ 2(3)] assms cell_at_less [OF 2(2)] show ?thesis by (auto simp: t_slice_def)
  qed (simp add: t_slice_def)
qed

lemma local_map:
  assumes "is_local T"
  shows "is_local (t_map T)"
  unfolding is_local_def
proof (intro allI impI)
  fix s v t
  assume "ty_read (t_map T) s v = Some t"
  then consider "v = VMap None" "t = LMap None"
    | a es ts where "v = VMap (Some a)" "cell_at s a = Some (Entries es)" "distinct (map fst es)"
        "read_list (map (\<lambda>_. T) es) s (map snd es) = Some ts" "t = LMap (Some (zip (map fst es) ts))"
    by (auto simp: t_map_def split: gval.splits option.splits cell.splits if_splits)
  then show "ty_owns (t_map T) s v \<subseteq> {..<length s} \<and>
      (\<forall>s'. agree (ty_owns (t_map T) s v) s s' \<longrightarrow> ty_read (t_map T) s' v = Some t \<and> ty_owns (t_map T) s' v = ty_owns (t_map T) s v)"
  proof cases
    case 2
    with read_list_local [OF _ 2(4)] assms cell_at_less [OF 2(2)] show ?thesis by (auto simp: t_map_def)
  qed (simp add: t_map_def)
qed

lemmas go_locals = local_struct local_ptr local_slice local_map

lemma read_list_iff:
  "read_list Ts s vs = Some ts \<longleftrightarrow>
     length vs = length Ts \<and> length ts = length Ts \<and> (\<forall>i<length Ts. ty_read (Ts ! i) s (vs ! i) = Some (ts ! i))"
proof (induction Ts s vs arbitrary: ts rule: read_list.induct)
  case (2 T Ts s v vs)
  show ?case
  proof (cases ts)
    case (Cons t ts')
    then show ?thesis using "2.IH" by (cases "ty_read T s v") (auto simp: All_less_Suc2)
  qed (auto split: option.splits)
qed auto

lemma owns_list_iff: "length vs = length Ts \<Longrightarrow> owns_list Ts s vs = (\<Union>i<length Ts. ty_owns (Ts ! i) s (vs ! i))"
proof (induction Ts s vs rule: owns_list.induct)
  case (1 T Ts s v vs)
  then show ?case by (simp add: lessThan_Suc_eq_insert_0 image_image)
qed auto

section \<open>Copying\<close>

text \<open>
  A copier is given a value and a store and returns the copy, which it has put into the destination, and the store with what it has allocated.
  The result \<open>None\<close> is for values that are not of the type of the receiver.
\<close>

type_synonym copier = "gval \<Rightarrow> store \<Rightarrow> (gval \<times> store) option"

text \<open>\<^verbatim>\<open>*out = *in\<close>\<close>

definition copy_assign :: copier where
  "copy_assign v s = Some (v, s)"

definition set_field :: "string \<Rightarrow> gval \<Rightarrow> (string \<times> gval) list \<Rightarrow> (string \<times> gval) list" where
  "set_field f v fs = map (\<lambda>(n, w). (n, if n = f then v else w)) fs"

text \<open>\<^verbatim>\<open>*out = *in\<close>, followed by statements that copy single fields.\<close>

fun copy_fields :: "(string \<times> copier) list \<Rightarrow> (string \<times> gval) list \<Rightarrow> (string \<times> gval) list \<Rightarrow> store \<Rightarrow> ((string \<times> gval) list \<times> store) option" where
  "copy_fields [] inp out s = Some (out, s)"
| "copy_fields ((f, c) # cs) inp out s =
     (case map_of inp f of
        None \<Rightarrow> None
      | Some v \<Rightarrow>
          (case c v s of
             None \<Rightarrow> None
           | Some (v', s') \<Rightarrow> copy_fields cs inp (set_field f v' out) s'))"

definition copy_struct :: "(string \<times> copier) list \<Rightarrow> copier" where
  "copy_struct cs v s =
     (case v of
        VStruct fs \<Rightarrow> map_option (\<lambda>(out, s'). (VStruct out, s')) (copy_fields cs fs fs s)
      | _ \<Rightarrow> None)"

text \<open>\<^verbatim>\<open>if in.F != nil { *out = new(T); (*in).DeepCopyInto(*out) }\<close>\<close>

definition copy_ptr :: "copier \<Rightarrow> copier" where
  "copy_ptr c v s =
     (case v of
        VPtr None \<Rightarrow> Some (VPtr None, s)
      | VPtr (Some a) \<Rightarrow>
          (case cell_at s a of
             Some (Cell w) \<Rightarrow> map_option (\<lambda>(w', s'). (VPtr (Some (length s')), s' @ [Cell w'])) (c w s)
           | _ \<Rightarrow> None)
      | _ \<Rightarrow> None)"

text \<open>The loop over the elements of a slice or the entries of a map.\<close>

fun copy_list :: "copier \<Rightarrow> gval list \<Rightarrow> store \<Rightarrow> (gval list \<times> store) option" where
  "copy_list c [] s = Some ([], s)"
| "copy_list c (v # vs) s =
     (case c v s of
        None \<Rightarrow> None
      | Some (v', s') \<Rightarrow> map_option (\<lambda>(vs', s''). (v' # vs', s'')) (copy_list c vs s'))"

text \<open>\<^verbatim>\<open>if in.F != nil { *out = make([]T, len(*in)); for i := range *in { (*in)[i].DeepCopyInto(&(*out)[i]) } }\<close>;
  \<^verbatim>\<open>copy(*out, *in)\<close> is the case of \<^const>\<open>copy_assign\<close>.\<close>

definition copy_slice :: "copier \<Rightarrow> copier" where
  "copy_slice c v s =
     (case v of
        VSlice None \<Rightarrow> Some (VSlice None, s)
      | VSlice (Some a) \<Rightarrow>
          (case cell_at s a of
             Some (Elements vs) \<Rightarrow> map_option (\<lambda>(vs', s'). (VSlice (Some (length s')), s' @ [Elements vs'])) (copy_list c vs s)
           | _ \<Rightarrow> None)
      | _ \<Rightarrow> None)"

text \<open>\<^verbatim>\<open>if in.F != nil { *out = make(map[string]T, len(*in)); for key, val := range *in { (*out)[key] = ... } }\<close>\<close>

definition copy_map :: "copier \<Rightarrow> copier" where
  "copy_map c v s =
     (case v of
        VMap None \<Rightarrow> Some (VMap None, s)
      | VMap (Some a) \<Rightarrow>
          (case cell_at s a of
             Some (Entries es) \<Rightarrow>
               map_option (\<lambda>(vs', s'). (VMap (Some (length s')), s' @ [Entries (zip (map fst es) vs')])) (copy_list c (map snd es) s)
           | _ \<Rightarrow> None)
      | _ \<Rightarrow> None)"

section \<open>Correct copiers\<close>

text \<open>The copy stands for the same tree and owns only newly allocated memory; no cell that existed is changed.\<close>

definition copies :: "go_type \<Rightarrow> copier \<Rightarrow> bool" where
  "copies T c \<longleftrightarrow>
     (\<forall>s v t. ty_read T s v = Some t \<longrightarrow>
        (\<exists>v' new. c v s = Some (v', s @ new) \<and> ty_read T (s @ new) v' = Some t \<and> ty_owns T (s @ new) v' \<subseteq> {length s..}))"

lemma copiesE:
  assumes "copies T c" "ty_read T s v = Some t"
  obtains v' new where "c v s = Some (v', s @ new)" "ty_read T (s @ new) v' = Some t" "ty_owns T (s @ new) v' \<subseteq> {length s..}"
  using assms unfolding copies_def by blast

lemma copies_assign: "plain T \<Longrightarrow> copies T copy_assign"
  by (auto simp: copies_def copy_assign_def plain_def)

lemma copies_ptr:
  assumes "is_local T" "copies T c"
  shows "copies (t_ptr T) (copy_ptr c)"
  unfolding copies_def
proof (intro allI impI)
  fix s v t
  assume "ty_read (t_ptr T) s v = Some t"
  then consider "v = VPtr None" "t = LPtr None"
    | a w u where "v = VPtr (Some a)" "cell_at s a = Some (Cell w)" "ty_read T s w = Some u" "t = LPtr (Some u)"
    by (auto simp: t_ptr_def split: gval.splits option.splits cell.splits)
  then show "\<exists>v' new. copy_ptr c v s = Some (v', s @ new) \<and> ty_read (t_ptr T) (s @ new) v' = Some t \<and> ty_owns (t_ptr T) (s @ new) v' \<subseteq> {length s..}"
  proof cases
    case 2
    obtain w' new where w: "c w s = Some (w', s @ new)" "ty_read T (s @ new) w' = Some u" "ty_owns T (s @ new) w' \<subseteq> {length s..}"
      using copiesE [OF assms(2) 2(3)] .
    from read_append [OF assms(1) w(2), of "[Cell w']"] w 2 cell_at_new [of "s @ new" "Cell w'"] show ?thesis
      by (intro exI [of _ "VPtr (Some (length (s @ new)))"] exI [of _ "new @ [Cell w']"]) (simp add: copy_ptr_def t_ptr_def)
  qed (simp add: copy_ptr_def t_ptr_def)
qed

lemma copies_list:
  assumes "is_local T" "copies T c"
  shows "read_list (map (\<lambda>_. T) vs) s vs = Some ts \<Longrightarrow>
    \<exists>vs' new. copy_list c vs s = Some (vs', s @ new) \<and> read_list (map (\<lambda>_. T) vs') (s @ new) vs' = Some ts \<and>
      owns_list (map (\<lambda>_. T) vs') (s @ new) vs' \<subseteq> {length s..} \<and> length vs' = length vs"
proof (induction vs arbitrary: s ts)
  case (Cons v vs)
  from Cons.prems obtain t ts' where r: "ty_read T s v = Some t" "read_list (map (\<lambda>_. T) vs) s vs = Some ts'" "ts = t # ts'"
    by (auto split: option.splits)
  obtain v' new where v': "c v s = Some (v', s @ new)" "ty_read T (s @ new) v' = Some t" "ty_owns T (s @ new) v' \<subseteq> {length s..}"
    using copiesE [OF assms(2) r(1)] .
  from read_list_append [OF _ r(2), of new] assms(1) have "read_list (map (\<lambda>_. T) vs) (s @ new) vs = Some ts'" by simp
  from Cons.IH [OF this] obtain vs' new' where vs': "copy_list c vs (s @ new) = Some (vs', (s @ new) @ new')"
      "read_list (map (\<lambda>_. T) vs') ((s @ new) @ new') vs' = Some ts'"
      "owns_list (map (\<lambda>_. T) vs') ((s @ new) @ new') vs' \<subseteq> {length (s @ new)..}" "length vs' = length vs" by blast
  from read_append [OF assms(1) v'(2), of new'] v' vs' show ?case
    by (intro exI [of _ "v' # vs'"] exI [of _ "new @ new'"]) (auto simp: r(3))
qed simp

lemma copies_slice:
  assumes "is_local T" "copies T c"
  shows "copies (t_slice T) (copy_slice c)"
  unfolding copies_def
proof (intro allI impI)
  fix s v t
  assume "ty_read (t_slice T) s v = Some t"
  then consider "v = VSlice None" "t = LSlice None"
    | a vs ts where "v = VSlice (Some a)" "cell_at s a = Some (Elements vs)" "read_list (map (\<lambda>_. T) vs) s vs = Some ts" "t = LSlice (Some ts)"
    by (auto simp: t_slice_def split: gval.splits option.splits cell.splits)
  then show "\<exists>v' new. copy_slice c v s = Some (v', s @ new) \<and> ty_read (t_slice T) (s @ new) v' = Some t \<and>
      ty_owns (t_slice T) (s @ new) v' \<subseteq> {length s..}"
  proof cases
    case 2
    from copies_list [OF assms 2(3)] obtain vs' new where l: "copy_list c vs s = Some (vs', s @ new)"
        "read_list (map (\<lambda>_. T) vs') (s @ new) vs' = Some ts" "owns_list (map (\<lambda>_. T) vs') (s @ new) vs' \<subseteq> {length s..}" by blast
    from read_list_append [OF _ l(2), of "[Elements vs']"] l 2 assms(1) cell_at_new [of "s @ new" "Elements vs'"] show ?thesis
      by (intro exI [of _ "VSlice (Some (length (s @ new)))"] exI [of _ "new @ [Elements vs']"]) (simp add: copy_slice_def t_slice_def)
  qed (simp add: copy_slice_def t_slice_def)
qed

lemma copies_map:
  assumes "is_local T" "copies T c"
  shows "copies (t_map T) (copy_map c)"
  unfolding copies_def
proof (intro allI impI)
  fix s v t
  assume "ty_read (t_map T) s v = Some t"
  then consider "v = VMap None" "t = LMap None"
    | a es ts where "v = VMap (Some a)" "cell_at s a = Some (Entries es)" "distinct (map fst es)"
        "read_list (map (\<lambda>_. T) (map snd es)) s (map snd es) = Some ts" "t = LMap (Some (zip (map fst es) ts))"
    by (auto simp: t_map_def comp_def split: gval.splits option.splits cell.splits if_splits)
  then show "\<exists>v' new. copy_map c v s = Some (v', s @ new) \<and> ty_read (t_map T) (s @ new) v' = Some t \<and>
      ty_owns (t_map T) (s @ new) v' \<subseteq> {length s..}"
  proof cases
    case 2
    from copies_list [OF assms 2(4)] obtain vs' new where l: "copy_list c (map snd es) s = Some (vs', s @ new)"
        "read_list (map (\<lambda>_. T) vs') (s @ new) vs' = Some ts" "owns_list (map (\<lambda>_. T) vs') (s @ new) vs' \<subseteq> {length s..}" "length vs' = length es" by auto
    let ?es = "zip (map fst es) vs'"
    have es: "map fst ?es = map fst es" "map snd ?es = vs'" "map (\<lambda>_. T) ?es = map (\<lambda>_. T) vs'"
      using l(4) by (simp_all add: list_eq_iff_nth_eq)
    from read_list_append [OF _ l(2), of "[Entries ?es]"] l 2 assms(1) es cell_at_new [of "s @ new" "Entries ?es"] show ?thesis
      by (intro exI [of _ "VMap (Some (length (s @ new)))"] exI [of _ "new @ [Entries ?es]"]) (simp add: copy_map_def t_map_def)
  qed (simp add: copy_map_def t_map_def)
qed

section \<open>Structs\<close>

text \<open>
  A struct is copied when every field with references is copied by a statement of its own and the others are not touched or assigned.
\<close>

definition struct_copies :: "(string \<times> go_type) list \<Rightarrow> (string \<times> copier) list \<Rightarrow> bool" where
  "struct_copies Ts cs \<longleftrightarrow>
     distinct (map fst Ts) \<and> distinct (map fst cs) \<and> list_all (\<lambda>(n, c). n \<in> set (map fst Ts)) cs \<and>
     list_all (\<lambda>(n, T). is_local T \<and> (case map_of cs n of None \<Rightarrow> plain T | Some c \<Rightarrow> copies T c)) Ts"

lemma set_field_nth [simp]:
  "length (set_field f v fs) = length fs" "map fst (set_field f v fs) = map fst fs"
  "i < length fs \<Longrightarrow> snd (set_field f v fs ! i) = (if fst (fs ! i) = f then v else snd (fs ! i))"
  by (auto simp: set_field_def comp_def case_prod_unfold)

text \<open>The state between two statements: everything reads as in the original, and what is not still to be copied is new.\<close>

definition copying ::
  "(string \<times> go_type) list \<Rightarrow> tree list \<Rightarrow> nat \<Rightarrow> (string \<times> copier) list \<Rightarrow> (string \<times> gval) list \<Rightarrow> store \<Rightarrow> bool" where
  "copying Ts ts n cs out s \<longleftrightarrow>
     map fst out = map fst Ts \<and> n \<le> length s \<and>
     (\<forall>i<length Ts. ty_read (snd (Ts ! i)) s (snd (out ! i)) = Some (ts ! i) \<and>
        (fst (Ts ! i) \<notin> set (map fst cs) \<longrightarrow> ty_owns (snd (Ts ! i)) s (snd (out ! i)) \<subseteq> {n..}))"

lemma copying_extend:
  assumes "list_all (\<lambda>(n, T). is_local T) Ts" "copying Ts ts n cs out s"
  shows "copying Ts ts n cs out (s @ new)"
  unfolding copying_def
proof (intro conjI allI impI)
  fix i assume i: "i < length Ts"
  with assms(1) have "is_local (snd (Ts ! i))" by (simp add: list_all_length case_prod_unfold)
  moreover from assms(2) i have "ty_read (snd (Ts ! i)) s (snd (out ! i)) = Some (ts ! i)" by (simp add: copying_def)
  ultimately have *: "ty_read (snd (Ts ! i)) (s @ new) (snd (out ! i)) = Some (ts ! i)"
      "ty_owns (snd (Ts ! i)) (s @ new) (snd (out ! i)) = ty_owns (snd (Ts ! i)) s (snd (out ! i))"
    using read_append by blast+
  then show "ty_read (snd (Ts ! i)) (s @ new) (snd (out ! i)) = Some (ts ! i)" by simp
  assume "fst (Ts ! i) \<notin> set (map fst cs)"
  with assms(2) i * show "ty_owns (snd (Ts ! i)) (s @ new) (snd (out ! i)) \<subseteq> {n..}" by (simp add: copying_def)
qed (use assms(2) in \<open>simp_all add: copying_def\<close>)

lemma copying_step:
  assumes "distinct (map fst Ts)" "i < length Ts" "fst (Ts ! i) = f" "copying Ts ts n ((f, c) # cs) out s"
    and "ty_read (snd (Ts ! i)) s v = Some (ts ! i)" "ty_owns (snd (Ts ! i)) s v \<subseteq> {n..}"
  shows "copying Ts ts n cs (set_field f v out) s"
  unfolding copying_def
proof (intro conjI allI impI)
  have names: "map fst out = map fst Ts" using assms(4) by (simp add: copying_def)
  then have len: "length out = length Ts" by (metis length_map)
  fix j assume j: "j < length Ts"
  have name: "fst (out ! j) = fst (Ts ! j)" using names j len by (metis nth_map)
  have same: "fst (Ts ! j) = f \<longleftrightarrow> j = i"
    using assms(1-3) j nth_eq_iff_index_eq [of "map fst Ts" j i] by auto
  from same name assms(4-6) j len
  show "ty_read (snd (Ts ! j)) s (snd (set_field f v out ! j)) = Some (ts ! j)" by (auto simp: copying_def)
  assume "fst (Ts ! j) \<notin> set (map fst cs)"
  with same name assms(4-6) j len show "ty_owns (snd (Ts ! j)) s (snd (set_field f v out ! j)) \<subseteq> {n..}"
    by (auto simp: copying_def)
qed (use assms(4) in \<open>simp_all add: copying_def\<close>)

lemma copy_fields_copying:
  assumes "list_all (\<lambda>(n, T). is_local T) Ts" "distinct (map fst Ts)"
    and "\<forall>(f, c)\<in>set cs. \<exists>i<length Ts. fst (Ts ! i) = f \<and> copies (snd (Ts ! i)) c"
    and "copying Ts ts n (cs @ rest) out s" "copying Ts ts n (map (\<lambda>(m, T). (m, copy_assign)) Ts) inp s"
  shows "\<exists>out' new. copy_fields cs inp out s = Some (out', s @ new) \<and> copying Ts ts n rest out' (s @ new)"
  using assms(3-5)
proof (induction cs arbitrary: out s)
  case Nil
  then show ?case by (intro exI [of _ out] exI [of _ "[]"]) simp
next
  case (Cons fc cs)
  obtain f c where fc: "fc = (f, c)" by (cases fc)
  from Cons.prems(1) fc obtain i where i: "i < length Ts" "fst (Ts ! i) = f" "copies (snd (Ts ! i)) c" by auto
  let ?v = "snd (inp ! i)"
  have names: "map fst inp = map fst Ts" using Cons.prems(3) by (simp add: copying_def)
  then have len: "length inp = length Ts" by (metis length_map)
  have "(f, ?v) \<in> set inp" using i names len by (metis nth_map nth_mem prod.collapse)
  then have look: "map_of inp f = Some ?v" using assms(2) names by simp
  have "ty_read (snd (Ts ! i)) s ?v = Some (ts ! i)" using Cons.prems(3) i by (simp add: copying_def)
  from copiesE [OF i(3) this] obtain v' new where v': "c ?v s = Some (v', s @ new)"
      "ty_read (snd (Ts ! i)) (s @ new) v' = Some (ts ! i)" "ty_owns (snd (Ts ! i)) (s @ new) v' \<subseteq> {length s..}" .
  moreover have "n \<le> length s" using Cons.prems(2) by (simp add: copying_def)
  ultimately have "copying Ts ts n (cs @ rest) (set_field f v' out) (s @ new)"
    using copying_step [OF assms(2) i(1,2) _ v'(2)] copying_extend [OF assms(1) Cons.prems(2), of new] fc by fastforce
  from Cons.IH [OF _ this copying_extend [OF assms(1) Cons.prems(3)]] Cons.prems(1)
  obtain out' new' where "copy_fields cs inp (set_field f v' out) (s @ new) = Some (out', (s @ new) @ new')"
      "copying Ts ts n rest out' ((s @ new) @ new')" by auto
  with v'(1) look fc show ?case by (intro exI [of _ out'] exI [of _ "new @ new'"]) simp
qed

lemma copying_iff:
  assumes "is_local (t_struct Ts)"
  shows "ty_read (t_struct Ts) s (VStruct out) = Some t \<and> ty_owns (t_struct Ts) s (VStruct out) \<subseteq> {n..} \<and> n \<le> length s \<longleftrightarrow>
    (\<exists>ts. length ts = length Ts \<and> t = LStruct (zip (map fst Ts) ts) \<and> copying Ts ts n [] out s)"
proof (cases "map fst out = map fst Ts")
  case True
  then have "length out = length Ts" by (metis length_map)
  with True show ?thesis by (auto simp: t_struct_def copying_def read_list_iff owns_list_iff)
qed (auto simp: t_struct_def copying_def)

lemma copies_struct:
  assumes "struct_copies Ts cs"
  shows "copies (t_struct Ts) (copy_struct cs)"
  unfolding copies_def
proof (intro allI impI)
  have names: "distinct (map fst Ts)" and locals: "list_all (\<lambda>(n, T). is_local T) Ts"
    using assms by (auto simp: struct_copies_def list_all_iff)
  then have local: "is_local (t_struct Ts)" by (intro local_struct) (auto simp: list_all_iff)
  have field: "\<exists>i<length Ts. fst (Ts ! i) = f \<and> copies (snd (Ts ! i)) c" if "(f, c) \<in> set cs" for f c
  proof -
    from that assms have "f \<in> set (map fst Ts)" "map_of cs f = Some c" by (auto simp: struct_copies_def list_all_iff)
    moreover from this obtain T where T: "(f, T) \<in> set Ts" by auto
    moreover from assms T have "case map_of cs f of None \<Rightarrow> plain T | Some c \<Rightarrow> copies T c"
      by (auto simp: struct_copies_def list_all_iff)
    ultimately have "(f, T) \<in> set Ts" "copies T c" by simp_all
    then show ?thesis by (metis fst_conv in_set_conv_nth snd_conv)
  qed
  fix s v t
  assume "ty_read (t_struct Ts) s v = Some t"
  then obtain fs ts where v: "v = VStruct fs" "map fst fs = map fst Ts" "read_list (map snd Ts) s (map snd fs) = Some ts"
      "t = LStruct (zip (map fst Ts) ts)"
    by (auto simp: t_struct_def split: gval.splits if_splits)
  then have len: "length fs = length Ts" "length ts = length Ts" by (auto simp: read_list_iff)
  have "plain (snd (Ts ! i))" if "i < length Ts" "fst (Ts ! i) \<notin> set (map fst cs)" for i
  proof -
    from that have "map_of cs (fst (Ts ! i)) = None" by (simp add: map_of_eq_None_iff)
    moreover from that(1) assms have "case map_of cs (fst (Ts ! i)) of None \<Rightarrow> plain (snd (Ts ! i)) | Some c \<Rightarrow> copies (snd (Ts ! i)) c"
      by (simp add: struct_copies_def list_all_length case_prod_unfold)
    ultimately show ?thesis by simp
  qed
  with v len have start: "copying Ts ts (length s) (cs @ []) fs s" by (auto simp: copying_def read_list_iff plain_def)
  have original: "copying Ts ts (length s) (map (\<lambda>(m, T). (m, copy_assign)) Ts) fs s"
    using v len by (auto simp: copying_def read_list_iff comp_def case_prod_unfold)
  obtain out new where run: "copy_fields cs fs fs s = Some (out, s @ new)" "copying Ts ts (length s) [] out (s @ new)"
    using copy_fields_copying [OF locals names _ start original] field by blast
  then have "ty_read (t_struct Ts) (s @ new) (VStruct out) = Some t \<and> ty_owns (t_struct Ts) (s @ new) (VStruct out) \<subseteq> {length s..}"
    using copying_iff [OF local] v len by blast
  with run v show "\<exists>v' new. copy_struct cs v s = Some (v', s @ new) \<and> ty_read (t_struct Ts) (s @ new) v' = Some t \<and>
      ty_owns (t_struct Ts) (s @ new) v' \<subseteq> {length s..}"
    by (intro exI [of _ "VStruct out"] exI [of _ new]) (simp add: copy_struct_def)
qed

lemma plain_struct:
  assumes "list_all plain (map snd Ts)"
  shows "plain (t_struct Ts)"
proof -
  have "owns_list (map snd Ts) s (map snd fs) = {}" if "read_list (map snd Ts) s (map snd fs) = Some ts" for s fs ts
    using that assms by (subst owns_list_iff) (auto simp: read_list_iff plain_def list_all_length)
  then show ?thesis by (auto simp: plain_def t_struct_def split: gval.splits if_splits)
qed

end
