(* ===== verification/Api_Schema.thy ===== *)
theory Api_Schema
  imports Go_Store
begin

text \<open>
  The types of \<^verbatim>\<open>pkg/apis/v1alpha1\<close> as values in a store, with all of their fields: which fields are pointers, slices and maps.  The
  records of \<open>Api_Types\<close> have the fields that the program reads, as trees; these are the declarations themselves, for the deep
  copies in \<open>Deep_Copy\<close>.

  The types of the Kubernetes libraries are parameters, the record \<open>api_lib\<close>: a type and its method \<^verbatim>\<open>DeepCopyInto\<close> for each name.
  \<open>MetaCondition\<close> is \<^verbatim>\<open>metav1.Condition\<close> and \<open>CoreObjectReference\<close> is \<^verbatim>\<open>corev1.ObjectReference\<close>, whose names the package uses itself.
\<close>

record api_lib =
  lib_type :: "string \<Rightarrow> go_type"
  lib_copy :: "string \<Rightarrow> copier"

text \<open>
  What the copies rely on: the library types read only the memory they own, \<^verbatim>\<open>TypeMeta\<close> and \<^verbatim>\<open>ObjectReference\<close>, which have
  string fields only, own none, and \<^verbatim>\<open>DeepCopyInto\<close> of the others copies.
\<close>

definition plain_names :: "string list" where
  "plain_names = [''TypeMeta'', ''CoreObjectReference'']"

definition copied_names :: "string list" where
  "copied_names =
     [''JSON'', ''ObjectMeta'', ''ListMeta'', ''MetaCondition'', ''Time'', ''RawExtension'', ''EnvVar'', ''ResourceRequirements'',
      ''LabelSelector'', ''LabelSelectorRequirement'']"

definition lib_ok :: "api_lib \<Rightarrow> bool" where
  "lib_ok L \<longleftrightarrow>
     list_all (\<lambda>n. is_local (lib_type L n) \<and> plain (lib_type L n)) plain_names \<and>
     list_all (\<lambda>n. is_local (lib_type L n) \<and> copies (lib_type L n) (lib_copy L n)) copied_names"

lemma lib_types [go_types]:
  assumes "lib_ok L"
  shows "n \<in> set plain_names \<Longrightarrow> is_local (lib_type L n) \<and> plain (lib_type L n)"
    and "n \<in> set copied_names \<Longrightarrow> is_local (lib_type L n)"
    and "n \<in> set copied_names \<Longrightarrow> copies (lib_type L n) (lib_copy L n)"
  using assms by (auto simp: lib_ok_def list_all_iff)

lemmas lib_names = plain_names_def copied_names_def

section \<open>Declarations\<close>

definition TemplateParam_type :: "api_lib \<Rightarrow> go_type" where
  "TemplateParam_type L =
     t_struct
       [(''Name'', t_string), (''DefaultValue'', lib_type L ''JSON'')]"

definition TemplateParams_type :: "api_lib \<Rightarrow> go_type" where
  "TemplateParams_type L = t_slice (TemplateParam_type L)"

definition ConditionRequirement_type :: "api_lib \<Rightarrow> go_type" where
  "ConditionRequirement_type L =
     t_struct
       [(''Type'', t_string), (''Status'', t_string)]"

definition FieldSelectorOperator_type :: go_type where
  "FieldSelectorOperator_type = t_string"

definition FieldSelectorRequirement_type :: "api_lib \<Rightarrow> go_type" where
  "FieldSelectorRequirement_type L =
     t_struct
       [(''Key'', t_string), (''Operator'', FieldSelectorOperator_type), (''Values'', t_slice t_string)]"

definition HealthMatchFieldSelectorRequirement_type :: "api_lib \<Rightarrow> go_type" where
  "HealthMatchFieldSelectorRequirement_type L =
     t_struct
       [(''FieldSelectorRequirement'', FieldSelectorRequirement_type L), (''MessagePath'', t_string)]"

definition HealthMatchRule_type :: "api_lib \<Rightarrow> go_type" where
  "HealthMatchRule_type L =
     t_struct
       [(''MatchConditions'', t_slice (ConditionRequirement_type L)),
        (''MatchFields'', t_slice (HealthMatchFieldSelectorRequirement_type L))]"

definition MultiMatchHealthRule_type :: "api_lib \<Rightarrow> go_type" where
  "MultiMatchHealthRule_type L =
     t_struct
       [(''Healthy'', HealthMatchRule_type L), (''Unhealthy'', HealthMatchRule_type L)]"

definition HealthRule_type :: "api_lib \<Rightarrow> go_type" where
  "HealthRule_type L =
     t_struct
       [(''AlwaysHealthy'', t_ptr (lib_type L ''RawExtension'')), (''SingleConditionType'', t_string),
        (''MultiMatch'', t_ptr (MultiMatchHealthRule_type L))]"

definition RetentionPolicy_type :: "api_lib \<Rightarrow> go_type" where
  "RetentionPolicy_type L =
     t_struct
       [(''MaxFailedRuns'', t_int64), (''MaxSuccessfulRuns'', t_int64)]"

definition TemplateSpec_type :: "api_lib \<Rightarrow> go_type" where
  "TemplateSpec_type L =
     t_struct
       [(''Template'', t_ptr (lib_type L ''RawExtension'')), (''Ytt'', t_string), (''Params'', TemplateParams_type L),
        (''HealthRule'', t_ptr (HealthRule_type L)), (''Lifecycle'', t_string), (''RetentionPolicy'', t_ptr (RetentionPolicy_type L))]"

definition ConfigTemplateSpec_type :: "api_lib \<Rightarrow> go_type" where
  "ConfigTemplateSpec_type L =
     t_struct
       [(''TemplateSpec'', TemplateSpec_type L), (''ConfigPath'', t_string)]"

definition ClusterConfigTemplate_type :: "api_lib \<Rightarrow> go_type" where
  "ClusterConfigTemplate_type L =
     t_struct
       [(''TypeMeta'', lib_type L ''TypeMeta''), (''ObjectMeta'', lib_type L ''ObjectMeta''), (''Spec'', ConfigTemplateSpec_type L)]"

definition ClusterConfigTemplateList_type :: "api_lib \<Rightarrow> go_type" where
  "ClusterConfigTemplateList_type L =
     t_struct
       [(''TypeMeta'', lib_type L ''TypeMeta''), (''ListMeta'', lib_type L ''ListMeta''),
        (''Items'', t_slice (ClusterConfigTemplate_type L))]"

definition LegacySelector_type :: "api_lib \<Rightarrow> go_type" where
  "LegacySelector_type L =
     t_struct
       [(''Selector'', t_map t_string), (''SelectorMatchExpressions'', t_slice (lib_type L ''LabelSelectorRequirement'')),
        (''SelectorMatchFields'', t_slice (FieldSelectorRequirement_type L))]"

definition Selector_type :: "api_lib \<Rightarrow> go_type" where
  "Selector_type L =
     t_struct
       [(''LabelSelector'', lib_type L ''LabelSelector''), (''MatchFields'', t_slice (FieldSelectorRequirement_type L))]"

definition TemplateOption_type :: "api_lib \<Rightarrow> go_type" where
  "TemplateOption_type L =
     t_struct
       [(''Name'', t_string), (''PassThrough'', t_string), (''Selector'', Selector_type L)]"

definition DeliveryTemplateReference_type :: "api_lib \<Rightarrow> go_type" where
  "DeliveryTemplateReference_type L =
     t_struct
       [(''Kind'', t_string), (''Name'', t_string), (''Options'', t_slice (TemplateOption_type L))]"

definition BlueprintParam_type :: "api_lib \<Rightarrow> go_type" where
  "BlueprintParam_type L =
     t_struct
       [(''Name'', t_string), (''Value'', t_ptr (lib_type L ''JSON'')), (''DefaultValue'', t_ptr (lib_type L ''JSON''))]"

definition ResourceReference_type :: "api_lib \<Rightarrow> go_type" where
  "ResourceReference_type L =
     t_struct
       [(''Name'', t_string), (''Resource'', t_string)]"

definition DeploymentReference_type :: "api_lib \<Rightarrow> go_type" where
  "DeploymentReference_type L =
     t_struct
       [(''Resource'', t_string)]"

definition DeliveryResource_type :: "api_lib \<Rightarrow> go_type" where
  "DeliveryResource_type L =
     t_struct
       [(''Name'', t_string), (''TemplateRef'', DeliveryTemplateReference_type L), (''Params'', t_slice (BlueprintParam_type L)),
        (''Sources'', t_slice (ResourceReference_type L)), (''Deployment'', t_ptr (DeploymentReference_type L)),
        (''Configs'', t_slice (ResourceReference_type L))]"

definition ServiceAccountRef_type :: "api_lib \<Rightarrow> go_type" where
  "ServiceAccountRef_type L =
     t_struct
       [(''Name'', t_string), (''Namespace'', t_string)]"

definition DeliverySpec_type :: "api_lib \<Rightarrow> go_type" where
  "DeliverySpec_type L =
     t_struct
       [(''LegacySelector'', LegacySelector_type L), (''Resources'', t_slice (DeliveryResource_type L)),
        (''Params'', t_slice (BlueprintParam_type L)), (''ServiceAccountRef'', ServiceAccountRef_type L)]"

definition DeliveryStatus_type :: "api_lib \<Rightarrow> go_type" where
  "DeliveryStatus_type L =
     t_struct
       [(''ObservedGeneration'', t_int64), (''Conditions'', t_slice (lib_type L ''MetaCondition''))]"

definition ClusterDelivery_type :: "api_lib \<Rightarrow> go_type" where
  "ClusterDelivery_type L =
     t_struct
       [(''TypeMeta'', lib_type L ''TypeMeta''), (''ObjectMeta'', lib_type L ''ObjectMeta''), (''Spec'', DeliverySpec_type L),
        (''Status'', DeliveryStatus_type L)]"

definition ClusterDeliveryList_type :: "api_lib \<Rightarrow> go_type" where
  "ClusterDeliveryList_type L =
     t_struct
       [(''TypeMeta'', lib_type L ''TypeMeta''), (''ListMeta'', lib_type L ''ListMeta''), (''Items'', t_slice (ClusterDelivery_type L))]"

definition ObservedMatch_type :: "api_lib \<Rightarrow> go_type" where
  "ObservedMatch_type L =
     t_struct
       [(''Input'', t_string), (''Output'', t_string)]"

definition Condition_type :: "api_lib \<Rightarrow> go_type" where
  "Condition_type L =
     t_struct
       [(''Key'', t_string), (''Value'', t_string)]"

definition ObservedCompletion_type :: "api_lib \<Rightarrow> go_type" where
  "ObservedCompletion_type L =
     t_struct
       [(''SucceededCondition'', Condition_type L), (''FailedCondition'', t_ptr (Condition_type L))]"

definition DeploymentSpec_type :: "api_lib \<Rightarrow> go_type" where
  "DeploymentSpec_type L =
     t_struct
       [(''TemplateSpec'', TemplateSpec_type L), (''ObservedMatches'', t_slice (ObservedMatch_type L)),
        (''ObservedCompletion'', t_ptr (ObservedCompletion_type L))]"

definition ClusterDeploymentTemplate_type :: "api_lib \<Rightarrow> go_type" where
  "ClusterDeploymentTemplate_type L =
     t_struct
       [(''TypeMeta'', lib_type L ''TypeMeta''), (''ObjectMeta'', lib_type L ''ObjectMeta''), (''Spec'', DeploymentSpec_type L)]"

definition ClusterDeploymentTemplateList_type :: "api_lib \<Rightarrow> go_type" where
  "ClusterDeploymentTemplateList_type L =
     t_struct
       [(''TypeMeta'', lib_type L ''TypeMeta''), (''ListMeta'', lib_type L ''ListMeta''),
        (''Items'', t_slice (ClusterDeploymentTemplate_type L))]"

definition ImageTemplateSpec_type :: "api_lib \<Rightarrow> go_type" where
  "ImageTemplateSpec_type L =
     t_struct
       [(''TemplateSpec'', TemplateSpec_type L), (''ImagePath'', t_string)]"

definition ClusterImageTemplate_type :: "api_lib \<Rightarrow> go_type" where
  "ClusterImageTemplate_type L =
     t_struct
       [(''TypeMeta'', lib_type L ''TypeMeta''), (''ObjectMeta'', lib_type L ''ObjectMeta''), (''Spec'', ImageTemplateSpec_type L)]"

definition ClusterImageTemplateList_type :: "api_lib \<Rightarrow> go_type" where
  "ClusterImageTemplateList_type L =
     t_struct
       [(''TypeMeta'', lib_type L ''TypeMeta''), (''ListMeta'', lib_type L ''ListMeta''), (''Items'', t_slice (ClusterImageTemplate_type L))]"

definition RunTemplateSpec_type :: "api_lib \<Rightarrow> go_type" where
  "RunTemplateSpec_type L =
     t_struct
       [(''Template'', lib_type L ''RawExtension''), (''Outputs'', t_map t_string)]"

definition ClusterRunTemplate_type :: "api_lib \<Rightarrow> go_type" where
  "ClusterRunTemplate_type L =
     t_struct
       [(''TypeMeta'', lib_type L ''TypeMeta''), (''ObjectMeta'', lib_type L ''ObjectMeta''), (''Spec'', RunTemplateSpec_type L)]"

definition ClusterRunTemplateList_type :: "api_lib \<Rightarrow> go_type" where
  "ClusterRunTemplateList_type L =
     t_struct
       [(''TypeMeta'', lib_type L ''TypeMeta''), (''ListMeta'', lib_type L ''ListMeta''), (''Items'', t_slice (ClusterRunTemplate_type L))]"

definition SourceTemplateSpec_type :: "api_lib \<Rightarrow> go_type" where
  "SourceTemplateSpec_type L =
     t_struct
       [(''TemplateSpec'', TemplateSpec_type L), (''URLPath'', t_string), (''RevisionPath'', t_string)]"

definition ClusterSourceTemplate_type :: "api_lib \<Rightarrow> go_type" where
  "ClusterSourceTemplate_type L =
     t_struct
       [(''TypeMeta'', lib_type L ''TypeMeta''), (''ObjectMeta'', lib_type L ''ObjectMeta''), (''Spec'', SourceTemplateSpec_type L)]"

definition ClusterSourceTemplateList_type :: "api_lib \<Rightarrow> go_type" where
  "ClusterSourceTemplateList_type L =
     t_struct
       [(''TypeMeta'', lib_type L ''TypeMeta''), (''ListMeta'', lib_type L ''ListMeta''),
        (''Items'', t_slice (ClusterSourceTemplate_type L))]"

definition SupplyChainTemplateReference_type :: "api_lib \<Rightarrow> go_type" where
  "SupplyChainTemplateReference_type L =
     t_struct
       [(''Kind'', t_string), (''Name'', t_string), (''Options'', t_slice (TemplateOption_type L))]"

definition SupplyChainResource_type :: "api_lib \<Rightarrow> go_type" where
  "SupplyChainResource_type L =
     t_struct
       [(''Name'', t_string), (''TemplateRef'', SupplyChainTemplateReference_type L), (''Params'', t_slice (BlueprintParam_type L)),
        (''Sources'', t_slice (ResourceReference_type L)), (''Images'', t_slice (ResourceReference_type L)),
        (''Configs'', t_slice (ResourceReference_type L))]"

definition SupplyChainSpec_type :: "api_lib \<Rightarrow> go_type" where
  "SupplyChainSpec_type L =
     t_struct
       [(''LegacySelector'', LegacySelector_type L), (''Resources'', t_slice (SupplyChainResource_type L)),
        (''Params'', t_slice (BlueprintParam_type L)), (''ServiceAccountRef'', ServiceAccountRef_type L)]"

definition SupplyChainStatus_type :: "api_lib \<Rightarrow> go_type" where
  "SupplyChainStatus_type L =
     t_struct
       [(''Conditions'', t_slice (lib_type L ''MetaCondition'')), (''ObservedGeneration'', t_int64)]"

definition ClusterSupplyChain_type :: "api_lib \<Rightarrow> go_type" where
  "ClusterSupplyChain_type L =
     t_struct
       [(''TypeMeta'', lib_type L ''TypeMeta''), (''ObjectMeta'', lib_type L ''ObjectMeta''), (''Spec'', SupplyChainSpec_type L),
        (''Status'', SupplyChainStatus_type L)]"

definition ClusterSupplyChainList_type :: "api_lib \<Rightarrow> go_type" where
  "ClusterSupplyChainList_type L =
     t_struct
       [(''TypeMeta'', lib_type L ''TypeMeta''), (''ListMeta'', lib_type L ''ListMeta''), (''Items'', t_slice (ClusterSupplyChain_type L))]"

definition ClusterTemplate_type :: "api_lib \<Rightarrow> go_type" where
  "ClusterTemplate_type L =
     t_struct
       [(''TypeMeta'', lib_type L ''TypeMeta''), (''ObjectMeta'', lib_type L ''ObjectMeta''), (''Spec'', TemplateSpec_type L)]"

definition ClusterTemplateList_type :: "api_lib \<Rightarrow> go_type" where
  "ClusterTemplateList_type L =
     t_struct
       [(''TypeMeta'', lib_type L ''TypeMeta''), (''ListMeta'', lib_type L ''ListMeta''), (''Items'', t_slice (ClusterTemplate_type L))]"

definition OwnerStatus_type :: "api_lib \<Rightarrow> go_type" where
  "OwnerStatus_type L =
     t_struct
       [(''ObservedGeneration'', t_int64), (''Conditions'', t_slice (lib_type L ''MetaCondition''))]"

definition OwnerParam_type :: "api_lib \<Rightarrow> go_type" where
  "OwnerParam_type L =
     t_struct
       [(''Name'', t_string), (''Value'', lib_type L ''JSON'')]"

definition GitRef_type :: "api_lib \<Rightarrow> go_type" where
  "GitRef_type L =
     t_struct
       [(''Branch'', t_ptr t_string), (''Tag'', t_ptr t_string), (''Commit'', t_ptr t_string)]"

definition GitSource_type :: "api_lib \<Rightarrow> go_type" where
  "GitSource_type L =
     t_struct
       [(''URL'', t_ptr t_string), (''Ref'', t_ptr (GitRef_type L))]"

definition Source_type :: "api_lib \<Rightarrow> go_type" where
  "Source_type L =
     t_struct
       [(''Git'', t_ptr (GitSource_type L)), (''Image'', t_ptr t_string), (''Subpath'', t_ptr t_string)]"

definition ObjectReference_type :: "api_lib \<Rightarrow> go_type" where
  "ObjectReference_type L =
     t_struct
       [(''Kind'', t_string), (''Namespace'', t_string), (''Name'', t_string), (''APIVersion'', t_string)]"

definition StampedRef_type :: "api_lib \<Rightarrow> go_type" where
  "StampedRef_type L =
     t_struct
       [(''ObjectReference'', t_ptr (lib_type L ''CoreObjectReference'')), (''Resource'', t_string)]"

definition Input_type :: "api_lib \<Rightarrow> go_type" where
  "Input_type L =
     t_struct
       [(''Name'', t_string)]"

definition Output_type :: "api_lib \<Rightarrow> go_type" where
  "Output_type L =
     t_struct
       [(''Name'', t_string), (''Preview'', t_string), (''Digest'', t_string), (''LastTransitionTime'', lib_type L ''Time'')]"

definition RealizedResource_type :: "api_lib \<Rightarrow> go_type" where
  "RealizedResource_type L =
     t_struct
       [(''Name'', t_string), (''StampedRef'', t_ptr (StampedRef_type L)), (''TemplateRef'', t_ptr (lib_type L ''CoreObjectReference'')),
        (''Inputs'', t_slice (Input_type L)), (''Outputs'', t_slice (Output_type L))]"

definition ResourceStatus_type :: "api_lib \<Rightarrow> go_type" where
  "ResourceStatus_type L =
     t_struct
       [(''RealizedResource'', RealizedResource_type L), (''Conditions'', t_slice (lib_type L ''MetaCondition''))]"

definition DeliverableSpec_type :: "api_lib \<Rightarrow> go_type" where
  "DeliverableSpec_type L =
     t_struct
       [(''Params'', t_slice (OwnerParam_type L)), (''Source'', t_ptr (Source_type L)), (''ServiceAccountName'', t_string)]"

definition DeliverableStatus_type :: "api_lib \<Rightarrow> go_type" where
  "DeliverableStatus_type L =
     t_struct
       [(''OwnerStatus'', OwnerStatus_type L), (''DeliveryRef'', ObjectReference_type L), (''Resources'', t_slice (ResourceStatus_type L))]"

definition Deliverable_type :: "api_lib \<Rightarrow> go_type" where
  "Deliverable_type L =
     t_struct
       [(''TypeMeta'', lib_type L ''TypeMeta''), (''ObjectMeta'', lib_type L ''ObjectMeta''), (''Spec'', DeliverableSpec_type L),
        (''Status'', DeliverableStatus_type L)]"

definition DeliverableList_type :: "api_lib \<Rightarrow> go_type" where
  "DeliverableList_type L =
     t_struct
       [(''TypeMeta'', lib_type L ''TypeMeta''), (''ListMeta'', lib_type L ''ListMeta''), (''Items'', t_slice (Deliverable_type L))]"

definition TemplateReference_type :: "api_lib \<Rightarrow> go_type" where
  "TemplateReference_type L =
     t_struct
       [(''Kind'', t_string), (''Name'', t_string)]"

definition ResourceType_type :: "api_lib \<Rightarrow> go_type" where
  "ResourceType_type L =
     t_struct
       [(''APIVersion'', t_string), (''Kind'', t_string)]"

definition ResourceSelector_type :: "api_lib \<Rightarrow> go_type" where
  "ResourceSelector_type L =
     t_struct
       [(''Resource'', ResourceType_type L), (''MatchingLabels'', t_map t_string)]"

definition RunnableSpec_type :: "api_lib \<Rightarrow> go_type" where
  "RunnableSpec_type L =
     t_struct
       [(''RunTemplateRef'', TemplateReference_type L), (''Selector'', t_ptr (ResourceSelector_type L)),
        (''Inputs'', t_map (lib_type L ''JSON'')), (''ServiceAccountName'', t_string), (''RetentionPolicy'', RetentionPolicy_type L)]"

definition RunnableStatus_type :: "api_lib \<Rightarrow> go_type" where
  "RunnableStatus_type L =
     t_struct
       [(''ObservedGeneration'', t_int64), (''Conditions'', t_slice (lib_type L ''MetaCondition'')),
        (''Outputs'', t_map (lib_type L ''JSON''))]"

definition Runnable_type :: "api_lib \<Rightarrow> go_type" where
  "Runnable_type L =
     t_struct
       [(''TypeMeta'', lib_type L ''TypeMeta''), (''ObjectMeta'', lib_type L ''ObjectMeta''), (''Spec'', RunnableSpec_type L),
        (''Status'', RunnableStatus_type L)]"

definition RunnableList_type :: "api_lib \<Rightarrow> go_type" where
  "RunnableList_type L =
     t_struct
       [(''TypeMeta'', lib_type L ''TypeMeta''), (''ListMeta'', lib_type L ''ListMeta''), (''Items'', t_slice (Runnable_type L))]"

definition WorkloadBuild_type :: "api_lib \<Rightarrow> go_type" where
  "WorkloadBuild_type L =
     t_struct
       [(''Env'', t_slice (lib_type L ''EnvVar''))]"

definition WorkloadServiceClaimReference_type :: "api_lib \<Rightarrow> go_type" where
  "WorkloadServiceClaimReference_type L =
     t_struct
       [(''APIVersion'', t_string), (''Kind'', t_string), (''Name'', t_string)]"

definition WorkloadServiceClaim_type :: "api_lib \<Rightarrow> go_type" where
  "WorkloadServiceClaim_type L =
     t_struct
       [(''Name'', t_string), (''Ref'', t_ptr (WorkloadServiceClaimReference_type L))]"

definition WorkloadSpec_type :: "api_lib \<Rightarrow> go_type" where
  "WorkloadSpec_type L =
     t_struct
       [(''Params'', t_slice (OwnerParam_type L)), (''Source'', t_ptr (Source_type L)), (''Build'', WorkloadBuild_type L),
        (''Env'', t_slice (lib_type L ''EnvVar'')), (''Image'', t_ptr t_string),
        (''Resources'', t_ptr (lib_type L ''ResourceRequirements'')), (''ServiceAccountName'', t_string),
        (''ServiceClaims'', t_slice (WorkloadServiceClaim_type L))]"

definition WorkloadStatus_type :: "api_lib \<Rightarrow> go_type" where
  "WorkloadStatus_type L =
     t_struct
       [(''OwnerStatus'', OwnerStatus_type L), (''SupplyChainRef'', ObjectReference_type L),
        (''Resources'', t_slice (ResourceStatus_type L))]"

definition Workload_type :: "api_lib \<Rightarrow> go_type" where
  "Workload_type L =
     t_struct
       [(''TypeMeta'', lib_type L ''TypeMeta''), (''ObjectMeta'', lib_type L ''ObjectMeta''), (''Spec'', WorkloadSpec_type L),
        (''Status'', WorkloadStatus_type L)]"

definition WorkloadList_type :: "api_lib \<Rightarrow> go_type" where
  "WorkloadList_type L =
     t_struct
       [(''TypeMeta'', lib_type L ''TypeMeta''), (''ListMeta'', lib_type L ''ListMeta''), (''Items'', t_slice (Workload_type L))]"

end
