(* ===== verification/Deep_Copy.thy ===== *)
theory Deep_Copy
  imports Api_Schema
begin

text \<open>
  \<^verbatim>\<open>pkg/apis/v1alpha1/zz_generated.deepcopy.go\<close>: the methods \<^verbatim>\<open>DeepCopyInto\<close>, \<^verbatim>\<open>DeepCopy\<close> and \<^verbatim>\<open>DeepCopyObject\<close> of every API type, and the
  kinds that the package registers in its scheme.  The file is generated from the declarations and checked in, so it can be out of date; the lemmas
  of this theory compare the two.  controller-runtime hands out copies that \<^verbatim>\<open>DeepCopyObject\<close> made of the objects in its cache, and the
  reconcilers write to what they were given: the cache is intact because copy and original share no memory.

  An object, a value of the interface \<^verbatim>\<open>runtime.Object\<close>, is nil or a pointer.  The locale \<open>deep_copier\<close> is what a registered kind has to
  provide; it is interpreted on all of them.
\<close>

section \<open>Objects\<close>

type_synonym object_copier = "gval \<Rightarrow> store \<Rightarrow> (gval option \<times> store) option"

text \<open>\<^verbatim>\<open>if c := in.DeepCopy(); c != nil { return c }; return nil\<close>: a nil pointer becomes a nil interface.\<close>

definition as_object :: "copier \<Rightarrow> object_copier" where
  "as_object copy v s =
     (case copy v s of
        None \<Rightarrow> None
      | Some (c, s') \<Rightarrow> Some (if c \<noteq> VPtr None then Some c else None, s'))"

section \<open>Generated functions\<close>

definition TemplateParam_DeepCopyInto :: "api_lib \<Rightarrow> copier" where
  "TemplateParam_DeepCopyInto L =
     copy_struct
       [(''DefaultValue'', lib_copy L ''JSON'')]"

definition TemplateParam_DeepCopy :: "api_lib \<Rightarrow> copier" where
  "TemplateParam_DeepCopy L = copy_ptr (TemplateParam_DeepCopyInto L)"

text \<open>This receiver is not a pointer, and there is no test for nil: the copy of a nil slice is an empty one.\<close>

definition TemplateParams_DeepCopyInto :: "api_lib \<Rightarrow> copier" where
  "TemplateParams_DeepCopyInto L v s =
     (if v = VSlice None then Some (VSlice (Some (length s)), s @ [Elements []]) else copy_slice (TemplateParam_DeepCopyInto L) v s)"

definition TemplateParams_DeepCopy :: "api_lib \<Rightarrow> copier" where
  "TemplateParams_DeepCopy L v s = (if v = VSlice None then Some (VSlice None, s) else TemplateParams_DeepCopyInto L v s)"

definition ConditionRequirement_DeepCopyInto :: "api_lib \<Rightarrow> copier" where
  "ConditionRequirement_DeepCopyInto L = copy_assign"

definition ConditionRequirement_DeepCopy :: "api_lib \<Rightarrow> copier" where
  "ConditionRequirement_DeepCopy L = copy_ptr (ConditionRequirement_DeepCopyInto L)"

definition FieldSelectorRequirement_DeepCopyInto :: "api_lib \<Rightarrow> copier" where
  "FieldSelectorRequirement_DeepCopyInto L =
     copy_struct
       [(''Values'', copy_slice copy_assign)]"

definition FieldSelectorRequirement_DeepCopy :: "api_lib \<Rightarrow> copier" where
  "FieldSelectorRequirement_DeepCopy L = copy_ptr (FieldSelectorRequirement_DeepCopyInto L)"

definition HealthMatchFieldSelectorRequirement_DeepCopyInto :: "api_lib \<Rightarrow> copier" where
  "HealthMatchFieldSelectorRequirement_DeepCopyInto L =
     copy_struct
       [(''FieldSelectorRequirement'', FieldSelectorRequirement_DeepCopyInto L)]"

definition HealthMatchFieldSelectorRequirement_DeepCopy :: "api_lib \<Rightarrow> copier" where
  "HealthMatchFieldSelectorRequirement_DeepCopy L = copy_ptr (HealthMatchFieldSelectorRequirement_DeepCopyInto L)"

definition HealthMatchRule_DeepCopyInto :: "api_lib \<Rightarrow> copier" where
  "HealthMatchRule_DeepCopyInto L =
     copy_struct
       [(''MatchConditions'', copy_slice copy_assign), (''MatchFields'', copy_slice (HealthMatchFieldSelectorRequirement_DeepCopyInto L))]"

definition HealthMatchRule_DeepCopy :: "api_lib \<Rightarrow> copier" where
  "HealthMatchRule_DeepCopy L = copy_ptr (HealthMatchRule_DeepCopyInto L)"

definition MultiMatchHealthRule_DeepCopyInto :: "api_lib \<Rightarrow> copier" where
  "MultiMatchHealthRule_DeepCopyInto L =
     copy_struct
       [(''Healthy'', HealthMatchRule_DeepCopyInto L), (''Unhealthy'', HealthMatchRule_DeepCopyInto L)]"

definition MultiMatchHealthRule_DeepCopy :: "api_lib \<Rightarrow> copier" where
  "MultiMatchHealthRule_DeepCopy L = copy_ptr (MultiMatchHealthRule_DeepCopyInto L)"

definition HealthRule_DeepCopyInto :: "api_lib \<Rightarrow> copier" where
  "HealthRule_DeepCopyInto L =
     copy_struct
       [(''AlwaysHealthy'', copy_ptr (lib_copy L ''RawExtension'')), (''MultiMatch'', copy_ptr (MultiMatchHealthRule_DeepCopyInto L))]"

definition HealthRule_DeepCopy :: "api_lib \<Rightarrow> copier" where
  "HealthRule_DeepCopy L = copy_ptr (HealthRule_DeepCopyInto L)"

definition RetentionPolicy_DeepCopyInto :: "api_lib \<Rightarrow> copier" where
  "RetentionPolicy_DeepCopyInto L = copy_assign"

definition RetentionPolicy_DeepCopy :: "api_lib \<Rightarrow> copier" where
  "RetentionPolicy_DeepCopy L = copy_ptr (RetentionPolicy_DeepCopyInto L)"

definition TemplateSpec_DeepCopyInto :: "api_lib \<Rightarrow> copier" where
  "TemplateSpec_DeepCopyInto L =
     copy_struct
       [(''Template'', copy_ptr (lib_copy L ''RawExtension'')), (''Params'', copy_slice (TemplateParam_DeepCopyInto L)),
        (''HealthRule'', copy_ptr (HealthRule_DeepCopyInto L)), (''RetentionPolicy'', copy_ptr copy_assign)]"

definition TemplateSpec_DeepCopy :: "api_lib \<Rightarrow> copier" where
  "TemplateSpec_DeepCopy L = copy_ptr (TemplateSpec_DeepCopyInto L)"

definition ConfigTemplateSpec_DeepCopyInto :: "api_lib \<Rightarrow> copier" where
  "ConfigTemplateSpec_DeepCopyInto L =
     copy_struct
       [(''TemplateSpec'', TemplateSpec_DeepCopyInto L)]"

definition ConfigTemplateSpec_DeepCopy :: "api_lib \<Rightarrow> copier" where
  "ConfigTemplateSpec_DeepCopy L = copy_ptr (ConfigTemplateSpec_DeepCopyInto L)"

definition ClusterConfigTemplate_DeepCopyInto :: "api_lib \<Rightarrow> copier" where
  "ClusterConfigTemplate_DeepCopyInto L =
     copy_struct
       [(''TypeMeta'', copy_assign), (''ObjectMeta'', lib_copy L ''ObjectMeta''), (''Spec'', ConfigTemplateSpec_DeepCopyInto L)]"

definition ClusterConfigTemplate_DeepCopy :: "api_lib \<Rightarrow> copier" where
  "ClusterConfigTemplate_DeepCopy L = copy_ptr (ClusterConfigTemplate_DeepCopyInto L)"

definition ClusterConfigTemplate_DeepCopyObject :: "api_lib \<Rightarrow> object_copier" where
  "ClusterConfigTemplate_DeepCopyObject L = as_object (ClusterConfigTemplate_DeepCopy L)"

definition ClusterConfigTemplateList_DeepCopyInto :: "api_lib \<Rightarrow> copier" where
  "ClusterConfigTemplateList_DeepCopyInto L =
     copy_struct
       [(''TypeMeta'', copy_assign), (''ListMeta'', lib_copy L ''ListMeta''), (''Items'', copy_slice (ClusterConfigTemplate_DeepCopyInto L))]"

definition ClusterConfigTemplateList_DeepCopy :: "api_lib \<Rightarrow> copier" where
  "ClusterConfigTemplateList_DeepCopy L = copy_ptr (ClusterConfigTemplateList_DeepCopyInto L)"

definition ClusterConfigTemplateList_DeepCopyObject :: "api_lib \<Rightarrow> object_copier" where
  "ClusterConfigTemplateList_DeepCopyObject L = as_object (ClusterConfigTemplateList_DeepCopy L)"

definition LegacySelector_DeepCopyInto :: "api_lib \<Rightarrow> copier" where
  "LegacySelector_DeepCopyInto L =
     copy_struct
       [(''Selector'', copy_map copy_assign), (''SelectorMatchExpressions'', copy_slice (lib_copy L ''LabelSelectorRequirement'')),
        (''SelectorMatchFields'', copy_slice (FieldSelectorRequirement_DeepCopyInto L))]"

definition LegacySelector_DeepCopy :: "api_lib \<Rightarrow> copier" where
  "LegacySelector_DeepCopy L = copy_ptr (LegacySelector_DeepCopyInto L)"

definition Selector_DeepCopyInto :: "api_lib \<Rightarrow> copier" where
  "Selector_DeepCopyInto L =
     copy_struct
       [(''LabelSelector'', lib_copy L ''LabelSelector''), (''MatchFields'', copy_slice (FieldSelectorRequirement_DeepCopyInto L))]"

definition Selector_DeepCopy :: "api_lib \<Rightarrow> copier" where
  "Selector_DeepCopy L = copy_ptr (Selector_DeepCopyInto L)"

definition TemplateOption_DeepCopyInto :: "api_lib \<Rightarrow> copier" where
  "TemplateOption_DeepCopyInto L =
     copy_struct
       [(''Selector'', Selector_DeepCopyInto L)]"

definition TemplateOption_DeepCopy :: "api_lib \<Rightarrow> copier" where
  "TemplateOption_DeepCopy L = copy_ptr (TemplateOption_DeepCopyInto L)"

definition DeliveryTemplateReference_DeepCopyInto :: "api_lib \<Rightarrow> copier" where
  "DeliveryTemplateReference_DeepCopyInto L =
     copy_struct
       [(''Options'', copy_slice (TemplateOption_DeepCopyInto L))]"

definition DeliveryTemplateReference_DeepCopy :: "api_lib \<Rightarrow> copier" where
  "DeliveryTemplateReference_DeepCopy L = copy_ptr (DeliveryTemplateReference_DeepCopyInto L)"

definition BlueprintParam_DeepCopyInto :: "api_lib \<Rightarrow> copier" where
  "BlueprintParam_DeepCopyInto L =
     copy_struct
       [(''Value'', copy_ptr (lib_copy L ''JSON'')), (''DefaultValue'', copy_ptr (lib_copy L ''JSON''))]"

definition BlueprintParam_DeepCopy :: "api_lib \<Rightarrow> copier" where
  "BlueprintParam_DeepCopy L = copy_ptr (BlueprintParam_DeepCopyInto L)"

definition ResourceReference_DeepCopyInto :: "api_lib \<Rightarrow> copier" where
  "ResourceReference_DeepCopyInto L = copy_assign"

definition ResourceReference_DeepCopy :: "api_lib \<Rightarrow> copier" where
  "ResourceReference_DeepCopy L = copy_ptr (ResourceReference_DeepCopyInto L)"

definition DeploymentReference_DeepCopyInto :: "api_lib \<Rightarrow> copier" where
  "DeploymentReference_DeepCopyInto L = copy_assign"

definition DeploymentReference_DeepCopy :: "api_lib \<Rightarrow> copier" where
  "DeploymentReference_DeepCopy L = copy_ptr (DeploymentReference_DeepCopyInto L)"

definition DeliveryResource_DeepCopyInto :: "api_lib \<Rightarrow> copier" where
  "DeliveryResource_DeepCopyInto L =
     copy_struct
       [(''TemplateRef'', DeliveryTemplateReference_DeepCopyInto L), (''Params'', copy_slice (BlueprintParam_DeepCopyInto L)),
        (''Sources'', copy_slice copy_assign), (''Deployment'', copy_ptr copy_assign), (''Configs'', copy_slice copy_assign)]"

definition DeliveryResource_DeepCopy :: "api_lib \<Rightarrow> copier" where
  "DeliveryResource_DeepCopy L = copy_ptr (DeliveryResource_DeepCopyInto L)"

definition ServiceAccountRef_DeepCopyInto :: "api_lib \<Rightarrow> copier" where
  "ServiceAccountRef_DeepCopyInto L = copy_assign"

definition ServiceAccountRef_DeepCopy :: "api_lib \<Rightarrow> copier" where
  "ServiceAccountRef_DeepCopy L = copy_ptr (ServiceAccountRef_DeepCopyInto L)"

definition DeliverySpec_DeepCopyInto :: "api_lib \<Rightarrow> copier" where
  "DeliverySpec_DeepCopyInto L =
     copy_struct
       [(''LegacySelector'', LegacySelector_DeepCopyInto L), (''Resources'', copy_slice (DeliveryResource_DeepCopyInto L)),
        (''Params'', copy_slice (BlueprintParam_DeepCopyInto L)), (''ServiceAccountRef'', copy_assign)]"

definition DeliverySpec_DeepCopy :: "api_lib \<Rightarrow> copier" where
  "DeliverySpec_DeepCopy L = copy_ptr (DeliverySpec_DeepCopyInto L)"

definition DeliveryStatus_DeepCopyInto :: "api_lib \<Rightarrow> copier" where
  "DeliveryStatus_DeepCopyInto L =
     copy_struct
       [(''Conditions'', copy_slice (lib_copy L ''MetaCondition''))]"

definition DeliveryStatus_DeepCopy :: "api_lib \<Rightarrow> copier" where
  "DeliveryStatus_DeepCopy L = copy_ptr (DeliveryStatus_DeepCopyInto L)"

definition ClusterDelivery_DeepCopyInto :: "api_lib \<Rightarrow> copier" where
  "ClusterDelivery_DeepCopyInto L =
     copy_struct
       [(''TypeMeta'', copy_assign), (''ObjectMeta'', lib_copy L ''ObjectMeta''), (''Spec'', DeliverySpec_DeepCopyInto L),
        (''Status'', DeliveryStatus_DeepCopyInto L)]"

definition ClusterDelivery_DeepCopy :: "api_lib \<Rightarrow> copier" where
  "ClusterDelivery_DeepCopy L = copy_ptr (ClusterDelivery_DeepCopyInto L)"

definition ClusterDelivery_DeepCopyObject :: "api_lib \<Rightarrow> object_copier" where
  "ClusterDelivery_DeepCopyObject L = as_object (ClusterDelivery_DeepCopy L)"

definition ClusterDeliveryList_DeepCopyInto :: "api_lib \<Rightarrow> copier" where
  "ClusterDeliveryList_DeepCopyInto L =
     copy_struct
       [(''TypeMeta'', copy_assign), (''ListMeta'', lib_copy L ''ListMeta''), (''Items'', copy_slice (ClusterDelivery_DeepCopyInto L))]"

definition ClusterDeliveryList_DeepCopy :: "api_lib \<Rightarrow> copier" where
  "ClusterDeliveryList_DeepCopy L = copy_ptr (ClusterDeliveryList_DeepCopyInto L)"

definition ClusterDeliveryList_DeepCopyObject :: "api_lib \<Rightarrow> object_copier" where
  "ClusterDeliveryList_DeepCopyObject L = as_object (ClusterDeliveryList_DeepCopy L)"

definition ObservedMatch_DeepCopyInto :: "api_lib \<Rightarrow> copier" where
  "ObservedMatch_DeepCopyInto L = copy_assign"

definition ObservedMatch_DeepCopy :: "api_lib \<Rightarrow> copier" where
  "ObservedMatch_DeepCopy L = copy_ptr (ObservedMatch_DeepCopyInto L)"

definition Condition_DeepCopyInto :: "api_lib \<Rightarrow> copier" where
  "Condition_DeepCopyInto L = copy_assign"

definition Condition_DeepCopy :: "api_lib \<Rightarrow> copier" where
  "Condition_DeepCopy L = copy_ptr (Condition_DeepCopyInto L)"

definition ObservedCompletion_DeepCopyInto :: "api_lib \<Rightarrow> copier" where
  "ObservedCompletion_DeepCopyInto L =
     copy_struct
       [(''SucceededCondition'', copy_assign), (''FailedCondition'', copy_ptr copy_assign)]"

definition ObservedCompletion_DeepCopy :: "api_lib \<Rightarrow> copier" where
  "ObservedCompletion_DeepCopy L = copy_ptr (ObservedCompletion_DeepCopyInto L)"

definition DeploymentSpec_DeepCopyInto :: "api_lib \<Rightarrow> copier" where
  "DeploymentSpec_DeepCopyInto L =
     copy_struct
       [(''TemplateSpec'', TemplateSpec_DeepCopyInto L), (''ObservedMatches'', copy_slice copy_assign),
        (''ObservedCompletion'', copy_ptr (ObservedCompletion_DeepCopyInto L))]"

definition DeploymentSpec_DeepCopy :: "api_lib \<Rightarrow> copier" where
  "DeploymentSpec_DeepCopy L = copy_ptr (DeploymentSpec_DeepCopyInto L)"

definition ClusterDeploymentTemplate_DeepCopyInto :: "api_lib \<Rightarrow> copier" where
  "ClusterDeploymentTemplate_DeepCopyInto L =
     copy_struct
       [(''TypeMeta'', copy_assign), (''ObjectMeta'', lib_copy L ''ObjectMeta''), (''Spec'', DeploymentSpec_DeepCopyInto L)]"

definition ClusterDeploymentTemplate_DeepCopy :: "api_lib \<Rightarrow> copier" where
  "ClusterDeploymentTemplate_DeepCopy L = copy_ptr (ClusterDeploymentTemplate_DeepCopyInto L)"

definition ClusterDeploymentTemplate_DeepCopyObject :: "api_lib \<Rightarrow> object_copier" where
  "ClusterDeploymentTemplate_DeepCopyObject L = as_object (ClusterDeploymentTemplate_DeepCopy L)"

definition ClusterDeploymentTemplateList_DeepCopyInto :: "api_lib \<Rightarrow> copier" where
  "ClusterDeploymentTemplateList_DeepCopyInto L =
     copy_struct
       [(''TypeMeta'', copy_assign), (''ListMeta'', lib_copy L ''ListMeta''),
        (''Items'', copy_slice (ClusterDeploymentTemplate_DeepCopyInto L))]"

definition ClusterDeploymentTemplateList_DeepCopy :: "api_lib \<Rightarrow> copier" where
  "ClusterDeploymentTemplateList_DeepCopy L = copy_ptr (ClusterDeploymentTemplateList_DeepCopyInto L)"

definition ClusterDeploymentTemplateList_DeepCopyObject :: "api_lib \<Rightarrow> object_copier" where
  "ClusterDeploymentTemplateList_DeepCopyObject L = as_object (ClusterDeploymentTemplateList_DeepCopy L)"

definition ImageTemplateSpec_DeepCopyInto :: "api_lib \<Rightarrow> copier" where
  "ImageTemplateSpec_DeepCopyInto L =
     copy_struct
       [(''TemplateSpec'', TemplateSpec_DeepCopyInto L)]"

definition ImageTemplateSpec_DeepCopy :: "api_lib \<Rightarrow> copier" where
  "ImageTemplateSpec_DeepCopy L = copy_ptr (ImageTemplateSpec_DeepCopyInto L)"

definition ClusterImageTemplate_DeepCopyInto :: "api_lib \<Rightarrow> copier" where
  "ClusterImageTemplate_DeepCopyInto L =
     copy_struct
       [(''TypeMeta'', copy_assign), (''ObjectMeta'', lib_copy L ''ObjectMeta''), (''Spec'', ImageTemplateSpec_DeepCopyInto L)]"

definition ClusterImageTemplate_DeepCopy :: "api_lib \<Rightarrow> copier" where
  "ClusterImageTemplate_DeepCopy L = copy_ptr (ClusterImageTemplate_DeepCopyInto L)"

definition ClusterImageTemplate_DeepCopyObject :: "api_lib \<Rightarrow> object_copier" where
  "ClusterImageTemplate_DeepCopyObject L = as_object (ClusterImageTemplate_DeepCopy L)"

definition ClusterImageTemplateList_DeepCopyInto :: "api_lib \<Rightarrow> copier" where
  "ClusterImageTemplateList_DeepCopyInto L =
     copy_struct
       [(''TypeMeta'', copy_assign), (''ListMeta'', lib_copy L ''ListMeta''), (''Items'', copy_slice (ClusterImageTemplate_DeepCopyInto L))]"

definition ClusterImageTemplateList_DeepCopy :: "api_lib \<Rightarrow> copier" where
  "ClusterImageTemplateList_DeepCopy L = copy_ptr (ClusterImageTemplateList_DeepCopyInto L)"

definition ClusterImageTemplateList_DeepCopyObject :: "api_lib \<Rightarrow> object_copier" where
  "ClusterImageTemplateList_DeepCopyObject L = as_object (ClusterImageTemplateList_DeepCopy L)"

definition RunTemplateSpec_DeepCopyInto :: "api_lib \<Rightarrow> copier" where
  "RunTemplateSpec_DeepCopyInto L =
     copy_struct
       [(''Template'', lib_copy L ''RawExtension''), (''Outputs'', copy_map copy_assign)]"

definition RunTemplateSpec_DeepCopy :: "api_lib \<Rightarrow> copier" where
  "RunTemplateSpec_DeepCopy L = copy_ptr (RunTemplateSpec_DeepCopyInto L)"

definition ClusterRunTemplate_DeepCopyInto :: "api_lib \<Rightarrow> copier" where
  "ClusterRunTemplate_DeepCopyInto L =
     copy_struct
       [(''TypeMeta'', copy_assign), (''ObjectMeta'', lib_copy L ''ObjectMeta''), (''Spec'', RunTemplateSpec_DeepCopyInto L)]"

definition ClusterRunTemplate_DeepCopy :: "api_lib \<Rightarrow> copier" where
  "ClusterRunTemplate_DeepCopy L = copy_ptr (ClusterRunTemplate_DeepCopyInto L)"

definition ClusterRunTemplate_DeepCopyObject :: "api_lib \<Rightarrow> object_copier" where
  "ClusterRunTemplate_DeepCopyObject L = as_object (ClusterRunTemplate_DeepCopy L)"

definition ClusterRunTemplateList_DeepCopyInto :: "api_lib \<Rightarrow> copier" where
  "ClusterRunTemplateList_DeepCopyInto L =
     copy_struct
       [(''TypeMeta'', copy_assign), (''ListMeta'', lib_copy L ''ListMeta''), (''Items'', copy_slice (ClusterRunTemplate_DeepCopyInto L))]"

definition ClusterRunTemplateList_DeepCopy :: "api_lib \<Rightarrow> copier" where
  "ClusterRunTemplateList_DeepCopy L = copy_ptr (ClusterRunTemplateList_DeepCopyInto L)"

definition ClusterRunTemplateList_DeepCopyObject :: "api_lib \<Rightarrow> object_copier" where
  "ClusterRunTemplateList_DeepCopyObject L = as_object (ClusterRunTemplateList_DeepCopy L)"

definition SourceTemplateSpec_DeepCopyInto :: "api_lib \<Rightarrow> copier" where
  "SourceTemplateSpec_DeepCopyInto L =
     copy_struct
       [(''TemplateSpec'', TemplateSpec_DeepCopyInto L)]"

definition SourceTemplateSpec_DeepCopy :: "api_lib \<Rightarrow> copier" where
  "SourceTemplateSpec_DeepCopy L = copy_ptr (SourceTemplateSpec_DeepCopyInto L)"

definition ClusterSourceTemplate_DeepCopyInto :: "api_lib \<Rightarrow> copier" where
  "ClusterSourceTemplate_DeepCopyInto L =
     copy_struct
       [(''TypeMeta'', copy_assign), (''ObjectMeta'', lib_copy L ''ObjectMeta''), (''Spec'', SourceTemplateSpec_DeepCopyInto L)]"

definition ClusterSourceTemplate_DeepCopy :: "api_lib \<Rightarrow> copier" where
  "ClusterSourceTemplate_DeepCopy L = copy_ptr (ClusterSourceTemplate_DeepCopyInto L)"

definition ClusterSourceTemplate_DeepCopyObject :: "api_lib \<Rightarrow> object_copier" where
  "ClusterSourceTemplate_DeepCopyObject L = as_object (ClusterSourceTemplate_DeepCopy L)"

definition ClusterSourceTemplateList_DeepCopyInto :: "api_lib \<Rightarrow> copier" where
  "ClusterSourceTemplateList_DeepCopyInto L =
     copy_struct
       [(''TypeMeta'', copy_assign), (''ListMeta'', lib_copy L ''ListMeta''), (''Items'', copy_slice (ClusterSourceTemplate_DeepCopyInto L))]"

definition ClusterSourceTemplateList_DeepCopy :: "api_lib \<Rightarrow> copier" where
  "ClusterSourceTemplateList_DeepCopy L = copy_ptr (ClusterSourceTemplateList_DeepCopyInto L)"

definition ClusterSourceTemplateList_DeepCopyObject :: "api_lib \<Rightarrow> object_copier" where
  "ClusterSourceTemplateList_DeepCopyObject L = as_object (ClusterSourceTemplateList_DeepCopy L)"

definition SupplyChainTemplateReference_DeepCopyInto :: "api_lib \<Rightarrow> copier" where
  "SupplyChainTemplateReference_DeepCopyInto L =
     copy_struct
       [(''Options'', copy_slice (TemplateOption_DeepCopyInto L))]"

definition SupplyChainTemplateReference_DeepCopy :: "api_lib \<Rightarrow> copier" where
  "SupplyChainTemplateReference_DeepCopy L = copy_ptr (SupplyChainTemplateReference_DeepCopyInto L)"

definition SupplyChainResource_DeepCopyInto :: "api_lib \<Rightarrow> copier" where
  "SupplyChainResource_DeepCopyInto L =
     copy_struct
       [(''TemplateRef'', SupplyChainTemplateReference_DeepCopyInto L), (''Params'', copy_slice (BlueprintParam_DeepCopyInto L)),
        (''Sources'', copy_slice copy_assign), (''Images'', copy_slice copy_assign), (''Configs'', copy_slice copy_assign)]"

definition SupplyChainResource_DeepCopy :: "api_lib \<Rightarrow> copier" where
  "SupplyChainResource_DeepCopy L = copy_ptr (SupplyChainResource_DeepCopyInto L)"

definition SupplyChainSpec_DeepCopyInto :: "api_lib \<Rightarrow> copier" where
  "SupplyChainSpec_DeepCopyInto L =
     copy_struct
       [(''LegacySelector'', LegacySelector_DeepCopyInto L), (''Resources'', copy_slice (SupplyChainResource_DeepCopyInto L)),
        (''Params'', copy_slice (BlueprintParam_DeepCopyInto L)), (''ServiceAccountRef'', copy_assign)]"

definition SupplyChainSpec_DeepCopy :: "api_lib \<Rightarrow> copier" where
  "SupplyChainSpec_DeepCopy L = copy_ptr (SupplyChainSpec_DeepCopyInto L)"

definition SupplyChainStatus_DeepCopyInto :: "api_lib \<Rightarrow> copier" where
  "SupplyChainStatus_DeepCopyInto L =
     copy_struct
       [(''Conditions'', copy_slice (lib_copy L ''MetaCondition''))]"

definition SupplyChainStatus_DeepCopy :: "api_lib \<Rightarrow> copier" where
  "SupplyChainStatus_DeepCopy L = copy_ptr (SupplyChainStatus_DeepCopyInto L)"

definition ClusterSupplyChain_DeepCopyInto :: "api_lib \<Rightarrow> copier" where
  "ClusterSupplyChain_DeepCopyInto L =
     copy_struct
       [(''TypeMeta'', copy_assign), (''ObjectMeta'', lib_copy L ''ObjectMeta''), (''Spec'', SupplyChainSpec_DeepCopyInto L),
        (''Status'', SupplyChainStatus_DeepCopyInto L)]"

definition ClusterSupplyChain_DeepCopy :: "api_lib \<Rightarrow> copier" where
  "ClusterSupplyChain_DeepCopy L = copy_ptr (ClusterSupplyChain_DeepCopyInto L)"

definition ClusterSupplyChain_DeepCopyObject :: "api_lib \<Rightarrow> object_copier" where
  "ClusterSupplyChain_DeepCopyObject L = as_object (ClusterSupplyChain_DeepCopy L)"

definition ClusterSupplyChainList_DeepCopyInto :: "api_lib \<Rightarrow> copier" where
  "ClusterSupplyChainList_DeepCopyInto L =
     copy_struct
       [(''TypeMeta'', copy_assign), (''ListMeta'', lib_copy L ''ListMeta''), (''Items'', copy_slice (ClusterSupplyChain_DeepCopyInto L))]"

definition ClusterSupplyChainList_DeepCopy :: "api_lib \<Rightarrow> copier" where
  "ClusterSupplyChainList_DeepCopy L = copy_ptr (ClusterSupplyChainList_DeepCopyInto L)"

definition ClusterSupplyChainList_DeepCopyObject :: "api_lib \<Rightarrow> object_copier" where
  "ClusterSupplyChainList_DeepCopyObject L = as_object (ClusterSupplyChainList_DeepCopy L)"

definition ClusterTemplate_DeepCopyInto :: "api_lib \<Rightarrow> copier" where
  "ClusterTemplate_DeepCopyInto L =
     copy_struct
       [(''TypeMeta'', copy_assign), (''ObjectMeta'', lib_copy L ''ObjectMeta''), (''Spec'', TemplateSpec_DeepCopyInto L)]"

definition ClusterTemplate_DeepCopy :: "api_lib \<Rightarrow> copier" where
  "ClusterTemplate_DeepCopy L = copy_ptr (ClusterTemplate_DeepCopyInto L)"

definition ClusterTemplate_DeepCopyObject :: "api_lib \<Rightarrow> object_copier" where
  "ClusterTemplate_DeepCopyObject L = as_object (ClusterTemplate_DeepCopy L)"

definition ClusterTemplateList_DeepCopyInto :: "api_lib \<Rightarrow> copier" where
  "ClusterTemplateList_DeepCopyInto L =
     copy_struct
       [(''TypeMeta'', copy_assign), (''ListMeta'', lib_copy L ''ListMeta''), (''Items'', copy_slice (ClusterTemplate_DeepCopyInto L))]"

definition ClusterTemplateList_DeepCopy :: "api_lib \<Rightarrow> copier" where
  "ClusterTemplateList_DeepCopy L = copy_ptr (ClusterTemplateList_DeepCopyInto L)"

definition ClusterTemplateList_DeepCopyObject :: "api_lib \<Rightarrow> object_copier" where
  "ClusterTemplateList_DeepCopyObject L = as_object (ClusterTemplateList_DeepCopy L)"

definition OwnerStatus_DeepCopyInto :: "api_lib \<Rightarrow> copier" where
  "OwnerStatus_DeepCopyInto L =
     copy_struct
       [(''Conditions'', copy_slice (lib_copy L ''MetaCondition''))]"

definition OwnerStatus_DeepCopy :: "api_lib \<Rightarrow> copier" where
  "OwnerStatus_DeepCopy L = copy_ptr (OwnerStatus_DeepCopyInto L)"

definition OwnerParam_DeepCopyInto :: "api_lib \<Rightarrow> copier" where
  "OwnerParam_DeepCopyInto L =
     copy_struct
       [(''Value'', lib_copy L ''JSON'')]"

definition OwnerParam_DeepCopy :: "api_lib \<Rightarrow> copier" where
  "OwnerParam_DeepCopy L = copy_ptr (OwnerParam_DeepCopyInto L)"

definition GitRef_DeepCopyInto :: "api_lib \<Rightarrow> copier" where
  "GitRef_DeepCopyInto L =
     copy_struct
       [(''Branch'', copy_ptr copy_assign), (''Tag'', copy_ptr copy_assign), (''Commit'', copy_ptr copy_assign)]"

definition GitRef_DeepCopy :: "api_lib \<Rightarrow> copier" where
  "GitRef_DeepCopy L = copy_ptr (GitRef_DeepCopyInto L)"

definition GitSource_DeepCopyInto :: "api_lib \<Rightarrow> copier" where
  "GitSource_DeepCopyInto L =
     copy_struct
       [(''URL'', copy_ptr copy_assign), (''Ref'', copy_ptr (GitRef_DeepCopyInto L))]"

definition GitSource_DeepCopy :: "api_lib \<Rightarrow> copier" where
  "GitSource_DeepCopy L = copy_ptr (GitSource_DeepCopyInto L)"

definition Source_DeepCopyInto :: "api_lib \<Rightarrow> copier" where
  "Source_DeepCopyInto L =
     copy_struct
       [(''Git'', copy_ptr (GitSource_DeepCopyInto L)), (''Image'', copy_ptr copy_assign), (''Subpath'', copy_ptr copy_assign)]"

definition Source_DeepCopy :: "api_lib \<Rightarrow> copier" where
  "Source_DeepCopy L = copy_ptr (Source_DeepCopyInto L)"

definition ObjectReference_DeepCopyInto :: "api_lib \<Rightarrow> copier" where
  "ObjectReference_DeepCopyInto L = copy_assign"

definition ObjectReference_DeepCopy :: "api_lib \<Rightarrow> copier" where
  "ObjectReference_DeepCopy L = copy_ptr (ObjectReference_DeepCopyInto L)"

definition StampedRef_DeepCopyInto :: "api_lib \<Rightarrow> copier" where
  "StampedRef_DeepCopyInto L =
     copy_struct
       [(''ObjectReference'', copy_ptr copy_assign)]"

definition StampedRef_DeepCopy :: "api_lib \<Rightarrow> copier" where
  "StampedRef_DeepCopy L = copy_ptr (StampedRef_DeepCopyInto L)"

definition Input_DeepCopyInto :: "api_lib \<Rightarrow> copier" where
  "Input_DeepCopyInto L = copy_assign"

definition Input_DeepCopy :: "api_lib \<Rightarrow> copier" where
  "Input_DeepCopy L = copy_ptr (Input_DeepCopyInto L)"

definition Output_DeepCopyInto :: "api_lib \<Rightarrow> copier" where
  "Output_DeepCopyInto L =
     copy_struct
       [(''LastTransitionTime'', lib_copy L ''Time'')]"

definition Output_DeepCopy :: "api_lib \<Rightarrow> copier" where
  "Output_DeepCopy L = copy_ptr (Output_DeepCopyInto L)"

definition RealizedResource_DeepCopyInto :: "api_lib \<Rightarrow> copier" where
  "RealizedResource_DeepCopyInto L =
     copy_struct
       [(''StampedRef'', copy_ptr (StampedRef_DeepCopyInto L)), (''TemplateRef'', copy_ptr copy_assign),
        (''Inputs'', copy_slice copy_assign), (''Outputs'', copy_slice (Output_DeepCopyInto L))]"

definition RealizedResource_DeepCopy :: "api_lib \<Rightarrow> copier" where
  "RealizedResource_DeepCopy L = copy_ptr (RealizedResource_DeepCopyInto L)"

definition ResourceStatus_DeepCopyInto :: "api_lib \<Rightarrow> copier" where
  "ResourceStatus_DeepCopyInto L =
     copy_struct
       [(''RealizedResource'', RealizedResource_DeepCopyInto L), (''Conditions'', copy_slice (lib_copy L ''MetaCondition''))]"

definition ResourceStatus_DeepCopy :: "api_lib \<Rightarrow> copier" where
  "ResourceStatus_DeepCopy L = copy_ptr (ResourceStatus_DeepCopyInto L)"

definition DeliverableSpec_DeepCopyInto :: "api_lib \<Rightarrow> copier" where
  "DeliverableSpec_DeepCopyInto L =
     copy_struct
       [(''Params'', copy_slice (OwnerParam_DeepCopyInto L)), (''Source'', copy_ptr (Source_DeepCopyInto L))]"

definition DeliverableSpec_DeepCopy :: "api_lib \<Rightarrow> copier" where
  "DeliverableSpec_DeepCopy L = copy_ptr (DeliverableSpec_DeepCopyInto L)"

definition DeliverableStatus_DeepCopyInto :: "api_lib \<Rightarrow> copier" where
  "DeliverableStatus_DeepCopyInto L =
     copy_struct
       [(''OwnerStatus'', OwnerStatus_DeepCopyInto L), (''DeliveryRef'', copy_assign),
        (''Resources'', copy_slice (ResourceStatus_DeepCopyInto L))]"

definition DeliverableStatus_DeepCopy :: "api_lib \<Rightarrow> copier" where
  "DeliverableStatus_DeepCopy L = copy_ptr (DeliverableStatus_DeepCopyInto L)"

definition Deliverable_DeepCopyInto :: "api_lib \<Rightarrow> copier" where
  "Deliverable_DeepCopyInto L =
     copy_struct
       [(''TypeMeta'', copy_assign), (''ObjectMeta'', lib_copy L ''ObjectMeta''), (''Spec'', DeliverableSpec_DeepCopyInto L),
        (''Status'', DeliverableStatus_DeepCopyInto L)]"

definition Deliverable_DeepCopy :: "api_lib \<Rightarrow> copier" where
  "Deliverable_DeepCopy L = copy_ptr (Deliverable_DeepCopyInto L)"

definition Deliverable_DeepCopyObject :: "api_lib \<Rightarrow> object_copier" where
  "Deliverable_DeepCopyObject L = as_object (Deliverable_DeepCopy L)"

definition DeliverableList_DeepCopyInto :: "api_lib \<Rightarrow> copier" where
  "DeliverableList_DeepCopyInto L =
     copy_struct
       [(''TypeMeta'', copy_assign), (''ListMeta'', lib_copy L ''ListMeta''), (''Items'', copy_slice (Deliverable_DeepCopyInto L))]"

definition DeliverableList_DeepCopy :: "api_lib \<Rightarrow> copier" where
  "DeliverableList_DeepCopy L = copy_ptr (DeliverableList_DeepCopyInto L)"

definition DeliverableList_DeepCopyObject :: "api_lib \<Rightarrow> object_copier" where
  "DeliverableList_DeepCopyObject L = as_object (DeliverableList_DeepCopy L)"

definition TemplateReference_DeepCopyInto :: "api_lib \<Rightarrow> copier" where
  "TemplateReference_DeepCopyInto L = copy_assign"

definition TemplateReference_DeepCopy :: "api_lib \<Rightarrow> copier" where
  "TemplateReference_DeepCopy L = copy_ptr (TemplateReference_DeepCopyInto L)"

definition ResourceType_DeepCopyInto :: "api_lib \<Rightarrow> copier" where
  "ResourceType_DeepCopyInto L = copy_assign"

definition ResourceType_DeepCopy :: "api_lib \<Rightarrow> copier" where
  "ResourceType_DeepCopy L = copy_ptr (ResourceType_DeepCopyInto L)"

definition ResourceSelector_DeepCopyInto :: "api_lib \<Rightarrow> copier" where
  "ResourceSelector_DeepCopyInto L =
     copy_struct
       [(''Resource'', copy_assign), (''MatchingLabels'', copy_map copy_assign)]"

definition ResourceSelector_DeepCopy :: "api_lib \<Rightarrow> copier" where
  "ResourceSelector_DeepCopy L = copy_ptr (ResourceSelector_DeepCopyInto L)"

definition RunnableSpec_DeepCopyInto :: "api_lib \<Rightarrow> copier" where
  "RunnableSpec_DeepCopyInto L =
     copy_struct
       [(''RunTemplateRef'', copy_assign), (''Selector'', copy_ptr (ResourceSelector_DeepCopyInto L)),
        (''Inputs'', copy_map (lib_copy L ''JSON'')), (''RetentionPolicy'', copy_assign)]"

definition RunnableSpec_DeepCopy :: "api_lib \<Rightarrow> copier" where
  "RunnableSpec_DeepCopy L = copy_ptr (RunnableSpec_DeepCopyInto L)"

definition RunnableStatus_DeepCopyInto :: "api_lib \<Rightarrow> copier" where
  "RunnableStatus_DeepCopyInto L =
     copy_struct
       [(''Conditions'', copy_slice (lib_copy L ''MetaCondition'')), (''Outputs'', copy_map (lib_copy L ''JSON''))]"

definition RunnableStatus_DeepCopy :: "api_lib \<Rightarrow> copier" where
  "RunnableStatus_DeepCopy L = copy_ptr (RunnableStatus_DeepCopyInto L)"

definition Runnable_DeepCopyInto :: "api_lib \<Rightarrow> copier" where
  "Runnable_DeepCopyInto L =
     copy_struct
       [(''TypeMeta'', copy_assign), (''ObjectMeta'', lib_copy L ''ObjectMeta''), (''Spec'', RunnableSpec_DeepCopyInto L),
        (''Status'', RunnableStatus_DeepCopyInto L)]"

definition Runnable_DeepCopy :: "api_lib \<Rightarrow> copier" where
  "Runnable_DeepCopy L = copy_ptr (Runnable_DeepCopyInto L)"

definition Runnable_DeepCopyObject :: "api_lib \<Rightarrow> object_copier" where
  "Runnable_DeepCopyObject L = as_object (Runnable_DeepCopy L)"

definition RunnableList_DeepCopyInto :: "api_lib \<Rightarrow> copier" where
  "RunnableList_DeepCopyInto L =
     copy_struct
       [(''TypeMeta'', copy_assign), (''ListMeta'', lib_copy L ''ListMeta''), (''Items'', copy_slice (Runnable_DeepCopyInto L))]"

definition RunnableList_DeepCopy :: "api_lib \<Rightarrow> copier" where
  "RunnableList_DeepCopy L = copy_ptr (RunnableList_DeepCopyInto L)"

definition RunnableList_DeepCopyObject :: "api_lib \<Rightarrow> object_copier" where
  "RunnableList_DeepCopyObject L = as_object (RunnableList_DeepCopy L)"

definition WorkloadBuild_DeepCopyInto :: "api_lib \<Rightarrow> copier" where
  "WorkloadBuild_DeepCopyInto L =
     copy_struct
       [(''Env'', copy_slice (lib_copy L ''EnvVar''))]"

definition WorkloadBuild_DeepCopy :: "api_lib \<Rightarrow> copier" where
  "WorkloadBuild_DeepCopy L = copy_ptr (WorkloadBuild_DeepCopyInto L)"

definition WorkloadServiceClaimReference_DeepCopyInto :: "api_lib \<Rightarrow> copier" where
  "WorkloadServiceClaimReference_DeepCopyInto L = copy_assign"

definition WorkloadServiceClaimReference_DeepCopy :: "api_lib \<Rightarrow> copier" where
  "WorkloadServiceClaimReference_DeepCopy L = copy_ptr (WorkloadServiceClaimReference_DeepCopyInto L)"

definition WorkloadServiceClaim_DeepCopyInto :: "api_lib \<Rightarrow> copier" where
  "WorkloadServiceClaim_DeepCopyInto L =
     copy_struct
       [(''Ref'', copy_ptr copy_assign)]"

definition WorkloadServiceClaim_DeepCopy :: "api_lib \<Rightarrow> copier" where
  "WorkloadServiceClaim_DeepCopy L = copy_ptr (WorkloadServiceClaim_DeepCopyInto L)"

definition WorkloadSpec_DeepCopyInto :: "api_lib \<Rightarrow> copier" where
  "WorkloadSpec_DeepCopyInto L =
     copy_struct
       [(''Params'', copy_slice (OwnerParam_DeepCopyInto L)), (''Source'', copy_ptr (Source_DeepCopyInto L)),
        (''Build'', WorkloadBuild_DeepCopyInto L), (''Env'', copy_slice (lib_copy L ''EnvVar'')), (''Image'', copy_ptr copy_assign),
        (''Resources'', copy_ptr (lib_copy L ''ResourceRequirements'')),
        (''ServiceClaims'', copy_slice (WorkloadServiceClaim_DeepCopyInto L))]"

definition WorkloadSpec_DeepCopy :: "api_lib \<Rightarrow> copier" where
  "WorkloadSpec_DeepCopy L = copy_ptr (WorkloadSpec_DeepCopyInto L)"

definition WorkloadStatus_DeepCopyInto :: "api_lib \<Rightarrow> copier" where
  "WorkloadStatus_DeepCopyInto L =
     copy_struct
       [(''OwnerStatus'', OwnerStatus_DeepCopyInto L), (''SupplyChainRef'', copy_assign),
        (''Resources'', copy_slice (ResourceStatus_DeepCopyInto L))]"

definition WorkloadStatus_DeepCopy :: "api_lib \<Rightarrow> copier" where
  "WorkloadStatus_DeepCopy L = copy_ptr (WorkloadStatus_DeepCopyInto L)"

definition Workload_DeepCopyInto :: "api_lib \<Rightarrow> copier" where
  "Workload_DeepCopyInto L =
     copy_struct
       [(''TypeMeta'', copy_assign), (''ObjectMeta'', lib_copy L ''ObjectMeta''), (''Spec'', WorkloadSpec_DeepCopyInto L),
        (''Status'', WorkloadStatus_DeepCopyInto L)]"

definition Workload_DeepCopy :: "api_lib \<Rightarrow> copier" where
  "Workload_DeepCopy L = copy_ptr (Workload_DeepCopyInto L)"

definition Workload_DeepCopyObject :: "api_lib \<Rightarrow> object_copier" where
  "Workload_DeepCopyObject L = as_object (Workload_DeepCopy L)"

definition WorkloadList_DeepCopyInto :: "api_lib \<Rightarrow> copier" where
  "WorkloadList_DeepCopyInto L =
     copy_struct
       [(''TypeMeta'', copy_assign), (''ListMeta'', lib_copy L ''ListMeta''), (''Items'', copy_slice (Workload_DeepCopyInto L))]"

definition WorkloadList_DeepCopy :: "api_lib \<Rightarrow> copier" where
  "WorkloadList_DeepCopy L = copy_ptr (WorkloadList_DeepCopyInto L)"

definition WorkloadList_DeepCopyObject :: "api_lib \<Rightarrow> object_copier" where
  "WorkloadList_DeepCopyObject L = as_object (WorkloadList_DeepCopy L)"

section \<open>Registered kinds\<close>

type_synonym registration = "string \<times> (api_lib \<Rightarrow> go_type) \<times> (api_lib \<Rightarrow> object_copier)"

definition ClusterConfigTemplate_init :: "registration list" where
  "ClusterConfigTemplate_init =
     [(''ClusterConfigTemplate'', ClusterConfigTemplate_type, ClusterConfigTemplate_DeepCopyObject),
      (''ClusterConfigTemplateList'', ClusterConfigTemplateList_type, ClusterConfigTemplateList_DeepCopyObject)]"

definition ClusterDelivery_init :: "registration list" where
  "ClusterDelivery_init =
     [(''ClusterDelivery'', ClusterDelivery_type, ClusterDelivery_DeepCopyObject),
      (''ClusterDeliveryList'', ClusterDeliveryList_type, ClusterDeliveryList_DeepCopyObject)]"

definition ClusterDeploymentTemplate_init :: "registration list" where
  "ClusterDeploymentTemplate_init =
     [(''ClusterDeploymentTemplate'', ClusterDeploymentTemplate_type, ClusterDeploymentTemplate_DeepCopyObject),
      (''ClusterDeploymentTemplateList'', ClusterDeploymentTemplateList_type, ClusterDeploymentTemplateList_DeepCopyObject)]"

definition ClusterImageTemplate_init :: "registration list" where
  "ClusterImageTemplate_init =
     [(''ClusterImageTemplate'', ClusterImageTemplate_type, ClusterImageTemplate_DeepCopyObject),
      (''ClusterImageTemplateList'', ClusterImageTemplateList_type, ClusterImageTemplateList_DeepCopyObject)]"

definition ClusterRunTemplate_init :: "registration list" where
  "ClusterRunTemplate_init =
     [(''ClusterRunTemplate'', ClusterRunTemplate_type, ClusterRunTemplate_DeepCopyObject),
      (''ClusterRunTemplateList'', ClusterRunTemplateList_type, ClusterRunTemplateList_DeepCopyObject)]"

definition ClusterSourceTemplate_init :: "registration list" where
  "ClusterSourceTemplate_init =
     [(''ClusterSourceTemplate'', ClusterSourceTemplate_type, ClusterSourceTemplate_DeepCopyObject),
      (''ClusterSourceTemplateList'', ClusterSourceTemplateList_type, ClusterSourceTemplateList_DeepCopyObject)]"

definition ClusterSupplyChain_init :: "registration list" where
  "ClusterSupplyChain_init =
     [(''ClusterSupplyChain'', ClusterSupplyChain_type, ClusterSupplyChain_DeepCopyObject),
      (''ClusterSupplyChainList'', ClusterSupplyChainList_type, ClusterSupplyChainList_DeepCopyObject)]"

definition ClusterTemplate_init :: "registration list" where
  "ClusterTemplate_init =
     [(''ClusterTemplate'', ClusterTemplate_type, ClusterTemplate_DeepCopyObject),
      (''ClusterTemplateList'', ClusterTemplateList_type, ClusterTemplateList_DeepCopyObject)]"

definition Deliverable_init :: "registration list" where
  "Deliverable_init =
     [(''Deliverable'', Deliverable_type, Deliverable_DeepCopyObject),
      (''DeliverableList'', DeliverableList_type, DeliverableList_DeepCopyObject)]"

definition Runnable_init :: "registration list" where
  "Runnable_init =
     [(''Runnable'', Runnable_type, Runnable_DeepCopyObject),
      (''RunnableList'', RunnableList_type, RunnableList_DeepCopyObject)]"

definition Workload_init :: "registration list" where
  "Workload_init =
     [(''Workload'', Workload_type, Workload_DeepCopyObject),
      (''WorkloadList'', WorkloadList_type, WorkloadList_DeepCopyObject)]"

text \<open>The kinds that \<^verbatim>\<open>AddToScheme\<close> knows after the package is initialized.\<close>

definition SchemeBuilder :: "registration list" where
  "SchemeBuilder =
     ClusterConfigTemplate_init @
     ClusterDelivery_init @
     ClusterDeploymentTemplate_init @
     ClusterImageTemplate_init @
     ClusterRunTemplate_init @
     ClusterSourceTemplate_init @
     ClusterSupplyChain_init @
     ClusterTemplate_init @
     Deliverable_init @
     Runnable_init @
     Workload_init"

lemmas inits = SchemeBuilder_def ClusterConfigTemplate_init_def ClusterDelivery_init_def ClusterDeploymentTemplate_init_def ClusterImageTemplate_init_def ClusterRunTemplate_init_def ClusterSourceTemplate_init_def ClusterSupplyChain_init_def ClusterTemplate_init_def Deliverable_init_def Runnable_init_def Workload_init_def

section \<open>The generated functions agree with the declarations\<close>

lemmas copy_rules = go_locals plain_struct copies_assign copies_ptr copies_slice copies_map copies_struct struct_copies_def lib_names

lemma TemplateParam_copied [go_types]:
  assumes "lib_ok L"
  shows "is_local (TemplateParam_type L)" "copies (TemplateParam_type L) (TemplateParam_DeepCopyInto L)"
  using assms by (simp_all add: TemplateParam_type_def TemplateParam_DeepCopyInto_def copy_rules go_types)

lemma TemplateParams_copied [go_types]:
  assumes "lib_ok L"
  shows "is_local (TemplateParams_type L)" "copies (TemplateParams_type L) (TemplateParams_DeepCopy L)"
proof -
  show "is_local (TemplateParams_type L)" using assms by (simp add: TemplateParams_type_def copy_rules go_types)
  have "copies (TemplateParams_type L) (copy_slice (TemplateParam_DeepCopyInto L))"
    using assms by (simp add: TemplateParams_type_def copy_rules go_types)
  moreover have "TemplateParams_DeepCopy L = copy_slice (TemplateParam_DeepCopyInto L)"
    by (rule ext, rule ext) (simp add: TemplateParams_DeepCopy_def TemplateParams_DeepCopyInto_def copy_slice_def)
  ultimately show "copies (TemplateParams_type L) (TemplateParams_DeepCopy L)" by simp
qed

lemma ConditionRequirement_copied [go_types]:
  assumes "lib_ok L"
  shows "is_local (ConditionRequirement_type L)" "plain (ConditionRequirement_type L)" "copies (ConditionRequirement_type L) (ConditionRequirement_DeepCopyInto L)"
  using assms by (simp_all add: ConditionRequirement_type_def ConditionRequirement_DeepCopyInto_def copy_rules go_types)

lemma FieldSelectorOperator_plain [go_types]: "is_local FieldSelectorOperator_type" "plain FieldSelectorOperator_type"
  by (simp_all add: FieldSelectorOperator_type_def go_types)

lemma FieldSelectorRequirement_copied [go_types]:
  assumes "lib_ok L"
  shows "is_local (FieldSelectorRequirement_type L)" "copies (FieldSelectorRequirement_type L) (FieldSelectorRequirement_DeepCopyInto L)"
  using assms by (simp_all add: FieldSelectorRequirement_type_def FieldSelectorRequirement_DeepCopyInto_def copy_rules go_types)

lemma HealthMatchFieldSelectorRequirement_copied [go_types]:
  assumes "lib_ok L"
  shows "is_local (HealthMatchFieldSelectorRequirement_type L)" "copies (HealthMatchFieldSelectorRequirement_type L) (HealthMatchFieldSelectorRequirement_DeepCopyInto L)"
  using assms by (simp_all add: HealthMatchFieldSelectorRequirement_type_def HealthMatchFieldSelectorRequirement_DeepCopyInto_def copy_rules go_types)

lemma HealthMatchRule_copied [go_types]:
  assumes "lib_ok L"
  shows "is_local (HealthMatchRule_type L)" "copies (HealthMatchRule_type L) (HealthMatchRule_DeepCopyInto L)"
  using assms by (simp_all add: HealthMatchRule_type_def HealthMatchRule_DeepCopyInto_def copy_rules go_types)

lemma MultiMatchHealthRule_copied [go_types]:
  assumes "lib_ok L"
  shows "is_local (MultiMatchHealthRule_type L)" "copies (MultiMatchHealthRule_type L) (MultiMatchHealthRule_DeepCopyInto L)"
  using assms by (simp_all add: MultiMatchHealthRule_type_def MultiMatchHealthRule_DeepCopyInto_def copy_rules go_types)

lemma HealthRule_copied [go_types]:
  assumes "lib_ok L"
  shows "is_local (HealthRule_type L)" "copies (HealthRule_type L) (HealthRule_DeepCopyInto L)"
  using assms by (simp_all add: HealthRule_type_def HealthRule_DeepCopyInto_def copy_rules go_types)

lemma RetentionPolicy_copied [go_types]:
  assumes "lib_ok L"
  shows "is_local (RetentionPolicy_type L)" "plain (RetentionPolicy_type L)" "copies (RetentionPolicy_type L) (RetentionPolicy_DeepCopyInto L)"
  using assms by (simp_all add: RetentionPolicy_type_def RetentionPolicy_DeepCopyInto_def copy_rules go_types)

lemma TemplateSpec_copied [go_types]:
  assumes "lib_ok L"
  shows "is_local (TemplateSpec_type L)" "copies (TemplateSpec_type L) (TemplateSpec_DeepCopyInto L)"
  using assms by (simp_all add: TemplateSpec_type_def TemplateSpec_DeepCopyInto_def TemplateParams_type_def copy_rules go_types)

lemma ConfigTemplateSpec_copied [go_types]:
  assumes "lib_ok L"
  shows "is_local (ConfigTemplateSpec_type L)" "copies (ConfigTemplateSpec_type L) (ConfigTemplateSpec_DeepCopyInto L)"
  using assms by (simp_all add: ConfigTemplateSpec_type_def ConfigTemplateSpec_DeepCopyInto_def copy_rules go_types)

lemma ClusterConfigTemplate_copied [go_types]:
  assumes "lib_ok L"
  shows "is_local (ClusterConfigTemplate_type L)" "copies (ClusterConfigTemplate_type L) (ClusterConfigTemplate_DeepCopyInto L)"
  using assms by (simp_all add: ClusterConfigTemplate_type_def ClusterConfigTemplate_DeepCopyInto_def copy_rules go_types)

lemma LegacySelector_copied [go_types]:
  assumes "lib_ok L"
  shows "is_local (LegacySelector_type L)" "copies (LegacySelector_type L) (LegacySelector_DeepCopyInto L)"
  using assms by (simp_all add: LegacySelector_type_def LegacySelector_DeepCopyInto_def copy_rules go_types)

lemma Selector_copied [go_types]:
  assumes "lib_ok L"
  shows "is_local (Selector_type L)" "copies (Selector_type L) (Selector_DeepCopyInto L)"
  using assms by (simp_all add: Selector_type_def Selector_DeepCopyInto_def copy_rules go_types)

lemma TemplateOption_copied [go_types]:
  assumes "lib_ok L"
  shows "is_local (TemplateOption_type L)" "copies (TemplateOption_type L) (TemplateOption_DeepCopyInto L)"
  using assms by (simp_all add: TemplateOption_type_def TemplateOption_DeepCopyInto_def copy_rules go_types)

lemma DeliveryTemplateReference_copied [go_types]:
  assumes "lib_ok L"
  shows "is_local (DeliveryTemplateReference_type L)" "copies (DeliveryTemplateReference_type L) (DeliveryTemplateReference_DeepCopyInto L)"
  using assms by (simp_all add: DeliveryTemplateReference_type_def DeliveryTemplateReference_DeepCopyInto_def copy_rules go_types)

lemma BlueprintParam_copied [go_types]:
  assumes "lib_ok L"
  shows "is_local (BlueprintParam_type L)" "copies (BlueprintParam_type L) (BlueprintParam_DeepCopyInto L)"
  using assms by (simp_all add: BlueprintParam_type_def BlueprintParam_DeepCopyInto_def copy_rules go_types)

lemma ResourceReference_copied [go_types]:
  assumes "lib_ok L"
  shows "is_local (ResourceReference_type L)" "plain (ResourceReference_type L)" "copies (ResourceReference_type L) (ResourceReference_DeepCopyInto L)"
  using assms by (simp_all add: ResourceReference_type_def ResourceReference_DeepCopyInto_def copy_rules go_types)

lemma DeploymentReference_copied [go_types]:
  assumes "lib_ok L"
  shows "is_local (DeploymentReference_type L)" "plain (DeploymentReference_type L)" "copies (DeploymentReference_type L) (DeploymentReference_DeepCopyInto L)"
  using assms by (simp_all add: DeploymentReference_type_def DeploymentReference_DeepCopyInto_def copy_rules go_types)

lemma DeliveryResource_copied [go_types]:
  assumes "lib_ok L"
  shows "is_local (DeliveryResource_type L)" "copies (DeliveryResource_type L) (DeliveryResource_DeepCopyInto L)"
  using assms by (simp_all add: DeliveryResource_type_def DeliveryResource_DeepCopyInto_def copy_rules go_types)

lemma ServiceAccountRef_copied [go_types]:
  assumes "lib_ok L"
  shows "is_local (ServiceAccountRef_type L)" "plain (ServiceAccountRef_type L)" "copies (ServiceAccountRef_type L) (ServiceAccountRef_DeepCopyInto L)"
  using assms by (simp_all add: ServiceAccountRef_type_def ServiceAccountRef_DeepCopyInto_def copy_rules go_types)

lemma DeliverySpec_copied [go_types]:
  assumes "lib_ok L"
  shows "is_local (DeliverySpec_type L)" "copies (DeliverySpec_type L) (DeliverySpec_DeepCopyInto L)"
  using assms by (simp_all add: DeliverySpec_type_def DeliverySpec_DeepCopyInto_def copy_rules go_types)

lemma DeliveryStatus_copied [go_types]:
  assumes "lib_ok L"
  shows "is_local (DeliveryStatus_type L)" "copies (DeliveryStatus_type L) (DeliveryStatus_DeepCopyInto L)"
  using assms by (simp_all add: DeliveryStatus_type_def DeliveryStatus_DeepCopyInto_def copy_rules go_types)

lemma ClusterDelivery_copied [go_types]:
  assumes "lib_ok L"
  shows "is_local (ClusterDelivery_type L)" "copies (ClusterDelivery_type L) (ClusterDelivery_DeepCopyInto L)"
  using assms by (simp_all add: ClusterDelivery_type_def ClusterDelivery_DeepCopyInto_def copy_rules go_types)

lemma ObservedMatch_copied [go_types]:
  assumes "lib_ok L"
  shows "is_local (ObservedMatch_type L)" "plain (ObservedMatch_type L)" "copies (ObservedMatch_type L) (ObservedMatch_DeepCopyInto L)"
  using assms by (simp_all add: ObservedMatch_type_def ObservedMatch_DeepCopyInto_def copy_rules go_types)

lemma Condition_copied [go_types]:
  assumes "lib_ok L"
  shows "is_local (Condition_type L)" "plain (Condition_type L)" "copies (Condition_type L) (Condition_DeepCopyInto L)"
  using assms by (simp_all add: Condition_type_def Condition_DeepCopyInto_def copy_rules go_types)

lemma ObservedCompletion_copied [go_types]:
  assumes "lib_ok L"
  shows "is_local (ObservedCompletion_type L)" "copies (ObservedCompletion_type L) (ObservedCompletion_DeepCopyInto L)"
  using assms by (simp_all add: ObservedCompletion_type_def ObservedCompletion_DeepCopyInto_def copy_rules go_types)

lemma DeploymentSpec_copied [go_types]:
  assumes "lib_ok L"
  shows "is_local (DeploymentSpec_type L)" "copies (DeploymentSpec_type L) (DeploymentSpec_DeepCopyInto L)"
  using assms by (simp_all add: DeploymentSpec_type_def DeploymentSpec_DeepCopyInto_def copy_rules go_types)

lemma ClusterDeploymentTemplate_copied [go_types]:
  assumes "lib_ok L"
  shows "is_local (ClusterDeploymentTemplate_type L)" "copies (ClusterDeploymentTemplate_type L) (ClusterDeploymentTemplate_DeepCopyInto L)"
  using assms by (simp_all add: ClusterDeploymentTemplate_type_def ClusterDeploymentTemplate_DeepCopyInto_def copy_rules go_types)

lemma ImageTemplateSpec_copied [go_types]:
  assumes "lib_ok L"
  shows "is_local (ImageTemplateSpec_type L)" "copies (ImageTemplateSpec_type L) (ImageTemplateSpec_DeepCopyInto L)"
  using assms by (simp_all add: ImageTemplateSpec_type_def ImageTemplateSpec_DeepCopyInto_def copy_rules go_types)

lemma ClusterImageTemplate_copied [go_types]:
  assumes "lib_ok L"
  shows "is_local (ClusterImageTemplate_type L)" "copies (ClusterImageTemplate_type L) (ClusterImageTemplate_DeepCopyInto L)"
  using assms by (simp_all add: ClusterImageTemplate_type_def ClusterImageTemplate_DeepCopyInto_def copy_rules go_types)

lemma RunTemplateSpec_copied [go_types]:
  assumes "lib_ok L"
  shows "is_local (RunTemplateSpec_type L)" "copies (RunTemplateSpec_type L) (RunTemplateSpec_DeepCopyInto L)"
  using assms by (simp_all add: RunTemplateSpec_type_def RunTemplateSpec_DeepCopyInto_def copy_rules go_types)

lemma ClusterRunTemplate_copied [go_types]:
  assumes "lib_ok L"
  shows "is_local (ClusterRunTemplate_type L)" "copies (ClusterRunTemplate_type L) (ClusterRunTemplate_DeepCopyInto L)"
  using assms by (simp_all add: ClusterRunTemplate_type_def ClusterRunTemplate_DeepCopyInto_def copy_rules go_types)

lemma SourceTemplateSpec_copied [go_types]:
  assumes "lib_ok L"
  shows "is_local (SourceTemplateSpec_type L)" "copies (SourceTemplateSpec_type L) (SourceTemplateSpec_DeepCopyInto L)"
  using assms by (simp_all add: SourceTemplateSpec_type_def SourceTemplateSpec_DeepCopyInto_def copy_rules go_types)

lemma ClusterSourceTemplate_copied [go_types]:
  assumes "lib_ok L"
  shows "is_local (ClusterSourceTemplate_type L)" "copies (ClusterSourceTemplate_type L) (ClusterSourceTemplate_DeepCopyInto L)"
  using assms by (simp_all add: ClusterSourceTemplate_type_def ClusterSourceTemplate_DeepCopyInto_def copy_rules go_types)

lemma SupplyChainTemplateReference_copied [go_types]:
  assumes "lib_ok L"
  shows "is_local (SupplyChainTemplateReference_type L)" "copies (SupplyChainTemplateReference_type L) (SupplyChainTemplateReference_DeepCopyInto L)"
  using assms by (simp_all add: SupplyChainTemplateReference_type_def SupplyChainTemplateReference_DeepCopyInto_def copy_rules go_types)

lemma SupplyChainResource_copied [go_types]:
  assumes "lib_ok L"
  shows "is_local (SupplyChainResource_type L)" "copies (SupplyChainResource_type L) (SupplyChainResource_DeepCopyInto L)"
  using assms by (simp_all add: SupplyChainResource_type_def SupplyChainResource_DeepCopyInto_def copy_rules go_types)

lemma SupplyChainSpec_copied [go_types]:
  assumes "lib_ok L"
  shows "is_local (SupplyChainSpec_type L)" "copies (SupplyChainSpec_type L) (SupplyChainSpec_DeepCopyInto L)"
  using assms by (simp_all add: SupplyChainSpec_type_def SupplyChainSpec_DeepCopyInto_def copy_rules go_types)

lemma SupplyChainStatus_copied [go_types]:
  assumes "lib_ok L"
  shows "is_local (SupplyChainStatus_type L)" "copies (SupplyChainStatus_type L) (SupplyChainStatus_DeepCopyInto L)"
  using assms by (simp_all add: SupplyChainStatus_type_def SupplyChainStatus_DeepCopyInto_def copy_rules go_types)

lemma ClusterSupplyChain_copied [go_types]:
  assumes "lib_ok L"
  shows "is_local (ClusterSupplyChain_type L)" "copies (ClusterSupplyChain_type L) (ClusterSupplyChain_DeepCopyInto L)"
  using assms by (simp_all add: ClusterSupplyChain_type_def ClusterSupplyChain_DeepCopyInto_def copy_rules go_types)

lemma ClusterTemplate_copied [go_types]:
  assumes "lib_ok L"
  shows "is_local (ClusterTemplate_type L)" "copies (ClusterTemplate_type L) (ClusterTemplate_DeepCopyInto L)"
  using assms by (simp_all add: ClusterTemplate_type_def ClusterTemplate_DeepCopyInto_def copy_rules go_types)

lemma OwnerStatus_copied [go_types]:
  assumes "lib_ok L"
  shows "is_local (OwnerStatus_type L)" "copies (OwnerStatus_type L) (OwnerStatus_DeepCopyInto L)"
  using assms by (simp_all add: OwnerStatus_type_def OwnerStatus_DeepCopyInto_def copy_rules go_types)

lemma OwnerParam_copied [go_types]:
  assumes "lib_ok L"
  shows "is_local (OwnerParam_type L)" "copies (OwnerParam_type L) (OwnerParam_DeepCopyInto L)"
  using assms by (simp_all add: OwnerParam_type_def OwnerParam_DeepCopyInto_def copy_rules go_types)

lemma GitRef_copied [go_types]:
  assumes "lib_ok L"
  shows "is_local (GitRef_type L)" "copies (GitRef_type L) (GitRef_DeepCopyInto L)"
  using assms by (simp_all add: GitRef_type_def GitRef_DeepCopyInto_def copy_rules go_types)

lemma GitSource_copied [go_types]:
  assumes "lib_ok L"
  shows "is_local (GitSource_type L)" "copies (GitSource_type L) (GitSource_DeepCopyInto L)"
  using assms by (simp_all add: GitSource_type_def GitSource_DeepCopyInto_def copy_rules go_types)

lemma Source_copied [go_types]:
  assumes "lib_ok L"
  shows "is_local (Source_type L)" "copies (Source_type L) (Source_DeepCopyInto L)"
  using assms by (simp_all add: Source_type_def Source_DeepCopyInto_def copy_rules go_types)

lemma ObjectReference_copied [go_types]:
  assumes "lib_ok L"
  shows "is_local (ObjectReference_type L)" "plain (ObjectReference_type L)" "copies (ObjectReference_type L) (ObjectReference_DeepCopyInto L)"
  using assms by (simp_all add: ObjectReference_type_def ObjectReference_DeepCopyInto_def copy_rules go_types)

lemma StampedRef_copied [go_types]:
  assumes "lib_ok L"
  shows "is_local (StampedRef_type L)" "copies (StampedRef_type L) (StampedRef_DeepCopyInto L)"
  using assms by (simp_all add: StampedRef_type_def StampedRef_DeepCopyInto_def copy_rules go_types)

lemma Input_copied [go_types]:
  assumes "lib_ok L"
  shows "is_local (Input_type L)" "plain (Input_type L)" "copies (Input_type L) (Input_DeepCopyInto L)"
  using assms by (simp_all add: Input_type_def Input_DeepCopyInto_def copy_rules go_types)

lemma Output_copied [go_types]:
  assumes "lib_ok L"
  shows "is_local (Output_type L)" "copies (Output_type L) (Output_DeepCopyInto L)"
  using assms by (simp_all add: Output_type_def Output_DeepCopyInto_def copy_rules go_types)

lemma RealizedResource_copied [go_types]:
  assumes "lib_ok L"
  shows "is_local (RealizedResource_type L)" "copies (RealizedResource_type L) (RealizedResource_DeepCopyInto L)"
  using assms by (simp_all add: RealizedResource_type_def RealizedResource_DeepCopyInto_def copy_rules go_types)

lemma ResourceStatus_copied [go_types]:
  assumes "lib_ok L"
  shows "is_local (ResourceStatus_type L)" "copies (ResourceStatus_type L) (ResourceStatus_DeepCopyInto L)"
  using assms by (simp_all add: ResourceStatus_type_def ResourceStatus_DeepCopyInto_def copy_rules go_types)

lemma DeliverableSpec_copied [go_types]:
  assumes "lib_ok L"
  shows "is_local (DeliverableSpec_type L)" "copies (DeliverableSpec_type L) (DeliverableSpec_DeepCopyInto L)"
  using assms by (simp_all add: DeliverableSpec_type_def DeliverableSpec_DeepCopyInto_def copy_rules go_types)

lemma DeliverableStatus_copied [go_types]:
  assumes "lib_ok L"
  shows "is_local (DeliverableStatus_type L)" "copies (DeliverableStatus_type L) (DeliverableStatus_DeepCopyInto L)"
  using assms by (simp_all add: DeliverableStatus_type_def DeliverableStatus_DeepCopyInto_def copy_rules go_types)

lemma Deliverable_copied [go_types]:
  assumes "lib_ok L"
  shows "is_local (Deliverable_type L)" "copies (Deliverable_type L) (Deliverable_DeepCopyInto L)"
  using assms by (simp_all add: Deliverable_type_def Deliverable_DeepCopyInto_def copy_rules go_types)

lemma TemplateReference_copied [go_types]:
  assumes "lib_ok L"
  shows "is_local (TemplateReference_type L)" "plain (TemplateReference_type L)" "copies (TemplateReference_type L) (TemplateReference_DeepCopyInto L)"
  using assms by (simp_all add: TemplateReference_type_def TemplateReference_DeepCopyInto_def copy_rules go_types)

lemma ResourceType_copied [go_types]:
  assumes "lib_ok L"
  shows "is_local (ResourceType_type L)" "plain (ResourceType_type L)" "copies (ResourceType_type L) (ResourceType_DeepCopyInto L)"
  using assms by (simp_all add: ResourceType_type_def ResourceType_DeepCopyInto_def copy_rules go_types)

lemma ResourceSelector_copied [go_types]:
  assumes "lib_ok L"
  shows "is_local (ResourceSelector_type L)" "copies (ResourceSelector_type L) (ResourceSelector_DeepCopyInto L)"
  using assms by (simp_all add: ResourceSelector_type_def ResourceSelector_DeepCopyInto_def copy_rules go_types)

lemma RunnableSpec_copied [go_types]:
  assumes "lib_ok L"
  shows "is_local (RunnableSpec_type L)" "copies (RunnableSpec_type L) (RunnableSpec_DeepCopyInto L)"
  using assms by (simp_all add: RunnableSpec_type_def RunnableSpec_DeepCopyInto_def copy_rules go_types)

lemma RunnableStatus_copied [go_types]:
  assumes "lib_ok L"
  shows "is_local (RunnableStatus_type L)" "copies (RunnableStatus_type L) (RunnableStatus_DeepCopyInto L)"
  using assms by (simp_all add: RunnableStatus_type_def RunnableStatus_DeepCopyInto_def copy_rules go_types)

lemma Runnable_copied [go_types]:
  assumes "lib_ok L"
  shows "is_local (Runnable_type L)" "copies (Runnable_type L) (Runnable_DeepCopyInto L)"
  using assms by (simp_all add: Runnable_type_def Runnable_DeepCopyInto_def copy_rules go_types)

lemma WorkloadBuild_copied [go_types]:
  assumes "lib_ok L"
  shows "is_local (WorkloadBuild_type L)" "copies (WorkloadBuild_type L) (WorkloadBuild_DeepCopyInto L)"
  using assms by (simp_all add: WorkloadBuild_type_def WorkloadBuild_DeepCopyInto_def copy_rules go_types)

lemma WorkloadServiceClaimReference_copied [go_types]:
  assumes "lib_ok L"
  shows "is_local (WorkloadServiceClaimReference_type L)" "plain (WorkloadServiceClaimReference_type L)" "copies (WorkloadServiceClaimReference_type L) (WorkloadServiceClaimReference_DeepCopyInto L)"
  using assms by (simp_all add: WorkloadServiceClaimReference_type_def WorkloadServiceClaimReference_DeepCopyInto_def copy_rules go_types)

lemma WorkloadServiceClaim_copied [go_types]:
  assumes "lib_ok L"
  shows "is_local (WorkloadServiceClaim_type L)" "copies (WorkloadServiceClaim_type L) (WorkloadServiceClaim_DeepCopyInto L)"
  using assms by (simp_all add: WorkloadServiceClaim_type_def WorkloadServiceClaim_DeepCopyInto_def copy_rules go_types)

lemma WorkloadSpec_copied [go_types]:
  assumes "lib_ok L"
  shows "is_local (WorkloadSpec_type L)" "copies (WorkloadSpec_type L) (WorkloadSpec_DeepCopyInto L)"
  using assms by (simp_all add: WorkloadSpec_type_def WorkloadSpec_DeepCopyInto_def copy_rules go_types)

lemma WorkloadStatus_copied [go_types]:
  assumes "lib_ok L"
  shows "is_local (WorkloadStatus_type L)" "copies (WorkloadStatus_type L) (WorkloadStatus_DeepCopyInto L)"
  using assms by (simp_all add: WorkloadStatus_type_def WorkloadStatus_DeepCopyInto_def copy_rules go_types)

lemma Workload_copied [go_types]:
  assumes "lib_ok L"
  shows "is_local (Workload_type L)" "copies (Workload_type L) (Workload_DeepCopyInto L)"
  using assms by (simp_all add: Workload_type_def Workload_DeepCopyInto_def copy_rules go_types)

text \<open>The copier of a nil parameter list that does not return nil.\<close>

lemma TemplateParams_nil:
  "\<exists>v s'. TemplateParams_DeepCopyInto L (VSlice None) s = Some (v, s') \<and> ty_read (TemplateParams_type L) s' v = Some (LSlice (Some [])) \<and>
     ty_read (TemplateParams_type L) s (VSlice None) = Some (LSlice None)"
  by (simp add: TemplateParams_DeepCopyInto_def TemplateParams_type_def t_slice_def)

section \<open>Independence of copies\<close>

text \<open>
  A copy is independent of its original: it reads the same tree even after all memory that existed before was overwritten, and the original reads the same
  tree whatever is in the memory that was allocated since.
\<close>

lemma copy_ptr_independent:
  assumes "is_local T" "copies T c" "ty_read (t_ptr T) s (VPtr (Some a)) = Some t"
  shows "\<exists>b new. copy_ptr c (VPtr (Some a)) s = Some (VPtr (Some b), s @ new) \<and> b \<ge> length s \<and>
    (\<forall>old more. length old = length s \<longrightarrow> ty_read (t_ptr T) (old @ new @ more) (VPtr (Some b)) = Some t) \<and>
    (\<forall>more. ty_read (t_ptr T) (s @ more) (VPtr (Some a)) = Some t)"
proof -
  from copies_ptr [OF assms(1,2)] assms(3) obtain q new where q: "copy_ptr c (VPtr (Some a)) s = Some (q, s @ new)"
      "ty_read (t_ptr T) (s @ new) q = Some t" "ty_owns (t_ptr T) (s @ new) q \<subseteq> {length s..}"
    by (rule copiesE)
  then obtain b where b: "q = VPtr (Some b)" by (auto simp: copy_ptr_def split: option.splits cell.splits)
  have "b \<ge> length s" using q(3) b by (auto simp: t_ptr_def)
  moreover have "ty_read (t_ptr T) (old @ new @ more) q = Some t" if "length old = length s" for old more
  proof -
    have "ty_owns (t_ptr T) (s @ new) q \<subseteq> {length s..<length (s @ new)}"
      using q(3) is_localD(1) [OF local_ptr [OF assms(1)] q(2)] by auto
    then have "agree (ty_owns (t_ptr T) (s @ new) q) (s @ new) (old @ new @ more)"
      using that by (auto simp: agree_def cell_at_def nth_append)
    then show ?thesis using is_localD(2) [OF local_ptr [OF assms(1)] q(2)] by blast
  qed
  moreover have "ty_read (t_ptr T) (s @ more) (VPtr (Some a)) = Some t" for more
    using read_append [OF local_ptr [OF assms(1)] assms(3)] by blast
  ultimately show ?thesis using q(1) b by blast
qed

locale deep_copier =
  fixes T :: "api_lib \<Rightarrow> go_type" and into :: "api_lib \<Rightarrow> copier" and object :: "api_lib \<Rightarrow> object_copier"
  assumes readable: "lib_ok L \<Longrightarrow> is_local (T L)"
    and copied: "lib_ok L \<Longrightarrow> copies (T L) (into L)"
    and object_eq: "object L = as_object (copy_ptr (into L))"
begin

lemma nil_object: "object L (VPtr None) s = Some (None, s)"
  by (simp add: object_eq as_object_def copy_ptr_def)

lemma object_independent:
  assumes "lib_ok L" "ty_read (t_ptr (T L)) s (VPtr (Some a)) = Some t"
  shows "\<exists>b new. object L (VPtr (Some a)) s = Some (Some (VPtr (Some b)), s @ new) \<and> b \<ge> length s \<and>
    (\<forall>old more. length old = length s \<longrightarrow> ty_read (t_ptr (T L)) (old @ new @ more) (VPtr (Some b)) = Some t) \<and>
    (\<forall>more. ty_read (t_ptr (T L)) (s @ more) (VPtr (Some a)) = Some t)"
  using copy_ptr_independent [OF readable [OF assms(1)] copied [OF assms(1)] assms(2)]
  by (fastforce simp: object_eq as_object_def)

end

text \<open>The list of a kind is copied whenever the kind is.\<close>

locale listed_kind = deep_copier +
  fixes listT :: "api_lib \<Rightarrow> go_type" and list_into :: "api_lib \<Rightarrow> copier"
  assumes list_type: "listT L =
      t_struct [(''TypeMeta'', lib_type L ''TypeMeta''), (''ListMeta'', lib_type L ''ListMeta''), (''Items'', t_slice (T L))]"
    and list_into: "list_into L =
      copy_struct [(''TypeMeta'', copy_assign), (''ListMeta'', lib_copy L ''ListMeta''), (''Items'', copy_slice (into L))]"
begin

lemma list_copied:
  assumes "lib_ok L"
  shows "is_local (listT L)" "copies (listT L) (list_into L)"
  using assms readable copied by (simp_all add: list_type list_into copy_rules go_types)

end

interpretation ClusterConfigTemplate: listed_kind ClusterConfigTemplate_type ClusterConfigTemplate_DeepCopyInto ClusterConfigTemplate_DeepCopyObject ClusterConfigTemplateList_type ClusterConfigTemplateList_DeepCopyInto
  by unfold_locales
    (simp_all add: ClusterConfigTemplate_copied ClusterConfigTemplate_DeepCopyObject_def ClusterConfigTemplate_DeepCopy_def ClusterConfigTemplateList_type_def ClusterConfigTemplateList_DeepCopyInto_def)

interpretation ClusterConfigTemplateList: deep_copier ClusterConfigTemplateList_type ClusterConfigTemplateList_DeepCopyInto ClusterConfigTemplateList_DeepCopyObject
  by unfold_locales (simp_all add: ClusterConfigTemplate.list_copied ClusterConfigTemplateList_DeepCopyObject_def ClusterConfigTemplateList_DeepCopy_def)

interpretation ClusterDelivery: listed_kind ClusterDelivery_type ClusterDelivery_DeepCopyInto ClusterDelivery_DeepCopyObject ClusterDeliveryList_type ClusterDeliveryList_DeepCopyInto
  by unfold_locales
    (simp_all add: ClusterDelivery_copied ClusterDelivery_DeepCopyObject_def ClusterDelivery_DeepCopy_def ClusterDeliveryList_type_def ClusterDeliveryList_DeepCopyInto_def)

interpretation ClusterDeliveryList: deep_copier ClusterDeliveryList_type ClusterDeliveryList_DeepCopyInto ClusterDeliveryList_DeepCopyObject
  by unfold_locales (simp_all add: ClusterDelivery.list_copied ClusterDeliveryList_DeepCopyObject_def ClusterDeliveryList_DeepCopy_def)

interpretation ClusterDeploymentTemplate: listed_kind ClusterDeploymentTemplate_type ClusterDeploymentTemplate_DeepCopyInto ClusterDeploymentTemplate_DeepCopyObject ClusterDeploymentTemplateList_type ClusterDeploymentTemplateList_DeepCopyInto
  by unfold_locales
    (simp_all add: ClusterDeploymentTemplate_copied ClusterDeploymentTemplate_DeepCopyObject_def ClusterDeploymentTemplate_DeepCopy_def ClusterDeploymentTemplateList_type_def ClusterDeploymentTemplateList_DeepCopyInto_def)

interpretation ClusterDeploymentTemplateList: deep_copier ClusterDeploymentTemplateList_type ClusterDeploymentTemplateList_DeepCopyInto ClusterDeploymentTemplateList_DeepCopyObject
  by unfold_locales (simp_all add: ClusterDeploymentTemplate.list_copied ClusterDeploymentTemplateList_DeepCopyObject_def ClusterDeploymentTemplateList_DeepCopy_def)

interpretation ClusterImageTemplate: listed_kind ClusterImageTemplate_type ClusterImageTemplate_DeepCopyInto ClusterImageTemplate_DeepCopyObject ClusterImageTemplateList_type ClusterImageTemplateList_DeepCopyInto
  by unfold_locales
    (simp_all add: ClusterImageTemplate_copied ClusterImageTemplate_DeepCopyObject_def ClusterImageTemplate_DeepCopy_def ClusterImageTemplateList_type_def ClusterImageTemplateList_DeepCopyInto_def)

interpretation ClusterImageTemplateList: deep_copier ClusterImageTemplateList_type ClusterImageTemplateList_DeepCopyInto ClusterImageTemplateList_DeepCopyObject
  by unfold_locales (simp_all add: ClusterImageTemplate.list_copied ClusterImageTemplateList_DeepCopyObject_def ClusterImageTemplateList_DeepCopy_def)

interpretation ClusterRunTemplate: listed_kind ClusterRunTemplate_type ClusterRunTemplate_DeepCopyInto ClusterRunTemplate_DeepCopyObject ClusterRunTemplateList_type ClusterRunTemplateList_DeepCopyInto
  by unfold_locales
    (simp_all add: ClusterRunTemplate_copied ClusterRunTemplate_DeepCopyObject_def ClusterRunTemplate_DeepCopy_def ClusterRunTemplateList_type_def ClusterRunTemplateList_DeepCopyInto_def)

interpretation ClusterRunTemplateList: deep_copier ClusterRunTemplateList_type ClusterRunTemplateList_DeepCopyInto ClusterRunTemplateList_DeepCopyObject
  by unfold_locales (simp_all add: ClusterRunTemplate.list_copied ClusterRunTemplateList_DeepCopyObject_def ClusterRunTemplateList_DeepCopy_def)

interpretation ClusterSourceTemplate: listed_kind ClusterSourceTemplate_type ClusterSourceTemplate_DeepCopyInto ClusterSourceTemplate_DeepCopyObject ClusterSourceTemplateList_type ClusterSourceTemplateList_DeepCopyInto
  by unfold_locales
    (simp_all add: ClusterSourceTemplate_copied ClusterSourceTemplate_DeepCopyObject_def ClusterSourceTemplate_DeepCopy_def ClusterSourceTemplateList_type_def ClusterSourceTemplateList_DeepCopyInto_def)

interpretation ClusterSourceTemplateList: deep_copier ClusterSourceTemplateList_type ClusterSourceTemplateList_DeepCopyInto ClusterSourceTemplateList_DeepCopyObject
  by unfold_locales (simp_all add: ClusterSourceTemplate.list_copied ClusterSourceTemplateList_DeepCopyObject_def ClusterSourceTemplateList_DeepCopy_def)

interpretation ClusterSupplyChain: listed_kind ClusterSupplyChain_type ClusterSupplyChain_DeepCopyInto ClusterSupplyChain_DeepCopyObject ClusterSupplyChainList_type ClusterSupplyChainList_DeepCopyInto
  by unfold_locales
    (simp_all add: ClusterSupplyChain_copied ClusterSupplyChain_DeepCopyObject_def ClusterSupplyChain_DeepCopy_def ClusterSupplyChainList_type_def ClusterSupplyChainList_DeepCopyInto_def)

interpretation ClusterSupplyChainList: deep_copier ClusterSupplyChainList_type ClusterSupplyChainList_DeepCopyInto ClusterSupplyChainList_DeepCopyObject
  by unfold_locales (simp_all add: ClusterSupplyChain.list_copied ClusterSupplyChainList_DeepCopyObject_def ClusterSupplyChainList_DeepCopy_def)

interpretation ClusterTemplate: listed_kind ClusterTemplate_type ClusterTemplate_DeepCopyInto ClusterTemplate_DeepCopyObject ClusterTemplateList_type ClusterTemplateList_DeepCopyInto
  by unfold_locales
    (simp_all add: ClusterTemplate_copied ClusterTemplate_DeepCopyObject_def ClusterTemplate_DeepCopy_def ClusterTemplateList_type_def ClusterTemplateList_DeepCopyInto_def)

interpretation ClusterTemplateList: deep_copier ClusterTemplateList_type ClusterTemplateList_DeepCopyInto ClusterTemplateList_DeepCopyObject
  by unfold_locales (simp_all add: ClusterTemplate.list_copied ClusterTemplateList_DeepCopyObject_def ClusterTemplateList_DeepCopy_def)

interpretation Deliverable: listed_kind Deliverable_type Deliverable_DeepCopyInto Deliverable_DeepCopyObject DeliverableList_type DeliverableList_DeepCopyInto
  by unfold_locales
    (simp_all add: Deliverable_copied Deliverable_DeepCopyObject_def Deliverable_DeepCopy_def DeliverableList_type_def DeliverableList_DeepCopyInto_def)

interpretation DeliverableList: deep_copier DeliverableList_type DeliverableList_DeepCopyInto DeliverableList_DeepCopyObject
  by unfold_locales (simp_all add: Deliverable.list_copied DeliverableList_DeepCopyObject_def DeliverableList_DeepCopy_def)

interpretation Runnable: listed_kind Runnable_type Runnable_DeepCopyInto Runnable_DeepCopyObject RunnableList_type RunnableList_DeepCopyInto
  by unfold_locales
    (simp_all add: Runnable_copied Runnable_DeepCopyObject_def Runnable_DeepCopy_def RunnableList_type_def RunnableList_DeepCopyInto_def)

interpretation RunnableList: deep_copier RunnableList_type RunnableList_DeepCopyInto RunnableList_DeepCopyObject
  by unfold_locales (simp_all add: Runnable.list_copied RunnableList_DeepCopyObject_def RunnableList_DeepCopy_def)

interpretation Workload: listed_kind Workload_type Workload_DeepCopyInto Workload_DeepCopyObject WorkloadList_type WorkloadList_DeepCopyInto
  by unfold_locales
    (simp_all add: Workload_copied Workload_DeepCopyObject_def Workload_DeepCopy_def WorkloadList_type_def WorkloadList_DeepCopyInto_def)

interpretation WorkloadList: deep_copier WorkloadList_type WorkloadList_DeepCopyInto WorkloadList_DeepCopyObject
  by unfold_locales (simp_all add: Workload.list_copied WorkloadList_DeepCopyObject_def WorkloadList_DeepCopy_def)

lemma registered_copier:
  assumes "(kind, T, object) \<in> set SchemeBuilder"
  shows "\<exists>into. deep_copier T into object"
  using assms unfolding inits
  by (auto intro: ClusterConfigTemplate.deep_copier_axioms ClusterConfigTemplateList.deep_copier_axioms
      ClusterDelivery.deep_copier_axioms ClusterDeliveryList.deep_copier_axioms
      ClusterDeploymentTemplate.deep_copier_axioms ClusterDeploymentTemplateList.deep_copier_axioms
      ClusterImageTemplate.deep_copier_axioms ClusterImageTemplateList.deep_copier_axioms
      ClusterRunTemplate.deep_copier_axioms ClusterRunTemplateList.deep_copier_axioms
      ClusterSourceTemplate.deep_copier_axioms ClusterSourceTemplateList.deep_copier_axioms
      ClusterSupplyChain.deep_copier_axioms ClusterSupplyChainList.deep_copier_axioms
      ClusterTemplate.deep_copier_axioms ClusterTemplateList.deep_copier_axioms
      Deliverable.deep_copier_axioms DeliverableList.deep_copier_axioms
      Runnable.deep_copier_axioms RunnableList.deep_copier_axioms
      Workload.deep_copier_axioms WorkloadList.deep_copier_axioms)

text \<open>
  C10: the copy that \<^verbatim>\<open>DeepCopyObject\<close> makes of an object of any kind registered in the scheme is a value of the same type with the same
  contents, at a new address, and shares no memory with the original: it reads the same after everything that was in the store before is
  overwritten, and the original reads the same whatever is written to the copy.  It exists for every object of the type.
\<close>

theorem registered_objects_copied:
  assumes "lib_ok L" "(kind, T, DeepCopyObject) \<in> set SchemeBuilder" "ty_read (t_ptr (T L)) s (VPtr (Some a)) = Some t"
  shows "\<exists>b new. DeepCopyObject L (VPtr (Some a)) s = Some (Some (VPtr (Some b)), s @ new) \<and> b \<ge> length s \<and>
    (\<forall>old more. length old = length s \<longrightarrow> ty_read (t_ptr (T L)) (old @ new @ more) (VPtr (Some b)) = Some t) \<and>
    (\<forall>more. ty_read (t_ptr (T L)) (s @ more) (VPtr (Some a)) = Some t)"
proof -
  from registered_copier [OF assms(2)] obtain into where "deep_copier T into DeepCopyObject" by blast
  from deep_copier.object_independent [OF this assms(1,3)] show ?thesis .
qed

text \<open>A nil pointer of a registered kind is copied to a nil interface, not to an interface that holds a nil pointer.\<close>

theorem nil_objects_copied:
  assumes "(kind, T, DeepCopyObject) \<in> set SchemeBuilder"
  shows "DeepCopyObject L (VPtr None) s = Some (None, s)"
  using registered_copier [OF assms] deep_copier.nil_object by blast

section \<open>Witnesses\<close>

definition example_lib :: api_lib where
  "example_lib =
     \<lparr>lib_type = \<lambda>n. (if n \<in> set plain_names then t_string else t_slice t_string),
      lib_copy = \<lambda>n. copy_slice copy_assign\<rparr>"

definition example_store :: store where
  "example_store =
     [Elements [VBasic (BString ''label'')],
      Entries [(''revision'', VBasic (BString ''.status.revision''))],
      Cell (VStruct [(''TypeMeta'', VBasic (BString ''ClusterRunTemplate'')), (''ObjectMeta'', VSlice (Some 0)),
        (''Spec'', VStruct [(''Template'', VSlice (Some 0)), (''Outputs'', VMap (Some 1))])])]"

lemma example_lib_ok: "lib_ok example_lib"
  by (simp add: lib_ok_def example_lib_def copy_rules go_types)

theorem registered_objects_copied_witness:
  "\<exists>t b new. ty_read (t_ptr (ClusterRunTemplate_type example_lib)) example_store (VPtr (Some 2)) = Some t \<and>
     ClusterRunTemplate_DeepCopyObject example_lib (VPtr (Some 2)) example_store = Some (Some (VPtr (Some b)), example_store @ new) \<and>
     ty_read (t_ptr (ClusterRunTemplate_type example_lib)) (replicate 3 (Elements []) @ new) (VPtr (Some b)) = Some t"
proof -
  have r: "\<exists>t. ty_read (t_ptr (ClusterRunTemplate_type example_lib)) example_store (VPtr (Some 2)) = Some t"
    by (simp add: example_store_def example_lib_def ClusterRunTemplate_type_def RunTemplateSpec_type_def t_ptr_def t_struct_def t_slice_def t_map_def
        t_string_def t_basic_def cell_at_def lib_names)
  then obtain t where t: "ty_read (t_ptr (ClusterRunTemplate_type example_lib)) example_store (VPtr (Some 2)) = Some t" ..
  have "(''ClusterRunTemplate'', ClusterRunTemplate_type, ClusterRunTemplate_DeepCopyObject) \<in> set SchemeBuilder"
    by (simp add: inits)
  from registered_objects_copied [OF example_lib_ok this t] obtain b new
    where *: "ClusterRunTemplate_DeepCopyObject example_lib (VPtr (Some 2)) example_store = Some (Some (VPtr (Some b)), example_store @ new)"
      "\<And>old more. length old = length example_store \<Longrightarrow>
        ty_read (t_ptr (ClusterRunTemplate_type example_lib)) (old @ new @ more) (VPtr (Some b)) = Some t" by blast
  from *(2) [of "replicate 3 (Elements [])" "[]"] have "ty_read (t_ptr (ClusterRunTemplate_type example_lib)) (replicate 3 (Elements []) @ new) (VPtr (Some b)) = Some t"
    by (simp add: example_store_def)
  with t *(1) show ?thesis by blast
qed

end
