(* ===== verification/Realizer_Inputs.thy ===== *)
theory Realizer_Inputs
  imports Validation
begin

text \<open>
  What a template of \<^verbatim>\<open>pkg/realizer\<close> gets to see: \<^verbatim>\<open>owner_resource.go\<close>, \<^verbatim>\<open>outputs.go\<close>, \<^verbatim>\<open>inputs.go\<close>,
  \<^verbatim>\<open>params.go\<close>, \<^verbatim>\<open>context.go\<close>, the conversions of \<^verbatim>\<open>realizer.go\<close> from a blueprint to the
  resources it realizes, and the data of \<^verbatim>\<open>pkg/templates/inputs.go\<close> and \<^verbatim>\<open>output.go\<close>.  An
  \<^verbatim>\<open>interface{}\<close> value is a \<^typ>\<open>json\<close>, with \<^const>\<open>JNull\<close> for nil.  \<^verbatim>\<open>Merge\<close> dereferences the default of a
  parameter without a value; without a default either it panics.

  The results are the precedence of parameters as a declarative rule, that \<^verbatim>\<open>Merge\<close> does not panic on
  the parameters of an accepted supply chain, and which outputs reach the template.
\<close>

section \<open>Resources, outputs and inputs\<close>

record OwnerResource =
  owr_TemplateRef :: TemplateReference
  owr_TemplateOptions :: "TemplateOption list"
  owr_Params :: "BlueprintParam list"
  owr_Name :: string
  owr_Sources :: "ResourceReference list"
  owr_Images :: "ResourceReference list"
  owr_Configs :: "ResourceReference list"
  owr_Deployment :: "DeploymentReference option"

definition MakeSupplychainOwnerResources :: "ClusterSupplyChain \<Rightarrow> OwnerResource list" where
  "MakeSupplychainOwnerResources sc =
     map (\<lambda>r. \<lparr>owr_TemplateRef = \<lparr>tref_Kind = btr_Kind (scr_TemplateRef r), tref_Name = btr_Name (scr_TemplateRef r)\<rparr>,
                owr_TemplateOptions = btr_Options (scr_TemplateRef r), owr_Params = scr_Params r,
                owr_Name = scr_Name r, owr_Sources = scr_Sources r, owr_Images = scr_Images r,
                owr_Configs = scr_Configs r, owr_Deployment = None\<rparr>)
       (scs_Resources (sc_Spec sc))"

definition MakeDeliveryOwnerResources :: "ClusterDelivery \<Rightarrow> OwnerResource list" where
  "MakeDeliveryOwnerResources d =
     map (\<lambda>r. \<lparr>owr_TemplateRef = \<lparr>tref_Kind = btr_Kind (dr_TemplateRef r), tref_Name = btr_Name (dr_TemplateRef r)\<rparr>,
                owr_TemplateOptions = btr_Options (dr_TemplateRef r), owr_Params = dr_Params r,
                owr_Name = dr_Name r, owr_Sources = dr_Sources r, owr_Images = [],
                owr_Configs = elems (dr_Configs r), owr_Deployment = dr_Deployment r\<rparr>)
       (ds_Resources (cd_Spec d))"

record Source =
  so_URL :: json
  so_Revision :: json

record TOutput =
  to_Source :: "Source option"
  to_Image :: json
  to_Config :: json

record SourceInput =
  si_URL :: json
  si_Revision :: json
  si_Name :: string

record ImageInput =
  ii_Image :: json
  ii_Name :: string

record ConfigInput =
  ci_Config :: json
  ci_Name :: string

text \<open>\<^verbatim>\<open>map[string]*templates.Output\<close>: the realizer also stores nil pointers, for resources that failed.\<close>

type_synonym Outputs = "(string, TOutput option) fmap"

definition NewOutputs :: Outputs where
  "NewOutputs = fmempty"

definition AddOutput :: "Outputs \<Rightarrow> string \<Rightarrow> TOutput option \<Rightarrow> Outputs" where
  "AddOutput outs resourceName output = fmupd resourceName output outs"

definition get_output :: "Outputs \<Rightarrow> string \<Rightarrow> TOutput option" where
  "get_output outs resourceName = (case fmlookup outs resourceName of None \<Rightarrow> None | Some output \<Rightarrow> output)"

definition GetImage :: "Outputs \<Rightarrow> string \<Rightarrow> json" where
  "GetImage outs resourceName =
     (case get_output outs resourceName of None \<Rightarrow> JNull | Some output \<Rightarrow> to_Image output)"

definition GetConfig :: "Outputs \<Rightarrow> string \<Rightarrow> json" where
  "GetConfig outs resourceName =
     (case get_output outs resourceName of None \<Rightarrow> JNull | Some output \<Rightarrow> to_Config output)"

definition GetSource :: "Outputs \<Rightarrow> string \<Rightarrow> Source option" where
  "GetSource outs resourceName =
     (case get_output outs resourceName of None \<Rightarrow> None | Some output \<Rightarrow> to_Source output)"

section \<open>The input generator\<close>

record InputGenerator =
  ig_resource :: OwnerResource
  ig_outputs :: Outputs

definition NewInputGenerator :: "OwnerResource \<Rightarrow> Outputs \<Rightarrow> InputGenerator" where
  "NewInputGenerator resource outs = \<lparr>ig_resource = resource, ig_outputs = outs\<rparr>"

definition GetSources :: "InputGenerator \<Rightarrow> (string, SourceInput) fmap" where
  "GetSources i =
     foldl (\<lambda>inputs reference.
        case GetSource (ig_outputs i) (ref_Resource reference) of
          None \<Rightarrow> inputs
        | Some source \<Rightarrow> fmupd (ref_Name reference)
            \<lparr>si_URL = so_URL source, si_Revision = so_Revision source, si_Name = ref_Name reference\<rparr> inputs)
       fmempty (owr_Sources (ig_resource i))"

definition GetImages :: "InputGenerator \<Rightarrow> (string, ImageInput) fmap" where
  "GetImages i =
     foldl (\<lambda>inputs reference.
        let image = GetImage (ig_outputs i) (ref_Resource reference)
        in if image \<noteq> JNull
           then fmupd (ref_Name reference) \<lparr>ii_Image = image, ii_Name = ref_Name reference\<rparr> inputs
           else inputs)
       fmempty (owr_Images (ig_resource i))"

definition GetConfigs :: "InputGenerator \<Rightarrow> (string, ConfigInput) fmap" where
  "GetConfigs i =
     foldl (\<lambda>inputs reference.
        let config = GetConfig (ig_outputs i) (ref_Resource reference)
        in if config \<noteq> JNull
           then fmupd (ref_Name reference) \<lparr>ci_Config = config, ci_Name = ref_Name reference\<rparr> inputs
           else inputs)
       fmempty (owr_Configs (ig_resource i))"

definition GetDeployment :: "InputGenerator \<Rightarrow> SourceInput option" where
  "GetDeployment i =
     (case owr_Deployment (ig_resource i) of
        None \<Rightarrow> None
      | Some d \<Rightarrow>
          (case GetSource (ig_outputs i) (dref_Resource d) of
             None \<Rightarrow> None
           | Some deployment \<Rightarrow>
               Some \<lparr>si_URL = so_URL deployment, si_Revision = so_Revision deployment, si_Name = ''''\<rparr>))"

section \<open>Parameters\<close>

record ParamMerger =
  pm_blueprintParams :: "BlueprintParam list"
  pm_resourceParams :: "BlueprintParam list"
  pm_ownerParams :: "OwnerParam list"

definition NewParamMerger ::
  "BlueprintParam list \<Rightarrow> BlueprintParam list \<Rightarrow> OwnerParam list \<Rightarrow> ParamMerger" where
  "NewParamMerger resourceParams blueprintParams ownerParams =
     \<lparr>pm_blueprintParams = blueprintParams, pm_resourceParams = resourceParams, pm_ownerParams = ownerParams\<rparr>"

definition ownerCanOverride :: "(string, bool) fmap \<Rightarrow> string \<Rightarrow> bool" where
  "ownerCanOverride isProtected key =
     (case fmlookup isProtected key of None \<Rightarrow> True | Some protected \<Rightarrow> \<not> protected)"

text \<open>The parameters collected so far and which of them the owner may not override.\<close>

type_synonym params_state = "(string, raw) fmap \<times> (string, bool) fmap"

text \<open>One override of a blueprint or of one of its resources (the two loops have the same body);
  \<^const>\<open>None\<close> is the panic of a nil dereference.\<close>

definition blueprint_override :: "BlueprintParam \<Rightarrow> params_state \<Rightarrow> params_state option" where
  "blueprint_override p st =
     (case st of (newParams, protected) \<Rightarrow>
        (case bp_Value p of
           Some v \<Rightarrow> Some (fmupd (bp_Name p) v newParams, fmupd (bp_Name p) True protected)
         | None \<Rightarrow>
             (case bp_DefaultValue p of
                Some d \<Rightarrow> Some (fmupd (bp_Name p) d newParams, fmupd (bp_Name p) False protected)
              | None \<Rightarrow> None)))"

fun blueprint_overrides :: "BlueprintParam list \<Rightarrow> params_state \<Rightarrow> params_state option" where
  "blueprint_overrides [] st = Some st"
| "blueprint_overrides (p # ps) st =
     (case blueprint_override p st of None \<Rightarrow> None | Some st' \<Rightarrow> blueprint_overrides ps st')"

definition owner_overrides :: "OwnerParam list \<Rightarrow> (string, bool) fmap \<Rightarrow> (string, raw) fmap \<Rightarrow> (string, raw) fmap" where
  "owner_overrides ownerParams protected newParams =
     foldl (\<lambda>m p. if ownerCanOverride protected (op_Name p) then fmupd (op_Name p) (op_Value p) m else m)
       newParams ownerParams"

definition Merge :: "ParamMerger \<Rightarrow> TemplateParam list option \<Rightarrow> (string, raw) fmap go" where
  "Merge p templateParams =
     (let newParams = foldl (\<lambda>m tp. fmupd (tp_Name tp) (tp_DefaultValue tp) m) fmempty (elems templateParams)
      in case blueprint_overrides (pm_blueprintParams p) (newParams, fmempty) of
           None \<Rightarrow> Panic ''nil pointer dereference''
         | Some st \<Rightarrow>
             (case blueprint_overrides (pm_resourceParams p) st of
                None \<Rightarrow> Panic ''nil pointer dereference''
              | Some (newParams', protected) \<Rightarrow>
                  Ret (owner_overrides (pm_ownerParams p) protected newParams')))"

section \<open>The templating context\<close>

text \<open>
  The map that \<^verbatim>\<open>Generate\<close> returns has a fixed set of keys, so it is a record; the keys \<^verbatim>\<open>source\<close>,
  \<^verbatim>\<open>image\<close> and \<^verbatim>\<open>config\<close> may be absent.  The owner object is its JSON view.
\<close>

record templating_context =
  ctx_workload :: json
  ctx_deliverable :: json
  ctx_params :: "(string, raw) fmap"
  ctx_sources :: "(string, SourceInput) fmap"
  ctx_images :: "(string, ImageInput) fmap"
  ctx_configs :: "(string, ConfigInput) fmap"
  ctx_deployment :: "SourceInput option"
  ctx_labels :: labels
  ctx_source :: "SourceInput option"
  ctx_image :: "json option"
  ctx_config :: "json option"

record contextGenerator =
  cg_blueprintParams :: "BlueprintParam list"
  cg_ownerParams :: "OwnerParam list"
  cg_owner :: json

definition NewContextGenerator :: "json \<Rightarrow> OwnerParam list \<Rightarrow> BlueprintParam list \<Rightarrow> contextGenerator" where
  "NewContextGenerator owner ownerParams blueprintParams =
     \<lparr>cg_blueprintParams = blueprintParams, cg_ownerParams = ownerParams, cg_owner = owner\<rparr>"

text \<open>\<^verbatim>\<open>for _, x := range m\<close> over a map with one entry.\<close>

definition the_only :: "(string, 'v) fmap \<Rightarrow> 'v option" where
  "the_only m = (case fmap_keys m of [k] \<Rightarrow> fmlookup m k | _ \<Rightarrow> None)"

definition Generate ::
  "contextGenerator \<Rightarrow> TemplateParam list option \<Rightarrow> OwnerResource \<Rightarrow> Outputs \<Rightarrow> labels \<Rightarrow> templating_context go" where
  "Generate c templateParams resource outs ls =
     (let inputGenerator = NewInputGenerator resource outs;
          merger = NewParamMerger (owr_Params resource) (cg_blueprintParams c) (cg_ownerParams c);
          configs = GetConfigs inputGenerator;
          sources = GetSources inputGenerator;
          images = GetImages inputGenerator
      in case Merge merger templateParams of
           Panic p \<Rightarrow> Panic p
         | Err e \<Rightarrow> Err e
         | Ret params \<Rightarrow>
             Ret \<lparr>ctx_workload = cg_owner c, ctx_deliverable = cg_owner c, ctx_params = params,
                  ctx_sources = sources, ctx_images = images, ctx_configs = configs,
                  ctx_deployment = GetDeployment inputGenerator, ctx_labels = ls,
                  ctx_source = (if fmap_len sources = 1 then the_only sources else None),
                  ctx_image = (if fmap_len images = 1 then map_option ii_Image (the_only images) else None),
                  ctx_config = (if fmap_len configs = 1 then map_option ci_Config (the_only configs) else None)\<rparr>)"

section \<open>The precedence of parameters\<close>

text \<open>The last entry with a given name is the one that counts.\<close>

definition last_named :: "('p \<Rightarrow> string) \<Rightarrow> 'p list \<Rightarrow> string \<Rightarrow> 'p option" where
  "last_named name ps k = find (\<lambda>p. name p = k) (rev ps)"

lemma last_named_Nil [simp]: "last_named name [] k = None"
  by (simp add: last_named_def)

lemma last_named_snoc [simp]:
  "last_named name (ps @ [p]) k = (if name p = k then Some p else last_named name ps k)"
  by (simp add: last_named_def)

lemma last_named_append:
  "last_named name (ps @ qs) k =
     (case last_named name qs k of Some q \<Rightarrow> Some q | None \<Rightarrow> last_named name ps k)"
  by (simp add: last_named_def find_append split: option.split)

text \<open>
  The value of a parameter: a blueprint value wins over everything; a blueprint default yields to the owner; a
  resource's entry replaces the blueprint's; a parameter that no blueprint mentions comes from the owner, else
  from the template.
\<close>

definition effective_param ::
  "TemplateParam list \<Rightarrow> BlueprintParam list \<Rightarrow> BlueprintParam list \<Rightarrow> OwnerParam list \<Rightarrow> string \<Rightarrow> raw option" where
  "effective_param template blueprint resource owner k =
     (let from_owner = map_option op_Value (last_named op_Name owner k)
      in case last_named bp_Name (blueprint @ resource) k of
           Some p \<Rightarrow>
             (case bp_Value p of
                Some v \<Rightarrow> Some v
              | None \<Rightarrow> (case from_owner of Some v \<Rightarrow> Some v | None \<Rightarrow> bp_DefaultValue p))
         | None \<Rightarrow>
             (case from_owner of
                Some v \<Rightarrow> Some v
              | None \<Rightarrow> map_option tp_DefaultValue (last_named tp_Name template k)))"

lemma template_defaults_lookup:
  "fmlookup (foldl (\<lambda>m tp. fmupd (tp_Name tp) (tp_DefaultValue tp) m) fmempty tps) k =
     map_option tp_DefaultValue (last_named tp_Name tps k)"
  by (induction tps rule: rev_induct) simp_all

lemma owner_overrides_lookup:
  "fmlookup (owner_overrides ops protected m) k =
     (case last_named op_Name ops k of
        Some p \<Rightarrow> if ownerCanOverride protected k then Some (op_Value p) else fmlookup m k
      | None \<Rightarrow> fmlookup m k)"
  by (induction ops rule: rev_induct) (auto simp: owner_overrides_def split: option.splits)

lemma blueprint_overrides_append:
  "blueprint_overrides (ps @ qs) st =
     (case blueprint_overrides ps st of None \<Rightarrow> None | Some st' \<Rightarrow> blueprint_overrides qs st')"
  by (induction ps arbitrary: st) (simp_all split: option.split)

text \<open>What a list of overrides leaves behind for one name.\<close>

lemma blueprint_overrides_lookup:
  assumes "blueprint_overrides ps (m, pr) = Some (m', pr')"
  shows "(fmlookup m' k, fmlookup pr' k) =
     (case last_named bp_Name ps k of
        None \<Rightarrow> (fmlookup m k, fmlookup pr k)
      | Some p \<Rightarrow> (if bp_Value p \<noteq> None then (bp_Value p, Some True) else (bp_DefaultValue p, Some False)))"
  using assms
proof (induction ps arbitrary: m' pr' rule: rev_induct)
  case (snoc p ps)
  obtain m1 pr1 where step: "blueprint_overrides ps (m, pr) = Some (m1, pr1)"
      "blueprint_override p (m1, pr1) = Some (m', pr')"
    using snoc.prems by (auto simp: blueprint_overrides_append split: option.splits)
  show ?case
    using snoc.IH [OF step(1)] step(2)
    by (auto simp: blueprint_override_def split: option.splits)
qed simp

lemma blueprint_overrides_total:
  assumes "\<And>p. p \<in> set ps \<Longrightarrow> bp_Value p \<noteq> None \<or> bp_DefaultValue p \<noteq> None"
  shows "\<exists>st'. blueprint_overrides ps st = Some st'"
  using assms
  by (induction ps arbitrary: st) (fastforce simp: blueprint_override_def split: option.splits prod.splits)+

lemma Merge_as_append:
  "Merge p tps =
     (case blueprint_overrides (pm_blueprintParams p @ pm_resourceParams p)
        (foldl (\<lambda>m tp. fmupd (tp_Name tp) (tp_DefaultValue tp) m) fmempty (elems tps), fmempty) of
        None \<Rightarrow> Panic ''nil pointer dereference''
      | Some (m, pr) \<Rightarrow> Ret (owner_overrides (pm_ownerParams p) pr m))"
  by (simp add: Merge_def Let_def blueprint_overrides_append split: option.split)

lemma Merge_lookup:
  assumes "Merge p tps = Ret params"
  shows "fmlookup params k =
    effective_param (elems tps) (pm_blueprintParams p) (pm_resourceParams p) (pm_ownerParams p) k"
proof -
  let ?m0 = "foldl (\<lambda>m tp. fmupd (tp_Name tp) (tp_DefaultValue tp) m) fmempty (elems tps)"
  obtain m pr where bo: "blueprint_overrides (pm_blueprintParams p @ pm_resourceParams p) (?m0, fmempty) = Some (m, pr)"
      "params = owner_overrides (pm_ownerParams p) pr m"
    using assms by (auto simp: Merge_as_append split: option.splits)
  show ?thesis
    using blueprint_overrides_lookup [OF bo(1), of k]
    by (auto simp: bo(2) owner_overrides_lookup effective_param_def Let_def ownerCanOverride_def
        template_defaults_lookup split: option.splits if_splits)
qed

lemma Merge_total:
  assumes "\<And>q. q \<in> set (pm_blueprintParams p) \<union> set (pm_resourceParams p) \<Longrightarrow> wf_param q"
  shows "\<exists>params. Merge p tps = Ret params"
proof -
  let ?ps = "pm_blueprintParams p @ pm_resourceParams p"
  have "bp_Value q \<noteq> None \<or> bp_DefaultValue q \<noteq> None" if "q \<in> set ?ps" for q
    using assms [of q] that by (auto simp: wf_param_def)
  then have "\<exists>st'. blueprint_overrides ?ps st = Some st'" for st
    by (rule blueprint_overrides_total)
  then obtain st' where "blueprint_overrides ?ps
      (foldl (\<lambda>m tp. fmupd (tp_Name tp) (tp_DefaultValue tp) m) fmempty (elems tps), fmempty) = Some st'"
    by blast
  then show ?thesis by (cases st') (simp add: Merge_as_append)
qed

section \<open>Inputs and the shortcuts of the context\<close>

lemma foldl_upd_lookup:
  "fmlookup (foldl (\<lambda>m r. case f r of None \<Rightarrow> m | Some v \<Rightarrow> fmupd (name r) (g r v) m) fmempty rs) k =
     (case last_named name (filter (\<lambda>r. f r \<noteq> None) rs) k of None \<Rightarrow> None | Some r \<Rightarrow> map_option (g r) (f r))"
  by (induction rs rule: rev_induct) (auto split: option.splits)

lemma last_named_SomeD: "last_named name ps k = Some p \<Longrightarrow> p \<in> set ps \<and> name p = k"
  unfolding last_named_def by (drule find_Some_D) simp

lemma GetSources_lookup:
  "fmlookup (GetSources i) k =
     (case last_named ref_Name
        (filter (\<lambda>r. GetSource (ig_outputs i) (ref_Resource r) \<noteq> None) (owr_Sources (ig_resource i))) k of
        None \<Rightarrow> None
      | Some r \<Rightarrow> map_option (\<lambda>s. \<lparr>si_URL = so_URL s, si_Revision = so_Revision s, si_Name = k\<rparr>)
          (GetSource (ig_outputs i) (ref_Resource r)))"
  unfolding GetSources_def foldl_upd_lookup by (auto dest: last_named_SomeD split: option.split)

lemma fmap_len_1_iff: "fmap_len m = 1 \<longleftrightarrow> (\<exists>k v. m = fmupd k v fmempty)"
proof
  assume "fmap_len m = 1"
  then have "card (fset (fmdom m)) = 1" by (simp add: fmap_len_def fcard.rep_eq)
  then obtain k where "fset (fmdom m) = {k}" by (rule card_1_singletonE)
  then have k: "fmdom m = {|k|}" by (simp add: fset_inject [symmetric])
  then obtain v where v: "fmlookup m k = Some v" by (metis finsertI1 fmlookup_dom_iff)
  have "m = fmupd k v fmempty"
  proof (rule fmap_ext)
    fix x show "fmlookup m x = fmlookup (fmupd k v fmempty) x"
      using k v by (cases "x = k") (auto intro: fmdom_notD)
  qed
  then show "\<exists>k v. m = fmupd k v fmempty" by blast
qed (auto simp: fmap_len_def fcard_finsert_if)

lemma the_only_single [simp]: "the_only (fmupd k v fmempty) = Some v"
  by (simp add: the_only_def fmap_keys_def sorted_list_of_fset.rep_eq)

lemma the_only_iff: "(if fmap_len m = 1 then the_only m else None) = Some v \<longleftrightarrow> (\<exists>k. m = fmupd k v fmempty)"
proof (cases "fmap_len m = 1")
  case True
  then obtain k w where "m = fmupd k w fmempty" unfolding fmap_len_1_iff by blast
  moreover from this have w: "the_only m = Some w" by simp
  moreover have "w = v" if "m = fmupd k' v fmempty" for k'
    using w the_only_single [of k' v] unfolding that by simp
  ultimately have "the_only m = Some v \<longleftrightarrow> (\<exists>k. m = fmupd k v fmempty)"
    by (cases "w = v") (simp_all, blast+)
  then show ?thesis using True by simp
next
  case False
  then show ?thesis using fmap_len_1_iff [of m] by auto
qed

section \<open>Properties\<close>

text \<open>
  C3: \<^verbatim>\<open>Merge\<close> gives every parameter its effective value: the last entry of the blueprint's and the resource's
  parameters decides; a value there is final, a default yields to the owner's last entry; without such an entry the owner's
  value comes before the template's default.
\<close>

theorem Merge_precedence:
  assumes "Merge (NewParamMerger resourceParams blueprintParams ownerParams) templateParams = Ret params"
  shows "fmlookup params k =
    effective_param (elems templateParams) blueprintParams resourceParams ownerParams k"
  using Merge_lookup [OF assms, of k] by (simp add: NewParamMerger_def)

theorem Merge_precedence_witness:
  "\<exists>params. Merge (NewParamMerger [\<lparr>bp_Name = ''a'', bp_Value = None, bp_DefaultValue = Some ''2''\<rparr>]
       [\<lparr>bp_Name = ''a'', bp_Value = Some ''1'', bp_DefaultValue = None\<rparr>,
        \<lparr>bp_Name = ''b'', bp_Value = Some ''3'', bp_DefaultValue = None\<rparr>]
       [\<lparr>op_Name = ''a'', op_Value = ''4''\<rparr>, \<lparr>op_Name = ''b'', op_Value = ''5''\<rparr>]) (Some []) = Ret params \<and>
     fmlookup params ''a'' = Some ''4'' \<and> fmlookup params ''b'' = Some ''3''"
proof -
  let ?m = "NewParamMerger [\<lparr>bp_Name = ''a'', bp_Value = None, bp_DefaultValue = Some ''2''\<rparr>]
       [\<lparr>bp_Name = ''a'', bp_Value = Some ''1'', bp_DefaultValue = None\<rparr>,
        \<lparr>bp_Name = ''b'', bp_Value = Some ''3'', bp_DefaultValue = None\<rparr>]
       [\<lparr>op_Name = ''a'', op_Value = ''4''\<rparr>, \<lparr>op_Name = ''b'', op_Value = ''5''\<rparr>]"
  obtain params where m: "Merge ?m (Some []) = Ret params"
    by (simp add: Merge_def NewParamMerger_def blueprint_override_def)
  from Merge_precedence [OF m, of "''a''"] Merge_precedence [OF m, of "''b''"] m show ?thesis
    by (simp add: effective_param_def last_named_def)
qed

text \<open>
  On every resource of a supply chain that the webhook accepts, generating the templating context succeeds,
  whatever the owner, the template's parameters and the outputs so far: the nil dereference in \<^verbatim>\<open>Merge\<close> cannot happen.
\<close>

theorem accepted_context_generated:
  assumes "ClusterSupplyChain_ValidateCreate lsel jp c = None" "r \<in> set (MakeSupplychainOwnerResources c)"
  shows "\<exists>ctx. Generate (NewContextGenerator owner ownerParams (scs_Params (sc_Spec c))) templateParams r outs ls = Ret ctx"
proof -
  have wf: "wf_supply_chain lsel jp c"
    using assms(1) by (simp add: ClusterSupplyChain_ValidateCreate_def validateNewState_iff)
  obtain q where q: "q \<in> set (scs_Resources (sc_Spec c))" "owr_Params r = scr_Params q"
    using assms(2) by (auto simp: MakeSupplychainOwnerResources_def)
  let ?m = "NewParamMerger (owr_Params r) (scs_Params (sc_Spec c)) ownerParams"
  have "wf_param x" if "x \<in> set (pm_blueprintParams ?m) \<union> set (pm_resourceParams ?m)" for x
    using wf q that by (auto simp: wf_supply_chain_def Let_def NewParamMerger_def)
  then obtain params where "Merge ?m templateParams = Ret params" using Merge_total by blast
  then show ?thesis by (simp add: Generate_def NewContextGenerator_def Let_def)
qed

theorem accepted_context_generated_witness:
  "\<exists>ctx. Generate (NewContextGenerator JNull [] [\<lparr>bp_Name = ''p'', bp_Value = None, bp_DefaultValue = Some ''1''\<rparr>]) None
     \<lparr>owr_TemplateRef = \<lparr>tref_Kind = ''ClusterTemplate'', tref_Name = ''t''\<rparr>, owr_TemplateOptions = [], owr_Params = [],
      owr_Name = ''r'', owr_Sources = [], owr_Images = [], owr_Configs = [], owr_Deployment = None\<rparr> fmempty fmempty = Ret ctx"
proof -
  let ?c = "\<lparr>sc_Name = ''s'', sc_Spec = \<lparr>scs_LegacySelector = \<lparr>leg_Selector = Some (fmap_of_list [(''a'', ''1'')]),
        leg_SelectorMatchExpressions = None, leg_SelectorMatchFields = None\<rparr>,
      scs_Resources = [\<lparr>scr_Name = ''r'', scr_TemplateRef = \<lparr>btr_Kind = ''ClusterTemplate'', btr_Name = ''t'',
         btr_Options = []\<rparr>, scr_Params = [], scr_Sources = [], scr_Images = [], scr_Configs = []\<rparr>],
      scs_Params = [\<lparr>bp_Name = ''p'', bp_Value = None, bp_DefaultValue = Some ''1''\<rparr>],
      scs_ServiceAccountRef = \<lparr>sar_Name = '''', sar_Namespace = ''''\<rparr>\<rparr>,
      sc_Conditions = [], sc_ObservedGeneration = 0, sc_Generation = 1\<rparr>"
  have "ClusterSupplyChain_ValidateCreate (\<lambda>l. Inr (\<lambda>ls. True))
     \<lparr>jp_Parse = \<lambda>e. None, jp_FindResults = \<lambda>e v. Inr [[v]], jp_PrintResults = \<lambda>r. Inr '''',
      jp_ShowResults = \<lambda>r. '''', jp_Unmarshal = \<lambda>b. Inr [JNull]\<rparr> ?c = None"
    unfolding ClusterSupplyChain_ValidateCreate_def wrap_error_None validateNewState_iff
    by (simp add: wf_supply_chain_def wf_selector_def wf_label_selectors_def wf_param_def wf_template_ref_def
        legacySelectorToSelector_def)
  from accepted_context_generated [OF this, of _ JNull "[]" None fmempty fmempty] show ?thesis
    by (simp add: MakeSupplychainOwnerResources_def)
qed

text \<open>
  The template sees as \<^verbatim>\<open>source\<close> the input \<open>s\<close> exactly when \<open>s\<close> is the only available source input, and
  the source inputs are those of the last reference of each name whose resource has already produced a source.
\<close>

theorem context_sources:
  assumes "Generate c templateParams r outs ls = Ret ctx"
  shows "(ctx_source ctx = Some s \<longleftrightarrow> (\<exists>k. ctx_sources ctx = fmupd k s fmempty)) \<and>
    fmlookup (ctx_sources ctx) k =
     (case last_named ref_Name (filter (\<lambda>r. GetSource outs (ref_Resource r) \<noteq> None) (owr_Sources r)) k of
        None \<Rightarrow> None
      | Some r \<Rightarrow> map_option (\<lambda>s. \<lparr>si_URL = so_URL s, si_Revision = so_Revision s, si_Name = k\<rparr>)
          (GetSource outs (ref_Resource r)))"
proof -
  have src: "ctx_sources ctx = GetSources (NewInputGenerator r outs)"
    using assms by (auto simp: Generate_def Let_def split: go.splits)
  have "ctx_source ctx = (if fmap_len (ctx_sources ctx) = 1 then the_only (ctx_sources ctx) else None)"
    using assms by (auto simp: Generate_def Let_def split: go.splits)
  then show ?thesis
    using the_only_iff [of "ctx_sources ctx" s]
    unfolding src GetSources_lookup NewInputGenerator_def InputGenerator.simps by (simp only: simp_thms)
qed

theorem context_sources_witness:
  "\<exists>ctx. Generate (NewContextGenerator JNull [] []) None
     \<lparr>owr_TemplateRef = \<lparr>tref_Kind = ''ClusterTemplate'', tref_Name = ''t''\<rparr>, owr_TemplateOptions = [], owr_Params = [],
      owr_Name = ''r'', owr_Sources = [\<lparr>ref_Name = ''n'', ref_Resource = ''q''\<rparr>], owr_Images = [], owr_Configs = [],
      owr_Deployment = None\<rparr>
     (AddOutput NewOutputs ''q'' (Some \<lparr>to_Source = Some \<lparr>so_URL = JStr ''u'', so_Revision = JStr ''v''\<rparr>,
        to_Image = JNull, to_Config = JNull\<rparr>)) fmempty = Ret ctx \<and>
     fmlookup (ctx_sources ctx) ''n'' = Some \<lparr>si_URL = JStr ''u'', si_Revision = JStr ''v'', si_Name = ''n''\<rparr>"
proof -
  let ?r = "\<lparr>owr_TemplateRef = \<lparr>tref_Kind = ''ClusterTemplate'', tref_Name = ''t''\<rparr>, owr_TemplateOptions = [], owr_Params = [],
      owr_Name = ''r'', owr_Sources = [\<lparr>ref_Name = ''n'', ref_Resource = ''q''\<rparr>], owr_Images = [], owr_Configs = [],
      owr_Deployment = None\<rparr>"
  let ?o = "AddOutput NewOutputs ''q'' (Some \<lparr>to_Source = Some \<lparr>so_URL = JStr ''u'', so_Revision = JStr ''v''\<rparr>,
        to_Image = JNull, to_Config = JNull\<rparr>)"
  have "\<exists>ctx. Generate (NewContextGenerator JNull [] []) None ?r ?o fmempty = Ret ctx"
    by (simp add: Generate_def Merge_def NewParamMerger_def NewContextGenerator_def Let_def)
  then obtain ctx where g: "Generate (NewContextGenerator JNull [] []) None ?r ?o fmempty = Ret ctx" ..
  from context_sources [OF g, of _ "''n''"] g show ?thesis
    by (simp add: last_named_def GetSource_def get_output_def AddOutput_def NewOutputs_def)
qed

end
