(* ===== verification/Stamp_Reader.thy ===== *)
theory Stamp_Reader
  imports Realizer_Inputs
begin

text \<open>
  \<^verbatim>\<open>pkg/stamp\<close>: reading the outputs of a stamped object.  The Go interface \<^verbatim>\<open>Outputter\<close> has eight
  implementations, the constructors of the datatype \<open>Outputter\<close>; its method is \<open>Output\<close>.  The interfaces
  \<^verbatim>\<open>DeploymentInput\<close> and \<^verbatim>\<open>PassThroughInput\<close> are implemented by \<^typ>\<open>InputGenerator\<close>.  The text of a
  value under \<^verbatim>\<open>%s\<close> is the parameter \<open>sv\<close>.

  The results characterise when a deployment counts as complete, which object of an immutable template is the
  latest successful one, and that a pass through hands on the upstream output unchanged.
\<close>

named_theorems reader_Output \<open>the \<^verbatim>\<open>Output\<close> methods of the readers\<close>

section \<open>Errors\<close>

definition NewJsonPathError :: "string \<Rightarrow> gerror \<Rightarrow> gerror" where
  "NewJsonPathError expression err = JsonPathError err expression"

definition NewObservedGenerationError :: "gerror \<Rightarrow> gerror" where
  "NewObservedGenerationError err = ObservedGenerationError err"

definition NewDeploymentConditionError :: "gerror \<Rightarrow> gerror" where
  "NewDeploymentConditionError err = DeploymentConditionError err"

definition NewDeploymentFailedConditionMetError :: "gerror \<Rightarrow> gerror" where
  "NewDeploymentFailedConditionMetError err = DeploymentFailedConditionMetError err"

section \<open>Readers\<close>

datatype Outputter =
    SourceOutputReader SourceTemplateSpec
  | ConfigOutputReader ConfigTemplateSpec
  | ImageOutputReader ImageTemplateSpec
  | DeploymentPassThroughReader InputGenerator "DeploymentSpec option"
  | NoOutputReader
  | SourcePassThroughReader InputGenerator string
  | ImagePassThroughReader InputGenerator string
  | ConfigPassThroughReader InputGenerator string

definition NewPassThroughReader :: "string \<Rightarrow> string \<Rightarrow> InputGenerator \<Rightarrow> Outputter go" where
  "NewPassThroughReader kind name inputReader =
     (if kind = ''ClusterSourceTemplate'' then Ret (SourcePassThroughReader inputReader name)
      else if kind = ''ClusterImageTemplate'' then Ret (ImagePassThroughReader inputReader name)
      else if kind = ''ClusterConfigTemplate'' then Ret (ConfigPassThroughReader inputReader name)
      else if kind = ''ClusterTemplate'' then Ret NoOutputReader
      else if kind = ''ClusterDeploymentTemplate'' then Ret (DeploymentPassThroughReader inputReader None)
      else Err (ErrorString ''kind does not match a known template''))"

text \<open>A nil \<^verbatim>\<open>client.Object\<close> is \<^const>\<open>None\<close>.\<close>

definition NewReader :: "api_template option \<Rightarrow> InputGenerator \<Rightarrow> Outputter go" where
  "NewReader template inputReader =
     (case template of
        Some (ClusterSourceTemplate n s) \<Rightarrow> Ret (SourceOutputReader s)
      | Some (ClusterImageTemplate n s) \<Rightarrow> Ret (ImageOutputReader s)
      | Some (ClusterConfigTemplate n s) \<Rightarrow> Ret (ConfigOutputReader s)
      | Some (ClusterDeploymentTemplate n s) \<Rightarrow> Ret (DeploymentPassThroughReader inputReader (Some s))
      | Some (ClusterTemplate n s) \<Rightarrow> Ret NoOutputReader
      | None \<Rightarrow> Err (ErrorString ''template does not match a known template''))"

text \<open>\<^verbatim>\<open>EvaluateJsonPath\<close> on the content of an object, with the error that the caller makes of a failure.\<close>

definition eval_path ::
  "jsonpath_lib \<Rightarrow> string \<Rightarrow> unstructured \<Rightarrow> (gerror \<Rightarrow> gerror) \<Rightarrow> (json \<Rightarrow> 'a go) \<Rightarrow> 'a go" where
  "eval_path jp path obj on_error k =
     (case EvaluateJsonPath jp path (u_Content obj) of
        Panic p \<Rightarrow> Panic p
      | Err e \<Rightarrow> Err (on_error e)
      | Ret v \<Rightarrow> k v)"

text \<open>\<^verbatim>\<open>if a != b { return err }\<close> on two \<^verbatim>\<open>interface{}\<close> values.\<close>

definition require_equal :: "json \<Rightarrow> json \<Rightarrow> gerror \<Rightarrow> unit go" where
  "require_equal a b err =
     (case iface_eq a b of
        None \<Rightarrow> Panic ''runtime error: comparing uncomparable type''
      | Some True \<Rightarrow> Ret ()
      | Some False \<Rightarrow> Err err)"

fun observedMatchesReady :: "jsonpath_lib \<Rightarrow> (json \<Rightarrow> string) \<Rightarrow> ObservedMatch list \<Rightarrow> unstructured \<Rightarrow> unit go" where
  "observedMatchesReady jp sv [] obj = Ret ()"
| "observedMatchesReady jp sv (match # ms) obj =
     eval_path jp (om_Input match) obj
       (\<lambda>err. DeploymentConditionError (WrapError (''could not find value on input ['' @ om_Input match @ '']: '') err))
       (\<lambda>input. eval_path jp (om_Output match) obj
          (\<lambda>err. DeploymentConditionError (WrapError (''could not find value on output ['' @ om_Output match @ '']: '') err))
          (\<lambda>output.
             case require_equal input output
               (DeploymentConditionError (ErrorString (''input ['' @ om_Input match @ ''] and output ['' @ om_Output match
                  @ ''] do not match: '' @ sv input @ '' != '' @ sv output))) of
               Panic p \<Rightarrow> Panic p
             | Err e \<Rightarrow> Err e
             | Ret _ \<Rightarrow> observedMatchesReady jp sv ms obj))"

text \<open>The failed condition: a missing key counts as a nil value, which equals no string.\<close>

definition failed_condition_met ::
  "jsonpath_lib \<Rightarrow> (json \<Rightarrow> string) \<Rightarrow> KeyCondition option \<Rightarrow> unstructured \<Rightarrow> unit go" where
  "failed_condition_met jp sv fc obj =
     (case fc of
        None \<Rightarrow> Ret ()
      | Some c \<Rightarrow>
          (let decide = (\<lambda>failedObserved.
             if failedObserved = JStr (kc_Value c) then
               Err (DeploymentFailedConditionMetError (ErrorString (''deployment failure condition ['' @ kc_Key c
                  @ ''] was: '' @ sv failedObserved)))
             else Ret ())
           in case EvaluateJsonPath jp (kc_Key c) (u_Content obj) of
                Panic p \<Rightarrow> Panic p
              | Err err \<Rightarrow>
                  (if \<not> is_JsonPathDoesNotExist err then
                     Err (JsonPathError (WrapError (''failed to evaluate '' @ kc_Key c @ '': '') err) (kc_Key c))
                   else decide JNull)
              | Ret v \<Rightarrow> decide v))"

definition observedCompletionReady ::
  "jsonpath_lib \<Rightarrow> (json \<Rightarrow> string) \<Rightarrow> ObservedCompletion \<Rightarrow> unstructured \<Rightarrow> unit go" where
  "observedCompletionReady jp sv oc obj =
     eval_path jp ''metadata.generation'' obj
       (\<lambda>err. JsonPathError (WrapError ''failed to evaluate metadata.generation: '' err) ''metadata.generation'')
       (\<lambda>generation. eval_path jp ''status.observedGeneration'' obj
          (\<lambda>err. ObservedGenerationError (WrapError ''failed to evaluate status.observedGeneration: '' err))
          (\<lambda>observedGeneration.
             case require_equal observedGeneration generation
               (DeploymentConditionError (ErrorString (''status.observedGeneration does not equal metadata.generation: ''
                  @ sv observedGeneration @ '' != '' @ sv generation))) of
               Panic p \<Rightarrow> Panic p
             | Err e \<Rightarrow> Err e
             | Ret _ \<Rightarrow>
                 (case failed_condition_met jp sv (oc_FailedCondition oc) obj of
                    Panic p \<Rightarrow> Panic p
                  | Err e \<Rightarrow> Err e
                  | Ret _ \<Rightarrow>
                      (let sc = oc_SucceededCondition oc in
                       eval_path jp (kc_Key sc) obj
                         (\<lambda>err. DeploymentConditionError (WrapError (''failed to evaluate succeededCondition.Key ['' @ kc_Key sc
                            @ '']: '') err))
                         (\<lambda>succeededObserved.
                            if succeededObserved \<noteq> JStr (kc_Value sc) then
                              Err (DeploymentConditionError (ErrorString (''deployment success condition ['' @ kc_Key sc
                                @ ''] was: '' @ sv succeededObserved @ '', expected: '' @ kc_Value sc)))
                            else Ret ())))))"

definition outputReady ::
  "jsonpath_lib \<Rightarrow> (json \<Rightarrow> string) \<Rightarrow> DeploymentSpec option \<Rightarrow> unstructured \<Rightarrow> unit go" where
  "outputReady jp sv template obj =
     (case template of
        None \<Rightarrow> Ret ()
      | Some s \<Rightarrow>
          (case dep_ObservedCompletion s of
             Some oc \<Rightarrow> observedCompletionReady jp sv oc obj
           | None \<Rightarrow> observedMatchesReady jp sv (elems (dep_ObservedMatches s)) obj))"

definition empty_output :: TOutput where
  "empty_output = \<lparr>to_Source = None, to_Image = JNull, to_Config = JNull\<rparr>"

definition empty_object_error :: gerror where
  "empty_object_error = ErrorString ''failed to evaluate path of empty object''"

text \<open>\<^verbatim>\<open>Output\<close> of the eight readers.\<close>

definition SourceOutputReader_Output :: "jsonpath_lib \<Rightarrow> SourceTemplateSpec \<Rightarrow> unstructured option \<Rightarrow> TOutput go" where [reader_Output]:
  "SourceOutputReader_Output jp s sobj =
     (case sobj of
        None \<Rightarrow> Err (JsonPathError empty_object_error (src_URLPath s))
      | Some obj \<Rightarrow>
          eval_path jp (src_URLPath s) obj
            (\<lambda>err. JsonPathError (WrapError (''failed to evaluate the url path ['' @ src_URLPath s @ '']: '') err) (src_URLPath s))
            (\<lambda>url. eval_path jp (src_RevisionPath s) obj
               (\<lambda>err. JsonPathError (WrapError (''failed to evaluate the revision path ['' @ src_RevisionPath s @ '']: '') err)
                  (src_RevisionPath s))
               (\<lambda>revision. Ret (empty_output\<lparr>to_Source := Some \<lparr>so_URL = url, so_Revision = revision\<rparr>\<rparr>))))"

definition ConfigOutputReader_Output :: "jsonpath_lib \<Rightarrow> ConfigTemplateSpec \<Rightarrow> unstructured option \<Rightarrow> TOutput go" where [reader_Output]:
  "ConfigOutputReader_Output jp s sobj =
     (case sobj of
        None \<Rightarrow> Err (JsonPathError empty_object_error (cfg_ConfigPath s))
      | Some obj \<Rightarrow>
          eval_path jp (cfg_ConfigPath s) obj
            (\<lambda>err. JsonPathError (WrapError (''failed to evaluate spec.configPath ['' @ cfg_ConfigPath s @ '']: '') err) (cfg_ConfigPath s))
            (\<lambda>config. Ret (empty_output\<lparr>to_Config := config\<rparr>)))"

definition ImageOutputReader_Output :: "jsonpath_lib \<Rightarrow> ImageTemplateSpec \<Rightarrow> unstructured option \<Rightarrow> TOutput go" where [reader_Output]:
  "ImageOutputReader_Output jp s sobj =
     (case sobj of
        None \<Rightarrow> Err (JsonPathError empty_object_error (img_ImagePath s))
      | Some obj \<Rightarrow>
          eval_path jp (img_ImagePath s) obj
            (\<lambda>err. JsonPathError (WrapError (''failed to evaluate the url path ['' @ img_ImagePath s @ '']: '') err) (img_ImagePath s))
            (\<lambda>image. Ret (empty_output\<lparr>to_Image := image\<rparr>)))"

definition DeploymentPassThroughReader_Output :: "jsonpath_lib \<Rightarrow> (json \<Rightarrow> string) \<Rightarrow> InputGenerator \<Rightarrow> DeploymentSpec option \<Rightarrow> unstructured option \<Rightarrow> TOutput go" where [reader_Output]:
  "DeploymentPassThroughReader_Output jp sv inputs template sobj =
     (case sobj of
        None \<Rightarrow> Err empty_object_error
      | Some obj \<Rightarrow>
          (case outputReady jp sv template obj of
             Panic p \<Rightarrow> Panic p
           | Err e \<Rightarrow> Err e
           | Ret _ \<Rightarrow>
               (case GetDeployment inputs of
                  None \<Rightarrow> Err (ErrorString ''deployment not found in upstream template'')
                | Some d \<Rightarrow> Ret (empty_output\<lparr>to_Source := Some \<lparr>so_URL = si_URL d, so_Revision = si_Revision d\<rparr>\<rparr>))))"

definition NoOutputReader_Output :: "TOutput go" where [reader_Output]:
  "NoOutputReader_Output =
     Ret empty_output"

definition SourcePassThroughReader_Output :: "InputGenerator \<Rightarrow> string \<Rightarrow> TOutput go" where [reader_Output]:
  "SourcePassThroughReader_Output inputs name =
     (case fmlookup (GetSources inputs) name of
        None \<Rightarrow> Err (ErrorString (''input ['' @ name @ ''] not found in sources''))
      | Some s \<Rightarrow> Ret (empty_output\<lparr>to_Source := Some \<lparr>so_URL = si_URL s, so_Revision = si_Revision s\<rparr>\<rparr>))"

definition ImagePassThroughReader_Output :: "InputGenerator \<Rightarrow> string \<Rightarrow> TOutput go" where [reader_Output]:
  "ImagePassThroughReader_Output inputs name =
     (case fmlookup (GetImages inputs) name of
        None \<Rightarrow> Err (ErrorString (''input ['' @ name @ ''] not found in images''))
      | Some i \<Rightarrow> Ret (empty_output\<lparr>to_Image := ii_Image i\<rparr>))"

definition ConfigPassThroughReader_Output :: "InputGenerator \<Rightarrow> string \<Rightarrow> TOutput go" where [reader_Output]:
  "ConfigPassThroughReader_Output inputs name =
     (case fmlookup (GetConfigs inputs) name of
        None \<Rightarrow> Err (ErrorString (''input ['' @ name @ ''] not found in configs''))
      | Some c \<Rightarrow> Ret (empty_output\<lparr>to_Config := ci_Config c\<rparr>))"

fun OutputOf :: "jsonpath_lib \<Rightarrow> (json \<Rightarrow> string) \<Rightarrow> Outputter \<Rightarrow> unstructured option \<Rightarrow> TOutput go" where
  "OutputOf jp sv (SourceOutputReader s) sobj = SourceOutputReader_Output jp s sobj"
| "OutputOf jp sv (ConfigOutputReader s) sobj = ConfigOutputReader_Output jp s sobj"
| "OutputOf jp sv (ImageOutputReader s) sobj = ImageOutputReader_Output jp s sobj"
| "OutputOf jp sv (DeploymentPassThroughReader inputs template) sobj = DeploymentPassThroughReader_Output jp sv inputs template sobj"
| "OutputOf jp sv NoOutputReader sobj = NoOutputReader_Output"
| "OutputOf jp sv (SourcePassThroughReader inputs name) sobj = SourcePassThroughReader_Output inputs name"
| "OutputOf jp sv (ImagePassThroughReader inputs name) sobj = ImagePassThroughReader_Output inputs name"
| "OutputOf jp sv (ConfigPassThroughReader inputs name) sobj = ConfigPassThroughReader_Output inputs name"

section \<open>The latest successful object\<close>

record ExaminedObject =
  eo_StampedObject :: unstructured
  eo_Health :: ConditionStatus

fun latest_loop :: "time \<Rightarrow> unstructured option \<Rightarrow> ExaminedObject list \<Rightarrow> unstructured option" where
  "latest_loop latestTime latest [] = latest"
| "latest_loop latestTime latest (e # es) =
     (if eo_Health e \<noteq> ConditionTrue then latest_loop latestTime latest es
      else
        (let currentTime = u_CreationTimestamp (eo_StampedObject e)
         in if time_After currentTime latestTime then latest_loop currentTime (Some (eo_StampedObject e)) es
            else latest_loop latestTime latest es))"

definition GetLatestSuccessfulObjFromExaminedObject :: "ExaminedObject list \<Rightarrow> unstructured option" where
  "GetLatestSuccessfulObjFromExaminedObject es = latest_loop zero_time None es"

section \<open>Lemmas\<close>

lemma eval_path_Ret_iff:
  "eval_path jp path obj f k = Ret r \<longleftrightarrow>
     (\<exists>v. EvaluateJsonPath jp path (u_Content obj) = Ret v \<and> k v = Ret r)"
  by (simp add: eval_path_def split: go.split)

lemma require_equal_Ret_iff:
  "require_equal a b e = Ret () \<longleftrightarrow> iface_eq a b = Some True"
  by (simp add: require_equal_def split: option.split bool.split)

lemma iface_eq_True_iff: "iface_eq a b = Some True \<longleftrightarrow> a = b \<and> iface_eq b b \<noteq> None"
  using iface_eq_Some by (metis (full_types) option.exhaust option.distinct(1))

text \<open>\<^verbatim>\<open>if err := f(); err != nil { return err }\<close> followed by the rest of the function.\<close>

lemma go_seq_Ret_iff:
  "(case m of Panic p \<Rightarrow> Panic p | Err e \<Rightarrow> Err e | Ret x \<Rightarrow> k) = Ret r \<longleftrightarrow> (\<exists>x. m = Ret x) \<and> k = Ret r"
  by (simp split: go.split)

lemma failed_condition_met_Ret_iff:
  "failed_condition_met jp sv fc obj = Ret () \<longleftrightarrow>
     (\<forall>c. fc = Some c \<longrightarrow>
        (\<exists>v. EvaluateJsonPath jp (kc_Key c) (u_Content obj) = Ret v \<and> v \<noteq> JStr (kc_Value c)) \<or>
        (\<exists>p. EvaluateJsonPath jp (kc_Key c) (u_Content obj) = Err (JsonPathDoesNotExistError p)))"
proof -
  have "is_JsonPathDoesNotExist e \<longleftrightarrow> (\<exists>p. e = JsonPathDoesNotExistError p)" for e
    by (cases e) simp_all
  then show ?thesis
    by (auto simp: failed_condition_met_def Let_def split: option.splits go.splits if_splits)
qed

text \<open>The loop keeps the best object so far; at the end it is the healthy object with the latest time.\<close>

definition healthy_after :: "time \<Rightarrow> ExaminedObject list \<Rightarrow> unstructured set" where
  "healthy_after t es =
     {u. \<exists>e\<in>set es. eo_Health e = ConditionTrue \<and> eo_StampedObject e = u \<and> t < u_CreationTimestamp u}"

lemma latest_loop_result:
  "if healthy_after t es = {} then latest_loop t b es = b
   else (\<exists>u\<in>healthy_after t es. latest_loop t b es = Some u \<and>
          (\<forall>v\<in>healthy_after t es. u_CreationTimestamp v \<le> u_CreationTimestamp u))"
proof (induction es arbitrary: t b)
  case Nil
  then show ?case by (simp add: healthy_after_def)
next
  case (Cons e es)
  let ?u = "eo_StampedObject e"
  show ?case
  proof (cases "eo_Health e = ConditionTrue \<and> t < u_CreationTimestamp ?u")
    case False
    then have "healthy_after t (e # es) = healthy_after t es"
      "latest_loop t b (e # es) = latest_loop t b es"
      by (auto simp: healthy_after_def time_After_def Let_def)
    then show ?thesis using Cons.IH [of t b] by simp
  next
    case True
    let ?t = "u_CreationTimestamp ?u"
    have step: "latest_loop t b (e # es) = latest_loop ?t (Some ?u) es"
      using True by (simp add: time_After_def Let_def)
    have mem: "?u \<in> healthy_after t (e # es)"
      using True by (simp add: healthy_after_def)
    have sub: "healthy_after ?t es \<subseteq> healthy_after t (e # es)"
      using True by (auto simp: healthy_after_def)
    have rest: "v \<in> healthy_after ?t es \<or> u_CreationTimestamp v \<le> ?t" if "v \<in> healthy_after t (e # es)" for v
      using that by (auto simp: healthy_after_def)
    show ?thesis
    proof (cases "healthy_after ?t es = {}")
      case True
      then have "latest_loop t b (e # es) = Some ?u"
        using Cons.IH [of ?t "Some ?u"] step by simp
      then show ?thesis using mem rest True by force
    next
      case False
      then obtain u where u: "u \<in> healthy_after ?t es" "latest_loop ?t (Some ?u) es = Some u"
        "\<And>v. v \<in> healthy_after ?t es \<Longrightarrow> u_CreationTimestamp v \<le> u_CreationTimestamp u"
        using Cons.IH [of ?t "Some ?u"] by auto
      have "?t \<le> u_CreationTimestamp u" using u(1) by (auto simp: healthy_after_def)
      then have "u_CreationTimestamp v \<le> u_CreationTimestamp u" if "v \<in> healthy_after t (e # es)" for v
        using rest [OF that] u(3) by fastforce
      then show ?thesis using u(1,2) sub step mem by auto
    qed
  qed
qed

lemma latest_successful_None_iff:
  "GetLatestSuccessfulObjFromExaminedObject es = None \<longleftrightarrow> healthy_after zero_time es = {}"
  using latest_loop_result [of zero_time es None]
  by (auto simp: GetLatestSuccessfulObjFromExaminedObject_def split: if_splits)

section \<open>Properties\<close>

text \<open>
  A deployment with an observed completion is ready exactly when its generation was observed, its failed
  condition (if any) does not hold and its succeeded condition does.
\<close>

theorem observed_completion_ready_iff:
  "observedCompletionReady jp sv oc obj = Ret () \<longleftrightarrow>
     (\<exists>g. EvaluateJsonPath jp ''metadata.generation'' (u_Content obj) = Ret g \<and>
          EvaluateJsonPath jp ''status.observedGeneration'' (u_Content obj) = Ret g \<and> iface_eq g g \<noteq> None) \<and>
     (\<forall>c. oc_FailedCondition oc = Some c \<longrightarrow>
        (\<exists>v. EvaluateJsonPath jp (kc_Key c) (u_Content obj) = Ret v \<and> v \<noteq> JStr (kc_Value c)) \<or>
        (\<exists>p. EvaluateJsonPath jp (kc_Key c) (u_Content obj) = Err (JsonPathDoesNotExistError p))) \<and>
     EvaluateJsonPath jp (kc_Key (oc_SucceededCondition oc)) (u_Content obj) =
       Ret (JStr (kc_Value (oc_SucceededCondition oc)))"
proof -
  let ?sc = "oc_SucceededCondition oc"
  have "observedCompletionReady jp sv oc obj = Ret () \<longleftrightarrow>
     (\<exists>g. EvaluateJsonPath jp ''metadata.generation'' (u_Content obj) = Ret g \<and>
        (\<exists>h. EvaluateJsonPath jp ''status.observedGeneration'' (u_Content obj) = Ret h \<and> iface_eq h g = Some True)) \<and>
     failed_condition_met jp sv (oc_FailedCondition oc) obj = Ret () \<and>
     (\<exists>v. EvaluateJsonPath jp (kc_Key ?sc) (u_Content obj) = Ret v \<and> v = JStr (kc_Value ?sc))"
    unfolding observedCompletionReady_def eval_path_Ret_iff go_seq_Ret_iff Let_def
    by (auto simp: require_equal_Ret_iff)
  then show ?thesis
    unfolding failed_condition_met_Ret_iff iface_eq_True_iff by blast
qed

theorem observed_completion_ready_iff_witness:
  "observedCompletionReady \<lparr>jp_Parse = \<lambda>e. None, jp_FindResults = \<lambda>e v. Inr [[v]],
      jp_PrintResults = \<lambda>r. Inr '''', jp_ShowResults = \<lambda>r. '''', jp_Unmarshal = \<lambda>b. Inr [JStr ''ok'']\<rparr> (\<lambda>v. '''')
     \<lparr>oc_SucceededCondition = \<lparr>kc_Key = ''s'', kc_Value = ''ok''\<rparr>, oc_FailedCondition = Some \<lparr>kc_Key = ''f'', kc_Value = ''bad''\<rparr>\<rparr>
     \<lparr>u_APIVersion = '''', u_Kind = '''', u_GVK = \<lparr>gvk_Group = '''', gvk_Version = '''', gvk_Kind = ''''\<rparr>, u_Namespace = '''',
      u_Name = '''', u_GenerateName = '''', u_Labels = fmempty, u_CreationTimestamp = 0, u_ResourceVersion = '''',
      u_Content = JNull\<rparr> = Ret ()"
  by (simp add: observed_completion_ready_iff EvaluateJsonPath_def SinglePathEvaluate_def) blast

text \<open>
  \<^verbatim>\<open>GetLatestSuccessfulObjFromExaminedObject\<close> returns a healthy object than which no healthy object
  is later; it returns nil exactly when no healthy object has a creation time after the zero time.
\<close>

theorem latest_successful:
  "case GetLatestSuccessfulObjFromExaminedObject es of
     None \<Rightarrow> \<not> (\<exists>e\<in>set es. eo_Health e = ConditionTrue \<and> zero_time < u_CreationTimestamp (eo_StampedObject e))
   | Some u \<Rightarrow> (\<exists>e\<in>set es. eo_Health e = ConditionTrue \<and> eo_StampedObject e = u) \<and>
       \<not> (\<exists>e\<in>set es. eo_Health e = ConditionTrue \<and> u_CreationTimestamp u < u_CreationTimestamp (eo_StampedObject e))"
proof (cases "healthy_after zero_time es = {}")
  case True
  then have "GetLatestSuccessfulObjFromExaminedObject es = None" by (simp add: latest_successful_None_iff)
  moreover have "\<not> (\<exists>e\<in>set es. eo_Health e = ConditionTrue \<and> zero_time < u_CreationTimestamp (eo_StampedObject e))"
    using True by (auto simp: healthy_after_def)
  ultimately show ?thesis by simp
next
  case False
  then obtain u where u: "u \<in> healthy_after zero_time es" "GetLatestSuccessfulObjFromExaminedObject es = Some u"
    "\<And>v. v \<in> healthy_after zero_time es \<Longrightarrow> u_CreationTimestamp v \<le> u_CreationTimestamp u"
    using latest_loop_result [of zero_time es None] by (auto simp: GetLatestSuccessfulObjFromExaminedObject_def)
  have "\<not> (u_CreationTimestamp u < u_CreationTimestamp (eo_StampedObject e))"
    if "e \<in> set es" "eo_Health e = ConditionTrue" for e
  proof (cases "zero_time < u_CreationTimestamp (eo_StampedObject e)")
    case True
    with that have "eo_StampedObject e \<in> healthy_after zero_time es" by (auto simp: healthy_after_def)
    then show ?thesis using u(3) by force
  next
    case False
    then show ?thesis using u(1) by (auto simp: healthy_after_def)
  qed
  then show ?thesis using u(1,2) by (auto simp: healthy_after_def)
qed

text \<open>
  A pass through of a source template returns, whatever the stamped object, exactly the source that the last available
  reference of that name gets from its resource, and fails exactly when no such reference has a source yet.
\<close>

theorem source_pass_through:
  "OutputOf jp sv (SourcePassThroughReader (NewInputGenerator r outs) name) sobj =
     (case last_named ref_Name (filter (\<lambda>ref. GetSource outs (ref_Resource ref) \<noteq> None) (owr_Sources r)) name of
        None \<Rightarrow> Err (ErrorString (''input ['' @ name @ ''] not found in sources''))
      | Some ref \<Rightarrow> Ret (empty_output\<lparr>to_Source := GetSource outs (ref_Resource ref)\<rparr>))"
proof -
  let ?ref = "last_named ref_Name (filter (\<lambda>ref. GetSource outs (ref_Resource ref) \<noteq> None) (owr_Sources r)) name"
  have look: "fmlookup (GetSources (NewInputGenerator r outs)) name =
      (case ?ref of None \<Rightarrow> None
       | Some ref \<Rightarrow> map_option (\<lambda>s. \<lparr>si_URL = so_URL s, si_Revision = so_Revision s, si_Name = name\<rparr>)
           (GetSource outs (ref_Resource ref)))"
    unfolding GetSources_lookup NewInputGenerator_def InputGenerator.simps by (rule refl)
  show ?thesis
  proof (cases ?ref)
    case None
    then show ?thesis unfolding OutputOf.simps reader_Output look by simp
  next
    case (Some ref)
    then obtain s where "GetSource outs (ref_Resource ref) = Some s"
      using last_named_SomeD [OF Some] by auto
    with Some show ?thesis unfolding OutputOf.simps reader_Output look by simp
  qed
qed

text \<open>
  A pass through on a deployment template never succeeds: its reader needs a stamped object, and the realizer
  calls it with none.
\<close>

theorem deployment_pass_through_fails:
  "\<exists>reader. NewPassThroughReader ''ClusterDeploymentTemplate'' name inputs = Ret reader \<and>
     OutputOf jp sv reader None = Err (ErrorString ''failed to evaluate path of empty object'')"
  by (simp add: NewPassThroughReader_def DeploymentPassThroughReader_Output_def empty_object_error_def)

text \<open>
  an observed match whose input and output both evaluate to objects (or both to arrays) makes the reader panic instead
  of comparing them.
\<close>

theorem observed_match_panics:
  assumes "EvaluateJsonPath jp (om_Input m) (u_Content obj) = Ret (JObj a)"
    and "EvaluateJsonPath jp (om_Output m) (u_Content obj) = Ret (JObj b)"
  shows "\<exists>p. observedMatchesReady jp sv (m # ms) obj = Panic p"
  using assms by (simp add: eval_path_def require_equal_def)

theorem observed_match_panics_witness:
  "\<exists>p. observedMatchesReady \<lparr>jp_Parse = \<lambda>e. None, jp_FindResults = \<lambda>e v. Inr [[v]],
      jp_PrintResults = \<lambda>r. Inr '''', jp_ShowResults = \<lambda>r. '''', jp_Unmarshal = \<lambda>b. Inr [JObj fmempty]\<rparr> (\<lambda>v. '''')
     [\<lparr>om_Input = ''spec'', om_Output = ''status''\<rparr>]
     \<lparr>u_APIVersion = '''', u_Kind = '''', u_GVK = \<lparr>gvk_Group = '''', gvk_Version = '''', gvk_Kind = ''''\<rparr>, u_Namespace = '''',
      u_Name = '''', u_GenerateName = '''', u_Labels = fmempty, u_CreationTimestamp = 0, u_ResourceVersion = '''',
      u_Content = JNull\<rparr> = Panic p"
  by (rule observed_match_panics) (simp_all add: EvaluateJsonPath_def SinglePathEvaluate_def)

end
