(* ===== verification/Condition_Manager.thy ===== *)
theory Condition_Manager
  imports Go_Errors
begin

text \<open>
  \<^verbatim>\<open>pkg/conditions/condition_manager.go\<close>: the collector of status conditions.  The Go interface
  \<^verbatim>\<open>ConditionManager\<close> is the locale \<open>condition_manager\<close>, whose laws say what \<^verbatim>\<open>Finalize\<close> returns after
  any sequence of \<^verbatim>\<open>Add\<close>s, in terms of the abstract aggregation \<open>aggregate\<close>; the struct
  \<^verbatim>\<open>conditionManager\<close> and its methods are the record and definitions below, and the
  interpretation \<open>cm\<close> shows that they keep the laws.  \<^verbatim>\<open>metav1.Now()\<close> is the argument \<open>now\<close>.
\<close>

section \<open>The model\<close>

datatype Polarity = Positive | Negative

record conditionManager =
  cm_previousConditions :: "condition list"
  cm_conditions :: "condition list"
  cm_topLevelType :: string
  cm_status :: ConditionStatus
  cm_changed :: bool
  cm_reason :: string
  cm_message :: string

definition NewConditionManager :: "string \<Rightarrow> condition list \<Rightarrow> conditionManager" where
  "NewConditionManager topLevelType previousConditions =
     \<lparr>cm_previousConditions = previousConditions, cm_conditions = [],
      cm_topLevelType = topLevelType, cm_status = ConditionTrue, cm_changed = False,
      cm_reason = '''', cm_message = ''''\<rparr>"

text \<open>The loop of \<^verbatim>\<open>Add\<close> over the previous conditions: the condition (with its time), whether it is
  new, and whether it changed.\<close>

fun compare_previous :: "condition list \<Rightarrow> condition \<Rightarrow> bool \<Rightarrow> bool \<Rightarrow> condition \<times> bool \<times> bool" where
  "compare_previous [] c isNew changed = (c, isNew, changed)"
| "compare_previous (p # ps) c isNew changed =
     (if cond_Type p = cond_Type c then
        (let c' = c\<lparr>cond_LastTransitionTime := cond_LastTransitionTime p\<rparr>
         in if p \<noteq> c' then compare_previous ps c False True
            else compare_previous ps c' False changed)
      else compare_previous ps c isNew changed)"

definition Add :: "time \<Rightarrow> conditionManager \<Rightarrow> condition \<Rightarrow> Polarity \<Rightarrow> conditionManager" where
  "Add now m cond polarity =
     (let c0 = cond\<lparr>cond_LastTransitionTime := now\<rparr>;
          m1 = (if cond_Status c0 = ConditionFalse \<and> polarity = Positive \<or>
                   cond_Status c0 = ConditionTrue \<and> polarity = Negative
                then m\<lparr>cm_status := ConditionFalse, cm_reason := cond_Reason c0,
                       cm_message := cond_Message c0\<rparr>
                else if cond_Status c0 = ConditionUnknown then
                  (if cm_status m = ConditionTrue
                   then m\<lparr>cm_status := ConditionUnknown, cm_reason := cond_Reason c0,
                          cm_message := cond_Message c0\<rparr>
                   else m)
                else m);
          (c1, isNew, changed) = compare_previous (cm_previousConditions m1) c0 True (cm_changed m1)
      in m1\<lparr>cm_changed := (if isNew then True else changed),
            cm_conditions := cm_conditions m1 @ [c1]\<rparr>)"

definition AddPositive :: "time \<Rightarrow> conditionManager \<Rightarrow> condition \<Rightarrow> conditionManager" where
  "AddPositive now m cond = Add now m cond Positive"

definition AddNegative :: "time \<Rightarrow> conditionManager \<Rightarrow> condition \<Rightarrow> conditionManager" where
  "AddNegative now m cond = Add now m cond Negative"

definition IsSuccessful :: "conditionManager \<Rightarrow> bool" where
  "IsSuccessful m = (\<not> cm_status m = ConditionFalse)"

text \<open>\<^verbatim>\<open>Finalize\<close> returns the conditions and the changed flag, and leaves the manager in a new state.\<close>

definition Finalize :: "time \<Rightarrow> conditionManager \<Rightarrow> condition list \<times> bool \<times> conditionManager" where
  "Finalize now m =
     (if length (cm_conditions m) = 0 then
        ([\<lparr>cond_Type = cm_topLevelType m, cond_Status = ''Unknown'', cond_ObservedGeneration = 0,
           cond_LastTransitionTime = now, cond_Reason = ''Unknown'', cond_Message = ''''\<rparr>],
         True, m\<lparr>cm_status := ConditionFalse\<rparr>)
      else
        (let m1 = (if cm_status m = ConditionTrue then m\<lparr>cm_reason := ''Ready''\<rparr> else m);
             m2 = AddPositive now m1
               \<lparr>cond_Type = cm_topLevelType m1, cond_Status = cm_status m1, cond_ObservedGeneration = 0,
                cond_LastTransitionTime = now, cond_Reason = cm_reason m1, cond_Message = cm_message m1\<rparr>
         in (cm_conditions m2, cm_changed m2, m2)))"

section \<open>The abstract specification\<close>

text \<open>A condition without its time, which is what two conditions are compared on.\<close>

definition untimed :: "condition \<Rightarrow> condition" where
  "untimed c = c\<lparr>cond_LastTransitionTime := 0\<rparr>"

text \<open>One call of \<^verbatim>\<open>Add\<close>: the time, the condition and its polarity.\<close>

type_synonym addition = "time \<times> condition \<times> Polarity"

fun failing :: "addition \<Rightarrow> bool" where
  "failing (t, c, p) \<longleftrightarrow> cond_Status c = (if p = Positive then ConditionFalse else ConditionTrue)"

fun undecided :: "addition \<Rightarrow> bool" where
  "undecided (t, c, p) \<longleftrightarrow> cond_Status c = ConditionUnknown"

text \<open>
  The verdict over all additions: False with the reason and message of the last failing
  condition; without one, Unknown with those of the first undecided condition; else True.
\<close>

definition aggregate :: "addition list \<Rightarrow> ConditionStatus \<times> string \<times> string" where
  "aggregate xs =
     (case find failing (rev xs) of
        Some (t, c, p) \<Rightarrow> (ConditionFalse, cond_Reason c, cond_Message c)
      | None \<Rightarrow> (case find undecided xs of
            Some (t, c, p) \<Rightarrow> (ConditionUnknown, cond_Reason c, cond_Message c)
          | None \<Rightarrow> (ConditionTrue, '''', '''')))"

text \<open>The top level condition that a verdict becomes, without its time.\<close>

definition top_condition :: "string \<Rightarrow> addition list \<Rightarrow> condition" where
  "top_condition ty xs =
     (if xs = [] then mk_condition ty ''Unknown'' ''Unknown'' ''''
      else (case aggregate xs of (st, reason, message) \<Rightarrow>
        mk_condition ty st (if st = ConditionTrue then ''Ready'' else reason) message))"

lemma aggregate_snoc:
  "aggregate (xs @ [x]) =
     (case x of (t, c, p) \<Rightarrow>
        if failing x then (ConditionFalse, cond_Reason c, cond_Message c)
        else if undecided x \<and> fst (aggregate xs) = ConditionTrue
        then (ConditionUnknown, cond_Reason c, cond_Message c)
        else aggregate xs)"
  by (cases x) (auto simp: aggregate_def find_append split: option.splits prod.splits)

lemma aggregate_Nil [simp]: "aggregate [] = (ConditionTrue, [], [])"
  by (simp add: aggregate_def)

lemma aggregate_False_iff: "fst (aggregate xs) = ConditionFalse \<longleftrightarrow> (\<exists>x\<in>set xs. failing x)"
  by (induction xs rule: rev_induct) (auto simp: aggregate_snoc split: prod.splits if_splits)

lemma aggregate_True_iff:
  "fst (aggregate xs) = ConditionTrue \<longleftrightarrow> (\<forall>x\<in>set xs. \<not> failing x \<and> \<not> undecided x)"
  by (induction xs rule: rev_induct) (auto simp: aggregate_snoc split: prod.splits if_splits)

lemma aggregate_range:
  "fst (aggregate xs) \<in> {ConditionTrue, ConditionFalse, ConditionUnknown}"
  by (auto simp: aggregate_def split: option.splits prod.splits)

section \<open>The interface\<close>

text \<open>A sequence of calls of \<^verbatim>\<open>Add\<close> on a manager.\<close>

definition add_all ::
  "(time \<Rightarrow> 'm \<Rightarrow> condition \<Rightarrow> Polarity \<Rightarrow> 'm) \<Rightarrow> 'm \<Rightarrow> addition list \<Rightarrow> 'm" where
  "add_all add m xs = foldl (\<lambda>m (t, c, p). add t m c p) m xs"

lemma add_all_Nil [simp]: "add_all add m [] = m"
  by (simp add: add_all_def)

lemma add_all_snoc [simp]: "add_all add m (xs @ [(t, c, p)]) = add t (add_all add m xs) c p"
  by (simp add: add_all_def)

lemma add_all_Cons: "add_all add m ((t, c, p) # xs) = add_all add (add t m c p) xs"
  by (simp add: add_all_def)

locale condition_manager =
  fixes new :: "string \<Rightarrow> condition list \<Rightarrow> 'm"
    and add :: "time \<Rightarrow> 'm \<Rightarrow> condition \<Rightarrow> Polarity \<Rightarrow> 'm"
    and finalize :: "time \<Rightarrow> 'm \<Rightarrow> condition list \<times> bool \<times> 'm"
    and is_successful :: "'m \<Rightarrow> bool"
  assumes finalize_untimed:
      "finalize t (add_all add (new ty prev) xs) = (cs, ch, m') \<Longrightarrow>
       map untimed cs = map (\<lambda>(t, c, p). untimed c) xs @ [top_condition ty xs]"
    and finalize_times:
      "\<lbrakk>finalize t (add_all add (new ty prev) xs) = (cs, ch, m'); xs \<noteq> [];
        distinct (map cond_Type prev); c \<in> set cs\<rbrakk> \<Longrightarrow>
       if untimed c \<in> untimed ` set prev then c \<in> set prev
       else cond_LastTransitionTime c \<in> insert t (fst ` set xs)"
    and finalize_changed:
      "\<lbrakk>finalize t (add_all add (new ty prev) xs) = (cs, ch, m'); xs \<noteq> [];
        distinct (map cond_Type prev)\<rbrakk> \<Longrightarrow> ch \<longleftrightarrow> \<not> set cs \<subseteq> set prev"
    and successful_iff:
      "is_successful (add_all add (new ty prev) xs) \<longleftrightarrow> fst (aggregate xs) \<noteq> ConditionFalse"
begin

lemma finalize_length:
  "finalize t (add_all add (new ty prev) xs) = (cs, ch, m') \<Longrightarrow> length cs = Suc (length xs)"
  by (drule finalize_untimed, drule arg_cong [where f = length]) simp

lemma finalize_last:
  assumes "finalize t (add_all add (new ty prev) xs) = (cs, ch, m')"
  shows "cs \<noteq> []" and "untimed (last cs) = top_condition ty xs"
proof -
  have l: "length cs = Suc (length xs)" by (rule finalize_length [OF assms])
  then show "cs \<noteq> []" by auto
  then have "untimed (last cs) = last (map untimed cs)" by (simp add: last_map)
  then show "untimed (last cs) = top_condition ty xs"
    by (simp add: finalize_untimed [OF assms])
qed

lemma finalize_last_sel:
  assumes "finalize t (add_all add (new ty prev) xs) = (cs, ch, m')"
  shows "cond_Type (last cs) = cond_Type (top_condition ty xs)"
    and "cond_Status (last cs) = cond_Status (top_condition ty xs)"
    and "cond_Reason (last cs) = cond_Reason (top_condition ty xs)"
    and "cond_Message (last cs) = cond_Message (top_condition ty xs)"
  using finalize_last(2) [OF assms, symmetric] by (simp_all add: untimed_def)

text \<open>The top level condition is True exactly when something was added and all of it is fine.\<close>

lemma finalize_True_iff:
  assumes "finalize t (add_all add (new ty prev) xs) = (cs, ch, m')"
  shows "cond_Status (last cs) = ConditionTrue \<longleftrightarrow>
         xs \<noteq> [] \<and> (\<forall>x\<in>set xs. \<not> failing x \<and> \<not> undecided x)"
  using aggregate_True_iff [of xs]
  by (auto simp: finalize_last_sel(2) [OF assms] top_condition_def split: prod.splits)

lemma finalize_False_iff:
  assumes "finalize t (add_all add (new ty prev) xs) = (cs, ch, m')"
  shows "cond_Status (last cs) = ConditionFalse \<longleftrightarrow> (\<exists>x\<in>set xs. failing x)"
  using aggregate_False_iff [of xs]
  by (auto simp: finalize_last_sel(2) [OF assms] top_condition_def split: prod.splits)

lemma finalize_unchanged:
  assumes "finalize t (add_all add (new ty prev) xs) = (cs, False, m')"
    and "xs \<noteq> []" "distinct (map cond_Type prev)"
  shows "set cs \<subseteq> set prev"
  using finalize_changed [OF assms] by simp

end

section \<open>The struct keeps the laws\<close>

lemma untimed_sel [simp]:
  "cond_Type (untimed c) = cond_Type c" "cond_Status (untimed c) = cond_Status c"
  "cond_Reason (untimed c) = cond_Reason c" "cond_Message (untimed c) = cond_Message c"
  by (simp_all add: untimed_def)

lemma untimed_retime [simp]: "untimed (c\<lparr>cond_LastTransitionTime := t\<rparr>) = untimed c"
  by (simp add: untimed_def)

lemma retime_eq_iff: "p = c\<lparr>cond_LastTransitionTime := cond_LastTransitionTime p\<rparr> \<longleftrightarrow> untimed p = untimed c"
  by (cases p; cases c) (auto simp: untimed_def)

lemma untimed_eq_TypeD: "untimed p = untimed c \<Longrightarrow> cond_Type p = cond_Type c"
  by (metis untimed_sel(1))

text \<open>What one condition becomes, and whether it counts as a change, do not depend on the others.\<close>

definition resolved :: "condition list \<Rightarrow> time \<Rightarrow> condition \<Rightarrow> condition" where
  "resolved prev now c =
     fst (compare_previous prev (c\<lparr>cond_LastTransitionTime := now\<rparr>) True False)"

definition differs :: "condition list \<Rightarrow> time \<Rightarrow> condition \<Rightarrow> bool" where
  "differs prev now c =
     (let (c1, isNew, changed) = compare_previous prev (c\<lparr>cond_LastTransitionTime := now\<rparr>) True False
      in isNew \<or> changed)"

lemma compare_previous_changed:
  "compare_previous ps c n ch =
     (case compare_previous ps c n False of (c1, n1, ch1) \<Rightarrow> (c1, n1, ch1 \<or> ch))"
proof (induction ps arbitrary: c n ch)
  case (Cons p ps)
  show ?case
    by (cases "compare_previous ps c False False")
      (auto simp: Let_def Cons.IH [of c False True] Cons.IH [of c n ch] Cons.IH [of p False ch]
        Cons.IH [of "c\<lparr>cond_LastTransitionTime := cond_LastTransitionTime p\<rparr>" False ch] split: prod.splits)
qed simp

lemma untimed_compare_previous: "untimed (fst (compare_previous ps c n ch)) = untimed c"
proof (induction ps arbitrary: c n ch)
  case (Cons p ps)
  then show ?case using retime_eq_iff [of p c] by (auto simp: Let_def)
qed simp

lemma compare_previous_other:
  "\<forall>p\<in>set ps. cond_Type p \<noteq> cond_Type c \<Longrightarrow> compare_previous ps c n ch = (c, n, ch)"
  by (induction ps arbitrary: c) auto

lemma compare_previous_distinct:
  assumes "distinct (map cond_Type ps)" "p \<in> set ps" "cond_Type p = cond_Type c"
  shows "compare_previous ps c n ch =
     (if untimed p = untimed c then (p, False, ch) else (c, False, True))"
  using assms
proof (induction ps arbitrary: n ch)
  case (Cons q ps)
  show ?case
  proof (cases "q = p")
    case True
    have rest: "\<forall>r\<in>set ps. cond_Type r \<noteq> cond_Type c"
      using Cons.prems True by (auto simp: image_iff)
    show ?thesis
      using Cons.prems True rest retime_eq_iff [of p c]
      by (auto simp: Let_def compare_previous_other)
  next
    case False
    then have "p \<in> set ps" using Cons.prems by simp
    moreover from this have "cond_Type q \<noteq> cond_Type c"
      using Cons.prems(1,3) by (metis distinct.simps(2) imageI list.simps(9) list.set_map)
    ultimately show ?thesis using Cons by simp
  qed
qed simp

lemma untimed_resolved [simp]: "untimed (resolved prev t c) = untimed c"
  by (simp add: resolved_def untimed_compare_previous)

text \<open>The possible outcomes for one condition.\<close>

lemma untimed_mem_iff:
  assumes "distinct (map cond_Type prev)" "p \<in> set prev" "cond_Type p = cond_Type c"
  shows "untimed c \<in> untimed ` set prev \<longleftrightarrow> untimed p = untimed c"
proof
  assume "untimed c \<in> untimed ` set prev"
  then obtain q where q: "q \<in> set prev" "untimed q = untimed c" by auto
  have "cond_Type q = cond_Type p" using untimed_eq_TypeD [OF q(2)] assms(3) by simp
  then have "q = p" using assms(1,2) q(1) by (auto simp: distinct_map dest: inj_onD)
  with q show "untimed p = untimed c" by simp
next
  assume "untimed p = untimed c"
  with assms(2) show "untimed c \<in> untimed ` set prev"
    by (intro image_eqI [of _ _ p]) simp_all
qed

lemma resolved_cases:
  assumes "distinct (map cond_Type prev)"
  shows "if untimed c \<in> untimed ` set prev
         then resolved prev t c \<in> set prev \<and> \<not> differs prev t c
         else resolved prev t c = c\<lparr>cond_LastTransitionTime := t\<rparr> \<and> differs prev t c"
proof (cases "\<exists>p\<in>set prev. cond_Type p = cond_Type c")
  case True
  then obtain p where p: "p \<in> set prev" "cond_Type p = cond_Type c" by blast
  have cp: "compare_previous prev (c\<lparr>cond_LastTransitionTime := t\<rparr>) True False =
     (if untimed p = untimed c then (p, False, False)
      else (c\<lparr>cond_LastTransitionTime := t\<rparr>, False, True))"
    using compare_previous_distinct [OF assms p(1), of "c\<lparr>cond_LastTransitionTime := t\<rparr>"] p(2) by simp
  show ?thesis
    using p(1) by (simp add: untimed_mem_iff [OF assms p] resolved_def differs_def cp)
next
  case False
  then have "untimed c \<notin> untimed ` set prev"
    by (auto dest: untimed_eq_TypeD [OF sym])
  then show ?thesis
    using False by (simp add: resolved_def differs_def compare_previous_other)
qed

text \<open>The effect of one \<^verbatim>\<open>Add\<close> on each field.\<close>

lemma Add_sel:
  "cm_previousConditions (Add now m c p) = cm_previousConditions m"
  "cm_topLevelType (Add now m c p) = cm_topLevelType m"
  "cm_conditions (Add now m c p) = cm_conditions m @ [resolved (cm_previousConditions m) now c]"
  "cm_changed (Add now m c p) \<longleftrightarrow> cm_changed m \<or> differs (cm_previousConditions m) now c"
  "(cm_status (Add now m c p), cm_reason (Add now m c p), cm_message (Add now m c p)) =
     (if failing (now, c, p) then (ConditionFalse, cond_Reason c, cond_Message c)
      else if undecided (now, c, p) \<and> cm_status m = ConditionTrue
      then (ConditionUnknown, cond_Reason c, cond_Message c)
      else (cm_status m, cm_reason m, cm_message m))"
proof -
  let ?c0 = "c\<lparr>cond_LastTransitionTime := now\<rparr>"
  obtain c1 n ch where cp: "compare_previous (cm_previousConditions m) ?c0 True False = (c1, n, ch)"
    by (cases "compare_previous (cm_previousConditions m) ?c0 True False")
  have cp': "compare_previous (cm_previousConditions m) ?c0 True b = (c1, n, ch \<or> b)" for b
    by (subst compare_previous_changed) (simp add: cp)
  have r: "resolved (cm_previousConditions m) now c = c1"
    "differs (cm_previousConditions m) now c \<longleftrightarrow> n \<or> ch"
    by (simp_all add: resolved_def differs_def cp)
  show "cm_previousConditions (Add now m c p) = cm_previousConditions m"
    "cm_topLevelType (Add now m c p) = cm_topLevelType m"
    "cm_conditions (Add now m c p) = cm_conditions m @ [resolved (cm_previousConditions m) now c]"
    "cm_changed (Add now m c p) \<longleftrightarrow> cm_changed m \<or> differs (cm_previousConditions m) now c"
    by (simp_all add: Add_def Let_def cp' r disj_commute)
  show "(cm_status (Add now m c p), cm_reason (Add now m c p), cm_message (Add now m c p)) =
     (if failing (now, c, p) then (ConditionFalse, cond_Reason c, cond_Message c)
      else if undecided (now, c, p) \<and> cm_status m = ConditionTrue
      then (ConditionUnknown, cond_Reason c, cond_Message c)
      else (cm_status m, cm_reason m, cm_message m))"
    by (cases p) (simp_all add: Add_def Let_def cp')
qed

text \<open>The state of the manager after any sequence of \<^verbatim>\<open>Add\<close>s.\<close>

definition managed :: "string \<Rightarrow> condition list \<Rightarrow> addition list \<Rightarrow> conditionManager" where
  "managed ty prev xs = add_all Add (NewConditionManager ty prev) xs"

lemma managed_snoc: "managed ty prev (xs @ [(t, c, p)]) = Add t (managed ty prev xs) c p"
  by (simp add: managed_def)

lemma managed_Nil: "managed ty prev [] = NewConditionManager ty prev"
  by (simp add: managed_def)

lemma managed_fixed [simp]:
  "cm_previousConditions (managed ty prev xs) = prev" "cm_topLevelType (managed ty prev xs) = ty"
  by (induction xs rule: rev_induct) (auto simp: managed_Nil managed_snoc NewConditionManager_def Add_sel)

lemma managed_verdict:
  "(cm_status (managed ty prev xs), cm_reason (managed ty prev xs), cm_message (managed ty prev xs)) =
     aggregate xs"
proof (induction xs rule: rev_induct)
  case (snoc x xs)
  obtain t c p where x: "x = (t, c, p)" by (cases x)
  have "cm_status (managed ty prev xs) = fst (aggregate xs)" using snoc by (metis fst_conv)
  then show ?case
    unfolding x managed_snoc Add_sel(5) snoc by (simp add: aggregate_snoc)
qed (simp add: managed_Nil NewConditionManager_def)

lemma managed_conditions:
  "cm_conditions (managed ty prev xs) = map (\<lambda>(t, c, p). resolved prev t c) xs"
  by (induction xs rule: rev_induct) (auto simp: managed_Nil managed_snoc NewConditionManager_def Add_sel)

lemma managed_changed:
  "cm_changed (managed ty prev xs) \<longleftrightarrow> (\<exists>(t, c, p)\<in>set xs. differs prev t c)"
  by (induction xs rule: rev_induct) (auto simp: managed_Nil managed_snoc NewConditionManager_def Add_sel)

lemma untimed_eq_retime: "untimed c = untimed d \<Longrightarrow> c\<lparr>cond_LastTransitionTime := t\<rparr> = d\<lparr>cond_LastTransitionTime := t\<rparr>"
  by (cases c; cases d) (simp add: untimed_def)

lemma resolved_cong: "untimed c = untimed d \<Longrightarrow> resolved prev t c = resolved prev t d"
  using untimed_eq_retime [of c d t] by (simp add: resolved_def)

lemma differs_cong: "untimed c = untimed d \<Longrightarrow> differs prev t c = differs prev t d"
  using untimed_eq_retime [of c d t] by (simp add: differs_def)

lemma untimed_top_condition [simp]: "untimed (top_condition ty xs) = top_condition ty xs"
  by (simp add: top_condition_def mk_condition_def untimed_def zero_time_def split: prod.splits)

text \<open>\<^verbatim>\<open>Finalize\<close> after at least one \<^verbatim>\<open>Add\<close> resolves the top level condition like any other.\<close>

lemma Finalize_managed:
  assumes "xs \<noteq> []"
  shows "\<exists>m'. Finalize t (managed ty prev xs) =
    (map (\<lambda>(t, c, p). resolved prev t c) xs @ [resolved prev t (top_condition ty xs)],
     (\<exists>(t, c, p)\<in>set xs. differs prev t c) \<or> differs prev t (top_condition ty xs), m')"
proof -
  let ?m = "managed ty prev xs"
  let ?m1 = "if cm_status ?m = ConditionTrue then ?m\<lparr>cm_reason := ''Ready''\<rparr> else ?m"
  let ?top = "\<lparr>cond_Type = cm_topLevelType ?m1, cond_Status = cm_status ?m1, cond_ObservedGeneration = 0,
                cond_LastTransitionTime = t, cond_Reason = cm_reason ?m1, cond_Message = cm_message ?m1\<rparr>"
  have top: "untimed ?top = untimed (top_condition ty xs)"
    using assms managed_verdict [of ty prev xs, symmetric]
    by (simp add: top_condition_def mk_condition_def untimed_def)
  have "Finalize t ?m = (cm_conditions (AddPositive t ?m1 ?top), cm_changed (AddPositive t ?m1 ?top),
      AddPositive t ?m1 ?top)"
    using assms by (simp add: Finalize_def Let_def managed_conditions)
  moreover have "cm_conditions (AddPositive t ?m1 ?top) =
      map (\<lambda>(t, c, p). resolved prev t c) xs @ [resolved prev t (top_condition ty xs)]"
    using resolved_cong [OF top] by (simp add: AddPositive_def Add_sel managed_conditions)
  moreover have "cm_changed (AddPositive t ?m1 ?top) \<longleftrightarrow>
      (\<exists>(t, c, p)\<in>set xs. differs prev t c) \<or> differs prev t (top_condition ty xs)"
    using differs_cong [OF top] by (simp add: AddPositive_def Add_sel managed_changed)
  ultimately show ?thesis by auto
qed

lemma Finalize_managed_Nil:
  "Finalize t (managed ty prev []) =
     ([(top_condition ty [])\<lparr>cond_LastTransitionTime := t\<rparr>], True,
      (NewConditionManager ty prev)\<lparr>cm_status := ConditionFalse\<rparr>)"
  by (simp add: Finalize_def managed_Nil NewConditionManager_def top_condition_def mk_condition_def)

text \<open>
  The outcome in the vocabulary of the laws: the list of resolved conditions, and a changed
  flag that says whether one of them is not among the previous conditions.
\<close>

lemma resolved_mem_iff:
  assumes "distinct (map cond_Type prev)"
  shows "differs prev t c \<longleftrightarrow> resolved prev t c \<notin> set prev"
proof (cases "untimed c \<in> untimed ` set prev")
  case True
  then show ?thesis using resolved_cases [OF assms, of c t] by simp
next
  case False
  then have "resolved prev t c \<notin> set prev"
    using untimed_resolved [of prev t c] by (auto simp: image_iff simp del: untimed_resolved)
  then show ?thesis using False resolved_cases [OF assms, of c t] by simp
qed

lemma resolved_time:
  assumes "distinct (map cond_Type prev)" "t \<in> T"
  shows "if untimed (resolved prev t c) \<in> untimed ` set prev then resolved prev t c \<in> set prev
         else cond_LastTransitionTime (resolved prev t c) \<in> T"
  using resolved_cases [OF assms(1), of c t] assms(2) by (simp split: if_splits)

interpretation cm: condition_manager NewConditionManager Add Finalize IsSuccessful
proof (unfold_locales, goal_cases)
  case (1 t ty prev xs cs ch m')
  then show ?case
    using Finalize_managed [of xs t ty prev] Finalize_managed_Nil [of t ty prev]
    by (cases "xs = []") (auto simp: managed_def split: prod.splits)
next
  case (2 t ty prev xs cs ch m' c)
  have cs: "cs = map (\<lambda>(t, c, p). resolved prev t c) xs @ [resolved prev t (top_condition ty xs)]"
    using Finalize_managed [OF 2(2), of t ty prev] 2(1) by (simp add: managed_def)
  have "\<exists>t' c'. c = resolved prev t' c' \<and> t' \<in> insert t (fst ` set xs)"
  proof (cases "c = resolved prev t (top_condition ty xs)")
    case False
    then have "c \<in> (\<lambda>(t, c, p). resolved prev t c) ` set xs" using 2(4) cs by simp
    then obtain t' c' p where "(t', c', p) \<in> set xs" "c = resolved prev t' c'" by auto
    moreover from this(1) have "t' \<in> fst ` set xs" by (rule image_eqI [rotated]) simp
    ultimately show ?thesis by blast
  qed blast
  then obtain t' c' where c: "c = resolved prev t' c'" "t' \<in> insert t (fst ` set xs)" by blast
  show ?case unfolding c(1) by (rule resolved_time [OF 2(3) c(2)])
next
  case (3 t ty prev xs cs ch m')
  have "cs = map (\<lambda>(t, c, p). resolved prev t c) xs @ [resolved prev t (top_condition ty xs)]"
    "ch \<longleftrightarrow> (\<exists>(t, c, p)\<in>set xs. differs prev t c) \<or> differs prev t (top_condition ty xs)"
    using Finalize_managed [OF 3(2), of t ty prev] 3(1) by (auto simp: managed_def)
  then show ?case
    by (auto simp: resolved_mem_iff [OF 3(3)] split: prod.splits)
next
  case (4 ty prev xs)
  then show ?case
    using managed_verdict [of ty prev xs, symmetric] by (simp add: IsSuccessful_def managed_def)
qed

section \<open>Properties\<close>

text \<open>
  C1: after any sequence of \<^verbatim>\<open>Add\<close>s on a new manager, \<^verbatim>\<open>Finalize\<close> returns the added conditions in
  order followed by one top level condition with the aggregated verdict: False with the
  reason and message of the last failing addition, else Unknown with those of the first
  undecided one, else True with reason \<^verbatim>\<open>Ready\<close>; without any addition it is Unknown.
\<close>

theorem Finalize_aggregates:
  "map untimed (fst (Finalize now (add_all Add (NewConditionManager ty prev) xs))) =
     map (\<lambda>(t, c, p). untimed c) xs @ [top_condition ty xs]"
  by (cases "Finalize now (add_all Add (NewConditionManager ty prev) xs)")
    (simp add: cm.finalize_untimed)

text \<open>
  When the previous conditions have distinct types, \<^verbatim>\<open>Finalize\<close> reports no change exactly when
  every condition it returns, transition time included, is one of the previous conditions;
  a condition whose content did not change keeps its transition time.
\<close>

theorem Finalize_changed_iff:
  assumes "distinct (map cond_Type prev)" "xs \<noteq> []"
    and "Finalize now (add_all Add (NewConditionManager ty prev) xs) = (cs, changed, m')"
  shows "(changed \<longleftrightarrow> \<not> set cs \<subseteq> set prev) \<and>
         (\<forall>c\<in>set cs. untimed c \<in> untimed ` set prev \<longrightarrow> c \<in> set prev)"
  using cm.finalize_changed [OF assms(3,2,1)] cm.finalize_times [OF assms(3,2,1)] by meson

theorem Finalize_changed_iff_witness:
  "fst (snd (Finalize 9 (add_all Add (NewConditionManager ''Ready''
      [(mk_condition ''Healthy'' ''True'' ''r'' '''')\<lparr>cond_LastTransitionTime := 5\<rparr>,
       (mk_condition ''Ready'' ''True'' ''Ready'' '''')\<lparr>cond_LastTransitionTime := 5\<rparr>])
      [(9, mk_condition ''Healthy'' ''True'' ''r'' '''', Positive)]))) = False"
proof -
  let ?prev = "[(mk_condition ''Healthy'' ''True'' ''r'' '''')\<lparr>cond_LastTransitionTime := 5\<rparr>,
       (mk_condition ''Ready'' ''True'' ''Ready'' '''')\<lparr>cond_LastTransitionTime := 5\<rparr>]"
  let ?xs = "[(9, mk_condition ''Healthy'' ''True'' ''r'' '''', Positive)]"
  obtain cs ch m' where f: "Finalize 9 (add_all Add (NewConditionManager ''Ready'' ?prev) ?xs) = (cs, ch, m')"
    by (metis prod_cases3)
  have "ch \<longleftrightarrow> \<not> set cs \<subseteq> set ?prev"
    using Finalize_changed_iff [OF _ _ f] by simp
  moreover have "set cs \<subseteq> set ?prev"
    using f by (auto simp: add_all_def NewConditionManager_def Add_def AddPositive_def Finalize_def mk_condition_def)
  ultimately show ?thesis using f by simp
qed

text \<open>
  \<^verbatim>\<open>IsSuccessful\<close> turns false with the first unsuccessful condition (Positive and False, or
  Negative and True) and stays false, whatever is added afterwards.
\<close>

theorem IsSuccessful_iff_no_failure:
  "IsSuccessful (add_all Add (NewConditionManager ty prev) xs) \<longleftrightarrow> \<not> (\<exists>x\<in>set xs. failing x)"
  using aggregate_False_iff [of xs] by (simp add: cm.successful_iff)

text \<open>
  A condition that was reported before and is not added any more does not count as a
  change: with the previous conditions A, B and Ready, re-adding only A leaves the changed flag
  unset although B is gone from the returned list.
\<close>

theorem Finalize_ignores_removed:
  "\<exists>cs m'. Finalize 9 (add_all Add (NewConditionManager ''Ready''
      [mk_condition ''A'' ''True'' ''r'' '''', mk_condition ''B'' ''True'' ''r'' '''',
       mk_condition ''Ready'' ''True'' ''Ready'' ''''])
      [(9, mk_condition ''A'' ''True'' ''r'' '''', Positive)]) = (cs, False, m')
    \<and> ''B'' \<notin> cond_Type ` set cs"
  by (simp add: add_all_def NewConditionManager_def Add_def AddPositive_def Finalize_def mk_condition_def)

end
