(* ===== verification/Resource_Conditions.thy ===== *)
theory Resource_Conditions
  imports Condition_Manager
begin

text \<open>
  The condition constructors of \<^verbatim>\<open>pkg/conditions\<close> and the two functions that turn an error of the
  realizer into a condition, \<^verbatim>\<open>AddConditionForResourceSubmittedWorkload\<close> and \<^verbatim>\<open>\<dots>Deliverable\<close>.
  The Go type \<^verbatim>\<open>AddConditionsFunc\<close> through which the realizer calls them is the locale
  \<open>submission_conditions\<close>: a failed resource adds exactly one condition, and never a True one.
\<close>

section \<open>Owner conditions\<close>

definition getConditionType :: "bool \<Rightarrow> string" where
  "getConditionType isOwner = (if isOwner then OwnerResourcesSubmitted else ResourceSubmitted)"

definition ResourceSubmittedCondition :: "bool \<Rightarrow> condition" where
  "ResourceSubmittedCondition isPassThrough =
     mk_condition ResourceSubmitted ConditionTrue
       (if isPassThrough then PassThroughReason else CompleteResourcesSubmittedReason) ''''"

definition ResourcesSubmittedCondition :: "bool \<Rightarrow> condition" where
  "ResourcesSubmittedCondition isOwner =
     mk_condition (getConditionType isOwner) ConditionTrue CompleteResourcesSubmittedReason ''''"

definition TemplateObjectRetrievalFailureCondition :: "bool \<Rightarrow> gerror \<Rightarrow> condition" where
  "TemplateObjectRetrievalFailureCondition isOwner err =
     mk_condition (getConditionType isOwner) ConditionFalse
       TemplateObjectRetrievalFailureResourcesSubmittedReason (Error err)"

definition namespaceMsg :: "unstructured \<Rightarrow> string" where
  "namespaceMsg obj =
     (if u_Namespace obj \<noteq> '''' then '' in namespace ['' @ u_Namespace obj @ '']'' else '''')"

definition MissingValueAtPathCondition ::
  "bool \<Rightarrow> unstructured \<Rightarrow> string \<Rightarrow> string \<Rightarrow> ConditionStatus \<Rightarrow> condition" where
  "MissingValueAtPathCondition isOwner obj expression qualifiedResource health =
     mk_condition (getConditionType isOwner) ConditionUnknown MissingValueAtPathResourcesSubmittedReason
       (if health = ConditionTrue then
          ''cannot read value ['' @ expression @ ''] from healthy object ['' @ qualifiedResource @ ''/''
            @ u_Name obj @ '']'' @ namespaceMsg obj @ '', contact Platform Eng''
        else if health = ConditionFalse then
          ''cannot read value ['' @ expression @ ''] from unhealthy object ['' @ qualifiedResource @ ''/''
            @ u_Name obj @ '']'' @ namespaceMsg obj
            @ '', examine object, particularly whether it is receiving proper inputs''
        else
          ''waiting to read value ['' @ expression @ ''] from object ['' @ qualifiedResource @ ''/''
            @ u_Name obj @ '']'' @ namespaceMsg obj)"

definition TemplateStampFailureCondition :: "bool \<Rightarrow> gerror \<Rightarrow> condition" where
  "TemplateStampFailureCondition isOwner err =
     mk_condition (getConditionType isOwner) ConditionFalse
       TemplateStampFailureResourcesSubmittedReason (Error err)"

definition TemplateRejectedByAPIServerCondition :: "bool \<Rightarrow> gerror \<Rightarrow> condition" where
  "TemplateRejectedByAPIServerCondition isOwner err =
     mk_condition (getConditionType isOwner) ConditionFalse
       TemplateRejectedByAPIServerResourcesSubmittedReason (Error err)"

definition BlueprintsFailedToListCreatedObjectsCondition :: "bool \<Rightarrow> gerror \<Rightarrow> condition" where
  "BlueprintsFailedToListCreatedObjectsCondition isOwner err =
     mk_condition (getConditionType isOwner) ConditionFalse FailedToListCreatedObjectsReason (Error err)"

definition UnknownResourceErrorCondition :: "bool \<Rightarrow> gerror \<Rightarrow> condition" where
  "UnknownResourceErrorCondition isOwner err =
     mk_condition (getConditionType isOwner) ConditionFalse
       UnknownErrorResourcesSubmittedReason (Error err)"

definition ResolveTemplateOptionsErrorCondition :: "bool \<Rightarrow> gerror \<Rightarrow> condition" where
  "ResolveTemplateOptionsErrorCondition isOwner err =
     mk_condition (getConditionType isOwner) ConditionFalse
       ResolveTemplateOptionsErrorResourcesSubmittedReason (Error err)"

definition TemplateOptionsMatchErrorCondition :: "bool \<Rightarrow> gerror \<Rightarrow> condition" where
  "TemplateOptionsMatchErrorCondition isOwner err =
     mk_condition (getConditionType isOwner) ConditionFalse
       TemplateOptionsMatchErrorResourcesSubmittedReason (Error err)"

definition ServiceAccountNotFoundCondition :: "gerror \<Rightarrow> condition" where
  "ServiceAccountNotFoundCondition err =
     mk_condition OwnerResourcesSubmitted ConditionFalse
       ServiceAccountErrorResourcesSubmittedReason (Error err)"

definition ServiceAccountTokenErrorCondition :: "gerror \<Rightarrow> condition" where
  "ServiceAccountTokenErrorCondition err =
     mk_condition OwnerResourcesSubmitted ConditionFalse
       ServiceAccountTokenErrorResourcesSubmittedReason (Error err)"

definition ResourceRealizerBuilderErrorCondition :: "gerror \<Rightarrow> condition" where
  "ResourceRealizerBuilderErrorCondition err =
     mk_condition OwnerResourcesSubmitted ConditionFalse
       ResourceRealizerBuilderErrorResourcesSubmittedReason (Error err)"

section \<open>Workload conditions\<close>

definition SupplyChainReadyCondition :: condition where
  "SupplyChainReadyCondition = mk_condition WorkloadSupplyChainReady ConditionTrue ReadySupplyChainReason ''''"

definition WorkloadMissingLabelsCondition :: condition where
  "WorkloadMissingLabelsCondition =
     mk_condition WorkloadSupplyChainReady ConditionFalse WorkloadLabelsMissingSupplyChainReason
       ''workload has no labels to match to supply chain''"

definition SupplyChainNotFoundCondition :: "labels \<Rightarrow> condition" where
  "SupplyChainNotFoundCondition ls =
     mk_condition WorkloadSupplyChainReady ConditionFalse NotFoundSupplyChainReadyReason
       (''no supply chain found where full selector is satisfied by labels: '' @ show_string_map ls)"

definition TooManySupplyChainMatchesCondition :: condition where
  "TooManySupplyChainMatchesCondition =
     mk_condition WorkloadSupplyChainReady ConditionFalse MultipleMatchesSupplyChainReadyReason
       (''workload may only match a single supply chain'' @ [CHR 0x27] @ ''s selector'')"

definition MissingReadyInSupplyChainCondition :: "condition \<Rightarrow> condition" where
  "MissingReadyInSupplyChainCondition c =
     mk_condition WorkloadSupplyChainReady ConditionFalse (cond_Reason c) (cond_Message c)"

definition MissingPassThroughInputCondition :: "string \<Rightarrow> string \<Rightarrow> condition" where
  "MissingPassThroughInputCondition input resource =
     mk_condition WorkloadSupplyChainReady ConditionFalse PassThroughReason
       (''unable to find passthrough ['' @ input @ ''] in ['' @ resource @ '']'')"

text \<open>The condition that the type switch of \<^verbatim>\<open>AddConditionForResourceSubmittedWorkload\<close> selects, and
  the function itself.\<close>

definition workload_error_condition :: "bool \<Rightarrow> gerror \<Rightarrow> condition" where
  "workload_error_condition isOwner err =
     (case err of
        GetTemplateError e rn tn bn bt \<Rightarrow> TemplateObjectRetrievalFailureCondition isOwner err
      | StampError e rn tn tk bn bt \<Rightarrow> TemplateStampFailureCondition isOwner err
      | ApplyStampedObjectError e obj rn bn bt \<Rightarrow> TemplateRejectedByAPIServerCondition isOwner err
      | ListCreatedObjectsError e ns ls \<Rightarrow> BlueprintsFailedToListCreatedObjectsCondition isOwner err
      | RetrieveOutputError e rn sobj bn bt qr pt h \<Rightarrow>
          (case sobj of
             None \<Rightarrow> MissingPassThroughInputCondition pt qr
           | Some obj \<Rightarrow> MissingValueAtPathCondition isOwner obj (JsonPathExpression e) qr h)
      | ResolveTemplateOptionError e rn opn bn bt \<Rightarrow> ResolveTemplateOptionsErrorCondition isOwner err
      | TemplateOptionsMatchError rn ons bn bt \<Rightarrow> TemplateOptionsMatchErrorCondition isOwner err
      | _ \<Rightarrow> UnknownResourceErrorCondition isOwner err)"

definition AddConditionForResourceSubmittedWorkload ::
  "time \<Rightarrow> conditionManager \<Rightarrow> bool \<Rightarrow> gerror \<Rightarrow> conditionManager" where
  "AddConditionForResourceSubmittedWorkload now m isOwner err =
     AddPositive now m (workload_error_condition isOwner err)"

section \<open>Deliverable conditions\<close>

definition DeliveryReadyCondition :: condition where
  "DeliveryReadyCondition = mk_condition DeliverableDeliveryReady ConditionTrue ReadyDeliveryReason ''''"

definition DeliverableMissingLabelsCondition :: condition where
  "DeliverableMissingLabelsCondition =
     mk_condition DeliverableDeliveryReady ConditionFalse DeliverableLabelsMissingDeliveryReason
       ''deliverable has no labels to match to delivery''"

definition DeliveryNotFoundCondition :: "labels \<Rightarrow> condition" where
  "DeliveryNotFoundCondition ls =
     mk_condition DeliverableDeliveryReady ConditionFalse NotFoundDeliveryReadyReason
       (''no delivery found where full selector is satisfied by labels: '' @ show_string_map ls)"

definition TooManyDeliveryMatchesCondition :: condition where
  "TooManyDeliveryMatchesCondition =
     mk_condition DeliverableDeliveryReady ConditionFalse MultipleMatchesDeliveryReadyReason
       (''deliverable may only match a single delivery'' @ [CHR 0x27] @ ''s selector'')"

definition MissingReadyInDeliveryCondition :: "condition \<Rightarrow> condition" where
  "MissingReadyInDeliveryCondition c =
     mk_condition DeliverableDeliveryReady ConditionFalse (cond_Reason c) (cond_Message c)"

text \<open>
  The three constructors below take a \<^verbatim>\<open>RetrieveOutputError\<close> behind the \<^verbatim>\<open>error\<close> interface; their
  only caller has just matched that type, so they take its resource name and inner error.
\<close>

definition TemplateStampFailureByObservedGenerationCondition :: "string \<Rightarrow> condition" where
  "TemplateStampFailureByObservedGenerationCondition resourceName =
     mk_condition OwnerResourcesSubmitted ConditionFalse TemplateStampFailureResourcesSubmittedReason
       (''resource ['' @ resourceName
         @ ''] cannot satisfy observedCompletion without observedGeneration in object status'')"

definition DeploymentConditionNotMetCondition :: "string \<Rightarrow> gerror \<Rightarrow> condition" where
  "DeploymentConditionNotMetCondition resourceName e =
     mk_condition OwnerResourcesSubmitted ConditionUnknown DeploymentConditionNotMetResourcesSubmittedReason
       (''resource ['' @ resourceName @ ''] condition not met: '' @ Error e)"

definition DeploymentFailedConditionMetCondition :: "string \<Rightarrow> gerror \<Rightarrow> condition" where
  "DeploymentFailedConditionMetCondition resourceName e =
     mk_condition OwnerResourcesSubmitted ConditionFalse DeploymentFailedConditionMetResourcesSubmittedReason
       (''resource ['' @ resourceName @ ''] failed condition met: '' @ Error e)"

definition deliverable_error_condition :: "bool \<Rightarrow> gerror \<Rightarrow> condition" where
  "deliverable_error_condition isOwner err =
     (case err of
        GetTemplateError e rn tn bn bt \<Rightarrow> TemplateObjectRetrievalFailureCondition isOwner err
      | StampError e rn tn tk bn bt \<Rightarrow> TemplateStampFailureCondition isOwner err
      | ApplyStampedObjectError e obj rn bn bt \<Rightarrow> TemplateRejectedByAPIServerCondition isOwner err
      | RetrieveOutputError e rn sobj bn bt qr pt h \<Rightarrow>
          (case e of
             ObservedGenerationError e' \<Rightarrow> TemplateStampFailureByObservedGenerationCondition rn
           | DeploymentFailedConditionMetError e' \<Rightarrow> DeploymentFailedConditionMetCondition rn e
           | DeploymentConditionError e' \<Rightarrow> DeploymentConditionNotMetCondition rn e
           | JsonPathError e' expr \<Rightarrow>
               (case sobj of
                  None \<Rightarrow> MissingPassThroughInputCondition pt qr
                | Some obj \<Rightarrow> MissingValueAtPathCondition isOwner obj (JsonPathExpression e) qr h)
           | _ \<Rightarrow> UnknownResourceErrorCondition isOwner err)
      | ResolveTemplateOptionError e rn opn bn bt \<Rightarrow> ResolveTemplateOptionsErrorCondition isOwner err
      | TemplateOptionsMatchError rn ons bn bt \<Rightarrow> TemplateOptionsMatchErrorCondition isOwner err
      | _ \<Rightarrow> UnknownResourceErrorCondition isOwner err)"

definition AddConditionForResourceSubmittedDeliverable ::
  "time \<Rightarrow> conditionManager \<Rightarrow> bool \<Rightarrow> gerror \<Rightarrow> conditionManager" where
  "AddConditionForResourceSubmittedDeliverable now m isOwner err =
     AddPositive now m (deliverable_error_condition isOwner err)"

section \<open>Health conditions of a resource\<close>

definition OutputAvailableResourcesHealthyCondition :: condition where
  "OutputAvailableResourcesHealthyCondition =
     mk_condition ResourceHealthy ConditionTrue OutputAvailableResourcesHealthyReason ''''"

definition AlwaysHealthyResourcesHealthyCondition :: condition where
  "AlwaysHealthyResourcesHealthyCondition =
     mk_condition ResourceHealthy ConditionTrue AlwaysHealthyResourcesHealthyReason ''''"

definition SingleConditionMatchCondition :: "ConditionStatus \<Rightarrow> string \<Rightarrow> string \<Rightarrow> condition" where
  "SingleConditionMatchCondition status conditionName message =
     mk_condition ResourceHealthy status (conditionName @ ''Condition'') message"

definition NoStampedObjectResourcesHealthyCondition :: condition where
  "NoStampedObjectResourcesHealthyCondition =
     mk_condition ResourceHealthy ConditionUnknown NoStampedObjectHealthyReason ''''"

definition UnknownResourcesHealthyCondition :: condition where
  "UnknownResourcesHealthyCondition = mk_condition ResourceHealthy ConditionUnknown ''Unknown'' ''''"

definition NoResourceResourcesHealthyCondition :: condition where
  "NoResourceResourcesHealthyCondition =
     mk_condition ResourceHealthy ConditionUnknown NoResourceResourcesHealthyReason ''''"

definition OutputNotAvailableResourcesHealthyCondition :: condition where
  "OutputNotAvailableResourcesHealthyCondition =
     mk_condition ResourceHealthy ConditionUnknown OutputNotAvailableResourcesHealthyReason ''''"

definition MultiMatchNoMatchesCondition :: condition where
  "MultiMatchNoMatchesCondition =
     mk_condition ResourceHealthy ConditionUnknown NoMatchesFulfilledReason ''''"

definition MultiMatchResourcesHealthyCondition :: "ConditionStatus \<Rightarrow> string \<Rightarrow> string \<Rightarrow> condition" where
  "MultiMatchResourcesHealthyCondition status reason message =
     mk_condition ResourceHealthy status reason message"

section \<open>Blueprint conditions\<close>

definition TemplatesNotFoundCondition :: "string list \<Rightarrow> condition" where
  "TemplatesNotFoundCondition resourceNames =
     mk_condition BlueprintTemplatesReady ConditionFalse NotFoundTemplatesReadyReason
       (''did not find the template of the resource(s) ['' @ strings_Join resourceNames '', '' @ '']'')"

definition TemplatesFoundCondition :: condition where
  "TemplatesFoundCondition = mk_condition BlueprintTemplatesReady ConditionTrue ReadyTemplatesReadyReason ''''"

section \<open>Runnable conditions\<close>

definition RunTemplateReadyCondition :: condition where
  "RunTemplateReadyCondition = mk_condition RunTemplateReady ConditionTrue ReadyRunTemplateReason ''''"

definition RunTemplateMissingCondition :: "gerror \<Rightarrow> condition" where
  "RunTemplateMissingCondition err =
     mk_condition RunTemplateReady ConditionFalse NotFoundRunTemplateReason (Error err)"

definition StampedObjectRejectedByAPIServerCondition :: "gerror \<Rightarrow> condition" where
  "StampedObjectRejectedByAPIServerCondition err =
     mk_condition RunTemplateReady ConditionFalse StampedObjectRejectedByAPIServerRunTemplateReason (Error err)"

definition OutputPathNotSatisfiedCondition :: "unstructured \<Rightarrow> string \<Rightarrow> string \<Rightarrow> condition" where
  "OutputPathNotSatisfiedCondition obj qualifiedResource errMsg =
     mk_condition RunTemplateReady ConditionFalse OutputPathNotSatisfiedRunTemplateReason
       (''waiting to read value from resource ['' @ qualifiedResource @ ''/'' @ name_or_generateName obj @ '']''
         @ namespaceMsg obj @ '': '' @ errMsg)"

definition FailedToListCreatedObjectsCondition :: "gerror \<Rightarrow> condition" where
  "FailedToListCreatedObjectsCondition err =
     mk_condition RunTemplateReady ConditionFalse FailedToListCreatedObjectsReason (Error err)"

definition RunnableServiceAccountNotFoundCondition :: "gerror \<Rightarrow> condition" where
  "RunnableServiceAccountNotFoundCondition err =
     mk_condition RunTemplateReady ConditionFalse ServiceAccountErrorResourcesSubmittedReason (Error err)"

definition RunnableServiceAccountTokenErrorCondition :: "gerror \<Rightarrow> condition" where
  "RunnableServiceAccountTokenErrorCondition err =
     mk_condition RunTemplateReady ConditionFalse ServiceAccountTokenErrorResourcesSubmittedReason (Error err)"

definition RunnableTemplateStampFailureCondition :: "gerror \<Rightarrow> condition" where
  "RunnableTemplateStampFailureCondition err =
     mk_condition RunTemplateReady ConditionFalse TemplateStampFailureRunTemplateReason (Error err)"

definition UnknownErrorCondition :: "gerror \<Rightarrow> condition" where
  "UnknownErrorCondition err = mk_condition RunTemplateReady ConditionFalse UnknownErrorReason (Error err)"

definition ClientBuilderErrorCondition :: "gerror \<Rightarrow> condition" where
  "ClientBuilderErrorCondition err =
     mk_condition RunTemplateReady ConditionFalse ClientBuilderErrorResourcesSubmittedReason (Error err)"

definition StampedObjectConditionUnknown :: condition where
  "StampedObjectConditionUnknown =
     mk_condition StampedObjectCondition ConditionUnknown UnknownStampedObjectConditionReason ''''"

definition StampedObjectConditionKnown :: "condition \<Rightarrow> condition" where
  "StampedObjectConditionKnown c =
     mk_condition StampedObjectCondition (cond_Status c) SucceededStampedObjectConditionReason (cond_Message c)"

section \<open>The interface of the error functions\<close>

lemmas error_condition_defs =
  TemplateObjectRetrievalFailureCondition_def MissingValueAtPathCondition_def
  TemplateStampFailureCondition_def TemplateRejectedByAPIServerCondition_def
  BlueprintsFailedToListCreatedObjectsCondition_def UnknownResourceErrorCondition_def
  ResolveTemplateOptionsErrorCondition_def TemplateOptionsMatchErrorCondition_def
  MissingPassThroughInputCondition_def TemplateStampFailureByObservedGenerationCondition_def
  DeploymentConditionNotMetCondition_def DeploymentFailedConditionMetCondition_def

text \<open>\<^verbatim>\<open>AddConditionsFunc\<close>: one condition per failed resource, never True.\<close>

locale submission_conditions =
  fixes add_error :: "time \<Rightarrow> conditionManager \<Rightarrow> bool \<Rightarrow> gerror \<Rightarrow> conditionManager"
  assumes adds_one:
    "\<exists>c. cond_Status c \<in> {ConditionFalse, ConditionUnknown} \<and>
         (\<forall>now m. add_error now m isOwner err = AddPositive now m c)"
begin

text \<open>Once an error is recorded, the top level condition is not True, whatever is added before or after.\<close>

lemma finalize_not_True:
  assumes "Finalize t (add_all Add (add_error now (add_all Add (NewConditionManager ty prev) xs)
             isOwner err) ys) = (cs, ch, m')"
  shows "cond_Status (last cs) \<noteq> ConditionTrue"
proof -
  obtain c where c: "cond_Status c \<in> {ConditionFalse, ConditionUnknown}"
      "\<And>now m. add_error now m isOwner err = Add now m c Positive"
    using adds_one [of isOwner err] unfolding AddPositive_def by blast
  let ?zs = "xs @ (now, c, Positive) # ys"
  have "add_all Add (add_error now (add_all Add (NewConditionManager ty prev) xs) isOwner err) ys =
        add_all Add (NewConditionManager ty prev) ?zs"
    by (simp add: c(2) add_all_def)
  with assms have "cond_Status (last cs) = ConditionTrue \<longleftrightarrow>
      ?zs \<noteq> [] \<and> (\<forall>x\<in>set ?zs. \<not> failing x \<and> \<not> undecided x)"
    using cm.finalize_True_iff by metis
  then show ?thesis using c(1) by auto
qed

end

interpretation workload_errors: submission_conditions AddConditionForResourceSubmittedWorkload
proof (unfold_locales, intro exI conjI allI)
  fix isOwner err now m
  show "AddConditionForResourceSubmittedWorkload now m isOwner err =
        AddPositive now m (workload_error_condition isOwner err)"
    by (simp add: AddConditionForResourceSubmittedWorkload_def)
  show "cond_Status (workload_error_condition isOwner err) \<in> {ConditionFalse, ConditionUnknown}"
    by (cases err) (simp_all add: workload_error_condition_def error_condition_defs split: option.split)
qed

lemma deliverable_error_status:
  "cond_Status (deliverable_error_condition isOwner err) =
     (case err of
        RetrieveOutputError e rn sobj bn bt qr pt h \<Rightarrow>
          (case e of
             DeploymentConditionError e' \<Rightarrow> ConditionUnknown
           | JsonPathError e' x \<Rightarrow> if sobj = None then ConditionFalse else ConditionUnknown
           | _ \<Rightarrow> ConditionFalse)
      | _ \<Rightarrow> ConditionFalse)"
  by (cases err)
    (simp_all add: deliverable_error_condition_def error_condition_defs split: gerror.split option.split)

interpretation deliverable_errors: submission_conditions AddConditionForResourceSubmittedDeliverable
proof (unfold_locales, intro exI conjI allI)
  fix isOwner err now m
  show "AddConditionForResourceSubmittedDeliverable now m isOwner err =
        AddPositive now m (deliverable_error_condition isOwner err)"
    by (simp add: AddConditionForResourceSubmittedDeliverable_def)
  show "cond_Status (deliverable_error_condition isOwner err) \<in> {ConditionFalse, ConditionUnknown}"
    by (simp add: deliverable_error_status split: gerror.split)
qed

section \<open>Properties\<close>

text \<open>
  Once a realizer error of a workload has been recorded, the Ready condition that \<^verbatim>\<open>Finalize\<close>
  appends is never True, whatever conditions are added before or after it.
\<close>

theorem workload_error_never_Ready:
  "cond_Status (last (fst (Finalize t
     (add_all Add (AddConditionForResourceSubmittedWorkload now
        (add_all Add (NewConditionManager ty prev) before) isOwner err) after)))) \<noteq> ConditionTrue"
  by (metis prod_cases3 fst_conv workload_errors.finalize_not_True)

text \<open>
  the same for the errors of a deliverable.
\<close>

theorem deliverable_error_never_Ready:
  "cond_Status (last (fst (Finalize t
     (add_all Add (AddConditionForResourceSubmittedDeliverable now
        (add_all Add (NewConditionManager ty prev) before) isOwner err) after)))) \<noteq> ConditionTrue"
  by (metis prod_cases3 fst_conv deliverable_errors.finalize_not_True)

text \<open>
  The two error functions do not see through \<^verbatim>\<open>%w\<close>: a template option error that has been
  wrapped, which is how the resource realizer returns it, becomes an \<^verbatim>\<open>UnknownError\<close>
  condition instead of the condition written for it.
\<close>

theorem wrapped_option_errors_unknown:
  "cond_Reason (workload_error_condition isOwner (WrapError t (TemplateOptionsMatchError rn ons bn bt))) =
     UnknownErrorResourcesSubmittedReason \<and>
   cond_Reason (workload_error_condition isOwner (TemplateOptionsMatchError rn ons bn bt)) =
     TemplateOptionsMatchErrorResourcesSubmittedReason \<and>
   cond_Reason (deliverable_error_condition isOwner (WrapError t (ResolveTemplateOptionError e rn opn bn bt))) =
     UnknownErrorResourcesSubmittedReason \<and>
   cond_Reason (deliverable_error_condition isOwner (ResolveTemplateOptionError e rn opn bn bt)) =
     ResolveTemplateOptionsErrorResourcesSubmittedReason"
  by (simp add: workload_error_condition_def deliverable_error_condition_def error_condition_defs)

text \<open>
  The condition for a deployment that is not ready, failed or has no observed generation has the
  type of the owner's \<^verbatim>\<open>ResourcesSubmitted\<close> condition even when it is asked for as a condition of a
  single resource; for every other error of a stamped object the type is the one asked for.
\<close>

theorem deployment_error_condition_type:
  "cond_Type (deliverable_error_condition isOwner (RetrieveOutputError e rn (Some obj) bn bt qr pt h)) =
     (case e of
        ObservedGenerationError _ \<Rightarrow> OwnerResourcesSubmitted
      | DeploymentFailedConditionMetError _ \<Rightarrow> OwnerResourcesSubmitted
      | DeploymentConditionError _ \<Rightarrow> OwnerResourcesSubmitted
      | _ \<Rightarrow> getConditionType isOwner)"
  by (cases e) (simp_all add: deliverable_error_condition_def error_condition_defs)

end
