(* ===== verification/Health.thy ===== *)
theory Health
  imports Stamp_Reader Resource_Conditions
begin

text \<open>
  \<^verbatim>\<open>pkg/realizer/healthcheck\<close> and \<^verbatim>\<open>pkg/utils/unstructured.go\<close>: the health of a stamped object under the
  health rule of its template, and the health of an owner from that of its resources.
  Marshalling the value of \<^verbatim>\<open>status.conditions\<close> and decoding it as a list of conditions is the
  parameter \<open>cd\<close>, the text of a value under \<^verbatim>\<open>%v\<close> the parameter \<open>sv\<close>.
\<close>

section \<open>Conditions of an object\<close>

definition ConditionWithType :: "condition list \<Rightarrow> string \<Rightarrow> condition option" where
  "ConditionWithType c conditionType = find (\<lambda>condition. cond_Type condition = conditionType) c"

type_synonym condition_decoder = "json \<Rightarrow> gerror + condition list"

definition ExtractConditions :: "condition_decoder \<Rightarrow> unstructured \<Rightarrow> condition list" where
  "ExtractConditions cd stampedObject =
     (case json_field (u_Content stampedObject) ''status'' of
        Some (JObj status) \<Rightarrow>
          (case cd (case fmlookup status ''conditions'' of None \<Rightarrow> JNull | Some v \<Rightarrow> v) of
             Inl err \<Rightarrow> []
           | Inr conditionList \<Rightarrow> conditionList)
      | _ \<Rightarrow> [])"

section \<open>Health rules\<close>

definition IsClusterTemplate :: "ObjectReference option \<Rightarrow> bool" where
  "IsClusterTemplate reference =
     (case reference of
        None \<Rightarrow> False
      | Some ref \<Rightarrow> or_Kind ref = ''ClusterTemplate'' \<and> or_APIVersion ref = SchemeGroup @ ''/'' @ SchemeVersion)"

definition singleConditionTypeCondition :: "condition_decoder \<Rightarrow> string \<Rightarrow> unstructured \<Rightarrow> condition" where
  "singleConditionTypeCondition cd singleConditionType stampedObject =
     (case ConditionWithType (ExtractConditions cd stampedObject) singleConditionType of
        Some c \<Rightarrow>
          (if cond_Status c = ConditionFalse \<or> cond_Status c = ConditionTrue
           then SingleConditionMatchCondition (cond_Status c) singleConditionType (cond_Message c)
           else SingleConditionMatchCondition ConditionUnknown singleConditionType (cond_Message c))
      | None \<Rightarrow>
          SingleConditionMatchCondition ConditionUnknown singleConditionType
            (''condition with type ['' @ singleConditionType @ ''] not found on resource status''))"

definition messageForMatchingFieldRequirement ::
  "jsonpath_lib \<Rightarrow> (json \<Rightarrow> string) \<Rightarrow> HealthMatchFieldSelectorRequirement \<Rightarrow> unstructured \<Rightarrow> string go" where
  "messageForMatchingFieldRequirement jp sv requirement stampedObject =
     go_catch (EvaluateJsonPath jp (fsr_Key (hm_FieldSelectorRequirement requirement)) (u_Content stampedObject))
       (\<lambda>field. go_catch (EvaluateJsonPath jp (hm_MessagePath requirement) (u_Content stampedObject))
          (\<lambda>message.
             let fieldValue = (case field of Inr v \<Rightarrow> v | Inl e \<Rightarrow> JStr ''<error retrieving field value>'');
                 messageValue = (case message of Inr v \<Rightarrow> v
                   | Inl e \<Rightarrow> JStr (''unknown, error retrieving message path ['' @ hm_MessagePath requirement @ '']''))
             in Ret (''field value: '' @ sv fieldValue @ '', message: '' @ sv messageValue)))"

definition condition_message :: "condition \<Rightarrow> string" where
  "condition_message c = ''condition status: '' @ cond_Status c @ '', message: '' @ cond_Message c"

text \<open>Does the object have a condition that satisfies a condition rule?\<close>

definition condition_rule_match :: "condition_decoder \<Rightarrow> unstructured \<Rightarrow> ConditionRequirement \<Rightarrow> condition option" where
  "condition_rule_match cd obj rule =
     (case ConditionWithType (ExtractConditions cd obj) (cr_Type rule) of
        Some c \<Rightarrow> if cond_Status c = cr_Status rule then Some c else None
      | None \<Rightarrow> None)"

fun first_matching_condition :: "condition_decoder \<Rightarrow> unstructured \<Rightarrow> ConditionRequirement list \<Rightarrow> condition option" where
  "first_matching_condition cd obj [] = None"
| "first_matching_condition cd obj (rule # rules) =
     (case condition_rule_match cd obj rule of
        Some c \<Rightarrow> Some c
      | None \<Rightarrow> first_matching_condition cd obj rules)"

fun unhealthy_fields ::
  "jsonpath_lib \<Rightarrow> (json \<Rightarrow> string) \<Rightarrow> HealthMatchFieldSelectorRequirement list \<Rightarrow> unstructured \<Rightarrow> condition option go" where
  "unhealthy_fields jp sv [] obj = Ret None"
| "unhealthy_fields jp sv (rule # rules) obj =
     go_catch (Matches jp (hm_FieldSelectorRequirement rule) (u_Content obj))
       (\<lambda>res. if res = Inr True then
           go_bind (messageForMatchingFieldRequirement jp sv rule obj)
             (\<lambda>m. Ret (Some (MultiMatchResourcesHealthyCondition ConditionFalse MultiMatchFieldHealthyReason m)))
         else unhealthy_fields jp sv rules obj)"

definition anyUnhealthyMatchCondition ::
  "jsonpath_lib \<Rightarrow> (json \<Rightarrow> string) \<Rightarrow> condition_decoder \<Rightarrow> HealthMatchRule \<Rightarrow> unstructured \<Rightarrow> condition option go" where
  "anyUnhealthyMatchCondition jp sv cd rule obj =
     (case first_matching_condition cd obj (hmr_MatchConditions rule) of
        Some c \<Rightarrow>
          Ret (Some (MultiMatchResourcesHealthyCondition ConditionFalse MultiMatchConditionHealthyReason (condition_message c)))
      | None \<Rightarrow> unhealthy_fields jp sv (hmr_MatchFields rule) obj)"

text \<open>The two loops of \<^verbatim>\<open>allHealthyMatchCondition\<close>: the reason and message of the first rule, or \<^const>\<open>None\<close> when a
  rule does not hold.\<close>

fun healthy_conditions ::
  "condition_decoder \<Rightarrow> ConditionRequirement list \<Rightarrow> unstructured \<Rightarrow> string \<times> string \<Rightarrow> (string \<times> string) option" where
  "healthy_conditions cd [] obj (firstReason, message) = Some (firstReason, message)"
| "healthy_conditions cd (rule # rules) obj (firstReason, message) =
     (case condition_rule_match cd obj rule of
        None \<Rightarrow> None
      | Some c \<Rightarrow> healthy_conditions cd rules obj
          (if firstReason = '''' then (MultiMatchConditionHealthyReason, condition_message c)
           else (firstReason, message)))"

fun healthy_fields ::
  "jsonpath_lib \<Rightarrow> (json \<Rightarrow> string) \<Rightarrow> HealthMatchFieldSelectorRequirement list \<Rightarrow> unstructured \<Rightarrow>
   string \<times> string \<Rightarrow> (string \<times> string) option go" where
  "healthy_fields jp sv [] obj (firstReason, message) = Ret (Some (firstReason, message))"
| "healthy_fields jp sv (rule # rules) obj (firstReason, message) =
     go_catch (Matches jp (hm_FieldSelectorRequirement rule) (u_Content obj))
       (\<lambda>res. if res = Inr True then
           (if firstReason = '''' then
              go_bind (messageForMatchingFieldRequirement jp sv rule obj)
                (\<lambda>m. healthy_fields jp sv rules obj (MultiMatchFieldHealthyReason, m))
            else healthy_fields jp sv rules obj (firstReason, message))
         else Ret None)"

definition allHealthyMatchCondition ::
  "jsonpath_lib \<Rightarrow> (json \<Rightarrow> string) \<Rightarrow> condition_decoder \<Rightarrow> HealthMatchRule \<Rightarrow> unstructured \<Rightarrow> condition option go" where
  "allHealthyMatchCondition jp sv cd rule obj =
     (case healthy_conditions cd (hmr_MatchConditions rule) obj ('''', '''') of
        None \<Rightarrow> Ret None
      | Some fm \<Rightarrow>
          go_bind (healthy_fields jp sv (hmr_MatchFields rule) obj fm)
            (\<lambda>r. Ret (map_option (\<lambda>(firstReason, message).
                MultiMatchResourcesHealthyCondition ConditionTrue firstReason message) r)))"

definition multiMatchCondition ::
  "jsonpath_lib \<Rightarrow> (json \<Rightarrow> string) \<Rightarrow> condition_decoder \<Rightarrow> MultiMatchHealthRule \<Rightarrow> unstructured \<Rightarrow> condition go" where
  "multiMatchCondition jp sv cd rule obj =
     go_bind (anyUnhealthyMatchCondition jp sv cd (mm_Unhealthy rule) obj)
       (\<lambda>unhealthy. case unhealthy of
          Some c \<Rightarrow> Ret c
        | None \<Rightarrow>
            go_bind (allHealthyMatchCondition jp sv cd (mm_Healthy rule) obj)
              (\<lambda>healthy. case healthy of Some c \<Rightarrow> Ret c | None \<Rightarrow> Ret MultiMatchNoMatchesCondition))"

definition DetermineHealthCondition ::
  "jsonpath_lib \<Rightarrow> (json \<Rightarrow> string) \<Rightarrow> condition_decoder \<Rightarrow> HealthRule option \<Rightarrow> RealizedResource option \<Rightarrow>
   unstructured option \<Rightarrow> condition go" where
  "DetermineHealthCondition jp sv cd rule realizedResource stampedObject =
     (case rule of
        None \<Rightarrow>
          (case realizedResource of
             None \<Rightarrow> Ret NoResourceResourcesHealthyCondition
           | Some rr \<Rightarrow>
               (if length (rr_Outputs rr) > 0 then Ret OutputAvailableResourcesHealthyCondition
                else if IsClusterTemplate (rr_TemplateRef rr) then
                  (if rr_StampedRef rr \<noteq> None then Ret AlwaysHealthyResourcesHealthyCondition
                   else Ret NoStampedObjectResourcesHealthyCondition)
                else Ret OutputNotAvailableResourcesHealthyCondition))
      | Some r \<Rightarrow>
          (case stampedObject of
             Some obj \<Rightarrow>
               (if hr_AlwaysHealthy r \<noteq> None then Ret AlwaysHealthyResourcesHealthyCondition
                else if hr_SingleConditionType r \<noteq> '''' then
                  Ret (singleConditionTypeCondition cd (hr_SingleConditionType r) obj)
                else (case hr_MultiMatch r of
                   Some m \<Rightarrow> multiMatchCondition jp sv cd m obj
                 | None \<Rightarrow> Ret UnknownResourcesHealthyCondition))
           | None \<Rightarrow>
               (if hr_AlwaysHealthy r \<noteq> None then Ret NoStampedObjectResourcesHealthyCondition
                else Ret UnknownResourcesHealthyCondition)))"

text \<open>\<^verbatim>\<open>rule.MultiMatch\<close> is dereferenced without a check.\<close>

definition DetermineStampedObjectHealth ::
  "jsonpath_lib \<Rightarrow> (json \<Rightarrow> string) \<Rightarrow> condition_decoder \<Rightarrow> HealthRule option \<Rightarrow> unstructured option \<Rightarrow>
   ConditionStatus go" where
  "DetermineStampedObjectHealth jp sv cd rule stampedObject =
     (case stampedObject of
        None \<Rightarrow> Ret ConditionUnknown
      | Some obj \<Rightarrow>
          (case rule of
             None \<Rightarrow> Ret ConditionTrue
           | Some r \<Rightarrow>
               (if hr_AlwaysHealthy r \<noteq> None then Ret ConditionTrue
                else if hr_SingleConditionType r \<noteq> '''' then
                  Ret (cond_Status (singleConditionTypeCondition cd (hr_SingleConditionType r) obj))
                else (case hr_MultiMatch r of
                   None \<Rightarrow> Panic ''nil pointer dereference''
                 | Some m \<Rightarrow> go_bind (multiMatchCondition jp sv cd m obj) (\<lambda>c. Ret (cond_Status c))))))"

section \<open>The health of an owner\<close>

text \<open>\<^verbatim>\<open>metav1.Now()\<close> of all calls of \<^verbatim>\<open>AddPositive\<close> and \<^verbatim>\<open>Finalize\<close> is the one argument \<open>now\<close>.\<close>

definition resource_health_conditions :: "ResourceStatus list \<Rightarrow> condition list" where
  "resource_health_conditions statuses =
     concat (map (\<lambda>s. case ConditionWithType (rs_Conditions s) ResourceHealthy of None \<Rightarrow> [] | Some c \<Rightarrow> [c]) statuses)"

definition OwnerHealthCondition :: "time \<Rightarrow> ResourceStatus list \<Rightarrow> condition list \<Rightarrow> condition" where
  "OwnerHealthCondition now resourceStatuses previousConditions =
     (let previousHealthCondition =
            (case ConditionWithType previousConditions ResourceHealthy of None \<Rightarrow> [] | Some c \<Rightarrow> [c]);
          healthyConditionManager =
            foldl (AddPositive now) (NewConditionManager ResourcesHealthy previousHealthCondition)
              (resource_health_conditions resourceStatuses);
          (healthyConditionResult, changed, m') = Finalize now healthyConditionManager
      in (last healthyConditionResult)\<lparr>cond_Reason := ''HealthyConditionRule''\<rparr>)"

section \<open>Multi match rules\<close>

lemma healthy_conditions_None_iff:
  "healthy_conditions cd rules obj fm = None \<longleftrightarrow> (\<exists>rule\<in>set rules. condition_rule_match cd obj rule = None)"
  by (induction cd rules obj fm rule: healthy_conditions.induct) (auto split: option.splits)

lemma first_matching_condition_None_iff:
  "first_matching_condition cd obj rules = None \<longleftrightarrow> (\<forall>rule\<in>set rules. condition_rule_match cd obj rule = None)"
  by (induction rules) (auto split: option.splits)

text \<open>A field rule holds when the selector matches without error.\<close>

definition field_rule_holds :: "jsonpath_lib \<Rightarrow> unstructured \<Rightarrow> HealthMatchFieldSelectorRequirement \<Rightarrow> bool" where
  "field_rule_holds jp obj rule \<longleftrightarrow> Matches jp (hm_FieldSelectorRequirement rule) (u_Content obj) = Ret True"

definition condition_rule_holds :: "condition_decoder \<Rightarrow> unstructured \<Rightarrow> ConditionRequirement \<Rightarrow> bool" where
  "condition_rule_holds cd obj rule \<longleftrightarrow> condition_rule_match cd obj rule \<noteq> None"

definition some_rule_holds ::
  "jsonpath_lib \<Rightarrow> condition_decoder \<Rightarrow> unstructured \<Rightarrow> HealthMatchRule \<Rightarrow> bool" where
  "some_rule_holds jp cd obj rule \<longleftrightarrow>
     (\<exists>r\<in>set (hmr_MatchConditions rule). condition_rule_holds cd obj r) \<or>
     (\<exists>r\<in>set (hmr_MatchFields rule). field_rule_holds jp obj r)"

definition all_rules_hold ::
  "jsonpath_lib \<Rightarrow> condition_decoder \<Rightarrow> unstructured \<Rightarrow> HealthMatchRule \<Rightarrow> bool" where
  "all_rules_hold jp cd obj rule \<longleftrightarrow>
     (\<forall>r\<in>set (hmr_MatchConditions rule). condition_rule_holds cd obj r) \<and>
     (\<forall>r\<in>set (hmr_MatchFields rule). field_rule_holds jp obj r)"

text \<open>An engine that finds at least one query in every wrapped path it parses never panics.\<close>

definition engine_ok :: "jsonpath_lib \<Rightarrow> bool" where
  "engine_ok jp \<longleftrightarrow> (\<forall>k v. \<not> panics (EvaluateJsonPath jp k v))"

lemma engine_okI: "(\<And>e v. hasPrefix e ''{.'' \<Longrightarrow> jp_Parse jp e = None \<Longrightarrow> jp_FindResults jp e v \<noteq> Inr []) \<Longrightarrow> engine_ok jp"
  unfolding engine_ok_def using EvaluateJsonPath_no_panic by (metis panics.elims(2))

lemma engine_ok_evaluates:
  "engine_ok jp \<Longrightarrow> (\<exists>r. EvaluateJsonPath jp k v = Ret r) \<or> (\<exists>e. EvaluateJsonPath jp k v = Err e)"
  unfolding engine_ok_def not_panics_iff by blast

lemma match_operator_np [simp]: "\<not> panics (match_operator req v)"
  by (simp add: match_operator_def)

lemma Matches_no_panic: "engine_ok jp \<Longrightarrow> \<not> panics (Matches jp req v)"
  using engine_ok_evaluates [of jp "fsr_Key req" v]
  by (auto simp: Matches_def match_operator_np split: if_splits)

lemma message_Ret: "engine_ok jp \<Longrightarrow> \<exists>m. messageForMatchingFieldRequirement jp sv r obj = Ret m"
  using engine_ok_evaluates [of jp "fsr_Key (hm_FieldSelectorRequirement r)" "u_Content obj"]
    engine_ok_evaluates [of jp "hm_MessagePath r" "u_Content obj"]
  by (auto simp: messageForMatchingFieldRequirement_def Let_def)

lemma unhealthy_fields_Ret:
  assumes "engine_ok jp"
  shows "\<exists>r. unhealthy_fields jp sv rules obj = Ret r \<and>
    (r \<noteq> None \<longleftrightarrow> (\<exists>rule\<in>set rules. field_rule_holds jp obj rule)) \<and> (\<forall>c. r = Some c \<longrightarrow> cond_Status c = ConditionFalse)"
proof (induction rules)
  case (Cons rule rules)
  obtain m where m: "messageForMatchingFieldRequirement jp sv rule obj = Ret m"
    using message_Ret [OF assms] by blast
  have "\<not> panics (Matches jp (hm_FieldSelectorRequirement rule) (u_Content obj))"
    using Matches_no_panic [OF assms] .
  then show ?case
    using Cons m
    by (cases "Matches jp (hm_FieldSelectorRequirement rule) (u_Content obj)")
      (auto simp: field_rule_holds_def MultiMatchResourcesHealthyCondition_def)
qed simp

lemma healthy_fields_Ret:
  assumes "engine_ok jp"
  shows "\<exists>r. healthy_fields jp sv rules obj fm = Ret r \<and> (r \<noteq> None \<longleftrightarrow> (\<forall>rule\<in>set rules. field_rule_holds jp obj rule))"
proof (induction rules arbitrary: fm)
  case Nil
  then show ?case by (cases fm) simp
next
  case (Cons rule rules)
  obtain m where m: "messageForMatchingFieldRequirement jp sv rule obj = Ret m"
    using message_Ret [OF assms] by blast
  have np: "\<not> panics (Matches jp (hm_FieldSelectorRequirement rule) (u_Content obj))"
    using Matches_no_panic [OF assms] .
  obtain reason message where fm: "fm = (reason, message)" by (cases fm)
  show ?case
    using Cons.IH [of "(MultiMatchFieldHealthyReason, m)"] Cons.IH [of fm] m np
    by (cases "Matches jp (hm_FieldSelectorRequirement rule) (u_Content obj)")
      (auto simp: field_rule_holds_def fm)
qed

lemma anyUnhealthy_Ret:
  assumes "engine_ok jp"
  shows "\<exists>r. anyUnhealthyMatchCondition jp sv cd rule obj = Ret r \<and> (r \<noteq> None \<longleftrightarrow> some_rule_holds jp cd obj rule) \<and>
    (\<forall>c. r = Some c \<longrightarrow> cond_Status c = ConditionFalse)"
proof (cases "first_matching_condition cd obj (hmr_MatchConditions rule)")
  case None
  then have "\<not> (\<exists>r\<in>set (hmr_MatchConditions rule). condition_rule_holds cd obj r)"
    by (simp add: first_matching_condition_None_iff condition_rule_holds_def)
  with None show ?thesis
    using unhealthy_fields_Ret [OF assms, of sv "hmr_MatchFields rule" obj]
    by (simp add: anyUnhealthyMatchCondition_def some_rule_holds_def)
next
  case (Some c)
  then have "\<exists>r\<in>set (hmr_MatchConditions rule). condition_rule_holds cd obj r"
    using first_matching_condition_None_iff [of cd obj "hmr_MatchConditions rule"] by (auto simp: condition_rule_holds_def)
  with Some show ?thesis
    by (simp add: anyUnhealthyMatchCondition_def some_rule_holds_def MultiMatchResourcesHealthyCondition_def)
qed

lemma allHealthy_Ret:
  assumes "engine_ok jp"
  shows "\<exists>r. allHealthyMatchCondition jp sv cd rule obj = Ret r \<and> (r \<noteq> None \<longleftrightarrow> all_rules_hold jp cd obj rule) \<and>
    (\<forall>c. r = Some c \<longrightarrow> cond_Status c = ConditionTrue)"
proof (cases "healthy_conditions cd (hmr_MatchConditions rule) obj ('''', '''')")
  case None
  then have "\<not> (\<forall>r\<in>set (hmr_MatchConditions rule). condition_rule_holds cd obj r)"
    by (simp add: healthy_conditions_None_iff condition_rule_holds_def)
  with None show ?thesis
    by (simp add: allHealthyMatchCondition_def all_rules_hold_def)
next
  case (Some fm)
  obtain r where r: "healthy_fields jp sv (hmr_MatchFields rule) obj fm = Ret r"
      "r \<noteq> None \<longleftrightarrow> (\<forall>rule\<in>set (hmr_MatchFields rule). field_rule_holds jp obj rule)"
    using healthy_fields_Ret [OF assms, of sv "hmr_MatchFields rule" obj fm] by blast
  have "\<forall>r\<in>set (hmr_MatchConditions rule). condition_rule_holds cd obj r"
    using Some healthy_conditions_None_iff [of cd "hmr_MatchConditions rule" obj "('''', '''')"]
    by (auto simp: condition_rule_holds_def)
  then show ?thesis
    using Some r by (cases r) (auto simp: allHealthyMatchCondition_def all_rules_hold_def MultiMatchResourcesHealthyCondition_def)
qed

lemma multiMatch_Ret:
  assumes "engine_ok jp"
  shows "\<exists>c. multiMatchCondition jp sv cd rule obj = Ret c \<and>
    cond_Status c = (if some_rule_holds jp cd obj (mm_Unhealthy rule) then ConditionFalse
                     else if all_rules_hold jp cd obj (mm_Healthy rule) then ConditionTrue else ConditionUnknown)"
proof -
  obtain u where u: "anyUnhealthyMatchCondition jp sv cd (mm_Unhealthy rule) obj = Ret u"
      "u \<noteq> None \<longleftrightarrow> some_rule_holds jp cd obj (mm_Unhealthy rule)" "\<And>c. u = Some c \<Longrightarrow> cond_Status c = ConditionFalse"
    using anyUnhealthy_Ret [OF assms] by blast
  obtain h where h: "allHealthyMatchCondition jp sv cd (mm_Healthy rule) obj = Ret h"
      "h \<noteq> None \<longleftrightarrow> all_rules_hold jp cd obj (mm_Healthy rule)" "\<And>c. h = Some c \<Longrightarrow> cond_Status c = ConditionTrue"
    using allHealthy_Ret [OF assms] by blast
  show ?thesis
    using u h by (cases u; cases h) (auto simp: multiMatchCondition_def MultiMatchNoMatchesCondition_def)
qed

section \<open>Properties\<close>

text \<open>
  With a JSONPath engine that finds a query in every path it parses, a multi match rule makes an object unhealthy
  exactly when some unhealthy rule holds; otherwise healthy exactly when all healthy rules hold; otherwise unknown.
\<close>

theorem multi_match_status:
  assumes "\<And>e v. hasPrefix e ''{.'' \<Longrightarrow> jp_Parse jp e = None \<Longrightarrow> jp_FindResults jp e v \<noteq> Inr []"
  shows "\<exists>c. multiMatchCondition jp sv cd rule obj = Ret c \<and>
    cond_Status c = (if some_rule_holds jp cd obj (mm_Unhealthy rule) then ConditionFalse
                     else if all_rules_hold jp cd obj (mm_Healthy rule) then ConditionTrue else ConditionUnknown)"
  by (rule multiMatch_Ret [OF engine_okI [OF assms]])

theorem multi_match_status_witness:
  "\<exists>c. multiMatchCondition \<lparr>jp_Parse = \<lambda>e. None, jp_FindResults = \<lambda>e v. Inr [[v]],
      jp_PrintResults = \<lambda>r. Inr '''', jp_ShowResults = \<lambda>r. '''', jp_Unmarshal = \<lambda>b. Inr [JStr ''ok'']\<rparr> (\<lambda>v. '''')
     (\<lambda>v. Inr [])
     \<lparr>mm_Healthy = \<lparr>hmr_MatchConditions = [], hmr_MatchFields = [\<lparr>hm_FieldSelectorRequirement =
          \<lparr>fsr_Key = ''status.phase'', fsr_Operator = ''In'', fsr_Values = Some [''ok'']\<rparr>, hm_MessagePath = ''m''\<rparr>]\<rparr>,
      mm_Unhealthy = \<lparr>hmr_MatchConditions = [\<lparr>cr_Type = ''Ready'', cr_Status = ''False''\<rparr>], hmr_MatchFields = []\<rparr>\<rparr>
     \<lparr>u_APIVersion = '''', u_Kind = '''', u_GVK = \<lparr>gvk_Group = '''', gvk_Version = '''', gvk_Kind = ''''\<rparr>, u_Namespace = '''',
      u_Name = '''', u_GenerateName = '''', u_Labels = fmempty, u_CreationTimestamp = 0, u_ResourceVersion = '''',
      u_Content = JNull\<rparr> = Ret c \<and> cond_Status c = ConditionTrue" (is "\<exists>c. multiMatchCondition ?jp ?sv ?cd ?rule ?obj = _ \<and> _")
proof -
  have "\<exists>c. multiMatchCondition ?jp ?sv ?cd ?rule ?obj = Ret c \<and>
    cond_Status c = (if some_rule_holds ?jp ?cd ?obj (mm_Unhealthy ?rule) then ConditionFalse
                     else if all_rules_hold ?jp ?cd ?obj (mm_Healthy ?rule) then ConditionTrue else ConditionUnknown)"
    by (rule multi_match_status) simp
  moreover have "\<not> some_rule_holds ?jp ?cd ?obj (mm_Unhealthy ?rule)"
    by (simp add: some_rule_holds_def condition_rule_holds_def condition_rule_match_def ExtractConditions_def ConditionWithType_def)
  moreover have "all_rules_hold ?jp ?cd ?obj (mm_Healthy ?rule)"
    by (simp add: all_rules_hold_def field_rule_holds_def Matches_def match_operator_def EvaluateJsonPath_def
        SinglePathEvaluate_def FieldSelectorOpIn_def)
  ultimately show ?thesis by simp
qed

lemma accepted_rule_agrees:
  assumes "HealthRule_validate r = None" "\<And>e v. hasPrefix e ''{.'' \<Longrightarrow> jp_Parse jp e = None \<Longrightarrow> jp_FindResults jp e v \<noteq> Inr []"
  shows "\<exists>c. DetermineHealthCondition jp sv cd (Some r) rr (Some obj) = Ret c \<and>
    DetermineStampedObjectHealth jp sv cd (Some r) (Some obj) = Ret (cond_Status c)"
proof -
  have one: "hr_AlwaysHealthy r \<noteq> None \<or> hr_SingleConditionType r \<noteq> '''' \<or> hr_MultiMatch r \<noteq> None"
    using assms(1) by (auto simp: HealthRule_validate_def checks_None_iff Let_def simp del: checks_Cons split: if_splits)
  show ?thesis
  proof (cases "hr_AlwaysHealthy r = None \<and> hr_SingleConditionType r = ''''")
    case True
    then obtain m where m: "hr_MultiMatch r = Some m" using one by auto
    obtain c where "multiMatchCondition jp sv cd m obj = Ret c"
      using multiMatch_Ret [OF engine_okI [OF assms(2)]] by blast
    with True m show ?thesis by (simp add: DetermineHealthCondition_def DetermineStampedObjectHealth_def)
  next
    case False
    then show ?thesis
      by (auto simp: DetermineHealthCondition_def DetermineStampedObjectHealth_def AlwaysHealthyResourcesHealthyCondition_def)
  qed
qed

text \<open>
  For every health rule that the template webhook accepts, the condition written into the status of a
  resource and the status that decides which stamped objects count as successful agree, and neither computation panics.
\<close>

theorem health_agrees:
  assumes "HealthRule_validate r = None" "\<And>e v. hasPrefix e ''{.'' \<Longrightarrow> jp_Parse jp e = None \<Longrightarrow> jp_FindResults jp e v \<noteq> Inr []"
  shows "\<exists>c. DetermineHealthCondition jp sv cd (Some r) rr (Some obj) = Ret c \<and>
    DetermineStampedObjectHealth jp sv cd (Some r) (Some obj) = Ret (cond_Status c)"
  using assms by (rule accepted_rule_agrees)

theorem health_agrees_witness:
  "\<exists>c. DetermineHealthCondition \<lparr>jp_Parse = \<lambda>e. None, jp_FindResults = \<lambda>e v. Inr [[v]],
      jp_PrintResults = \<lambda>r. Inr '''', jp_ShowResults = \<lambda>r. '''', jp_Unmarshal = \<lambda>b. Inr [JNull]\<rparr> (\<lambda>v. '''') (\<lambda>v. Inr [])
     (Some \<lparr>hr_AlwaysHealthy = None, hr_SingleConditionType = ''Ready'', hr_MultiMatch = None\<rparr>) None
     (Some \<lparr>u_APIVersion = '''', u_Kind = '''', u_GVK = \<lparr>gvk_Group = '''', gvk_Version = '''', gvk_Kind = ''''\<rparr>, u_Namespace = '''',
      u_Name = '''', u_GenerateName = '''', u_Labels = fmempty, u_CreationTimestamp = 0, u_ResourceVersion = '''',
      u_Content = JNull\<rparr>) = Ret c"
proof -
  have "HealthRule_validate \<lparr>hr_AlwaysHealthy = None, hr_SingleConditionType = ''Ready'', hr_MultiMatch = None\<rparr> = None"
    by (simp add: HealthRule_validate_def check_def)
  from health_agrees [OF this, of "\<lparr>jp_Parse = \<lambda>e. None, jp_FindResults = \<lambda>e v. Inr [[v]],
      jp_PrintResults = \<lambda>r. Inr '''', jp_ShowResults = \<lambda>r. '''', jp_Unmarshal = \<lambda>b. Inr [JNull]\<rparr>"] show ?thesis
    by fastforce
qed

text \<open>Adding a list of conditions with positive polarity.\<close>

lemma foldl_AddPositive:
  "foldl (AddPositive now) m cs = add_all Add m (map (\<lambda>c. (now, c, Positive)) cs)"
  by (induction cs arbitrary: m) (simp_all add: AddPositive_def add_all_def)

lemma mem_image_iff: "v \<in> f ` A \<longleftrightarrow> (\<exists>x\<in>A. f x = v)"
  by (metis image_iff)

text \<open>
  The health condition of an owner has type \<^verbatim>\<open>ResourcesHealthy\<close>; it is True exactly when some resource reports a
  health condition and none of those reported is False or Unknown, and False exactly when one is False.
\<close>

theorem owner_health:
  "cond_Type (OwnerHealthCondition now statuses prev) = ResourcesHealthy \<and>
   (cond_Status (OwnerHealthCondition now statuses prev) = ConditionTrue \<longleftrightarrow>
      resource_health_conditions statuses \<noteq> [] \<and>
      cond_Status ` set (resource_health_conditions statuses) \<inter> {ConditionFalse, ConditionUnknown} = {}) \<and>
   (cond_Status (OwnerHealthCondition now statuses prev) = ConditionFalse \<longleftrightarrow>
      ConditionFalse \<in> cond_Status ` set (resource_health_conditions statuses))"
proof -
  let ?prev = "case ConditionWithType prev ResourceHealthy of None \<Rightarrow> [] | Some c \<Rightarrow> [c]"
  let ?hs = "resource_health_conditions statuses"
  let ?xs = "map (\<lambda>c. (now, c, Positive)) ?hs"
  obtain cs ch m' where f: "Finalize now (add_all Add (NewConditionManager ResourcesHealthy ?prev) ?xs) = (cs, ch, m')"
    by (cases "Finalize now (add_all Add (NewConditionManager ResourcesHealthy ?prev) ?xs)")
  have c: "OwnerHealthCondition now statuses prev = (last cs)\<lparr>cond_Reason := ''HealthyConditionRule''\<rparr>"
    unfolding OwnerHealthCondition_def foldl_AddPositive Let_def f by simp
  have "cond_Type (last cs) = ResourcesHealthy"
    using cm.finalize_last_sel(1) [OF f] by (simp add: top_condition_def split: prod.split)
  moreover have "cond_Status (last cs) = ConditionTrue \<longleftrightarrow>
      ?hs \<noteq> [] \<and> cond_Status ` set ?hs \<inter> {ConditionFalse, ConditionUnknown} = {}"
    using cm.finalize_True_iff [OF f] by (auto simp: mem_image_iff)
  moreover have "cond_Status (last cs) = ConditionFalse \<longleftrightarrow> ConditionFalse \<in> cond_Status ` set ?hs"
    using cm.finalize_False_iff [OF f] by (auto simp: mem_image_iff)
  ultimately show ?thesis by (simp add: c)
qed

text \<open>
  a health rule without any alternative, which only the admission check excludes, makes the health computation for the
  objects of an immutable template panic, while the health condition of the resource is just Unknown.
\<close>

theorem empty_rule_panics:
  "(\<exists>p. DetermineStampedObjectHealth jp sv cd
      (Some \<lparr>hr_AlwaysHealthy = None, hr_SingleConditionType = '''', hr_MultiMatch = None\<rparr>) (Some obj) = Panic p) \<and>
   DetermineHealthCondition jp sv cd
      (Some \<lparr>hr_AlwaysHealthy = None, hr_SingleConditionType = '''', hr_MultiMatch = None\<rparr>) rr (Some obj) =
     Ret UnknownResourcesHealthyCondition"
  by (simp add: DetermineStampedObjectHealth_def DetermineHealthCondition_def)

end
