(* ===== verification/Template_Reader.thy ===== *)
theory Template_Reader
  imports Stamp_Reader Health
begin

text \<open>
  \<^verbatim>\<open>pkg/templates\<close>: the readers of the five kinds of template and the model of a run template.  A \<open>Reader\<close> is one
  of the five templates; the locale \<open>template_reader\<close> states what the interface promises, and each of the five Go types keeps it.
\<close>

section \<open>Lifecycles\<close>

datatype Lifecycle = Mutable | Immutable | Tekton

definition IsImmutable :: "Lifecycle \<Rightarrow> bool" where
  "IsImmutable l \<longleftrightarrow> l = Immutable \<or> l = Tekton"

definition convertLifecycle :: "string \<Rightarrow> Lifecycle" where
  "convertLifecycle lifecycleString =
     (if lifecycleString = ''immutable'' then Immutable
      else if lifecycleString = ''tekton'' then Tekton
      else Mutable)"

section \<open>Readers\<close>

type_synonym Reader = api_template

definition NewReaderFromAPI :: "api_template option \<Rightarrow> Reader go" where
  "NewReaderFromAPI template =
     (case template of
        Some t \<Rightarrow> Ret t
      | None \<Rightarrow> Err (ErrorString ''resource does not match a known template''))"

text \<open>
  The methods of the five types, on the spec of the template.  Each Go file has its own copy of them.
\<close>

paragraph \<open>ClusterSourceTemplate\<close>

definition source_GetLifecycle :: "SourceTemplateSpec \<Rightarrow> Lifecycle" where
  "source_GetLifecycle s = convertLifecycle (ts_Lifecycle (src_TemplateSpec s))"

definition source_GetRetentionPolicy :: "SourceTemplateSpec \<Rightarrow> RetentionPolicy" where
  "source_GetRetentionPolicy s =
     (case ts_RetentionPolicy (src_TemplateSpec s) of
        None \<Rightarrow> \<lparr>rp_MaxFailedRuns = 10, rp_MaxSuccessfulRuns = 10\<rparr>
      | Some policy \<Rightarrow> policy)"

definition source_GetResourceTemplate :: "SourceTemplateSpec \<Rightarrow> TemplateSpec" where
  "source_GetResourceTemplate s = src_TemplateSpec s"

definition source_GetDefaultParams :: "SourceTemplateSpec \<Rightarrow> TemplateParam list" where
  "source_GetDefaultParams s = ts_Params (src_TemplateSpec s)"

definition source_GetHealthRule :: "SourceTemplateSpec \<Rightarrow> HealthRule option" where
  "source_GetHealthRule s =
     (if ts_HealthRule (src_TemplateSpec s) = None \<and> ts_Lifecycle (src_TemplateSpec s) = ''tekton'' then
        Some \<lparr>hr_AlwaysHealthy = None, hr_SingleConditionType = ''Succeeded'', hr_MultiMatch = None\<rparr>
      else ts_HealthRule (src_TemplateSpec s))"

definition source_IsYTTTemplate :: "SourceTemplateSpec \<Rightarrow> bool" where
  "source_IsYTTTemplate s \<longleftrightarrow> ts_Ytt (src_TemplateSpec s) \<noteq> ''''"

paragraph \<open>ClusterImageTemplate\<close>

definition image_GetLifecycle :: "ImageTemplateSpec \<Rightarrow> Lifecycle" where
  "image_GetLifecycle s = convertLifecycle (ts_Lifecycle (img_TemplateSpec s))"

definition image_GetRetentionPolicy :: "ImageTemplateSpec \<Rightarrow> RetentionPolicy" where
  "image_GetRetentionPolicy s =
     (case ts_RetentionPolicy (img_TemplateSpec s) of
        None \<Rightarrow> \<lparr>rp_MaxFailedRuns = 10, rp_MaxSuccessfulRuns = 10\<rparr>
      | Some policy \<Rightarrow> policy)"

definition image_GetResourceTemplate :: "ImageTemplateSpec \<Rightarrow> TemplateSpec" where
  "image_GetResourceTemplate s = img_TemplateSpec s"

definition image_GetDefaultParams :: "ImageTemplateSpec \<Rightarrow> TemplateParam list" where
  "image_GetDefaultParams s = ts_Params (img_TemplateSpec s)"

definition image_GetHealthRule :: "ImageTemplateSpec \<Rightarrow> HealthRule option" where
  "image_GetHealthRule s =
     (if ts_HealthRule (img_TemplateSpec s) = None \<and> ts_Lifecycle (img_TemplateSpec s) = ''tekton'' then
        Some \<lparr>hr_AlwaysHealthy = None, hr_SingleConditionType = ''Succeeded'', hr_MultiMatch = None\<rparr>
      else ts_HealthRule (img_TemplateSpec s))"

definition image_IsYTTTemplate :: "ImageTemplateSpec \<Rightarrow> bool" where
  "image_IsYTTTemplate s \<longleftrightarrow> ts_Ytt (img_TemplateSpec s) \<noteq> ''''"

paragraph \<open>ClusterConfigTemplate\<close>

definition config_GetLifecycle :: "ConfigTemplateSpec \<Rightarrow> Lifecycle" where
  "config_GetLifecycle s = convertLifecycle (ts_Lifecycle (cfg_TemplateSpec s))"

definition config_GetRetentionPolicy :: "ConfigTemplateSpec \<Rightarrow> RetentionPolicy" where
  "config_GetRetentionPolicy s =
     (case ts_RetentionPolicy (cfg_TemplateSpec s) of
        None \<Rightarrow> \<lparr>rp_MaxFailedRuns = 10, rp_MaxSuccessfulRuns = 10\<rparr>
      | Some policy \<Rightarrow> policy)"

definition config_GetResourceTemplate :: "ConfigTemplateSpec \<Rightarrow> TemplateSpec" where
  "config_GetResourceTemplate s = cfg_TemplateSpec s"

definition config_GetDefaultParams :: "ConfigTemplateSpec \<Rightarrow> TemplateParam list" where
  "config_GetDefaultParams s = ts_Params (cfg_TemplateSpec s)"

definition config_GetHealthRule :: "ConfigTemplateSpec \<Rightarrow> HealthRule option" where
  "config_GetHealthRule s =
     (if ts_HealthRule (cfg_TemplateSpec s) = None \<and> ts_Lifecycle (cfg_TemplateSpec s) = ''tekton'' then
        Some \<lparr>hr_AlwaysHealthy = None, hr_SingleConditionType = ''Succeeded'', hr_MultiMatch = None\<rparr>
      else ts_HealthRule (cfg_TemplateSpec s))"

definition config_IsYTTTemplate :: "ConfigTemplateSpec \<Rightarrow> bool" where
  "config_IsYTTTemplate s \<longleftrightarrow> ts_Ytt (cfg_TemplateSpec s) \<noteq> ''''"

paragraph \<open>ClusterDeploymentTemplate\<close>

definition deployment_GetLifecycle :: "DeploymentSpec \<Rightarrow> Lifecycle" where
  "deployment_GetLifecycle s = convertLifecycle (ts_Lifecycle (dep_TemplateSpec s))"

definition deployment_GetRetentionPolicy :: "DeploymentSpec \<Rightarrow> RetentionPolicy" where
  "deployment_GetRetentionPolicy s =
     (case ts_RetentionPolicy (dep_TemplateSpec s) of
        None \<Rightarrow> \<lparr>rp_MaxFailedRuns = 10, rp_MaxSuccessfulRuns = 10\<rparr>
      | Some policy \<Rightarrow> policy)"

definition deployment_GetResourceTemplate :: "DeploymentSpec \<Rightarrow> TemplateSpec" where
  "deployment_GetResourceTemplate s = dep_TemplateSpec s"

definition deployment_GetDefaultParams :: "DeploymentSpec \<Rightarrow> TemplateParam list" where
  "deployment_GetDefaultParams s = ts_Params (dep_TemplateSpec s)"

definition deployment_GetHealthRule :: "DeploymentSpec \<Rightarrow> HealthRule option" where
  "deployment_GetHealthRule s =
     (if ts_HealthRule (dep_TemplateSpec s) = None \<and> ts_Lifecycle (dep_TemplateSpec s) = ''tekton'' then
        Some \<lparr>hr_AlwaysHealthy = None, hr_SingleConditionType = ''Succeeded'', hr_MultiMatch = None\<rparr>
      else ts_HealthRule (dep_TemplateSpec s))"

definition deployment_IsYTTTemplate :: "DeploymentSpec \<Rightarrow> bool" where
  "deployment_IsYTTTemplate s \<longleftrightarrow> ts_Ytt (dep_TemplateSpec s) \<noteq> ''''"

paragraph \<open>ClusterTemplate\<close>

definition plain_GetLifecycle :: "TemplateSpec \<Rightarrow> Lifecycle" where
  "plain_GetLifecycle s = convertLifecycle (ts_Lifecycle s)"

definition plain_GetRetentionPolicy :: "TemplateSpec \<Rightarrow> RetentionPolicy" where
  "plain_GetRetentionPolicy s =
     (case ts_RetentionPolicy s of
        None \<Rightarrow> \<lparr>rp_MaxFailedRuns = 10, rp_MaxSuccessfulRuns = 10\<rparr>
      | Some policy \<Rightarrow> policy)"

definition plain_GetResourceTemplate :: "TemplateSpec \<Rightarrow> TemplateSpec" where
  "plain_GetResourceTemplate s = s"

definition plain_GetDefaultParams :: "TemplateSpec \<Rightarrow> TemplateParam list" where
  "plain_GetDefaultParams s = ts_Params s"

definition plain_GetHealthRule :: "TemplateSpec \<Rightarrow> HealthRule option" where
  "plain_GetHealthRule s =
     (if ts_HealthRule s = None \<and> ts_Lifecycle s = ''tekton'' then
        Some \<lparr>hr_AlwaysHealthy = None, hr_SingleConditionType = ''Succeeded'', hr_MultiMatch = None\<rparr>
      else ts_HealthRule s)"

definition plain_IsYTTTemplate :: "TemplateSpec \<Rightarrow> bool" where
  "plain_IsYTTTemplate s \<longleftrightarrow> ts_Ytt s \<noteq> ''''"

paragraph \<open>The interface\<close>

text \<open>A call through the interface \<^verbatim>\<open>Reader\<close> runs the method of the type behind it.\<close>

fun GetLifecycle :: "Reader \<Rightarrow> Lifecycle" where
  "GetLifecycle (ClusterSourceTemplate n s) = source_GetLifecycle s"
| "GetLifecycle (ClusterImageTemplate n s) = image_GetLifecycle s"
| "GetLifecycle (ClusterConfigTemplate n s) = config_GetLifecycle s"
| "GetLifecycle (ClusterDeploymentTemplate n s) = deployment_GetLifecycle s"
| "GetLifecycle (ClusterTemplate n s) = plain_GetLifecycle s"

fun GetRetentionPolicy :: "Reader \<Rightarrow> RetentionPolicy" where
  "GetRetentionPolicy (ClusterSourceTemplate n s) = source_GetRetentionPolicy s"
| "GetRetentionPolicy (ClusterImageTemplate n s) = image_GetRetentionPolicy s"
| "GetRetentionPolicy (ClusterConfigTemplate n s) = config_GetRetentionPolicy s"
| "GetRetentionPolicy (ClusterDeploymentTemplate n s) = deployment_GetRetentionPolicy s"
| "GetRetentionPolicy (ClusterTemplate n s) = plain_GetRetentionPolicy s"

fun GetResourceTemplate :: "Reader \<Rightarrow> TemplateSpec" where
  "GetResourceTemplate (ClusterSourceTemplate n s) = source_GetResourceTemplate s"
| "GetResourceTemplate (ClusterImageTemplate n s) = image_GetResourceTemplate s"
| "GetResourceTemplate (ClusterConfigTemplate n s) = config_GetResourceTemplate s"
| "GetResourceTemplate (ClusterDeploymentTemplate n s) = deployment_GetResourceTemplate s"
| "GetResourceTemplate (ClusterTemplate n s) = plain_GetResourceTemplate s"

fun GetDefaultParams :: "Reader \<Rightarrow> TemplateParam list" where
  "GetDefaultParams (ClusterSourceTemplate n s) = source_GetDefaultParams s"
| "GetDefaultParams (ClusterImageTemplate n s) = image_GetDefaultParams s"
| "GetDefaultParams (ClusterConfigTemplate n s) = config_GetDefaultParams s"
| "GetDefaultParams (ClusterDeploymentTemplate n s) = deployment_GetDefaultParams s"
| "GetDefaultParams (ClusterTemplate n s) = plain_GetDefaultParams s"

fun GetHealthRule :: "Reader \<Rightarrow> HealthRule option" where
  "GetHealthRule (ClusterSourceTemplate n s) = source_GetHealthRule s"
| "GetHealthRule (ClusterImageTemplate n s) = image_GetHealthRule s"
| "GetHealthRule (ClusterConfigTemplate n s) = config_GetHealthRule s"
| "GetHealthRule (ClusterDeploymentTemplate n s) = deployment_GetHealthRule s"
| "GetHealthRule (ClusterTemplate n s) = plain_GetHealthRule s"

fun IsYTTTemplate :: "Reader \<Rightarrow> bool" where
  "IsYTTTemplate (ClusterSourceTemplate n s) \<longleftrightarrow> source_IsYTTTemplate s"
| "IsYTTTemplate (ClusterImageTemplate n s) \<longleftrightarrow> image_IsYTTTemplate s"
| "IsYTTTemplate (ClusterConfigTemplate n s) \<longleftrightarrow> config_IsYTTTemplate s"
| "IsYTTTemplate (ClusterDeploymentTemplate n s) \<longleftrightarrow> deployment_IsYTTTemplate s"
| "IsYTTTemplate (ClusterTemplate n s) \<longleftrightarrow> plain_IsYTTTemplate s"

text \<open>
  What the callers of a \<^verbatim>\<open>Reader\<close> rely on: every method is read off the \<^verbatim>\<open>TemplateSpec\<close>, with ten runs of each kind as the default policy
  and the condition \<open>Succeeded\<close> as the health of a Tekton object without a rule of its own.
\<close>

locale template_reader =
  fixes spec :: "'t \<Rightarrow> TemplateSpec" and lifecycle :: "'t \<Rightarrow> Lifecycle" and policy :: "'t \<Rightarrow> RetentionPolicy"
    and params :: "'t \<Rightarrow> TemplateParam list" and rule :: "'t \<Rightarrow> HealthRule option" and ytt :: "'t \<Rightarrow> bool"
  assumes lifecycle_spec: "lifecycle t = convertLifecycle (ts_Lifecycle (spec t))"
    and policy_spec: "policy t =
      (case ts_RetentionPolicy (spec t) of None \<Rightarrow> \<lparr>rp_MaxFailedRuns = 10, rp_MaxSuccessfulRuns = 10\<rparr> | Some p \<Rightarrow> p)"
    and params_spec: "params t = ts_Params (spec t)"
    and rule_spec: "rule t =
      (if ts_HealthRule (spec t) = None \<and> ts_Lifecycle (spec t) = ''tekton''
       then Some \<lparr>hr_AlwaysHealthy = None, hr_SingleConditionType = ''Succeeded'', hr_MultiMatch = None\<rparr> else ts_HealthRule (spec t))"
    and ytt_spec: "ytt t \<longleftrightarrow> ts_Ytt (spec t) \<noteq> ''''"
begin

text \<open>An admitted template has an admitted health rule: the rule made up for Tekton is one, too.\<close>

lemma rule_of_accepted:
  assumes "TemplateSpec_validate jc (spec t) = None" "rule t = Some r"
  shows "HealthRule_validate r = None"
proof -
  have "HealthRule_validate \<lparr>hr_AlwaysHealthy = None, hr_SingleConditionType = ''Succeeded'', hr_MultiMatch = None\<rparr> = None"
    by (simp add: HealthRule_validate_def checks_None_iff Let_def del: checks_Cons)
  then show ?thesis
    using assms
    by (auto simp: rule_spec TemplateSpec_validate_def checks_None_iff simp del: checks_Cons
        split: if_splits option.splits)
qed

text \<open>The objects of a Tekton template are immutable and always have a health rule.\<close>

lemma tekton_rule:
  "lifecycle t = Tekton \<Longrightarrow> IsImmutable (lifecycle t) \<and> rule t \<noteq> None"
  by (auto simp: lifecycle_spec rule_spec convertLifecycle_def IsImmutable_def split: if_splits)

end

interpretation source: template_reader source_GetResourceTemplate source_GetLifecycle source_GetRetentionPolicy
  source_GetDefaultParams source_GetHealthRule source_IsYTTTemplate
  by unfold_locales
    (simp_all add: source_GetResourceTemplate_def source_GetLifecycle_def source_GetRetentionPolicy_def
      source_GetDefaultParams_def source_GetHealthRule_def source_IsYTTTemplate_def)

interpretation image: template_reader image_GetResourceTemplate image_GetLifecycle image_GetRetentionPolicy
  image_GetDefaultParams image_GetHealthRule image_IsYTTTemplate
  by unfold_locales
    (simp_all add: image_GetResourceTemplate_def image_GetLifecycle_def image_GetRetentionPolicy_def
      image_GetDefaultParams_def image_GetHealthRule_def image_IsYTTTemplate_def)

interpretation config: template_reader config_GetResourceTemplate config_GetLifecycle config_GetRetentionPolicy
  config_GetDefaultParams config_GetHealthRule config_IsYTTTemplate
  by unfold_locales
    (simp_all add: config_GetResourceTemplate_def config_GetLifecycle_def config_GetRetentionPolicy_def
      config_GetDefaultParams_def config_GetHealthRule_def config_IsYTTTemplate_def)

interpretation deployment: template_reader deployment_GetResourceTemplate deployment_GetLifecycle deployment_GetRetentionPolicy
  deployment_GetDefaultParams deployment_GetHealthRule deployment_IsYTTTemplate
  by unfold_locales
    (simp_all add: deployment_GetResourceTemplate_def deployment_GetLifecycle_def deployment_GetRetentionPolicy_def
      deployment_GetDefaultParams_def deployment_GetHealthRule_def deployment_IsYTTTemplate_def)

interpretation plain: template_reader plain_GetResourceTemplate plain_GetLifecycle plain_GetRetentionPolicy
  plain_GetDefaultParams plain_GetHealthRule plain_IsYTTTemplate
  by unfold_locales
    (simp_all add: plain_GetResourceTemplate_def plain_GetLifecycle_def plain_GetRetentionPolicy_def
      plain_GetDefaultParams_def plain_GetHealthRule_def plain_IsYTTTemplate_def)

lemmas template_specs [simp] = source_GetResourceTemplate_def image_GetResourceTemplate_def config_GetResourceTemplate_def
  deployment_GetResourceTemplate_def plain_GetResourceTemplate_def

text \<open>So the interface keeps the contract whatever type is behind it.\<close>

interpretation reader: template_reader GetResourceTemplate GetLifecycle GetRetentionPolicy GetDefaultParams GetHealthRule IsYTTTemplate
proof unfold_locales
  fix t :: Reader
  show "GetLifecycle t = convertLifecycle (ts_Lifecycle (GetResourceTemplate t))"
    by (cases t) (simp_all add: source.lifecycle_spec image.lifecycle_spec config.lifecycle_spec deployment.lifecycle_spec plain.lifecycle_spec)
  show "GetRetentionPolicy t =
      (case ts_RetentionPolicy (GetResourceTemplate t) of None \<Rightarrow> \<lparr>rp_MaxFailedRuns = 10, rp_MaxSuccessfulRuns = 10\<rparr> | Some p \<Rightarrow> p)"
    by (cases t) (simp_all add: source.policy_spec image.policy_spec config.policy_spec deployment.policy_spec plain.policy_spec)
  show "GetDefaultParams t = ts_Params (GetResourceTemplate t)"
    by (cases t) (simp_all add: source.params_spec image.params_spec config.params_spec deployment.params_spec plain.params_spec)
  show "GetHealthRule t =
      (if ts_HealthRule (GetResourceTemplate t) = None \<and> ts_Lifecycle (GetResourceTemplate t) = ''tekton''
       then Some \<lparr>hr_AlwaysHealthy = None, hr_SingleConditionType = ''Succeeded'', hr_MultiMatch = None\<rparr>
       else ts_HealthRule (GetResourceTemplate t))"
    by (cases t) (simp_all add: source.rule_spec image.rule_spec config.rule_spec deployment.rule_spec plain.rule_spec)
  show "IsYTTTemplate t \<longleftrightarrow> ts_Ytt (GetResourceTemplate t) \<noteq> ''''"
    by (cases t) (simp_all add: source.ytt_spec image.ytt_spec config.ytt_spec deployment.ytt_spec plain.ytt_spec)
qed

section \<open>Run templates\<close>

text \<open>
  \<^verbatim>\<open>getLatestSuccessfulObject\<close> is the loop of \<^verbatim>\<open>stamp\<close> with another test for success.  \<open>jm\<close> is
  \<^verbatim>\<open>json.Marshal\<close>.  The loop over the outputs runs in the order of Go's map iteration, which is any order of the
  keys: the argument \<open>keys\<close>.
\<close>

definition SuccessStatusPath :: string where
  "SuccessStatusPath = ''status.conditions[?(@.type==\"Succeeded\")].status''"

fun latest_run_loop :: "jsonpath_lib \<Rightarrow> time \<Rightarrow> unstructured option \<Rightarrow> unstructured list \<Rightarrow> unstructured option go" where
  "latest_run_loop jp latestTime latestMatchingObject [] = Ret latestMatchingObject"
| "latest_run_loop jp latestTime latestMatchingObject (stampedObject # objs) =
     (case EvaluateJsonPath jp SuccessStatusPath (u_Content stampedObject) of
        Panic p \<Rightarrow> Panic p
      | Err err \<Rightarrow> latest_run_loop jp latestTime latestMatchingObject objs
      | Ret status \<Rightarrow>
          (if status \<noteq> JStr ''True'' then latest_run_loop jp latestTime latestMatchingObject objs
           else
             (let currentTime = u_CreationTimestamp stampedObject
              in if time_After currentTime latestTime then latest_run_loop jp currentTime (Some stampedObject) objs
                 else latest_run_loop jp latestTime latestMatchingObject objs)))"

definition getLatestSuccessfulObject :: "jsonpath_lib \<Rightarrow> unstructured list \<Rightarrow> unstructured option go" where
  "getLatestSuccessfulObject jp stampedObjects = latest_run_loop jp zero_time None stampedObjects"

fun run_outputs_loop ::
  "jsonpath_lib \<Rightarrow> (json \<Rightarrow> gerror + raw) \<Rightarrow> (string, string) fmap \<Rightarrow> unstructured \<Rightarrow> string list \<Rightarrow>
   gerror option \<times> (string, raw) fmap \<Rightarrow> (gerror option \<times> (string, raw) fmap) go" where
  "run_outputs_loop jp jm paths obj [] st = Ret st"
| "run_outputs_loop jp jm paths obj (key # keys) (objectErr, provisionalOutputs) =
     (let path = the (fmlookup paths key)
      in case EvaluateJsonPath jp path (u_Content obj) of
           Panic p \<Rightarrow> Panic p
         | Err err \<Rightarrow>
             run_outputs_loop jp jm paths obj keys
               (Some (WrapError (''failed to evaluate path ['' @ path @ '']: '') err), provisionalOutputs)
         | Ret output \<Rightarrow>
             (case jm output of
                Inl err \<Rightarrow>
                  run_outputs_loop jp jm paths obj keys
                    (Some (WrapError (''failed to marshal output for key ['' @ key @ '']: '') err), provisionalOutputs)
              | Inr result \<Rightarrow>
                  run_outputs_loop jp jm paths obj keys (objectErr, fmupd key result provisionalOutputs)))"

definition getOutputsOfSingleObject ::
  "jsonpath_lib \<Rightarrow> (json \<Rightarrow> gerror + raw) \<Rightarrow> string list \<Rightarrow> ClusterRunTemplate \<Rightarrow> unstructured \<Rightarrow>
   (gerror option \<times> (string, raw) fmap) go" where
  "getOutputsOfSingleObject jp jm keys template obj =
     run_outputs_loop jp jm (crt_Outputs template) obj keys (None, fmempty)"

definition GetLatestSuccessfulOutput ::
  "jsonpath_lib \<Rightarrow> (json \<Rightarrow> gerror + raw) \<Rightarrow> string list \<Rightarrow> ClusterRunTemplate \<Rightarrow> unstructured list \<Rightarrow>
   ((string, raw) fmap \<times> unstructured option \<times> gerror option) go" where
  "GetLatestSuccessfulOutput jp jm keys template stampedObjects =
     go_bind (getLatestSuccessfulObject jp stampedObjects) (\<lambda>latest.
       (case latest of
          None \<Rightarrow> Ret (fmempty, None, None)
        | Some latestMatchingObject \<Rightarrow>
            go_bind (getOutputsOfSingleObject jp jm keys template latestMatchingObject)
              (\<lambda>(outputError, outputs). Ret (outputs, Some latestMatchingObject, outputError))))"

definition run_GetResourceTemplate :: "ClusterRunTemplate \<Rightarrow> TemplateSpec" where
  "run_GetResourceTemplate template =
     \<lparr>ts_Template = Some (crt_Template template), ts_Ytt = '''', ts_Params = [], ts_HealthRule = None,
      ts_Lifecycle = '''', ts_RetentionPolicy = None\<rparr>"

text \<open>The loop is the one over examined objects, with this examination.\<close>

definition run_examined :: "jsonpath_lib \<Rightarrow> unstructured \<Rightarrow> ExaminedObject" where
  "run_examined jp obj =
     \<lparr>eo_StampedObject = obj,
      eo_Health = (if EvaluateJsonPath jp SuccessStatusPath (u_Content obj) = Ret (JStr ''True'') then ConditionTrue
                   else ConditionUnknown)\<rparr>"

lemma latest_run_loop_examined:
  assumes "\<And>obj m. obj \<in> set objs \<Longrightarrow> EvaluateJsonPath jp SuccessStatusPath (u_Content obj) \<noteq> Panic m"
  shows "latest_run_loop jp t o' objs = Ret (latest_loop t o' (map (run_examined jp) objs))"
  using assms
proof (induction objs arbitrary: t o')
  case (Cons obj objs)
  then show ?case
    by (cases "EvaluateJsonPath jp SuccessStatusPath (u_Content obj)") (auto simp: run_examined_def Let_def)
qed simp

lemma getLatestSuccessfulObject_examined:
  assumes "\<And>e v. hasPrefix e ''{.'' \<Longrightarrow> jp_Parse jp e = None \<Longrightarrow> jp_FindResults jp e v \<noteq> Inr []"
  shows "getLatestSuccessfulObject jp objs = Ret (GetLatestSuccessfulObjFromExaminedObject (map (run_examined jp) objs))"
  unfolding getLatestSuccessfulObject_def GetLatestSuccessfulObjFromExaminedObject_def
  using EvaluateJsonPath_no_panic [OF assms] by (intro latest_run_loop_examined) auto

end
