(* ===== verification/Stamper.thy ===== *)
theory Stamper
  imports Template_Reader
begin

text \<open>
  \<^verbatim>\<open>pkg/templates/stamper.go\<close> and \<^verbatim>\<open>interpolator.go\<close>: filling a template with values of the templating context.

  Library code is the record \<open>stamp_env\<close>: the JSONPath engine, the scanner of \<^verbatim>\<open>fasttemplate\<close> (which calls back with every
  tag and writes the rest through), \<^verbatim>\<open>json.Marshal\<close> and \<^verbatim>\<open>json.Unmarshal\<close>, the \<^verbatim>\<open>ytt\<close> process, the YAML decoder and the
  setters of \<^verbatim>\<open>unstructured.Unstructured\<close>.  A templating context is its JSON view.  Go iterates over the keys
  of a map in an order of its own, the field \<open>se_keys\<close>.  The numbers that \<^verbatim>\<open>json.Unmarshal\<close> decodes from a template are floats (\<^const>\<open>JNum\<close>); they
  and all other leaves that are not strings pass through the stamper unchanged.
\<close>

section \<open>The environment\<close>

record OwnerReference =
  oref_APIVersion :: string
  oref_Kind :: string
  oref_UID :: string
  oref_Name :: string
  oref_BlockOwnerDeletion :: bool
  oref_Controller :: bool

record stamp_env =
  se_jp :: jsonpath_lib
  se_Execute :: "string \<Rightarrow> string \<Rightarrow> string \<Rightarrow> (string \<Rightarrow> string go) \<Rightarrow> string go"
  se_Marshal :: "json \<Rightarrow> gerror + string"
  se_Unmarshal :: "string \<Rightarrow> gerror + json"
  se_Show :: "json \<Rightarrow> string"
  se_keys :: "(string, json) fmap \<Rightarrow> string list"
  se_RunYtt :: "string \<Rightarrow> string list \<Rightarrow> gerror option \<times> string \<times> string"
  se_YamlObject :: "string \<Rightarrow> gerror + unstructured"
  se_Object :: "(string, json) fmap \<Rightarrow> unstructured"
  se_SetNamespace :: "string \<Rightarrow> unstructured \<Rightarrow> unstructured"
  se_SetOwnerReferences :: "OwnerReference list \<Rightarrow> unstructured \<Rightarrow> unstructured"
  se_SetLabels :: "labels \<Rightarrow> unstructured \<Rightarrow> unstructured"

text \<open>What a \<^verbatim>\<open>client.Object\<close> that owns stamped objects returns from its accessors, and its JSON view.\<close>

record Owner =
  ow_APIVersion :: string
  ow_Kind :: string
  ow_UID :: string
  ow_Name :: string
  ow_Namespace :: string
  ow_Labels :: labels
  ow_Object :: json

section \<open>Positions in a template\<close>

datatype path_component = PathString string | PathInt nat

type_synonym pathStack = "path_component list"

definition pushString :: "pathStack \<Rightarrow> string \<Rightarrow> pathStack" where
  "pushString s str = s @ [PathString str]"

definition pushInt :: "pathStack \<Rightarrow> nat \<Rightarrow> pathStack" where
  "pushInt s i = s @ [PathInt i]"

fun path_string_loop :: "bool \<Rightarrow> pathStack \<Rightarrow> string" where
  "path_string_loop skipDot [] = ''''"
| "path_string_loop skipDot (component # s) =
     (if skipDot then '''' else ''.'') @
     (case component of
        PathInt v \<Rightarrow> ''['' @ show_nat v @ '']'' @ path_string_loop True s
      | PathString v \<Rightarrow> v @ path_string_loop False s)"

definition path_string :: "pathStack \<Rightarrow> string" where
  "path_string s = path_string_loop True s"

section \<open>Interpolation\<close>

definition TrimPrefix :: "string \<Rightarrow> string \<Rightarrow> string" where
  "TrimPrefix s p = (if hasPrefix s p then drop (length p) s else s)"

definition TrimSuffix :: "string \<Rightarrow> string \<Rightarrow> string" where
  "TrimSuffix s p = (if hasSuffix s p then take (length s - length p) s else s)"

text \<open>\<^verbatim>\<open>strings.Count(s, "$(")\<close>.\<close>

fun count_open :: "string \<Rightarrow> nat" where
  "count_open [] = 0"
| "count_open [c] = 0"
| "count_open (c # d # s) = (if c = CHR ''$'' \<and> d = CHR ''('' then Suc (count_open s) else count_open (d # s))"

definition isSingleTag :: "string \<Rightarrow> bool" where
  "isSingleTag template \<longleftrightarrow>
     hasPrefix template ''$('' \<and> hasSuffix template '')$'' \<and> count_open template = 1"

text \<open>\<^verbatim>\<open>Evaluate\<close> and \<^verbatim>\<open>InterpolateTag\<close> of the standard interpolator; the latter is what it writes (the writer of the scanner, a
  buffer, never fails).\<close>

definition EvaluateTag :: "stamp_env \<Rightarrow> json \<Rightarrow> string \<Rightarrow> json go" where
  "EvaluateTag env ctx tag = EvaluateJsonPath (se_jp env) tag ctx"

definition InterpolateTag :: "stamp_env \<Rightarrow> json \<Rightarrow> string \<Rightarrow> string go" where
  "InterpolateTag env ctx tag =
     (case EvaluateJsonPath (se_jp env) tag ctx of
        Panic p \<Rightarrow> Panic p
      | Err err \<Rightarrow> Err (WrapError ''evaluate jsonpath: '' err)
      | Ret JNull \<Rightarrow> Err (ErrorString (''tag must not point to nil value: '' @ tag))
      | Ret (JStr v) \<Rightarrow> Ret v
      | Ret val \<Rightarrow>
          (case se_Marshal env val of
             Inl err \<Rightarrow> Err (WrapError ''json marshal: '' err)
           | Inr jsonValue \<Rightarrow> Ret jsonValue))"

definition InterpolateLeafNode :: "stamp_env \<Rightarrow> json \<Rightarrow> string \<Rightarrow> json go" where
  "InterpolateLeafNode env ctx input =
     (if isSingleTag input then
        (let jsonPathExpr = TrimPrefix (TrimSuffix input '')$'') ''$(''
         in case EvaluateTag env ctx jsonPathExpr of
              Panic p \<Rightarrow> Panic p
            | Err err \<Rightarrow> Err (WrapError (''evaluate tag '' @ input @ '': '') err)
            | Ret result \<Rightarrow> Ret result)
      else
        (case se_Execute env input ''$('' '')$'' (InterpolateTag env ctx) of
           Panic p \<Rightarrow> Panic p
         | Err err \<Rightarrow> Err (WrapError ''interpolate tag: '' err)
         | Ret stringResult \<Rightarrow> Ret (JStr stringResult)))"

section \<open>Stamping\<close>

record Stamper =
  st_TemplatingContext :: json
  st_Owner :: Owner
  st_Labels :: labels

definition StamperBuilder :: "Owner \<Rightarrow> json \<Rightarrow> labels \<Rightarrow> Stamper" where
  "StamperBuilder owner templatingContext ls =
     \<lparr>st_TemplatingContext = templatingContext, st_Owner = owner, st_Labels = ls\<rparr>"

text \<open>The loops over the entries of a map and over the elements of a slice, given the evaluation of each entry.\<close>

fun stamp_entries :: "(string, pathStack \<Rightarrow> json go) fmap \<Rightarrow> pathStack \<Rightarrow> string list \<Rightarrow> (string, json) fmap \<Rightarrow> json go" where
  "stamp_entries fs path [] stampedMap = Ret (JObj stampedMap)"
| "stamp_entries fs path (key # keys) stampedMap =
     (case fmlookup fs key of
        None \<Rightarrow> stamp_entries fs path keys stampedMap
      | Some f \<Rightarrow>
          go_bind (f (pushString path key)) (\<lambda>stampedValue. stamp_entries fs path keys (fmupd key stampedValue stampedMap)))"

fun stamp_elements :: "(pathStack \<Rightarrow> json go) list \<Rightarrow> pathStack \<Rightarrow> nat \<Rightarrow> json list \<Rightarrow> json go" where
  "stamp_elements [] path index stampedSlice = Ret (JArr stampedSlice)"
| "stamp_elements (f # fs) path index stampedSlice =
     go_bind (f (pushInt path index)) (\<lambda>stampedElement. stamp_elements fs path (Suc index) (stampedSlice @ [stampedElement]))"

primrec recursivelyEvaluateTemplates :: "stamp_env \<Rightarrow> json \<Rightarrow> json \<Rightarrow> pathStack \<Rightarrow> json go" where
  "recursivelyEvaluateTemplates env ctx JNull = (\<lambda>path. Ret JNull)"
| "recursivelyEvaluateTemplates env ctx (JBool b) = (\<lambda>path. Ret (JBool b))"
| "recursivelyEvaluateTemplates env ctx (JInt i) = (\<lambda>path. Ret (JInt i))"
| "recursivelyEvaluateTemplates env ctx (JNum n) = (\<lambda>path. Ret (JNum n))"
| "recursivelyEvaluateTemplates env ctx (JStr s) = (\<lambda>path.
     (case InterpolateLeafNode env ctx s of
        Panic p \<Rightarrow> Panic p
      | Err err \<Rightarrow> Err (WrapError (''failed to interpolate template at path ['' @ path_string path @ '']: '') err)
      | Ret stampedLeafNode \<Rightarrow> Ret stampedLeafNode))"
| "recursivelyEvaluateTemplates env ctx (JArr xs) = (\<lambda>path.
     stamp_elements (map (recursivelyEvaluateTemplates env ctx) xs) path 0 [])"
| "recursivelyEvaluateTemplates env ctx (JObj m) = (\<lambda>path.
     stamp_entries (fmmap (recursivelyEvaluateTemplates env ctx) m) path (se_keys env m) fmempty)"

definition applyTemplate :: "stamp_env \<Rightarrow> Stamper \<Rightarrow> raw \<Rightarrow> unstructured go" where
  "applyTemplate env s resourceTemplateJSON =
     (case se_Unmarshal env resourceTemplateJSON of
        Inl err \<Rightarrow> Err (WrapError ''failed to unmarshal json resource template: '' err)
      | Inr resourceTemplate \<Rightarrow>
          (case recursivelyEvaluateTemplates env (st_TemplatingContext s) resourceTemplate [] of
             Panic p \<Rightarrow> Panic p
           | Err err \<Rightarrow> Err (WrapError ''failed to recursively evaluate template: '' err)
           | Ret stampedObjectJSON \<Rightarrow>
               (case stampedObjectJSON of
                  JObj unstructuredContent \<Rightarrow> Ret (se_Object env unstructuredContent)
                | _ \<Rightarrow> Err (ErrorString (''stamped resource is not a map[string]interface{}, stamped resource: ''
                    @ se_Show env stampedObjectJSON)))))"

text \<open>The arguments of \<^verbatim>\<open>ytt\<close>: one value per key of the context.  Errors of decoding the context again are ignored.\<close>

definition ytt_args :: "stamp_env \<Rightarrow> string \<Rightarrow> string list" where
  "ytt_args env b =
     (let templateContext = (case se_Unmarshal env b of Inr (JObj m) \<Rightarrow> m | _ \<Rightarrow> fmempty)
      in [''-f'', ''-''] @ concat (map (\<lambda>k.
           [''--data-value-yaml'',
            k @ ''='' @ (case fmlookup templateContext k of
                           None \<Rightarrow> ''''
                         | Some v \<Rightarrow> (case se_Marshal env v of Inl _ \<Rightarrow> '''' | Inr raw \<Rightarrow> raw))])
         (se_keys env templateContext)))"

definition applyYtt :: "stamp_env \<Rightarrow> Stamper \<Rightarrow> string \<Rightarrow> unstructured go" where
  "applyYtt env s template =
     (case se_Marshal env (st_TemplatingContext s) of
        Inl err \<Rightarrow> Err (WrapError ''unable to marshal template context: '' err)
      | Inr b \<Rightarrow>
          (case se_RunYtt env template (ytt_args env b) of
             (Some err, stdout, stderr) \<Rightarrow>
               (if stderr = '''' then Err (WrapError ''unable to apply ytt template: '' err)
                else Err (ErrorString (''unable to apply ytt template: '' @ stderr)))
           | (None, stdout, stderr) \<Rightarrow>
               (case se_YamlObject env stdout of Inl err \<Rightarrow> Err err | Inr stampedObject \<Rightarrow> Ret stampedObject)))"

definition mergeLabels :: "stamp_env \<Rightarrow> Stamper \<Rightarrow> unstructured \<Rightarrow> unstructured" where
  "mergeLabels env s obj = se_SetLabels env (u_Labels obj ++\<^sub>f st_Labels s) obj"

definition owner_reference :: "Owner \<Rightarrow> OwnerReference" where
  "owner_reference owner =
     \<lparr>oref_APIVersion = ow_APIVersion owner, oref_Kind = ow_Kind owner, oref_UID = ow_UID owner, oref_Name = ow_Name owner,
      oref_BlockOwnerDeletion = True, oref_Controller = True\<rparr>"

definition Stamp :: "stamp_env \<Rightarrow> Stamper \<Rightarrow> TemplateSpec \<Rightarrow> unstructured go" where
  "Stamp env s resourceTemplate =
     go_bind
       (case ts_Template resourceTemplate of
          Some raw \<Rightarrow> applyTemplate env s raw
        | None \<Rightarrow>
            (if ts_Ytt resourceTemplate \<noteq> '''' then applyYtt env s (ts_Ytt resourceTemplate)
             else Err (ErrorString ''unknown resource template type, expected either template or ytt'')))
       (\<lambda>stampedObject.
          if u_Namespace stampedObject \<noteq> '''' \<and> u_Namespace stampedObject \<noteq> ow_Namespace (st_Owner s) then
            Err (ErrorString ''cannot set namespace in resource template'')
          else
            Ret (mergeLabels env s
              (se_SetOwnerReferences env [owner_reference (st_Owner s)]
                (se_SetNamespace env (ow_Namespace (st_Owner s)) stampedObject))))"

section \<open>Filling a template\<close>

fun ret_value :: "json go \<Rightarrow> json" where
  "ret_value (Ret v) = v"
| "ret_value _ = JNull"

text \<open>The strings of a JSON value, and the value with each of them replaced: a specification of the recursion.\<close>

primrec json_strings :: "json \<Rightarrow> string set" where
  "json_strings JNull = {}"
| "json_strings (JBool b) = {}"
| "json_strings (JInt i) = {}"
| "json_strings (JNum n) = {}"
| "json_strings (JStr s) = {s}"
| "json_strings (JArr xs) = \<Union> (set (map json_strings xs))"
| "json_strings (JObj m) = \<Union> (fmran' (fmmap json_strings m))"

primrec json_subst :: "(string \<Rightarrow> json) \<Rightarrow> json \<Rightarrow> json" where
  "json_subst g JNull = JNull"
| "json_subst g (JBool b) = JBool b"
| "json_subst g (JInt i) = JInt i"
| "json_subst g (JNum n) = JNum n"
| "json_subst g (JStr s) = g s"
| "json_subst g (JArr xs) = JArr (map (json_subst g) xs)"
| "json_subst g (JObj m) = JObj (fmmap (json_subst g) m)"

lemma json_strings_JObj: "s \<in> json_strings (JObj m) \<longleftrightarrow> (\<exists>k v. fmlookup m k = Some v \<and> s \<in> json_strings v)"
  by (auto simp: fmlookup_ran'_iff Bex_def)

lemma stamp_elements_Ret_iff:
  assumes "\<And>x path w. x \<in> set xs \<Longrightarrow> F x path = Ret w \<longleftrightarrow> ok x \<and> w = val x"
  shows "stamp_elements (map F xs) path i acc = Ret w \<longleftrightarrow> (\<forall>x\<in>set xs. ok x) \<and> w = JArr (acc @ map val xs)"
  using assms by (induction xs arbitrary: i acc) (auto simp: go_bind_Ret_iff)

lemma stamp_entries_Ret_iff:
  assumes "\<And>k v path w. fmlookup m k = Some v \<Longrightarrow> F v path = Ret w \<longleftrightarrow> ok v \<and> w = val v"
    and "set keys \<subseteq> fmdom' m"
  shows "stamp_entries (fmmap F m) path keys acc = Ret w \<longleftrightarrow>
     (\<forall>k\<in>set keys. ok (the (fmlookup m k))) \<and> w = JObj (foldl (\<lambda>a k. fmupd k (val (the (fmlookup m k))) a) acc keys)"
  using assms(2)
proof (induction keys arbitrary: acc)
  case (Cons k keys)
  then obtain v where v: "fmlookup m k = Some v" by (auto simp: fmlookup_dom'_iff)
  then show ?case using Cons assms(1) [OF v] by (auto simp: go_bind_Ret_iff)
qed auto

lemma foldl_fmupd_lookup:
  "fmlookup (foldl (\<lambda>a k. fmupd k (h k) a) acc keys) k = (if k \<in> set keys then Some (h k) else fmlookup acc k)"
  by (induction keys arbitrary: acc) auto

lemma foldl_fmupd_fmmap:
  assumes "set keys = fmdom' m"
  shows "foldl (\<lambda>a k. fmupd k (val (the (fmlookup m k))) a) fmempty keys = fmmap val m"
  by (rule fmap_ext) (auto simp: foldl_fmupd_lookup assms fmlookup_dom'_iff)

definition leaf_ok :: "stamp_env \<Rightarrow> json \<Rightarrow> string \<Rightarrow> bool" where
  "leaf_ok env ctx s \<longleftrightarrow> (case InterpolateLeafNode env ctx s of Ret v \<Rightarrow> True | _ \<Rightarrow> False)"

lemma recursively_Ret_iff:
  assumes keys: "\<And>m. set (se_keys env m) = fmdom' m"
  shows "recursivelyEvaluateTemplates env ctx v path = Ret w \<longleftrightarrow>
    (\<forall>s\<in>json_strings v. leaf_ok env ctx s) \<and> w = json_subst (\<lambda>s. ret_value (InterpolateLeafNode env ctx s)) v"
proof (induction v arbitrary: path w)
  case (JStr s)
  then show ?case by (cases "InterpolateLeafNode env ctx s") (auto simp: leaf_ok_def)
next
  case (JArr xs)
  show ?case
    using stamp_elements_Ret_iff [of xs "recursivelyEvaluateTemplates env ctx"
        "\<lambda>v. \<forall>s\<in>json_strings v. leaf_ok env ctx s" "json_subst (\<lambda>s. ret_value (InterpolateLeafNode env ctx s))"] JArr
    by auto
next
  case (JObj m)
  have "stamp_entries (fmmap (recursivelyEvaluateTemplates env ctx) m) path (se_keys env m) fmempty = Ret w \<longleftrightarrow>
      (\<forall>k\<in>fmdom' m. \<forall>s\<in>json_strings (the (fmlookup m k)). leaf_ok env ctx s) \<and>
      w = JObj (fmmap (json_subst (\<lambda>s. ret_value (InterpolateLeafNode env ctx s))) m)"
    using stamp_entries_Ret_iff [of m "recursivelyEvaluateTemplates env ctx"
        "\<lambda>v. \<forall>s\<in>json_strings v. leaf_ok env ctx s" "json_subst (\<lambda>s. ret_value (InterpolateLeafNode env ctx s))"
        "se_keys env m" path fmempty w] JObj keys [of m]
    by (simp add: foldl_fmupd_fmmap fmran'I)
  moreover have "(\<forall>k\<in>fmdom' m. \<forall>s\<in>json_strings (the (fmlookup m k)). leaf_ok env ctx s) \<longleftrightarrow>
      (\<forall>s\<in>json_strings (JObj m). leaf_ok env ctx s)"
    unfolding json_strings_JObj Ball_def by (fastforce simp: fmlookup_dom'_iff)
  ultimately show ?case by simp
qed auto

section \<open>Tags\<close>

lemma count_open_append:
  "c \<noteq> CHR ''('' \<Longrightarrow> count_open (s @ [c]) = count_open s"
  by (induction s rule: count_open.induct) (auto split: if_splits)

lemma count_open_tag: "count_open (''$('' @ e @ '')$'') = Suc (count_open e)"
  using count_open_append [of "CHR ''$''" "e @ '')''"] count_open_append [of "CHR '')''" e] by simp

lemma isSingleTag_tag: "count_open e = 0 \<Longrightarrow> isSingleTag (''$('' @ e @ '')$'')"
  using count_open_tag [of e] hasSuffix_append [of "''$('' @ e" "'')$''"]
  by (simp add: isSingleTag_def hasPrefix_def)

lemma trim_tag: "TrimPrefix (TrimSuffix (''$('' @ e @ '')$'') '')$'') ''$('' = e"
  using hasSuffix_append [of "''$('' @ e" "'')$''"] by (simp add: TrimPrefix_def TrimSuffix_def hasPrefix_def)

text \<open>What the setters of \<^verbatim>\<open>unstructured.Unstructured\<close> promise; \<open>refs\<close> is \<^verbatim>\<open>GetOwnerReferences\<close>.\<close>

definition accessor_laws :: "stamp_env \<Rightarrow> (unstructured \<Rightarrow> OwnerReference list) \<Rightarrow> bool" where
  "accessor_laws env refs \<longleftrightarrow>
     (\<forall>ns u. u_Namespace (se_SetNamespace env ns u) = ns) \<and>
     (\<forall>rs u. refs (se_SetOwnerReferences env rs u) = rs \<and>
        u_Namespace (se_SetOwnerReferences env rs u) = u_Namespace u) \<and>
     (\<forall>ls u. u_Labels (se_SetLabels env ls u) = ls \<and> refs (se_SetLabels env ls u) = refs u \<and>
        u_Namespace (se_SetLabels env ls u) = u_Namespace u)"

text \<open>An environment for the witnesses: every path evaluates to a fixed value, and the scanner writes its input through.\<close>

definition encode_reference :: "OwnerReference \<Rightarrow> json" where
  "encode_reference r = JArr [JStr (oref_APIVersion r), JStr (oref_Kind r), JStr (oref_UID r), JStr (oref_Name r),
     JBool (oref_BlockOwnerDeletion r), JBool (oref_Controller r)]"

fun json_text :: "json \<Rightarrow> string" where
  "json_text (JStr s) = s"
| "json_text _ = ''''"

fun json_list :: "json \<Rightarrow> json list" where
  "json_list (JArr xs) = xs"
| "json_list _ = []"

definition decode_reference :: "json \<Rightarrow> OwnerReference" where
  "decode_reference v =
     (let xs = json_list v
      in \<lparr>oref_APIVersion = json_text (xs ! 0), oref_Kind = json_text (xs ! 1), oref_UID = json_text (xs ! 2),
          oref_Name = json_text (xs ! 3), oref_BlockOwnerDeletion = (xs ! 4 = JBool True),
          oref_Controller = (xs ! 5 = JBool True)\<rparr>)"

definition example_references :: "json \<Rightarrow> OwnerReference list" where
  "example_references v = map decode_reference (json_list v)"

definition empty_object :: unstructured where
  "empty_object = \<lparr>u_APIVersion = '''', u_Kind = '''', u_GVK = \<lparr>gvk_Group = '''', gvk_Version = '''', gvk_Kind = ''''\<rparr>,
      u_Namespace = '''', u_Name = '''', u_GenerateName = '''', u_Labels = fmempty, u_CreationTimestamp = 0,
      u_ResourceVersion = '''', u_Content = JNull\<rparr>"

definition example_env :: stamp_env where
  "example_env =
     \<lparr>se_jp = \<lparr>jp_Parse = \<lambda>e. None, jp_FindResults = \<lambda>e v. Inr [[v]], jp_PrintResults = \<lambda>r. Inr '''',
        jp_ShowResults = \<lambda>r. '''', jp_Unmarshal = \<lambda>b. Inr [JNum 7]\<rparr>,
      se_Execute = \<lambda>t a b f. Ret t, se_Marshal = \<lambda>v. Inr '''', se_Unmarshal = \<lambda>b. Inr (JObj fmempty), se_Show = \<lambda>v. '''',
      se_keys = fmap_keys, se_RunYtt = \<lambda>t as. (None, '''', ''''), se_YamlObject = \<lambda>b. Inr empty_object,
      se_Object = \<lambda>m. empty_object\<lparr>u_Content := JObj m\<rparr>,
      se_SetNamespace = \<lambda>ns u. u\<lparr>u_Namespace := ns\<rparr>,
      se_SetOwnerReferences = \<lambda>rs u. u\<lparr>u_Content := JArr (map encode_reference rs)\<rparr>,
      se_SetLabels = \<lambda>ls u. u\<lparr>u_Labels := ls\<rparr>\<rparr>"

lemma decode_encode: "decode_reference (encode_reference r) = r"
  by (simp add: encode_reference_def decode_reference_def Let_def)

lemma example_env_laws: "accessor_laws example_env (\<lambda>u. example_references (u_Content u))"
  by (simp add: accessor_laws_def example_env_def example_references_def decode_encode comp_def)

section \<open>Properties\<close>

text \<open>
  Filling in a template succeeds exactly when every string of the template can be interpolated, and then the result is the template
  with each string replaced by its interpolation, whatever the order in which Go visits the entries of
  its maps.
\<close>

lemma recursively_filled:
  assumes "\<And>m. set (se_keys env m) = fmdom' m"
  shows "recursivelyEvaluateTemplates env ctx v path = Ret w \<longleftrightarrow>
    (\<forall>s\<in>json_strings v. \<exists>x. InterpolateLeafNode env ctx s = Ret x) \<and>
    w = json_subst (\<lambda>s. ret_value (InterpolateLeafNode env ctx s)) v"
proof -
  have "leaf_ok env ctx s \<longleftrightarrow> (\<exists>x. InterpolateLeafNode env ctx s = Ret x)" for s
    by (auto simp: leaf_ok_def split: go.splits)
  then show ?thesis using recursively_Ret_iff [OF assms] by simp
qed

lemma plain_string_filled:
  "recursivelyEvaluateTemplates example_env JNull (JArr [JBool True, JStr ''plain'']) [] =
     Ret (JArr [JBool True, JStr ''plain''])"
proof -
  have "set (se_keys example_env m) = fmdom' m" for m by (simp add: example_env_def)
  moreover have "InterpolateLeafNode example_env JNull ''plain'' = Ret (JStr ''plain'')"
    by (simp add: InterpolateLeafNode_def isSingleTag_def hasPrefix_def example_env_def)
  ultimately show ?thesis by (subst recursively_filled) auto
qed

lemma applyTemplate_Ret_iff:
  assumes "\<And>m. set (se_keys env m) = fmdom' m"
  shows "applyTemplate env s raw = Ret obj \<longleftrightarrow>
    (\<exists>v m. se_Unmarshal env raw = Inr v \<and>
       (\<forall>leaf\<in>json_strings v. \<exists>x. InterpolateLeafNode env (st_TemplatingContext s) leaf = Ret x) \<and>
       json_subst (\<lambda>leaf. ret_value (InterpolateLeafNode env (st_TemplatingContext s) leaf)) v = JObj m \<and>
       obj = se_Object env m)"
proof (cases "se_Unmarshal env raw")
  case (Inr v)
  let ?filled = "recursivelyEvaluateTemplates env (st_TemplatingContext s) v []"
  have "applyTemplate env s raw = Ret obj \<longleftrightarrow> (\<exists>m. ?filled = Ret (JObj m) \<and> obj = se_Object env m)"
    by (auto simp: applyTemplate_def Inr split: go.splits json.splits)
  then show ?thesis unfolding recursively_filled [OF assms] Inr by (auto; metis)
qed (simp add: applyTemplate_def)

text \<open>
  C33: stamping a template that is not a ytt script succeeds exactly when it is valid JSON, every string in it can be interpolated, the result is an object,
  and this object names no namespace but that of the owner.  The stamped object is then this object with the namespace, the owner reference
  and the labels of the stamper added.
\<close>

theorem template_stamped:
  assumes "\<And>m. set (se_keys env m) = fmdom' m" "ts_Template t = Some raw"
  shows "Stamp env s t = Ret obj \<longleftrightarrow>
    (\<exists>v m. se_Unmarshal env raw = Inr v \<and>
       (\<forall>leaf\<in>json_strings v. \<exists>x. InterpolateLeafNode env (st_TemplatingContext s) leaf = Ret x) \<and>
       json_subst (\<lambda>leaf. ret_value (InterpolateLeafNode env (st_TemplatingContext s) leaf)) v = JObj m \<and>
       u_Namespace (se_Object env m) \<in> {'''', ow_Namespace (st_Owner s)} \<and>
       obj = mergeLabels env s (se_SetOwnerReferences env [owner_reference (st_Owner s)]
         (se_SetNamespace env (ow_Namespace (st_Owner s)) (se_Object env m))))"
proof -
  have "Stamp env s t = Ret obj \<longleftrightarrow>
      (\<exists>o'. applyTemplate env s raw = Ret o' \<and> u_Namespace o' \<in> {'''', ow_Namespace (st_Owner s)} \<and>
        obj = mergeLabels env s (se_SetOwnerReferences env [owner_reference (st_Owner s)]
          (se_SetNamespace env (ow_Namespace (st_Owner s)) o')))"
    by (auto simp: Stamp_def assms(2) go_bind_Ret_iff split: if_splits)
  then show ?thesis unfolding applyTemplate_Ret_iff [OF assms(1)] by blast
qed

theorem template_stamped_witness:
  "\<exists>obj. Stamp (example_env\<lparr>se_Unmarshal := \<lambda>b. Inr (JObj (fmap_of_list [(''a'', JStr ''plain'')]))\<rparr>)
     (StamperBuilder \<lparr>ow_APIVersion = ''carto.run/v1alpha1'', ow_Kind = ''Workload'', ow_UID = ''1'', ow_Name = ''w'',
        ow_Namespace = ''ns'', ow_Labels = fmempty, ow_Object = JNull\<rparr> JNull (fmap_of_list [(''a'', ''b'')]))
     \<lparr>ts_Template = Some ''{}'', ts_Ytt = '''', ts_Params = [], ts_HealthRule = None, ts_Lifecycle = '''',
      ts_RetentionPolicy = None\<rparr> = Ret obj"
  (is "\<exists>obj. Stamp ?env ?s ?t = Ret obj")
proof -
  let ?m = "fmap_of_list [(''a'', JStr ''plain'')]"
  have keys: "set (se_keys ?env m) = fmdom' m" for m by (simp add: example_env_def)
  have strings: "json_strings (JObj ?m) = {''plain''}" by (auto simp: json_strings_JObj simp del: json_strings.simps(7) split: if_splits)
  have plain: "InterpolateLeafNode ?env JNull ''plain'' = Ret (JStr ''plain'')"
    by (simp add: InterpolateLeafNode_def isSingleTag_def hasPrefix_def example_env_def)
  have "se_Unmarshal ?env ''{}'' = Inr (JObj ?m)" "u_Namespace (se_Object ?env m) = ''''" for m
    by (simp_all add: example_env_def empty_object_def)
  moreover have "\<forall>leaf\<in>json_strings (JObj ?m). \<exists>x. InterpolateLeafNode ?env JNull leaf = Ret x" unfolding strings using plain by simp
  ultimately show ?thesis
    using template_stamped [OF keys, of ?t "''{}''" ?s] by (simp add: StamperBuilder_def)
qed

text \<open>
  a string that is a single tag is replaced by the value that the tag evaluates to, of whatever type; it fails exactly
  when the tag cannot be evaluated.
\<close>

theorem single_tag_value:
  assumes "count_open e = 0"
  shows "InterpolateLeafNode env ctx (''$('' @ e @ '')$'') =
    (case EvaluateJsonPath (se_jp env) e ctx of
       Panic p \<Rightarrow> Panic p
     | Err err \<Rightarrow> Err (WrapError (''evaluate tag $('' @ e @ '')$: '') err)
     | Ret v \<Rightarrow> Ret v)"
  unfolding InterpolateLeafNode_def trim_tag Let_def EvaluateTag_def if_P [OF isSingleTag_tag [OF assms]]
  by (simp split: go.split)

theorem single_tag_value_witness:
  "InterpolateLeafNode example_env JNull ''$(a)$'' = Ret (JNum 7)"
  using single_tag_value [of "''a''" example_env JNull]
  by (simp add: example_env_def EvaluateJsonPath_def SinglePathEvaluate_def)

text \<open>
  C34: a stamped object is in the namespace of its owner, has the owner as its only owner reference and controller,
  and carries every label of the stamper, whatever the template says.
\<close>

theorem stamped_object_owned:
  assumes "accessor_laws env refs" "Stamp env s spec = Ret obj"
  shows "u_Namespace obj = ow_Namespace (st_Owner s) \<and> refs obj = [owner_reference (st_Owner s)] \<and>
    st_Labels s \<subseteq>\<^sub>f u_Labels obj"
  using assms by (auto simp: Stamp_def accessor_laws_def mergeLabels_def go_bind_Ret_iff fmsubset_alt_def fmpred_iff
      dest: fmdomI split: if_splits)

theorem stamped_object_owned_witness:
  "\<exists>obj. Stamp example_env
     (StamperBuilder \<lparr>ow_APIVersion = ''carto.run/v1alpha1'', ow_Kind = ''Workload'', ow_UID = ''1'', ow_Name = ''w'',
        ow_Namespace = ''ns'', ow_Labels = fmempty, ow_Object = JNull\<rparr> JNull (fmap_of_list [(''a'', ''b'')]))
     \<lparr>ts_Template = Some ''{}'', ts_Ytt = '''', ts_Params = [], ts_HealthRule = None, ts_Lifecycle = '''',
      ts_RetentionPolicy = None\<rparr> = Ret obj \<and> u_Namespace obj = ''ns''"
  (is "\<exists>obj. Stamp _ ?s ?t = Ret obj \<and> _")
proof -
  have "applyTemplate example_env ?s ''{}'' = Ret (empty_object\<lparr>u_Content := JObj fmempty\<rparr>)"
    by (simp add: applyTemplate_def example_env_def)
  then have "\<exists>obj. Stamp example_env ?s ?t = Ret obj"
    by (simp add: Stamp_def empty_object_def)
  then obtain obj where obj: "Stamp example_env ?s ?t = Ret obj" by blast
  then show ?thesis using stamped_object_owned [OF example_env_laws obj] by (auto simp: StamperBuilder_def)
qed

end
