(* ===== verification/Gc.thy ===== *)
theory Gc
  imports Stamp_Reader
begin

text \<open>
  \<^verbatim>\<open>pkg/realizer/runnable/gc/gc.go\<close>: the retention of stamped objects.  \<^verbatim>\<open>sort.Sort\<close> of the Go library is an unstable
  sort whose algorithm depends on the length of the slice; what the code relies on is the locale \<open>go_sort\<close> (a
  permutation without inversions for a strict weak order), and the code takes the sort as a
  parameter.  The interpretation is Go's \<^verbatim>\<open>insertionSort\<close>, which \<^verbatim>\<open>sort.Sort\<close> runs on short slices.

  \<^verbatim>\<open>CleanupRunnableStampedObjects\<close> sorts the caller's slice in place, so the model returns the sorted slice
  together with the objects it asks the repository to delete; a failing deletion is only logged.
\<close>

section \<open>The interface of \<^verbatim>\<open>sort.Sort\<close>\<close>

definition strict_weak_order :: "('a \<Rightarrow> 'a \<Rightarrow> bool) \<Rightarrow> bool" where
  "strict_weak_order lt \<longleftrightarrow>
     (\<forall>x y. lt x y \<longrightarrow> \<not> lt y x) \<and> (\<forall>x y z. \<not> lt x y \<longrightarrow> \<not> lt y z \<longrightarrow> \<not> lt x z)"

locale go_sort =
  fixes srt :: "('a \<Rightarrow> 'a \<Rightarrow> bool) \<Rightarrow> 'a list \<Rightarrow> 'a list"
  assumes permutes: "mset (srt lt xs) = mset xs"
    and no_inversion: "strict_weak_order lt \<Longrightarrow> sorted_wrt (\<lambda>x y. \<not> lt y x) (srt lt xs)"
begin

lemma set_sort [simp]: "set (srt lt xs) = set xs"
  using permutes [of lt xs] by (metis set_mset_mset)

lemma distinct_sort: "distinct (map f (srt lt xs)) \<longleftrightarrow> distinct (map f xs)"
  by (metis permutes mset_map mset_eq_imp_distinct_iff)

end

text \<open>Go's insertion sort: every element moves left past those it is less than; the sorted prefix is kept in reverse.\<close>

fun insert_back :: "('a \<Rightarrow> 'a \<Rightarrow> bool) \<Rightarrow> 'a \<Rightarrow> 'a list \<Rightarrow> 'a list" where
  "insert_back lt x [] = [x]"
| "insert_back lt x (y # ys) = (if lt x y then y # insert_back lt x ys else x # y # ys)"

definition insertionSort :: "('a \<Rightarrow> 'a \<Rightarrow> bool) \<Rightarrow> 'a list \<Rightarrow> 'a list" where
  "insertionSort lt xs = rev (foldl (\<lambda>prefix x. insert_back lt x prefix) [] xs)"

lemma mset_insert_back [simp]: "mset (insert_back lt x ys) = add_mset x (mset ys)"
  by (induction ys) auto

lemma set_insert_back [simp]: "set (insert_back lt x ys) = insert x (set ys)"
  by (induction ys) auto

lemma insert_back_sorted:
  assumes "strict_weak_order lt" "sorted_wrt (\<lambda>x y. \<not> lt x y) ys"
  shows "sorted_wrt (\<lambda>x y. \<not> lt x y) (insert_back lt x ys)"
  using assms(2)
proof (induction ys)
  case (Cons y ys)
  show ?case
  proof (cases "lt x y")
    case True
    then have "\<not> lt y x" using assms(1) unfolding strict_weak_order_def by blast
    then show ?thesis using Cons True by auto
  next
    case False
    have "\<not> lt x z" if "z \<in> set ys" for z
    proof -
      have "\<not> lt y z" using Cons.prems that by simp
      with False show ?thesis using assms(1) unfolding strict_weak_order_def by blast
    qed
    then show ?thesis using Cons False by simp
  qed
qed simp

lemma insertionSort_loop_mset:
  "mset (foldl (\<lambda>prefix x. insert_back lt x prefix) ys xs) = mset ys + mset xs"
  by (induction xs arbitrary: ys) auto

lemma insertionSort_loop_sorted:
  "strict_weak_order lt \<Longrightarrow> sorted_wrt (\<lambda>x y. \<not> lt x y) ys \<Longrightarrow>
   sorted_wrt (\<lambda>x y. \<not> lt x y) (foldl (\<lambda>prefix x. insert_back lt x prefix) ys xs)"
  by (induction xs arbitrary: ys) (auto intro: insert_back_sorted)

interpretation insertion_sort: go_sort insertionSort
proof (unfold_locales, goal_cases)
  case (1 lt xs)
  then show ?case by (simp add: insertionSort_def insertionSort_loop_mset)
next
  case (2 lt xs)
  then show ?case
    by (simp add: insertionSort_def sorted_wrt_rev insertionSort_loop_sorted)
qed

section \<open>The model\<close>

definition ByCreationTimestamp_Less :: "ExaminedObject \<Rightarrow> ExaminedObject \<Rightarrow> bool" where
  "ByCreationTimestamp_Less a b \<longleftrightarrow>
     time_Unix (u_CreationTimestamp (eo_StampedObject a)) > time_Unix (u_CreationTimestamp (eo_StampedObject b))"

text \<open>The loop, with the two counters; it yields the objects passed to \<^verbatim>\<open>repo.Delete\<close>, in order.\<close>

fun cleanup_loop :: "RetentionPolicy \<Rightarrow> int \<Rightarrow> int \<Rightarrow> ExaminedObject list \<Rightarrow> unstructured list" where
  "cleanup_loop policy successfulFound failedFound [] = []"
| "cleanup_loop policy successfulFound failedFound (e # es) =
     (if eo_Health e = ConditionTrue then
        (let n = successfulFound + 1 in
         (if n > rp_MaxSuccessfulRuns policy then [eo_StampedObject e] else []) @ cleanup_loop policy n failedFound es)
      else if eo_Health e = ConditionFalse then
        (let n = failedFound + 1 in
         (if n > rp_MaxFailedRuns policy then [eo_StampedObject e] else []) @ cleanup_loop policy successfulFound n es)
      else cleanup_loop policy successfulFound failedFound es)"

definition CleanupRunnableStampedObjects ::
  "((ExaminedObject \<Rightarrow> ExaminedObject \<Rightarrow> bool) \<Rightarrow> ExaminedObject list \<Rightarrow> ExaminedObject list) \<Rightarrow>
   RetentionPolicy \<Rightarrow> ExaminedObject list \<Rightarrow> ExaminedObject list \<times> unstructured list" where
  "CleanupRunnableStampedObjects srt policy examinedObjects =
     (let sortedObjects = srt ByCreationTimestamp_Less examinedObjects
      in (sortedObjects, cleanup_loop policy 0 0 sortedObjects))"

section \<open>What is deleted\<close>

abbreviation with_health :: "ConditionStatus \<Rightarrow> ExaminedObject list \<Rightarrow> ExaminedObject list" where
  "with_health h es \<equiv> filter (\<lambda>e. eo_Health e = h) es"

lemma Less_strict_weak_order: "strict_weak_order ByCreationTimestamp_Less"
  by (auto simp: strict_weak_order_def ByCreationTimestamp_Less_def)

text \<open>Of each kind, the objects after the first allowed ones, seen from counters that already found some.\<close>

lemma cleanup_loop_set:
  assumes "0 \<le> s" "0 \<le> f"
  shows "set (cleanup_loop policy s f es) =
    eo_StampedObject ` set (drop (nat (rp_MaxSuccessfulRuns policy - s)) (with_health ConditionTrue es)) \<union>
    eo_StampedObject ` set (drop (nat (rp_MaxFailedRuns policy - f)) (with_health ConditionFalse es))"
  using assms
proof (induction es arbitrary: s f)
  case (Cons e es)
  have drop_step: "eo_StampedObject ` set (drop (nat (m - k)) (x # xs)) =
      (if k + 1 > m then {eo_StampedObject x} else {}) \<union> eo_StampedObject ` set (drop (nat (m - (k + 1))) xs)"
    for m k :: int and x :: ExaminedObject and xs
  proof (cases "k + 1 > m")
    case True
    then show ?thesis by simp
  next
    case False
    then have "nat (m - k) = Suc (nat (m - (k + 1)))" by simp
    then show ?thesis using False by simp
  qed
  consider "eo_Health e = ConditionTrue" | "eo_Health e = ConditionFalse"
    | "eo_Health e \<noteq> ConditionTrue" "eo_Health e \<noteq> ConditionFalse" by blast
  then show ?case
  proof cases
    case 1
    then show ?thesis using Cons.IH [of "s + 1" f] Cons.prems by (auto simp: Let_def drop_step simp del: drop_Cons)
  next
    case 2
    then show ?thesis using Cons.IH [of s "f + 1"] Cons.prems by (auto simp: Let_def drop_step simp del: drop_Cons)
  next
    case 3
    then show ?thesis using Cons.IH [of s f] Cons.prems by simp
  qed
qed simp

text \<open>In a list sorted by time, latest first, the latest successful object is the first successful one.\<close>

lemma latest_loop_skip:
  assumes "\<And>e. e \<in> set es \<Longrightarrow> eo_Health e = ConditionTrue \<Longrightarrow> u_CreationTimestamp (eo_StampedObject e) \<le> t"
  shows "latest_loop t b es = b"
  using assms
proof (induction es)
  case (Cons e es)
  have "\<not> t < u_CreationTimestamp (eo_StampedObject e)" if "eo_Health e = ConditionTrue"
    using Cons.prems [of e] that by simp
  with Cons show ?case by (simp add: Let_def time_After_def)
qed simp

lemma latest_of_sorted:
  assumes "sorted_wrt (\<lambda>x y. u_CreationTimestamp (eo_StampedObject y) \<le> u_CreationTimestamp (eo_StampedObject x)) es"
    and "GetLatestSuccessfulObjFromExaminedObject es = Some u"
  shows "\<exists>e rest. with_health ConditionTrue es = e # rest \<and> eo_StampedObject e = u"
  using assms(1) assms(2) [unfolded GetLatestSuccessfulObjFromExaminedObject_def]
proof (induction es)
  case (Cons e es)
  show ?case
  proof (cases "eo_Health e = ConditionTrue")
    case False
    then show ?thesis using Cons by simp
  next
    case True
    let ?t = "u_CreationTimestamp (eo_StampedObject e)"
    have rest: "latest_loop t' b es = b" if "?t \<le> t'" for t' b
      using Cons.prems(1) that by (intro latest_loop_skip) force
    have "latest_loop zero_time None (e # es) = (if zero_time < ?t then Some (eo_StampedObject e) else None)"
      using True rest by (simp add: Let_def time_After_def)
    then show ?thesis using True Cons.prems(2) by (simp split: if_splits)
  qed
qed simp

section \<open>Properties\<close>

text \<open>
  C31: for any sort that \<^verbatim>\<open>sort.Sort\<close>'s contract admits, the cleanup deletes exactly the successful objects beyond the
  first \<^verbatim>\<open>MaxSuccessfulRuns\<close> and the failed objects beyond the first \<^verbatim>\<open>MaxFailedRuns\<close> in the order of creation, latest
  first; objects whose health is neither True nor False are never deleted.
\<close>

theorem cleanup_deletes:
  assumes "go_sort srt" "CleanupRunnableStampedObjects srt policy es = (ys, deleted)"
  shows "mset ys = mset es \<and>
    sorted_wrt (\<lambda>x y. time_Unix (u_CreationTimestamp (eo_StampedObject x)) \<ge> time_Unix (u_CreationTimestamp (eo_StampedObject y))) ys \<and>
    set deleted =
      eo_StampedObject ` set (drop (nat (rp_MaxSuccessfulRuns policy)) (with_health ConditionTrue ys)) \<union>
      eo_StampedObject ` set (drop (nat (rp_MaxFailedRuns policy)) (with_health ConditionFalse ys))"
proof -
  have ys: "ys = srt ByCreationTimestamp_Less es" "deleted = cleanup_loop policy 0 0 ys"
    using assms(2) by (auto simp: CleanupRunnableStampedObjects_def Let_def)
  have "sorted_wrt (\<lambda>x y. \<not> ByCreationTimestamp_Less y x) ys"
    unfolding ys(1) by (rule go_sort.no_inversion [OF assms(1) Less_strict_weak_order])
  then show ?thesis
    using go_sort.permutes [OF assms(1), of ByCreationTimestamp_Less es]
    by (simp add: ys cleanup_loop_set ByCreationTimestamp_Less_def not_less)
qed

theorem cleanup_deletes_witness:
  "let obj = (\<lambda>n t. \<lparr>u_APIVersion = '''', u_Kind = '''', u_GVK = \<lparr>gvk_Group = '''', gvk_Version = '''', gvk_Kind = ''''\<rparr>,
        u_Namespace = '''', u_Name = n, u_GenerateName = '''', u_Labels = fmempty, u_CreationTimestamp = t,
        u_ResourceVersion = '''', u_Content = JNull\<rparr>);
       es = [\<lparr>eo_StampedObject = obj ''a'' 1000000000, eo_Health = ''True''\<rparr>, \<lparr>eo_StampedObject = obj ''b'' 2000000000, eo_Health = ''True''\<rparr>]
   in set (snd (CleanupRunnableStampedObjects insertionSort \<lparr>rp_MaxFailedRuns = 1, rp_MaxSuccessfulRuns = 1\<rparr> es)) =
        {obj ''a'' 1000000000}"
proof -
  let ?obj = "\<lambda>n t. \<lparr>u_APIVersion = '''', u_Kind = '''', u_GVK = \<lparr>gvk_Group = '''', gvk_Version = '''', gvk_Kind = ''''\<rparr>,
        u_Namespace = '''', u_Name = n, u_GenerateName = '''', u_Labels = fmempty, u_CreationTimestamp = t,
        u_ResourceVersion = '''', u_Content = JNull\<rparr>"
  let ?a = "\<lparr>eo_StampedObject = ?obj ''a'' 1000000000, eo_Health = ''True''\<rparr>"
  let ?b = "\<lparr>eo_StampedObject = ?obj ''b'' 2000000000, eo_Health = ''True''\<rparr>"
  let ?p = "\<lparr>rp_MaxFailedRuns = 1, rp_MaxSuccessfulRuns = 1\<rparr>"
  have "insertionSort ByCreationTimestamp_Less [?a, ?b] = [?b, ?a]"
    by (simp add: insertionSort_def ByCreationTimestamp_Less_def time_Unix_def)
  then have c: "CleanupRunnableStampedObjects insertionSort ?p [?a, ?b] = ([?b, ?a], cleanup_loop ?p 0 0 [?b, ?a])"
    by (simp add: CleanupRunnableStampedObjects_def)
  from cleanup_deletes [OF insertion_sort.go_sort_axioms c] c show ?thesis
    by (simp add: Let_def)
qed

text \<open>
  C4: with at least one successful run to keep, the object from which the realizer then reads its outputs (the latest
  successful one of the sorted list) is never among the deleted objects, provided that the objects are distinct and their
  timestamps have whole seconds, as Kubernetes timestamps do.
\<close>

theorem cleanup_keeps_latest_successful:
  assumes "go_sort srt" "CleanupRunnableStampedObjects srt policy es = (ys, deleted)"
    and "1 \<le> rp_MaxSuccessfulRuns policy" "distinct (map eo_StampedObject es)"
    and "\<And>e. e \<in> set es \<Longrightarrow> whole_seconds (u_CreationTimestamp (eo_StampedObject e))"
    and "GetLatestSuccessfulObjFromExaminedObject ys = Some u"
  shows "u \<notin> set deleted"
proof -
  have ys: "ys = srt ByCreationTimestamp_Less es" "deleted = cleanup_loop policy 0 0 ys"
    using assms(2) by (auto simp: CleanupRunnableStampedObjects_def Let_def)
  have set_ys: "set ys = set es" unfolding ys(1) by (rule go_sort.set_sort [OF assms(1)])
  have dist: "distinct (map eo_StampedObject ys)"
    unfolding ys(1) go_sort.distinct_sort [OF assms(1)] by (rule assms(4))
  have "sorted_wrt (\<lambda>x y. \<not> ByCreationTimestamp_Less y x) ys"
    unfolding ys(1) by (rule go_sort.no_inversion [OF assms(1) Less_strict_weak_order])
  then have "sorted_wrt (\<lambda>x y. u_CreationTimestamp (eo_StampedObject y) \<le> u_CreationTimestamp (eo_StampedObject x)) ys"
    by (rule sorted_wrt_mono_rel [rotated])
      (simp add: ByCreationTimestamp_Less_def not_less set_ys time_Unix_whole assms(5))
  then obtain e rest where e: "with_health ConditionTrue ys = e # rest" "eo_StampedObject e = u"
    using latest_of_sorted assms(6) by blast
  have "nat (rp_MaxSuccessfulRuns policy) = Suc (nat (rp_MaxSuccessfulRuns policy - 1))"
    using assms(3) by simp
  then have "set (drop (nat (rp_MaxSuccessfulRuns policy)) (with_health ConditionTrue ys)) \<subseteq> set rest"
    unfolding e(1) by (simp add: set_drop_subset)
  moreover have "e \<in> set (with_health ConditionTrue ys)" by (simp add: e(1))
  then have "e \<in> set ys" "eo_Health e = ConditionTrue" by simp_all
  moreover have "distinct (with_health ConditionTrue ys)"
    using dist by (simp add: distinct_map)
  then have "distinct (e # rest)" by (simp only: e(1))
  moreover have "set (e # rest) \<subseteq> set ys" unfolding e(1) [symmetric] by simp
  moreover have inj: "inj_on eo_StampedObject (set ys)" using dist by (simp add: distinct_map)
  ultimately have "e \<notin> set (drop (nat (rp_MaxSuccessfulRuns policy)) (with_health ConditionTrue ys))"
    and sub: "set (drop (nat (rp_MaxSuccessfulRuns policy)) (with_health ConditionTrue ys)) \<subseteq> set ys"
    by auto
  then have "u \<notin> eo_StampedObject ` set (drop (nat (rp_MaxSuccessfulRuns policy)) (with_health ConditionTrue ys))"
    unfolding e(2) [symmetric] inj_on_image_mem_iff [OF inj \<open>e \<in> set ys\<close> sub] by simp
  moreover have "u \<notin> eo_StampedObject ` set (drop (nat (rp_MaxFailedRuns policy)) (with_health ConditionFalse ys))"
  proof
    assume "u \<in> eo_StampedObject ` set (drop (nat (rp_MaxFailedRuns policy)) (with_health ConditionFalse ys))"
    then obtain e' where "e' \<in> set (drop (nat (rp_MaxFailedRuns policy)) (with_health ConditionFalse ys))" "eo_StampedObject e' = u"
      by blast
    then have e': "e' \<in> set (with_health ConditionFalse ys)" "eo_StampedObject e' = u"
      by (simp_all only: in_set_dropD)
    then have "e' = e" using inj_onD [OF inj, of e' e] \<open>e \<in> set ys\<close> e(2) by simp
    with e'(1) \<open>eo_Health e = ConditionTrue\<close> show False by simp
  qed
  ultimately show ?thesis by (simp add: ys(2) cleanup_loop_set)
qed

theorem cleanup_keeps_latest_successful_witness:
  "\<exists>u. GetLatestSuccessfulObjFromExaminedObject (fst (CleanupRunnableStampedObjects insertionSort
       \<lparr>rp_MaxFailedRuns = 0, rp_MaxSuccessfulRuns = 1\<rparr>
       [\<lparr>eo_StampedObject = \<lparr>u_APIVersion = '''', u_Kind = '''', u_GVK = \<lparr>gvk_Group = '''', gvk_Version = '''', gvk_Kind = ''''\<rparr>,
        u_Namespace = '''', u_Name = ''a'', u_GenerateName = '''', u_Labels = fmempty, u_CreationTimestamp = 1000000000,
        u_ResourceVersion = '''', u_Content = JNull\<rparr>, eo_Health = ''True''\<rparr>])) = Some u \<and>
     u \<notin> set (snd (CleanupRunnableStampedObjects insertionSort
       \<lparr>rp_MaxFailedRuns = 0, rp_MaxSuccessfulRuns = 1\<rparr>
       [\<lparr>eo_StampedObject = \<lparr>u_APIVersion = '''', u_Kind = '''', u_GVK = \<lparr>gvk_Group = '''', gvk_Version = '''', gvk_Kind = ''''\<rparr>,
        u_Namespace = '''', u_Name = ''a'', u_GenerateName = '''', u_Labels = fmempty, u_CreationTimestamp = 1000000000,
        u_ResourceVersion = '''', u_Content = JNull\<rparr>, eo_Health = ''True''\<rparr>]))" (is "\<exists>u. _ (fst (CleanupRunnableStampedObjects _ ?p [?e])) = _ \<and> _")
proof -
  have c: "CleanupRunnableStampedObjects insertionSort ?p [?e] = ([?e], cleanup_loop ?p 0 0 [?e])"
    by (simp add: CleanupRunnableStampedObjects_def insertionSort_def)
  have l: "GetLatestSuccessfulObjFromExaminedObject [?e] = Some (eo_StampedObject ?e)"
    by (simp add: GetLatestSuccessfulObjFromExaminedObject_def time_After_def zero_time_def)
  have "eo_StampedObject ?e \<notin> set (cleanup_loop ?p 0 0 [?e])"
    by (rule cleanup_keeps_latest_successful [OF insertion_sort.go_sort_axioms c _ _ _ l])
      (auto simp: whole_seconds_def)
  with c l show ?thesis by simp
qed

end
