(* ===== verification/Events.thy ===== *)
theory Events
  imports Go_Errors
begin

text \<open>
  \<^verbatim>\<open>pkg/events\<close> and the naming functions of \<^verbatim>\<open>pkg/utils/util.go\<close>: how events about an owner get their text.
  The RESTMapper of the cluster is library code, the parameter \<open>mapper\<close>; the Kubernetes \<^verbatim>\<open>EventRecorder\<close>
  receives an \<open>event\<close> below, a format with its arguments.  A component that records an event leaves a
  \<open>recorder_call\<close> in its state; \<open>record_call\<close> is what the recorder of the owner makes of it.
\<close>

section \<open>Names of objects\<close>

record RESTMapping =
  rm_Resource :: string
  rm_Group :: string

type_synonym rest_mapper = "GroupVersionKind \<Rightarrow> gerror + RESTMapping"

definition getResourceMapping :: "rest_mapper \<Rightarrow> unstructured \<Rightarrow> gerror + RESTMapping" where
  "getResourceMapping mapper obj = mapper (u_GVK obj)"

definition GetQualifiedResource :: "rest_mapper \<Rightarrow> unstructured \<Rightarrow> gerror + string" where
  "GetQualifiedResource mapper obj =
     (case getResourceMapping mapper obj of
        Inl err \<Rightarrow> Inl err
      | Inr mapping \<Rightarrow>
          Inr (if rm_Group mapping = '''' then rm_Resource mapping else rm_Resource mapping @ ''.'' @ rm_Group mapping))"

definition GetQualifiedResourceWithName :: "rest_mapper \<Rightarrow> unstructured \<Rightarrow> gerror + string" where
  "GetQualifiedResourceWithName mapper obj =
     (case getResourceMapping mapper obj of
        Inl err \<Rightarrow> Inl err
      | Inr mapping \<Rightarrow>
          (let objName = (if u_Name obj = '''' then u_GenerateName obj else u_Name obj)
           in Inr (if rm_Group mapping = '''' then rm_Resource mapping @ ''/'' @ objName
                   else rm_Resource mapping @ ''.'' @ rm_Group mapping @ ''/'' @ objName)))"

section \<open>Reasons\<close>

definition NormalType :: string where [msg_defs]: "NormalType = ''Normal''"
definition StampedObjectAppliedReason :: string where [msg_defs]: "StampedObjectAppliedReason = ''StampedObjectApplied''"
definition StampedObjectRemovedReason :: string where [msg_defs]: "StampedObjectRemovedReason = ''StampedObjectRemoved''"
definition ResourceOutputChangedReason :: string where [msg_defs]: "ResourceOutputChangedReason = ''ResourceOutputChanged''"
definition ResourceHealthyStatusChangedReason :: string where
  [msg_defs]: "ResourceHealthyStatusChangedReason = ''ResourceHealthyStatusChanged''"

section \<open>The recorder of an owner\<close>

record event =
  ev_type :: string
  ev_reason :: string
  ev_messageFmt :: string
  ev_args :: "string list"

text \<open>\<^verbatim>\<open>strings.ReplaceAll\<close> with the token \<^verbatim>\<open>%Q\<close>: the occurrences do not overlap.\<close>

fun replace_Q :: "string \<Rightarrow> string \<Rightarrow> string" where
  "replace_Q name [] = []"
| "replace_Q name [c] = [c]"
| "replace_Q name (c # d # s) =
     (if c = CHR ''%'' \<and> d = CHR ''Q'' then name @ replace_Q name s else c # replace_Q name (d # s))"

definition Eventf :: "string \<Rightarrow> string \<Rightarrow> string \<Rightarrow> string list \<Rightarrow> event list" where
  "Eventf eventtype reason messageFmt args =
     [\<lparr>ev_type = eventtype, ev_reason = reason, ev_messageFmt = messageFmt, ev_args = args\<rparr>]"

text \<open>Nothing is recorded for an object whose resource name cannot be found.\<close>

definition ResourceEventf ::
  "rest_mapper \<Rightarrow> string \<Rightarrow> string \<Rightarrow> string \<Rightarrow> unstructured option \<Rightarrow> string list \<Rightarrow> event list" where
  "ResourceEventf mapper eventtype reason messageFmt resource args =
     (case resource of
        None \<Rightarrow> Eventf eventtype reason (replace_Q ''<nil>'' messageFmt) args
      | Some obj \<Rightarrow>
          (case GetQualifiedResourceWithName mapper obj of
             Inl mappingErr \<Rightarrow> []
           | Inr qualifiedResourceWithName \<Rightarrow>
               Eventf eventtype reason (replace_Q qualifiedResourceWithName messageFmt) args))"

datatype recorder_call =
    CallEventf string string string "string list"
  | CallResourceEventf string string string "unstructured option" "string list"

fun record_call :: "rest_mapper \<Rightarrow> recorder_call \<Rightarrow> event list" where
  "record_call mapper (CallEventf t reason fmt args) = Eventf t reason fmt args"
| "record_call mapper (CallResourceEventf t reason fmt resource args) = ResourceEventf mapper t reason fmt resource args"

section \<open>The text of an event\<close>

text \<open>\<^verbatim>\<open>fmt.Sprintf\<close> for formats whose only verb is \<^verbatim>\<open>%s\<close>, which is all the callers use.\<close>

fun sprintf :: "string \<Rightarrow> string list \<Rightarrow> string" where
  "sprintf [] args = []"
| "sprintf [c] args = [c]"
| "sprintf (c # d # s) args =
     (if c = CHR ''%'' \<and> d = CHR ''s'' then
        (case args of [] \<Rightarrow> ''%!s(MISSING)'' @ sprintf s [] | a # as \<Rightarrow> a @ sprintf s as)
      else c # sprintf (d # s) args)"

definition event_message :: "event \<Rightarrow> string" where
  "event_message e = sprintf (ev_messageFmt e) (ev_args e)"

lemma sprintf_literal: "CHR ''%'' \<notin> set p \<Longrightarrow> sprintf (p @ s) args = p @ sprintf s args"
proof (induction p)
  case (Cons c p)
  then show ?case by (cases "p @ s") auto
qed simp

lemma replace_Q_literal: "CHR ''%'' \<notin> set p \<Longrightarrow> replace_Q n (p @ s) = p @ replace_Q n s"
proof (induction p)
  case (Cons c p)
  then show ?case by (cases "p @ s") auto
qed simp

end
