(* ===== verification/Repo_Cache.thy ===== *)
theory Repo_Cache
  imports Json_Path
begin

text \<open>
  \<^verbatim>\<open>pkg/repository/cache.go\<close>: the cache of the objects that were submitted to the API server and of
  what the server made of them.  The Go interface \<^verbatim>\<open>RepoCache\<close> is the locale \<open>repo_cache\<close>: its laws say what the
  two lookups return after any sequence of calls of \<^verbatim>\<open>Set\<close>.  The operations run under one mutex, so each is one
  step.  Two objects are \<^verbatim>\<open>DeepEqual\<close> exactly when their content is, of which the other fields of
  \<^typ>\<open>unstructured\<close> are projections.
\<close>

section \<open>The model\<close>

record cache =
  ca_submittedCache :: "(string, unstructured) fmap"
  ca_persistedCache :: "(string, unstructured) fmap"

definition NewCache :: cache where
  "NewCache = \<lparr>ca_submittedCache = fmempty, ca_persistedCache = fmempty\<rparr>"

definition getKey :: "unstructured \<Rightarrow> string \<Rightarrow> string" where
  "getKey obj ownerDiscriminant =
     (let kind = gvk_Kind (u_GVK obj);
          name = (if u_Name obj = '''' then u_GenerateName obj else u_Name obj);
          ns = u_Namespace obj
      in ns @ '':'' @ kind @ '':'' @ name @ '':'' @ ownerDiscriminant)"

definition cache_Set :: "cache \<Rightarrow> unstructured \<Rightarrow> unstructured \<Rightarrow> string \<Rightarrow> cache" where
  "cache_Set c submitted persisted ownerDiscriminant =
     (let key = getKey submitted ownerDiscriminant
      in c\<lparr>ca_submittedCache := fmupd key submitted (ca_submittedCache c),
           ca_persistedCache := fmupd key persisted (ca_persistedCache c)\<rparr>)"

definition isSubmittedCacheHit :: "cache \<Rightarrow> unstructured \<Rightarrow> string \<Rightarrow> bool" where
  "isSubmittedCacheHit c submitted key =
     (case fmlookup (ca_submittedCache c) key of
        None \<Rightarrow> False
      | Some submittedCached \<Rightarrow> submittedCached = submitted)"

text \<open>\<^verbatim>\<open>obj.Object["spec"]\<close>; the persisted object is the zero value, without a spec, when the key is missing.\<close>

definition object_spec :: "unstructured \<Rightarrow> json option" where
  "object_spec obj = json_field (u_Content obj) ''spec''"

definition getPersistedCached :: "cache \<Rightarrow> string \<Rightarrow> unstructured option" where
  "getPersistedCached c key = fmlookup (ca_persistedCache c) key"

definition isPersistedCacheHit :: "unstructured \<Rightarrow> unstructured option \<Rightarrow> bool" where
  "isPersistedCacheHit existingObj persistedCached =
     (case object_spec existingObj of
        None \<Rightarrow> False
      | Some existingSpec \<Rightarrow>
          (case persistedCached of
             None \<Rightarrow> False
           | Some p \<Rightarrow>
               (case object_spec p of None \<Rightarrow> False | Some persistedCachedSpec \<Rightarrow> existingSpec = persistedCachedSpec)))"

definition UnchangedSinceCachedFromList ::
  "cache \<Rightarrow> unstructured \<Rightarrow> unstructured list \<Rightarrow> string \<Rightarrow> unstructured option" where
  "UnchangedSinceCachedFromList c submitted existingList ownerDiscriminant =
     (let key = getKey submitted ownerDiscriminant
      in if \<not> isSubmittedCacheHit c submitted key then None
         else find (\<lambda>existing. isPersistedCacheHit existing (getPersistedCached c key)) existingList)"

definition UnchangedSinceCached :: "cache \<Rightarrow> unstructured \<Rightarrow> unstructured \<Rightarrow> unstructured option" where
  "UnchangedSinceCached c submitted existingObj =
     (let key = getKey submitted ''''
      in if \<not> isSubmittedCacheHit c submitted key then None
         else if isPersistedCacheHit existingObj (getPersistedCached c key) then Some existingObj else None)"

section \<open>The interface\<close>

text \<open>A call of \<^verbatim>\<open>Set\<close>: the submitted object, the persisted one and the discriminant of the owner.\<close>

type_synonym set_call = "unstructured \<times> unstructured \<times> string"

definition sets :: "('c \<Rightarrow> unstructured \<Rightarrow> unstructured \<Rightarrow> string \<Rightarrow> 'c) \<Rightarrow> 'c \<Rightarrow> set_call list \<Rightarrow> 'c" where
  "sets set_op c calls = foldl (\<lambda>c (s, p, d). set_op c s p d) c calls"

lemma sets_Nil [simp]: "sets f c [] = c"
  by (simp add: sets_def)

lemma sets_snoc [simp]: "sets f c (calls @ [(s, p, d)]) = f (sets f c calls) s p d"
  by (simp add: sets_def)

text \<open>The spec that the server persisted for an object, if the last call of \<^verbatim>\<open>Set\<close> with its key was for this very object.\<close>

definition cached_spec :: "set_call list \<Rightarrow> unstructured \<Rightarrow> string \<Rightarrow> json option" where
  "cached_spec calls submitted disc =
     (case find (\<lambda>(s, p, d). getKey s d = getKey submitted disc) (rev calls) of
        None \<Rightarrow> None
      | Some (s, p, d) \<Rightarrow> if s = submitted then object_spec p else None)"

lemma cached_spec_Nil [simp]: "cached_spec [] submitted disc = None"
  by (simp add: cached_spec_def)

lemma cached_spec_snoc:
  "cached_spec (calls @ [(s, p, d)]) submitted disc =
     (if getKey s d = getKey submitted disc then (if s = submitted then object_spec p else None)
      else cached_spec calls submitted disc)"
  by (simp add: cached_spec_def)

locale repo_cache =
  fixes new :: 'c
    and set_op :: "'c \<Rightarrow> unstructured \<Rightarrow> unstructured \<Rightarrow> string \<Rightarrow> 'c"
    and unchanged :: "'c \<Rightarrow> unstructured \<Rightarrow> unstructured \<Rightarrow> unstructured option"
    and unchanged_list :: "'c \<Rightarrow> unstructured \<Rightarrow> unstructured list \<Rightarrow> string \<Rightarrow> unstructured option"
  assumes unchanged_list_iff:
      "unchanged_list (sets set_op new calls) submitted existing disc =
         (case cached_spec calls submitted disc of
            None \<Rightarrow> None
          | Some spec \<Rightarrow> find (\<lambda>e. object_spec e = Some spec) existing)"
    and unchanged_iff:
      "unchanged (sets set_op new calls) submitted existing1 = unchanged_list (sets set_op new calls) submitted [existing1] ''''"
begin

text \<open>What was just persisted is found again, as long as it has a spec.\<close>

lemma hit_after_set:
  assumes "object_spec p = Some spec" "object_spec e = Some spec"
  shows "unchanged (set_op (sets set_op new calls) s p '''') s e = Some e"
  using unchanged_iff [of "calls @ [(s, p, '''')]" s e] unchanged_list_iff [of "calls @ [(s, p, '''')]" s "[e]" "''''"] assms
  by (simp add: cached_spec_snoc)

lemma list_hit_after_set:
  assumes "object_spec p = Some spec" "e \<in> set es" "object_spec e = Some spec"
  shows "\<exists>e'\<in>set es. unchanged_list (set_op (sets set_op new calls) s p d) s es d = Some e' \<and> object_spec e' = Some spec"
proof -
  have "unchanged_list (set_op (sets set_op new calls) s p d) s es d = find (\<lambda>e. object_spec e = Some spec) es"
    using unchanged_list_iff [of "calls @ [(s, p, d)]" s es d] assms(1) by (simp add: cached_spec_snoc)
  moreover obtain e' where e': "find (\<lambda>e. object_spec e = Some spec) es = Some e'"
    using assms(2,3) by (cases "find (\<lambda>e. object_spec e = Some spec) es") (auto dest: find_None_D)
  ultimately show ?thesis using find_Some_D [OF e'] by auto
qed

text \<open>A hit is an existing object whose spec is the one that was persisted for the same submission.\<close>

lemma hit_sound:
  assumes "unchanged_list (sets set_op new calls) submitted existing disc = Some e"
  shows "e \<in> set existing \<and> (\<exists>spec. cached_spec calls submitted disc = Some spec \<and> object_spec e = Some spec)"
  using assms find_Some_D by (fastforce simp: unchanged_list_iff split: option.splits)

end

section \<open>The struct keeps the laws\<close>

text \<open>The two maps after a sequence of calls.\<close>

lemma sets_lookup:
  "(fmlookup (ca_submittedCache (sets cache_Set NewCache calls)) key,
    fmlookup (ca_persistedCache (sets cache_Set NewCache calls)) key) =
   (case find (\<lambda>(s, p, d). getKey s d = key) (rev calls) of
      None \<Rightarrow> (None, None) | Some (s, p, d) \<Rightarrow> (Some s, Some p))"
proof (induction calls rule: rev_induct)
  case (snoc x calls)
  obtain s p d where "x = (s, p, d)" by (cases x)
  with snoc show ?case by (simp add: cache_Set_def Let_def)
qed (simp add: NewCache_def)

lemma isPersistedCacheHit_iff:
  "isPersistedCacheHit e (Some p) \<longleftrightarrow> (\<exists>spec. object_spec p = Some spec \<and> object_spec e = Some spec)"
  by (auto simp: isPersistedCacheHit_def split: option.splits)

interpretation rc: repo_cache NewCache cache_Set UnchangedSinceCached UnchangedSinceCachedFromList
proof (unfold_locales, goal_cases)
  case (1 calls submitted existing disc)
  let ?key = "getKey submitted disc"
  show ?case
  proof (cases "find (\<lambda>(s, p, d). getKey s d = ?key) (rev calls)")
    case None
    then show ?thesis
      using sets_lookup [of calls ?key]
      by (simp add: UnchangedSinceCachedFromList_def Let_def isSubmittedCacheHit_def cached_spec_def)
  next
    case (Some x)
    obtain s p d where x: "x = (s, p, d)" by (cases x)
    have l: "fmlookup (ca_submittedCache (sets cache_Set NewCache calls)) ?key = Some s"
      "getPersistedCached (sets cache_Set NewCache calls) ?key = Some p"
      using sets_lookup [of calls ?key] Some x by (simp_all add: getPersistedCached_def)
    have c: "cached_spec calls submitted disc = (if s = submitted then object_spec p else None)"
      using Some x by (simp add: cached_spec_def)
    show ?thesis
      unfolding UnchangedSinceCachedFromList_def Let_def isSubmittedCacheHit_def l c isPersistedCacheHit_iff
      by (auto split: option.split simp: find_None_iff)
  qed
next
  case (2 calls submitted existing1)
  then show ?case
    by (simp add: UnchangedSinceCached_def UnchangedSinceCachedFromList_def Let_def)
qed

section \<open>Properties\<close>

text \<open>
  C32: after any sequence of \<^verbatim>\<open>Set\<close>s, \<^verbatim>\<open>UnchangedSinceCachedFromList\<close> returns the first existing object whose spec is the
  spec that the server persisted for the last submission under the same key, provided that submission was this very object;
  otherwise it returns nil.
\<close>

theorem cache_lookup:
  "UnchangedSinceCachedFromList (sets cache_Set NewCache calls) submitted existing disc =
     (case cached_spec calls submitted disc of
        None \<Rightarrow> None
      | Some spec \<Rightarrow> find (\<lambda>e. object_spec e = Some spec) existing)"
  by (rule rc.unchanged_list_iff)

end
