(* ===== verification/Repository.thy ===== *)
theory Repository
  imports Events Repo_Cache Selector_Matching
begin

text \<open>
  \<^verbatim>\<open>pkg/repository/repository.go\<close>: all access of the controllers to the API server.  The client of controller-runtime is the
  record \<open>api_client\<close> of its calls on the state of the cluster, of any type \<open>'w\<close>; \<^verbatim>\<open>kerrors.IsNotFound\<close> is one of its
  fields.  A repository is the state it works on: the cluster, the cache, and the events emitted so far (an
  event keeps the text with its placeholders and the object they refer to).

  The writes return the error, the object as the call leaves it (Go updates it in place) and the new state.
  The results: repeating a write of the same object writes nothing, and what selects the supply chains of a workload.
\<close>

section \<open>The API server\<close>

text \<open>The objects whose status the controllers write.\<close>

datatype status_object =
    ObjWorkload Workload
  | ObjDeliverable Deliverable
  | ObjRunnable Runnable
  | ObjSupplyChain ClusterSupplyChain
  | ObjDelivery ClusterDelivery

record 'w api_client =
  cl_Get :: "'w \<Rightarrow> GroupVersionKind \<Rightarrow> NamespacedName \<Rightarrow> gerror + unstructured"
  cl_List :: "'w \<Rightarrow> GroupVersionKind \<Rightarrow> string \<Rightarrow> labels \<Rightarrow> gerror + unstructured list"
  cl_Create :: "'w \<Rightarrow> unstructured \<Rightarrow> (gerror + unstructured) \<times> 'w"
  cl_Patch :: "'w \<Rightarrow> unstructured \<Rightarrow> unstructured \<Rightarrow> (gerror + unstructured) \<times> 'w"
  cl_Delete :: "'w \<Rightarrow> unstructured \<Rightarrow> gerror option \<times> 'w"
  cl_GetTemplate :: "'w \<Rightarrow> string \<Rightarrow> NamespacedName \<Rightarrow> gerror + api_template"
  cl_GetRunTemplate :: "'w \<Rightarrow> NamespacedName \<Rightarrow> gerror + ClusterRunTemplate"
  cl_GetWorkload :: "'w \<Rightarrow> NamespacedName \<Rightarrow> gerror + Workload"
  cl_GetDeliverable :: "'w \<Rightarrow> NamespacedName \<Rightarrow> gerror + Deliverable"
  cl_GetRunnable :: "'w \<Rightarrow> NamespacedName \<Rightarrow> gerror + Runnable"
  cl_GetSupplyChain :: "'w \<Rightarrow> NamespacedName \<Rightarrow> gerror + ClusterSupplyChain"
  cl_GetDelivery :: "'w \<Rightarrow> NamespacedName \<Rightarrow> gerror + ClusterDelivery"
  cl_GetServiceAccount :: "'w \<Rightarrow> NamespacedName \<Rightarrow> gerror + ServiceAccount"
  cl_ListSupplyChains :: "'w \<Rightarrow> gerror + ClusterSupplyChain list"
  cl_ListDeliveries :: "'w \<Rightarrow> gerror + ClusterDelivery list"
  cl_StatusUpdate :: "'w \<Rightarrow> status_object \<Rightarrow> gerror option \<times> 'w"
  cl_IsNotFound :: "gerror \<Rightarrow> bool"

record 'w repository =
  rg_world :: 'w
  rg_cache :: cache
  rg_events :: "recorder_call list"

section \<open>Writes\<close>

definition repo_event :: "'w repository \<Rightarrow> recorder_call \<Rightarrow> 'w repository" where
  "repo_event r e = r\<lparr>rg_events := rg_events r @ [e]\<rparr>"

definition createUnstructured ::
  "'w api_client \<Rightarrow> 'w repository \<Rightarrow> unstructured \<Rightarrow> string \<Rightarrow> gerror option \<times> unstructured \<times> 'w repository" where
  "createUnstructured cl r obj ownerDiscriminant =
     (case cl_Create cl (rg_world r) obj of
        (Inl err, w) \<Rightarrow> (Some (WrapError ''create: '' err), obj, r\<lparr>rg_world := w\<rparr>)
      | (Inr obj', w) \<Rightarrow>
          (None, obj',
           repo_event (r\<lparr>rg_world := w, rg_cache := cache_Set (rg_cache r) obj obj' ownerDiscriminant\<rparr>)
             (CallResourceEventf NormalType StampedObjectAppliedReason ''Created object [%Q]'' (Some obj') [])))"

definition patchUnstructured ::
  "'w api_client \<Rightarrow> 'w repository \<Rightarrow> unstructured \<Rightarrow> unstructured \<Rightarrow> gerror option \<times> unstructured \<times> 'w repository" where
  "patchUnstructured cl r existingObj obj =
     (let obj1 = obj\<lparr>u_ResourceVersion := u_ResourceVersion existingObj\<rparr>
      in case cl_Patch cl (rg_world r) existingObj obj1 of
           (Inl err, w) \<Rightarrow> (Some (WrapError ''patch: '' err), obj1, r\<lparr>rg_world := w\<rparr>)
         | (Inr obj', w) \<Rightarrow>
             (None, obj',
              repo_event (r\<lparr>rg_world := w, rg_cache := cache_Set (rg_cache r) obj obj' ''''\<rparr>)
                (CallResourceEventf NormalType StampedObjectAppliedReason ''Patched object [%Q]'' (Some obj') [])))"

definition namespaced_name :: "unstructured \<Rightarrow> NamespacedName" where
  "namespaced_name obj = \<lparr>nn_Namespace = u_Namespace obj, nn_Name = u_Name obj\<rparr>"

text \<open>\<^verbatim>\<open>GetUnstructured\<close> returns nil without an error for an object that does not exist.\<close>

definition GetUnstructured :: "'w api_client \<Rightarrow> 'w repository \<Rightarrow> unstructured \<Rightarrow> unstructured option go" where
  "GetUnstructured cl r obj =
     (case cl_Get cl (rg_world r) (u_GVK obj) (namespaced_name obj) of
        Inl err \<Rightarrow>
          (if cl_IsNotFound cl err then Ret None
           else Err (WrapError (''failed to get unstructured ['' @ u_Namespace obj @ ''/'' @ u_Name obj
             @ ''] from api server: '') err))
      | Inr returnObj \<Rightarrow> Ret (Some returnObj))"

definition ListUnstructured ::
  "'w api_client \<Rightarrow> 'w repository \<Rightarrow> GroupVersionKind \<Rightarrow> string \<Rightarrow> labels \<Rightarrow> unstructured list go" where
  "ListUnstructured cl r gvk namespace ls =
     (case cl_List cl (rg_world r) gvk namespace ls of
        Inl err \<Rightarrow> Err (WrapError ''unable to list from api server: '' err)
      | Inr items \<Rightarrow> Ret items)"

definition EnsureMutableObjectExistsOnCluster ::
  "'w api_client \<Rightarrow> 'w repository \<Rightarrow> unstructured \<Rightarrow> gerror option \<times> unstructured \<times> 'w repository" where
  "EnsureMutableObjectExistsOnCluster cl r obj =
     (case GetUnstructured cl r obj of
        Err err \<Rightarrow> (Some err, obj, r)
      | Panic p \<Rightarrow> (Some (ErrorString p), obj, r)
      | Ret (Some existingObj) \<Rightarrow>
          (case UnchangedSinceCached (rg_cache r) obj existingObj of
             Some cacheHit \<Rightarrow> (None, cacheHit, r)
           | None \<Rightarrow> patchUnstructured cl r existingObj obj)
      | Ret None \<Rightarrow> createUnstructured cl r obj '''')"

definition buildOwnerDiscriminant :: "labels \<Rightarrow> string" where
  "buildOwnerDiscriminant ls =
     strings_Join (map (\<lambda>k. ''{'' @ k @ '':'' @ the (fmlookup ls k) @ ''}'') (fmap_keys ls)) ''''"

definition EnsureImmutableObjectExistsOnCluster ::
  "'w api_client \<Rightarrow> 'w repository \<Rightarrow> unstructured \<Rightarrow> labels \<Rightarrow> gerror option \<times> unstructured \<times> 'w repository" where
  "EnsureImmutableObjectExistsOnCluster cl r obj ls =
     (case ListUnstructured cl r (u_GVK obj) (u_Namespace obj) ls of
        Err err \<Rightarrow> (Some err, obj, r)
      | Panic p \<Rightarrow> (Some (ErrorString p), obj, r)
      | Ret unstructuredList \<Rightarrow>
          (let ownerDiscriminant = buildOwnerDiscriminant ls
           in case UnchangedSinceCachedFromList (rg_cache r) obj unstructuredList ownerDiscriminant of
                Some cacheHit \<Rightarrow> (None, cacheHit, r)
              | None \<Rightarrow> createUnstructured cl r obj ownerDiscriminant))"

definition repo_Delete :: "'w api_client \<Rightarrow> 'w repository \<Rightarrow> unstructured \<Rightarrow> gerror option \<times> 'w repository" where
  "repo_Delete cl r objToDelete =
     (case cl_Delete cl (rg_world r) objToDelete of
        (Some err, w) \<Rightarrow>
          (Some (WrapError (''failed to delete object ['' @ u_Namespace objToDelete @ ''/'' @ u_Name objToDelete @ '']: '') err),
           r\<lparr>rg_world := w\<rparr>)
      | (None, w) \<Rightarrow>
          (None, repo_event (r\<lparr>rg_world := w\<rparr>)
             (CallResourceEventf NormalType StampedObjectRemovedReason ''Deleted object [%Q]'' (Some objToDelete) [])))"

definition StatusUpdate :: "'w api_client \<Rightarrow> 'w repository \<Rightarrow> status_object \<Rightarrow> gerror option \<times> 'w repository" where
  "StatusUpdate cl r obj = (case cl_StatusUpdate cl (rg_world r) obj of (err, w) \<Rightarrow> (err, r\<lparr>rg_world := w\<rparr>))"

section \<open>Reads\<close>

definition getNamespacedName :: "string \<Rightarrow> string \<Rightarrow> string" where
  "getNamespacedName name namespace = (if namespace = '''' then name else namespace @ ''/'' @ name)"

definition getObject :: "string \<Rightarrow> string \<Rightarrow> (NamespacedName \<Rightarrow> gerror + 'a) \<Rightarrow> gerror + 'a" where
  "getObject name namespace get =
     (case get \<lparr>nn_Namespace = namespace, nn_Name = name\<rparr> of
        Inl err \<Rightarrow> Inl (WrapError (''failed to get object ['' @ getNamespacedName name namespace @ ''] from api server: '') err)
      | Inr x \<Rightarrow> Inr x)"

text \<open>The getters that turn a missing object into nil.\<close>

definition optional_object :: "'w api_client \<Rightarrow> string \<Rightarrow> gerror + 'a \<Rightarrow> 'a option go" where
  "optional_object cl failure res =
     (case res of
        Inl err \<Rightarrow> (if cl_IsNotFound cl err then Ret None else Err (WrapError failure err))
      | Inr x \<Rightarrow> Ret (Some x))"

definition GetAPITemplate :: "string \<Rightarrow> gerror option" where
  "GetAPITemplate templateKind =
     (if templateKind = ''ClusterSourceTemplate'' \<or> templateKind = ''ClusterImageTemplate'' \<or>
         templateKind = ''ClusterConfigTemplate'' \<or> templateKind = ''ClusterTemplate'' \<or>
         templateKind = ''ClusterDeploymentTemplate''
      then None else Some (ErrorString (''resource does not have valid kind: '' @ templateKind)))"

definition GetTemplate :: "'w api_client \<Rightarrow> 'w repository \<Rightarrow> string \<Rightarrow> string \<Rightarrow> api_template option go" where
  "GetTemplate cl r name kind =
     (case GetAPITemplate kind of
        Some err \<Rightarrow> Err (WrapError (''unable to get api template ['' @ kind @ ''/'' @ name @ '']: '') err)
      | None \<Rightarrow>
          optional_object cl (''failed to get template object from api server ['' @ kind @ ''/'' @ name @ '']: '')
            (getObject name '''' (cl_GetTemplate cl (rg_world r) kind)))"

definition GetRunTemplate :: "'w api_client \<Rightarrow> 'w repository \<Rightarrow> TemplateReference \<Rightarrow> ClusterRunTemplate go" where
  "GetRunTemplate cl r ref =
     (case cl_GetRunTemplate cl (rg_world r) \<lparr>nn_Namespace = '''', nn_Name = tref_Name ref\<rparr> of
        Inl err \<Rightarrow> Err (WrapError (''failed to get run template object from api server ['' @ tref_Kind ref @ ''/'' @ tref_Name ref
          @ '']: '') err)
      | Inr runTemplate \<Rightarrow> Ret runTemplate)"

definition GetWorkload :: "'w api_client \<Rightarrow> 'w repository \<Rightarrow> string \<Rightarrow> string \<Rightarrow> Workload option go" where
  "GetWorkload cl r name namespace =
     optional_object cl (''failed to get workload object from api server ['' @ namespace @ ''/'' @ name @ '']: '')
       (getObject name namespace (cl_GetWorkload cl (rg_world r)))"

definition GetDeliverable :: "'w api_client \<Rightarrow> 'w repository \<Rightarrow> string \<Rightarrow> string \<Rightarrow> Deliverable option go" where
  "GetDeliverable cl r name namespace =
     optional_object cl (''failed to get deliverable object from api server ['' @ namespace @ ''/'' @ name @ '']: '')
       (getObject name namespace (cl_GetDeliverable cl (rg_world r)))"

definition GetRunnable :: "'w api_client \<Rightarrow> 'w repository \<Rightarrow> string \<Rightarrow> string \<Rightarrow> Runnable option go" where
  "GetRunnable cl r name namespace =
     optional_object cl (''failed to get runnable object from api server ['' @ namespace @ ''/'' @ name @ '']: '')
       (getObject name namespace (cl_GetRunnable cl (rg_world r)))"

definition GetSupplyChain :: "'w api_client \<Rightarrow> 'w repository \<Rightarrow> string \<Rightarrow> ClusterSupplyChain option go" where
  "GetSupplyChain cl r name =
     optional_object cl (''failed to get supply chain object from api server ['' @ name @ '']: '')
       (getObject name '''' (cl_GetSupplyChain cl (rg_world r)))"

definition GetDelivery :: "'w api_client \<Rightarrow> 'w repository \<Rightarrow> string \<Rightarrow> ClusterDelivery option go" where
  "GetDelivery cl r name =
     optional_object cl (''failed to get delivery object from api server ['' @ name @ '']: '')
       (cl_GetDelivery cl (rg_world r) \<lparr>nn_Namespace = '''', nn_Name = name\<rparr>)"

definition GetServiceAccount :: "'w api_client \<Rightarrow> 'w repository \<Rightarrow> string \<Rightarrow> string \<Rightarrow> ServiceAccount go" where
  "GetServiceAccount cl r name namespace =
     (case getObject name namespace (cl_GetServiceAccount cl (rg_world r)) of
        Inl err \<Rightarrow> Err (WrapError (''failed to get service account object from api server ['' @ namespace @ ''/'' @ name @ '']: '') err)
      | Inr serviceAccount \<Rightarrow> Ret serviceAccount)"

section \<open>Blueprints of an owner\<close>

text \<open>
  \<^verbatim>\<open>SelectingObject\<close> as implemented by supply chains and deliveries; the kind in the \<^verbatim>\<open>TypeMeta\<close> of a list item is an
  argument.  \<open>js\<close> is the JSON view of the owner.
\<close>

definition supply_chain_selecting :: "(ClusterSupplyChain \<Rightarrow> string) \<Rightarrow> ClusterSupplyChain SelectingObject" where
  "supply_chain_selecting kind =
     \<lparr>so_GetSelectors = (\<lambda>c. scs_LegacySelector (sc_Spec c)), so_Kind = kind, so_GetName = sc_Name\<rparr>"

definition delivery_selecting :: "(ClusterDelivery \<Rightarrow> string) \<Rightarrow> ClusterDelivery SelectingObject" where
  "delivery_selecting kind =
     \<lparr>so_GetSelectors = (\<lambda>c. ds_LegacySelector (cd_Spec c)), so_Kind = kind, so_GetName = cd_Name\<rparr>"

definition GetSelectedSupplyChain ::
  "label_selector \<Rightarrow> jsonpath_lib \<Rightarrow> (ClusterSupplyChain \<Rightarrow> string) \<Rightarrow> (Workload \<Rightarrow> json) \<Rightarrow>
   ClusterSupplyChain list \<Rightarrow> Workload \<Rightarrow> ClusterSupplyChain list go" where
  "GetSelectedSupplyChain lsel jp kind js allSupplyChains workload =
     (case BestSelectorMatch lsel jp (supply_chain_selecting kind) \<lparr>sb_Labels = wl_Labels workload, sb_Object = js workload\<rparr>
        allSupplyChains of
        Panic p \<Rightarrow> Panic p
      | Err err \<Rightarrow> Err (WrapError (''evaluating supply chain selectors against workload ['' @ wl_Namespace workload @ ''/''
          @ wl_Name workload @ ''] failed: '') err)
      | Ret matches \<Rightarrow> Ret matches)"

definition GetSupplyChainsForWorkload ::
  "label_selector \<Rightarrow> jsonpath_lib \<Rightarrow> (ClusterSupplyChain \<Rightarrow> string) \<Rightarrow> (Workload \<Rightarrow> json) \<Rightarrow>
   'w api_client \<Rightarrow> 'w repository \<Rightarrow> Workload \<Rightarrow> ClusterSupplyChain list go" where
  "GetSupplyChainsForWorkload lsel jp kind js cl r workload =
     (case cl_ListSupplyChains cl (rg_world r) of
        Inl err \<Rightarrow> Err (WrapError ''unable to list supply chains from api server: '' err)
      | Inr items \<Rightarrow> GetSelectedSupplyChain lsel jp kind js items workload)"

definition GetDeliveriesForDeliverable ::
  "label_selector \<Rightarrow> jsonpath_lib \<Rightarrow> (ClusterDelivery \<Rightarrow> string) \<Rightarrow> (Deliverable \<Rightarrow> json) \<Rightarrow>
   'w api_client \<Rightarrow> 'w repository \<Rightarrow> Deliverable \<Rightarrow> ClusterDelivery list go" where
  "GetDeliveriesForDeliverable lsel jp kind js cl r deliverable =
     (case cl_ListDeliveries cl (rg_world r) of
        Inl err \<Rightarrow> Err (WrapError ''unable to list deliveries from api server: '' err)
      | Inr items \<Rightarrow>
          (case BestSelectorMatch lsel jp (delivery_selecting kind)
             \<lparr>sb_Labels = dl_Labels deliverable, sb_Object = js deliverable\<rparr> items of
             Panic p \<Rightarrow> Panic p
           | Err err \<Rightarrow> Err (WrapError (''evaluating supply chain selectors against deliverable ['' @ dl_Namespace deliverable
               @ ''/'' @ dl_Name deliverable @ ''] failed: '') err)
           | Ret matches \<Rightarrow> Ret matches))"

section \<open>Repeating a write\<close>

text \<open>The cache of a repository is always the result of calls of \<^verbatim>\<open>Set\<close>.\<close>

definition cache_reachable :: "'w repository \<Rightarrow> bool" where
  "cache_reachable r \<longleftrightarrow> (\<exists>calls. rg_cache r = sets cache_Set NewCache calls)"

lemma cache_reachable_new: "rg_cache r = NewCache \<Longrightarrow> cache_reachable r"
  unfolding cache_reachable_def by (intro exI [of _ "[]"]) simp

lemma cache_reachable_Set:
  "cache_reachable r \<Longrightarrow> \<exists>calls. cache_Set (rg_cache r) s p d = sets cache_Set NewCache calls"
  unfolding cache_reachable_def by (metis sets_snoc)

lemma createUnstructured_reachable:
  "cache_reachable r \<Longrightarrow> createUnstructured cl r obj d = (e, obj', r') \<Longrightarrow> cache_reachable r'"
  using cache_reachable_Set [of r]
  by (auto simp: createUnstructured_def repo_event_def cache_reachable_def split: prod.splits sum.splits)

lemma patchUnstructured_reachable:
  "cache_reachable r \<Longrightarrow> patchUnstructured cl r ex obj = (e, obj', r') \<Longrightarrow> cache_reachable r'"
  using cache_reachable_Set [of r]
  by (auto simp: patchUnstructured_def Let_def repo_event_def cache_reachable_def split: prod.splits sum.splits)

lemma EnsureMutable_reachable:
  "cache_reachable r \<Longrightarrow> EnsureMutableObjectExistsOnCluster cl r obj = (e, obj', r') \<Longrightarrow> cache_reachable r'"
  using createUnstructured_reachable patchUnstructured_reachable
  by (fastforce simp: EnsureMutableObjectExistsOnCluster_def split: go.splits option.splits)

text \<open>After a successful write, the cache maps the submitted object to what was persisted.\<close>

lemma create_hit:
  assumes "cache_reachable r" "createUnstructured cl r obj '''' = (None, obj', r')"
    and "object_spec obj' = Some spec" "object_spec e = Some spec"
  shows "UnchangedSinceCached (rg_cache r') obj e = Some e"
proof -
  have "rg_cache r' = cache_Set (rg_cache r) obj obj' ''''"
    using assms(2) by (auto simp: createUnstructured_def repo_event_def split: prod.splits sum.splits)
  then show ?thesis
    using assms(1,3,4) rc.hit_after_set unfolding cache_reachable_def by metis
qed

lemma patch_hit:
  assumes "cache_reachable r" "patchUnstructured cl r ex obj = (None, obj', r')"
    and "object_spec obj' = Some spec" "object_spec e = Some spec"
  shows "UnchangedSinceCached (rg_cache r') obj e = Some e"
proof -
  have "rg_cache r' = cache_Set (rg_cache r) obj obj' ''''"
    using assms(2) by (auto simp: patchUnstructured_def Let_def repo_event_def split: prod.splits sum.splits)
  then show ?thesis
    using assms(1,3,4) rc.hit_after_set unfolding cache_reachable_def by metis
qed

text \<open>A hit depends on the existing object only through its spec.\<close>

lemma UnchangedSinceCached_spec:
  "UnchangedSinceCached c obj e = Some e' \<Longrightarrow> object_spec e2 = object_spec e \<Longrightarrow> UnchangedSinceCached c obj e2 = Some e2"
  by (auto simp: UnchangedSinceCached_def Let_def isPersistedCacheHit_def split: if_splits)

lemma UnchangedSinceCached_same: "UnchangedSinceCached c obj e = Some e' \<Longrightarrow> e' = e"
  by (auto simp: UnchangedSinceCached_def Let_def split: if_splits)

lemma EnsureMutable_hit:
  assumes "cache_reachable r" "EnsureMutableObjectExistsOnCluster cl r obj = (None, obj', r')"
    and "object_spec obj' = Some spec" "object_spec e = Some spec"
  shows "UnchangedSinceCached (rg_cache r') obj e = Some e"
proof (cases "GetUnstructured cl r obj")
  case (Ret x)
  show ?thesis
  proof (cases x)
    case None
    then show ?thesis
      using assms Ret create_hit [of r cl obj obj' r' spec e] by (simp add: EnsureMutableObjectExistsOnCluster_def)
  next
    case (Some ex)
    show ?thesis
    proof (cases "UnchangedSinceCached (rg_cache r) obj ex")
      case None
      then show ?thesis
        using assms Ret Some patch_hit [of r cl ex obj obj' r' spec e]
        by (simp add: EnsureMutableObjectExistsOnCluster_def)
    next
      case hit: (Some ex')
      then have "obj' = ex" "r' = r"
        using assms(2) Ret Some UnchangedSinceCached_same [OF hit] by (auto simp: EnsureMutableObjectExistsOnCluster_def)
      then show ?thesis using UnchangedSinceCached_spec [OF hit, of e] assms(3,4) by simp
    qed
  qed
qed (use assms(2) in \<open>auto simp: EnsureMutableObjectExistsOnCluster_def\<close>)

text \<open>A client on a cluster that is a list of objects, for the witnesses.\<close>

definition list_client :: "unstructured list api_client" where
  "list_client =
     \<lparr>cl_Get = \<lambda>w gvk n. (case find (\<lambda>u. u_GVK u = gvk \<and> namespaced_name u = n) w of
          None \<Rightarrow> Inl (ErrorString ''not found'') | Some u \<Rightarrow> Inr u),
      cl_List = \<lambda>w gvk ns ls. Inr (filter (\<lambda>u. u_GVK u = gvk \<and> u_Namespace u = ns) w),
      cl_Create = \<lambda>w u. (Inr u, u # w),
      cl_Patch = \<lambda>w old u. (Inr u, u # removeAll old w),
      cl_Delete = \<lambda>w u. (None, removeAll u w),
      cl_GetTemplate = \<lambda>w k n. Inl (ErrorString ''not found''),
      cl_GetRunTemplate = \<lambda>w n. Inl (ErrorString ''not found''),
      cl_GetWorkload = \<lambda>w n. Inl (ErrorString ''not found''),
      cl_GetDeliverable = \<lambda>w n. Inl (ErrorString ''not found''),
      cl_GetRunnable = \<lambda>w n. Inl (ErrorString ''not found''),
      cl_GetSupplyChain = \<lambda>w n. Inl (ErrorString ''not found''),
      cl_GetDelivery = \<lambda>w n. Inl (ErrorString ''not found''),
      cl_GetServiceAccount = \<lambda>w n. Inl (ErrorString ''not found''),
      cl_ListSupplyChains = \<lambda>w. Inr [],
      cl_ListDeliveries = \<lambda>w. Inr [], cl_StatusUpdate = \<lambda>w obj. (None, w),
      cl_IsNotFound = \<lambda>e. e = ErrorString ''not found''\<rparr>"

definition example_object :: unstructured where
  "example_object =
     \<lparr>u_APIVersion = ''v1'', u_Kind = ''ConfigMap'',
      u_GVK = \<lparr>gvk_Group = '''', gvk_Version = ''v1'', gvk_Kind = ''ConfigMap''\<rparr>, u_Namespace = ''ns'', u_Name = ''a'',
      u_GenerateName = '''', u_Labels = fmempty, u_CreationTimestamp = 0, u_ResourceVersion = '''',
      u_Content = JObj (fmap_of_list [(''spec'', JStr ''x'')])\<rparr>"

section \<open>Properties\<close>

text \<open>
  C22: once \<^verbatim>\<open>EnsureMutableObjectExistsOnCluster\<close> has succeeded for an object, calling it again with the same
  object while the server still has the persisted spec succeeds with the server's object and changes
  nothing: no write, no event, no new cache entry.
\<close>

theorem ensure_mutable_idempotent:
  assumes "cache_reachable r" "EnsureMutableObjectExistsOnCluster cl r obj = (None, obj', r')"
    and "cl_Get cl (rg_world r') (u_GVK obj) (namespaced_name obj) = Inr existing"
    and "object_spec existing = object_spec obj'" "object_spec obj' \<noteq> None"
  shows "EnsureMutableObjectExistsOnCluster cl r' obj = (None, existing, r')"
proof -
  obtain spec where spec: "object_spec obj' = Some spec" using assms(5) by auto
  have "UnchangedSinceCached (rg_cache r') obj existing = Some existing"
    using EnsureMutable_hit [OF assms(1,2) spec] assms(4) spec by simp
  moreover have "GetUnstructured cl r' obj = Ret (Some existing)"
    using assms(3) by (simp add: GetUnstructured_def)
  ultimately show ?thesis by (simp add: EnsureMutableObjectExistsOnCluster_def)
qed

theorem ensure_mutable_idempotent_witness:
  "EnsureMutableObjectExistsOnCluster list_client
     (snd (snd (EnsureMutableObjectExistsOnCluster list_client
       \<lparr>rg_world = [], rg_cache = NewCache, rg_events = []\<rparr> example_object))) example_object =
   (None, example_object,
     snd (snd (EnsureMutableObjectExistsOnCluster list_client
       \<lparr>rg_world = [], rg_cache = NewCache, rg_events = []\<rparr> example_object)))"
  by (rule ensure_mutable_idempotent [where r = "\<lparr>rg_world = [], rg_cache = NewCache, rg_events = []\<rparr>"
        and obj' = example_object])
    (simp_all add: EnsureMutableObjectExistsOnCluster_def GetUnstructured_def createUnstructured_def repo_event_def
      list_client_def object_spec_def example_object_def cache_reachable_new)

text \<open>
  C25: once \<^verbatim>\<open>EnsureImmutableObjectExistsOnCluster\<close> has created an object with a spec for some labels, calling it again with the same
  object and labels while the listing still contains an object with the persisted spec creates nothing more.
\<close>

theorem ensure_immutable_no_second_create:
  assumes "cache_reachable r"
    and "createUnstructured cl r obj (buildOwnerDiscriminant ls) = (None, obj', r')"
    and "cl_List cl (rg_world r') (u_GVK obj) (u_Namespace obj) ls = Inr items"
    and "existing \<in> set items" "object_spec existing = object_spec obj'" "object_spec obj' \<noteq> None"
  shows "\<exists>found\<in>set items. EnsureImmutableObjectExistsOnCluster cl r' obj ls = (None, found, r') \<and>
    object_spec found = object_spec obj'"
proof -
  obtain spec where spec: "object_spec obj' = Some spec" using assms(6) by auto
  have "rg_cache r' = cache_Set (rg_cache r) obj obj' (buildOwnerDiscriminant ls)"
    using assms(2) by (auto simp: createUnstructured_def repo_event_def split: prod.splits sum.splits)
  moreover obtain calls where "rg_cache r = sets cache_Set NewCache calls"
    using assms(1) by (auto simp: cache_reachable_def)
  ultimately obtain found where "found \<in> set items" "object_spec found = Some spec"
      "UnchangedSinceCachedFromList (rg_cache r') obj items (buildOwnerDiscriminant ls) = Some found"
    using rc.list_hit_after_set [OF spec assms(4), of calls obj "buildOwnerDiscriminant ls"] assms(5) spec by auto
  moreover have "ListUnstructured cl r' (u_GVK obj) (u_Namespace obj) ls = Ret items"
    using assms(3) by (simp add: ListUnstructured_def)
  ultimately show ?thesis
    using spec by (intro bexI [of _ found]) (simp_all add: EnsureImmutableObjectExistsOnCluster_def Let_def)
qed

theorem ensure_immutable_no_second_create_witness:
  "\<exists>found\<in>set [example_object]. EnsureImmutableObjectExistsOnCluster list_client
     (snd (snd (createUnstructured list_client \<lparr>rg_world = [], rg_cache = NewCache, rg_events = []\<rparr> example_object
        (buildOwnerDiscriminant fmempty)))) example_object fmempty =
     (None, found, snd (snd (createUnstructured list_client \<lparr>rg_world = [], rg_cache = NewCache, rg_events = []\<rparr>
        example_object (buildOwnerDiscriminant fmempty)))) \<and>
     object_spec found = object_spec example_object"
  by (rule ensure_immutable_no_second_create [where r = "\<lparr>rg_world = [], rg_cache = NewCache, rg_events = []\<rparr>"
        and existing = example_object])
    (simp_all add: createUnstructured_def repo_event_def list_client_def object_spec_def example_object_def
      cache_reachable_new)

end
