(* ===== verification/Resource_Realizer.thy ===== *)
theory Resource_Realizer
  imports Stamper Gc Repository
begin

text \<open>
  \<^verbatim>\<open>pkg/realizer/component.go\<close>: realizing one resource of a blueprint.  \<open>Do_resource\<close> selects the template, stamps it, submits
  the object as its lifecycle asks and reads the output.

  The two repositories of the Go struct have their own clients and the cluster in common; the system
  repository is only read.  Library functions and clients are the record \<open>realizer_env\<close>.  A panic is the \<^const>\<open>Panic\<close> of the
  result; an error is a field of the \<open>do_result\<close>, as in the Go signature.
\<close>

section \<open>State and environment\<close>

record 'w realizer_env =
  re_stamp :: stamp_env
  re_lsel :: label_selector
  re_sprint :: "json \<Rightarrow> string"
  re_conditions :: condition_decoder
  re_sort :: "(ExaminedObject \<Rightarrow> ExaminedObject \<Rightarrow> bool) \<Rightarrow> ExaminedObject list \<Rightarrow> ExaminedObject list"
  re_context :: "templating_context \<Rightarrow> json"
  re_systemClient :: "'w api_client"
  re_ownerClient :: "'w api_client"

abbreviation re_jp :: "'w realizer_env \<Rightarrow> jsonpath_lib" where
  "re_jp env \<equiv> se_jp (re_stamp env)"

record resourceRealizer =
  rz_owner :: Owner
  rz_templatingContext :: contextGenerator
  rz_resourceLabeler :: "OwnerResource \<Rightarrow> Reader \<Rightarrow> labels"

record do_result =
  do_template :: "Reader option"
  do_stampedObject :: "unstructured option"
  do_output :: "TOutput option"
  do_passThrough :: bool
  do_templateName :: string
  do_err :: "gerror option"

definition do_return ::
  "Reader option \<Rightarrow> unstructured option \<Rightarrow> TOutput option \<Rightarrow> bool \<Rightarrow> string \<Rightarrow> gerror option \<Rightarrow> do_result" where
  "do_return t o' out pt n e =
     \<lparr>do_template = t, do_stampedObject = o', do_output = out, do_passThrough = pt, do_templateName = n, do_err = e\<rparr>"

text \<open>\<^verbatim>\<open>v, err := m; if err != nil { f(err) }; k(v)\<close>.\<close>

definition go_handle :: "'a go \<Rightarrow> (gerror \<Rightarrow> 'b go) \<Rightarrow> ('a \<Rightarrow> 'b go) \<Rightarrow> 'b go" where
  "go_handle m f k = (case m of Panic p \<Rightarrow> Panic p | Err err \<Rightarrow> f err | Ret v \<Rightarrow> k v)"

lemma go_handle_simps [simp]:
  "go_handle (Ret v) f k = k v" "go_handle (Err e) f k = f e" "go_handle (Panic p) f k = Panic p"
  by (simp_all add: go_handle_def)

lemma go_handle_Ret_iff:
  "go_handle m f k = Ret r \<longleftrightarrow> (\<exists>e. m = Err e \<and> f e = Ret r) \<or> (\<exists>v. m = Ret v \<and> k v = Ret r)"
  by (cases m) auto

section \<open>The template of a resource\<close>

definition selected_option_names :: "TemplateOption list \<Rightarrow> nat list \<Rightarrow> string list" where
  "selected_option_names options indices = map (\<lambda>i. opt_Name (options ! i)) indices"

fun SelectorIndex :: "gerror \<Rightarrow> nat" where
  "SelectorIndex (SelectorMatchError e i) = i"
| "SelectorIndex _ = 0"

definition findMatchingTemplateOption ::
  "label_selector \<Rightarrow> jsonpath_lib \<Rightarrow> OwnerResource \<Rightarrow> string \<Rightarrow> Owner \<Rightarrow> TemplateOption go" where
  "findMatchingTemplateOption lsel jp resource supplyChainName owner =
     (case BestSelectorMatchIndices lsel jp \<lparr>sb_Labels = ow_Labels owner, sb_Object = ow_Object owner\<rparr>
        (map opt_Selector (owr_TemplateOptions resource)) of
        Panic p \<Rightarrow> Panic p
      | Err err \<Rightarrow>
          Err (ResolveTemplateOptionError err (owr_Name resource)
            (opt_Name (owr_TemplateOptions resource ! SelectorIndex err)) supplyChainName SupplyChain)
      | Ret [i] \<Rightarrow> Ret (owr_TemplateOptions resource ! i)
      | Ret indices \<Rightarrow>
          Err (TemplateOptionsMatchError (owr_Name resource)
            (selected_option_names (owr_TemplateOptions resource) indices) supplyChainName SupplyChain))"

definition empty_option :: TemplateOption where
  "empty_option =
     \<lparr>opt_Name = '''', opt_PassThrough = '''',
      opt_Selector = \<lparr>sel_LabelSelector = \<lparr>ls_MatchLabels = None, ls_MatchExpressions = None\<rparr>, sel_MatchFields = None\<rparr>\<rparr>"

text \<open>The template name, whether the resource is passed through, and the option that was selected.\<close>

definition GetTemplateNameFromResource ::
  "label_selector \<Rightarrow> jsonpath_lib \<Rightarrow> OwnerResource \<Rightarrow> string \<Rightarrow> Owner \<Rightarrow> (string \<times> bool \<times> TemplateOption) go" where
  "GetTemplateNameFromResource lsel jp resource blueprintName owner =
     (if length (owr_TemplateOptions resource) > 0 then
        (case findMatchingTemplateOption lsel jp resource blueprintName owner of
           Panic p \<Rightarrow> Panic p
         | Err err \<Rightarrow> Err (WrapError ''find matching template option: '' err)
         | Ret templateOption \<Rightarrow>
             (if opt_PassThrough templateOption \<noteq> '''' then Ret ('''', True, templateOption)
              else Ret (opt_Name templateOption, False, templateOption)))
      else Ret (tref_Name (owr_TemplateRef resource), False, empty_option))"

section \<open>Realizing\<close>

definition doPassthrough ::
  "'w realizer_env \<Rightarrow> TemplateOption \<Rightarrow> OwnerResource \<Rightarrow> InputGenerator \<Rightarrow> string \<Rightarrow> string \<Rightarrow> do_result go" where
  "doPassthrough env templateOption resource inputGenerator templateName blueprintName =
     go_handle (NewPassThroughReader (tref_Kind (owr_TemplateRef resource)) (opt_PassThrough templateOption) inputGenerator)
       (\<lambda>err. Ret (do_return None None None True templateName
          (Some (WrapError ''failed to create new stamp pass through reader: '' err))))
       (\<lambda>stampReader.
     go_handle (OutputOf (re_jp env) (re_sprint env) stampReader None)
       (\<lambda>err. Ret (do_return None None None True templateName
          (Some (RetrieveOutputError err (owr_Name resource) None blueprintName SupplyChain ''''
             (opt_PassThrough templateOption) ''''))))
       (\<lambda>output. Ret (do_return None None (Some output) True templateName None)))"

definition qualified_or_log :: "rest_mapper \<Rightarrow> unstructured \<Rightarrow> string" where
  "qualified_or_log mapper obj =
     (case GetQualifiedResource mapper obj of
        Inl rErr \<Rightarrow> ''could not fetch - see the log line for '' @ [CHR 0x27] @ ''failed to retrieve qualified resource name'' @ [CHR 0x27]
      | Inr qualifiedResource \<Rightarrow> qualifiedResource)"

definition doMutable ::
  "'w realizer_env \<Rightarrow> OwnerResource \<Rightarrow> string \<Rightarrow> unstructured \<Rightarrow> Reader \<Rightarrow> bool \<Rightarrow> string \<Rightarrow> Outputter \<Rightarrow> rest_mapper \<Rightarrow>
   TemplateOption \<Rightarrow> 'w repository \<Rightarrow> (do_result \<times> 'w repository) go" where
  "doMutable env resource blueprintName stampedObject template passThrough templateName stampReader mapper templateOption r =
     (case EnsureMutableObjectExistsOnCluster (re_ownerClient env) r stampedObject of
        (Some err, obj, r') \<Rightarrow>
          Ret (do_return (Some template) None None passThrough templateName
            (Some (ApplyStampedObjectError err obj (owr_Name resource) blueprintName SupplyChain)), r')
      | (None, obj, r') \<Rightarrow>
          go_handle (OutputOf (re_jp env) (re_sprint env) stampReader (Some obj))
            (\<lambda>err. Ret (do_return (Some template) (Some obj) None passThrough templateName
               (Some (RetrieveOutputError err (owr_Name resource) (Some obj) blueprintName SupplyChain
                  (qualified_or_log mapper obj) (opt_PassThrough templateOption) '''')), r'))
            (\<lambda>output. Ret (do_return (Some template) (Some obj) (Some output) passThrough templateName None, r')))"

text \<open>The objects with their health; the pointers of the Go slice are never nil.\<close>

fun examine_objects :: "'w realizer_env \<Rightarrow> HealthRule option \<Rightarrow> unstructured list \<Rightarrow> ExaminedObject list go" where
  "examine_objects env healthRule [] = Ret []"
| "examine_objects env healthRule (obj # objs) =
     go_bind (DetermineStampedObjectHealth (re_jp env) (re_sprint env) (re_conditions env) healthRule (Some obj)) (\<lambda>health.
       go_bind (examine_objects env healthRule objs) (\<lambda>es.
         Ret (\<lparr>eo_StampedObject = obj, eo_Health = health\<rparr> # es)))"

text \<open>The deletions of the cleanup; their errors are only logged.\<close>

definition delete_all :: "'w api_client \<Rightarrow> 'w repository \<Rightarrow> unstructured list \<Rightarrow> 'w repository" where
  "delete_all cl r objs = foldl (\<lambda>r obj. snd (repo_Delete cl r obj)) r objs"

definition doImmutable ::
  "'w realizer_env \<Rightarrow> OwnerResource \<Rightarrow> string \<Rightarrow> unstructured \<Rightarrow> labels \<Rightarrow> Reader \<Rightarrow> bool \<Rightarrow> string \<Rightarrow> Outputter \<Rightarrow> rest_mapper \<Rightarrow>
   TemplateOption \<Rightarrow> 'w repository \<Rightarrow> (do_result \<times> 'w repository) go" where
  "doImmutable env resource blueprintName stampedObject ls template passThrough templateName stampReader mapper templateOption r =
     (case EnsureImmutableObjectExistsOnCluster (re_ownerClient env) r stampedObject ls of
        (Some err, obj, r1) \<Rightarrow>
          Ret (do_return (Some template) None None passThrough templateName
            (Some (ApplyStampedObjectError err obj (owr_Name resource) blueprintName SupplyChain)), r1)
      | (None, obj, r1) \<Rightarrow>
          go_handle (ListUnstructured (re_ownerClient env) r1 (u_GVK obj) (u_Namespace obj) ls)
            (\<lambda>err. Ret (do_return (Some template) None None passThrough templateName
               (Some (ListCreatedObjectsError err (u_Namespace obj) ls)), r1))
            (\<lambda>allRunnableStampedObjects.
          go_bind (examine_objects env (GetHealthRule template) allRunnableStampedObjects) (\<lambda>examinedObjects.
            (let (sortedObjects, deleted) =
                   CleanupRunnableStampedObjects (re_sort env) (GetRetentionPolicy template) examinedObjects;
                 r2 = delete_all (re_ownerClient env) r1 deleted;
                 latestSuccessfulObject = GetLatestSuccessfulObjFromExaminedObject sortedObjects
             in go_handle (OutputOf (re_jp env) (re_sprint env) stampReader latestSuccessfulObject)
                  (\<lambda>err. Ret (do_return (Some template) (Some obj) None passThrough templateName
                     (Some (RetrieveOutputError err (owr_Name resource) (Some obj) blueprintName SupplyChain
                        (qualified_or_log mapper (case latestSuccessfulObject of None \<Rightarrow> obj | Some l \<Rightarrow> l))
                        (opt_PassThrough templateOption) '''')), r2))
                  (\<lambda>output. Ret (do_return (Some template) (Some obj) (Some output) passThrough templateName None, r2))))))"

text \<open>A template reference as \<^verbatim>\<open>%+v\<close> prints it.\<close>

definition show_TemplateReference :: "TemplateReference \<Rightarrow> string" where
  "show_TemplateReference ref = ''{Kind:'' @ tref_Kind ref @ '' Name:'' @ tref_Name ref @ ''}''"

definition Do_resource ::
  "'w realizer_env \<Rightarrow> resourceRealizer \<Rightarrow> OwnerResource \<Rightarrow> string \<Rightarrow> Outputs \<Rightarrow> rest_mapper \<Rightarrow> 'w repository \<Rightarrow>
   (do_result \<times> 'w repository) go" where
  "Do_resource env rz resource blueprintName outputs mapper r =
     (let inputGenerator = NewInputGenerator resource outputs in
      go_handle (GetTemplateNameFromResource (re_lsel env) (re_jp env) resource blueprintName (rz_owner rz))
        (\<lambda>err. Ret (do_return None None None False '''' (Some (WrapError ''get template name from resource: '' err)), r))
        (\<lambda>(templateName, passThrough, templateOption).
      if passThrough then
        go_bind (doPassthrough env templateOption resource inputGenerator templateName blueprintName) (\<lambda>result. Ret (result, r))
      else
      go_handle (GetTemplate (re_systemClient env) r templateName (tref_Kind (owr_TemplateRef resource)))
        (\<lambda>err. Ret (do_return None None None passThrough templateName
           (Some (GetTemplateError err (owr_Name resource) templateName blueprintName SupplyChain)), r))
        (\<lambda>apiTemplate.
      go_handle (NewReaderFromAPI apiTemplate)
        (\<lambda>err. Ret (do_return None None None passThrough templateName
           (Some (WrapError (''failed to get cluster template ['' @ show_TemplateReference (owr_TemplateRef resource) @ '']: '') err)), r))
        (\<lambda>template.
      let ls = rz_resourceLabeler rz resource template in
      go_bind (Generate (rz_templatingContext rz) (Some (GetDefaultParams template)) resource outputs ls) (\<lambda>ctx.
      go_handle (Stamp (re_stamp env) (StamperBuilder (rz_owner rz) (re_context env ctx) ls) (GetResourceTemplate template))
        (\<lambda>err. Ret (do_return (Some template) None None passThrough templateName
           (Some (StampError err (owr_Name resource) templateName (tref_Kind (owr_TemplateRef resource)) blueprintName SupplyChain)), r))
        (\<lambda>stampedObject.
      go_handle (NewReader apiTemplate inputGenerator)
        (\<lambda>err. Ret (do_return None None None passThrough templateName
           (Some (WrapError ''failed to create new stamp reader: '' err)), r))
        (\<lambda>stampReader.
      if IsImmutable (GetLifecycle template) then
        doImmutable env resource blueprintName stampedObject ls template passThrough templateName stampReader mapper templateOption r
      else
        doMutable env resource blueprintName stampedObject template passThrough templateName stampReader mapper templateOption r)))))))"

section \<open>The contract of a resource realizer\<close>

text \<open>
  What the realizer of a blueprint relies on: a resource yields an output or an error and never both, an object comes with its
  template, and a pass through has neither.
\<close>

definition result_ok :: "do_result \<Rightarrow> bool" where
  "result_ok res \<longleftrightarrow>
     (do_output res = None \<longleftrightarrow> do_err res \<noteq> None) \<and>
     (do_stampedObject res \<noteq> None \<longrightarrow> do_template res \<noteq> None) \<and>
     (do_passThrough res \<longrightarrow> do_template res = None \<and> do_stampedObject res = None)"

lemma do_return_ok:
  "result_ok (do_return t u out pt n e) \<longleftrightarrow>
     (out = None \<longleftrightarrow> e \<noteq> None) \<and> (u \<noteq> None \<longrightarrow> t \<noteq> None) \<and> (pt \<longrightarrow> t = None \<and> u = None)"
  by (simp add: result_ok_def do_return_def)

locale resource_realizer =
  fixes Do :: "OwnerResource \<Rightarrow> string \<Rightarrow> Outputs \<Rightarrow> rest_mapper \<Rightarrow> 'w repository \<Rightarrow> (do_result \<times> 'w repository) go"
  assumes Do_ok: "Do resource blueprintName outputs mapper r = Ret (res, r') \<Longrightarrow> result_ok res"

lemma doPassthrough_ok: "doPassthrough env opt resource ig tn bn = Ret res \<Longrightarrow> result_ok res"
  by (auto simp: doPassthrough_def do_return_ok go_handle_Ret_iff)

lemma doMutable_ok:
  "doMutable env resource bn obj template False tn reader mapper opt r = Ret (res, r') \<Longrightarrow> result_ok res"
  by (auto simp: doMutable_def do_return_ok go_handle_Ret_iff split: prod.splits option.splits)

lemma doImmutable_ok:
  "doImmutable env resource bn obj ls template False tn reader mapper opt r = Ret (res, r') \<Longrightarrow> result_ok res"
  by (auto simp: doImmutable_def do_return_ok go_handle_Ret_iff go_bind_Ret_iff Let_def case_prod_beta
      split: prod.split_asm option.split_asm)

lemma Do_resource_ok: "Do_resource env rz resource bn outputs mapper r = Ret (res, r') \<Longrightarrow> result_ok res"
  by (auto simp: Do_resource_def Let_def go_bind_Ret_iff go_handle_Ret_iff do_return_ok
      split: if_splits dest!: doPassthrough_ok doMutable_ok doImmutable_ok)

interpretation component: resource_realizer "Do_resource env rz" for env rz
  by unfold_locales (rule Do_resource_ok)

section \<open>Properties\<close>

text \<open>
  The option that is selected for a resource matches the owner, and every other option that matches has strictly fewer
  requirements.
\<close>

theorem option_selected:
  assumes "findMatchingTemplateOption lsel jp resource blueprintName owner = Ret opt"
  shows "\<exists>i k. i < length (owr_TemplateOptions resource) \<and> opt = owr_TemplateOptions resource ! i \<and>
    match_score lsel jp \<lparr>sb_Labels = ow_Labels owner, sb_Object = ow_Object owner\<rparr> (opt_Selector opt) = Ret (Some k) \<and>
    (\<forall>j k'. j < length (owr_TemplateOptions resource) \<and> j \<noteq> i \<and>
       match_score lsel jp \<lparr>sb_Labels = ow_Labels owner, sb_Object = ow_Object owner\<rparr>
         (opt_Selector (owr_TemplateOptions resource ! j)) = Ret (Some k') \<longrightarrow> k' < k)"
proof -
  let ?s = "\<lparr>sb_Labels = ow_Labels owner, sb_Object = ow_Object owner\<rparr>"
  let ?opts = "owr_TemplateOptions resource"
  obtain i where i: "BestSelectorMatchIndices lsel jp ?s (map opt_Selector ?opts) = Ret [i]" "opt = ?opts ! i"
    using assms by (auto simp: findMatchingTemplateOption_def split: go.splits list.splits)
  obtain m where m: "scores_ok (match_score lsel jp ?s) m [i] (map opt_Selector ?opts)"
    using BestSelectorMatchIndices_ok [OF i(1)] .
  have mem: "j = i \<longleftrightarrow> j < length ?opts \<and> match_score lsel jp ?s (opt_Selector (?opts ! j)) = Ret (Some m)" for j
    using arg_cong [OF scores_okD(2) [OF m], of "\<lambda>xs. j \<in> set xs"] by auto
  have "k' < m" if "j < length ?opts" "j \<noteq> i" "match_score lsel jp ?s (opt_Selector (?opts ! j)) = Ret (Some k')" for j k'
    using scores_okD(3) [OF m, of "opt_Selector (?opts ! j)"] mem [of j] that by (auto simp: le_less)
  then show ?thesis using mem [of i] i(2) by blast
qed

theorem option_selected_witness:
  "\<exists>opt. findMatchingTemplateOption (\<lambda>l. Inr (\<lambda>ls. True))
     \<lparr>jp_Parse = \<lambda>e. None, jp_FindResults = \<lambda>e v. Inr [[v]], jp_PrintResults = \<lambda>r. Inr '''',
      jp_ShowResults = \<lambda>r. '''', jp_Unmarshal = \<lambda>b. Inr [JNull]\<rparr>
     \<lparr>owr_TemplateRef = \<lparr>tref_Kind = ''ClusterTemplate'', tref_Name = ''''\<rparr>,
       owr_TemplateOptions = [empty_option, \<lparr>opt_Name = ''b'', opt_PassThrough = '''',
         opt_Selector = \<lparr>sel_LabelSelector = \<lparr>ls_MatchLabels = Some (fmap_of_list [(''k'', ''v'')]), ls_MatchExpressions = None\<rparr>,
           sel_MatchFields = None\<rparr>\<rparr>],
       owr_Params = [], owr_Name = ''a'', owr_Sources = [], owr_Images = [], owr_Configs = [], owr_Deployment = None\<rparr>
     ''chain'' \<lparr>ow_APIVersion = '''', ow_Kind = '''', ow_UID = '''', ow_Name = '''', ow_Namespace = '''', ow_Labels = fmempty,
       ow_Object = JNull\<rparr> = Ret opt \<and> opt_Name opt = ''b''"
  (is "\<exists>opt. findMatchingTemplateOption ?l ?jp ?r ?bn ?o = Ret opt \<and> _")
proof -
  have "BestSelectorMatchIndices ?l ?jp \<lparr>sb_Labels = ow_Labels ?o, sb_Object = ow_Object ?o\<rparr>
      (map opt_Selector (owr_TemplateOptions ?r)) = Ret [1]"
    by (simp add: BestSelectorMatchIndices_def best_loop.simps empty_option_def fmap_len_def Let_def fcard_finsert_if)
  then have opt: "findMatchingTemplateOption ?l ?jp ?r ?bn ?o = Ret (owr_TemplateOptions ?r ! 1)"
    unfolding findMatchingTemplateOption_def by simp
  then show ?thesis using option_selected [OF opt] by auto
qed

end
