(* ===== verification/Resource_Statuses.thy ===== *)
theory Resource_Statuses
  imports Health
begin

text \<open>
  \<^verbatim>\<open>pkg/realizer/statuses/resource_statuses.go\<close>: the bookkeeping of the statuses of an owner's resources
  while it is realized.  The struct \<^verbatim>\<open>resourceStatuses\<close> keeps pointers to its entries, and every entry is
  reachable from it only, so a list of records with an update of the first entry of a name models
  it.  The function \<^verbatim>\<open>addConditionsFunc\<close> is kept in the record, as in the struct; what is assumed of it is
  the locale \<open>submission_conditions\<close>.

  The results: a reconciler that skips the status update because \<^verbatim>\<open>IsChanged\<close> is false loses no resource status, and
  the \<^verbatim>\<open>Ready\<close> condition of a resource is True exactly when the resource was submitted without error
  and its further conditions are fine.
\<close>

section \<open>The model\<close>

type_synonym AddConditionsFunc = "time \<Rightarrow> conditionManager \<Rightarrow> bool \<Rightarrow> gerror \<Rightarrow> conditionManager"

record resourceStatus =
  st_name :: string
  st_previous :: "ResourceStatus option"
  st_current :: "ResourceStatus option"
  st_conditionsChanged :: bool

record resourceStatuses =
  rss_statuses :: "resourceStatus list"
  rss_addConditionsFunc :: AddConditionsFunc

abbreviation resource_status_name :: "ResourceStatus \<Rightarrow> string" where
  "resource_status_name s \<equiv> rr_Name (rs_RealizedResource s)"

definition NewResourceStatuses :: "ResourceStatus list \<Rightarrow> AddConditionsFunc \<Rightarrow> resourceStatuses" where
  "NewResourceStatuses previousResourceStatuses addConditionsFunc =
     \<lparr>rss_statuses = map (\<lambda>p. \<lparr>st_name = resource_status_name p, st_previous = Some p, st_current = None,
                                st_conditionsChanged = False\<rparr>) previousResourceStatuses,
      rss_addConditionsFunc = addConditionsFunc\<rparr>"

definition ConditionsForResourceNamed :: "ResourceStatus list \<Rightarrow> string \<Rightarrow> condition list" where
  "ConditionsForResourceNamed rsl resourceName =
     (case find (\<lambda>s. resource_status_name s = resourceName) rsl of None \<Rightarrow> [] | Some s \<Rightarrow> rs_Conditions s)"

text \<open>The loop body of \<^verbatim>\<open>IsChanged\<close>.\<close>

definition status_changed :: "resourceStatus \<Rightarrow> bool" where
  "status_changed s =
     (case st_current s of
        None \<Rightarrow> True
      | Some c \<Rightarrow>
          (case st_previous s of
             None \<Rightarrow> True
           | Some p \<Rightarrow> st_conditionsChanged s \<or> rs_RealizedResource c \<noteq> rs_RealizedResource p))"

definition IsChanged :: "resourceStatuses \<Rightarrow> bool" where
  "IsChanged r \<longleftrightarrow> (\<exists>s\<in>set (rss_statuses r). status_changed s)"

definition GetCurrent :: "resourceStatuses \<Rightarrow> ResourceStatus list" where
  "GetCurrent r = List.map_filter st_current (rss_statuses r)"

definition GetPreviousResourceStatus :: "resourceStatuses \<Rightarrow> string \<Rightarrow> ResourceStatus option" where
  "GetPreviousResourceStatus r name =
     (case find (\<lambda>s. st_name s = name) (rss_statuses r) of None \<Rightarrow> None | Some s \<Rightarrow> st_previous s)"

definition createConditions ::
  "time \<Rightarrow> AddConditionsFunc \<Rightarrow> ResourceStatus option \<Rightarrow> gerror option \<Rightarrow> bool \<Rightarrow> condition list \<Rightarrow> condition list \<times> bool" where
  "createConditions now addConditionsFunc previous err isPassThrough furtherConditions =
     (let previousConditions = (case previous of None \<Rightarrow> [] | Some p \<Rightarrow> rs_Conditions p);
          m0 = NewConditionManager ResourceReady previousConditions;
          m1 = (case err of
                  Some e \<Rightarrow> addConditionsFunc now m0 False e
                | None \<Rightarrow> AddPositive now m0 (ResourceSubmittedCondition isPassThrough));
          m2 = foldl (AddPositive now) m1 furtherConditions;
          (resourceConditions, changed, m') = Finalize now m2
      in (resourceConditions, changed))"

fun update_first :: "('a \<Rightarrow> bool) \<Rightarrow> ('a \<Rightarrow> 'a) \<Rightarrow> 'a list \<Rightarrow> 'a list" where
  "update_first P f [] = []"
| "update_first P f (x # xs) = (if P x then f x # xs else x # update_first P f xs)"

definition AddStatus ::
  "time \<Rightarrow> resourceStatuses \<Rightarrow> RealizedResource \<Rightarrow> gerror option \<Rightarrow> bool \<Rightarrow> condition list \<Rightarrow> resourceStatuses" where
  "AddStatus now r realizedResource err isPassThrough furtherConditions =
     (let name = rr_Name realizedResource;
          statuses =
            (if \<exists>s\<in>set (rss_statuses r). st_name s = name then rss_statuses r
             else rss_statuses r @ [\<lparr>st_name = name, st_previous = None, st_current = None, st_conditionsChanged = False\<rparr>])
      in r\<lparr>rss_statuses :=
            update_first (\<lambda>s. st_name s = name)
              (\<lambda>s. let (cs, changed) = createConditions now (rss_addConditionsFunc r) (st_previous s) err isPassThrough furtherConditions
                   in s\<lparr>st_current := Some \<lparr>rs_RealizedResource = realizedResource, rs_Conditions = cs\<rparr>,
                        st_conditionsChanged := changed\<rparr>)
              statuses\<rparr>)"

definition conditionChanged :: "ResourceStatus option \<Rightarrow> condition \<Rightarrow> bool" where
  "conditionChanged previousResourceStatus newCondition =
     (case previousResourceStatus of
        Some p \<Rightarrow>
          (case find (\<lambda>c. cond_Type c = cond_Type newCondition) (rs_Conditions p) of
             Some c \<Rightarrow> cond_Status c \<noteq> cond_Status newCondition
           | None \<Rightarrow> cond_Status newCondition \<noteq> ''Unknown'')
      | None \<Rightarrow> cond_Status newCondition \<noteq> ''Unknown'')"

definition ChangedConditionTypes :: "resourceStatuses \<Rightarrow> string \<Rightarrow> string list" where
  "ChangedConditionTypes r name =
     concat (map (\<lambda>s. if st_name s = name then
         (case st_current s of
            None \<Rightarrow> []
          | Some c \<Rightarrow> map cond_Type (filter (conditionChanged (st_previous s)) (rs_Conditions c)))
       else []) (rss_statuses r))"

section \<open>Conditions of one resource\<close>

text \<open>The additions that \<^verbatim>\<open>createConditions\<close> makes: the submitted condition first, then the further ones.\<close>

definition status_additions :: "time \<Rightarrow> condition \<Rightarrow> condition list \<Rightarrow> addition list" where
  "status_additions now c further = (now, c, Positive) # map (\<lambda>c. (now, c, Positive)) further"

definition previous_conditions :: "ResourceStatus option \<Rightarrow> condition list" where
  "previous_conditions prev = (case prev of None \<Rightarrow> [] | Some p \<Rightarrow> rs_Conditions p)"

definition created_conditions :: "time \<Rightarrow> condition \<Rightarrow> ResourceStatus option \<Rightarrow> condition list \<Rightarrow> condition list \<times> bool" where
  "created_conditions now c prev further =
     (case Finalize now (add_all Add (NewConditionManager ResourceReady (previous_conditions prev))
        (status_additions now c further)) of (cs, ch, m) \<Rightarrow> (cs, ch))"

lemma created_conditions_Finalize:
  assumes "created_conditions now c prev further = (cs, ch)"
  obtains m' where "Finalize now (add_all Add (NewConditionManager ResourceReady (previous_conditions prev))
    (status_additions now c further)) = (cs, ch, m')"
  using assms by (auto simp: created_conditions_def split: prod.splits)

context submission_conditions
begin

lemma createConditions_adds:
  "\<exists>c. (\<forall>now prev further. createConditions now add_error prev err pt further = created_conditions now c prev further) \<and>
     (cond_Status c = ConditionTrue \<longleftrightarrow> err = None) \<and> cond_Status c \<in> {ConditionTrue, ConditionFalse, ConditionUnknown}"
proof (cases err)
  case None
  show ?thesis
    by (rule exI [of _ "ResourceSubmittedCondition pt"])
      (simp add: None createConditions_def created_conditions_def previous_conditions_def status_additions_def
        Let_def foldl_AddPositive add_all_Cons AddPositive_def ResourceSubmittedCondition_def)
next
  case (Some e)
  obtain c where c: "cond_Status c \<in> {ConditionFalse, ConditionUnknown}"
      "\<And>now m. add_error now m False e = AddPositive now m c"
    using adds_one [of False e] by blast
  then have "createConditions now add_error prev err pt further = created_conditions now c prev further" for now prev further
    by (simp add: Some createConditions_def created_conditions_def previous_conditions_def status_additions_def
        Let_def foldl_AddPositive add_all_Cons AddPositive_def)
  then show ?thesis using c(1) Some by auto
qed

lemma ready_iff:
  assumes "createConditions now add_error prev err pt further = (cs, ch)"
  shows "cs \<noteq> [] \<and> cond_Type (last cs) = ResourceReady \<and>
    (cond_Status (last cs) = ConditionTrue \<longleftrightarrow>
       err = None \<and> cond_Status ` set further \<inter> {ConditionFalse, ConditionUnknown} = {})"
proof -
  obtain c where c: "\<forall>now prev further. createConditions now add_error prev err pt further = created_conditions now c prev further"
      "cond_Status c = ConditionTrue \<longleftrightarrow> err = None"
      "cond_Status c \<in> {ConditionTrue, ConditionFalse, ConditionUnknown}"
    using createConditions_adds [of err pt] by (elim exE conjE)
  have "created_conditions now c prev further = (cs, ch)" using assms c(1) by simp
  then obtain m' where f: "Finalize now (add_all Add (NewConditionManager ResourceReady (previous_conditions prev))
    (status_additions now c further)) = (cs, ch, m')" by (rule created_conditions_Finalize)
  have "cond_Type (last cs) = ResourceReady"
    using cm.finalize_last_sel(1) [OF f] by (simp add: top_condition_def status_additions_def split: prod.split)
  moreover have "cond_Status (last cs) = ConditionTrue \<longleftrightarrow>
      err = None \<and> cond_Status ` set further \<inter> {ConditionFalse, ConditionUnknown} = {}"
    using cm.finalize_True_iff [OF f] c(2,3) by (auto simp: mem_image_iff status_additions_def)
  ultimately show ?thesis using cm.finalize_last(1) [OF f] by blast
qed

lemma unchanged_conditions:
  assumes "createConditions now add_error prev err pt further = (cs, False)"
    and "distinct (map cond_Type (previous_conditions prev))"
  shows "set cs \<subseteq> set (previous_conditions prev)"
proof -
  obtain c where c: "\<forall>now prev further. createConditions now add_error prev err pt further = created_conditions now c prev further"
    using createConditions_adds [of err pt] by (elim exE conjE)
  have "created_conditions now c prev further = (cs, False)" using assms(1) c by simp
  then obtain m' where f: "Finalize now (add_all Add (NewConditionManager ResourceReady (previous_conditions prev))
    (status_additions now c further)) = (cs, False, m')" by (rule created_conditions_Finalize)
  show ?thesis by (rule cm.finalize_unchanged [OF f _ assms(2)]) (simp add: status_additions_def)
qed

end

section \<open>A sequence of additions\<close>

type_synonym status_addition = "time \<times> RealizedResource \<times> gerror option \<times> bool \<times> condition list"

definition add_statuses :: "resourceStatuses \<Rightarrow> status_addition list \<Rightarrow> resourceStatuses" where
  "add_statuses r xs = foldl (\<lambda>r (now, rr, err, pt, further). AddStatus now r rr err pt further) r xs"

lemma add_statuses_Nil [simp]: "add_statuses r [] = r"
  by (simp add: add_statuses_def)

lemma add_statuses_snoc [simp]:
  "add_statuses r (xs @ [(now, rr, err, pt, further)]) = AddStatus now (add_statuses r xs) rr err pt further"
  by (simp add: add_statuses_def)

lemma map_filter_the: "(\<And>s. s \<in> set ss \<Longrightarrow> f s \<noteq> None) \<Longrightarrow> List.map_filter f ss = map (the \<circ> f) ss"
  by (induction ss) (auto simp: List.map_filter_simps split: option.splits)

lemma map_update_first: "(\<And>x. g (f x) = g x) \<Longrightarrow> map g (update_first P f xs) = map g xs"
  by (induction xs) auto

lemma set_update_first: "set (update_first P f xs) \<subseteq> set xs \<union> f ` {x \<in> set xs. P x}"
  by (induction xs) auto

lemma AddStatus_func [simp]: "rss_addConditionsFunc (AddStatus now r rr err pt further) = rss_addConditionsFunc r"
  by (simp add: AddStatus_def Let_def)

lemma add_statuses_func [simp]: "rss_addConditionsFunc (add_statuses r xs) = rss_addConditionsFunc r"
  by (induction xs rule: rev_induct) auto

text \<open>The previous statuses are never touched; new entries have none.\<close>

lemma AddStatus_previous:
  "\<exists>k. map st_previous (rss_statuses (AddStatus now r rr err pt further)) =
     map st_previous (rss_statuses r) @ replicate k None"
proof -
  have "map st_previous (rss_statuses (AddStatus now r rr err pt further)) =
      map st_previous (rss_statuses r) @
        replicate (if \<exists>s\<in>set (rss_statuses r). st_name s = rr_Name rr then 0 else 1) None"
    by (simp add: AddStatus_def Let_def map_update_first case_prod_beta)
  then show ?thesis by blast
qed

lemma add_statuses_previous:
  "\<exists>k. map st_previous (rss_statuses (add_statuses (NewResourceStatuses prev f) xs)) = map Some prev @ replicate k None"
proof (induction xs rule: rev_induct)
  case Nil
  have "map st_previous (rss_statuses (NewResourceStatuses prev f)) = map Some prev @ replicate 0 None"
    by (simp add: NewResourceStatuses_def comp_def)
  then show ?case by (auto intro: exI [of _ 0])
next
  case (snoc x xs)
  obtain now rr err pt further where x: "x = (now, rr, err, pt, further)" by (cases x)
  obtain k where k: "map st_previous (rss_statuses (add_statuses (NewResourceStatuses prev f) xs)) =
      map Some prev @ replicate k None" using snoc by blast
  obtain j where "map st_previous (rss_statuses (AddStatus now (add_statuses (NewResourceStatuses prev f) xs) rr err pt further)) =
      map st_previous (rss_statuses (add_statuses (NewResourceStatuses prev f) xs)) @ replicate j None"
    using AddStatus_previous by blast
  then have "map st_previous (rss_statuses (add_statuses (NewResourceStatuses prev f) (xs @ [x]))) =
      map Some prev @ replicate (k + j) None"
    by (simp add: x k replicate_add)
  then show ?case by blast
qed

context submission_conditions
begin

text \<open>Conditions that did not change are among the previous ones.\<close>

lemma add_statuses_conditions:
  assumes "\<And>p. p \<in> set prev \<Longrightarrow> distinct (map cond_Type (rs_Conditions p))"
    and "s \<in> set (rss_statuses (add_statuses (NewResourceStatuses prev add_error) xs))"
    and "st_current s = Some c" "st_previous s = Some p" "\<not> st_conditionsChanged s"
  shows "set (rs_Conditions c) \<subseteq> set (rs_Conditions p)"
  using assms(2-)
proof (induction xs arbitrary: s c rule: rev_induct)
  case Nil
  then show ?case by (auto simp: NewResourceStatuses_def)
next
  case (snoc x xs)
  obtain now rr err pt further where x: "x = (now, rr, err, pt, further)" by (cases x)
  let ?r = "add_statuses (NewResourceStatuses prev add_error) xs"
  let ?new = "\<lparr>st_name = rr_Name rr, st_previous = None, st_current = None, st_conditionsChanged = False\<rparr>"
  let ?f = "\<lambda>s. let (cs, changed) = createConditions now add_error (st_previous s) err pt further
       in s\<lparr>st_current := Some \<lparr>rs_RealizedResource = rr, rs_Conditions = cs\<rparr>, st_conditionsChanged := changed\<rparr>"
  have fn: "rss_addConditionsFunc (NewResourceStatuses prev add_error) = add_error"
    by (simp add: NewResourceStatuses_def)
  have "rss_statuses (add_statuses (NewResourceStatuses prev add_error) (xs @ [x])) =
      update_first (\<lambda>s. st_name s = rr_Name rr) ?f
        (if \<exists>s\<in>set (rss_statuses ?r). st_name s = rr_Name rr then rss_statuses ?r else rss_statuses ?r @ [?new])"
    by (simp add: x AddStatus_def Let_def fn)
  then have "s \<in> set (rss_statuses ?r) \<union> {?new} \<or> (\<exists>s'. s = ?f s' \<and> (s' \<in> set (rss_statuses ?r) \<union> {?new}))"
    using snoc.prems(1) set_update_first [of "\<lambda>s. st_name s = rr_Name rr" ?f] by (fastforce split: if_splits)
  then consider "s \<in> set (rss_statuses ?r)" | s' where "s = ?f s'" | "s = ?new" by blast
  then show ?case
  proof cases
    case 1
    then show ?thesis using snoc.IH snoc.prems by blast
  next
    case 2
    obtain cs ch where cc: "createConditions now add_error (st_previous s') err pt further = (cs, ch)"
      by (cases "createConditions now add_error (st_previous s') err pt further")
    have s: "st_previous s' = Some p" "ch = False" "rs_Conditions c = cs"
      using 2 snoc.prems(2-) by (auto simp: cc)
    have "Some p \<in> set (map st_previous (rss_statuses (add_statuses (NewResourceStatuses prev add_error) (xs @ [x]))))"
      using snoc.prems(1,3) by (metis list.set_map imageI)
    moreover obtain k where "map st_previous (rss_statuses (add_statuses (NewResourceStatuses prev add_error) (xs @ [x]))) =
        map Some prev @ replicate k None"
      using add_statuses_previous by blast
    ultimately have "Some p \<in> set (map Some prev @ replicate k None)" by (simp only:)
    then have "p \<in> set prev" by auto
    then show ?thesis
      using unchanged_conditions [of now "Some p" err pt further cs] cc s assms(1) by (simp add: previous_conditions_def)
  next
    case 3
    then show ?thesis using snoc.prems(3) by simp
  qed
qed

lemma not_changed_current:
  assumes "\<And>p. p \<in> set prev \<Longrightarrow> distinct (map cond_Type (rs_Conditions p))"
    and "\<not> IsChanged (add_statuses (NewResourceStatuses prev add_error) xs)"
  shows "list_all2 (\<lambda>c p. rs_RealizedResource c = rs_RealizedResource p \<and> set (rs_Conditions c) \<subseteq> set (rs_Conditions p))
    (GetCurrent (add_statuses (NewResourceStatuses prev add_error) xs)) prev"
proof -
  let ?ss = "rss_statuses (add_statuses (NewResourceStatuses prev add_error) xs)"
  let ?P = "\<lambda>c p. rs_RealizedResource c = rs_RealizedResource p \<and> set (rs_Conditions c) \<subseteq> set (rs_Conditions p)"
  have each: "\<exists>c p. st_current s = Some c \<and> st_previous s = Some p \<and> ?P c p" if s: "s \<in> set ?ss" for s
  proof -
    have "\<not> status_changed s" using assms(2) s by (auto simp: IsChanged_def)
    then obtain c p where cp: "st_current s = Some c" "st_previous s = Some p" "\<not> st_conditionsChanged s"
        "rs_RealizedResource c = rs_RealizedResource p"
      by (auto simp: status_changed_def split: option.splits)
    then show ?thesis using add_statuses_conditions [OF assms(1) s cp(1-3)] by blast
  qed
  obtain k where k: "map st_previous ?ss = map Some prev @ replicate k None"
    using add_statuses_previous by blast
  have "None \<notin> set (map st_previous ?ss)" using each by fastforce
  then have "k = 0" unfolding k by (cases k) auto
  then have prev: "prev = map (the \<circ> st_previous) ?ss"
    using k by (metis append.right_neutral list.map_comp list.map_id0 map_idI option.sel replicate_0 comp_apply)
  have cur: "List.map_filter st_current ?ss = map (the \<circ> st_current) ?ss"
    using each by (intro map_filter_the) fastforce
  have "list_all2 ?P (map (the \<circ> st_current) ?ss) (map (the \<circ> st_previous) ?ss)"
    unfolding list_all2_map1 list_all2_map2 using each by (intro list.rel_refl_strong) force
  then show ?thesis unfolding GetCurrent_def cur by (subst prev)
qed

end

section \<open>Properties\<close>

text \<open>
  C24: if the resource statuses of a workload report no change after any sequence of additions, then the current statuses belong
  one by one to the previous ones: same realized resource, and every current condition, transition time included, already among
  the previous conditions.  So skipping the status update loses nothing that was added.  The converse inclusion does not hold: a previous
  condition that was not added again counts as no change, and then it stays in the status.
\<close>

theorem unchanged_workload_statuses:
  assumes "\<And>p. p \<in> set prev \<Longrightarrow> distinct (map cond_Type (rs_Conditions p))"
    and "\<not> IsChanged (add_statuses (NewResourceStatuses prev AddConditionForResourceSubmittedWorkload) xs)"
  shows "list_all2 (\<lambda>c p. rs_RealizedResource c = rs_RealizedResource p \<and> set (rs_Conditions c) \<subseteq> set (rs_Conditions p))
    (GetCurrent (add_statuses (NewResourceStatuses prev AddConditionForResourceSubmittedWorkload) xs)) prev"
  by (rule workload_errors.not_changed_current [OF assms])

theorem unchanged_workload_statuses_witness:
  "let rr = \<lparr>rr_Name = ''r'', rr_StampedRef = None, rr_TemplateRef = None, rr_Inputs = [], rr_Outputs = []\<rparr>;
       prev = [\<lparr>rs_RealizedResource = rr, rs_Conditions =
         [mk_condition ''ResourceSubmitted'' ''True'' ''ResourceSubmissionComplete'' '''', mk_condition ''Ready'' ''True'' ''Ready'' '''']\<rparr>];
       r = add_statuses (NewResourceStatuses prev AddConditionForResourceSubmittedWorkload) [(7, rr, None, False, [])]
   in list_all2 (\<lambda>c p. rs_RealizedResource c = rs_RealizedResource p \<and> set (rs_Conditions c) \<subseteq> set (rs_Conditions p))
        (GetCurrent r) prev"
proof -
  let ?rr = "\<lparr>rr_Name = ''r'', rr_StampedRef = None, rr_TemplateRef = None, rr_Inputs = [], rr_Outputs = []\<rparr>"
  let ?prev = "[\<lparr>rs_RealizedResource = ?rr, rs_Conditions =
         [mk_condition ''ResourceSubmitted'' ''True'' ''ResourceSubmissionComplete'' '''', mk_condition ''Ready'' ''True'' ''Ready'' '''']\<rparr>]"
  have "\<not> IsChanged (add_statuses (NewResourceStatuses ?prev AddConditionForResourceSubmittedWorkload) [(7, ?rr, None, False, [])])"
    by (simp add: add_statuses_def AddStatus_def NewResourceStatuses_def createConditions_def IsChanged_def status_changed_def
        AddPositive_def Add_def NewConditionManager_def Finalize_def ResourceSubmittedCondition_def mk_condition_def api_defs Let_def)
  moreover have "distinct (map cond_Type (rs_Conditions p))" if "p \<in> set ?prev" for p
    using that by simp
  ultimately show ?thesis
    unfolding Let_def by (intro unchanged_workload_statuses)
qed

text \<open>
  The \<^verbatim>\<open>Ready\<close> condition that a deliverable's resource gets is True exactly when the resource was realized without an
  error and none of its further conditions is False or Unknown.
\<close>

theorem deliverable_resource_ready_iff:
  "cond_Status (last (fst (createConditions now AddConditionForResourceSubmittedDeliverable prev err pt further))) = ConditionTrue \<longleftrightarrow>
     err = None \<and> cond_Status ` set further \<inter> {ConditionFalse, ConditionUnknown} = {}"
  using deliverable_errors.ready_iff [of now prev err pt further]
  by (cases "createConditions now AddConditionForResourceSubmittedDeliverable prev err pt further") auto

end
