(* ===== verification/Realizer.thy ===== *)
theory Realizer
  imports Resource_Realizer Resource_Statuses
begin

text \<open>
  \<^verbatim>\<open>pkg/realizer/realizer.go\<close>: realizing all resources of a blueprint in order, with the outputs of each available to the
  later ones, and describing them in the status of the owner.

  The interface \<^verbatim>\<open>ResourceRealizer\<close> is an argument \<open>Do\<close> (its contract is the locale \<open>resource_realizer\<close>).  The YAML encoder, the
  hash and \<^verbatim>\<open>strings.ShortenString\<close> of the Kubernetes utilities are the record \<open>output_env\<close>.  All calls of \<^verbatim>\<open>time.Now()\<close>
  made for the \<open>n\<close>-th resource yield \<open>clock n\<close>.
\<close>

section \<open>Outputs\<close>

record output_env =
  oe_Yaml :: "json \<Rightarrow> gerror + string"
  oe_Sha256 :: "string \<Rightarrow> string"
  oe_ShortenString :: "string \<Rightarrow> nat \<Rightarrow> string"

definition PreviewCharacterLimit :: nat where
  "PreviewCharacterLimit = 1024"

definition buildOneOutput :: "output_env \<Rightarrow> string \<Rightarrow> json \<Rightarrow> gerror + Output" where
  "buildOneOutput oe name value =
     (case oe_Yaml oe value of
        Inl err \<Rightarrow> Inl err
      | Inr bytes \<Rightarrow>
          Inr \<lparr>out_Name = name, out_Preview = oe_ShortenString oe bytes PreviewCharacterLimit,
               out_Digest = ''sha256:'' @ oe_Sha256 oe bytes, out_LastTransitionTime = zero_time\<rparr>)"

definition generateResourceOutput :: "output_env \<Rightarrow> TOutput option \<Rightarrow> gerror + Output list" where
  "generateResourceOutput oe output =
     (case output of
        None \<Rightarrow> Inr []
      | Some out \<Rightarrow>
          (case to_Source out of
             Some source \<Rightarrow>
               (case buildOneOutput oe ''url'' (so_URL source) of
                  Inl err \<Rightarrow> Inl err
                | Inr urlOut \<Rightarrow>
                    (case buildOneOutput oe ''revision'' (so_Revision source) of
                       Inl err \<Rightarrow> Inl err
                     | Inr revisionOut \<Rightarrow> Inr [urlOut, revisionOut]))
           | None \<Rightarrow>
               (if to_Image out \<noteq> JNull then
                  (case buildOneOutput oe ''image'' (to_Image out) of Inl err \<Rightarrow> Inl err | Inr o' \<Rightarrow> Inr [o'])
                else if to_Config out \<noteq> JNull then
                  (case buildOneOutput oe ''config'' (to_Config out) of Inl err \<Rightarrow> Inl err | Inr o' \<Rightarrow> Inr [o'])
                else Inr [])))"

text \<open>The transition time of one output: that of the previous output of the same name when the digest is the same.\<close>

definition transition_time :: "time \<Rightarrow> Output list \<Rightarrow> Output \<Rightarrow> Output" where
  "transition_time currTime previousOutputs out =
     out\<lparr>out_LastTransitionTime :=
        (case find (\<lambda>p. out_Name p = out_Name out) previousOutputs of
           None \<Rightarrow> currTime
         | Some previousOutput \<Rightarrow>
             (if out_Digest previousOutput = out_Digest out then out_LastTransitionTime previousOutput else currTime))\<rparr>"

definition getOutputs :: "output_env \<Rightarrow> time \<Rightarrow> RealizedResource \<Rightarrow> TOutput option \<Rightarrow> Output list" where
  "getOutputs oe now previousRealizedResource output =
     (case generateResourceOutput oe output of
        Inl err \<Rightarrow> rr_Outputs previousRealizedResource
      | Inr outputs \<Rightarrow> map (transition_time now (rr_Outputs previousRealizedResource)) outputs)"

section \<open>Describing a resource\<close>

definition resource_inputs :: "OwnerResource \<Rightarrow> Input list" where
  "resource_inputs resource =
     map (\<lambda>source. \<lparr>in_Name = ref_Resource source\<rparr>) (owr_Sources resource) @
     map (\<lambda>image. \<lparr>in_Name = ref_Resource image\<rparr>) (owr_Images resource) @
     (case owr_Deployment resource of None \<Rightarrow> [] | Some d \<Rightarrow> [\<lparr>in_Name = dref_Resource d\<rparr>]) @
     map (\<lambda>config. \<lparr>in_Name = ref_Resource config\<rparr>) (owr_Configs resource)"

definition empty_realized :: RealizedResource where
  "empty_realized = \<lparr>rr_Name = '''', rr_StampedRef = None, rr_TemplateRef = None, rr_Inputs = [], rr_Outputs = []\<rparr>"

definition stamped_ref :: "rest_mapper \<Rightarrow> unstructured \<Rightarrow> StampedRef" where
  "stamped_ref mapper obj =
     \<lparr>sref_ObjectReference = \<lparr>or_Kind = u_Kind obj, or_Namespace = u_Namespace obj, or_Name = u_Name obj,
                               or_APIVersion = u_APIVersion obj\<rparr>,
      sref_Resource =
        (case GetQualifiedResource mapper obj of
           Inl err \<Rightarrow> ''could not fetch - see logs for '' @ [CHR 0x27] @ ''failed to retrieve qualified resource name'' @ [CHR 0x27]
         | Inr qualifiedResource \<Rightarrow> qualifiedResource)\<rparr>"

definition generateRealizedResource ::
  "output_env \<Rightarrow> rest_mapper \<Rightarrow> time \<Rightarrow> OwnerResource \<Rightarrow> Reader option \<Rightarrow> unstructured option \<Rightarrow> TOutput option \<Rightarrow>
   RealizedResource option \<Rightarrow> bool \<Rightarrow> string \<Rightarrow> RealizedResource" where
  "generateRealizedResource oe mapper now resource template stampedObject output previous isPassThrough templateName =
     (let previousRealizedResource = (case previous of None \<Rightarrow> empty_realized | Some p \<Rightarrow> p)
      in \<lparr>rr_Name = owr_Name resource,
          rr_StampedRef = map_option (stamped_ref mapper) stampedObject,
          rr_TemplateRef =
            (if template \<noteq> None then
               Some \<lparr>or_Kind = tref_Kind (owr_TemplateRef resource), or_Namespace = '''', or_Name = templateName,
                     or_APIVersion = SchemeGroup @ ''/'' @ SchemeVersion\<rparr>
             else None),
          rr_Inputs = resource_inputs resource,
          rr_Outputs =
            (if template \<noteq> None \<or> isPassThrough then getOutputs oe now previousRealizedResource output else [])\<rparr>)"

section \<open>Realizing a blueprint\<close>

record realizer =
  rl_healthyConditionEvaluator :: "HealthRule option \<Rightarrow> RealizedResource option \<Rightarrow> unstructured option \<Rightarrow> condition go"
  rl_mapper :: rest_mapper

text \<open>Without an evaluator the default one is taken.\<close>

definition NewRealizer ::
  "jsonpath_lib \<Rightarrow> (json \<Rightarrow> string) \<Rightarrow> condition_decoder \<Rightarrow>
   (HealthRule option \<Rightarrow> RealizedResource option \<Rightarrow> unstructured option \<Rightarrow> condition go) option \<Rightarrow> rest_mapper \<Rightarrow> realizer" where
  "NewRealizer jp sv cd evaluator mapper =
     \<lparr>rl_healthyConditionEvaluator = (case evaluator of None \<Rightarrow> DetermineHealthCondition jp sv cd | Some e \<Rightarrow> e),
      rl_mapper = mapper\<rparr>"

text \<open>The event about new outputs.\<close>

definition output_event :: "bool \<Rightarrow> string \<Rightarrow> unstructured option \<Rightarrow> recorder_call" where
  "output_event isPassThrough name stampedObject =
     (if isPassThrough then
        CallEventf NormalType ResourceOutputChangedReason ''[%s] passed through a new output'' [name]
      else
        CallResourceEventf NormalType ResourceOutputChangedReason ''[%s] found a new output in [%Q]'' stampedObject [name])"

text \<open>The two branches of one step of the loop: a resource that was realized now, or one that is kept as it was.\<close>

definition describe_new ::
  "realizer \<Rightarrow> output_env \<Rightarrow> time \<Rightarrow> OwnerResource \<Rightarrow> do_result \<Rightarrow> RealizedResource option \<Rightarrow> 'w repository \<Rightarrow>
   (RealizedResource \<times> condition list \<times> 'w repository) go" where
  "describe_new rl oe now resource res previousRealizedResource r =
     (let realizedResource =
            generateRealizedResource oe (rl_mapper rl) now resource (do_template res) (do_stampedObject res) (do_output res)
              previousRealizedResource (do_passThrough res) (do_templateName res);
          previousOutputs = (case previousRealizedResource of None \<Rightarrow> [] | Some p \<Rightarrow> rr_Outputs p);
          r' = (if previousOutputs \<noteq> rr_Outputs realizedResource
                then repo_event r (output_event (do_passThrough res) (rr_Name realizedResource) (do_stampedObject res)) else r)
      in case do_template res of
           None \<Rightarrow> Ret (realizedResource, [], r')
         | Some template \<Rightarrow>
             go_bind (rl_healthyConditionEvaluator rl (GetHealthRule template) (Some realizedResource) (do_stampedObject res))
               (\<lambda>c. Ret (realizedResource, [c], r')))"

definition describe_resource ::
  "realizer \<Rightarrow> output_env \<Rightarrow> time \<Rightarrow> OwnerResource \<Rightarrow> do_result \<Rightarrow> ResourceStatus option \<Rightarrow> 'w repository \<Rightarrow>
   (RealizedResource \<times> condition list \<times> 'w repository) go" where
  "describe_resource rl oe now resource res previousResourceStatus r =
     (case previousResourceStatus of
        Some previous \<Rightarrow>
          if do_stampedObject res = None \<or> do_template res = None then
            Ret (rs_RealizedResource previous,
                 (case ConditionWithType (rs_Conditions previous) ResourceHealthy of None \<Rightarrow> [] | Some c \<Rightarrow> [c]), r)
          else describe_new rl oe now resource res (Some (rs_RealizedResource previous)) r
      | None \<Rightarrow> describe_new rl oe now resource res None r)"

text \<open>\<^verbatim>\<open>errors.As\<close> finds the output error inside \<open>err\<close>; with a health condition it replaces \<open>err\<close>.\<close>

fun set_Healthy :: "ConditionStatus \<Rightarrow> gerror \<Rightarrow> gerror" where
  "set_Healthy h (RetrieveOutputError e rn obj bn bt qr pt _) = RetrieveOutputError e rn obj bn bt qr pt h"
| "set_Healthy h e = e"

definition error_with_health :: "gerror option \<Rightarrow> condition list \<Rightarrow> gerror option" where
  "error_with_health err additionalConditions =
     (case err of
        None \<Rightarrow> None
      | Some e \<Rightarrow>
          (case as_RetrieveOutputError e of
             None \<Rightarrow> Some e
           | Some typedErr \<Rightarrow>
               (case additionalConditions of [] \<Rightarrow> Some e | c # _ \<Rightarrow> Some (set_Healthy (cond_Status c) typedErr))))"

definition health_event :: "resourceStatuses \<Rightarrow> string \<Rightarrow> unstructured option \<Rightarrow> 'w repository \<Rightarrow> 'w repository" where
  "health_event statuses name stampedObject r =
     (if ResourceHealthy \<in> set (ChangedConditionTypes statuses name) then
        (let newStatus = (case ConditionWithType (ConditionsForResourceNamed (GetCurrent statuses) name) ResourceHealthy of
                            None \<Rightarrow> ConditionUnknown | Some c \<Rightarrow> cond_Status c)
         in repo_event r (CallResourceEventf NormalType ResourceHealthyStatusChangedReason
              ''[%s] found healthy status in [%Q] changed to [%s]'' stampedObject [name, newStatus]))
      else r)"

record 'w realize_state =
  zs_outs :: Outputs
  zs_statuses :: resourceStatuses
  zs_repo :: "'w repository"
  zs_firstError :: "gerror option"

type_synonym 'w resource_do =
  "OwnerResource \<Rightarrow> string \<Rightarrow> Outputs \<Rightarrow> rest_mapper \<Rightarrow> 'w repository \<Rightarrow> (do_result \<times> 'w repository) go"

definition realize_resource ::
  "'w resource_do \<Rightarrow> realizer \<Rightarrow> output_env \<Rightarrow> time \<Rightarrow> string \<Rightarrow> OwnerResource \<Rightarrow> 'w realize_state \<Rightarrow> 'w realize_state go" where
  "realize_resource Do rl oe now blueprintName resource st =
     go_bind (Do resource blueprintName (zs_outs st) (rl_mapper rl) (zs_repo st)) (\<lambda>(res, r1).
       (let outs = AddOutput (zs_outs st) (owr_Name resource) (do_output res);
            previousResourceStatus = GetPreviousResourceStatus (zs_statuses st) (owr_Name resource)
        in go_bind (describe_resource rl oe now resource res previousResourceStatus r1)
             (\<lambda>(realizedResource, additionalConditions, r2).
             (let err = error_with_health (do_err res) additionalConditions;
                  statuses = AddStatus now (zs_statuses st) realizedResource err (do_passThrough res) additionalConditions;
                  r3 = health_event statuses (rr_Name realizedResource) (do_stampedObject res) r2
              in Ret \<lparr>zs_outs = outs, zs_statuses = statuses, zs_repo = r3,
                      zs_firstError = (case zs_firstError st of None \<Rightarrow> err | Some e \<Rightarrow> Some e)\<rparr>))))"

fun realize_loop ::
  "'w resource_do \<Rightarrow> realizer \<Rightarrow> output_env \<Rightarrow> (nat \<Rightarrow> time) \<Rightarrow> string \<Rightarrow> nat \<Rightarrow> OwnerResource list \<Rightarrow> 'w realize_state \<Rightarrow>
   'w realize_state go" where
  "realize_loop Do rl oe clock blueprintName n [] st = Ret st"
| "realize_loop Do rl oe clock blueprintName n (resource # resources) st =
     go_bind (realize_resource Do rl oe (clock n) blueprintName resource st)
       (realize_loop Do rl oe clock blueprintName (Suc n) resources)"

definition Realize ::
  "'w resource_do \<Rightarrow> realizer \<Rightarrow> output_env \<Rightarrow> (nat \<Rightarrow> time) \<Rightarrow> string \<Rightarrow> OwnerResource list \<Rightarrow> resourceStatuses \<Rightarrow> 'w repository \<Rightarrow>
   (gerror option \<times> resourceStatuses \<times> 'w repository) go" where
  "Realize Do rl oe clock blueprintName ownerResources resourceStatuses r =
     go_bind (realize_loop Do rl oe clock blueprintName 0 ownerResources
         \<lparr>zs_outs = NewOutputs, zs_statuses = resourceStatuses, zs_repo = r, zs_firstError = None\<rparr>)
       (\<lambda>st. Ret (zs_firstError st, zs_statuses st, zs_repo st))"

section \<open>The status of one resource\<close>

text \<open>The current status under a name, and what an addition does to it.\<close>

definition current_of :: "resourceStatuses \<Rightarrow> string \<Rightarrow> ResourceStatus option" where
  "current_of r name =
     (case find (\<lambda>s. st_name s = name) (rss_statuses r) of None \<Rightarrow> None | Some s \<Rightarrow> st_current s)"

definition wf_statuses :: "resourceStatuses \<Rightarrow> bool" where
  "wf_statuses r \<longleftrightarrow> distinct (map st_name (rss_statuses r)) \<and>
     (\<forall>s\<in>set (rss_statuses r).
        (\<forall>p. st_previous s = Some p \<longrightarrow> resource_status_name p = st_name s) \<and>
        (\<forall>c. st_current s = Some c \<longrightarrow> resource_status_name c = st_name s))"

lemma find_update_first:
  assumes "\<And>s. st_name (f s) = st_name s"
  shows "find (\<lambda>s. st_name s = k) (update_first (\<lambda>s. st_name s = n) f ss) =
    (if k = n then map_option f (find (\<lambda>s. st_name s = n) ss) else find (\<lambda>s. st_name s = k) ss)"
  using assms by (induction ss) auto

lemma find_ex: "\<exists>s\<in>set ss. P s \<Longrightarrow> \<exists>s. find P ss = Some s \<and> s \<in> set ss \<and> P s"
  by (induction ss) auto

lemma find_none: "\<not> (\<exists>s\<in>set ss. P s) \<Longrightarrow> find P ss = None"
  by (induction ss) auto

lemma find_or_new:
  assumes "st_name new = n"
  shows "find (\<lambda>s. st_name s = k) (if \<exists>s\<in>set ss. st_name s = n then ss else ss @ [new]) =
    (case find (\<lambda>s. st_name s = k) ss of Some s \<Rightarrow> Some s | None \<Rightarrow> if k = n then Some new else None)"
proof (cases "\<exists>s\<in>set ss. st_name s = n")
  case True
  then show ?thesis using find_ex [OF True] by (auto split: option.split)
next
  case False
  then show ?thesis using assms by (auto simp: find_append split: option.split)
qed

lemma AddStatus_find:
  "find (\<lambda>s. st_name s = k) (rss_statuses (AddStatus now r rr err pt further)) =
     (let old = (case find (\<lambda>s. st_name s = k) (rss_statuses r) of
                   Some s \<Rightarrow> Some s
                 | None \<Rightarrow> if k = rr_Name rr then Some \<lparr>st_name = rr_Name rr, st_previous = None, st_current = None,
                      st_conditionsChanged = False\<rparr> else None)
      in if k = rr_Name rr then
           map_option (\<lambda>s. let (cs, changed) = createConditions now (rss_addConditionsFunc r) (st_previous s) err pt further
              in s\<lparr>st_current := Some \<lparr>rs_RealizedResource = rr, rs_Conditions = cs\<rparr>, st_conditionsChanged := changed\<rparr>) old
         else old)"
  by (simp add: AddStatus_def Let_def case_prod_beta find_update_first find_or_new)

lemma AddStatus_current:
  "current_of (AddStatus now r rr err pt further) k =
     (if k = rr_Name rr then
        Some \<lparr>rs_RealizedResource = rr,
              rs_Conditions = fst (createConditions now (rss_addConditionsFunc r) (GetPreviousResourceStatus r k) err pt further)\<rparr>
      else current_of r k)"
  unfolding current_of_def GetPreviousResourceStatus_def AddStatus_find
  by (cases "find (\<lambda>s. st_name s = k) (rss_statuses r)") (auto simp: Let_def case_prod_beta)

lemma AddStatus_previous_of [simp]:
  "GetPreviousResourceStatus (AddStatus now r rr err pt further) k = GetPreviousResourceStatus r k"
  unfolding GetPreviousResourceStatus_def AddStatus_find
  by (cases "find (\<lambda>s. st_name s = k) (rss_statuses r)") (simp_all add: Let_def case_prod_beta)

lemma AddStatus_wf:
  assumes "wf_statuses r"
  shows "wf_statuses (AddStatus now r rr err pt further)"
proof -
  let ?new = "\<lparr>st_name = rr_Name rr, st_previous = None, st_current = None, st_conditionsChanged = False\<rparr>"
  let ?ss = "if \<exists>s\<in>set (rss_statuses r). st_name s = rr_Name rr then rss_statuses r else rss_statuses r @ [?new]"
  let ?f = "\<lambda>s. let (cs, changed) = createConditions now (rss_addConditionsFunc r) (st_previous s) err pt further
       in s\<lparr>st_current := Some \<lparr>rs_RealizedResource = rr, rs_Conditions = cs\<rparr>, st_conditionsChanged := changed\<rparr>"
  have eq: "rss_statuses (AddStatus now r rr err pt further) = update_first (\<lambda>s. st_name s = rr_Name rr) ?f ?ss"
    by (simp add: AddStatus_def Let_def)
  have "distinct (map st_name ?ss)" using assms by (auto simp: wf_statuses_def)
  then have d: "distinct (map st_name (update_first (\<lambda>s. st_name s = rr_Name rr) ?f ?ss))"
    by (simp add: map_update_first case_prod_beta Let_def)
  have old: "(\<forall>p. st_previous s = Some p \<longrightarrow> resource_status_name p = st_name s) \<and>
      (\<forall>c. st_current s = Some c \<longrightarrow> resource_status_name c = st_name s)" if "s \<in> set ?ss" for s
    using that assms by (auto simp: wf_statuses_def split: if_splits)
  have "(\<forall>p. st_previous s = Some p \<longrightarrow> resource_status_name p = st_name s) \<and>
      (\<forall>c. st_current s = Some c \<longrightarrow> resource_status_name c = st_name s)"
    if "s \<in> set (update_first (\<lambda>s. st_name s = rr_Name rr) ?f ?ss)" for s
    using set_update_first [of "\<lambda>s. st_name s = rr_Name rr" ?f ?ss] that old by (fastforce simp: case_prod_beta Let_def)
  then show ?thesis using d unfolding wf_statuses_def eq by blast
qed

lemma NewResourceStatuses_wf:
  "distinct (map resource_status_name prev) \<Longrightarrow> wf_statuses (NewResourceStatuses prev f)"
  by (auto simp: wf_statuses_def NewResourceStatuses_def comp_def)

lemma previous_name:
  "wf_statuses r \<Longrightarrow> GetPreviousResourceStatus r n = Some p \<Longrightarrow> rr_Name (rs_RealizedResource p) = n"
  by (auto simp: wf_statuses_def GetPreviousResourceStatus_def split: option.splits dest!: find_Some_D)

lemma in_map_filter: "y \<in> set (List.map_filter f xs) \<longleftrightarrow> (\<exists>x\<in>set xs. f x = Some y)"
  by (induction xs) (auto simp: List.map_filter_simps split: option.splits)

lemma ConditionsForResourceNamed_current:
  assumes "wf_statuses r"
  shows "ConditionsForResourceNamed (GetCurrent r) n = (case current_of r n of None \<Rightarrow> [] | Some c \<Rightarrow> rs_Conditions c)"
proof -
  have "(case find (\<lambda>c. resource_status_name c = n) (List.map_filter st_current ss) of None \<Rightarrow> [] | Some c \<Rightarrow> rs_Conditions c) =
      (case (case find (\<lambda>s. st_name s = n) ss of None \<Rightarrow> None | Some s \<Rightarrow> st_current s) of None \<Rightarrow> [] | Some c \<Rightarrow> rs_Conditions c)"
    if "distinct (map st_name ss)" "\<forall>s\<in>set ss. \<forall>c. st_current s = Some c \<longrightarrow> resource_status_name c = st_name s" for ss
    using that
  proof (induction ss)
    case (Cons s ss)
    have "find (\<lambda>c. resource_status_name c = n) (List.map_filter st_current ss) = None" if "st_name s = n"
      using Cons.prems that by (intro find_none) (auto simp: in_map_filter, metis imageI)
    then show ?case using Cons by (auto simp: List.map_filter_simps split: option.splits)
  qed (simp add: List.map_filter_simps)
  then show ?thesis
    using assms by (auto simp: ConditionsForResourceNamed_def GetCurrent_def current_of_def wf_statuses_def)
qed

section \<open>The loop\<close>

lemma error_with_health_None [simp]: "error_with_health err cs = None \<longleftrightarrow> err = None"
  by (auto simp: error_with_health_def split: option.splits list.splits)

text \<open>A resource is described under its own name, whether it was realized now or kept.\<close>

lemma describe_new_name: "describe_new rl oe now resource res prev r = Ret (rr, cs, r') \<Longrightarrow> rr_Name rr = owr_Name resource"
  by (auto simp: describe_new_def Let_def generateRealizedResource_def go_bind_Ret_iff split: option.splits)

lemma describe_resource_name:
  assumes "describe_resource rl oe now resource res (GetPreviousResourceStatus sts (owr_Name resource)) r = Ret (rr, cs, r')"
    and "wf_statuses sts"
  shows "rr_Name rr = owr_Name resource"
  using assms previous_name describe_new_name
  by (fastforce simp: describe_resource_def split: option.splits if_splits)

lemma realize_resource_step:
  assumes "realize_resource Do rl oe now bn resource st = Ret st'" "wf_statuses (zs_statuses st)"
  obtains res rr err further where
    "zs_statuses st' = AddStatus now (zs_statuses st) rr err (do_passThrough res) further"
    "rr_Name rr = owr_Name resource" "err = None \<longleftrightarrow> do_err res = None"
    "zs_firstError st' = (case zs_firstError st of None \<Rightarrow> err | Some e \<Rightarrow> Some e)"
    "zs_outs st' = AddOutput (zs_outs st) (owr_Name resource) (do_output res)"
    "\<exists>r1. Do resource bn (zs_outs st) (rl_mapper rl) (zs_repo st) = Ret (res, r1)"
proof -
  obtain res r1 where do: "Do resource bn (zs_outs st) (rl_mapper rl) (zs_repo st) = Ret (res, r1)"
    using assms(1) by (auto simp: realize_resource_def go_bind_Ret_iff)
  obtain rr cs r2 where d: "describe_resource rl oe now resource res
      (GetPreviousResourceStatus (zs_statuses st) (owr_Name resource)) r1 = Ret (rr, cs, r2)"
    using assms(1) do by (auto simp: realize_resource_def go_bind_Ret_iff)
  show ?thesis
    using assms(1) do d describe_resource_name [OF d assms(2)]
    by (intro that [of rr "error_with_health (do_err res) cs" res cs]) (auto simp: realize_resource_def Let_def)
qed

text \<open>The first condition of the current status says that the resource was submitted.\<close>

definition submitted :: "resourceStatuses \<Rightarrow> string \<Rightarrow> bool" where
  "submitted sts n \<longleftrightarrow> (\<exists>c. current_of sts n = Some c \<and> rs_Conditions c \<noteq> [] \<and> cond_Status (hd (rs_Conditions c)) = ConditionTrue)"

context submission_conditions
begin

lemma submitted_iff:
  assumes "createConditions now add_error prev err pt further = (cs, ch)"
  shows "cs \<noteq> [] \<and> (cond_Status (hd cs) = ConditionTrue \<longleftrightarrow> err = None)"
proof -
  obtain c where c: "\<forall>now prev further. createConditions now add_error prev err pt further = created_conditions now c prev further"
      "cond_Status c = ConditionTrue \<longleftrightarrow> err = None"
    using createConditions_adds [of err pt] by (elim exE conjE)
  have "created_conditions now c prev further = (cs, ch)" using assms c(1) by simp
  then obtain m' where f: "Finalize now (add_all Add (NewConditionManager ResourceReady (previous_conditions prev))
    (status_additions now c further)) = (cs, ch, m')" by (rule created_conditions_Finalize)
  have "cs \<noteq> []" by (rule cm.finalize_last(1) [OF f])
  moreover have "untimed (hd cs) = untimed c"
    using arg_cong [OF cm.finalize_untimed [OF f], of hd] \<open>cs \<noteq> []\<close> by (simp add: hd_map status_additions_def)
  then have "cond_Status (hd cs) = cond_Status c" by (metis untimed_sel(2))
  ultimately show ?thesis using c(2) by simp
qed

lemma realize_loop_result:
  assumes "realize_loop Do rl oe clock bn n rs st = Ret st'"
    and "wf_statuses (zs_statuses st)" "rss_addConditionsFunc (zs_statuses st) = add_error" "distinct (map owr_Name rs)"
  shows "wf_statuses (zs_statuses st') \<and>
    (\<forall>k. k \<notin> owr_Name ` set rs \<longrightarrow> current_of (zs_statuses st') k = current_of (zs_statuses st) k) \<and>
    (\<forall>k\<in>owr_Name ` set rs. \<exists>c. current_of (zs_statuses st') k = Some c \<and> rs_Conditions c \<noteq> []) \<and>
    (zs_firstError st' = None \<longleftrightarrow> zs_firstError st = None \<and> (\<forall>r\<in>set rs. submitted (zs_statuses st') (owr_Name r)))"
  using assms
proof (induction rs arbitrary: n st)
  case (Cons r rs)
  then obtain st1 where st1: "realize_resource Do rl oe (clock n) bn r st = Ret st1"
      "realize_loop Do rl oe clock bn (Suc n) rs st1 = Ret st'"
    by (auto simp: go_bind_Ret_iff)
  obtain res :: do_result and rr err further where step:
      "zs_statuses st1 = AddStatus (clock n) (zs_statuses st) rr err (do_passThrough res) further"
      "rr_Name rr = owr_Name r" "zs_firstError st1 = (case zs_firstError st of None \<Rightarrow> err | Some e \<Rightarrow> Some e)"
    by (rule realize_resource_step [OF st1(1) Cons.prems(2)]) (rule that)
  obtain cs ch where cs: "createConditions (clock n) add_error (GetPreviousResourceStatus (zs_statuses st) (owr_Name r)) err
      (do_passThrough res) further = (cs, ch)" by fastforce
  have cur: "current_of (zs_statuses st1) k =
      (if k = owr_Name r then Some \<lparr>rs_RealizedResource = rr, rs_Conditions = cs\<rparr> else current_of (zs_statuses st) k)" for k
    using cs Cons.prems(3) by (simp add: step AddStatus_current)
  have IH: "wf_statuses (zs_statuses st') \<and>
    (\<forall>k. k \<notin> owr_Name ` set rs \<longrightarrow> current_of (zs_statuses st') k = current_of (zs_statuses st1) k) \<and>
    (\<forall>k\<in>owr_Name ` set rs. \<exists>c. current_of (zs_statuses st') k = Some c \<and> rs_Conditions c \<noteq> []) \<and>
    (zs_firstError st' = None \<longleftrightarrow> zs_firstError st1 = None \<and> (\<forall>r\<in>set rs. submitted (zs_statuses st') (owr_Name r)))"
    by (rule Cons.IH [OF st1(2)]) (use Cons.prems in \<open>auto simp: step(1) AddStatus_wf\<close>)
  have mine: "current_of (zs_statuses st') (owr_Name r) = Some \<lparr>rs_RealizedResource = rr, rs_Conditions = cs\<rparr>"
    using IH Cons.prems(4) by (simp add: cur)
  have "submitted (zs_statuses st') (owr_Name r) \<longleftrightarrow> err = None"
    using submitted_iff [OF cs] by (simp add: submitted_def mine)
  then show ?case using IH mine submitted_iff [OF cs] by (auto simp: cur step(3) split: option.splits)
qed simp

lemma realize_error_iff:
  assumes "Realize Do rl oe clock bn rs (NewResourceStatuses prev add_error) r = Ret (err, sts, r')"
    and "distinct (map resource_status_name prev)" "distinct (map owr_Name rs)"
  shows "(\<forall>rsc\<in>set rs. ConditionsForResourceNamed (GetCurrent sts) (owr_Name rsc) \<noteq> []) \<and>
    (err = None \<longleftrightarrow> (\<forall>rsc\<in>set rs. cond_Status (hd (ConditionsForResourceNamed (GetCurrent sts) (owr_Name rsc))) = ConditionTrue))"
proof -
  obtain st where st: "realize_loop Do rl oe clock bn 0 rs
      \<lparr>zs_outs = NewOutputs, zs_statuses = NewResourceStatuses prev add_error, zs_repo = r, zs_firstError = None\<rparr> = Ret st"
      "err = zs_firstError st" "sts = zs_statuses st"
    using assms(1) by (auto simp: Realize_def go_bind_Ret_iff)
  have fn: "rss_addConditionsFunc (NewResourceStatuses prev add_error) = add_error" by (simp add: NewResourceStatuses_def)
  have res: "wf_statuses sts \<and>
    (\<forall>k\<in>owr_Name ` set rs. \<exists>c. current_of sts k = Some c \<and> rs_Conditions c \<noteq> []) \<and>
    (err = None \<longleftrightarrow> (\<forall>r\<in>set rs. submitted sts (owr_Name r)))"
    using realize_loop_result [OF st(1)] NewResourceStatuses_wf [OF assms(2)] assms(3) by (simp add: fn st(2,3))
  then show ?thesis by (fastforce simp: ConditionsForResourceNamed_current submitted_def split: option.splits)
qed

end

section \<open>Outputs in the status\<close>

lemma generateResourceOutput_distinct: "generateResourceOutput oe out = Inr outs \<Longrightarrow> distinct (map out_Name outs)"
  by (auto simp: generateResourceOutput_def buildOneOutput_def split: option.splits sum.splits if_splits)

lemma transition_time_sel [simp]:
  "out_Name (transition_time t prev o') = out_Name o'" "out_Digest (transition_time t prev o') = out_Digest o'"
  by (simp_all add: transition_time_def)

lemma transition_time_again:
  assumes "distinct (map out_Name outs)" "o' \<in> set outs"
  shows "transition_time t' (map (transition_time t prev) outs) o' = transition_time t prev o'"
proof -
  have "find (\<lambda>p. out_Name p = out_Name (transition_time t prev o')) (map (transition_time t prev) outs) =
      Some (transition_time t prev o')"
    by (rule find_distinct_key) (use assms in \<open>auto simp: comp_def\<close>)
  then show ?thesis by (simp add: transition_time_def [of t']) (simp add: transition_time_def)
qed

section \<open>Properties\<close>

text \<open>
  C5: after \<^verbatim>\<open>Realize\<close> every resource of the blueprint has conditions, and \<^verbatim>\<open>Realize\<close> returns no error exactly when the first
  condition of each of them says that it was submitted: an error of one resource neither hides the others nor gets lost.
\<close>

theorem realize_reports_errors:
  assumes "Realize Do rl oe clock bn rs (NewResourceStatuses prev addf) r = Ret (err, sts, r')"
    and "addf = AddConditionForResourceSubmittedWorkload \<or> addf = AddConditionForResourceSubmittedDeliverable"
    and "distinct (map resource_status_name prev)" "distinct (map owr_Name rs)"
  shows "(\<forall>rsc\<in>set rs. ConditionsForResourceNamed (GetCurrent sts) (owr_Name rsc) \<noteq> []) \<and>
    (err = None \<longleftrightarrow> (\<forall>rsc\<in>set rs. cond_Status (hd (ConditionsForResourceNamed (GetCurrent sts) (owr_Name rsc))) = ConditionTrue))"
  using assms(2)
proof
  assume "addf = AddConditionForResourceSubmittedWorkload"
  then show ?thesis using workload_errors.realize_error_iff [OF _ assms(3,4)] assms(1) by blast
next
  assume "addf = AddConditionForResourceSubmittedDeliverable"
  then show ?thesis using deliverable_errors.realize_error_iff [OF _ assms(3,4)] assms(1) by blast
qed

theorem realize_reports_errors_witness:
  "\<exists>err sts r'. Realize (\<lambda>rsc bn outs mapper r. Ret (do_return None None None False '''' (Some (ErrorString ''no'')), r))
      \<lparr>rl_healthyConditionEvaluator = \<lambda>h rr u. Panic '''', rl_mapper = \<lambda>g. Inl (ErrorString '''')\<rparr>
      \<lparr>oe_Yaml = \<lambda>v. Inr '''', oe_Sha256 = \<lambda>b. '''', oe_ShortenString = \<lambda>b n. take n b\<rparr> int ''chain''
      [\<lparr>owr_TemplateRef = \<lparr>tref_Kind = ''ClusterTemplate'', tref_Name = ''t''\<rparr>, owr_TemplateOptions = [], owr_Params = [],
        owr_Name = ''a'', owr_Sources = [], owr_Images = [], owr_Configs = [], owr_Deployment = None\<rparr>]
      (NewResourceStatuses [] AddConditionForResourceSubmittedWorkload) \<lparr>rg_world = (), rg_cache = NewCache, rg_events = []\<rparr> =
      Ret (err, sts, r') \<and>
    ConditionsForResourceNamed (GetCurrent sts) ''a'' \<noteq> []"
  (is "\<exists>err sts r'. Realize ?do ?rl ?oe int ?bn ?rs ?new ?r = Ret (err, sts, r') \<and> _")
proof -
  have "\<exists>x. Realize ?do ?rl ?oe int ?bn ?rs ?new ?r = Ret x"
    by (simp add: Realize_def realize_resource_def do_return_def describe_resource_def describe_new_def Let_def
        GetPreviousResourceStatus_def NewResourceStatuses_def generateRealizedResource_def)
  then obtain err sts r' where real: "Realize ?do ?rl ?oe int ?bn ?rs ?new ?r = Ret (err, sts, r')" by fastforce
  show ?thesis using realize_reports_errors [OF real] real by simp
qed

text \<open>
  Realizing the same output again leaves the outputs in the status as they are, transition times included, so an
  unchanged output neither records an event nor changes the status.
\<close>

theorem outputs_stable:
  "getOutputs oe now' (prev\<lparr>rr_Outputs := getOutputs oe now prev out\<rparr>) out = getOutputs oe now prev out"
proof (cases "generateResourceOutput oe out")
  case (Inr outs)
  then show ?thesis
    using transition_time_again [OF generateResourceOutput_distinct [OF Inr]] by (simp add: getOutputs_def)
qed (simp add: getOutputs_def)

text \<open>
  A resource that is passed through and already has a status keeps the realized resource of that status whatever it passes
  through now: its new output is neither reported nor announced.
\<close>

theorem pass_through_status_kept:
  assumes "result_ok res" "do_passThrough res"
  shows "\<exists>cs. describe_resource rl oe now resource res (Some previous) r = Ret (rs_RealizedResource previous, cs, r)"
  using assms by (auto simp: describe_resource_def result_ok_def)

theorem pass_through_status_kept_witness:
  "\<exists>cs. describe_resource \<lparr>rl_healthyConditionEvaluator = \<lambda>h rr u. Panic '''', rl_mapper = \<lambda>g. Inl (ErrorString '''')\<rparr>
      \<lparr>oe_Yaml = \<lambda>v. Inr '''', oe_Sha256 = \<lambda>b. '''', oe_ShortenString = \<lambda>b n. take n b\<rparr> 5
      \<lparr>owr_TemplateRef = \<lparr>tref_Kind = ''ClusterSourceTemplate'', tref_Name = ''''\<rparr>, owr_TemplateOptions = [], owr_Params = [],
       owr_Name = ''a'', owr_Sources = [], owr_Images = [], owr_Configs = [], owr_Deployment = None\<rparr>
      (do_return None None (Some empty_output) True '''' None)
      (Some \<lparr>rs_RealizedResource = empty_realized, rs_Conditions = []\<rparr>)
      \<lparr>rg_world = (), rg_cache = NewCache, rg_events = []\<rparr> =
    Ret (empty_realized, cs, \<lparr>rg_world = (), rg_cache = NewCache, rg_events = []\<rparr>)"
  using pass_through_status_kept [of "do_return None None (Some empty_output) True '''' None" _ _ _ _
      "\<lparr>rs_RealizedResource = empty_realized, rs_Conditions = []\<rparr>" "\<lparr>rg_world = (), rg_cache = NewCache, rg_events = []\<rparr>"]
  by (simp add: do_return_ok) (simp add: do_return_def)

end
