(* ===== verification/Admission.thy ===== *)
theory Admission
  imports Validation Template_Reader
begin

text \<open>
  Admission: the methods \<^verbatim>\<open>ValidateCreate\<close>, \<^verbatim>\<open>ValidateUpdate\<close> and \<^verbatim>\<open>ValidateDelete\<close> of the eight kinds with a webhook
  (\<^verbatim>\<open>*_webhook.go\<close>), exactly which objects they accept, and what acceptance buys the health checks.  None of the methods returns a warning, and
  none looks at the old object of an update.
\<close>

section \<open>The webhooks of the templates\<close>

definition ClusterSourceTemplate_ValidateCreate :: "json_codec \<Rightarrow> SourceTemplateSpec \<Rightarrow> gerror option" where
  "ClusterSourceTemplate_ValidateCreate jc c = TemplateSpec_validate jc (src_TemplateSpec c)"

definition ClusterSourceTemplate_ValidateUpdate :: "json_codec \<Rightarrow> SourceTemplateSpec \<Rightarrow> SourceTemplateSpec \<Rightarrow> gerror option" where
  "ClusterSourceTemplate_ValidateUpdate jc old c = TemplateSpec_validate jc (src_TemplateSpec c)"

definition ClusterSourceTemplate_ValidateDelete :: "SourceTemplateSpec \<Rightarrow> gerror option" where
  "ClusterSourceTemplate_ValidateDelete c = None"

definition ClusterImageTemplate_ValidateCreate :: "json_codec \<Rightarrow> ImageTemplateSpec \<Rightarrow> gerror option" where
  "ClusterImageTemplate_ValidateCreate jc c = TemplateSpec_validate jc (img_TemplateSpec c)"

definition ClusterImageTemplate_ValidateUpdate :: "json_codec \<Rightarrow> ImageTemplateSpec \<Rightarrow> ImageTemplateSpec \<Rightarrow> gerror option" where
  "ClusterImageTemplate_ValidateUpdate jc old c = TemplateSpec_validate jc (img_TemplateSpec c)"

definition ClusterImageTemplate_ValidateDelete :: "ImageTemplateSpec \<Rightarrow> gerror option" where
  "ClusterImageTemplate_ValidateDelete c = None"

definition ClusterConfigTemplate_ValidateCreate :: "json_codec \<Rightarrow> ConfigTemplateSpec \<Rightarrow> gerror option" where
  "ClusterConfigTemplate_ValidateCreate jc c = TemplateSpec_validate jc (cfg_TemplateSpec c)"

definition ClusterConfigTemplate_ValidateUpdate :: "json_codec \<Rightarrow> ConfigTemplateSpec \<Rightarrow> ConfigTemplateSpec \<Rightarrow> gerror option" where
  "ClusterConfigTemplate_ValidateUpdate jc old c = TemplateSpec_validate jc (cfg_TemplateSpec c)"

definition ClusterConfigTemplate_ValidateDelete :: "ConfigTemplateSpec \<Rightarrow> gerror option" where
  "ClusterConfigTemplate_ValidateDelete c = None"

definition ClusterTemplate_ValidateCreate :: "json_codec \<Rightarrow> TemplateSpec \<Rightarrow> gerror option" where
  "ClusterTemplate_ValidateCreate jc c = TemplateSpec_validate jc c"

definition ClusterTemplate_ValidateUpdate :: "json_codec \<Rightarrow> TemplateSpec \<Rightarrow> TemplateSpec \<Rightarrow> gerror option" where
  "ClusterTemplate_ValidateUpdate jc old c = TemplateSpec_validate jc c"

definition ClusterTemplate_ValidateDelete :: "TemplateSpec \<Rightarrow> gerror option" where
  "ClusterTemplate_ValidateDelete c = None"

definition ClusterDeploymentTemplate_ValidateCreate :: "json_codec \<Rightarrow> DeploymentSpec \<Rightarrow> gerror option" where
  "ClusterDeploymentTemplate_ValidateCreate jc c = ClusterDeploymentTemplate_validate jc c"

definition ClusterDeploymentTemplate_ValidateUpdate :: "json_codec \<Rightarrow> DeploymentSpec \<Rightarrow> DeploymentSpec \<Rightarrow> gerror option" where
  "ClusterDeploymentTemplate_ValidateUpdate jc old c = ClusterDeploymentTemplate_validate jc c"

definition ClusterDeploymentTemplate_ValidateDelete :: "DeploymentSpec \<Rightarrow> gerror option" where
  "ClusterDeploymentTemplate_ValidateDelete c = None"

definition ClusterRunTemplate_ValidateCreate :: "json_codec \<Rightarrow> ClusterRunTemplate \<Rightarrow> gerror option" where
  "ClusterRunTemplate_ValidateCreate jc c = RunTemplateSpec_validate jc c"

definition ClusterRunTemplate_ValidateUpdate :: "json_codec \<Rightarrow> ClusterRunTemplate \<Rightarrow> ClusterRunTemplate \<Rightarrow> gerror option" where
  "ClusterRunTemplate_ValidateUpdate jc old c = RunTemplateSpec_validate jc c"

definition ClusterRunTemplate_ValidateDelete :: "ClusterRunTemplate \<Rightarrow> gerror option" where
  "ClusterRunTemplate_ValidateDelete c = None"

section \<open>The webhooks of the blueprints\<close>

definition ClusterSupplyChain_ValidateUpdate ::
  "label_selector \<Rightarrow> jsonpath_lib \<Rightarrow> ClusterSupplyChain \<Rightarrow> ClusterSupplyChain \<Rightarrow> gerror option" where
  "ClusterSupplyChain_ValidateUpdate lsel jp old c =
     wrap_error (''error validating clustersupplychain ['' @ sc_Name c @ '']: '')
       (ClusterSupplyChain_validateNewState lsel jp c)"

definition ClusterSupplyChain_ValidateDelete :: "ClusterSupplyChain \<Rightarrow> gerror option" where
  "ClusterSupplyChain_ValidateDelete c = None"

definition ClusterDelivery_ValidateUpdate ::
  "label_selector \<Rightarrow> jsonpath_lib \<Rightarrow> ClusterDelivery \<Rightarrow> ClusterDelivery \<Rightarrow> gerror option" where
  "ClusterDelivery_ValidateUpdate lsel jp old c =
     wrap_error (''error validating clusterdelivery ['' @ cd_Name c @ '']: '')
       (ClusterDelivery_validateNewState lsel jp c)"

definition ClusterDelivery_ValidateDelete :: "ClusterDelivery \<Rightarrow> gerror option" where
  "ClusterDelivery_ValidateDelete c = None"

lemmas template_webhooks =
  ClusterSourceTemplate_ValidateCreate_def ClusterSourceTemplate_ValidateUpdate_def
  ClusterImageTemplate_ValidateCreate_def ClusterImageTemplate_ValidateUpdate_def
  ClusterConfigTemplate_ValidateCreate_def ClusterConfigTemplate_ValidateUpdate_def
  ClusterDeploymentTemplate_ValidateCreate_def ClusterDeploymentTemplate_ValidateUpdate_def
  ClusterTemplate_ValidateCreate_def ClusterTemplate_ValidateUpdate_def
  ClusterRunTemplate_ValidateCreate_def ClusterRunTemplate_ValidateUpdate_def

lemmas blueprint_webhooks =
  ClusterSupplyChain_ValidateCreate_def ClusterSupplyChain_ValidateUpdate_def
  ClusterDelivery_ValidateCreate_def ClusterDelivery_ValidateUpdate_def

lemmas accepted_iffs =
  TemplateSpec_validate_iff deployment_template_accepted run_template_accepted validateNewState_iff delivery_validateNewState_iff

section \<open>Properties\<close>

text \<open>
  C11: the eight webhooks accept exactly the valid objects, on creation and on update; on an update only the new object matters.  A template is valid
  when it is either an object without a namespace or a ytt script, with a well-formed health rule or, without one, no retention policy if it is
  mutable; a deployment template has moreover exactly one of observed matches and observed completion; a run template is an object with a
  spec and without a namespace.  A blueprint is valid when its selector, its parameters, the names of its resources, their template references and
  their pass throughs are well-formed; the references of a supply chain resolve, and in a delivery exactly the deployment templates get a deployment.
\<close>

theorem webhooks_accept_valid:
  "(ClusterSourceTemplate_ValidateCreate jc src = None \<longleftrightarrow> wf_template_spec jc (src_TemplateSpec src)) \<and>
   (ClusterSourceTemplate_ValidateUpdate jc src' src = None \<longleftrightarrow> wf_template_spec jc (src_TemplateSpec src)) \<and>
   (ClusterImageTemplate_ValidateCreate jc img = None \<longleftrightarrow> wf_template_spec jc (img_TemplateSpec img)) \<and>
   (ClusterImageTemplate_ValidateUpdate jc img' img = None \<longleftrightarrow> wf_template_spec jc (img_TemplateSpec img)) \<and>
   (ClusterConfigTemplate_ValidateCreate jc cfg = None \<longleftrightarrow> wf_template_spec jc (cfg_TemplateSpec cfg)) \<and>
   (ClusterConfigTemplate_ValidateUpdate jc cfg' cfg = None \<longleftrightarrow> wf_template_spec jc (cfg_TemplateSpec cfg)) \<and>
   (ClusterTemplate_ValidateCreate jc tmpl = None \<longleftrightarrow> wf_template_spec jc tmpl) \<and>
   (ClusterTemplate_ValidateUpdate jc tmpl' tmpl = None \<longleftrightarrow> wf_template_spec jc tmpl) \<and>
   (ClusterDeploymentTemplate_ValidateCreate jc dep = None \<longleftrightarrow> wf_deployment_template jc dep) \<and>
   (ClusterDeploymentTemplate_ValidateUpdate jc dep' dep = None \<longleftrightarrow> wf_deployment_template jc dep) \<and>
   (ClusterRunTemplate_ValidateCreate jc run = None \<longleftrightarrow> wf_run_template jc run) \<and>
   (ClusterRunTemplate_ValidateUpdate jc run' run = None \<longleftrightarrow> wf_run_template jc run) \<and>
   (ClusterSupplyChain_ValidateCreate lsel jp chain = None \<longleftrightarrow> wf_supply_chain lsel jp chain) \<and>
   (ClusterSupplyChain_ValidateUpdate lsel jp chain' chain = None \<longleftrightarrow> wf_supply_chain lsel jp chain) \<and>
   (ClusterDelivery_ValidateCreate lsel jp delivery = None \<longleftrightarrow> wf_delivery lsel jp delivery) \<and>
   (ClusterDelivery_ValidateUpdate lsel jp delivery' delivery = None \<longleftrightarrow> wf_delivery lsel jp delivery)"
  by (simp add: template_webhooks blueprint_webhooks accepted_iffs)

lemma ValidateTemplate_spec: "ValidateTemplate jc t = None \<Longrightarrow> TemplateSpec_validate jc (GetResourceTemplate t) = None"
  by (cases t) (simp_all add: ClusterDeploymentTemplate_validate_def checks_None_iff del: checks_Cons)

text \<open>
  C12: for a template that its webhook accepted, neither computation of the health of a stamped object panics.  With a health rule, given or made up for
  Tekton, the condition that is reported and the status that decides which object counts as successful agree.  Without one they
  differ: the stamped object counts as successful, while the resource is reported as healthy exactly when it has outputs, or is of a \<^verbatim>\<open>ClusterTemplate\<close> and
  has an object.
\<close>

theorem accepted_template_health:
  assumes "ValidateTemplate jc t = None"
    and "\<And>e v. hasPrefix e ''{.'' \<Longrightarrow> jp_Parse jp e = None \<Longrightarrow> jp_FindResults jp e v \<noteq> Inr []"
  shows "\<exists>c status. DetermineHealthCondition jp sv cd (GetHealthRule t) rr (Some obj) = Ret c \<and>
    DetermineStampedObjectHealth jp sv cd (GetHealthRule t) (Some obj) = Ret status \<and>
    (case GetHealthRule t of
       Some r \<Rightarrow> status = cond_Status c
     | None \<Rightarrow> status = ConditionTrue \<and>
         (cond_Status c = ConditionTrue \<longleftrightarrow> (\<exists>x. rr = Some x \<and>
            (rr_Outputs x \<noteq> [] \<or> IsClusterTemplate (rr_TemplateRef x) \<and> rr_StampedRef x \<noteq> None))))"
proof (cases "GetHealthRule t")
  case None
  then show ?thesis
    by (cases rr) (simp_all add: DetermineHealthCondition_def DetermineStampedObjectHealth_def NoResourceResourcesHealthyCondition_def
        OutputAvailableResourcesHealthyCondition_def OutputNotAvailableResourcesHealthyCondition_def
        NoStampedObjectResourcesHealthyCondition_def AlwaysHealthyResourcesHealthyCondition_def mk_condition_def)
next
  case (Some r)
  have "HealthRule_validate r = None" by (rule reader.rule_of_accepted [OF ValidateTemplate_spec [OF assms(1)] Some])
  from accepted_rule_agrees [OF this assms(2)] show ?thesis unfolding Some by fastforce
qed

section \<open>Witness\<close>

text \<open>A Tekton template and a plain one; the JSON of the plain one is never parsed, because it is a ytt script.\<close>

definition example_template :: "string \<Rightarrow> api_template" where
  "example_template lifecycle = ClusterTemplate ''t''
     \<lparr>ts_Template = None, ts_Ytt = ''ytt'', ts_Params = [], ts_HealthRule = None, ts_Lifecycle = lifecycle, ts_RetentionPolicy = None\<rparr>"

definition example_codec :: json_codec where
  "example_codec = \<lparr>jc_Object = \<lambda>r. Inl (ErrorString ''invalid''), jc_Value = \<lambda>r. Inl (ErrorString ''invalid''), jc_Show = \<lambda>v. ''''\<rparr>"

definition example_engine :: jsonpath_lib where
  "example_engine =
     \<lparr>jp_Parse = \<lambda>e. None, jp_FindResults = \<lambda>e v. if e = '''' then Inr [] else Inr [[v]], jp_PrintResults = \<lambda>r. Inr '''', jp_ShowResults = \<lambda>r. '''',
      jp_Unmarshal = \<lambda>b. Inr [JNull]\<rparr>"

theorem accepted_template_health_witness:
  "\<forall>obj. \<exists>c. GetHealthRule (example_template ''tekton'') \<noteq> None \<and> GetHealthRule (example_template ''mutable'') = None \<and>
     DetermineHealthCondition example_engine (\<lambda>v. '''') (\<lambda>v. Inr []) (GetHealthRule (example_template ''tekton'')) None (Some obj) = Ret c \<and>
     DetermineStampedObjectHealth example_engine (\<lambda>v. '''') (\<lambda>v. Inr []) (GetHealthRule (example_template ''tekton'')) (Some obj) = Ret (cond_Status c) \<and>
     DetermineStampedObjectHealth example_engine (\<lambda>v. '''') (\<lambda>v. Inr []) (GetHealthRule (example_template ''mutable'')) (Some obj) = Ret ConditionTrue"
  (is "\<forall>obj. \<exists>c. ?P c obj")
proof -
  have rules: "GetHealthRule (example_template ''tekton'') \<noteq> None" "GetHealthRule (example_template ''mutable'') = None"
    by (simp_all add: example_template_def reader.rule_spec)
  have ok: "ValidateTemplate example_codec (example_template l) = None" for l
    by (simp add: example_template_def TemplateSpec_validate_def check_def)
  have found: "jp_FindResults example_engine e v \<noteq> Inr []" if "hasPrefix e ''{.''" for e v
    using that by (auto simp: example_engine_def hasPrefix_def)
  note health = accepted_template_health [OF ok found, where sv = "\<lambda>v. ''''" and cd = "\<lambda>v. Inr []" and rr = None]
  show ?thesis
  proof
    fix obj
    from health [of "''tekton''" obj] health [of "''mutable''" obj] rules show "\<exists>c. ?P c obj" by (auto split: option.splits)
  qed
qed

end
