(* ===== verification/Data_Flow.thy ===== *)
theory Data_Flow
  imports Realizer Admission
begin

text \<open>
  How data flows through a blueprint: \<^verbatim>\<open>Realize\<close> gives a resource the outputs of the resources before it in the list, under their names, and nothing
  else.  The webhook asks only that a referenced resource exists, so a blueprint is accepted in which a resource refers to itself or to a later
  one; such an input never arrives.
\<close>

section \<open>The outputs that a resource is given\<close>

text \<open>\<open>Do\<close> was called for the resource, with some outputs and in some state of the repository, and returned \<open>res\<close>.\<close>

definition returned :: "'w resource_do \<Rightarrow> realizer \<Rightarrow> string \<Rightarrow> OwnerResource \<Rightarrow> do_result \<Rightarrow> bool" where
  "returned Do rl bn resource res \<longleftrightarrow> (\<exists>outs repo repo'. Do resource bn outs (rl_mapper rl) repo = Ret (res, repo'))"

lemma realize_resource_outs:
  assumes "realize_resource Do rl oe now bn resource st = Ret st'"
  obtains res repo' where "Do resource bn (zs_outs st) (rl_mapper rl) (zs_repo st) = Ret (res, repo')"
    "zs_outs st' = AddOutput (zs_outs st) (owr_Name resource) (do_output res)"
  using assms by (auto simp: realize_resource_def go_bind_Ret_iff Let_def)

lemma realize_loop_append:
  "realize_loop Do rl oe clock bn n (xs @ ys) st =
     go_bind (realize_loop Do rl oe clock bn n xs st) (realize_loop Do rl oe clock bn (n + length xs) ys)"
proof (induction xs arbitrary: n st)
  case (Cons x xs)
  show ?case by (cases "realize_resource Do rl oe (clock n) bn x st") (simp_all add: Cons.IH)
qed simp

definition outputs_of :: "OwnerResource list \<Rightarrow> do_result list \<Rightarrow> Outputs \<Rightarrow> Outputs" where
  "outputs_of rs results outs = foldl (\<lambda>outs (r, res). AddOutput outs (owr_Name r) (do_output res)) outs (zip rs results)"

lemma realize_loop_outs:
  "realize_loop Do rl oe clock bn n rs st = Ret st' \<Longrightarrow>
     \<exists>results. list_all2 (returned Do rl bn) rs results \<and> zs_outs st' = outputs_of rs results (zs_outs st)"
proof (induction rs arbitrary: n st)
  case Nil
  then show ?case by (auto simp: outputs_of_def)
next
  case (Cons r rs)
  then obtain st1 where st1: "realize_resource Do rl oe (clock n) bn r st = Ret st1" "realize_loop Do rl oe clock bn (Suc n) rs st1 = Ret st'"
    by (auto simp: go_bind_Ret_iff)
  obtain res where res: "returned Do rl bn r res" "zs_outs st1 = AddOutput (zs_outs st) (owr_Name r) (do_output res)"
    using realize_resource_outs [OF st1(1)] unfolding returned_def by metis
  from Cons.IH [OF st1(2)] obtain results where "list_all2 (returned Do rl bn) rs results" "zs_outs st' = outputs_of rs results (zs_outs st1)"
    by blast
  with res show ?case by (intro exI [of _ "res # results"]) (simp add: outputs_of_def)
qed

lemma outputs_of_lookup:
  assumes "length rs = length results" "distinct (map owr_Name rs)"
  shows "(\<forall>i<length rs. get_output (outputs_of rs results outs) (owr_Name (rs ! i)) = do_output (results ! i)) \<and>
    (\<forall>k. k \<notin> owr_Name ` set rs \<longrightarrow> get_output (outputs_of rs results outs) k = get_output outs k)"
  using assms
proof (induction rs results arbitrary: outs rule: list_induct2)
  case Nil
  then show ?case by (simp add: outputs_of_def)
next
  case (Cons r rs res results)
  let ?outs = "AddOutput outs (owr_Name r) (do_output res)"
  have eq: "outputs_of (r # rs) (res # results) outs = outputs_of rs results ?outs" by (simp add: outputs_of_def)
  have first: "get_output ?outs k = (if k = owr_Name r then do_output res else get_output outs k)" for k
    by (simp add: get_output_def AddOutput_def)
  from Cons.IH [of ?outs] Cons.prems have rest: "\<forall>i<length rs. get_output (outputs_of rs results ?outs) (owr_Name (rs ! i)) = do_output (results ! i)"
      "\<forall>k. k \<notin> owr_Name ` set rs \<longrightarrow> get_output (outputs_of rs results ?outs) k = get_output ?outs k" by simp_all
  show ?case unfolding eq using rest Cons.prems by (simp add: first All_less_Suc2)
qed

section \<open>Properties\<close>

text \<open>
  C6: in a run of \<^verbatim>\<open>Realize\<close> that does not panic, every resource is realized with exactly the outputs of the resources before it in the blueprint, each
  under the name of its resource and as it was just produced.  So a source that a template is given always comes from an earlier resource; a reference
  to the resource itself or to a later one is left out.
\<close>

theorem inputs_from_earlier_resources:
  assumes "Realize Do rl oe clock bn (earlier @ resource # later) statuses r = Ret result"
    and "distinct (map owr_Name (earlier @ resource # later))"
  shows "\<exists>outs repo res repo' results.
    Do resource bn outs (rl_mapper rl) repo = Ret (res, repo') \<and>
    list_all2 (returned Do rl bn) earlier results \<and>
    (\<forall>i<length earlier. get_output outs (owr_Name (earlier ! i)) = do_output (results ! i)) \<and>
    (\<forall>k. k \<notin> owr_Name ` set earlier \<longrightarrow> get_output outs k = None) \<and>
    (\<forall>k input. fmlookup (GetSources (NewInputGenerator resource outs)) k = Some input \<longrightarrow>
       (\<exists>ref\<in>set (owr_Sources resource). ref_Name ref = k \<and> ref_Resource ref \<in> owr_Name ` set earlier))"
proof -
  let ?st = "\<lparr>zs_outs = NewOutputs, zs_statuses = statuses, zs_repo = r, zs_firstError = None\<rparr>"
  obtain st1 st2 where run: "realize_loop Do rl oe clock bn 0 earlier ?st = Ret st1"
      "realize_resource Do rl oe (clock (length earlier)) bn resource st1 = Ret st2"
    using assms(1) by (auto simp: Realize_def go_bind_Ret_iff realize_loop_append)
  obtain res repo' where do: "Do resource bn (zs_outs st1) (rl_mapper rl) (zs_repo st1) = Ret (res, repo')"
    by (rule realize_resource_outs [OF run(2)]) (rule that)
  from realize_loop_outs [OF run(1)] obtain results where results: "list_all2 (returned Do rl bn) earlier results"
      "zs_outs st1 = outputs_of earlier results NewOutputs" by auto
  have got: "\<forall>i<length earlier. get_output (zs_outs st1) (owr_Name (earlier ! i)) = do_output (results ! i)"
      "\<forall>k. k \<notin> owr_Name ` set earlier \<longrightarrow> get_output (zs_outs st1) k = None"
    using outputs_of_lookup [of earlier results NewOutputs] assms(2) list_all2_lengthD [OF results(1)]
    by (simp_all add: results(2) get_output_def NewOutputs_def)
  have "\<exists>ref\<in>set (owr_Sources resource). ref_Name ref = k \<and> ref_Resource ref \<in> owr_Name ` set earlier"
    if input: "fmlookup (GetSources (NewInputGenerator resource (zs_outs st1))) k = Some input" for k input
  proof -
    from input obtain ref where "last_named ref_Name (filter (\<lambda>r. GetSource (zs_outs st1) (ref_Resource r) \<noteq> None) (owr_Sources resource)) k = Some ref"
      by (auto simp: GetSources_lookup NewInputGenerator_def split: option.splits)
    from last_named_SomeD [OF this] have ref: "ref \<in> set (owr_Sources resource)" "ref_Name ref = k" "GetSource (zs_outs st1) (ref_Resource ref) \<noteq> None"
      by auto
    then have "ref_Resource ref \<in> owr_Name ` set earlier" using got(2) by (auto simp: GetSource_def split: option.splits)
    with ref show ?thesis by blast
  qed
  with do results(1) got show ?thesis by blast
qed

section \<open>References that are accepted and never satisfied\<close>

definition self_reference :: ClusterSupplyChain where
  "self_reference =
     \<lparr>sc_Name = ''chain'',
      sc_Spec = \<lparr>scs_LegacySelector = \<lparr>leg_Selector = Some (fmap_of_list [(''app'', ''web'')]), leg_SelectorMatchExpressions = None, leg_SelectorMatchFields = None\<rparr>,
        scs_Resources = [\<lparr>scr_Name = ''a'', scr_TemplateRef = \<lparr>btr_Kind = ''ClusterSourceTemplate'', btr_Name = ''t'', btr_Options = []\<rparr>,
          scr_Params = [], scr_Sources = [\<lparr>ref_Name = ''in'', ref_Resource = ''a''\<rparr>], scr_Images = [], scr_Configs = []\<rparr>],
        scs_Params = [], scs_ServiceAccountRef = \<lparr>sar_Name = '''', sar_Namespace = ''''\<rparr>\<rparr>,
      sc_Conditions = [], sc_ObservedGeneration = 0, sc_Generation = 1\<rparr>"

text \<open>A resource whose only source is itself passes the webhook, whatever the label selectors that the library accepts are.\<close>

theorem self_reference_accepted:
  assumes "\<And>l. \<exists>f. lsel l = Inr f"
  shows "ClusterSupplyChain_ValidateCreate lsel jp self_reference = None"
  using assms
  by (simp add: ClusterSupplyChain_ValidateCreate_def validateNewState_iff wf_supply_chain_def self_reference_def wf_selector_def
      wf_label_selectors_def wf_template_ref_def resolves_def legacySelectorToSelector_def)

section \<open>Witnesses\<close>

definition passing_resource :: "string \<Rightarrow> ResourceReference list \<Rightarrow> OwnerResource" where
  "passing_resource name sources =
     \<lparr>owr_TemplateRef = \<lparr>tref_Kind = ''ClusterSourceTemplate'', tref_Name = ''t''\<rparr>, owr_TemplateOptions = [], owr_Params = [],
      owr_Name = name, owr_Sources = sources, owr_Images = [], owr_Configs = [], owr_Deployment = None\<rparr>"

text \<open>Every resource produces its own name as its source.\<close>

definition naming_do :: "unit resource_do" where
  "naming_do = (\<lambda>rsc bn outs mapper r.
     Ret (do_return None None (Some \<lparr>to_Source = Some \<lparr>so_URL = JStr (owr_Name rsc), so_Revision = JNull\<rparr>, to_Image = JNull, to_Config = JNull\<rparr>)
       False '''' None, r))"

definition naming_realizer :: realizer where
  "naming_realizer = \<lparr>rl_healthyConditionEvaluator = \<lambda>h rr u. Panic '''', rl_mapper = \<lambda>g. Inl (ErrorString '''')\<rparr>"

lemma naming_returns: "\<exists>st'. realize_loop naming_do naming_realizer oe clock bn n rs st = Ret st'"
proof (induction rs arbitrary: n st)
  case (Cons r rs)
  have "\<exists>st'. realize_resource naming_do naming_realizer oe (clock n) bn r st = Ret st'"
    by (simp add: realize_resource_def naming_do_def do_return_def describe_resource_def describe_new_def Let_def split: option.split)
  with Cons.IH show ?case by (auto simp: go_bind_Ret_iff)
qed simp

theorem inputs_from_earlier_resources_witness:
  "\<exists>outs. fmlookup (GetSources (NewInputGenerator (passing_resource ''b'' [\<lparr>ref_Name = ''x'', ref_Resource = ''a''\<rparr>, \<lparr>ref_Name = ''y'', ref_Resource = ''b''\<rparr>]) outs)) ''x'' =
       Some \<lparr>si_URL = JStr ''a'', si_Revision = JNull, si_Name = ''x''\<rparr> \<and>
     fmlookup (GetSources (NewInputGenerator (passing_resource ''b'' [\<lparr>ref_Name = ''x'', ref_Resource = ''a''\<rparr>, \<lparr>ref_Name = ''y'', ref_Resource = ''b''\<rparr>]) outs)) ''y'' = None"
proof -
  let ?a = "passing_resource ''a'' []"
  let ?b = "passing_resource ''b'' [\<lparr>ref_Name = ''x'', ref_Resource = ''a''\<rparr>, \<lparr>ref_Name = ''y'', ref_Resource = ''b''\<rparr>]"
  let ?oe = "\<lparr>oe_Yaml = \<lambda>v. Inr '''', oe_Sha256 = \<lambda>b. '''', oe_ShortenString = \<lambda>b n. take n b\<rparr>"
  have "\<exists>result. Realize naming_do naming_realizer ?oe int ''chain'' ([?a] @ ?b # []) (NewResourceStatuses [] AddConditionForResourceSubmittedWorkload)
      \<lparr>rg_world = (), rg_cache = NewCache, rg_events = []\<rparr> = Ret result"
    using naming_returns [of ?oe int "''chain''" 0 "[?a] @ ?b # []"] unfolding Realize_def go_bind_Ret_iff by blast
  then obtain result where run: "Realize naming_do naming_realizer ?oe int ''chain'' ([?a] @ ?b # []) (NewResourceStatuses [] AddConditionForResourceSubmittedWorkload)
      \<lparr>rg_world = (), rg_cache = NewCache, rg_events = []\<rparr> = Ret result" ..
  have "distinct (map owr_Name ([?a] @ ?b # []))" by (simp add: passing_resource_def)
  from inputs_from_earlier_resources [OF run this] obtain outs results where
    o: "list_all2 (returned naming_do naming_realizer ''chain'') [?a] results" "get_output outs ''a'' = do_output (results ! 0)"
      "\<forall>k. k \<notin> {''a''} \<longrightarrow> get_output outs k = None"
    by (auto simp: passing_resource_def)
  then have "get_output outs ''a'' = Some \<lparr>to_Source = Some \<lparr>so_URL = JStr ''a'', so_Revision = JNull\<rparr>, to_Image = JNull, to_Config = JNull\<rparr>"
    by (auto simp: list_all2_Cons1 returned_def naming_do_def do_return_def passing_resource_def)
  with o(3) have "GetSource outs ''a'' = Some \<lparr>so_URL = JStr ''a'', so_Revision = JNull\<rparr>" "GetSource outs ''b'' = None"
    by (simp_all add: GetSource_def)
  then show ?thesis by (intro exI [of _ outs]) (simp add: GetSources_def NewInputGenerator_def passing_resource_def)
qed

end
