(* ===== verification/Orphans.thy ===== *)
theory Orphans
  imports Realizer
begin

text \<open>
  \<^verbatim>\<open>pkg/controllers/common.go\<close> and \<^verbatim>\<open>cleanupOrphanedObjects\<close>, which the workload and the deliverable reconciler share word for word:
  deleting the objects of the previous status that no current resource stands for.

  \<open>ref_env\<close> holds the library functions on object references: \<open>rv_gvk\<close> is \<^verbatim>\<open>ref.GroupVersionKind()\<close>, \<open>rv_object\<close> the
  unstructured object with the kind, namespace and name of a reference.
\<close>

record ref_env =
  rv_gvk :: "ObjectReference \<Rightarrow> GroupVersionKind"
  rv_object :: "ObjectReference \<Rightarrow> unstructured"

abbreviation stamped_of :: "ResourceStatus \<Rightarrow> StampedRef option" where
  "stamped_of s \<equiv> rr_StampedRef (rs_RealizedResource s)"

abbreviation template_of :: "ResourceStatus \<Rightarrow> ObjectReference option" where
  "template_of s \<equiv> rr_TemplateRef (rs_RealizedResource s)"

definition nil_dereference :: "'a go" where
  "nil_dereference = Panic ''nil pointer dereference''"

section \<open>When two statuses stand for the same object\<close>

definition mutableEquivalenceTest :: "ref_env \<Rightarrow> ResourceStatus \<Rightarrow> ResourceStatus \<Rightarrow> bool go" where
  "mutableEquivalenceTest rv realizedResource prevResource =
     (case (stamped_of realizedResource, stamped_of prevResource) of
        (Some a, Some b) \<Rightarrow>
          Ret (rv_gvk rv (sref_ObjectReference a) = rv_gvk rv (sref_ObjectReference b) \<and>
               or_Namespace (sref_ObjectReference a) = or_Namespace (sref_ObjectReference b) \<and>
               or_Name (sref_ObjectReference a) = or_Name (sref_ObjectReference b))
      | _ \<Rightarrow> nil_dereference)"

definition immutableEquivalenceTest ::
  "ref_env \<Rightarrow> 'w api_client \<Rightarrow> 'w repository \<Rightarrow> ResourceStatus \<Rightarrow> ResourceStatus \<Rightarrow> bool go" where
  "immutableEquivalenceTest rv cl r realizedResource prevResource =
     (case stamped_of prevResource of
        None \<Rightarrow> nil_dereference
      | Some prevRef \<Rightarrow>
          go_handle (GetUnstructured cl r (rv_object rv (sref_ObjectReference prevRef)))
            (\<lambda>err. Err (WrapError ''get unstructured: '' err))
            (\<lambda>prevObj.
               case prevObj of
                 None \<Rightarrow> Ret False
               | Some obj \<Rightarrow>
                   (let lifecycleLabel = fmlookup (u_Labels obj) ''carto.run/template-lifecycle''
                    in if lifecycleLabel = None \<or> lifecycleLabel = Some ''mutable''
                       then mutableEquivalenceTest rv realizedResource prevResource
                       else
                         (case (template_of realizedResource, template_of prevResource) of
                            (Some a, Some b) \<Rightarrow>
                              Ret (or_Name a = or_Name b \<and> or_Kind a = or_Kind b \<and>
                                   resource_status_name realizedResource = resource_status_name prevResource)
                          | _ \<Rightarrow> nil_dereference))))"

type_synonym equivalence_test = "ResourceStatus \<Rightarrow> ResourceStatus \<Rightarrow> bool go"

definition getEquivalenceTest ::
  "ref_env \<Rightarrow> 'w api_client \<Rightarrow> 'w repository \<Rightarrow> ResourceStatus \<Rightarrow> equivalence_test go" where
  "getEquivalenceTest rv cl r prevResource =
     (case template_of prevResource of
        None \<Rightarrow> nil_dereference
      | Some ref \<Rightarrow>
          go_handle (GetTemplate cl r (or_Name ref) (or_Kind ref))
            (\<lambda>err. Err (WrapError (''unable to get api template ['' @ or_Kind ref @ ''/'' @ or_Name ref @ '']: '') err))
            (\<lambda>apiTemplate.
               go_handle (NewReaderFromAPI apiTemplate)
                 (\<lambda>err. Err (WrapError (''failed to get reader for apiTemplate ['' @ or_Kind ref @ ''/'' @ or_Name ref @ '']: '') err))
                 (\<lambda>reader.
                    Ret (if IsImmutable (GetLifecycle reader) then immutableEquivalenceTest rv cl r
                         else mutableEquivalenceTest rv))))"

section \<open>Deleting orphans\<close>

text \<open>The inner loop: is there an equivalent current resource?\<close>

fun any_equivalent :: "equivalence_test \<Rightarrow> ResourceStatus \<Rightarrow> ResourceStatus list \<Rightarrow> bool go" where
  "any_equivalent test prevResource [] = Ret False"
| "any_equivalent test prevResource (realizedResource # rest) =
     (if stamped_of realizedResource = None then any_equivalent test prevResource rest
      else go_handle (test realizedResource prevResource)
        (\<lambda>err. Err (WrapError ''failed to perform equivalence test: '' err))
        (\<lambda>equivalent. if equivalent then Ret True else any_equivalent test prevResource rest))"

fun orphanedObjs ::
  "ref_env \<Rightarrow> 'w api_client \<Rightarrow> 'w repository \<Rightarrow> ResourceStatus list \<Rightarrow> ResourceStatus list \<Rightarrow> ObjectReference list go" where
  "orphanedObjs rv cl r realizedResources [] = Ret []"
| "orphanedObjs rv cl r realizedResources (prevResource # rest) =
     (case stamped_of prevResource of
        None \<Rightarrow> orphanedObjs rv cl r realizedResources rest
      | Some ref \<Rightarrow>
          go_handle (getEquivalenceTest rv cl r prevResource)
            (\<lambda>err. if cl_IsNotFound cl err
               then go_bind (orphanedObjs rv cl r realizedResources rest) (\<lambda>os. Ret (sref_ObjectReference ref # os))
               else Err (WrapError ''unable to get equivalence test '' err))
            (\<lambda>test.
               go_bind (any_equivalent test prevResource realizedResources) (\<lambda>found.
                 go_bind (orphanedObjs rv cl r realizedResources rest) (\<lambda>os.
                   Ret (if found then os else sref_ObjectReference ref # os)))))"

fun delete_orphans :: "ref_env \<Rightarrow> 'w api_client \<Rightarrow> 'w repository \<Rightarrow> ObjectReference list \<Rightarrow> gerror option \<times> 'w repository" where
  "delete_orphans rv cl r [] = (None, r)"
| "delete_orphans rv cl r (ref # refs) =
     (case repo_Delete cl r (rv_object rv ref) of
        (Some err, r') \<Rightarrow> (Some err, r')
      | (None, r') \<Rightarrow> delete_orphans rv cl r' refs)"

definition cleanupOrphanedObjects ::
  "ref_env \<Rightarrow> 'w api_client \<Rightarrow> 'w repository \<Rightarrow> ResourceStatus list \<Rightarrow> ResourceStatus list \<Rightarrow> (gerror option \<times> 'w repository) go" where
  "cleanupOrphanedObjects rv cl r previousResources realizedResources =
     go_handle (orphanedObjs rv cl r realizedResources previousResources)
       (\<lambda>err. Ret (Some err, r))
       (\<lambda>refs. Ret (delete_orphans rv cl r refs))"

section \<open>No panic\<close>

text \<open>Every status with an object has a template: the realizer writes no other, so the tests dereference no nil pointer.\<close>

definition status_ok :: "RealizedResource \<Rightarrow> bool" where
  "status_ok rr \<longleftrightarrow> (rr_StampedRef rr \<noteq> None \<longrightarrow> rr_TemplateRef rr \<noteq> None)"

abbreviation statuses_ok :: "ResourceStatus list \<Rightarrow> bool" where
  "statuses_ok ss \<equiv> \<forall>s\<in>set ss. status_ok (rs_RealizedResource s)"

lemma panics_handle: "panics (go_handle m f k) \<longleftrightarrow> panics m \<or> (\<exists>e. m = Err e \<and> panics (f e)) \<or> (\<exists>v. m = Ret v \<and> panics (k v))"
  by (cases m) auto

lemma repo_reads_no_panic [simp]:
  "\<not> panics (GetUnstructured cl r obj)" "\<not> panics (GetTemplate cl r n k)" "\<not> panics (NewReaderFromAPI t)"
  by (auto simp: GetUnstructured_def GetTemplate_def optional_object_def NewReaderFromAPI_def split: sum.split option.split)

lemma equivalence_no_panic:
  assumes "getEquivalenceTest rv cl r p = Ret test" "status_ok (rs_RealizedResource p)" "stamped_of p \<noteq> None"
    "status_ok (rs_RealizedResource c)" "stamped_of c \<noteq> None"
  shows "\<not> panics (test c p)"
proof -
  have m: "\<not> panics (mutableEquivalenceTest rv c p)" using assms(3,5) by (auto simp: mutableEquivalenceTest_def)
  moreover have "\<not> panics (immutableEquivalenceTest rv cl r c p)"
    using assms(2-5) m by (auto simp: immutableEquivalenceTest_def panics_handle Let_def status_ok_def split: option.splits)
  ultimately show ?thesis
    using assms(1) by (auto simp: getEquivalenceTest_def go_handle_Ret_iff nil_dereference_def split: option.splits if_splits)
qed

lemma any_equivalent_no_panic:
  assumes "getEquivalenceTest rv cl r p = Ret test" "status_ok (rs_RealizedResource p)" "stamped_of p \<noteq> None" "statuses_ok cs"
  shows "\<not> panics (any_equivalent test p cs)"
  using assms(4)
proof (induction cs)
  case (Cons c cs)
  then show ?case using equivalence_no_panic [OF assms(1-3), of c] by (simp add: panics_handle)
qed simp

lemma orphanedObjs_no_panic: "statuses_ok ps \<Longrightarrow> statuses_ok cs \<Longrightarrow> \<not> panics (orphanedObjs rv cl r cs ps)"
proof (induction ps)
  case (Cons p ps)
  have "\<not> panics (getEquivalenceTest rv cl r p)" if "stamped_of p \<noteq> None"
    using Cons.prems(1) that by (auto simp: getEquivalenceTest_def panics_handle status_ok_def)
  then show ?case
    using Cons any_equivalent_no_panic [of rv cl r p _ cs] by (auto simp: panics_handle panics_bind split: option.split)
qed simp

section \<open>What the realizer writes\<close>

definition statuses_inv :: "resourceStatuses \<Rightarrow> bool" where
  "statuses_inv sts \<longleftrightarrow>
     (\<forall>s\<in>set (rss_statuses sts).
        (\<forall>p. st_previous s = Some p \<longrightarrow> status_ok (rs_RealizedResource p)) \<and>
        (\<forall>c. st_current s = Some c \<longrightarrow> status_ok (rs_RealizedResource c)))"

lemma statuses_inv_new: "statuses_ok prev \<Longrightarrow> statuses_inv (NewResourceStatuses prev f)"
  by (auto simp: statuses_inv_def NewResourceStatuses_def)

lemma statuses_inv_current: "statuses_inv sts \<Longrightarrow> statuses_ok (GetCurrent sts)"
  by (auto simp: statuses_inv_def GetCurrent_def in_map_filter)

lemma statuses_inv_previous: "statuses_inv sts \<Longrightarrow> GetPreviousResourceStatus sts n = Some p \<Longrightarrow> status_ok (rs_RealizedResource p)"
  by (auto simp: statuses_inv_def GetPreviousResourceStatus_def split: option.splits dest!: find_Some_D)

lemma statuses_inv_Add: "statuses_inv sts \<Longrightarrow> status_ok rr \<Longrightarrow> statuses_inv (AddStatus now sts rr err pt further)"
  using set_update_first [of "\<lambda>s. st_name s = rr_Name rr"]
  by (fastforce simp: statuses_inv_def AddStatus_def Let_def case_prod_beta split: if_splits)

context resource_realizer
begin

lemma describe_ok:
  assumes "Do resource bn outs mapper r0 = Ret (res, r1)"
    and "describe_resource rl oe now resource res previous r1 = Ret (rr, cs, r2)"
    and "\<And>p. previous = Some p \<Longrightarrow> status_ok (rs_RealizedResource p)"
  shows "status_ok rr"
proof -
  have "result_ok res" using Do_ok assms(1) .
  then have new: "status_ok rr" if "describe_new rl oe now resource res prev r1 = Ret (rr, cs, r2)" for prev
    using that by (auto simp: describe_new_def Let_def generateRealizedResource_def status_ok_def result_ok_def go_bind_Ret_iff split: option.splits)
  then show ?thesis using assms(2,3) by (auto simp: describe_resource_def split: option.splits if_splits)
qed

lemma realize_loop_inv:
  assumes "realize_loop Do rl oe clock bn n rs st = Ret st'" "statuses_inv (zs_statuses st)"
  shows "statuses_inv (zs_statuses st')"
  using assms
proof (induction rs arbitrary: n st)
  case (Cons resource rs)
  obtain st1 where st1: "realize_resource Do rl oe (clock n) bn resource st = Ret st1" "realize_loop Do rl oe clock bn (Suc n) rs st1 = Ret st'"
    using Cons.prems(1) by (auto simp: go_bind_Ret_iff)
  obtain res r1 rr cs r2 where s: "Do resource bn (zs_outs st) (rl_mapper rl) (zs_repo st) = Ret (res, r1)"
      "describe_resource rl oe (clock n) resource res (GetPreviousResourceStatus (zs_statuses st) (owr_Name resource)) r1 = Ret (rr, cs, r2)"
      "zs_statuses st1 = AddStatus (clock n) (zs_statuses st) rr (error_with_health (do_err res) cs) (do_passThrough res) cs"
    using st1(1) by (auto simp: realize_resource_def go_bind_Ret_iff Let_def)
  have "statuses_inv (zs_statuses st1)"
    using describe_ok [OF s(1,2)] statuses_inv_previous [OF Cons.prems(2)] statuses_inv_Add [OF Cons.prems(2)] by (simp add: s(3))
  then show ?case using Cons.IH [OF st1(2)] by simp
qed simp

lemma realize_statuses_ok:
  assumes "Realize Do rl oe clock bn rs (NewResourceStatuses prev addf) r = Ret (err, sts, r')" "statuses_ok prev"
  shows "statuses_ok (GetCurrent sts)"
proof -
  obtain st where st: "realize_loop Do rl oe clock bn 0 rs
      \<lparr>zs_outs = NewOutputs, zs_statuses = NewResourceStatuses prev addf, zs_repo = r, zs_firstError = None\<rparr> = Ret st" "sts = zs_statuses st"
    using assms(1) by (auto simp: Realize_def go_bind_Ret_iff)
  have "statuses_inv sts" unfolding st(2) by (rule realize_loop_inv [OF st(1)]) (simp add: statuses_inv_new [OF assms(2)])
  then show ?thesis by (rule statuses_inv_current)
qed

end

section \<open>Properties\<close>

text \<open>
  After a blueprint was realized by the resource realizer, cleaning up orphans never dereferences a nil pointer, provided that the
  previous status was written the same way: in every status that the realizer writes a resource with an object has a template.
\<close>

theorem cleanup_no_panic:
  assumes "Realize (Do_resource env rz) rl oe clock bn rs (NewResourceStatuses prev addf) r = Ret (err, sts, r')"
    and "\<forall>s\<in>set prev. status_ok (rs_RealizedResource s)"
  shows "(\<forall>s\<in>set (GetCurrent sts). status_ok (rs_RealizedResource s)) \<and>
    \<not> panics (cleanupOrphanedObjects rv cl r' prev (GetCurrent sts))"
proof -
  have "statuses_ok (GetCurrent sts)" by (rule component.realize_statuses_ok [OF assms])
  then show ?thesis using orphanedObjs_no_panic [OF assms(2)] by (simp add: cleanupOrphanedObjects_def panics_handle)
qed

text \<open>The reference of an object that a status stands for, as the mutable test compares them.\<close>

definition same_object :: "ref_env \<Rightarrow> ObjectReference \<Rightarrow> ObjectReference \<Rightarrow> bool" where
  "same_object rv a b \<longleftrightarrow> rv_gvk rv a = rv_gvk rv b \<and> or_Namespace a = or_Namespace b \<and> or_Name a = or_Name b"

definition mutable_status :: "'w api_client \<Rightarrow> 'w repository \<Rightarrow> ResourceStatus \<Rightarrow> bool" where
  "mutable_status cl r p \<longleftrightarrow> (case template_of p of None \<Rightarrow> False | Some ref \<Rightarrow>
     (case GetTemplate cl r (or_Name ref) (or_Kind ref) of Ret (Some t) \<Rightarrow> \<not> IsImmutable (GetLifecycle t) | _ \<Rightarrow> False))"

lemma getEquivalenceTest_mutable: "mutable_status cl r p \<Longrightarrow> getEquivalenceTest rv cl r p = Ret (mutableEquivalenceTest rv)"
  by (auto simp: mutable_status_def getEquivalenceTest_def NewReaderFromAPI_def split: option.splits go.splits)

lemma any_equivalent_mutable:
  assumes "stamped_of p = Some ref"
  shows "any_equivalent (mutableEquivalenceTest rv) p cs =
    Ret (\<exists>c\<in>set cs. \<exists>cref. stamped_of c = Some cref \<and> same_object rv (sref_ObjectReference cref) (sref_ObjectReference ref))"
  using assms by (induction cs) (auto simp: mutableEquivalenceTest_def same_object_def)

lemma orphanedObjs_mutable:
  assumes "\<forall>p\<in>set prev. stamped_of p \<noteq> None \<longrightarrow> mutable_status cl r p"
  shows "orphanedObjs rv cl r cur prev = Ret
    (filter (\<lambda>o'. \<not> (\<exists>c\<in>set cur. \<exists>cref. stamped_of c = Some cref \<and> same_object rv (sref_ObjectReference cref) o'))
      (map sref_ObjectReference (List.map_filter stamped_of prev)))"
  using assms
proof (induction prev)
  case (Cons p prev)
  then show ?case
    by (cases "stamped_of p") (auto simp: List.map_filter_simps getEquivalenceTest_mutable any_equivalent_mutable)
qed (simp add: List.map_filter_simps)

text \<open>
  C15: with mutable templates the cleanup deletes exactly the objects of the previous status that no current resource refers to, in the
  order of the previous status: a resource that was renamed, or dropped from the blueprint, loses its object unless another
  resource now stamps the same one, and an object in use is never deleted.
\<close>

theorem orphans_deleted:
  assumes "\<forall>p\<in>set prev. stamped_of p \<noteq> None \<longrightarrow> mutable_status cl r p"
  shows "cleanupOrphanedObjects rv cl r prev cur =
    Ret (delete_orphans rv cl r
      (filter (\<lambda>o'. \<not> (\<exists>c\<in>set cur. \<exists>cref. stamped_of c = Some cref \<and> same_object rv (sref_ObjectReference cref) o'))
        (map sref_ObjectReference (List.map_filter stamped_of prev))))"
  by (simp add: cleanupOrphanedObjects_def orphanedObjs_mutable [OF assms])

definition example_status :: "string \<Rightarrow> ResourceStatus" where
  "example_status name =
     \<lparr>rs_RealizedResource = \<lparr>rr_Name = name,
        rr_StampedRef = Some \<lparr>sref_ObjectReference = \<lparr>or_Kind = ''ConfigMap'', or_Namespace = ''ns'', or_Name = name, or_APIVersion = ''v1''\<rparr>,
          sref_Resource = ''configmaps''\<rparr>,
        rr_TemplateRef = Some \<lparr>or_Kind = ''ClusterTemplate'', or_Namespace = '''', or_Name = ''t'', or_APIVersion = ''carto.run/v1alpha1''\<rparr>,
        rr_Inputs = [], rr_Outputs = []\<rparr>,
      rs_Conditions = []\<rparr>"

definition example_refs :: ref_env where
  "example_refs =
     \<lparr>rv_gvk = \<lambda>ref. \<lparr>gvk_Group = '''', gvk_Version = or_APIVersion ref, gvk_Kind = or_Kind ref\<rparr>,
      rv_object = \<lambda>ref. example_object\<lparr>u_Name := or_Name ref, u_Namespace := or_Namespace ref\<rparr>\<rparr>"

definition template_client :: "unstructured list api_client" where
  "template_client = list_client\<lparr>cl_GetTemplate := \<lambda>w k n. Inr (ClusterTemplate (nn_Name n)
     \<lparr>ts_Template = None, ts_Ytt = '''', ts_Params = [], ts_HealthRule = None, ts_Lifecycle = ''mutable'', ts_RetentionPolicy = None\<rparr>)\<rparr>"

fun wrapped_not_found :: "gerror \<Rightarrow> bool" where
  "wrapped_not_found (WrapError t e) = wrapped_not_found e"
| "wrapped_not_found (ApiStatusError reason m) \<longleftrightarrow> reason = ''NotFound''"
| "wrapped_not_found _ = False"

theorem orphans_deleted_witness:
  "cleanupOrphanedObjects example_refs template_client \<lparr>rg_world = [], rg_cache = NewCache, rg_events = []\<rparr>
     [example_status ''a'', example_status ''b''] [example_status ''b''] =
   Ret (delete_orphans example_refs template_client \<lparr>rg_world = [], rg_cache = NewCache, rg_events = []\<rparr>
     [\<lparr>or_Kind = ''ConfigMap'', or_Namespace = ''ns'', or_Name = ''a'', or_APIVersion = ''v1''\<rparr>])"
proof -
  let ?r = "\<lparr>rg_world = [] :: unstructured list, rg_cache = NewCache, rg_events = []\<rparr>"
  have "\<forall>p\<in>set [example_status ''a'', example_status ''b'']. stamped_of p \<noteq> None \<longrightarrow> mutable_status template_client ?r p"
    by (simp add: mutable_status_def example_status_def template_client_def GetTemplate_def GetAPITemplate_def getObject_def
        optional_object_def reader.lifecycle_spec convertLifecycle_def IsImmutable_def)
  from orphans_deleted [OF this, of example_refs "[example_status ''b'']"] show ?thesis
    by (simp add: example_status_def List.map_filter_simps same_object_def example_refs_def)
qed

text \<open>
  The cleanup is meant to delete the object of a resource whose template no longer exists; the tests of the controllers expect it, with a fake
  repository whose \<^verbatim>\<open>GetTemplate\<close> returns a not found error.  The repository of the program reports a missing template as nil without an error, so with
  it that branch is never taken: the cleanup fails and deletes nothing, not even the objects of the other resources.
\<close>

theorem missing_template_blocks_cleanup:
  assumes "p \<in> set prev" "stamped_of p \<noteq> None" "template_of p = Some ref" "GetTemplate cl r (or_Name ref) (or_Kind ref) = Ret None"
    and "\<forall>s\<in>set prev. status_ok (rs_RealizedResource s)" "\<forall>s\<in>set cur. status_ok (rs_RealizedResource s)"
    and "\<And>t e. cl_IsNotFound cl (WrapError t e) = cl_IsNotFound cl e" "\<And>t. \<not> cl_IsNotFound cl (ErrorString t)"
  shows "\<exists>err. cleanupOrphanedObjects rv cl r prev cur = Ret (Some err, r)"
proof -
  have fail: "\<exists>err. getEquivalenceTest rv cl r p = Err err \<and> \<not> cl_IsNotFound cl err"
    using assms(3,4,7,8) by (simp add: getEquivalenceTest_def NewReaderFromAPI_def)
  have "\<nexists>os. orphanedObjs rv cl r cur prev = Ret os"
    using assms(1)
  proof (induction prev)
    case (Cons q prev)
    then show ?case
      using fail assms(2) by (cases "p = q") (auto simp: go_handle_Ret_iff go_bind_Ret_iff split: option.splits if_splits)
  qed simp
  moreover have "\<not> panics (orphanedObjs rv cl r cur prev)" by (rule orphanedObjs_no_panic [OF assms(5,6)])
  ultimately show ?thesis by (auto simp: not_panics_iff cleanupOrphanedObjects_def)
qed

section \<open>The loop of deletions\<close>

definition removal_event :: "ref_env \<Rightarrow> ObjectReference \<Rightarrow> recorder_call" where
  "removal_event rv ref = CallResourceEventf NormalType StampedObjectRemovedReason ''Deleted object [%Q]'' (Some (rv_object rv ref)) []"

text \<open>The cluster after requests to delete the given objects, whatever the answers.\<close>

definition world_after :: "ref_env \<Rightarrow> 'w api_client \<Rightarrow> 'w \<Rightarrow> ObjectReference list \<Rightarrow> 'w" where
  "world_after rv cl w refs = foldl (\<lambda>w ref. snd (cl_Delete cl w (rv_object rv ref))) w refs"

text \<open>The objects of \<open>deleted\<close> are deleted one after the other without an error.\<close>

fun all_deleted :: "ref_env \<Rightarrow> 'w api_client \<Rightarrow> 'w \<Rightarrow> ObjectReference list \<Rightarrow> bool" where
  "all_deleted rv cl w [] \<longleftrightarrow> True"
| "all_deleted rv cl w (ref # refs) \<longleftrightarrow>
     fst (cl_Delete cl w (rv_object rv ref)) = None \<and> all_deleted rv cl (snd (cl_Delete cl w (rv_object rv ref))) refs"

lemma delete_orphans_prefix:
  assumes "delete_orphans rv cl r refs = (err, r')"
  shows "\<exists>deleted. all_deleted rv cl (rg_world r) deleted \<and> rg_events r' = rg_events r @ map (removal_event rv) deleted \<and>
    (if err = None then refs = deleted \<and> rg_world r' = world_after rv cl (rg_world r) deleted
     else \<exists>ref rest. refs = deleted @ ref # rest \<and> fst (cl_Delete cl (world_after rv cl (rg_world r) deleted) (rv_object rv ref)) \<noteq> None \<and>
       rg_world r' = world_after rv cl (rg_world r) (deleted @ [ref]))"
  using assms
proof (induction refs arbitrary: r)
  case Nil
  then show ?case by (auto simp: world_after_def intro: exI [of _ "[]"])
next
  case (Cons ref refs)
  obtain e w where d: "cl_Delete cl (rg_world r) (rv_object rv ref) = (e, w)" by (cases "cl_Delete cl (rg_world r) (rv_object rv ref)")
  show ?case
  proof (cases e)
    case None
    define r1 where "r1 = repo_event (r\<lparr>rg_world := w\<rparr>) (removal_event rv ref)"
    have r1: "rg_world r1 = w" "rg_events r1 = rg_events r @ [removal_event rv ref]" by (simp_all add: r1_def repo_event_def)
    have "delete_orphans rv cl r1 refs = (err, r')"
      using Cons.prems by (simp add: repo_Delete_def d None r1_def removal_event_def)
    from Cons.IH [OF this, unfolded r1] obtain deleted where deleted: "all_deleted rv cl w deleted"
        "rg_events r' = (rg_events r @ [removal_event rv ref]) @ map (removal_event rv) deleted"
        "if err = None then refs = deleted \<and> rg_world r' = world_after rv cl w deleted
         else \<exists>ref rest. refs = deleted @ ref # rest \<and> fst (cl_Delete cl (world_after rv cl w deleted) (rv_object rv ref)) \<noteq> None \<and>
           rg_world r' = world_after rv cl w (deleted @ [ref])"
      by blast
    have "world_after rv cl (rg_world r) (ref # xs) = world_after rv cl w xs" for xs by (simp add: world_after_def d)
    with deleted show ?thesis by (intro exI [of _ "ref # deleted"]) (simp add: d None split: if_splits)
  next
    case (Some err')
    then show ?thesis using Cons.prems by (intro exI [of _ "[]"]) (auto simp: repo_Delete_def d world_after_def)
  qed
qed



definition no_template_client :: "unstructured list api_client" where
  "no_template_client =
     list_client\<lparr>cl_IsNotFound := wrapped_not_found, cl_GetTemplate := \<lambda>w k n. Inl (ApiStatusError ''NotFound'' '''')\<rparr>"

theorem missing_template_blocks_cleanup_witness:
  "\<exists>err. cleanupOrphanedObjects example_refs no_template_client \<lparr>rg_world = [], rg_cache = NewCache, rg_events = []\<rparr>
     [example_status ''a'', example_status ''b''] [] = Ret (Some err, \<lparr>rg_world = [], rg_cache = NewCache, rg_events = []\<rparr>)"
  by (rule missing_template_blocks_cleanup [of "example_status ''a''"])
    (auto simp: example_status_def status_ok_def no_template_client_def GetTemplate_def GetAPITemplate_def getObject_def optional_object_def)

theorem cleanup_no_panic_witness:
  "\<forall>env rz rl oe clock. \<exists>err sts r'. Realize (Do_resource env rz) rl oe clock ''chain'' []
       (NewResourceStatuses [example_status ''a''] AddConditionForResourceSubmittedWorkload)
       \<lparr>rg_world = [], rg_cache = NewCache, rg_events = []\<rparr> = Ret (err, sts, r') \<and>
     \<not> panics (cleanupOrphanedObjects example_refs template_client r' [example_status ''a''] (GetCurrent sts))"
proof (intro allI)
  fix env :: "unstructured list realizer_env" and rz rl oe clock
  obtain err sts r' where run: "Realize (Do_resource env rz) rl oe clock ''chain'' []
       (NewResourceStatuses [example_status ''a''] AddConditionForResourceSubmittedWorkload)
       \<lparr>rg_world = [], rg_cache = NewCache, rg_events = []\<rparr> = Ret (err, sts, r')"
    by (simp add: Realize_def)
  have "\<forall>s\<in>set [example_status ''a'']. status_ok (rs_RealizedResource s)" by (simp add: example_status_def status_ok_def)
  from cleanup_no_panic [OF run this] run
  show "\<exists>err sts r'. Realize (Do_resource env rz) rl oe clock ''chain'' []
       (NewResourceStatuses [example_status ''a''] AddConditionForResourceSubmittedWorkload)
       \<lparr>rg_world = [], rg_cache = NewCache, rg_events = []\<rparr> = Ret (err, sts, r') \<and>
     \<not> panics (cleanupOrphanedObjects example_refs template_client r' [example_status ''a''] (GetCurrent sts))"
    by blast
qed

end
