(* ===== verification/Tracker.thy ===== *)
theory Tracker
  imports Json_Path
begin

text \<open>
  \<^verbatim>\<open>pkg/tracker/dependency\<close> and \<^verbatim>\<open>pkg/enqueuer\<close>: which owners are to be reconciled when an object changes.  Every method holds
  the mutex, so a run of any number of goroutines is a sequence of method calls; \<open>now\<close> is the time a call reads, one
  reading for the whole call.
  Go ranges over the keys of a set in an order of its own, the argument \<open>ord\<close>.

  The interface is the locale \<open>dependency_tracker\<close>: its laws speak of the lease that an owner holds on a reference, and
  its main lemma says what \<^verbatim>\<open>Lookup\<close> returns after any sequence of calls.
\<close>

section \<open>Keys\<close>

record Key =
  key_Group :: string
  key_Kind :: string
  key_NamespacedName :: NamespacedName

definition NewKey :: "GroupVersionKind \<Rightarrow> NamespacedName \<Rightarrow> Key" where
  "NewKey gvk namespacedName = \<lparr>key_Group = gvk_Group gvk, key_Kind = gvk_Kind gvk, key_NamespacedName = namespacedName\<rparr>"

text \<open>\<^verbatim>\<open>%s\<close> prints a group kind as \<^verbatim>\<open>Kind.group\<close>, or just \<^verbatim>\<open>Kind\<close> in the core group, and a name as \<^verbatim>\<open>namespace/name\<close>.\<close>

definition show_GroupKind :: "string \<Rightarrow> string \<Rightarrow> string" where
  "show_GroupKind grp kind = (if grp = '''' then kind else kind @ ''.'' @ grp)"

definition show_NamespacedName :: "NamespacedName \<Rightarrow> string" where
  "show_NamespacedName n = nn_Namespace n @ ''/'' @ nn_Name n"

definition key_String :: "Key \<Rightarrow> string" where
  "key_String k = show_GroupKind (key_Group k) (key_Kind k) @ ''/'' @ show_NamespacedName (key_NamespacedName k)"

section \<open>The tracker\<close>

type_synonym lease_set = "(NamespacedName, time) fmap"

record tracker =
  tr_mapping :: "lease_set gomap"
  tr_leaseDuration :: time

definition NewDependencyTracker :: "time \<Rightarrow> tracker" where
  "NewDependencyTracker lease = \<lparr>tr_mapping = None, tr_leaseDuration = lease\<rparr>"

definition Track :: "time \<Rightarrow> tracker \<Rightarrow> Key \<Rightarrow> NamespacedName \<Rightarrow> tracker" where
  "Track now i ref obj =
     (let mapping = (case tr_mapping i of None \<Rightarrow> fmempty | Some m \<Rightarrow> m);
          l = (case fmlookup mapping (key_String ref) of None \<Rightarrow> fmempty | Some l \<Rightarrow> l);
          l' = fmupd obj (now + tr_leaseDuration i) l
      in i\<lparr>tr_mapping := Some (fmupd (key_String ref) l' mapping)\<rparr>)"

definition isExpired :: "time \<Rightarrow> time \<Rightarrow> bool" where
  "isExpired now expiry \<longleftrightarrow> time_After now expiry"

definition Lookup :: "(lease_set \<Rightarrow> NamespacedName list) \<Rightarrow> time \<Rightarrow> tracker \<Rightarrow> Key \<Rightarrow> NamespacedName list \<times> tracker" where
  "Lookup ord now i ref =
     (case fmlookup (entries (tr_mapping i)) (key_String ref) of
        None \<Rightarrow> ([], i)
      | Some s \<Rightarrow>
          (let expired = (\<lambda>key. case fmlookup s key of None \<Rightarrow> True | Some expiry \<Rightarrow> isExpired now expiry);
               items = filter (\<lambda>key. \<not> expired key) (ord s);
               s' = fmfilter (\<lambda>key. \<not> expired key) s
           in (items,
               i\<lparr>tr_mapping := Some (if s' = fmempty then fmdrop (key_String ref) (entries (tr_mapping i))
                                     else fmupd (key_String ref) s' (entries (tr_mapping i)))\<rparr>)))"

definition ClearTracked :: "tracker \<Rightarrow> NamespacedName \<Rightarrow> tracker" where
  "ClearTracked i obj =
     i\<lparr>tr_mapping := map_option (\<lambda>m. let m' = fmmap (fmdrop obj) m
                                     in fmfilter (\<lambda>k. fmlookup m' k \<noteq> Some fmempty) m') (tr_mapping i)\<rparr>"

text \<open>\<^verbatim>\<open>EnqueueTracked\<close>: the requests for a changed object.  \<open>kinds\<close> is \<^verbatim>\<open>Scheme.ObjectKinds\<close> of the watched type.\<close>

definition EnqueueTracked ::
  "(lease_set \<Rightarrow> NamespacedName list) \<Rightarrow> (gerror + GroupVersionKind list) \<Rightarrow> time \<Rightarrow> tracker \<Rightarrow> NamespacedName \<Rightarrow>
   (NamespacedName list \<times> tracker) go" where
  "EnqueueTracked ord kinds now t a =
     (case kinds of
        Inl err \<Rightarrow> Panic ''ObjectKinds''
      | Inr [] \<Rightarrow> Panic ''index out of range''
      | Inr (gvk # _) \<Rightarrow> Ret (Lookup ord now t (NewKey gvk a)))"

section \<open>The interface\<close>

text \<open>A call of a method, and the lease that \<open>obj\<close> holds on \<open>ref\<close> after a sequence of calls: the one of the last
  \<^verbatim>\<open>Track\<close> that no \<^verbatim>\<open>ClearTracked\<close> follows.\<close>

datatype tracker_call = CallTrack time Key NamespacedName | CallLookup time Key | CallClear NamespacedName

fun call_time :: "tracker_call \<Rightarrow> time option" where
  "call_time (CallTrack t r n) = Some t"
| "call_time (CallLookup t r) = Some t"
| "call_time (CallClear n) = None"

definition calls_before :: "time \<Rightarrow> tracker_call list \<Rightarrow> bool" where
  "calls_before now calls \<longleftrightarrow> (\<forall>c \<in> set calls. case call_time c of None \<Rightarrow> True | Some t \<Rightarrow> t \<le> now)"

fun lease_step :: "time \<Rightarrow> string \<Rightarrow> NamespacedName \<Rightarrow> time option \<Rightarrow> tracker_call \<Rightarrow> time option" where
  "lease_step d ref obj e (CallTrack t r n) = (if key_String r = ref \<and> n = obj then Some (t + d) else e)"
| "lease_step d ref obj e (CallLookup t r) = e"
| "lease_step d ref obj e (CallClear n) = (if n = obj then None else e)"

definition lease_after :: "time \<Rightarrow> tracker_call list \<Rightarrow> string \<Rightarrow> NamespacedName \<Rightarrow> time option" where
  "lease_after d calls ref obj = foldl (lease_step d ref obj) None calls"

lemma lease_after_simps [simp]:
  "lease_after d [] ref obj = None"
  "lease_after d (calls @ [c]) ref obj = lease_step d ref obj (lease_after d calls ref obj) c"
  by (simp_all add: lease_after_def)

fun run_call ::
  "(time \<Rightarrow> 's \<Rightarrow> Key \<Rightarrow> NamespacedName \<Rightarrow> 's) \<Rightarrow> (time \<Rightarrow> 's \<Rightarrow> Key \<Rightarrow> NamespacedName list \<times> 's) \<Rightarrow>
   ('s \<Rightarrow> NamespacedName \<Rightarrow> 's) \<Rightarrow> 's \<Rightarrow> tracker_call \<Rightarrow> 's" where
  "run_call track lookup clear s (CallTrack t r n) = track t s r n"
| "run_call track lookup clear s (CallLookup t r) = snd (lookup t s r)"
| "run_call track lookup clear s (CallClear n) = clear s n"

locale dependency_tracker =
  fixes new :: 's
    and track :: "time \<Rightarrow> 's \<Rightarrow> Key \<Rightarrow> NamespacedName \<Rightarrow> 's"
    and lookup :: "time \<Rightarrow> 's \<Rightarrow> Key \<Rightarrow> NamespacedName list \<times> 's"
    and clear :: "'s \<Rightarrow> NamespacedName \<Rightarrow> 's"
    and lease :: "'s \<Rightarrow> string \<Rightarrow> NamespacedName \<Rightarrow> time option"
    and invar :: "'s \<Rightarrow> bool"
    and d :: time
  assumes invar_new: "invar new" and lease_new: "lease new ref obj = None"
    and invar_track: "invar s \<Longrightarrow> invar (track t s r n)"
    and lease_track: "invar s \<Longrightarrow>
      lease (track t s r n) ref obj = (if key_String r = ref \<and> n = obj then Some (t + d) else lease s ref obj)"
    and invar_lookup: "invar s \<Longrightarrow> lookup t s r = (items, s') \<Longrightarrow> invar s'"
    and lease_lookup: "invar s \<Longrightarrow> lookup t s r = (items, s') \<Longrightarrow>
      lease s' ref obj = (case lease s ref obj of None \<Rightarrow> None
        | Some e \<Rightarrow> if ref = key_String r \<and> e < t then None else Some e)"
    and lookup_items: "invar s \<Longrightarrow> lookup t s r = (items, s') \<Longrightarrow>
      distinct items \<and> (obj \<in> set items \<longleftrightarrow> (\<exists>e. lease s (key_String r) obj = Some e \<and> t \<le> e))"
    and invar_clear: "invar s \<Longrightarrow> invar (clear s n)"
    and lease_clear: "invar s \<Longrightarrow> lease (clear s n) ref obj = (if n = obj then None else lease s ref obj)"
begin

abbreviation call :: "'s \<Rightarrow> tracker_call \<Rightarrow> 's" where
  "call \<equiv> run_call track lookup clear"

lemma invar_call: "invar s \<Longrightarrow> invar (call s c)"
  by (cases c) (auto intro: invar_track invar_clear invar_lookup [OF _ surjective_pairing])

lemma invar_calls: "invar (foldl call new calls)"
  by (induction calls rule: rev_induct) (auto simp: invar_new invar_call)

text \<open>Dropping expired leases never shows, because time does not run backwards.\<close>

lemma lease_calls:
  assumes "calls_before now calls"
  shows "lease (foldl call new calls) ref obj = lease_after d calls ref obj \<or>
    (lease (foldl call new calls) ref obj = None \<and> (\<exists>e. lease_after d calls ref obj = Some e \<and> e < now))"
  using assms
proof (induction calls rule: rev_induct)
  case (snoc c calls)
  let ?s = "foldl call new calls"
  have IH: "lease ?s ref obj = lease_after d calls ref obj \<or>
    (lease ?s ref obj = None \<and> (\<exists>e. lease_after d calls ref obj = Some e \<and> e < now))"
    using snoc by (auto simp: calls_before_def)
  show ?case
  proof (cases c)
    case (CallTrack t r n)
    then show ?thesis using IH by (simp add: lease_track [OF invar_calls])
  next
    case (CallLookup t r)
    obtain items s' where l: "lookup t ?s r = (items, s')" by fastforce
    have "t \<le> now" using snoc.prems CallLookup by (simp add: calls_before_def)
    then show ?thesis
      using IH CallLookup l by (cases "lease_after d calls ref obj") (auto simp: lease_lookup [OF invar_calls l] split: if_splits)
  next
    case (CallClear n)
    then show ?thesis using IH by (simp add: lease_clear [OF invar_calls])
  qed
qed (simp add: lease_new)

lemma lookup_after:
  assumes "calls_before now calls"
    and "lookup now (foldl call new calls) r = (items, s')"
  shows "obj \<in> set items \<longleftrightarrow> (\<exists>e. lease_after d calls (key_String r) obj = Some e \<and> now \<le> e)"
proof -
  have "lease (foldl call new calls) (key_String r) obj = lease_after d calls (key_String r) obj \<or>
    (lease (foldl call new calls) (key_String r) obj = None \<and> (\<exists>e. lease_after d calls (key_String r) obj = Some e \<and> e < now))"
    by (rule lease_calls) (rule assms(1))
  then show ?thesis using lookup_items [OF invar_calls assms(2), of obj] by (elim disjE) auto
qed

end

section \<open>The map keeps the laws\<close>

text \<open>Names are ordered by namespace and name, so that sets of them have an order in which Go might range over them.\<close>

instantiation NamespacedName_ext :: (linorder) linorder
begin

definition less_eq_NamespacedName_ext :: "'a NamespacedName_scheme \<Rightarrow> 'a NamespacedName_scheme \<Rightarrow> bool" where
  "less_eq_NamespacedName_ext a b \<longleftrightarrow>
     nn_Namespace a < nn_Namespace b \<or>
     (nn_Namespace a = nn_Namespace b \<and>
      (nn_Name a < nn_Name b \<or> (nn_Name a = nn_Name b \<and> NamespacedName.more a \<le> NamespacedName.more b)))"

definition less_NamespacedName_ext :: "'a NamespacedName_scheme \<Rightarrow> 'a NamespacedName_scheme \<Rightarrow> bool" where
  "less_NamespacedName_ext a b \<longleftrightarrow> a \<le> b \<and> \<not> b \<le> a"

instance
proof
  fix x y z :: "'a NamespacedName_scheme"
  show "x < y \<longleftrightarrow> x \<le> y \<and> \<not> y \<le> x" by (simp add: less_NamespacedName_ext_def)
  show "x \<le> x" by (simp add: less_eq_NamespacedName_ext_def)
  show "x \<le> z" if "x \<le> y" "y \<le> z"
    using that unfolding less_eq_NamespacedName_ext_def by (elim disjE conjE) (simp_all, (blast intro: less_trans order_trans)+)
  show "x = y" if "x \<le> y" "y \<le> x"
    using that unfolding less_eq_NamespacedName_ext_def by (elim disjE conjE) simp_all
  show "x \<le> y \<or> y \<le> x"
    unfolding less_eq_NamespacedName_ext_def by (metis linorder_less_linear linear)
qed

end

locale map_order =
  fixes ord :: "(NamespacedName, time) fmap \<Rightarrow> NamespacedName list"
  assumes ord_set: "set (ord s) = fmdom' s" and ord_distinct: "distinct (ord s)"

interpretation sorted_keys: map_order "\<lambda>s. sorted_list_of_fset (fmdom s)"
  by unfold_locales (simp_all add: fmdom'_alt_def sorted_list_of_fset.rep_eq)

definition lease_of :: "tracker \<Rightarrow> string \<Rightarrow> NamespacedName \<Rightarrow> time option" where
  "lease_of i ref obj =
     (case fmlookup (entries (tr_mapping i)) ref of None \<Rightarrow> None | Some s \<Rightarrow> fmlookup s obj)"

text \<open>The invariant: no reference is kept without an owner that tracks it.\<close>

definition tracker_invar :: "time \<Rightarrow> tracker \<Rightarrow> bool" where
  "tracker_invar d i \<longleftrightarrow> tr_leaseDuration i = d \<and> (\<forall>ref. fmlookup (entries (tr_mapping i)) ref \<noteq> Some fmempty)"

lemma fmfilter_empty_iff: "fmfilter P m = fmempty \<longleftrightarrow> (\<forall>k v. fmlookup m k = Some v \<longrightarrow> \<not> P k)"
proof
  assume "fmfilter P m = fmempty"
  then have "fmlookup (fmfilter P m) k = None" for k by simp
  then show "\<forall>k v. fmlookup m k = Some v \<longrightarrow> \<not> P k" by (fastforce split: if_splits)
qed (auto intro!: fmap_ext)

context map_order
begin

lemma lookup_split:
  assumes "Lookup ord now i r = (items, i')"
  shows "distinct items" and "obj \<in> set items \<longleftrightarrow> (\<exists>e. lease_of i (key_String r) obj = Some e \<and> now \<le> e)"
    and "lease_of i' ref obj = (case lease_of i ref obj of None \<Rightarrow> None
        | Some e \<Rightarrow> if ref = key_String r \<and> e < now then None else Some e)"
    and "tracker_invar d i \<Longrightarrow> tracker_invar d i'"
  using assms ord_set ord_distinct
  by (force simp: Lookup_def lease_of_def tracker_invar_def isExpired_def time_After_def Let_def fmlookup_dom'_iff
      fmfilter_empty_iff split: option.splits if_splits)+

end

lemma Track_laws:
  shows "tracker_invar d i \<Longrightarrow> tracker_invar d (Track t i r n)"
    and "tracker_invar d i \<Longrightarrow>
      lease_of (Track t i r n) ref obj = (if key_String r = ref \<and> n = obj then Some (t + d) else lease_of i ref obj)"
proof -
  have dur: "tr_leaseDuration (Track t i r n) = tr_leaseDuration i" by (simp add: Track_def Let_def)
  have "entries (tr_mapping (Track t i r n)) =
      fmupd (key_String r) (fmupd n (t + tr_leaseDuration i)
        (case fmlookup (entries (tr_mapping i)) (key_String r) of None \<Rightarrow> fmempty | Some l \<Rightarrow> l)) (entries (tr_mapping i))"
    by (simp add: Track_def Let_def entries_def split: option.split)
  moreover have "fmupd n e l \<noteq> fmempty" for e and l :: lease_set
    by (metis fmempty_lookup fmupd_lookup option.distinct(1))
  ultimately show "tracker_invar d i \<Longrightarrow> tracker_invar d (Track t i r n)"
    and "tracker_invar d i \<Longrightarrow>
      lease_of (Track t i r n) ref obj = (if key_String r = ref \<and> n = obj then Some (t + d) else lease_of i ref obj)"
    using dur by (auto simp: tracker_invar_def lease_of_def split: option.splits)
qed

lemma Clear_laws:
  shows "tracker_invar d i \<Longrightarrow> tracker_invar d (ClearTracked i n)"
    and "lease_of (ClearTracked i n) ref obj = (if n = obj then None else lease_of i ref obj)"
proof -
  have look: "fmlookup (entries (tr_mapping (ClearTracked i n))) ref =
      (case fmlookup (entries (tr_mapping i)) ref of None \<Rightarrow> None
       | Some s \<Rightarrow> if fmdrop n s = fmempty then None else Some (fmdrop n s))" for ref
    by (cases "tr_mapping i") (auto simp: ClearTracked_def Let_def split: option.splits)
  have "tr_leaseDuration (ClearTracked i n) = tr_leaseDuration i" by (simp add: ClearTracked_def)
  then show "tracker_invar d i \<Longrightarrow> tracker_invar d (ClearTracked i n)"
    by (auto simp: tracker_invar_def look split: option.splits)
  have "fmlookup s obj = None" if "fmdrop n s = fmempty" "n \<noteq> obj" for s :: lease_set
    using that by (metis fmlookup_drop fmempty_lookup)
  then show "lease_of (ClearTracked i n) ref obj = (if n = obj then None else lease_of i ref obj)"
    by (auto simp: lease_of_def look split: option.splits if_splits)
qed

lemma tracker_new: "tracker_invar d (NewDependencyTracker d)" "lease_of (NewDependencyTracker d) ref obj = None"
  by (simp_all add: tracker_invar_def lease_of_def NewDependencyTracker_def)

sublocale map_order \<subseteq> tracked: dependency_tracker "NewDependencyTracker d" Track "Lookup ord" ClearTracked lease_of
  "tracker_invar d" d for d
  by unfold_locales (auto simp: tracker_new Track_laws Clear_laws lookup_split)


context map_order
begin

lemmas live_leases = lookup_split(1) tracked.lookup_after

end

section \<open>Properties\<close>

text \<open>
  C7: whatever sequence of \<^verbatim>\<open>Track\<close>, \<^verbatim>\<open>Lookup\<close> and \<^verbatim>\<open>ClearTracked\<close> calls the reconcilers and the watches have made up to
  \<open>now\<close>, and in whatever order Go ranges over the tracked owners, \<^verbatim>\<open>Lookup\<close> returns exactly the owners whose last \<^verbatim>\<open>Track\<close> of
  the reference has not been cleared since and is at most the lease duration old, and each of them once.
\<close>

theorem lookup_returns_live_leases:
  assumes "\<And>s. set (ord s) = fmdom' s" "\<And>s. distinct (ord s)"
    and "calls_before now calls"
    and "Lookup ord now (foldl (run_call Track (Lookup ord) ClearTracked) (NewDependencyTracker d) calls) r = (items, i')"
  shows "distinct items \<and>
    (\<forall>obj. obj \<in> set items \<longleftrightarrow> (\<exists>e. lease_after d calls (key_String r) obj = Some e \<and> now \<le> e))"
proof -
  have "map_order ord" using assms(1,2) by unfold_locales
  from map_order.live_leases(1) [OF this assms(4)] map_order.live_leases(2) [OF this assms(3,4)]
  show ?thesis by blast
qed

definition example_owner :: NamespacedName where
  "example_owner = \<lparr>nn_Namespace = ''dev'', nn_Name = ''app''\<rparr>"

definition example_ref :: Key where
  "example_ref = \<lparr>key_Group = '''', key_Kind = ''ServiceAccount'', key_NamespacedName = \<lparr>nn_Namespace = ''dev'', nn_Name = ''default''\<rparr>\<rparr>"

theorem lookup_returns_live_leases_witness:
  "set (fst (Lookup (\<lambda>s. sorted_list_of_fset (fmdom s)) 5
     (foldl (run_call Track (Lookup (\<lambda>s. sorted_list_of_fset (fmdom s))) ClearTracked) (NewDependencyTracker 10)
       [CallTrack 0 example_ref example_owner, CallLookup 4 example_ref]) example_ref)) = {example_owner}"
    (is "set (fst ?l) = _")
proof -
  have "calls_before 5 [CallTrack 0 example_ref example_owner, CallLookup 4 example_ref]" by (simp add: calls_before_def)
  from lookup_returns_live_leases [OF sorted_keys.ord_set sorted_keys.ord_distinct this surjective_pairing, of 10 example_ref]
  show ?thesis by (auto simp: lease_after_def split: if_splits)
qed

text \<open>
  The tracker keeps no reference without an owner: after any sequence of calls every entry of the mapping has at least
  one lease, so the mapping does not grow with references nobody tracks any more.
\<close>

theorem tracker_no_empty_sets:
  "tracker_invar d (foldl (run_call Track (Lookup (\<lambda>s. sorted_list_of_fset (fmdom s))) ClearTracked) (NewDependencyTracker d) calls)"
  by (rule sorted_keys.tracked.invar_calls)

section \<open>Distinct references have distinct keys\<close>

text \<open>What Kubernetes allows in names: a kind has neither dots nor slashes, a group and a namespace have no slash.\<close>

definition key_ok :: "Key \<Rightarrow> bool" where
  "key_ok k \<longleftrightarrow> CHR ''.'' \<notin> set (key_Kind k) \<and> CHR ''/'' \<notin> set (key_Kind k) \<and> CHR ''/'' \<notin> set (key_Group k) \<and>
     CHR ''/'' \<notin> set (nn_Namespace (key_NamespacedName k))"

lemma show_GroupKind_inject:
  assumes "CHR ''.'' \<notin> set k" "CHR ''.'' \<notin> set k'"
  shows "show_GroupKind g k = show_GroupKind g' k' \<longleftrightarrow> g = g' \<and> k = k'"
  using assms append_sep_inject [OF assms, of g g'] by (auto simp: show_GroupKind_def)

text \<open>
  C35: the string under which the tracker files a reference identifies it: two references with names that Kubernetes
  accepts and with the same key are the same reference, so no owner is reconciled for a change of an object it does not track.
\<close>

theorem key_String_inject:
  assumes "key_ok k" "key_ok k'"
  shows "key_String k = key_String k' \<longleftrightarrow> k = k'"
proof -
  have "CHR ''/'' \<notin> set (show_GroupKind (key_Group x) (key_Kind x))" if "key_ok x" for x
    using that by (auto simp: key_ok_def show_GroupKind_def)
  moreover have "CHR ''.'' \<notin> set (key_Kind x)" "CHR ''/'' \<notin> set (nn_Namespace (key_NamespacedName x))" if "key_ok x" for x
    using that by (simp_all add: key_ok_def)
  ultimately show ?thesis
    using assms by (auto simp: key_String_def show_NamespacedName_def append_sep_inject show_GroupKind_inject)
qed

theorem key_String_inject_witness:
  "key_String example_ref \<noteq> key_String (example_ref\<lparr>key_Kind := ''RoleBinding'', key_Group := ''rbac.authorization.k8s.io''\<rparr>)"
proof -
  have "key_ok example_ref" "key_ok (example_ref\<lparr>key_Kind := ''RoleBinding'', key_Group := ''rbac.authorization.k8s.io''\<rparr>)"
    by (simp_all add: key_ok_def example_ref_def)
  from key_String_inject [OF this] show ?thesis by (simp add: example_ref_def)
qed

end
