(* ===== verification/Mapper.thy ===== *)
theory Mapper
  imports Tracker
begin

text \<open>
  \<^verbatim>\<open>pkg/mapper/map_functions.go\<close>: which owners are reconciled when a blueprint, a service account or one of the roles
  and bindings that give it permissions changes.

  The file has the same functions three times, for workloads, deliverables and runnables, which differ in the texts they log and in
  the tracker they are given; the common body is defined once here and the three families are its instances.  The client
  and its scheme are the record \<open>mapper_client\<close>.  A watched object (a role or a binding) is a
  \<open>watched\<close>, which each function first casts.  A lookup may drop expired leases, so the tracker is threaded through.
\<close>

section \<open>Objects and client\<close>

record Subject =
  sub_Kind :: string
  sub_APIGroup :: string
  sub_Name :: string
  sub_Namespace :: string

record RoleRef =
  rref_APIGroup :: string
  rref_Kind :: string
  rref_Name :: string

record RoleBinding =
  rb_Namespace :: string
  rb_Name :: string
  rb_Subjects :: "Subject list"
  rb_RoleRef :: RoleRef

record ClusterRoleBinding =
  crb_Name :: string
  crb_Subjects :: "Subject list"
  crb_RoleRef :: RoleRef

datatype watched =
    WRole (role_Namespace: string) (role_Name: string)
  | WClusterRole string
  | WRoleBinding RoleBinding
  | WClusterRoleBinding ClusterRoleBinding

text \<open>\<^verbatim>\<open>InNamespace\<close> is an optional argument of the list call; \<open>mc_ObjectKinds\<close> is the scheme's answer for a service account.\<close>

record mapper_client =
  mc_ListWorkloads :: "gerror + Workload list"
  mc_ListDeliverables :: "gerror + Deliverable list"
  mc_ListRoleBindings :: "string option \<Rightarrow> gerror + RoleBinding list"
  mc_ListClusterRoleBindings :: "gerror + ClusterRoleBinding list"
  mc_GetServiceAccount :: "NamespacedName \<Rightarrow> gerror + ServiceAccount"
  mc_ObjectKinds :: "gerror + GroupVersionKind list \<times> bool"

type_synonym map_env = "mapper_client \<times> (lease_set \<Rightarrow> NamespacedName list) \<times> time"

type_synonym account_map_func = "map_env \<Rightarrow> tracker \<Rightarrow> ServiceAccount \<Rightarrow> NamespacedName list \<times> tracker"

type_synonym map_func = "map_env \<Rightarrow> tracker \<Rightarrow> watched \<Rightarrow> NamespacedName list \<times> tracker"

section \<open>Shared functions\<close>

definition addGVK :: "mapper_client \<Rightarrow> ServiceAccount \<Rightarrow> gerror + GroupVersionKind" where
  "addGVK cl obj =
     (case mc_ObjectKinds cl of
        Inl err \<Rightarrow> Inl (WrapError (''missing apiVersion or kind: '' @ sa_Name obj @ '' err: '') err)
      | Inr (gvks, unversioned) \<Rightarrow>
          (if unversioned then Inl (ErrorString (''unversioned object: '' @ sa_Name obj))
           else if length gvks \<noteq> 1 then Inl (ErrorString (''unexpected GVK count: '' @ sa_Name obj))
           else Inr (hd gvks)))"

text \<open>A failed \<^verbatim>\<open>Get\<close> leaves the empty object, which is appended all the same.\<close>

definition empty_service_account :: ServiceAccount where
  "empty_service_account = \<lparr>sa_Namespace = '''', sa_Name = '''', sa_UID = ''''\<rparr>"

definition subject_account :: "mapper_client \<Rightarrow> Subject \<Rightarrow> ServiceAccount" where
  "subject_account cl subject =
     (case mc_GetServiceAccount cl
        \<lparr>nn_Namespace = (if sub_Namespace subject \<noteq> '''' then sub_Namespace subject else ''default''), nn_Name = sub_Name subject\<rparr> of
        Inl err \<Rightarrow> empty_service_account
      | Inr serviceAccountObject \<Rightarrow> serviceAccountObject)"

definition getServiceAccounts :: "mapper_client \<Rightarrow> Subject list \<Rightarrow> ServiceAccount list" where
  "getServiceAccounts cl subjects =
     map (subject_account cl) (filter (\<lambda>subject. sub_APIGroup subject = '''' \<and> sub_Kind subject = ''ServiceAccount'') subjects)"

text \<open>\<^verbatim>\<open>for _, x := range xs { requests = append(requests, f(x)...) }\<close>, with the tracker that \<open>f\<close> may change.\<close>

fun append_requests :: "(tracker \<Rightarrow> 'a \<Rightarrow> NamespacedName list \<times> tracker) \<Rightarrow> tracker \<Rightarrow> 'a list \<Rightarrow> NamespacedName list \<times> tracker" where
  "append_requests f t [] = ([], t)"
| "append_requests f t (x # xs) =
     (let (requests, t1) = f t x; (more, t2) = append_requests f t1 xs in (requests @ more, t2))"

section \<open>The common body\<close>

definition ServiceAccountToRequests :: account_map_func where
  "ServiceAccountToRequests env t serviceAccountObject =
     (case env of (cl, ord, now) \<Rightarrow>
        case addGVK cl serviceAccountObject of
          Inl err \<Rightarrow> ([], t)
        | Inr gvk \<Rightarrow>
            Lookup ord now t (NewKey gvk \<lparr>nn_Namespace = sa_Namespace serviceAccountObject, nn_Name = sa_Name serviceAccountObject\<rparr>))"

definition RoleBindingToRequests :: map_func where
  "RoleBindingToRequests env t obj =
     (case obj of
        WRoleBinding roleBinding \<Rightarrow>
          append_requests (ServiceAccountToRequests env) t
            (getServiceAccounts (fst env) (rb_Subjects roleBinding))
      | _ \<Rightarrow> ([], t))"

definition ClusterRoleBindingToRequests :: map_func where
  "ClusterRoleBindingToRequests env t obj =
     (case obj of
        WClusterRoleBinding clusterRoleBinding \<Rightarrow>
          append_requests (ServiceAccountToRequests env) t
            (getServiceAccounts (fst env) (crb_Subjects clusterRoleBinding))
      | _ \<Rightarrow> ([], t))"

text \<open>The test of the role reference.\<close>

definition refers_to :: "RoleRef \<Rightarrow> string \<Rightarrow> string \<Rightarrow> bool" where
  "refers_to ref kind name \<longleftrightarrow> rref_APIGroup ref = '''' \<and> rref_Kind ref = kind \<and> rref_Name ref = name"

definition RoleToRequests :: map_func where
  "RoleToRequests env t obj =
     (case obj of
        WRole namespace name \<Rightarrow>
          (case mc_ListRoleBindings (fst env) (Some namespace) of
             Inl err \<Rightarrow> ([], t)
           | Inr items \<Rightarrow>
               append_requests (\<lambda>t rb. RoleBindingToRequests env t (WRoleBinding rb)) t
                 (filter (\<lambda>rb. refers_to (rb_RoleRef rb) ''Role'' name) items))
      | _ \<Rightarrow> ([], t))"

definition ClusterRoleToRequests :: map_func where
  "ClusterRoleToRequests env t obj =
     (case obj of
        WClusterRole name \<Rightarrow>
          (case mc_ListClusterRoleBindings (fst env) of
             Inl err \<Rightarrow> ([], t)
           | Inr clusterRoleBindings \<Rightarrow>
               (let (requests, t1) = append_requests (\<lambda>t crb. ClusterRoleBindingToRequests env t (WClusterRoleBinding crb)) t
                      (filter (\<lambda>crb. refers_to (crb_RoleRef crb) ''ClusterRole'' name) clusterRoleBindings)
                in case mc_ListRoleBindings (fst env) None of
                     Inl err \<Rightarrow> ([], t1)
                   | Inr roleBindings \<Rightarrow>
                       (let (more, t2) = append_requests (\<lambda>t rb. RoleBindingToRequests env t (WRoleBinding rb)) t1
                              (filter (\<lambda>rb. refers_to (rb_RoleRef rb) ''ClusterRole'' name) roleBindings)
                        in (requests @ more, t2))))
      | _ \<Rightarrow> ([], t))"

section \<open>Workloads, deliverables, runnables\<close>

definition ClusterSupplyChainToWorkloadRequests :: "mapper_client \<Rightarrow> NamespacedName list" where
  "ClusterSupplyChainToWorkloadRequests cl =
     (case mc_ListWorkloads cl of
        Inl err \<Rightarrow> []
      | Inr items \<Rightarrow> map (\<lambda>workload. \<lparr>nn_Namespace = wl_Namespace workload, nn_Name = wl_Name workload\<rparr>) items)"

definition ServiceAccountToWorkloadRequests :: account_map_func where
  "ServiceAccountToWorkloadRequests = ServiceAccountToRequests"

definition RoleBindingToWorkloadRequests :: map_func where
  "RoleBindingToWorkloadRequests = RoleBindingToRequests"

definition ClusterRoleBindingToWorkloadRequests :: map_func where
  "ClusterRoleBindingToWorkloadRequests = ClusterRoleBindingToRequests"

definition RoleToWorkloadRequests :: map_func where
  "RoleToWorkloadRequests = RoleToRequests"

definition ClusterRoleToWorkloadRequests :: map_func where
  "ClusterRoleToWorkloadRequests = ClusterRoleToRequests"

definition ClusterDeliveryToDeliverableRequests :: "mapper_client \<Rightarrow> NamespacedName list" where
  "ClusterDeliveryToDeliverableRequests cl =
     (case mc_ListDeliverables cl of
        Inl err \<Rightarrow> []
      | Inr items \<Rightarrow> map (\<lambda>deliverable. \<lparr>nn_Namespace = dl_Namespace deliverable, nn_Name = dl_Name deliverable\<rparr>) items)"

definition ServiceAccountToDeliverableRequests :: account_map_func where
  "ServiceAccountToDeliverableRequests = ServiceAccountToRequests"

definition RoleBindingToDeliverableRequests :: map_func where
  "RoleBindingToDeliverableRequests = RoleBindingToRequests"

definition ClusterRoleBindingToDeliverableRequests :: map_func where
  "ClusterRoleBindingToDeliverableRequests = ClusterRoleBindingToRequests"

definition RoleToDeliverableRequests :: map_func where
  "RoleToDeliverableRequests = RoleToRequests"

definition ClusterRoleToDeliverableRequests :: map_func where
  "ClusterRoleToDeliverableRequests = ClusterRoleToRequests"

definition ServiceAccountToRunnableRequests :: account_map_func where
  "ServiceAccountToRunnableRequests = ServiceAccountToRequests"

definition RoleBindingToRunnableRequests :: map_func where
  "RoleBindingToRunnableRequests = RoleBindingToRequests"

definition ClusterRoleBindingToRunnableRequests :: map_func where
  "ClusterRoleBindingToRunnableRequests = ClusterRoleBindingToRequests"

definition RoleToRunnableRequests :: map_func where
  "RoleToRunnableRequests = RoleToRequests"

definition ClusterRoleToRunnableRequests :: map_func where
  "ClusterRoleToRunnableRequests = ClusterRoleToRequests"

section \<open>Live leases survive lookups\<close>

definition live :: "time \<Rightarrow> tracker \<Rightarrow> Key \<Rightarrow> NamespacedName \<Rightarrow> bool" where
  "live now t r obj \<longleftrightarrow> (\<exists>e. lease_of t (key_String r) obj = Some e \<and> now \<le> e)"

definition account_key :: "GroupVersionKind \<Rightarrow> ServiceAccount \<Rightarrow> Key" where
  "account_key gvk sa = NewKey gvk \<lparr>nn_Namespace = sa_Namespace sa, nn_Name = sa_Name sa\<rparr>"

text \<open>A map function answers \<open>P\<close> when it enqueues exactly the owners in \<open>P\<close> and keeps the live leases.\<close>

definition answers :: "time \<Rightarrow> (tracker \<Rightarrow> NamespacedName list \<times> tracker) \<Rightarrow> Key set \<Rightarrow> bool" where
  "answers now f keys \<longleftrightarrow>
     (\<forall>t requests t'. f t = (requests, t') \<longrightarrow>
        (\<forall>obj. obj \<in> set requests \<longleftrightarrow> (\<exists>k\<in>keys. live now t k obj)) \<and> (\<forall>k obj. live now t' k obj \<longleftrightarrow> live now t k obj))"

context map_order
begin

lemma lookup_answers: "answers now (\<lambda>t. Lookup ord now t r) {r}"
proof -
  have "live now t' k obj \<longleftrightarrow> live now t k obj" if "Lookup ord now t r = (requests, t')" for t requests t' k obj
    using lookup_split(3) [OF that, of "key_String k" obj] by (auto simp: live_def split: option.splits if_splits)
  moreover have "obj \<in> set requests \<longleftrightarrow> live now t r obj" if "Lookup ord now t r = (requests, t')" for t requests t' obj
    using lookup_split(2) [OF that, of obj] by (simp add: live_def)
  ultimately show ?thesis by (simp add: answers_def)
qed

end

lemma append_requests_answers:
  assumes "\<And>x. x \<in> set xs \<Longrightarrow> answers now (\<lambda>t. f t x) (keys x)"
  shows "answers now (\<lambda>t. append_requests f t xs) (\<Union>x\<in>set xs. keys x)"
  using assms
proof (induction xs)
  case (Cons x xs)
  have x: "answers now (\<lambda>t. f t x) (keys x)" and xs: "answers now (\<lambda>t. append_requests f t xs) (\<Union>x\<in>set xs. keys x)"
    using Cons by simp_all
  show ?case
    unfolding answers_def
  proof (intro allI impI)
    fix t requests t'
    assume "append_requests f t (x # xs) = (requests, t')"
    then obtain r1 t1 r2 where s: "f t x = (r1, t1)" "append_requests f t1 xs = (r2, t')" "requests = r1 @ r2"
      by (auto simp: Let_def split: prod.splits)
    then show "(\<forall>obj. obj \<in> set requests \<longleftrightarrow> (\<exists>k\<in>(\<Union>x\<in>set (x # xs). keys x). live now t k obj)) \<and>
        (\<forall>k obj. live now t' k obj \<longleftrightarrow> live now t k obj)"
      using x [unfolded answers_def] xs [unfolded answers_def] by (auto; metis)
  qed
qed (simp add: answers_def)

lemma account_answers:
  assumes "map_order ord" "mc_ObjectKinds cl = Inr ([gvk], False)"
  shows "answers now (\<lambda>t. ServiceAccountToRequests (cl, ord, now) t sa) {account_key gvk sa}"
  using map_order.lookup_answers [OF assms(1)] assms(2) by (simp add: ServiceAccountToRequests_def addGVK_def account_key_def)

lemma accounts_answer:
  assumes "map_order ord" "mc_ObjectKinds cl = Inr ([gvk], False)"
  shows "answers now (\<lambda>t. append_requests (ServiceAccountToRequests (cl, ord, now)) t accounts) (account_key gvk ` set accounts)"
  using append_requests_answers [of accounts now "ServiceAccountToRequests (cl, ord, now)" "\<lambda>sa. {account_key gvk sa}"]
    account_answers [OF assms] by (simp add: UNION_singleton_eq_range)

lemma RoleBinding_answers:
  assumes "map_order ord" "mc_ObjectKinds cl = Inr ([gvk], False)"
  shows "answers now (\<lambda>t. RoleBindingToRequests (cl, ord, now) t (WRoleBinding rb)) (account_key gvk ` set (getServiceAccounts cl (rb_Subjects rb)))"
  using accounts_answer [OF assms] by (simp add: RoleBindingToRequests_def)

lemma ClusterRoleBinding_answers:
  assumes "map_order ord" "mc_ObjectKinds cl = Inr ([gvk], False)"
  shows "answers now (\<lambda>t. ClusterRoleBindingToRequests (cl, ord, now) t (WClusterRoleBinding rb))
    (account_key gvk ` set (getServiceAccounts cl (crb_Subjects rb)))"
  using accounts_answer [OF assms] by (simp add: ClusterRoleBindingToRequests_def)

lemma answersD:
  assumes "answers now f keys" "f t = (requests, t')"
  shows "obj \<in> set requests \<longleftrightarrow> (\<exists>k\<in>keys. live now t k obj)" and "live now t' k obj \<longleftrightarrow> live now t k obj"
  using assms by (auto simp: answers_def)

lemma bex_account_keys:
  "(\<exists>k\<in>(\<Union>x\<in>set (filter P xs). account_key gvk ` set (getServiceAccounts cl (f x))). live now t k owner) \<longleftrightarrow>
     (\<exists>sa. live now t (account_key gvk sa) owner \<and> (\<exists>x\<in>set xs. P x \<and> sa \<in> set (getServiceAccounts cl (f x))))"
  by auto

section \<open>Properties\<close>

text \<open>
  When a cluster role changes, the workloads that are reconciled are exactly those with a live lease on a service account that
  one of the bindings of the cluster role (as the mapper recognises them) names among its subjects, and the lookups lose no live lease.
\<close>

theorem cluster_role_enqueues:
  assumes "\<And>s. set (ord s) = fmdom' s" "\<And>s. distinct (ord s)"
    and "mc_ObjectKinds cl = Inr ([gvk], False)"
    and "mc_ListClusterRoleBindings cl = Inr crbs" "mc_ListRoleBindings cl None = Inr rbs"
    and "ClusterRoleToWorkloadRequests (cl, ord, now) t (WClusterRole name) = (requests, t')"
  shows "(\<forall>owner. owner \<in> set requests \<longleftrightarrow>
      (\<exists>sa. live now t (account_key gvk sa) owner \<and>
        ((\<exists>crb\<in>set crbs. refers_to (crb_RoleRef crb) ''ClusterRole'' name \<and> sa \<in> set (getServiceAccounts cl (crb_Subjects crb))) \<or>
         (\<exists>rb\<in>set rbs. refers_to (rb_RoleRef rb) ''ClusterRole'' name \<and> sa \<in> set (getServiceAccounts cl (rb_Subjects rb)))))) \<and>
    (\<forall>k owner. live now t' k owner \<longleftrightarrow> live now t k owner)"
proof -
  have ord: "map_order ord" using assms(1,2) by unfold_locales
  let ?env = "(cl, ord, now)"
  let ?crbs = "filter (\<lambda>crb. refers_to (crb_RoleRef crb) ''ClusterRole'' name) crbs"
  let ?rbs = "filter (\<lambda>rb. refers_to (rb_RoleRef rb) ''ClusterRole'' name) rbs"
  obtain r1 t1 r2 where s: "append_requests (\<lambda>t crb. ClusterRoleBindingToRequests ?env t (WClusterRoleBinding crb)) t ?crbs = (r1, t1)"
      "append_requests (\<lambda>t rb. RoleBindingToRequests ?env t (WRoleBinding rb)) t1 ?rbs = (r2, t')" "requests = r1 @ r2"
    using assms(4-6) by (auto simp: ClusterRoleToWorkloadRequests_def ClusterRoleToRequests_def Let_def split: prod.splits)
  define A where "A = (\<Union>crb\<in>set ?crbs. account_key gvk ` set (getServiceAccounts cl (crb_Subjects crb)))"
  define B where "B = (\<Union>rb\<in>set ?rbs. account_key gvk ` set (getServiceAccounts cl (rb_Subjects rb)))"
  have crb_answers: "answers now (\<lambda>t. append_requests (\<lambda>t crb. ClusterRoleBindingToRequests ?env t (WClusterRoleBinding crb)) t ?crbs) A"
    unfolding A_def by (rule append_requests_answers) (rule ClusterRoleBinding_answers [OF ord assms(3)])
  have rb_answers: "answers now (\<lambda>t. append_requests (\<lambda>t rb. RoleBindingToRequests ?env t (WRoleBinding rb)) t ?rbs) B"
    unfolding B_def by (rule append_requests_answers) (rule RoleBinding_answers [OF ord assms(3)])
  have "(\<forall>owner. owner \<in> set requests \<longleftrightarrow> (\<exists>k\<in>A. live now t k owner) \<or> (\<exists>k\<in>B. live now t k owner)) \<and>
      (\<forall>k owner. live now t' k owner \<longleftrightarrow> live now t k owner)"
    using answersD [OF crb_answers s(1)] answersD [OF rb_answers s(2)] by (simp add: s(3))
  then show ?thesis unfolding A_def B_def bex_account_keys by blast
qed

definition example_client :: mapper_client where
  "example_client =
     \<lparr>mc_ListWorkloads = Inr [], mc_ListDeliverables = Inr [],
      mc_ListRoleBindings = \<lambda>ns. Inr [\<lparr>rb_Namespace = ''dev'', rb_Name = ''b'',
        rb_Subjects = [\<lparr>sub_Kind = ''ServiceAccount'', sub_APIGroup = '''', sub_Name = ''default'', sub_Namespace = ''dev''\<rparr>],
        rb_RoleRef = \<lparr>rref_APIGroup = '''', rref_Kind = ''ClusterRole'', rref_Name = ''r''\<rparr>\<rparr>],
      mc_ListClusterRoleBindings = Inr [],
      mc_GetServiceAccount = \<lambda>n. Inr \<lparr>sa_Namespace = nn_Namespace n, sa_Name = nn_Name n, sa_UID = ''1''\<rparr>,
      mc_ObjectKinds = Inr ([\<lparr>gvk_Group = '''', gvk_Version = ''v1'', gvk_Kind = ''ServiceAccount''\<rparr>], False)\<rparr>"

theorem cluster_role_enqueues_witness:
  "example_owner \<in> set (fst (ClusterRoleToWorkloadRequests (example_client, \<lambda>s. sorted_list_of_fset (fmdom s), 5)
      (Track 0 (NewDependencyTracker 10) example_ref example_owner) (WClusterRole ''r'')))"
proof -
  let ?t = "Track 0 (NewDependencyTracker 10) example_ref example_owner"
  let ?gvk = "\<lparr>gvk_Group = '''', gvk_Version = ''v1'', gvk_Kind = ''ServiceAccount''\<rparr>"
  let ?sa = "\<lparr>sa_Namespace = ''dev'', sa_Name = ''default'', sa_UID = ''1''\<rparr>"
  have live: "live 5 ?t (account_key ?gvk ?sa) example_owner"
    by (simp add: live_def lease_of_def Track_def NewDependencyTracker_def Let_def account_key_def NewKey_def example_ref_def)
  obtain rb where rb: "mc_ListRoleBindings example_client None = Inr [rb]" "refers_to (rb_RoleRef rb) ''ClusterRole'' ''r''"
      "getServiceAccounts example_client (rb_Subjects rb) = [?sa]"
    by (simp add: example_client_def refers_to_def getServiceAccounts_def subject_account_def)
  have "mc_ObjectKinds example_client = Inr ([?gvk], False)" "mc_ListClusterRoleBindings example_client = Inr []"
    by (simp_all add: example_client_def)
  from cluster_role_enqueues [OF sorted_keys.ord_set sorted_keys.ord_distinct this rb(1) surjective_pairing, of 5 ?t "''r''"]
  show ?thesis using live rb(2,3) by auto
qed

text \<open>
  C38: bindings whose role reference names its API group, as the API server requires of every binding, are not recognised: a change of a
  role or a cluster role then reconciles no owner at all.
\<close>

theorem role_changes_ignored:
  assumes "\<And>ns rbs. mc_ListRoleBindings cl ns = Inr rbs \<Longrightarrow> \<forall>rb\<in>set rbs. rref_APIGroup (rb_RoleRef rb) = ''rbac.authorization.k8s.io''"
    and "\<And>crbs. mc_ListClusterRoleBindings cl = Inr crbs \<Longrightarrow> \<forall>crb\<in>set crbs. rref_APIGroup (crb_RoleRef crb) = ''rbac.authorization.k8s.io''"
  shows "fst (RoleToWorkloadRequests (cl, ord, now) t (WRole ns name)) = [] \<and>
    fst (ClusterRoleToWorkloadRequests (cl, ord, now) t (WClusterRole name)) = []"
proof -
  have "filter (\<lambda>rb. refers_to (rb_RoleRef rb) k n) rbs = []" if "mc_ListRoleBindings cl s = Inr rbs" for s rbs k n
    using assms(1) [OF that] by (auto simp: refers_to_def filter_empty_conv)
  moreover have "filter (\<lambda>crb. refers_to (crb_RoleRef crb) k n) crbs = []" if "mc_ListClusterRoleBindings cl = Inr crbs" for crbs k n
    using assms(2) [OF that] by (auto simp: refers_to_def filter_empty_conv)
  ultimately show ?thesis
    by (simp add: RoleToWorkloadRequests_def RoleToRequests_def ClusterRoleToWorkloadRequests_def ClusterRoleToRequests_def
        split: sum.split)
qed

theorem role_changes_ignored_witness:
  "fst (RoleToWorkloadRequests (example_client\<lparr>mc_ListRoleBindings := \<lambda>ns. Inr [\<lparr>rb_Namespace = ''dev'', rb_Name = ''b'',
        rb_Subjects = [\<lparr>sub_Kind = ''ServiceAccount'', sub_APIGroup = '''', sub_Name = ''default'', sub_Namespace = ''dev''\<rparr>],
        rb_RoleRef = \<lparr>rref_APIGroup = ''rbac.authorization.k8s.io'', rref_Kind = ''Role'', rref_Name = ''r''\<rparr>\<rparr>]\<rparr>,
      \<lambda>s. sorted_list_of_fset (fmdom s), 5) (Track 0 (NewDependencyTracker 10) example_ref example_owner) (WRole ''dev'' ''r'')) = []"
  by (rule role_changes_ignored [THEN conjunct1]) (simp_all add: example_client_def)

end
