(* ===== verification/Blueprint_Reconcilers.thy ===== *)
theory Blueprint_Reconcilers
  imports Realizer Mapper
begin

text \<open>
  \<^verbatim>\<open>pkg/controllers/supplychain_reconciler.go\<close> and \<^verbatim>\<open>delivery_reconciler.go\<close>: a blueprint is ready when the templates it names exist.
  The two files do the same for the two kinds of blueprint; the loop over the templates is defined once.

  A reconciliation works on the repository and the dependency tracker (the record \<open>controller_state\<close>) and returns the
  error that makes the request be queued again.  \<open>now\<close> is the time of all clock readings of one reconciliation.
\<close>

section \<open>Shared parts\<close>

record 'w controller_state =
  cs_repo :: "'w repository"
  cs_tracker :: tracker

text \<open>The end of every \<^verbatim>\<open>completeReconciliation\<close>: only an unhandled error is returned.\<close>

definition returned_error :: "gerror option \<Rightarrow> gerror option" where
  "returned_error err = (case err of None \<Rightarrow> None | Some e \<Rightarrow> if IsUnhandledError e then Some e else None)"

definition template_key :: "string \<Rightarrow> string \<Rightarrow> Key" where
  "template_key kind name =
     \<lparr>key_Group = SchemeGroup, key_Kind = kind, key_NamespacedName = \<lparr>nn_Namespace = '''', nn_Name = name\<rparr>\<rparr>"

text \<open>The template names that the loops look up for one resource, each with the name of the resource and the kind.\<close>

definition named_templates :: "string \<Rightarrow> BlueprintTemplateReference \<Rightarrow> (string \<times> string \<times> string) list" where
  "named_templates resourceName ref =
     (if btr_Name ref \<noteq> '''' then [(resourceName, btr_Name ref, btr_Kind ref)]
      else map (\<lambda>option. (resourceName, opt_Name option, btr_Kind ref)) (filter (\<lambda>option. opt_Name option \<noteq> '''') (btr_Options ref)))"

definition validateResource ::
  "'w api_client \<Rightarrow> time \<Rightarrow> NamespacedName \<Rightarrow> 'w controller_state \<Rightarrow> string \<Rightarrow> string \<Rightarrow> (gerror + bool) \<times> 'w controller_state" where
  "validateResource cl now blueprint st templateName templateKind =
     (case GetTemplate cl (cs_repo st) templateName templateKind of
        Ret template \<Rightarrow> (Inr (template \<noteq> None), st\<lparr>cs_tracker := Track now (cs_tracker st) (template_key templateKind templateName) blueprint\<rparr>)
      | Err err \<Rightarrow> (Inl err, st)
      | Panic p \<Rightarrow> (Inl (ErrorString p), st))"

fun validate_templates ::
  "'w api_client \<Rightarrow> time \<Rightarrow> string \<Rightarrow> NamespacedName \<Rightarrow> 'w controller_state \<Rightarrow> string list \<Rightarrow> (string \<times> string \<times> string) list \<Rightarrow>
   (gerror + string list) \<times> 'w controller_state" where
  "validate_templates cl now failure blueprint st resourcesNotFound [] = (Inr resourcesNotFound, st)"
| "validate_templates cl now failure blueprint st resourcesNotFound ((resourceName, templateName, templateKind) # rest) =
     (case validateResource cl now blueprint st templateName templateKind of
        (Inl err, st') \<Rightarrow> (Inl (NewUnhandledError (WrapError failure err)), st')
      | (Inr found, st') \<Rightarrow>
          validate_templates cl now failure blueprint st' (if found then resourcesNotFound else resourcesNotFound @ [resourceName]) rest)"

definition reconcile_templates ::
  "'w api_client \<Rightarrow> time \<Rightarrow> string \<Rightarrow> NamespacedName \<Rightarrow> (string \<times> string \<times> string) list \<Rightarrow> 'w controller_state \<Rightarrow> conditionManager \<Rightarrow>
   gerror option \<times> conditionManager \<times> 'w controller_state" where
  "reconcile_templates cl now failure blueprint templates st conditionManager =
     (case validate_templates cl now failure blueprint st [] templates of
        (Inl err, st') \<Rightarrow> (Some err, conditionManager, st')
      | (Inr resourcesNotFound, st') \<Rightarrow>
          (None,
           AddPositive now conditionManager
             (if length resourcesNotFound > 0 then TemplatesNotFoundCondition resourcesNotFound else TemplatesFoundCondition),
           st'))"

section \<open>Supply chains\<close>

definition supply_chain_name :: "ClusterSupplyChain \<Rightarrow> NamespacedName" where
  "supply_chain_name chain = \<lparr>nn_Namespace = '''', nn_Name = sc_Name chain\<rparr>"

definition supply_chain_templates :: "ClusterSupplyChain \<Rightarrow> (string \<times> string \<times> string) list" where
  "supply_chain_templates chain = concat (map (\<lambda>r. named_templates (scr_Name r) (scr_TemplateRef r)) (scs_Resources (sc_Spec chain)))"

definition reconcileSupplyChain ::
  "'w api_client \<Rightarrow> time \<Rightarrow> ClusterSupplyChain \<Rightarrow> 'w controller_state \<Rightarrow> conditionManager \<Rightarrow>
   gerror option \<times> conditionManager \<times> 'w controller_state" where
  "reconcileSupplyChain cl now chain st conditionManager =
     reconcile_templates cl now ''failed to get cluster template: '' (supply_chain_name chain) (supply_chain_templates chain) st conditionManager"

definition supply_chain_completeReconciliation ::
  "'w api_client \<Rightarrow> time \<Rightarrow> ClusterSupplyChain \<Rightarrow> conditionManager \<Rightarrow> gerror option \<Rightarrow> 'w controller_state \<Rightarrow>
   gerror option \<times> 'w controller_state" where
  "supply_chain_completeReconciliation cl now supplyChain conditionManager err st =
     (let (conditions, changed, m) = Finalize now conditionManager;
          chain = supplyChain\<lparr>sc_Conditions := conditions\<rparr>
      in if changed \<or> sc_ObservedGeneration supplyChain \<noteq> sc_Generation supplyChain then
           (case StatusUpdate cl (cs_repo st) (ObjSupplyChain (chain\<lparr>sc_ObservedGeneration := sc_Generation supplyChain\<rparr>)) of
              (Some updateErr, r) \<Rightarrow> (Some (WrapError ''failed to update status for supply chain: '' updateErr), st\<lparr>cs_repo := r\<rparr>)
            | (None, r) \<Rightarrow> (returned_error err, st\<lparr>cs_repo := r\<rparr>))
         else (returned_error err, st))"

definition supply_chain_Reconcile ::
  "'w api_client \<Rightarrow> time \<Rightarrow> 'w controller_state \<Rightarrow> NamespacedName \<Rightarrow> gerror option \<times> 'w controller_state" where
  "supply_chain_Reconcile cl now st req =
     (case GetSupplyChain cl (cs_repo st) (nn_Name req) of
        Err err \<Rightarrow> (Some (WrapError (''failed to get supply chain ['' @ show_NamespacedName req @ '']: '') err), st)
      | Panic p \<Rightarrow> (Some (ErrorString p), st)
      | Ret None \<Rightarrow> (None, st)
      | Ret (Some supplyChain) \<Rightarrow>
          (case reconcileSupplyChain cl now supplyChain st (NewConditionManager BlueprintReady (sc_Conditions supplyChain)) of
             (err, conditionManager, st') \<Rightarrow> supply_chain_completeReconciliation cl now supplyChain conditionManager err st'))"

section \<open>Deliveries\<close>

definition delivery_name :: "ClusterDelivery \<Rightarrow> NamespacedName" where
  "delivery_name delivery = \<lparr>nn_Namespace = '''', nn_Name = cd_Name delivery\<rparr>"

definition delivery_templates :: "ClusterDelivery \<Rightarrow> (string \<times> string \<times> string) list" where
  "delivery_templates delivery = concat (map (\<lambda>r. named_templates (dr_Name r) (dr_TemplateRef r)) (ds_Resources (cd_Spec delivery)))"

definition reconcileDelivery ::
  "'w api_client \<Rightarrow> time \<Rightarrow> ClusterDelivery \<Rightarrow> 'w controller_state \<Rightarrow> conditionManager \<Rightarrow>
   gerror option \<times> conditionManager \<times> 'w controller_state" where
  "reconcileDelivery cl now delivery st conditionManager =
     reconcile_templates cl now ''failed to get delivery cluster template: '' (delivery_name delivery) (delivery_templates delivery) st conditionManager"

definition delivery_completeReconciliation ::
  "'w api_client \<Rightarrow> time \<Rightarrow> ClusterDelivery \<Rightarrow> conditionManager \<Rightarrow> gerror option \<Rightarrow> 'w controller_state \<Rightarrow>
   gerror option \<times> 'w controller_state" where
  "delivery_completeReconciliation cl now delivery conditionManager err st =
     (let (conditions, changed, m) = Finalize now conditionManager;
          delivery' = delivery\<lparr>cd_Conditions := conditions\<rparr>
      in if changed \<or> cd_ObservedGeneration delivery \<noteq> cd_Generation delivery then
           (case StatusUpdate cl (cs_repo st) (ObjDelivery (delivery'\<lparr>cd_ObservedGeneration := cd_Generation delivery\<rparr>)) of
              (Some updateErr, r) \<Rightarrow> (Some (WrapError ''failed to update status for delivery: '' updateErr), st\<lparr>cs_repo := r\<rparr>)
            | (None, r) \<Rightarrow> (returned_error err, st\<lparr>cs_repo := r\<rparr>))
         else (returned_error err, st))"

definition delivery_Reconcile ::
  "'w api_client \<Rightarrow> time \<Rightarrow> 'w controller_state \<Rightarrow> NamespacedName \<Rightarrow> gerror option \<times> 'w controller_state" where
  "delivery_Reconcile cl now st req =
     (case GetDelivery cl (cs_repo st) (nn_Name req) of
        Err err \<Rightarrow> (Some (WrapError (''failed to get delivery ['' @ show_NamespacedName req @ '']: '') err), st)
      | Panic p \<Rightarrow> (Some (ErrorString p), st)
      | Ret None \<Rightarrow> (None, st)
      | Ret (Some delivery) \<Rightarrow>
          (case reconcileDelivery cl now delivery st (NewConditionManager BlueprintReady (cd_Conditions delivery)) of
             (err, conditionManager, st') \<Rightarrow> delivery_completeReconciliation cl now delivery conditionManager err st'))"

section \<open>The loop over the templates\<close>

definition template_exists :: "'w api_client \<Rightarrow> 'w repository \<Rightarrow> string \<times> string \<times> string \<Rightarrow> bool" where
  "template_exists cl r x = (case x of (resourceName, name, kind) \<Rightarrow>
     case GetTemplate cl r name kind of Ret (Some t) \<Rightarrow> True | _ \<Rightarrow> False)"

lemma template_exists_iff: "template_exists cl r (rn, n, k) \<longleftrightarrow> (\<exists>t. GetTemplate cl r n k = Ret (Some t))"
  by (cases "GetTemplate cl r n k") (auto simp: template_exists_def split: option.split)

lemma lease_of_Track:
  "lease_of (Track now t k n) ref obj = (if key_String k = ref \<and> n = obj then Some (now + tr_leaseDuration t) else lease_of t ref obj)"
  by (auto simp: lease_of_def Track_def Let_def entries_def split: option.splits)

lemma tr_leaseDuration_Track [simp]: "tr_leaseDuration (Track now t k n) = tr_leaseDuration t"
  by (simp add: Track_def Let_def)

lemma validate_templates_repo:
  "validate_templates cl now failure b st nf xs = (res, st') \<Longrightarrow>
     cs_repo st' = cs_repo st \<and> tr_leaseDuration (cs_tracker st') = tr_leaseDuration (cs_tracker st)"
  by (induction cl now failure b st nf xs rule: validate_templates.induct)
    (auto simp: validateResource_def split: go.splits)

text \<open>Only the templates that do not exist are reported.\<close>

lemma validate_templates_found:
  "validate_templates cl now failure b st nf xs = (Inr nf', st') \<Longrightarrow>
     nf' = nf @ map fst (filter (\<lambda>x. \<not> template_exists cl (cs_repo st) x) xs)"
  by (induction cl now failure b st nf xs rule: validate_templates.induct)
    (auto simp: validateResource_def template_exists_def split: go.splits option.splits)

text \<open>Every template that was looked up is tracked; leases are only renewed.\<close>

lemma validate_templates_keeps:
  "validate_templates cl now failure b st nf xs = (res, st') \<Longrightarrow>
     lease_of (cs_tracker st) k b = Some (now + tr_leaseDuration (cs_tracker st)) \<Longrightarrow>
     lease_of (cs_tracker st') k b = Some (now + tr_leaseDuration (cs_tracker st))"
  by (induction cl now failure b st nf xs rule: validate_templates.induct)
    (auto simp: validateResource_def lease_of_Track split: go.splits)

lemma validate_templates_tracked:
  assumes "validate_templates cl now failure b st nf xs = (Inr nf', st')" "(rn, n, kind) \<in> set xs"
  shows "lease_of (cs_tracker st') (key_String (template_key kind n)) b = Some (now + tr_leaseDuration (cs_tracker st))"
  using assms
proof (induction cl now failure b st nf xs rule: validate_templates.induct)
  case (2 cl now failure b st nf rn' n' kind' rest)
  obtain found st1 where v: "validateResource cl now b st n' kind' = (Inr found, st1)"
      "validate_templates cl now failure b st1 (if found then nf else nf @ [rn']) rest = (Inr nf', st')"
    using 2(2) by (auto split: prod.splits sum.splits)
  have st1: "cs_tracker st1 = Track now (cs_tracker st) (template_key kind' n') b"
    using v(1) by (auto simp: validateResource_def split: go.splits)
  show ?case
  proof (cases "(rn, n, kind) \<in> set rest")
    case True
    then show ?thesis using "2.IH" [OF v(1) [symmetric] refl v(2) True] by (simp add: st1)
  next
    case False
    then show ?thesis using 2(3) validate_templates_keeps [OF v(2)] by (auto simp: st1 lease_of_Track)
  qed
qed simp

section \<open>Readiness\<close>

lemma TemplatesConditions_status [simp]:
  "cond_Status (TemplatesNotFoundCondition ns) = ConditionFalse" "cond_Status TemplatesFoundCondition = ConditionTrue"
  by (simp_all add: TemplatesNotFoundCondition_def TemplatesFoundCondition_def mk_condition_def)

lemma reconcile_templates_ready:
  assumes "reconcile_templates cl now failure b xs st (NewConditionManager ty prev) = (None, m, st')" "Finalize now m = (cs, ch, m')"
  shows "cond_Status (last cs) = ConditionTrue \<longleftrightarrow> (\<forall>x\<in>set xs. template_exists cl (cs_repo st) x)"
proof -
  obtain nf st1 where v: "validate_templates cl now failure b st [] xs = (Inr nf, st1)"
      "m = AddPositive now (NewConditionManager ty prev) (if length nf > 0 then TemplatesNotFoundCondition nf else TemplatesFoundCondition)"
    using assms(1) by (auto simp: reconcile_templates_def split: prod.splits sum.splits)
  have "m = add_all Add (NewConditionManager ty prev)
      [(now, if length nf > 0 then TemplatesNotFoundCondition nf else TemplatesFoundCondition, Positive)]"
    by (simp add: v(2) AddPositive_def add_all_Cons)
  with assms(2) have "Finalize now (add_all Add (NewConditionManager ty prev)
      [(now, if length nf > 0 then TemplatesNotFoundCondition nf else TemplatesFoundCondition, Positive)]) = (cs, ch, m')" by simp
  from cm.finalize_True_iff [OF this] show ?thesis
    using validate_templates_found [OF v(1)] by (auto simp: filter_empty_conv)
qed

lemma reconcile_templates_tracked:
  assumes "reconcile_templates cl now failure b xs st m0 = (None, m, st')" "(rn, n, kind) \<in> set xs"
  shows "lease_of (cs_tracker st') (key_String (template_key kind n)) b = Some (now + tr_leaseDuration (cs_tracker st))"
  using assms validate_templates_tracked by (fastforce simp: reconcile_templates_def split: prod.splits sum.splits)

section \<open>Properties\<close>

text \<open>
  C37: a supply chain that is reconciled without an error becomes ready exactly when every template that its resources name, directly or
  in an option, exists; the status that is then written has the verdict as its last condition.
\<close>

theorem supply_chain_ready_iff:
  assumes "reconcileSupplyChain cl now chain st (NewConditionManager BlueprintReady (sc_Conditions chain)) = (None, m, st')"
    and "Finalize now m = (conditions, changed, m')"
  shows "cond_Type (last conditions) = ''Ready'' \<and>
    (cond_Status (last conditions) = ConditionTrue \<longleftrightarrow>
      (\<forall>(resourceName, name, kind)\<in>set (supply_chain_templates chain). \<exists>t. GetTemplate cl (cs_repo st) name kind = Ret (Some t)))"
proof -
  obtain c where "m = add_all Add (NewConditionManager BlueprintReady (sc_Conditions chain)) [(now, c, Positive)]"
    using assms(1)
    by (auto simp: reconcileSupplyChain_def reconcile_templates_def AddPositive_def add_all_Cons split: prod.splits sum.splits)
  then have "cond_Type (last conditions) = ''Ready''"
    using cm.finalize_last_sel(1) assms(2) by (fastforce simp: top_condition_def mk_condition_def BlueprintReady_def split: prod.splits)
  moreover have "cond_Status (last conditions) = ConditionTrue \<longleftrightarrow> (\<forall>x\<in>set (supply_chain_templates chain). template_exists cl (cs_repo st) x)"
    using reconcile_templates_ready assms unfolding reconcileSupplyChain_def by blast
  ultimately show ?thesis by (auto simp: template_exists_iff)
qed

text \<open>
  A template that a supply chain names, existing or not, is tracked by every reconciliation that succeeds: until the lease expires, a
  change of that template enqueues the supply chain.
\<close>

theorem template_change_enqueues:
  assumes "\<And>s. set (ord s) = fmdom' s" "\<And>s. distinct (ord s)"
    and "reconcileSupplyChain cl now chain st m0 = (None, m, st')"
    and "(resourceName, name, kind) \<in> set (supply_chain_templates chain)"
    and "gvk_Group gvk = SchemeGroup" "gvk_Kind gvk = kind"
    and "later \<le> now + tr_leaseDuration (cs_tracker st)"
  shows "\<exists>requests t'. EnqueueTracked ord (Inr [gvk]) later (cs_tracker st') \<lparr>nn_Namespace = '''', nn_Name = name\<rparr> = Ret (requests, t') \<and>
    supply_chain_name chain \<in> set requests"
proof -
  have "map_order ord" using assms(1,2) by unfold_locales
  obtain requests t' where l: "Lookup ord later (cs_tracker st') (template_key kind name) = (requests, t')" by fastforce
  have "supply_chain_name chain \<in> set requests"
    using map_order.lookup_split(2) [OF \<open>map_order ord\<close> l] reconcile_templates_tracked assms(3,4,7) unfolding reconcileSupplyChain_def by blast
  moreover have "NewKey gvk \<lparr>nn_Namespace = '''', nn_Name = name\<rparr> = template_key kind name"
    using assms(5,6) by (simp add: NewKey_def template_key_def)
  ultimately show ?thesis using l by (simp add: EnqueueTracked_def)
qed

section \<open>Witnesses\<close>

definition example_chain :: ClusterSupplyChain where
  "example_chain =
     \<lparr>sc_Name = ''chain'',
      sc_Spec = \<lparr>scs_LegacySelector = \<lparr>leg_Selector = None, leg_SelectorMatchExpressions = None, leg_SelectorMatchFields = None\<rparr>,
        scs_Resources = [\<lparr>scr_Name = ''a'', scr_TemplateRef = \<lparr>btr_Kind = ''ClusterTemplate'', btr_Name = ''t'', btr_Options = []\<rparr>,
          scr_Params = [], scr_Sources = [], scr_Images = [], scr_Configs = []\<rparr>],
        scs_Params = [], scs_ServiceAccountRef = \<lparr>sar_Name = '''', sar_Namespace = ''''\<rparr>\<rparr>,
      sc_Conditions = [], sc_ObservedGeneration = 0, sc_Generation = 1\<rparr>"

definition example_state :: "unstructured list controller_state" where
  "example_state = \<lparr>cs_repo = \<lparr>rg_world = [], rg_cache = NewCache, rg_events = []\<rparr>, cs_tracker = NewDependencyTracker 10\<rparr>"

definition empty_cluster_client :: "unstructured list api_client" where
  "empty_cluster_client = list_client\<lparr>cl_IsNotFound := \<lambda>e. True\<rparr>"

lemma example_templates: "supply_chain_templates example_chain = [(''a'', ''t'', ''ClusterTemplate'')]"
  by (simp add: supply_chain_templates_def example_chain_def named_templates_def)

lemma example_missing: "GetTemplate empty_cluster_client (cs_repo example_state) ''t'' ''ClusterTemplate'' = Ret None"
  by (simp add: GetTemplate_def GetAPITemplate_def empty_cluster_client_def list_client_def getObject_def optional_object_def)

lemma example_reconcile: "\<exists>m st'. reconcileSupplyChain empty_cluster_client 0 example_chain example_state m0 = (None, m, st')"
  by (simp add: reconcileSupplyChain_def reconcile_templates_def example_templates validateResource_def example_missing)

theorem supply_chain_ready_iff_witness:
  "\<exists>m st' conditions changed m'.
     reconcileSupplyChain empty_cluster_client 0 example_chain example_state (NewConditionManager BlueprintReady (sc_Conditions example_chain)) = (None, m, st') \<and>
     Finalize 0 m = (conditions, changed, m') \<and> cond_Status (last conditions) \<noteq> ConditionTrue"
proof -
  obtain m st' where r: "reconcileSupplyChain empty_cluster_client 0 example_chain example_state (NewConditionManager BlueprintReady (sc_Conditions example_chain)) =
      (None, m, st')" using example_reconcile by blast
  moreover obtain conditions changed m' where f: "Finalize 0 m = (conditions, changed, m')" by (cases "Finalize 0 m") auto
  ultimately show ?thesis using supply_chain_ready_iff [OF r f] by (auto simp: example_templates example_missing)
qed

theorem template_change_enqueues_witness:
  "\<exists>m st' requests t'. reconcileSupplyChain empty_cluster_client 0 example_chain example_state (NewConditionManager BlueprintReady []) = (None, m, st') \<and>
     EnqueueTracked (\<lambda>s. sorted_list_of_fset (fmdom s)) (Inr [\<lparr>gvk_Group = SchemeGroup, gvk_Version = SchemeVersion, gvk_Kind = ''ClusterTemplate''\<rparr>])
       5 (cs_tracker st') \<lparr>nn_Namespace = '''', nn_Name = ''t''\<rparr> = Ret (requests, t') \<and> supply_chain_name example_chain \<in> set requests"
proof -
  obtain m st' where r: "reconcileSupplyChain empty_cluster_client 0 example_chain example_state (NewConditionManager BlueprintReady []) = (None, m, st')"
    using example_reconcile by blast
  have "(''a'', ''t'', ''ClusterTemplate'') \<in> set (supply_chain_templates example_chain)" by (simp add: example_templates)
  from template_change_enqueues [OF sorted_keys.ord_set sorted_keys.ord_distinct r this,
      of "\<lparr>gvk_Group = SchemeGroup, gvk_Version = SchemeVersion, gvk_Kind = ''ClusterTemplate''\<rparr>" 5] r
  show ?thesis by (auto simp: example_state_def NewDependencyTracker_def)
qed

end
