(* ===== verification/Token_Manager.thy ===== *)
theory Token_Manager
  imports Go_Errors "HOL-Library.Word" "HOL-Library.Signed_Division"
begin

text \<open>
  \<^verbatim>\<open>pkg/satoken/token_manager.go\<close>: tokens of service accounts, cached and refreshed.

  A \<^verbatim>\<open>time.Duration\<close> and the requested lifetime are 64 bit integers and their arithmetic wraps; the clock is an unbounded
  number.  The API server is the argument \<open>create\<close>, the call \<^verbatim>\<open>CreateToken\<close> on a state of any type \<open>'w\<close>; the result of
  \<^verbatim>\<open>rand.Float64()\<close> is an argument between 0 and 1.  The mutex guards the cache but not a whole request, so besides
  the sequential \<open>GetServiceAccountToken\<close> there is a step relation of any number of goroutines that interleave
  at the accesses to the cache and to the server.
\<close>

section \<open>Durations\<close>

type_synonym int64 = "64 word"

text \<open>Go's division of signed integers truncates.\<close>

definition int64_div :: "int64 \<Rightarrow> int64 \<Rightarrow> int64" where
  "int64_div a b = word_of_int (sint a sdiv sint b)"

definition Second :: int64 where
  "Second = 1000000000"

definition maxTTL :: int64 where
  "maxTTL = 2 * (3600 * Second)"

definition maxJitter :: int64 where
  "maxJitter = 10 * Second"

definition time_Add :: "time \<Rightarrow> int64 \<Rightarrow> time" where
  "time_Add t d = t + sint d"

lemma sint_word_of_int:
  assumes "- (2 ^ 63) \<le> k" "k < 2 ^ 63"
  shows "sint (word_of_int k :: int64) = k"
  using assms by (simp add: sint_sbintrunc' signed_take_bit_int_eq_self)

text \<open>A product that fits is the product.\<close>

lemma sint_seconds:
  assumes "\<bar>sint s\<bar> \<le> 2 ^ 32"
  shows "sint (- s * Second) = - (sint s * 1000000000)"
proof -
  have "- s * Second = word_of_int (- (sint s * 1000000000))" by (simp add: Second_def)
  moreover have "- (2 ^ 63) \<le> - (sint s * 1000000000)" "- (sint s * 1000000000) < 2 ^ 63" using assms by (simp_all add: abs_le_iff)
  ultimately show ?thesis using sint_word_of_int by metis
qed

section \<open>Token requests\<close>

record TokenRequest =
  tq_ExpirationSeconds :: "int64 option"
  tq_Token :: string
  tq_ExpirationTimestamp :: time

definition token_expired :: "time \<Rightarrow> TokenRequest \<Rightarrow> bool" where
  "token_expired now t \<longleftrightarrow> time_After now (tq_ExpirationTimestamp t)"

definition jitter_of :: "rat \<Rightarrow> int64" where
  "jitter_of rnd = word_of_int \<lfloor>rnd * of_int (sint maxJitter div 1000000000)\<rfloor> * Second"

definition requiresRefresh :: "time \<Rightarrow> rat \<Rightarrow> TokenRequest \<Rightarrow> bool" where
  "requiresRefresh now rnd tr =
     (case tq_ExpirationSeconds tr of
        None \<Rightarrow> False
      | Some secs \<Rightarrow>
          (let exp = tq_ExpirationTimestamp tr;
               iat = time_Add exp (- 1 * secs * Second);
               jitter = jitter_of rnd
           in if time_After now (time_Add iat (maxTTL - jitter)) then True
              else time_After now (time_Add exp (- 1 * int64_div (secs * 50) 100 * Second - jitter))))"

section \<open>The manager\<close>

text \<open>\<^verbatim>\<open>%q\<close> on strings whose bytes above the ASCII range are printable characters.\<close>

definition hex_digit :: "nat \<Rightarrow> char" where
  "hex_digit n = char_of (if n < 10 then 48 + n else 87 + n)"

definition short_escapes :: "(nat \<times> char) list" where
  "short_escapes =
     [(0x22, CHR 0x22), (0x5C, CHR 0x5C), (7, CHR ''a''), (8, CHR ''b''), (9, CHR ''t''), (10, CHR ''n''), (11, CHR ''v''),
      (12, CHR ''f''), (13, CHR ''r'')]"

definition quote_char :: "char \<Rightarrow> string" where
  "quote_char c =
     (let n = of_char c :: nat
      in case map_of short_escapes n of
           Some e \<Rightarrow> [CHR 0x5C, e]
         | None \<Rightarrow> if n < 32 \<or> n = 127 then [CHR 0x5C, CHR ''x'', hex_digit (n div 16), hex_digit (n mod 16)] else [c])"

definition show_quoted :: "string \<Rightarrow> string" where
  "show_quoted s = [CHR 0x22] @ concat (map quote_char s) @ [CHR 0x22]"

definition token_key :: "ServiceAccount \<Rightarrow> string" where
  "token_key sa = show_quoted (sa_Name sa) @ ''/'' @ show_quoted (sa_Namespace sa) @ ''/'' @ show_quoted (sa_UID sa)"

type_synonym token_cache = "(string, TokenRequest) fmap"

type_synonym 'w token_client = "'w \<Rightarrow> string \<Rightarrow> string \<Rightarrow> TokenRequest \<Rightarrow> (gerror + TokenRequest) \<times> 'w"

record 'w token_manager =
  tm_world :: 'w
  tm_cache :: token_cache

definition NewManager :: "'w \<Rightarrow> token_cache option \<Rightarrow> 'w token_manager" where
  "NewManager w tokenCache = \<lparr>tm_world = w, tm_cache = (case tokenCache of None \<Rightarrow> fmempty | Some c \<Rightarrow> c)\<rparr>"

definition getToken ::
  "'w token_client \<Rightarrow> 'w token_manager \<Rightarrow> string \<Rightarrow> string \<Rightarrow> TokenRequest \<Rightarrow> (gerror + TokenRequest) \<times> 'w token_manager" where
  "getToken create m name namespace tr =
     (case create (tm_world m) namespace name tr of (res, w) \<Rightarrow> (res, m\<lparr>tm_world := w\<rparr>))"

definition get_cached :: "'w token_manager \<Rightarrow> string \<Rightarrow> TokenRequest option" where
  "get_cached m key = fmlookup (tm_cache m) key"

definition set_cached :: "'w token_manager \<Rightarrow> string \<Rightarrow> TokenRequest \<Rightarrow> 'w token_manager" where
  "set_cached m key tr = m\<lparr>tm_cache := fmupd key tr (tm_cache m)\<rparr>"

definition new_request :: TokenRequest where
  "new_request = \<lparr>tq_ExpirationSeconds = Some (word_of_int (sint maxTTL div 1000000000)), tq_Token = '''', tq_ExpirationTimestamp = zero_time\<rparr>"

text \<open>What a failed refresh returns; \<open>now\<close> is the time after the call of the server.\<close>

definition refresh_failed :: "time \<Rightarrow> string \<Rightarrow> TokenRequest option \<Rightarrow> gerror \<Rightarrow> gerror + string" where
  "refresh_failed now key ctr err =
     (case ctr of
        None \<Rightarrow> Inl (ErrorString (''fetch token: '' @ Error err))
      | Some c \<Rightarrow>
          (if token_expired now c then Inl (ErrorString (''token '' @ key @ '' expired and refresh failed: '' @ Error err))
           else Inr (tq_Token c)))"

definition GetServiceAccountToken ::
  "'w token_client \<Rightarrow> time \<Rightarrow> rat \<Rightarrow> time \<Rightarrow> 'w token_manager \<Rightarrow> ServiceAccount \<Rightarrow> (gerror + string) \<times> 'w token_manager" where
  "GetServiceAccountToken create now rnd now' m serviceAccount =
     (let key = token_key serviceAccount;
          ctr = get_cached m key
      in if (case ctr of None \<Rightarrow> False | Some c \<Rightarrow> \<not> requiresRefresh now rnd c) then (Inr (tq_Token (the ctr)), m)
         else (case getToken create m (sa_Name serviceAccount) (sa_Namespace serviceAccount) new_request of
                 (Inl err, m1) \<Rightarrow> (refresh_failed now' key ctr err, m1)
               | (Inr tr, m1) \<Rightarrow> (Inr (tq_Token tr), set_cached m1 key tr)))"

definition token_Cleanup :: "time \<Rightarrow> 'w token_manager \<Rightarrow> 'w token_manager" where
  "token_Cleanup now m =
     m\<lparr>tm_cache := fmfilter (\<lambda>k. case fmlookup (tm_cache m) k of None \<Rightarrow> False | Some tr \<Rightarrow> \<not> token_expired now tr) (tm_cache m)\<rparr>"

section \<open>When a token is refreshed\<close>

definition jitter_seconds :: "rat \<Rightarrow> int" where
  "jitter_seconds rnd = \<lfloor>rnd * 10\<rfloor>"

lemma jitter_seconds_bounds:
  assumes "0 \<le> rnd" "rnd < 1"
  shows "0 \<le> jitter_seconds rnd" "jitter_seconds rnd \<le> 9"
  using assms by (simp_all add: jitter_seconds_def floor_le_iff)

lemma sint_maxJitter: "sint maxJitter = 10000000000" and sint_maxTTL: "sint maxTTL = 7200000000000"
  by (simp_all add: maxJitter_def maxTTL_def Second_def)

lemma jitter_of_eq: "jitter_of rnd = word_of_int (jitter_seconds rnd * 1000000000)"
  by (simp add: jitter_of_def jitter_seconds_def sint_maxJitter Second_def)

lemma half_lifetime:
  assumes "0 \<le> sint secs" "sint secs \<le> 2 ^ 32"
  shows "int64_div (secs * 50) 100 = word_of_int (sint secs div 2)"
proof -
  have "secs * 50 = word_of_int (sint secs * 50)" by simp
  then have "sint (secs * 50) = sint secs * 50" using sint_word_of_int [of "sint secs * 50"] assms by simp
  then show ?thesis using assms by (simp add: int64_div_def signed_divide_int_def sgn_if)
qed

lemma refresh_times:
  assumes "0 \<le> sint secs" "sint secs \<le> 2 ^ 32" "0 \<le> rnd" "rnd < 1"
  shows "sint (maxTTL - jitter_of rnd) = 7200000000000 - jitter_seconds rnd * 1000000000"
    and "sint (- 1 * int64_div (secs * 50) 100 * Second - jitter_of rnd) = - (sint secs div 2 + jitter_seconds rnd) * 1000000000"
proof -
  have j: "0 \<le> jitter_seconds rnd" "jitter_seconds rnd \<le> 9" using jitter_seconds_bounds assms(3,4) by blast+
  have "maxTTL - jitter_of rnd = word_of_int (7200000000000 - jitter_seconds rnd * 1000000000)"
    by (simp add: maxTTL_def Second_def jitter_of_eq)
  then show "sint (maxTTL - jitter_of rnd) = 7200000000000 - jitter_seconds rnd * 1000000000"
    using j sint_word_of_int [of "7200000000000 - jitter_seconds rnd * 1000000000"] by simp
  have "- 1 * int64_div (secs * 50) 100 * Second - jitter_of rnd =
      word_of_int (- (sint secs div 2 + jitter_seconds rnd) * 1000000000)"
    by (simp add: half_lifetime [OF assms(1,2)] Second_def jitter_of_eq algebra_simps)
  moreover have "sint secs div 2 \<le> 2 ^ 31" "0 \<le> sint secs div 2" using assms by simp_all
  ultimately show "sint (- 1 * int64_div (secs * 50) 100 * Second - jitter_of rnd) =
      - (sint secs div 2 + jitter_seconds rnd) * 1000000000"
    using j sint_word_of_int [of "- (sint secs div 2 + jitter_seconds rnd) * 1000000000"] by simp
qed

lemma refresh_exact_iff:
  assumes "tq_ExpirationSeconds tr = Some secs" "0 \<le> sint secs" "sint secs \<le> 2 ^ 32" "0 \<le> rnd" "rnd < 1"
  shows "requiresRefresh now rnd tr \<longleftrightarrow>
       now > tq_ExpirationTimestamp tr - sint secs * 1000000000 + (7200 - jitter_seconds rnd) * 1000000000 \<or>
       now > tq_ExpirationTimestamp tr - (sint secs div 2 + jitter_seconds rnd) * 1000000000"
proof -
  have "requiresRefresh now rnd tr \<longleftrightarrow>
      now > tq_ExpirationTimestamp tr + sint (- 1 * secs * Second) + sint (maxTTL - jitter_of rnd) \<or>
      now > tq_ExpirationTimestamp tr + sint (- 1 * int64_div (secs * 50) 100 * Second - jitter_of rnd)"
    using assms(1) by (simp add: requiresRefresh_def Let_def time_After_def time_Add_def)
  moreover have "sint (- 1 * secs * Second) = - (sint secs * 1000000000)" using sint_seconds [of secs] assms(2,3) by simp
  ultimately show ?thesis unfolding refresh_times [OF assms(2-5)] by (simp add: algebra_simps)
qed

text \<open>
  C18: for every lifetime that the token API accepts (at most \<open>2\<^sup>3\<^sup>2\<close> seconds) the 64 bit arithmetic of the refresh test does not
  wrap: a token is refreshed exactly when it is older than two hours or its remaining time is at most half its lifetime, both less
  a jitter of at most nine seconds.
\<close>

theorem refresh_exact:
  assumes "tq_ExpirationSeconds tr = Some secs" "0 \<le> sint secs" "sint secs \<le> 2 ^ 32" "0 \<le> rnd" "rnd < 1"
  shows "\<exists>j. 0 \<le> j \<and> j \<le> 9 \<and>
    (requiresRefresh now rnd tr \<longleftrightarrow>
       now > tq_ExpirationTimestamp tr - sint secs * 1000000000 + (7200 - j) * 1000000000 \<or>
       now > tq_ExpirationTimestamp tr - (sint secs div 2 + j) * 1000000000)"
  using refresh_exact_iff [OF assms] jitter_seconds_bounds [OF assms(4,5)] by blast

theorem refresh_exact_witness:
  "\<exists>j. 0 \<le> j \<and> j \<le> 9 \<and>
    (requiresRefresh (3000 * 1000000000) (1 / 2) \<lparr>tq_ExpirationSeconds = Some 7200, tq_Token = ''t'', tq_ExpirationTimestamp = 7200 * 1000000000\<rparr> \<longleftrightarrow>
      (3000 :: int) > 3600 - j)"
  using refresh_exact [of "\<lparr>tq_ExpirationSeconds = Some 7200, tq_Token = ''t'', tq_ExpirationTimestamp = 7200 * 1000000000\<rparr>" 7200
      "1 / 2" "3000 * 1000000000"] by auto

section \<open>No expired tokens\<close>

text \<open>
  C16: no caller gets an expired token: if the cached requests have lifetimes that the API accepts and the server grants tokens that
  are valid when the call returns, then the token is that of a request, cached for this service account or just granted,
  that has not expired at the time when it was last looked at.
\<close>

theorem token_not_expired:
  assumes "GetServiceAccountToken create now rnd now' m sa = (Inr token, m')" "0 \<le> rnd" "rnd < 1"
    and "\<And>tr. get_cached m (token_key sa) = Some tr \<Longrightarrow> \<exists>secs. tq_ExpirationSeconds tr = Some secs \<and> 0 \<le> sint secs \<and> sint secs \<le> 2 ^ 32"
    and "\<And>w tr w'. create w (sa_Namespace sa) (sa_Name sa) new_request = (Inr tr, w') \<Longrightarrow> now' \<le> tq_ExpirationTimestamp tr"
  shows "\<exists>tr. token = tq_Token tr \<and>
    (get_cached m (token_key sa) = Some tr \<and> m' = m \<and> now \<le> tq_ExpirationTimestamp tr \<or>
     get_cached m (token_key sa) = Some tr \<and> now' \<le> tq_ExpirationTimestamp tr \<or>
     get_cached m' (token_key sa) = Some tr \<and> now' \<le> tq_ExpirationTimestamp tr)"
proof (cases "case get_cached m (token_key sa) of None \<Rightarrow> False | Some c \<Rightarrow> \<not> requiresRefresh now rnd c")
  case True
  then obtain c where c: "get_cached m (token_key sa) = Some c" "\<not> requiresRefresh now rnd c" by (auto split: option.splits)
  with assms(4) obtain secs where secs: "tq_ExpirationSeconds c = Some secs" "0 \<le> sint secs" "sint secs \<le> 2 ^ 32" by blast
  obtain j where "0 \<le> j" "now \<le> tq_ExpirationTimestamp c - (sint secs div 2 + j) * 1000000000"
    using refresh_exact_iff [OF secs assms(2,3)] c(2) jitter_seconds_bounds(1) [OF assms(2,3)] by (auto simp: not_less)
  moreover have "0 \<le> (sint secs div 2 + j) * 1000000000" using secs(2) \<open>0 \<le> j\<close> by simp
  ultimately have "now \<le> tq_ExpirationTimestamp c" by linarith
  moreover have "token = tq_Token c" "m' = m" using assms(1) True c by (simp_all add: GetServiceAccountToken_def Let_def)
  ultimately show ?thesis using c(1) by blast
next
  case False
  then show ?thesis
    using assms(1) assms(5) [of "tm_world m"]
    by (auto simp: GetServiceAccountToken_def Let_def getToken_def refresh_failed_def get_cached_def set_cached_def token_expired_def
        time_After_def not_less split: prod.splits sum.splits option.splits if_splits)
qed

definition example_create :: "unit token_client" where
  "example_create w ns name tr = (Inr (tr\<lparr>tq_Token := name, tq_ExpirationTimestamp := 7200 * 1000000000\<rparr>), w)"

definition example_sa :: ServiceAccount where
  "example_sa = \<lparr>sa_Namespace = ''dev'', sa_Name = ''app'', sa_UID = ''1''\<rparr>"

lemma example_token:
  "GetServiceAccountToken example_create 0 0 1 (NewManager () None) example_sa =
     (Inr ''app'', set_cached (NewManager () None) (token_key example_sa)
        (new_request\<lparr>tq_Token := ''app'', tq_ExpirationTimestamp := 7200 * 1000000000\<rparr>))"
  by (simp add: GetServiceAccountToken_def Let_def get_cached_def NewManager_def getToken_def example_create_def example_sa_def)

theorem token_not_expired_witness:
  "\<exists>tr :: TokenRequest. fst (GetServiceAccountToken example_create 0 0 1 (NewManager () None) example_sa) = Inr (tq_Token tr) \<and>
     1 \<le> tq_ExpirationTimestamp tr"
proof -
  have none: "get_cached (NewManager () None) (token_key example_sa) = None" by (simp add: get_cached_def NewManager_def)
  have "\<exists>tr :: TokenRequest. ''app'' = tq_Token tr \<and> 1 \<le> tq_ExpirationTimestamp tr"
    using token_not_expired [OF example_token] none by (simp add: example_create_def) blast
  then show ?thesis unfolding example_token by simp
qed

section \<open>Keys\<close>

text \<open>The quoted characters form a prefix code that never starts with a quote, so the key of a service account identifies it.\<close>

lemma hex_digit_inj: "a < 16 \<Longrightarrow> b < 16 \<Longrightarrow> hex_digit a = hex_digit b \<Longrightarrow> a = b"
  by (auto simp: hex_digit_def char_of_eq_iff take_bit_eq_mod split: if_splits)

lemma hex_char_inj:
  assumes "hex_digit (of_char c div 16) = hex_digit (of_char d div 16)" "hex_digit (of_char c mod 16) = hex_digit (of_char d mod 16)"
  shows "c = d"
proof -
  have "(of_char x :: nat) div 16 < 16" for x by (simp add: less_mult_imp_div_less)
  then have "(of_char c :: nat) div 16 = of_char d div 16" by (intro hex_digit_inj [OF _ _ assms(1)])
  moreover have "(of_char c :: nat) mod 16 = of_char d mod 16" by (rule hex_digit_inj [OF _ _ assms(2)]) simp_all
  ultimately have "(of_char c :: nat) = of_char d" by (metis div_mult_mod_eq)
  then show ?thesis by (metis char_of_char)
qed

lemma short_escapes_inj: "map_of short_escapes m = Some e \<Longrightarrow> map_of short_escapes n = Some e \<Longrightarrow> m = n"
  and short_escapes_x: "map_of short_escapes m \<noteq> Some CHR ''x''"
  by (auto simp: short_escapes_def split: if_splits)

lemma quote_char_cases:
  obtains e where "map_of short_escapes (of_char c) = Some e" "quote_char c = [CHR 0x5C, e]"
  | "quote_char c = [CHR 0x5C, CHR ''x'', hex_digit (of_char c div 16), hex_digit (of_char c mod 16)]"
  | "quote_char c = [c]" "c \<noteq> CHR 0x22" "c \<noteq> CHR 0x5C"
proof (cases "map_of short_escapes (of_char c)")
  case None
  then have "c \<noteq> CHR 0x22" "c \<noteq> CHR 0x5C" by (auto simp: short_escapes_def)
  with None show ?thesis
    using that(2,3) by (cases "(of_char c :: nat) < 32 \<or> (of_char c :: nat) = 127") (simp_all add: quote_char_def Let_def)
qed (use that(1) in \<open>simp add: quote_char_def Let_def\<close>)

lemma char_code_inj: "map_of short_escapes (of_char c) = Some e \<Longrightarrow> map_of short_escapes (of_char d) = Some e \<Longrightarrow> c = d"
  by (drule (1) short_escapes_inj) (metis char_of_char)

lemma quote_char_prefix: "quote_char c @ xs = quote_char d @ ys \<Longrightarrow> c = d \<and> xs = ys"
  by (rule quote_char_cases [of c]; rule quote_char_cases [of d])
    (auto dest: char_code_inj hex_char_inj simp: short_escapes_x)

lemma quote_char_hd: "quote_char c @ xs \<noteq> CHR 0x22 # ys"
  by (rule quote_char_cases [of c]) auto

lemma quoted_inject:
  "concat (map quote_char s) @ CHR 0x22 # r = concat (map quote_char s') @ CHR 0x22 # r' \<Longrightarrow> s = s' \<and> r = r'"
proof (induction s arbitrary: s')
  case Nil
  then show ?case using quote_char_hd by (cases s') (auto, metis)
next
  case (Cons c s)
  then obtain d t where s': "s' = d # t" using quote_char_hd by (cases s') auto
  with Cons.prems have "c = d \<and> concat (map quote_char s) @ CHR 0x22 # r = concat (map quote_char t) @ CHR 0x22 # r'"
    by (intro quote_char_prefix) simp
  then show ?case using Cons.IH s' by blast
qed

lemma show_quoted_inject: "show_quoted s @ r = show_quoted s' @ r' \<Longrightarrow> s = s' \<and> r = r'"
  by (rule quoted_inject) (simp add: show_quoted_def)

text \<open>Different names, namespaces or identifiers never share a key, whatever characters they contain.\<close>

lemma token_key_inject: "token_key sa = token_key sa' \<longleftrightarrow> sa = sa'"
proof
  assume "token_key sa = token_key sa'"
  then have "sa_Name sa = sa_Name sa' \<and> ''/'' @ show_quoted (sa_Namespace sa) @ ''/'' @ show_quoted (sa_UID sa) =
      ''/'' @ show_quoted (sa_Namespace sa') @ ''/'' @ show_quoted (sa_UID sa')"
    by (intro show_quoted_inject) (simp add: token_key_def)
  moreover from this have "sa_Namespace sa = sa_Namespace sa' \<and> ''/'' @ show_quoted (sa_UID sa) = ''/'' @ show_quoted (sa_UID sa')"
    by (intro show_quoted_inject) simp
  moreover from this have "sa_UID sa = sa_UID sa' \<and> ([] :: string) = []" by (intro show_quoted_inject) simp
  ultimately show "sa = sa'" by simp
qed simp

section \<open>Concurrent requests\<close>

text \<open>
  A goroutine in \<^verbatim>\<open>GetServiceAccountToken\<close> is about to call the server (with what it found in the cache) or about to store the
  result.  Other goroutines and the cleanup run between its accesses.
\<close>

datatype goroutine = Idle | Fetching ServiceAccount "TokenRequest option" | Storing ServiceAccount TokenRequest

record 'w token_system =
  ts_manager :: "'w token_manager"
  ts_go :: "nat \<Rightarrow> goroutine"
  ts_answers :: "(ServiceAccount \<times> (gerror + string)) list"

definition go_to :: "'w token_system \<Rightarrow> nat \<Rightarrow> goroutine \<Rightarrow> 'w token_system" where
  "go_to s i g = s\<lparr>ts_go := (ts_go s)(i := g)\<rparr>"

definition answer :: "'w token_system \<Rightarrow> nat \<Rightarrow> ServiceAccount \<Rightarrow> gerror + string \<Rightarrow> 'w token_system" where
  "answer s i sa res = s\<lparr>ts_go := (ts_go s)(i := Idle), ts_answers := ts_answers s @ [(sa, res)]\<rparr>"

inductive token_step :: "'w token_client \<Rightarrow> 'w token_system \<Rightarrow> 'w token_system \<Rightarrow> bool" for create where
  hit: "ts_go s i = Idle \<Longrightarrow> get_cached (ts_manager s) (token_key sa) = Some c \<Longrightarrow> \<not> requiresRefresh now rnd c \<Longrightarrow>
    token_step create s (answer s i sa (Inr (tq_Token c)))"
| absent: "ts_go s i = Idle \<Longrightarrow> get_cached (ts_manager s) (token_key sa) = None \<Longrightarrow>
    token_step create s (go_to s i (Fetching sa None))"
| stale: "ts_go s i = Idle \<Longrightarrow> get_cached (ts_manager s) (token_key sa) = Some c \<Longrightarrow> requiresRefresh now rnd c \<Longrightarrow>
    token_step create s (go_to s i (Fetching sa (Some c)))"
| failed: "ts_go s i = Fetching sa ctr \<Longrightarrow>
    getToken create (ts_manager s) (sa_Name sa) (sa_Namespace sa) new_request = (Inl err, m') \<Longrightarrow>
    token_step create s (answer (s\<lparr>ts_manager := m'\<rparr>) i sa (refresh_failed now' (token_key sa) ctr err))"
| fetched: "ts_go s i = Fetching sa ctr \<Longrightarrow>
    getToken create (ts_manager s) (sa_Name sa) (sa_Namespace sa) new_request = (Inr tr, m') \<Longrightarrow>
    token_step create s (go_to (s\<lparr>ts_manager := m'\<rparr>) i (Storing sa tr))"
| stored: "ts_go s i = Storing sa tr \<Longrightarrow>
    token_step create s (answer (s\<lparr>ts_manager := set_cached (ts_manager s) (token_key sa) tr\<rparr>) i sa (Inr (tq_Token tr)))"
| cleanup: "token_step create s (s\<lparr>ts_manager := token_Cleanup now (ts_manager s)\<rparr>)"

definition start_system :: "'w \<Rightarrow> 'w token_system" where
  "start_system w = \<lparr>ts_manager = NewManager w None, ts_go = (\<lambda>i. Idle), ts_answers = []\<rparr>"

text \<open>The server granted \<open>tr\<close> to the service account.\<close>

definition granted :: "'w token_client \<Rightarrow> ServiceAccount \<Rightarrow> TokenRequest \<Rightarrow> bool" where
  "granted create sa tr \<longleftrightarrow> (\<exists>w w'. create w (sa_Namespace sa) (sa_Name sa) new_request = (Inr tr, w'))"

definition system_ok :: "'w token_client \<Rightarrow> 'w token_system \<Rightarrow> bool" where
  "system_ok create s \<longleftrightarrow>
     (\<forall>sa tr. get_cached (ts_manager s) (token_key sa) = Some tr \<longrightarrow> granted create sa tr) \<and>
     (\<forall>i sa c. ts_go s i = Fetching sa (Some c) \<longrightarrow> granted create sa c) \<and>
     (\<forall>i sa tr. ts_go s i = Storing sa tr \<longrightarrow> granted create sa tr) \<and>
     (\<forall>sa token. (sa, Inr token) \<in> set (ts_answers s) \<longrightarrow> (\<exists>tr. granted create sa tr \<and> token = tq_Token tr))"

lemma getToken_cache: "getToken create m name ns tr = (res, m') \<Longrightarrow> tm_cache m' = tm_cache m"
  by (auto simp: getToken_def split: prod.splits)

lemma system_ok_start: "system_ok create (start_system w)"
  by (simp add: system_ok_def start_system_def NewManager_def get_cached_def)

lemma system_ok_step: "token_step create s s' \<Longrightarrow> system_ok create s \<Longrightarrow> system_ok create s'"
proof (induction rule: token_step.induct)
  case (failed s i sa ctr err m')
  then show ?case
    by (auto simp: system_ok_def answer_def get_cached_def getToken_cache refresh_failed_def split: if_splits option.splits; blast)
next
  case (fetched s i sa ctr tr m')
  then have "granted create sa tr" by (auto simp: granted_def getToken_def split: prod.splits)
  with fetched show ?case by (auto simp: system_ok_def go_to_def get_cached_def getToken_cache)
next
  case (stored s i sa tr)
  then have "granted create sa tr" by (simp add: system_ok_def)
  with stored show ?case
    by (auto simp: system_ok_def answer_def get_cached_def set_cached_def token_key_inject split: if_splits; blast)
qed (auto simp: system_ok_def answer_def go_to_def get_cached_def token_Cleanup_def split: if_splits)

text \<open>A request that is not interleaved with others is a run of these steps.\<close>

lemma sequential_run:
  assumes "ts_go s i = Idle" "GetServiceAccountToken create now rnd now' (ts_manager s) sa = (res, m')"
  shows "(token_step create)\<^sup>*\<^sup>* s (answer (s\<lparr>ts_manager := m'\<rparr>) i sa res)"
proof (cases "case get_cached (ts_manager s) (token_key sa) of None \<Rightarrow> False | Some c \<Rightarrow> \<not> requiresRefresh now rnd c")
  case True
  then obtain c where c: "get_cached (ts_manager s) (token_key sa) = Some c" "\<not> requiresRefresh now rnd c" by (auto split: option.splits)
  then have "res = Inr (tq_Token c)" "m' = ts_manager s" using assms(2) by (auto simp: GetServiceAccountToken_def Let_def)
  then show ?thesis using token_step.hit [OF assms(1) c, of create] by auto
next
  case False
  let ?ctr = "get_cached (ts_manager s) (token_key sa)"
  let ?s1 = "go_to s i (Fetching sa ?ctr)"
  have first: "token_step create s ?s1"
    using False token_step.absent [OF assms(1)] token_step.stale [OF assms(1)] by (cases ?ctr) auto
  have g: "ts_go ?s1 i = Fetching sa ?ctr" "ts_manager ?s1 = ts_manager s" by (simp_all add: go_to_def)
  obtain ans m1 where get: "getToken create (ts_manager s) (sa_Name sa) (sa_Namespace sa) new_request = (ans, m1)" by fastforce
  show ?thesis
  proof (cases ans)
    case (Inl err)
    then have "res = refresh_failed now' (token_key sa) ?ctr err" "m' = m1"
      using assms(2) False get by (simp_all add: GetServiceAccountToken_def Let_def)
    moreover have "token_step create ?s1 (answer (?s1\<lparr>ts_manager := m1\<rparr>) i sa (refresh_failed now' (token_key sa) ?ctr err))"
      using token_step.failed [OF g(1)] get Inl g(2) by simp
    ultimately show ?thesis
      using first by (auto simp: answer_def go_to_def intro: converse_rtranclp_into_rtranclp)
  next
    case (Inr tr)
    then have res: "res = Inr (tq_Token tr)" "m' = set_cached m1 (token_key sa) tr"
      using assms(2) False get by (simp_all add: GetServiceAccountToken_def Let_def)
    let ?s2 = "go_to (?s1\<lparr>ts_manager := m1\<rparr>) i (Storing sa tr)"
    have "token_step create ?s1 ?s2" using token_step.fetched [OF g(1)] get Inr g(2) by simp
    moreover have "token_step create ?s2 (answer (?s2\<lparr>ts_manager := set_cached (ts_manager ?s2) (token_key sa) tr\<rparr>) i sa (Inr (tq_Token tr)))"
      by (rule token_step.stored) (simp add: go_to_def)
    moreover have "answer (?s2\<lparr>ts_manager := set_cached (ts_manager ?s2) (token_key sa) tr\<rparr>) i sa (Inr (tq_Token tr)) =
        answer (s\<lparr>ts_manager := m'\<rparr>) i sa res"
      by (simp add: res answer_def go_to_def)
    ultimately show ?thesis using first by (metis converse_rtranclp_into_rtranclp rtranclp.rtrancl_refl)
  qed
qed

text \<open>
  C17: however the requests of any number of goroutines and the cleanup interleave, a token that is returned for a service account
  was granted by the server to that service account: concurrent refreshes never mix up tokens.
\<close>

theorem tokens_belong:
  assumes "(token_step create)\<^sup>*\<^sup>* (start_system w) s" "(sa, Inr token) \<in> set (ts_answers s)"
  shows "\<exists>tr. granted create sa tr \<and> token = tq_Token tr"
proof -
  have "system_ok create s" using assms(1) by (induction rule: rtranclp_induct) (auto intro: system_ok_start system_ok_step)
  with assms(2) show ?thesis by (simp add: system_ok_def)
qed

theorem tokens_belong_witness: "\<exists>tr. granted example_create example_sa tr \<and> ''app'' = tq_Token tr"
proof -
  have "(token_step example_create)\<^sup>*\<^sup>* (start_system ()) (answer (start_system ()\<lparr>ts_manager := set_cached (NewManager () None)
      (token_key example_sa) (new_request\<lparr>tq_Token := ''app'', tq_ExpirationTimestamp := 7200 * 1000000000\<rparr>)\<rparr>) 0 example_sa (Inr ''app''))"
    by (rule sequential_run [of _ _ _ 0 0 1]) (use example_token in \<open>simp_all add: start_system_def\<close>)
  from tokens_belong [OF this] show ?thesis by (simp add: answer_def)
qed

end
