(* ===== verification/Owner_Reconcilers.thy ===== *)
theory Owner_Reconcilers
  imports Orphans Blueprint_Reconcilers Token_Manager
begin

text \<open>
  What the workload and the deliverable reconciler (\<^verbatim>\<open>pkg/controllers\<close>) share: their state and environment, the builder of a resource
  realizer, the tracking of what an owner depends on and the watches on its objects.

  The state is that of a blueprint reconciler with the token cache and the successful calls of \<^verbatim>\<open>StampedTracker.Watch\<close> (the tracker is
  the one of controller-runtime, an argument).  In \<open>owner_env\<close> are the clients and library functions; \<open>oc_now\<close> is the time of the
  clock readings of the reconciler, \<open>oc_later\<close> the one after the call of the token API, \<open>oc_clock n\<close> those for the \<open>n\<close>-th
  resource.
\<close>

section \<open>State and environment\<close>

record 'w owner_state = "'w controller_state" +
  os_tokens :: token_cache
  os_watched :: "GroupVersionKind list"

record 'w owner_env =
  oc_client :: "'w api_client"
  oc_createToken :: "'w token_client"
  oc_rnd :: rat
  oc_now :: time
  oc_later :: time
  oc_clock :: "nat \<Rightarrow> time"
  oc_lsel :: label_selector
  oc_jp :: jsonpath_lib
  oc_isForbidden :: "gerror \<Rightarrow> bool"
  oc_refs :: ref_env
  oc_builder :: "string \<Rightarrow> resourceRealizer \<Rightarrow> gerror + 'w resource_do"
  oc_realizer :: realizer
  oc_outputs :: output_env
  oc_watch :: "GroupVersionKind list \<Rightarrow> GroupVersionKind \<Rightarrow> gerror option"
  oc_GVKForObject :: "gerror + GroupVersionKind"

definition NewResourceRealizerBuilder ::
  "'w realizer_env \<Rightarrow> (string \<Rightarrow> gerror + 'w api_client) \<Rightarrow> string \<Rightarrow> resourceRealizer \<Rightarrow> gerror + 'w resource_do" where
  "NewResourceRealizerBuilder env clientBuilder authToken rz =
     (case clientBuilder authToken of
        Inl err \<Rightarrow> Inl (WrapError (''can'' @ [CHR 0x27] @ ''t build client: '') err)
      | Inr ownerClient \<Rightarrow> Inr (Do_resource (env\<lparr>re_ownerClient := ownerClient\<rparr>) rz))"

definition GetObjectGVK :: "'w owner_env \<Rightarrow> gerror + GroupVersionKind" where
  "GetObjectGVK env = (case oc_GVKForObject env of Inl err \<Rightarrow> Inl (WrapError ''gvk for object: '' err) | Inr gvk \<Rightarrow> Inr gvk)"

fun lifecycle_string :: "Lifecycle \<Rightarrow> string" where
  "lifecycle_string Mutable = ''mutable''"
| "lifecycle_string Immutable = ''immutable''"
| "lifecycle_string Tekton = ''tekton''"

text \<open>The call of the token manager of the reconciler.\<close>

definition service_account_token ::
  "'w token_client \<Rightarrow> time \<Rightarrow> rat \<Rightarrow> time \<Rightarrow> 'w owner_state \<Rightarrow> ServiceAccount \<Rightarrow> (gerror + string) \<times> 'w owner_state" where
  "service_account_token create now rnd later st serviceAccount =
     (case GetServiceAccountToken create now rnd later \<lparr>tm_world = rg_world (cs_repo st), tm_cache = os_tokens st\<rparr> serviceAccount of
        (res, m) \<Rightarrow> (res, st\<lparr>cs_repo := (cs_repo st)\<lparr>rg_world := tm_world m\<rparr>, os_tokens := tm_cache m\<rparr>))"

section \<open>Tracking\<close>

definition service_account_key :: "string \<Rightarrow> string \<Rightarrow> Key" where
  "service_account_key name namespace =
     \<lparr>key_Group = '''', key_Kind = ''ServiceAccount'', key_NamespacedName = \<lparr>nn_Namespace = namespace, nn_Name = name\<rparr>\<rparr>"

fun track_templates :: "time \<Rightarrow> tracker \<Rightarrow> NamespacedName \<Rightarrow> ResourceStatus list \<Rightarrow> tracker" where
  "track_templates now t owner [] = t"
| "track_templates now t owner (resource # rest) =
     (case template_of resource of
        None \<Rightarrow> track_templates now t owner rest
      | Some ref \<Rightarrow> track_templates now (Track now t (template_key (or_Kind ref) (or_Name ref)) owner) owner rest)"

definition trackDependencies ::
  "time \<Rightarrow> tracker \<Rightarrow> NamespacedName \<Rightarrow> ResourceStatus list \<Rightarrow> string \<Rightarrow> string \<Rightarrow> tracker" where
  "trackDependencies now t owner realizedResources serviceAccountName serviceAccountNS =
     track_templates now (Track now (ClearTracked t owner) (service_account_key serviceAccountName serviceAccountNS) owner) owner realizedResources"

text \<open>The loop over the current resources that adds informers; a failure becomes the error of the reconciliation.\<close>

fun watch_objects ::
  "'w owner_env \<Rightarrow> GroupVersionKind list \<Rightarrow> gerror option \<Rightarrow> ResourceStatus list \<Rightarrow> gerror option \<times> GroupVersionKind list" where
  "watch_objects env watched reconcileErr [] = (reconcileErr, watched)"
| "watch_objects env watched reconcileErr (resource # rest) =
     (case stamped_of resource of
        None \<Rightarrow> watch_objects env watched reconcileErr rest
      | Some ref \<Rightarrow>
          (let gvk = rv_gvk (oc_refs env) (sref_ObjectReference ref)
           in case oc_watch env watched gvk of
                Some trackingError \<Rightarrow> watch_objects env watched (Some (NewUnhandledError trackingError)) rest
              | None \<Rightarrow> watch_objects env (watched @ [gvk]) reconcileErr rest))"

section \<open>Conditions and messages\<close>

definition empty_condition :: condition where
  "empty_condition =
     \<lparr>cond_Type = '''', cond_Status = '''', cond_ObservedGeneration = 0, cond_LastTransitionTime = zero_time, cond_Reason = '''',
      cond_Message = ''''\<rparr>"

text \<open>A list of strings as \<^verbatim>\<open>%+v\<close> prints it.\<close>

definition show_strings :: "string list \<Rightarrow> string" where
  "show_strings names = ''['' @ strings_Join names '' '' @ '']''"

section \<open>The conditions of a realized owner\<close>

lemma ResourcesSubmitted_status [simp]: "cond_Status (ResourcesSubmittedCondition b) = ConditionTrue"
  by (simp add: ResourcesSubmittedCondition_def mk_condition_def)

text \<open>The condition that the outcome of the realizer adds is True exactly without an error.\<close>

context submission_conditions
begin

lemma submission_added:
  obtains c where
    "\<And>now m. (case err of Some e \<Rightarrow> add_error now m True e | None \<Rightarrow> AddPositive now m (ResourcesSubmittedCondition True)) =
       AddPositive now m c"
    "cond_Status c = ConditionTrue \<longleftrightarrow> err = None" "cond_Status c \<in> {ConditionTrue, ConditionFalse, ConditionUnknown}"
proof (cases err)
  case None
  then show ?thesis using that [of "ResourcesSubmittedCondition True"] by simp
next
  case (Some e)
  obtain c where c: "cond_Status c \<in> {ConditionFalse, ConditionUnknown}"
      "\<And>now m. add_error now m True e = AddPositive now m c"
    using adds_one [of True e] by blast
  then show ?thesis using that [of c] Some by auto
qed

end

lemma owner_conditions:
  assumes "Finalize now (AddPositive now (AddPositive now (AddPositive now (NewConditionManager OwnerReady prev) a) c) h) = (conditions, changed, m)"
    and "cond_Status a = ConditionTrue" "cond_Status c = ConditionTrue \<longleftrightarrow> P" "cond_Status c \<in> {ConditionTrue, ConditionFalse, ConditionUnknown}"
  shows "cond_Type (last conditions) = ''Ready''"
    and "cond_Status (last conditions) = ConditionTrue \<longleftrightarrow> P \<and> cond_Status h \<notin> {ConditionFalse, ConditionUnknown}"
    and "\<not> changed \<Longrightarrow> distinct (map cond_Type prev) \<Longrightarrow> set conditions \<subseteq> set prev"
proof -
  let ?xs = "[(now, a, Positive), (now, c, Positive), (now, h, Positive)]"
  have f: "Finalize now (add_all Add (NewConditionManager OwnerReady prev) ?xs) = (conditions, changed, m)"
    using assms(1) by (simp add: AddPositive_def add_all_Cons)
  show "cond_Type (last conditions) = ''Ready''"
    using cm.finalize_last_sel(1) [OF f] by (simp add: top_condition_def mk_condition_def OwnerReady_def split: prod.split)
  show "cond_Status (last conditions) = ConditionTrue \<longleftrightarrow> P \<and> cond_Status h \<notin> {ConditionFalse, ConditionUnknown}"
    using cm.finalize_True_iff [OF f] assms(2-4) by auto
  show "set conditions \<subseteq> set prev" if "\<not> changed" "distinct (map cond_Type prev)"
    by (rule cm.finalize_unchanged [of now OwnerReady prev ?xs _ m]) (use f that in auto)
qed

text \<open>A single failing condition: its reason and message become those of the top level condition.\<close>

lemma one_failing_condition:
  assumes "Finalize now (AddPositive now (NewConditionManager ty prev) c) = (conditions, changed, m)" "cond_Status c = ConditionFalse"
  shows "map cond_Type conditions = [cond_Type c, ty]" "map cond_Status conditions = [ConditionFalse, ConditionFalse]"
    "cond_Reason (hd conditions) = cond_Reason c" "\<not> changed \<Longrightarrow> distinct (map cond_Type prev) \<Longrightarrow> set conditions \<subseteq> set prev"
proof -
  let ?xs = "[(now, c, Positive)]"
  have f: "Finalize now (add_all Add (NewConditionManager ty prev) ?xs) = (conditions, changed, m)"
    using assms(1) by (simp add: AddPositive_def add_all_Cons)
  then have l: "length conditions = 2" using cm.finalize_length by fastforce
  then obtain a b where ab: "conditions = [a, b]" by (auto simp: numeral_2_eq_2 length_Suc_conv)
  have "untimed a = untimed c" using cm.finalize_untimed [OF f] ab by simp
  then have "cond_Type a = cond_Type c" "cond_Status a = cond_Status c" "cond_Reason a = cond_Reason c"
    by (cases a; cases c; simp add: untimed_def)+
  moreover have "cond_Type b = ty" "cond_Status b = ConditionFalse"
    using cm.finalize_last_sel(1) [OF f] cm.finalize_False_iff [OF f] ab assms(2)
    by (simp_all add: top_condition_def split: prod.splits)
  ultimately show "map cond_Type conditions = [cond_Type c, ty]" "map cond_Status conditions = [ConditionFalse, ConditionFalse]"
      "cond_Reason (hd conditions) = cond_Reason c" using ab assms(2) by simp_all
  show "set conditions \<subseteq> set prev" if "\<not> changed" "distinct (map cond_Type prev)"
    by (rule cm.finalize_unchanged [of now ty prev ?xs _ m]) (use f that in auto)
qed

section \<open>What is tracked\<close>

definition names_template :: "string \<Rightarrow> ResourceStatus \<Rightarrow> bool" where
  "names_template ref r =
     (case template_of r of None \<Rightarrow> False | Some tr \<Rightarrow> key_String (template_key (or_Kind tr) (or_Name tr)) = ref)"

lemma track_templates_lease:
  "lease_of (track_templates now t owner rs) ref obj =
     (if obj = owner \<and> (\<exists>r\<in>set rs. names_template ref r) then Some (now + tr_leaseDuration t) else lease_of t ref obj)"
proof (induction now t owner rs rule: track_templates.induct)
  case (2 now t owner resource rest)
  then show ?case by (cases "template_of resource") (auto simp: lease_of_Track names_template_def [of ref resource])
qed simp

lemma tr_leaseDuration_Clear [simp]: "tr_leaseDuration (ClearTracked t n) = tr_leaseDuration t"
  by (simp add: ClearTracked_def)

text \<open>After tracking, an owner has leases on exactly its service account and the templates of its resources.\<close>

lemma trackDependencies_lease:
  "lease_of (trackDependencies now t owner rs sa ns) ref obj =
     (if obj = owner
      then (if ref = key_String (service_account_key sa ns) \<or> (\<exists>r\<in>set rs. names_template ref r)
            then Some (now + tr_leaseDuration t) else None)
      else lease_of t ref obj)"
  by (auto simp: trackDependencies_def track_templates_lease lease_of_Track Clear_laws)

lemma service_account_requests:
  assumes "\<And>s. set (ord s) = fmdom' s" "\<And>s. distinct (ord s)"
    and "mc_ObjectKinds cl = Inr ([gvk], False)" "gvk_Group gvk = ''''" "gvk_Kind gvk = ''ServiceAccount''"
  shows "owner \<in> set (fst (ServiceAccountToWorkloadRequests (cl, ord, later) t \<lparr>sa_Namespace = ns, sa_Name = name, sa_UID = uid\<rparr>)) \<longleftrightarrow>
    (\<exists>e. lease_of t (key_String (service_account_key name ns)) owner = Some e \<and> later \<le> e)"
proof -
  have ord: "map_order ord" using assms(1,2) by unfold_locales
  have "NewKey gvk \<lparr>nn_Namespace = ns, nn_Name = name\<rparr> = service_account_key name ns"
    using assms(4,5) by (simp add: NewKey_def service_account_key_def)
  then have "ServiceAccountToWorkloadRequests (cl, ord, later) t \<lparr>sa_Namespace = ns, sa_Name = name, sa_UID = uid\<rparr> =
      Lookup ord later t (service_account_key name ns)"
    using assms(3) by (simp add: ServiceAccountToWorkloadRequests_def ServiceAccountToRequests_def addGVK_def)
  then show ?thesis using map_order.lookup_split(2) [OF ord surjective_pairing] by simp
qed

text \<open>
  C19: once the dependencies of an owner are tracked, it is enqueued again when one of them changes: until the leases expire, a change of its
  service account yields a request for it, through the mapper, and a change of the template of one of its resources, through the watch on
  templates.  The tracker returns the owner for no other reference, whatever was tracked for it before.  Changes that do not go through the
  tracker, of blueprints, of role bindings and of stamped objects, are not the subject of this property.
\<close>

theorem dependency_change_enqueues:
  assumes "\<And>s. set (ord s) = fmdom' s" "\<And>s. distinct (ord s)"
    and "mc_ObjectKinds cl = Inr ([gvk], False)" "gvk_Group gvk = ''''" "gvk_Kind gvk = ''ServiceAccount''"
    and "later \<le> now + tr_leaseDuration t"
    and "t' = trackDependencies now t owner rs name ns"
  shows "(\<forall>uid. owner \<in> set (fst (ServiceAccountToWorkloadRequests (cl, ord, later) t' \<lparr>sa_Namespace = ns, sa_Name = name, sa_UID = uid\<rparr>))) \<and>
    (\<forall>r\<in>set rs. \<forall>ref. template_of r = Some ref \<longrightarrow> owner \<in> set (fst (Lookup ord later t' (template_key (or_Kind ref) (or_Name ref))))) \<and>
    (\<forall>k. key_String k \<noteq> key_String (service_account_key name ns) \<and>
       (\<forall>r\<in>set rs. \<forall>ref. template_of r = Some ref \<longrightarrow> key_String k \<noteq> key_String (template_key (or_Kind ref) (or_Name ref))) \<longrightarrow>
       owner \<notin> set (fst (Lookup ord later t' k)))"
proof -
  have ord: "map_order ord" using assms(1,2) by unfold_locales
  have look: "owner \<in> set (fst (Lookup ord later t' k)) \<longleftrightarrow> (\<exists>e. lease_of t' (key_String k) owner = Some e \<and> later \<le> e)" for k
    using map_order.lookup_split(2) [OF ord surjective_pairing] by blast
  note account = service_account_requests [OF assms(1-5), where t = t' and later = later and owner = owner]
  have "lease_of t' ref owner =
      (if ref = key_String (service_account_key name ns) \<or> (\<exists>r\<in>set rs. names_template ref r)
       then Some (now + tr_leaseDuration t) else None)" for ref
    unfolding assms(7) trackDependencies_lease by simp
  then show ?thesis using assms(6) by (auto simp: look account names_template_def split: option.splits; metis)
qed

theorem dependency_change_enqueues_witness:
  "example_owner \<in> set (fst (ServiceAccountToWorkloadRequests (example_client, \<lambda>s. sorted_list_of_fset (fmdom s), 5)
     (trackDependencies 0 (NewDependencyTracker 10) example_owner [example_status ''a''] ''default'' ''dev'')
     \<lparr>sa_Namespace = ''dev'', sa_Name = ''default'', sa_UID = ''1''\<rparr>))"
proof -
  have "mc_ObjectKinds example_client = Inr ([\<lparr>gvk_Group = '''', gvk_Version = ''v1'', gvk_Kind = ''ServiceAccount''\<rparr>], False)"
    by (simp add: example_client_def)
  from dependency_change_enqueues [OF sorted_keys.ord_set sorted_keys.ord_distinct this, of 5 0 "NewDependencyTracker 10" _ example_owner
      "[example_status ''a'']" "''default''" "''dev''"]
  show ?thesis by (simp add: NewDependencyTracker_def)
qed

end
