(* ===== verification/Tracking_Windows.thy ===== *)
theory Tracking_Windows
  imports Owner_Reconcilers
begin

text \<open>
  A reconciliation among others.  The tracker is shared by the goroutines of a controller, up to \<^verbatim>\<open>MaxConcurrentReconciles\<close> of them, and by the
  handlers of its watches; its mutex makes a method call one step, and \<^verbatim>\<open>trackDependencies\<close> makes several calls.  \<open>track_calls\<close> are these calls in
  order, and \<^const>\<open>shuffles\<close> mixes the ones made so far with the calls of everybody else, among them no call for the same owner:
  controller-runtime never reconciles an owner twice at the same time.

  \<open>tracking_window\<close> says what a watch sees in the meantime.  \<^verbatim>\<open>trackDependencies\<close> first clears what the owner tracked and runs after the templates
  were read, so a template that changes in between enqueues nothing.
\<close>

section \<open>The calls of a reconciliation\<close>

definition track_calls :: "time \<Rightarrow> NamespacedName \<Rightarrow> ResourceStatus list \<Rightarrow> string \<Rightarrow> string \<Rightarrow> tracker_call list" where
  "track_calls now owner realizedResources serviceAccountName serviceAccountNS =
     CallClear owner # CallTrack now (service_account_key serviceAccountName serviceAccountNS) owner #
     map (\<lambda>ref. CallTrack now (template_key (or_Kind ref) (or_Name ref)) owner) (List.map_filter template_of realizedResources)"

abbreviation tracker_calls :: "(lease_set \<Rightarrow> NamespacedName list) \<Rightarrow> tracker \<Rightarrow> tracker_call list \<Rightarrow> tracker" where
  "tracker_calls ord \<equiv> foldl (run_call Track (Lookup ord) ClearTracked)"

lemma track_templates_calls:
  "track_templates now t owner rs =
     tracker_calls ord t (map (\<lambda>ref. CallTrack now (template_key (or_Kind ref) (or_Name ref)) owner) (List.map_filter template_of rs))"
  by (induction now t owner rs rule: track_templates.induct) (simp_all add: List.map_filter_simps split: option.split)

text \<open>Without interference the calls are \<^const>\<open>trackDependencies\<close>.\<close>

lemma trackDependencies_calls:
  "trackDependencies now t owner rs sa ns = tracker_calls ord t (track_calls now owner rs sa ns)"
  by (simp add: trackDependencies_def track_calls_def track_templates_calls [of _ _ _ _ ord])

section \<open>Other owners do not interfere\<close>

fun concerns :: "NamespacedName \<Rightarrow> tracker_call \<Rightarrow> bool" where
  "concerns owner (CallTrack t r n) \<longleftrightarrow> n = owner"
| "concerns owner (CallLookup t r) \<longleftrightarrow> False"
| "concerns owner (CallClear n) \<longleftrightarrow> n = owner"

lemma lease_step_other: "\<not> concerns owner c \<Longrightarrow> lease_step d ref owner e c = e"
  by (cases c) auto

lemma lease_steps_own: "foldl (lease_step d ref owner) e calls = foldl (lease_step d ref owner) e (filter (concerns owner) calls)"
  by (induction calls arbitrary: e) (simp_all add: lease_step_other)

lemma filter_none: "\<forall>x\<in>set xs. \<not> P x \<Longrightarrow> filter P xs = []"
  by (induction xs) auto

lemma shuffled_own:
  assumes "mixed \<in> shuffles own others" "\<forall>c\<in>set own. concerns owner c" "\<forall>c\<in>set others. \<not> concerns owner c"
  shows "filter (concerns owner) mixed = own"
proof -
  have "filter (concerns owner) mixed \<in> shuffles (filter (concerns owner) own) (filter (concerns owner) others)"
    using assms(1) filter_shuffles [of "concerns owner" own others] by blast
  moreover have "filter (concerns owner) own = own" "filter (concerns owner) others = []"
    using assms(2,3) by (simp_all add: filter_none)
  ultimately show ?thesis by simp
qed

text \<open>The lease after a sequence of \<^verbatim>\<open>Track\<close> calls of the owner, all at the same time.\<close>

lemma lease_tracks:
  assumes "\<forall>c\<in>set cs. \<exists>k. c = CallTrack now k owner"
  shows "foldl (lease_step d ref owner) e cs =
    (if \<exists>k. CallTrack now k owner \<in> set cs \<and> key_String k = ref then Some (now + d) else e)"
  using assms by (induction cs arbitrary: e) auto

lemma lease_started:
  assumes "track_calls now owner rs sa ns = started @ pending"
  shows "foldl (lease_step d ref owner) e started =
    (if started = [] then e
     else if \<exists>k. CallTrack now k owner \<in> set started \<and> key_String k = ref then Some (now + d) else None)"
proof (cases started)
  case (Cons c cs)
  with assms have c: "c = CallClear owner" and rest: "cs @ pending = tl (track_calls now owner rs sa ns)" by (auto simp: track_calls_def)
  have "\<forall>c\<in>set (tl (track_calls now owner rs sa ns)). \<exists>k. c = CallTrack now k owner" by (auto simp: track_calls_def)
  then have cs: "\<forall>c\<in>set cs. \<exists>k. c = CallTrack now k owner" by (simp flip: rest)
  show ?thesis by (simp add: Cons c lease_tracks [OF cs])
qed simp

lemma started_concerns: "track_calls now owner rs sa ns = started @ pending \<Longrightarrow> \<forall>c\<in>set started. concerns owner c"
proof -
  assume "track_calls now owner rs sa ns = started @ pending"
  moreover have "\<forall>c\<in>set (track_calls now owner rs sa ns). concerns owner c" by (auto simp: track_calls_def)
  ultimately show ?thesis by auto
qed

section \<open>Properties\<close>

text \<open>
  C13: suppose a reconciliation of an owner has made the calls \<open>started\<close> of \<^verbatim>\<open>trackDependencies\<close>, mixed in any way with the calls of other
  goroutines for other owners, when a watch looks up a reference.  Before the first call the watch finds the owner by the leases of its earlier
  reconciliations; from then on it finds the owner exactly when the reference is already tracked again.  Between the two a change of something the owner
  depends on is not seen, and neither is a change during the first reconciliation, when there are no earlier leases.
\<close>

theorem tracking_window:
  assumes "\<And>s. set (ord s) = fmdom' s" "\<And>s. distinct (ord s)"
    and "track_calls now owner realizedResources serviceAccountName serviceAccountNS = started @ pending"
    and "mixed \<in> shuffles started others" "\<forall>c\<in>set others. \<not> concerns owner c" "calls_before later (history @ mixed)"
    and "Lookup ord later (tracker_calls ord (NewDependencyTracker d) (history @ mixed)) ref = (items, t')"
  shows "owner \<in> set items \<longleftrightarrow>
    (if started = [] then \<exists>e. lease_after d history (key_String ref) owner = Some e \<and> later \<le> e
     else (\<exists>k. CallTrack now k owner \<in> set started \<and> key_String k = key_String ref) \<and> later \<le> now + d)"
proof -
  have "map_order ord" using assms(1,2) by unfold_locales
  from map_order.live_leases(2) [OF this assms(6,7)]
  have "owner \<in> set items \<longleftrightarrow> (\<exists>e. lease_after d (history @ mixed) (key_String ref) owner = Some e \<and> later \<le> e)" by blast
  moreover have "lease_after d (history @ mixed) (key_String ref) owner =
      foldl (lease_step d (key_String ref) owner) (lease_after d history (key_String ref) owner) started"
    unfolding lease_after_def foldl_append
    using lease_steps_own [of d "key_String ref" owner _ mixed] shuffled_own [OF assms(4) started_concerns [OF assms(3)] assms(5)] by simp
  ultimately show ?thesis by (auto simp: lease_started [OF assms(3)])
qed

section \<open>Witnesses\<close>

text \<open>The first reconciliation of an owner has cleared its leases, another owner tracks the same service account, and the service account changes.\<close>

theorem tracking_window_witness:
  "\<exists>items t'. Lookup (\<lambda>s. sorted_list_of_fset (fmdom s)) 2
       (tracker_calls (\<lambda>s. sorted_list_of_fset (fmdom s)) (NewDependencyTracker 10)
         [CallClear example_owner, CallTrack 1 example_ref \<lparr>nn_Namespace = ''dev'', nn_Name = ''other''\<rparr>]) example_ref = (items, t') \<and>
     example_owner \<notin> set items"
proof -
  let ?ord = "\<lambda>s :: lease_set. sorted_list_of_fset (fmdom s)"
  let ?other = "[CallTrack 1 example_ref \<lparr>nn_Namespace = ''dev'', nn_Name = ''other''\<rparr>]"
  obtain items t' where l: "Lookup ?ord 2 (tracker_calls ?ord (NewDependencyTracker 10) ([] @ [CallClear example_owner] @ ?other)) example_ref = (items, t')"
    by fastforce
  have calls: "track_calls 1 example_owner [] ''default'' ''dev'' = [CallClear example_owner] @ tl (track_calls 1 example_owner [] ''default'' ''dev'')"
    by (simp add: track_calls_def)
  have mixed: "[CallClear example_owner] @ ?other \<in> shuffles [CallClear example_owner] ?other" by (simp add: Cons_in_shuffles_iff)
  have "\<forall>c\<in>set ?other. \<not> concerns example_owner c" by (simp add: example_owner_def)
  moreover have "calls_before 2 ([] @ [CallClear example_owner] @ ?other)" by (simp add: calls_before_def)
  ultimately have "example_owner \<notin> set items"
    using tracking_window [OF sorted_keys.ord_set sorted_keys.ord_distinct calls mixed _ _ l] by simp
  with l show ?thesis by auto
qed

end
