(* ===== verification/Client_Config.thy ===== *)
theory Client_Config
  imports Json_Path
begin

text \<open>
  Clients and their credentials: \<^verbatim>\<open>pkg/realizer/client/client.go\<close>, \<^verbatim>\<open>pkg/utils/kubeconfigrestricted.go\<close>,
  \<^verbatim>\<open>pkg/utils/service_account.go\<close>, and the small helpers \<^verbatim>\<open>pkg/utils/scheme.go\<close> and \<^verbatim>\<open>pkg/logger/logger.go\<close>.

  The structs \<^verbatim>\<open>rest.Config\<close> and \<^verbatim>\<open>clientcmd.Config\<close> of client-go have the fields that the code reads or writes; all other fields of one of
  them are one value, a \<open>..._Other\<close>, which is \<^const>\<open>JNull\<close> when they are unset.  Building a client, the YAML codec, base64 and the
  API server are parameters.
\<close>

section \<open>Clients for an owner\<close>

record rest_Config =
  rcf_BearerToken :: string
  rcf_BearerTokenFile :: string
  rcf_Other :: json

text \<open>The copy of the configuration with which an owner's objects are submitted.\<close>

definition with_token :: "rest_Config \<Rightarrow> string \<Rightarrow> rest_Config" where
  "with_token restConfig authToken = restConfig\<lparr>rcf_BearerToken := authToken, rcf_BearerTokenFile := ''''\<rparr>"

definition NewClientBuilder ::
  "(rest_Config \<Rightarrow> gerror + 'c) \<Rightarrow> (rest_Config \<Rightarrow> gerror + 'd) \<Rightarrow> rest_Config \<Rightarrow> string \<Rightarrow> bool \<Rightarrow>
   'c option \<times> 'd option \<times> gerror option" where
  "NewClientBuilder newClient newDiscovery restConfig authToken needDiscovery =
     (let newConfig = with_token restConfig authToken
      in case newClient newConfig of
           Inl err \<Rightarrow> (None, None, Some (WrapError ''creating client: '' err))
         | Inr cl \<Rightarrow>
             (if needDiscovery then
                (case newDiscovery newConfig of
                   Inl err \<Rightarrow> (Some cl, None, Some (WrapError ''failed to create discovery client: '' err))
                 | Inr discoveryClient \<Rightarrow> (Some cl, Some discoveryClient, None))
              else (Some cl, None, None)))"

record Secret =
  sec_Type :: string
  sec_Data :: "(string, string) fmap"

definition AddBearerToken :: "Secret \<Rightarrow> rest_Config \<Rightarrow> gerror + rest_Config" where
  "AddBearerToken secret restConfig =
     (case fmlookup (sec_Data secret) ''token'' of
        None \<Rightarrow> Inl (ErrorString (''couldn'' @ [CHR 0x27] @ ''t find service account token value''))
      | Some tokenBytes \<Rightarrow> Inr (with_token restConfig tokenBytes))"

section \<open>Restricted kubeconfigs\<close>

record kube_Cluster =
  kc_Server :: string
  kc_TLSServerName :: string
  kc_InsecureSkipTLSVerify :: bool
  kc_CertificateAuthority :: string
  kc_CertificateAuthorityData :: string
  kc_ProxyURL :: string
  kc_Other :: json

record kube_AuthInfo =
  ka_ClientCertificate :: string
  ka_ClientCertificateData :: string
  ka_ClientKey :: string
  ka_ClientKeyData :: string
  ka_Token :: string
  ka_TokenFile :: string
  ka_Impersonate :: string
  ka_ImpersonateGroups :: "string list"
  ka_ImpersonateUserExtra :: json
  ka_Username :: string
  ka_Password :: string
  ka_AuthProvider :: json
  ka_Exec :: json
  ka_Other :: json

record kube_Context =
  kx_Cluster :: string
  kx_AuthInfo :: string
  kx_Namespace :: string
  kx_Other :: json

record kube_Config =
  kf_Kind :: string
  kf_APIVersion :: string
  kf_Clusters :: "(string \<times> kube_Cluster) list"
  kf_AuthInfos :: "(string \<times> kube_AuthInfo) list"
  kf_Contexts :: "(string \<times> kube_Context) list"
  kf_CurrentContext :: string
  kf_Other :: json

definition restrict_cluster :: "kube_Cluster \<Rightarrow> kube_Cluster" where
  "restrict_cluster c =
     \<lparr>kc_Server = kc_Server c, kc_TLSServerName = kc_TLSServerName c, kc_InsecureSkipTLSVerify = kc_InsecureSkipTLSVerify c,
      kc_CertificateAuthority = '''', kc_CertificateAuthorityData = kc_CertificateAuthorityData c, kc_ProxyURL = kc_ProxyURL c, kc_Other = JNull\<rparr>"

definition restrict_auth :: "kube_AuthInfo \<Rightarrow> kube_AuthInfo" where
  "restrict_auth a =
     \<lparr>ka_ClientCertificate = '''', ka_ClientCertificateData = ka_ClientCertificateData a, ka_ClientKey = '''', ka_ClientKeyData = ka_ClientKeyData a,
      ka_Token = ka_Token a, ka_TokenFile = '''', ka_Impersonate = ka_Impersonate a, ka_ImpersonateGroups = ka_ImpersonateGroups a,
      ka_ImpersonateUserExtra = ka_ImpersonateUserExtra a, ka_Username = ka_Username a, ka_Password = ka_Password a,
      ka_AuthProvider = ka_AuthProvider a, ka_Exec = JNull, ka_Other = JNull\<rparr>"

definition restrict_context :: "kube_Context \<Rightarrow> kube_Context" where
  "restrict_context x = \<lparr>kx_Cluster = kx_Cluster x, kx_AuthInfo = kx_AuthInfo x, kx_Namespace = kx_Namespace x, kx_Other = JNull\<rparr>"

definition restrict_config :: "kube_Config \<Rightarrow> kube_Config" where
  "restrict_config c =
     \<lparr>kf_Kind = kf_Kind c, kf_APIVersion = kf_APIVersion c, kf_Clusters = map (apsnd restrict_cluster) (kf_Clusters c),
      kf_AuthInfos = map (apsnd restrict_auth) (kf_AuthInfos c), kf_Contexts = map (apsnd restrict_context) (kf_Contexts c),
      kf_CurrentContext = kf_CurrentContext c, kf_Other = JNull\<rparr>"

record kube_codec =
  ky_Unmarshal :: "string \<Rightarrow> gerror + kube_Config"
  ky_Marshal :: "kube_Config \<Rightarrow> gerror + string"

text \<open>The result is the text that \<^verbatim>\<open>AsYAML\<close> returns.\<close>

definition NewKubeconfigRestricted :: "kube_codec \<Rightarrow> string \<Rightarrow> gerror + string" where
  "NewKubeconfigRestricted ky input =
     (case ky_Unmarshal ky input of
        Inl err \<Rightarrow> Inl (ErrorString (''parsing kubeconfig: '' @ Error err))
      | Inr inputConfig \<Rightarrow>
          (if length (kf_Clusters inputConfig) = 0 then Inl (ErrorString ''expected to find at least one cluster in kubeconfig'')
           else case ky_Marshal ky (restrict_config inputConfig) of
                  Inl err \<Rightarrow> Inl (ErrorString (''marshaling kubeconfig: '' @ Error err))
                | Inr bs \<Rightarrow> Inr bs))"

section \<open>Service accounts\<close>

text \<open>Access to the API server, as the client of \<^verbatim>\<open>ServiceAccounts\<close> gives it: the names of the secrets of a service account, and a secret.\<close>

record core_client =
  cc_ServiceAccount :: "string \<Rightarrow> string \<Rightarrow> gerror + string list"
  cc_Secret :: "string \<Rightarrow> string \<Rightarrow> gerror + Secret"
  cc_base64 :: "string \<Rightarrow> string"

definition quoted_line :: "string \<Rightarrow> string \<Rightarrow> string" where
  "quoted_line label value = label @ [CHR 0x22] @ value @ [CHR 0x22, CHR 0x0A]"

definition lines :: "string list \<Rightarrow> string" where
  "lines ls = concat (map (\<lambda>l. l @ [CHR 0x0A]) ls)"

definition kubeconfigYAMLTpl :: "string \<Rightarrow> string \<Rightarrow> string \<Rightarrow> string" where
  "kubeconfigYAMLTpl ca token namespace =
     lines ['''', ''apiVersion: v1'', ''kind: Config'', ''clusters:'', ''- name: dst-cluster'', ''  cluster:''] @
     quoted_line ''    certificate-authority-data: '' ca @
     lines [''    server: https://${KAPP_KUBERNETES_SERVICE_HOST_PORT}'', ''users:'', ''- name: dst-user'', ''  user:''] @
     quoted_line ''    token: '' token @
     lines [''contexts:'', ''- name: dst-ctx'', ''  context:'', ''    cluster: dst-cluster''] @
     quoted_line ''    namespace: '' namespace @
     lines [''    user: dst-user'', ''current-context: dst-ctx'']"

definition MakeKubeConfig :: "core_client \<Rightarrow> Secret \<Rightarrow> gerror + string" where
  "MakeKubeConfig s secret =
     (case fmlookup (sec_Data secret) ''ca.crt'' of
        None \<Rightarrow> Inl (ErrorString ''expected to find service account token ca'')
      | Some caBytes \<Rightarrow>
          (case fmlookup (sec_Data secret) ''token'' of
             None \<Rightarrow> Inl (ErrorString ''expected to find service account token value'')
           | Some tokenBytes \<Rightarrow>
               (case fmlookup (sec_Data secret) ''namespace'' of
                  None \<Rightarrow> Inl (ErrorString ''expected to find service account token namespace'')
                | Some nsBytes \<Rightarrow> Inr (kubeconfigYAMLTpl (cc_base64 s caBytes) tokenBytes nsBytes))))"

definition SecretTypeServiceAccountToken :: string where
  "SecretTypeServiceAccountToken = ''kubernetes.io/service-account-token''"

fun find_token_secret :: "core_client \<Rightarrow> string \<Rightarrow> string list \<Rightarrow> gerror + string" where
  "find_token_secret s nsName [] = Inl (ErrorString ''expected to find one service account token secret, but found none'')"
| "find_token_secret s nsName (name # names) =
     (case cc_Secret s nsName name of
        Inl err \<Rightarrow> Inl (ErrorString (''getting service account secret: '' @ Error err))
      | Inr secret \<Rightarrow> if sec_Type secret \<noteq> SecretTypeServiceAccountToken then find_token_secret s nsName names else MakeKubeConfig s secret)"

definition fetchServiceAccount :: "core_client \<Rightarrow> string \<Rightarrow> string \<Rightarrow> gerror + string" where
  "fetchServiceAccount s nsName saName =
     (if length nsName = 0 then Inl (ErrorString ''internal inconsistency: Expected namespace name to not be empty'')
      else if length saName = 0 then Inl (ErrorString ''internal inconsistency: Expected service account name to not be empty'')
      else case cc_ServiceAccount s nsName saName of
             Inl err \<Rightarrow> Inl (ErrorString (''getting service account: '' @ Error err))
           | Inr secrets \<Rightarrow> find_token_secret s nsName secrets)"

definition Find :: "core_client \<Rightarrow> kube_codec \<Rightarrow> string \<Rightarrow> string \<Rightarrow> gerror + string" where
  "Find s ky nsName saName =
     (case fetchServiceAccount s nsName saName of Inl err \<Rightarrow> Inl err | Inr kubeconfigYAML \<Rightarrow> NewKubeconfigRestricted ky kubeconfigYAML)"

section \<open>Scheme and log level\<close>

text \<open>The two registrations are library calls that may fail.\<close>

definition AddToScheme :: "gerror option \<Rightarrow> gerror option \<Rightarrow> gerror option" where
  "AddToScheme clientgo cartographer =
     (case clientgo of
        Some err \<Rightarrow> Some (WrapError ''client go add to scheme: '' err)
      | None \<Rightarrow> (case cartographer of Some err \<Rightarrow> Some (WrapError ''cartographer v1alpha1 add to scheme: '' err) | None \<Rightarrow> None))"

datatype Level = DebugLevel | InfoLevel | ErrorLevel

text \<open>\<^verbatim>\<open>strings.ToUpper\<close> on ASCII text.\<close>

definition to_upper :: "char \<Rightarrow> char" where
  "to_upper c = (let n = (of_char c :: nat) in if 97 \<le> n \<and> n \<le> 122 then char_of (n - 32) else c)"

definition ToUpper :: "string \<Rightarrow> string" where
  "ToUpper s = map to_upper s"

definition SetLogLevel :: "string \<Rightarrow> gerror + Level" where
  "SetLogLevel logLevel =
     (let l = ToUpper logLevel
      in if l = ''DEBUG'' then Inr DebugLevel
         else if l = ''INFO'' then Inr InfoLevel
         else if l = ''ERROR'' then Inr ErrorLevel
         else Inl (ErrorString ''if present, log-level must be one of {error, info, debug}''))"

section \<open>Properties\<close>

text \<open>
  A client for an owner acts for the owner only: the controller's own token and token file have no influence on it, and every client
  that is built was given the owner's token as its only token.
\<close>

theorem owner_client_token:
  assumes "rcf_Other restConfig = rcf_Other otherConfig"
  shows "NewClientBuilder newClient newDiscovery restConfig authToken needDiscovery =
      NewClientBuilder newClient newDiscovery otherConfig authToken needDiscovery \<and>
    (\<forall>cl d err. NewClientBuilder newClient newDiscovery restConfig authToken needDiscovery = (Some cl, d, err) \<longrightarrow>
      (\<exists>config. newClient config = Inr cl \<and> rcf_BearerToken config = authToken \<and> rcf_BearerTokenFile config = '''' \<and>
        (\<forall>dc. d = Some dc \<longrightarrow> newDiscovery config = Inr dc)))"
proof -
  have "with_token restConfig authToken = with_token otherConfig authToken" using assms by (simp add: with_token_def)
  moreover have "rcf_BearerToken (with_token restConfig authToken) = authToken" "rcf_BearerTokenFile (with_token restConfig authToken) = ''''"
    by (simp_all add: with_token_def)
  ultimately show ?thesis by (auto simp: NewClientBuilder_def Let_def split: sum.splits if_splits)
qed

lemma restrict_idempotent [simp]:
  "restrict_cluster (restrict_cluster c) = restrict_cluster c" "restrict_auth (restrict_auth a) = restrict_auth a"
  "restrict_context (restrict_context x) = restrict_context x"
  by (simp_all add: restrict_cluster_def restrict_auth_def restrict_context_def)

lemma restrict_config_idempotent [simp]: "restrict_config (restrict_config c) = restrict_config c"
  by (simp add: restrict_config_def o_def apsnd_def map_prod_def case_prod_beta)

definition no_files :: "kube_Config \<Rightarrow> bool" where
  "no_files c \<longleftrightarrow>
     (\<forall>(n, k) \<in> set (kf_Clusters c). kc_CertificateAuthority k = '''') \<and>
     (\<forall>(n, a) \<in> set (kf_AuthInfos c). ka_ClientCertificate a = '''' \<and> ka_ClientKey a = '''' \<and> ka_TokenFile a = '''' \<and> ka_Exec a = JNull)"

lemma restricted_no_files: "no_files (restrict_config c)"
  by (auto simp: no_files_def restrict_config_def restrict_cluster_def restrict_auth_def)

text \<open>
  A restricted kubeconfig refers to no file and runs no program on the machine that reads it, keeps the clusters by name and their
  servers, and restricting it again changes nothing.
\<close>

theorem kubeconfig_restricted:
  assumes "\<And>c yaml. ky_Marshal ky c = Inr yaml \<Longrightarrow> ky_Unmarshal ky yaml = Inr c"
    and "NewKubeconfigRestricted ky input = Inr yaml"
  shows "\<exists>inputConfig config. ky_Unmarshal ky input = Inr inputConfig \<and> ky_Unmarshal ky yaml = Inr config \<and> no_files config \<and>
    map (apsnd kc_Server) (kf_Clusters config) = map (apsnd kc_Server) (kf_Clusters inputConfig) \<and>
    map (apsnd ka_Token) (kf_AuthInfos config) = map (apsnd ka_Token) (kf_AuthInfos inputConfig) \<and>
    NewKubeconfigRestricted ky yaml = Inr yaml"
proof -
  obtain inputConfig where input: "ky_Unmarshal ky input = Inr inputConfig" and "kf_Clusters inputConfig \<noteq> []"
    and yaml: "ky_Marshal ky (restrict_config inputConfig) = Inr yaml"
    using assms(2) by (auto simp: NewKubeconfigRestricted_def split: sum.splits if_splits)
  have config: "ky_Unmarshal ky yaml = Inr (restrict_config inputConfig)" using assms(1) yaml .
  have "kf_Clusters (restrict_config inputConfig) \<noteq> []" using \<open>kf_Clusters inputConfig \<noteq> []\<close> by (simp add: restrict_config_def)
  then have "NewKubeconfigRestricted ky yaml = Inr yaml" using config yaml by (simp add: NewKubeconfigRestricted_def)
  moreover have "map (apsnd kc_Server) (kf_Clusters (restrict_config inputConfig)) = map (apsnd kc_Server) (kf_Clusters inputConfig)"
      "map (apsnd ka_Token) (kf_AuthInfos (restrict_config inputConfig)) = map (apsnd ka_Token) (kf_AuthInfos inputConfig)"
    by (auto simp: restrict_config_def restrict_cluster_def restrict_auth_def)
  ultimately show ?thesis using input config restricted_no_files by blast
qed

theorem owner_client_token_witness:
  "NewClientBuilder (\<lambda>c. Inr (rcf_BearerToken c)) (\<lambda>c. Inr ()) \<lparr>rcf_BearerToken = ''root'', rcf_BearerTokenFile = ''/token'', rcf_Other = JNull\<rparr> ''owner'' False =
     NewClientBuilder (\<lambda>c. Inr (rcf_BearerToken c)) (\<lambda>c. Inr ()) \<lparr>rcf_BearerToken = '''', rcf_BearerTokenFile = '''', rcf_Other = JNull\<rparr> ''owner'' False"
  by (rule conjunct1 [OF owner_client_token]) simp

end
