(* ===== verification/Workload_Reconciler.thy ===== *)
theory Workload_Reconciler
  imports Owner_Reconcilers
begin

text \<open>
  \<^verbatim>\<open>pkg/controllers/workload_reconciler.go\<close>: from a workload to its supply chain, the service account, the realized resources and the
  status.  \<open>workload_env\<close> adds to the environment what depends on the kind: the workload as an owner and as JSON, and the kind in the
  \<^verbatim>\<open>TypeMeta\<close> of a listed supply chain.  A reconciliation returns the error for the work queue and the new state.
\<close>

section \<open>The supply chain of a workload\<close>

record 'w workload_env = "'w owner_env" +
  we_kind :: "ClusterSupplyChain \<Rightarrow> string"
  we_json :: "Workload \<Rightarrow> json"
  we_owner :: "Workload \<Rightarrow> Owner"

definition workload_name :: "Workload \<Rightarrow> NamespacedName" where
  "workload_name workload = \<lparr>nn_Namespace = wl_Namespace workload, nn_Name = wl_Name workload\<rparr>"

definition GetSupplyChainNames :: "ClusterSupplyChain list \<Rightarrow> string list" where
  "GetSupplyChainNames objs = map sc_Name objs"

definition getSupplyChainReadyCondition :: "ClusterSupplyChain \<Rightarrow> condition" where
  "getSupplyChainReadyCondition supplyChain =
     (case find (\<lambda>c. cond_Type c = ''Ready'') (sc_Conditions supplyChain) of None \<Rightarrow> empty_condition | Some c \<Rightarrow> c)"

definition isSupplyChainReady :: "ClusterSupplyChain \<Rightarrow> bool" where
  "isSupplyChainReady supplyChain \<longleftrightarrow> cond_Status (getSupplyChainReadyCondition supplyChain) = ''True''"

definition getServiceAccountNameAndNamespaceForWorkload :: "Workload \<Rightarrow> ClusterSupplyChain \<Rightarrow> string \<times> string" where
  "getServiceAccountNameAndNamespaceForWorkload workload supplyChain =
     (let ref = scs_ServiceAccountRef (sc_Spec supplyChain)
      in if wls_ServiceAccountName (wl_Spec workload) \<noteq> '''' then (wls_ServiceAccountName (wl_Spec workload), wl_Namespace workload)
         else if sar_Name ref \<noteq> '''' then (sar_Name ref, if sar_Namespace ref \<noteq> '''' then sar_Namespace ref else wl_Namespace workload)
         else (''default'', wl_Namespace workload))"

definition BuildWorkloadResourceLabeler :: "Workload \<Rightarrow> ClusterSupplyChain \<Rightarrow> OwnerResource \<Rightarrow> Reader \<Rightarrow> labels" where
  "BuildWorkloadResourceLabeler owner blueprint resource reader =
     fmap_of_list
       [(''carto.run/workload-name'', wl_Name owner),
        (''carto.run/workload-namespace'', wl_Namespace owner),
        (''carto.run/supply-chain-name'', sc_Name blueprint),
        (''carto.run/resource-name'', owr_Name resource),
        (''carto.run/template-kind'', tref_Kind (owr_TemplateRef resource)),
        (''carto.run/cluster-template-name'', tref_Name (owr_TemplateRef resource)),
        (''carto.run/template-lifecycle'', lifecycle_string (GetLifecycle reader))]"

definition getSupplyChainsForWorkload ::
  "'w workload_env \<Rightarrow> 'w repository \<Rightarrow> Workload \<Rightarrow> conditionManager \<Rightarrow> ((gerror + ClusterSupplyChain) \<times> conditionManager) go" where
  "getSupplyChainsForWorkload env r workload m =
     (let now = oc_now env; name = wl_Namespace workload @ ''/'' @ wl_Name workload
      in if fmap_len (wl_Labels workload) = 0 then
           Ret (Inl (ErrorString (''workload ['' @ name @ ''] is missing required labels'')), AddPositive now m WorkloadMissingLabelsCondition)
         else
           go_handle (GetSupplyChainsForWorkload (oc_lsel env) (oc_jp env) (we_kind env) (we_json env) (oc_client env) r workload)
             (\<lambda>err. Ret (Inl (NewUnhandledError (WrapError (''failed to get supply chains for workload ['' @ name @ '']: '') err)), m))
             (\<lambda>supplyChains.
                case supplyChains of
                  [] \<Rightarrow>
                    Ret (Inl (ErrorString (''no supply chain ['' @ name @ ''] found where full selector is satisfied by labels: ''
                           @ show_string_map (wl_Labels workload))),
                         AddPositive now m (SupplyChainNotFoundCondition (wl_Labels workload)))
                | [supplyChain] \<Rightarrow> Ret (Inr supplyChain, m)
                | _ \<Rightarrow>
                    Ret (Inl (ErrorString (''more than one supply chain selected for workload ['' @ name @ '']: ''
                           @ show_strings (GetSupplyChainNames supplyChains))),
                         AddPositive now m TooManySupplyChainMatchesCondition)))"

section \<open>Completing\<close>

definition set_workload_status ::
  "Workload \<Rightarrow> condition list \<Rightarrow> resourceStatuses option \<Rightarrow> Workload" where
  "set_workload_status workload conditions resourceStatuses =
     workload\<lparr>wl_Status := (wl_Status workload)
       \<lparr>wst_OwnerStatus := \<lparr>os_ObservedGeneration = wl_Generation workload, os_Conditions = conditions\<rparr>,
        wst_Resources := (case resourceStatuses of None \<Rightarrow> wst_Resources (wl_Status workload) | Some s \<Rightarrow> GetCurrent s)\<rparr>\<rparr>"

definition workload_completeReconciliation ::
  "'w workload_env \<Rightarrow> Workload \<Rightarrow> resourceStatuses option \<Rightarrow> conditionManager \<Rightarrow> gerror option \<Rightarrow> 'w owner_state \<Rightarrow>
   gerror option \<times> 'w owner_state" where
  "workload_completeReconciliation env workload resourceStatuses conditionManager err st =
     (let (conditions, changed, m) = Finalize (oc_now env) conditionManager
      in if changed \<or> os_ObservedGeneration (wst_OwnerStatus (wl_Status workload)) \<noteq> wl_Generation workload \<or>
            (case resourceStatuses of None \<Rightarrow> False | Some s \<Rightarrow> IsChanged s) then
           (case StatusUpdate (oc_client env) (cs_repo st) (ObjWorkload (set_workload_status workload conditions resourceStatuses)) of
              (Some updateErr, r) \<Rightarrow> (Some (WrapError ''failed to update status for workload: '' updateErr), st\<lparr>cs_repo := r\<rparr>)
            | (None, r) \<Rightarrow> (returned_error err, st\<lparr>cs_repo := r\<rparr>))
         else (returned_error err, st))"

section \<open>Reconciling\<close>

text \<open>From the realizer on: realize, set the conditions, track, clean up, watch, complete.\<close>

definition workload_realize ::
  "'w workload_env \<Rightarrow> Workload \<Rightarrow> ClusterSupplyChain \<Rightarrow> string \<Rightarrow> string \<Rightarrow> 'w resource_do \<Rightarrow> conditionManager \<Rightarrow> 'w owner_state \<Rightarrow>
   (gerror option \<times> 'w owner_state) go" where
  "workload_realize env workload supplyChain serviceAccountName serviceAccountNS resourceRealizer m st =
     (let now = oc_now env; previous = wst_Resources (wl_Status workload)
      in go_bind (Realize resourceRealizer (oc_realizer env) (oc_outputs env) (oc_clock env) (sc_Name supplyChain)
             (MakeSupplychainOwnerResources supplyChain) (NewResourceStatuses previous AddConditionForResourceSubmittedWorkload) (cs_repo st))
           (\<lambda>(err, resourceStatuses, r).
              let current = GetCurrent resourceStatuses;
                  m1 = (case err of
                          Some e \<Rightarrow> AddConditionForResourceSubmittedWorkload now m True e
                        | None \<Rightarrow> AddPositive now m (ResourcesSubmittedCondition True));
                  reconcileErr = map_option (WrapUnhandledError (oc_isForbidden env)) err;
                  m2 = AddPositive now m1 (OwnerHealthCondition now current (os_Conditions (wst_OwnerStatus (wl_Status workload))));
                  t = trackDependencies now (cs_tracker st) (workload_name workload) current serviceAccountName serviceAccountNS
              in go_bind (cleanupOrphanedObjects (oc_refs env) (oc_client env) r previous current)
                   (\<lambda>(cleanupErr, r').
                      let (reconcileErr', watched) = watch_objects (owner_env.truncate env) (os_watched st) reconcileErr current
                      in Ret (workload_completeReconciliation env workload (Some resourceStatuses) m2 reconcileErr'
                           (st\<lparr>cs_repo := r', cs_tracker := t, os_watched := watched\<rparr>)))))"

definition reconcile_workload ::
  "'w workload_env \<Rightarrow> Workload \<Rightarrow> NamespacedName \<Rightarrow> 'w owner_state \<Rightarrow> (gerror option \<times> 'w owner_state) go" where
  "reconcile_workload env workload0 req st =
     (let now = oc_now env; m0 = NewConditionManager OwnerReady (os_Conditions (wst_OwnerStatus (wl_Status workload0)))
      in go_bind (getSupplyChainsForWorkload env (cs_repo st) workload0 m0) (\<lambda>(res, m1).
         case res of
           Inl err \<Rightarrow> Ret (workload_completeReconciliation env workload0 None m1 (Some err) st)
         | Inr supplyChain \<Rightarrow>
             (case GetObjectGVK (owner_env.truncate env) of
                Inl err \<Rightarrow>
                  Ret (workload_completeReconciliation env workload0 None m1
                    (Some (NewUnhandledError (WrapError (''failed to get object gvk for supply chain ['' @ sc_Name supplyChain @ '']: '') err))) st)
              | Inr supplyChainGVK \<Rightarrow>
                  (let workload = workload0\<lparr>wl_Status := (wl_Status workload0)\<lparr>wst_SupplyChainRef :=
                         (wst_SupplyChainRef (wl_Status workload0))\<lparr>or_Kind := gvk_Kind supplyChainGVK, or_Name := sc_Name supplyChain\<rparr>\<rparr>\<rparr>
                   in if \<not> isSupplyChainReady supplyChain then
                        Ret (workload_completeReconciliation env workload None
                          (AddPositive now m1 (MissingReadyInSupplyChainCondition (getSupplyChainReadyCondition supplyChain)))
                          (Some (ErrorString (''supply chain ['' @ sc_Name supplyChain @ ''] is not in ready state''))) st)
                      else
                        (let m2 = AddPositive now m1 SupplyChainReadyCondition;
                             (serviceAccountName, serviceAccountNS) = getServiceAccountNameAndNamespaceForWorkload workload supplyChain
                         in go_handle (GetServiceAccount (oc_client env) (cs_repo st) serviceAccountName serviceAccountNS)
                              (\<lambda>err. Ret (workload_completeReconciliation env workload None (AddPositive now m2 (ServiceAccountNotFoundCondition err))
                                 (Some (WrapError (''failed to get service account ['' @ nn_Namespace req @ ''/'' @ serviceAccountName @ '']: '') err)) st))
                              (\<lambda>serviceAccount.
                                 case service_account_token (oc_createToken env) now (oc_rnd env) (oc_later env) st serviceAccount of
                                   (Inl err, st1) \<Rightarrow>
                                     Ret (workload_completeReconciliation env workload None (AddPositive now m2 (ServiceAccountTokenErrorCondition err))
                                       (Some (WrapError (''failed to get token for service account ['' @ serviceAccountNS @ ''/''
                                          @ serviceAccountName @ '']: '') err)) st1)
                                 | (Inr saToken, st1) \<Rightarrow>
                                     (case oc_builder env saToken
                                        \<lparr>rz_owner = we_owner env workload,
                                         rz_templatingContext = NewContextGenerator (we_json env workload) (wls_Params (wl_Spec workload))
                                           (scs_Params (sc_Spec supplyChain)),
                                         rz_resourceLabeler = BuildWorkloadResourceLabeler workload supplyChain\<rparr> of
                                        Inl err \<Rightarrow>
                                          Ret (workload_completeReconciliation env workload None
                                            (AddPositive now m2 (ResourceRealizerBuilderErrorCondition err))
                                            (Some (NewUnhandledError (WrapError ''failed to build resource realizer: '' err))) st1)
                                      | Inr resourceRealizer \<Rightarrow>
                                          workload_realize env workload supplyChain serviceAccountName serviceAccountNS resourceRealizer m2 st1)))))))"

definition workload_Reconcile ::
  "'w workload_env \<Rightarrow> 'w owner_state \<Rightarrow> NamespacedName \<Rightarrow> (gerror option \<times> 'w owner_state) go" where
  "workload_Reconcile env st req =
     go_handle (GetWorkload (oc_client env) (cs_repo st) (nn_Name req) (nn_Namespace req))
       (\<lambda>err. Ret (Some (WrapError (''failed to get workload ['' @ show_NamespacedName req @ '']: '') err), st))
       (\<lambda>res.
          case res of
            None \<Rightarrow> Ret (None, st\<lparr>cs_tracker := ClearTracked (cs_tracker st) req\<rparr>)
          | Some workload \<Rightarrow> reconcile_workload env workload req st)"

section \<open>The conditions of a realized workload\<close>

lemma SupplyChainReady_status [simp]: "cond_Status SupplyChainReadyCondition = ConditionTrue"
  by (simp add: SupplyChainReadyCondition_def mk_condition_def)

section \<open>Properties\<close>

text \<open>
  C14: what a reconciliation writes into the status of a workload whose supply chain is ready.  The conditions end with Ready, which is True
  exactly when every resource was realized without an error and the aggregated health is neither False nor Unknown; the
  status is written with the current resource statuses and the generation, unless the generation is observed and
  neither the conditions nor the resource statuses have anything new.
\<close>

theorem workload_status_written:
  assumes "workload_realize env workload supplyChain saName saNS Do (AddPositive (oc_now env) (NewConditionManager OwnerReady prev) SupplyChainReadyCondition) st =
      Ret (err, st')"
    and "prev = os_Conditions (wst_OwnerStatus (wl_Status workload))" "distinct (map cond_Type prev)"
  shows "\<exists>realizeErr statuses r conditions.
    Realize Do (oc_realizer env) (oc_outputs env) (oc_clock env) (sc_Name supplyChain) (MakeSupplychainOwnerResources supplyChain)
      (NewResourceStatuses (wst_Resources (wl_Status workload)) AddConditionForResourceSubmittedWorkload) (cs_repo st) = Ret (realizeErr, statuses, r) \<and>
    cond_Type (last conditions) = ''Ready'' \<and>
    (cond_Status (last conditions) = ConditionTrue \<longleftrightarrow>
       realizeErr = None \<and> cond_Status (OwnerHealthCondition (oc_now env) (GetCurrent statuses) prev) \<notin> {ConditionFalse, ConditionUnknown}) \<and>
    ((\<exists>r'. cs_repo st' = snd (StatusUpdate (oc_client env) r' (ObjWorkload (set_workload_status workload conditions (Some statuses))))) \<or>
     set conditions \<subseteq> set prev \<and> \<not> IsChanged statuses \<and>
       os_ObservedGeneration (wst_OwnerStatus (wl_Status workload)) = wl_Generation workload)"
proof -
  obtain rerr sts r where real: "Realize Do (oc_realizer env) (oc_outputs env) (oc_clock env) (sc_Name supplyChain)
      (MakeSupplychainOwnerResources supplyChain)
      (NewResourceStatuses (wst_Resources (wl_Status workload)) AddConditionForResourceSubmittedWorkload) (cs_repo st) = Ret (rerr, sts, r)"
    using assms(1) by (auto simp: workload_realize_def go_bind_Ret_iff Let_def)
  obtain c where c: "\<And>now m. (case rerr of Some e \<Rightarrow> AddConditionForResourceSubmittedWorkload now m True e
        | None \<Rightarrow> AddPositive now m (ResourcesSubmittedCondition True)) = AddPositive now m c"
      "cond_Status c = ConditionTrue \<longleftrightarrow> rerr = None" "cond_Status c \<in> {ConditionTrue, ConditionFalse, ConditionUnknown}"
    using workload_errors.submission_added [of rerr] by metis
  let ?h = "OwnerHealthCondition (oc_now env) (GetCurrent sts) prev"
  let ?m = "AddPositive (oc_now env) (AddPositive (oc_now env) (AddPositive (oc_now env) (NewConditionManager OwnerReady prev) SupplyChainReadyCondition) c) ?h"
  obtain e2 st2 where comp: "workload_completeReconciliation env workload (Some sts) ?m e2 st2 = (err, st')"
    using assms(1) by (auto simp: workload_realize_def go_bind_Ret_iff Let_def real c(1) assms(2) case_prod_beta)
  obtain conditions changed m' where f: "Finalize (oc_now env) ?m = (conditions, changed, m')" by (cases "Finalize (oc_now env) ?m") auto
  note conds = owner_conditions [OF f SupplyChainReady_status c(2,3)]
  have "(\<exists>r'. cs_repo st' = snd (StatusUpdate (oc_client env) r' (ObjWorkload (set_workload_status workload conditions (Some sts))))) \<or>
     \<not> changed \<and> \<not> IsChanged sts \<and> os_ObservedGeneration (wst_OwnerStatus (wl_Status workload)) = wl_Generation workload"
    using comp f by (auto simp: workload_completeReconciliation_def split: prod.splits option.splits if_splits) (metis snd_conv)+
  then show ?thesis using real conds assms(3) by blast
qed

text \<open>
  A workload that no longer exists is forgotten: no later change of anything enqueues it, at any time, until it is tracked again.
\<close>

theorem deleted_workload_forgotten:
  assumes "\<And>s. set (ord s) = fmdom' s" "\<And>s. distinct (ord s)"
    and "GetWorkload (oc_client env) (cs_repo st) (nn_Name req) (nn_Namespace req) = Ret None"
  shows "\<exists>st'. workload_Reconcile env st req = Ret (None, st') \<and> cs_repo st' = cs_repo st \<and>
    (\<forall>later k. req \<notin> set (fst (Lookup ord later (cs_tracker st') k)))"
proof -
  have ord: "map_order ord" using assms(1,2) by unfold_locales
  have "req \<notin> set (fst (Lookup ord later (ClearTracked (cs_tracker st) req) k))" for later k
    using map_order.lookup_split(2) [OF ord surjective_pairing] by (auto simp: Clear_laws(2))
  then show ?thesis using assms(3) by (simp add: workload_Reconcile_def)
qed

text \<open>
  C40: a reconciliation of a workload whose service account cannot be found ends without an error, so the workload is not queued again, and leaves the
  tracker as it is, because the dependencies are tracked only after the realizer ran.  The creation of the account enqueues the workload
  exactly when a lease on that account from an earlier reconciliation is still running.
\<close>

theorem missing_service_account_not_tracked:
  assumes "getSupplyChainsForWorkload env (cs_repo st) workload (NewConditionManager OwnerReady (os_Conditions (wst_OwnerStatus (wl_Status workload)))) =
      Ret (Inr supplyChain, m1)"
    and "GetObjectGVK (owner_env.truncate env) = Inr gvk" "isSupplyChainReady supplyChain"
    and "getServiceAccountNameAndNamespaceForWorkload workload supplyChain = (name, ns)"
    and "GetServiceAccount (oc_client env) (cs_repo st) name ns = Err e" "\<not> IsUnhandledError e"
    and "\<And>w obj. fst (cl_StatusUpdate (oc_client env) w obj) = None"
    and "\<And>s. set (ord s) = fmdom' s" "\<And>s. distinct (ord s)"
    and "mc_ObjectKinds cl = Inr ([sa_gvk], False)" "gvk_Group sa_gvk = ''''" "gvk_Kind sa_gvk = ''ServiceAccount''"
  shows "\<exists>st'. reconcile_workload env workload req st = Ret (None, st') \<and> cs_tracker st' = cs_tracker st \<and>
    (\<forall>later uid. workload_name workload \<in>
         set (fst (ServiceAccountToWorkloadRequests (cl, ord, later) (cs_tracker st') \<lparr>sa_Namespace = ns, sa_Name = name, sa_UID = uid\<rparr>)) \<longleftrightarrow>
       (\<exists>e. lease_of (cs_tracker st) (key_String (service_account_key name ns)) (workload_name workload) = Some e \<and> later \<le> e))"
proof -
  have "getServiceAccountNameAndNamespaceForWorkload (workload\<lparr>wl_Status := s\<rparr>) supplyChain = (name, ns)" for s
    using assms(4) by (simp add: getServiceAccountNameAndNamespaceForWorkload_def Let_def split: if_splits)
  moreover have "\<exists>st'. workload_completeReconciliation env w rs m (Some (WrapError t e)) st = (None, st') \<and> cs_tracker st' = cs_tracker st" for w rs m t
    using assms(6) assms(7) [of "rg_world (cs_repo st)"]
    by (auto simp: workload_completeReconciliation_def returned_error_def StatusUpdate_def case_prod_beta split: option.splits)
  ultimately have "\<exists>st'. reconcile_workload env workload req st = Ret (None, st') \<and> cs_tracker st' = cs_tracker st"
    using assms(1-3,5) by (simp add: reconcile_workload_def Let_def)
  then show ?thesis using service_account_requests [OF assms(8-12)] by auto
qed

section \<open>Witnesses\<close>

definition ready_chain :: ClusterSupplyChain where
  "ready_chain = example_chain\<lparr>sc_Spec := (sc_Spec example_chain)\<lparr>scs_Resources := [],
     scs_LegacySelector := \<lparr>leg_Selector = Some (fmap_of_list [(''a'', ''b'')]), leg_SelectorMatchExpressions = None, leg_SelectorMatchFields = None\<rparr>\<rparr>, sc_Conditions := [mk_condition ''Ready'' ''True'' '''' '''']\<rparr>"

definition example_workload :: Workload where
  "example_workload =
     \<lparr>wl_Namespace = ''dev'', wl_Name = ''app'', wl_Labels = fmap_of_list [(''a'', ''b'')], wl_Generation = 1,
      wl_Spec = \<lparr>wls_Params = [], wls_ServiceAccountName = ''''\<rparr>,
      wl_Status = \<lparr>wst_OwnerStatus = \<lparr>os_ObservedGeneration = 0, os_Conditions = []\<rparr>,
        wst_SupplyChainRef = \<lparr>or_Kind = '''', or_Namespace = '''', or_Name = '''', or_APIVersion = ''''\<rparr>, wst_Resources = []\<rparr>\<rparr>"

definition example_workload_env :: "unstructured list workload_env" where
  "example_workload_env =
     \<lparr>oc_client = empty_cluster_client\<lparr>cl_ListSupplyChains := \<lambda>w. Inr [ready_chain]\<rparr>,
      oc_createToken = \<lambda>w ns name tr. (Inr tr, w), oc_rnd = 0, oc_now = 1, oc_later = 2, oc_clock = int,
      oc_lsel = \<lambda>sel. Inr (\<lambda>ls. True),
      oc_jp = se_jp example_env, oc_isForbidden = \<lambda>e. False, oc_refs = example_refs,
      oc_builder = \<lambda>token rz. Inr (\<lambda>rsc bn outs mapper r. Ret (do_return None None None False '''' (Some (ErrorString ''no'')), r)),
      oc_realizer = \<lparr>rl_healthyConditionEvaluator = \<lambda>h rr u. Panic '''', rl_mapper = \<lambda>g. Inl (ErrorString '''')\<rparr>,
      oc_outputs = \<lparr>oe_Yaml = \<lambda>v. Inr '''', oe_Sha256 = \<lambda>b. '''', oe_ShortenString = \<lambda>b n. take n b\<rparr>,
      oc_watch = \<lambda>ws g. None, oc_GVKForObject = Inr \<lparr>gvk_Group = SchemeGroup, gvk_Version = SchemeVersion, gvk_Kind = ''ClusterSupplyChain''\<rparr>,
      we_kind = \<lambda>c. '''', we_json = \<lambda>w. JNull,
      we_owner = \<lambda>w. \<lparr>ow_APIVersion = '''', ow_Kind = '''', ow_UID = '''', ow_Name = '''', ow_Namespace = '''', ow_Labels = fmempty,
        ow_Object = JNull\<rparr>\<rparr>"

definition example_owner_state :: "unstructured list owner_state" where
  "example_owner_state =
     \<lparr>cs_repo = \<lparr>rg_world = [], rg_cache = NewCache, rg_events = []\<rparr>, cs_tracker = NewDependencyTracker 10, os_tokens = fmempty, os_watched = []\<rparr>"

lemma one_label: "fmap_len (fmap_of_list [(''a'', ''b'')]) = 1"
  by (simp add: fmap_len_def fcard_finsert_disjoint)

lemma example_match: "BestSelectorMatch (oc_lsel example_workload_env) jp (supply_chain_selecting kind) s [ready_chain] = Ret [ready_chain]"
proof -
  have "BestSelectorMatchIndices (oc_lsel example_workload_env) jp s (selectingObjectsSelectors (supply_chain_selecting kind) [ready_chain]) = Ret [0]"
    by (simp add: BestSelectorMatchIndices_def best_loop.simps selectingObjectsSelectors_def legacySelectorToSelector_def supply_chain_selecting_def
        ready_chain_def example_workload_env_def one_label Let_def del: fmap_of_list_simps)
  then show ?thesis by (simp add: BestSelectorMatch_def)
qed

lemma example_best:
  "GetSupplyChainsForWorkload (oc_lsel example_workload_env) (oc_jp example_workload_env) (we_kind example_workload_env)
     (we_json example_workload_env) (oc_client example_workload_env) (cs_repo example_owner_state) example_workload = Ret [ready_chain]"
proof -
  have "cl_ListSupplyChains (oc_client example_workload_env) w = Inr [ready_chain]" for w
    by (simp add: example_workload_env_def)
  then show ?thesis by (simp add: GetSupplyChainsForWorkload_def GetSelectedSupplyChain_def example_match)
qed

lemma example_selected:
  "getSupplyChainsForWorkload example_workload_env (cs_repo example_owner_state) example_workload m = Ret (Inr ready_chain, m)"
proof -
  have "fmap_len (wl_Labels example_workload) \<noteq> 0" by (simp add: example_workload_def)
  then show ?thesis by (simp add: getSupplyChainsForWorkload_def example_best Let_def)
qed

theorem missing_service_account_not_tracked_witness:
  "\<exists>st'. reconcile_workload example_workload_env example_workload \<lparr>nn_Namespace = ''dev'', nn_Name = ''app''\<rparr> example_owner_state = Ret (None, st') \<and>
     cs_tracker st' = NewDependencyTracker 10 \<and>
     (\<forall>later uid. workload_name example_workload \<notin> set (fst (ServiceAccountToWorkloadRequests (example_client, \<lambda>s. sorted_list_of_fset (fmdom s), later)
       (cs_tracker st') \<lparr>sa_Namespace = ''dev'', sa_Name = ''default'', sa_UID = uid\<rparr>)))"
proof -
  have kinds: "mc_ObjectKinds example_client = Inr ([\<lparr>gvk_Group = '''', gvk_Version = ''v1'', gvk_Kind = ''ServiceAccount''\<rparr>], False)"
    by (simp add: example_client_def)
  have none: "lease_of (NewDependencyTracker 10) ref obj = None" for ref obj by (simp add: lease_of_def NewDependencyTracker_def)
  have "getServiceAccountNameAndNamespaceForWorkload example_workload ready_chain = (''default'', ''dev'')"
    by (simp add: getServiceAccountNameAndNamespaceForWorkload_def example_workload_def ready_chain_def example_chain_def Let_def)
  moreover have "isSupplyChainReady ready_chain"
    by (simp add: isSupplyChainReady_def getSupplyChainReadyCondition_def ready_chain_def mk_condition_def)
  moreover obtain e where "GetServiceAccount (oc_client example_workload_env) (cs_repo example_owner_state) ''default'' ''dev'' = Err e" "\<not> IsUnhandledError e"
    by (simp add: GetServiceAccount_def getObject_def example_workload_env_def empty_cluster_client_def list_client_def)
  moreover have "GetObjectGVK (owner_env.truncate example_workload_env) = Inr \<lparr>gvk_Group = SchemeGroup, gvk_Version = SchemeVersion, gvk_Kind = ''ClusterSupplyChain''\<rparr>"
    by (simp add: GetObjectGVK_def example_workload_env_def owner_env.defs)
  moreover have "fst (cl_StatusUpdate (oc_client example_workload_env) w obj) = None" for w obj
    by (simp add: example_workload_env_def empty_cluster_client_def list_client_def)
  ultimately show ?thesis
    using missing_service_account_not_tracked [OF example_selected _ _ _ _ _ _ sorted_keys.ord_set sorted_keys.ord_distinct kinds]
    by (auto simp: example_owner_state_def none)
qed

theorem deleted_workload_forgotten_witness:
  "\<exists>st'. workload_Reconcile example_workload_env example_owner_state example_owner = Ret (None, st') \<and>
     example_owner \<notin> set (fst (Lookup (\<lambda>s. sorted_list_of_fset (fmdom s)) 5 (cs_tracker st') example_ref))"
proof -
  have "GetWorkload (oc_client example_workload_env) (cs_repo example_owner_state) (nn_Name example_owner) (nn_Namespace example_owner) = Ret None"
    by (simp add: GetWorkload_def optional_object_def getObject_def example_workload_env_def empty_cluster_client_def list_client_def)
  from deleted_workload_forgotten [OF sorted_keys.ord_set sorted_keys.ord_distinct this] show ?thesis by blast
qed

theorem workload_status_written_witness:
  "\<exists>err st' conditions. workload_realize example_workload_env example_workload ready_chain ''default'' ''dev''
       (\<lambda>rsc bn outs mapper r. Ret (do_return None None None False '''' (Some (ErrorString ''no'')), r))
       (AddPositive (oc_now example_workload_env) (NewConditionManager OwnerReady []) SupplyChainReadyCondition) example_owner_state = Ret (err, st') \<and>
     cond_Type (last conditions) = ''Ready'' \<and>
     (\<exists>r' statuses. cs_repo st' = snd (StatusUpdate (oc_client example_workload_env) r' (ObjWorkload (set_workload_status example_workload conditions (Some statuses)))))"
  (is "\<exists>err st' conditions. workload_realize ?env ?w ?c ?n ?ns ?Do ?m ?st = _ \<and> _")
proof -
  obtain err st' where run: "workload_realize ?env ?w ?c ?n ?ns ?Do ?m ?st = Ret (err, st')"
    by (simp add: workload_realize_def Realize_def MakeSupplychainOwnerResources_def ready_chain_def example_chain_def
        NewResourceStatuses_def example_workload_def GetCurrent_def cleanupOrphanedObjects_def Let_def List.map_filter_simps)
      (metis prod.collapse)
  have "[] = os_Conditions (wst_OwnerStatus (wl_Status ?w))" "distinct (map cond_Type [])"
    "os_ObservedGeneration (wst_OwnerStatus (wl_Status ?w)) \<noteq> wl_Generation ?w" by (simp_all add: example_workload_def)
  then show ?thesis using workload_status_written [OF run] run by blast
qed

end
