(* ===== verification/Deliverable_Reconciler.thy ===== *)
theory Deliverable_Reconciler
  imports Owner_Reconcilers
begin

text \<open>
  \<^verbatim>\<open>pkg/controllers/deliverable_reconciler.go\<close>: from a deliverable to its delivery, the service account, the realized resources and the
  status.  \<open>deliverable_env\<close> adds to the environment what depends on the kind: the deliverable as an owner and as JSON, and the kind in the
  \<^verbatim>\<open>TypeMeta\<close> of a listed delivery.  A reconciliation returns the error for the work queue and the new state.
\<close>

section \<open>The delivery of a deliverable\<close>

record 'w deliverable_env = "'w owner_env" +
  de_kind :: "ClusterDelivery \<Rightarrow> string"
  de_json :: "Deliverable \<Rightarrow> json"
  de_owner :: "Deliverable \<Rightarrow> Owner"

definition deliverable_name :: "Deliverable \<Rightarrow> NamespacedName" where
  "deliverable_name deliverable = \<lparr>nn_Namespace = dl_Namespace deliverable, nn_Name = dl_Name deliverable\<rparr>"

definition getDeliveryNames :: "ClusterDelivery list \<Rightarrow> string list" where
  "getDeliveryNames objs = map cd_Name objs"

definition getDeliveryReadyCondition :: "ClusterDelivery \<Rightarrow> condition" where
  "getDeliveryReadyCondition delivery =
     (case find (\<lambda>c. cond_Type c = ''Ready'') (cd_Conditions delivery) of None \<Rightarrow> empty_condition | Some c \<Rightarrow> c)"

definition isDeliveryReady :: "ClusterDelivery \<Rightarrow> bool" where
  "isDeliveryReady delivery \<longleftrightarrow> cond_Status (getDeliveryReadyCondition delivery) = ''True''"

definition getServiceAccountNameAndNamespaceForDeliverable :: "Deliverable \<Rightarrow> ClusterDelivery \<Rightarrow> string \<times> string" where
  "getServiceAccountNameAndNamespaceForDeliverable deliverable delivery =
     (let ref = ds_ServiceAccountRef (cd_Spec delivery)
      in if dls_ServiceAccountName (dl_Spec deliverable) \<noteq> '''' then (dls_ServiceAccountName (dl_Spec deliverable), dl_Namespace deliverable)
         else if sar_Name ref \<noteq> '''' then (sar_Name ref, if sar_Namespace ref \<noteq> '''' then sar_Namespace ref else dl_Namespace deliverable)
         else (''default'', dl_Namespace deliverable))"

definition buildDeliverableResourceLabeler :: "Deliverable \<Rightarrow> ClusterDelivery \<Rightarrow> OwnerResource \<Rightarrow> Reader \<Rightarrow> labels" where
  "buildDeliverableResourceLabeler owner blueprint resource reader =
     fmap_of_list
       [(''carto.run/deliverable-name'', dl_Name owner),
        (''carto.run/deliverable-namespace'', dl_Namespace owner),
        (''carto.run/delivery-name'', cd_Name blueprint),
        (''carto.run/resource-name'', owr_Name resource),
        (''carto.run/template-kind'', tref_Kind (owr_TemplateRef resource)),
        (''carto.run/cluster-template-name'', tref_Name (owr_TemplateRef resource)),
        (''carto.run/template-lifecycle'', lifecycle_string (GetLifecycle reader))]"

definition getDeliveriesForDeliverable ::
  "'w deliverable_env \<Rightarrow> 'w repository \<Rightarrow> Deliverable \<Rightarrow> conditionManager \<Rightarrow> ((gerror + ClusterDelivery) \<times> conditionManager) go" where
  "getDeliveriesForDeliverable env r deliverable m =
     (let now = oc_now env; name = dl_Namespace deliverable @ ''/'' @ dl_Name deliverable
      in if fmap_len (dl_Labels deliverable) = 0 then
           Ret (Inl (ErrorString (''deliverable ['' @ name @ ''] is missing required labels'')), AddPositive now m DeliverableMissingLabelsCondition)
         else
           go_handle (GetDeliveriesForDeliverable (oc_lsel env) (oc_jp env) (de_kind env) (de_json env) (oc_client env) r deliverable)
             (\<lambda>err. Ret (Inl (NewUnhandledError (WrapError (''failed to get deliveries for deliverable ['' @ name @ '']: '') err)), m))
             (\<lambda>deliveries.
                case deliveries of
                  [] \<Rightarrow>
                    Ret (Inl (ErrorString (''no delivery ['' @ name @ ''] found where full selector is satisfied by labels: ''
                           @ show_string_map (dl_Labels deliverable))),
                         AddPositive now m (DeliveryNotFoundCondition (dl_Labels deliverable)))
                | [delivery] \<Rightarrow> Ret (Inr delivery, m)
                | _ \<Rightarrow>
                    Ret (Inl (ErrorString (''more than one delivery selected for deliverable ['' @ name @ '']: ''
                           @ show_strings (getDeliveryNames deliveries))),
                         AddPositive now m TooManyDeliveryMatchesCondition)))"

section \<open>Completing\<close>

definition set_deliverable_status ::
  "Deliverable \<Rightarrow> condition list \<Rightarrow> resourceStatuses option \<Rightarrow> Deliverable" where
  "set_deliverable_status deliverable conditions resourceStatuses =
     deliverable\<lparr>dl_Status := (dl_Status deliverable)
       \<lparr>dst_OwnerStatus := \<lparr>os_ObservedGeneration = dl_Generation deliverable, os_Conditions = conditions\<rparr>,
        dst_Resources := (case resourceStatuses of None \<Rightarrow> dst_Resources (dl_Status deliverable) | Some s \<Rightarrow> GetCurrent s)\<rparr>\<rparr>"

definition deliverable_completeReconciliation ::
  "'w deliverable_env \<Rightarrow> Deliverable \<Rightarrow> resourceStatuses option \<Rightarrow> conditionManager \<Rightarrow> gerror option \<Rightarrow> 'w owner_state \<Rightarrow>
   gerror option \<times> 'w owner_state" where
  "deliverable_completeReconciliation env deliverable resourceStatuses conditionManager err st =
     (let (conditions, changed, m) = Finalize (oc_now env) conditionManager
      in if changed \<or> os_ObservedGeneration (dst_OwnerStatus (dl_Status deliverable)) \<noteq> dl_Generation deliverable \<or>
            (case resourceStatuses of None \<Rightarrow> False | Some s \<Rightarrow> IsChanged s) then
           (case StatusUpdate (oc_client env) (cs_repo st) (ObjDeliverable (set_deliverable_status deliverable conditions resourceStatuses)) of
              (Some updateErr, r) \<Rightarrow> (Some (WrapError ''failed to update status for deliverable: '' updateErr), st\<lparr>cs_repo := r\<rparr>)
            | (None, r) \<Rightarrow> (returned_error err, st\<lparr>cs_repo := r\<rparr>))
         else (returned_error err, st))"

section \<open>Reconciling\<close>

text \<open>The reconciler has its own copies of two functions of the workload reconciler, which differ in the owner only.\<close>

definition deliverable_trackDependencies ::
  "time \<Rightarrow> tracker \<Rightarrow> Deliverable \<Rightarrow> ResourceStatus list \<Rightarrow> string \<Rightarrow> string \<Rightarrow> tracker" where
  "deliverable_trackDependencies now t deliverable realizedResources serviceAccountName serviceAccountNS =
     track_templates now
       (Track now (ClearTracked t (deliverable_name deliverable)) (service_account_key serviceAccountName serviceAccountNS) (deliverable_name deliverable))
       (deliverable_name deliverable) realizedResources"

definition deliverable_cleanupOrphanedObjects ::
  "ref_env \<Rightarrow> 'w api_client \<Rightarrow> 'w repository \<Rightarrow> ResourceStatus list \<Rightarrow> ResourceStatus list \<Rightarrow> (gerror option \<times> 'w repository) go" where
  "deliverable_cleanupOrphanedObjects rv cl r previousResources realizedResources =
     go_handle (orphanedObjs rv cl r realizedResources previousResources)
       (\<lambda>err. Ret (Some err, r))
       (\<lambda>refs. Ret (delete_orphans rv cl r refs))"

lemma deliverable_copies:
  "deliverable_trackDependencies now t deliverable rs sa ns = trackDependencies now t (deliverable_name deliverable) rs sa ns"
  "deliverable_cleanupOrphanedObjects rv cl r prev rs = cleanupOrphanedObjects rv cl r prev rs"
  by (simp_all add: deliverable_trackDependencies_def trackDependencies_def deliverable_cleanupOrphanedObjects_def cleanupOrphanedObjects_def)

text \<open>From the realizer on: realize, set the conditions, track, clean up, watch, complete.\<close>

definition deliverable_realize ::
  "'w deliverable_env \<Rightarrow> Deliverable \<Rightarrow> ClusterDelivery \<Rightarrow> string \<Rightarrow> string \<Rightarrow> 'w resource_do \<Rightarrow> conditionManager \<Rightarrow> 'w owner_state \<Rightarrow>
   (gerror option \<times> 'w owner_state) go" where
  "deliverable_realize env deliverable delivery serviceAccountName serviceAccountNS resourceRealizer m st =
     (let now = oc_now env; previous = dst_Resources (dl_Status deliverable)
      in go_bind (Realize resourceRealizer (oc_realizer env) (oc_outputs env) (oc_clock env) (cd_Name delivery)
             (MakeDeliveryOwnerResources delivery) (NewResourceStatuses previous AddConditionForResourceSubmittedDeliverable) (cs_repo st))
           (\<lambda>(err, resourceStatuses, r).
              let current = GetCurrent resourceStatuses;
                  m1 = (case err of
                          Some e \<Rightarrow> AddConditionForResourceSubmittedDeliverable now m True e
                        | None \<Rightarrow> AddPositive now m (ResourcesSubmittedCondition True));
                  reconcileErr = map_option (WrapUnhandledError (oc_isForbidden env)) err;
                  m2 = AddPositive now m1 (OwnerHealthCondition now current (os_Conditions (dst_OwnerStatus (dl_Status deliverable))));
                  t = deliverable_trackDependencies now (cs_tracker st) deliverable current serviceAccountName serviceAccountNS
              in go_bind (deliverable_cleanupOrphanedObjects (oc_refs env) (oc_client env) r previous current)
                   (\<lambda>(cleanupErr, r').
                      let (reconcileErr', watched) = watch_objects (owner_env.truncate env) (os_watched st) reconcileErr current
                      in Ret (deliverable_completeReconciliation env deliverable (Some resourceStatuses) m2 reconcileErr'
                           (st\<lparr>cs_repo := r', cs_tracker := t, os_watched := watched\<rparr>)))))"

definition reconcile_deliverable ::
  "'w deliverable_env \<Rightarrow> Deliverable \<Rightarrow> NamespacedName \<Rightarrow> 'w owner_state \<Rightarrow> (gerror option \<times> 'w owner_state) go" where
  "reconcile_deliverable env deliverable0 req st =
     (let now = oc_now env; m0 = NewConditionManager OwnerReady (os_Conditions (dst_OwnerStatus (dl_Status deliverable0)))
      in go_bind (getDeliveriesForDeliverable env (cs_repo st) deliverable0 m0) (\<lambda>(res, m1).
         case res of
           Inl err \<Rightarrow> Ret (deliverable_completeReconciliation env deliverable0 None m1 (Some err) st)
         | Inr delivery \<Rightarrow>
             (case GetObjectGVK (owner_env.truncate env) of
                Inl err \<Rightarrow>
                  Ret (deliverable_completeReconciliation env deliverable0 None m1
                    (Some (NewUnhandledError (WrapError (''failed to get object gvk for delivery ['' @ cd_Name delivery @ '']: '') err))) st)
              | Inr deliveryGVK \<Rightarrow>
                  (let deliverable = deliverable0\<lparr>dl_Status := (dl_Status deliverable0)\<lparr>dst_DeliveryRef :=
                         (dst_DeliveryRef (dl_Status deliverable0))\<lparr>or_Kind := gvk_Kind deliveryGVK, or_Name := cd_Name delivery\<rparr>\<rparr>\<rparr>
                   in if \<not> isDeliveryReady delivery then
                        Ret (deliverable_completeReconciliation env deliverable None
                          (AddPositive now m1 (MissingReadyInDeliveryCondition (getDeliveryReadyCondition delivery)))
                          (Some (ErrorString (''delivery ['' @ cd_Name delivery @ ''] is not in ready state''))) st)
                      else
                        (let m2 = AddPositive now m1 DeliveryReadyCondition;
                             (serviceAccountName, serviceAccountNS) = getServiceAccountNameAndNamespaceForDeliverable deliverable delivery
                         in go_handle (GetServiceAccount (oc_client env) (cs_repo st) serviceAccountName serviceAccountNS)
                              (\<lambda>err. Ret (deliverable_completeReconciliation env deliverable None (AddPositive now m2 (ServiceAccountNotFoundCondition err))
                                 (Some (WrapError (''failed to get service account ['' @ nn_Namespace req @ ''/'' @ serviceAccountName @ '']: '') err)) st))
                              (\<lambda>serviceAccount.
                                 case service_account_token (oc_createToken env) now (oc_rnd env) (oc_later env) st serviceAccount of
                                   (Inl err, st1) \<Rightarrow>
                                     Ret (deliverable_completeReconciliation env deliverable None (AddPositive now m2 (ServiceAccountTokenErrorCondition err))
                                       (Some (WrapError (''failed to get token for service account ['' @ serviceAccountNS @ ''/''
                                          @ serviceAccountName @ '']: '') err)) st1)
                                 | (Inr saToken, st1) \<Rightarrow>
                                     (case oc_builder env saToken
                                        \<lparr>rz_owner = de_owner env deliverable,
                                         rz_templatingContext = NewContextGenerator (de_json env deliverable) (dls_Params (dl_Spec deliverable))
                                           (ds_Params (cd_Spec delivery)),
                                         rz_resourceLabeler = buildDeliverableResourceLabeler deliverable delivery\<rparr> of
                                        Inl err \<Rightarrow>
                                          Ret (deliverable_completeReconciliation env deliverable None
                                            (AddPositive now m2 (ResourceRealizerBuilderErrorCondition err))
                                            (Some (NewUnhandledError (WrapError ''failed to build resource realizer: '' err))) st1)
                                      | Inr resourceRealizer \<Rightarrow>
                                          deliverable_realize env deliverable delivery serviceAccountName serviceAccountNS resourceRealizer m2 st1)))))))"

definition deliverable_Reconcile ::
  "'w deliverable_env \<Rightarrow> 'w owner_state \<Rightarrow> NamespacedName \<Rightarrow> (gerror option \<times> 'w owner_state) go" where
  "deliverable_Reconcile env st req =
     go_handle (GetDeliverable (oc_client env) (cs_repo st) (nn_Name req) (nn_Namespace req))
       (\<lambda>err. Ret (Some (WrapError (''failed to get deliverable ['' @ show_NamespacedName req @ '']: '') err), st))
       (\<lambda>res.
          case res of
            None \<Rightarrow> Ret (None, st\<lparr>cs_tracker := ClearTracked (cs_tracker st) req\<rparr>)
          | Some deliverable \<Rightarrow> reconcile_deliverable env deliverable req st)"


section \<open>A deliverable without a delivery\<close>

lemma delivery_failure_conditions:
  "cond_Status DeliverableMissingLabelsCondition = ConditionFalse" "cond_Type DeliverableMissingLabelsCondition = ''DeliveryReady''"
  "cond_Status (DeliveryNotFoundCondition ls) = ConditionFalse" "cond_Type (DeliveryNotFoundCondition ls) = ''DeliveryReady''"
  "cond_Status TooManyDeliveryMatchesCondition = ConditionFalse" "cond_Type TooManyDeliveryMatchesCondition = ''DeliveryReady''"
  by (simp_all add: DeliverableMissingLabelsCondition_def DeliveryNotFoundCondition_def TooManyDeliveryMatchesCondition_def
      mk_condition_def api_defs)

text \<open>The condition that records why no delivery was selected.\<close>

definition no_delivery_condition :: "Deliverable \<Rightarrow> ClusterDelivery list \<Rightarrow> condition" where
  "no_delivery_condition deliverable deliveries =
     (if dl_Labels deliverable = fmempty then DeliverableMissingLabelsCondition
      else if deliveries = [] then DeliveryNotFoundCondition (dl_Labels deliverable)
      else TooManyDeliveryMatchesCondition)"

lemma no_delivery_selected:
  assumes "dl_Labels deliverable = fmempty \<or>
      GetDeliveriesForDeliverable (oc_lsel env) (oc_jp env) (de_kind env) (de_json env) (oc_client env) r deliverable = Ret deliveries \<and>
      length deliveries \<noteq> 1"
  shows "\<exists>msg. getDeliveriesForDeliverable env r deliverable m =
    Ret (Inl (ErrorString msg), AddPositive (oc_now env) m (no_delivery_condition deliverable deliveries))"
proof (cases "dl_Labels deliverable = fmempty")
  case True
  then show ?thesis by (simp add: getDeliveriesForDeliverable_def no_delivery_condition_def Let_def)
next
  case False
  with assms show ?thesis
    by (auto simp: getDeliveriesForDeliverable_def no_delivery_condition_def Let_def split: list.split)
qed

text \<open>
  A deliverable that has no labels, or whose labels select no delivery or more than one.  Its conditions say so: DeliveryReady and Ready
  are False, with the reason of the case; the status is written with these conditions and the resources it had; the
  request is not queued again, and nothing else changes: no object is deleted, no token fetched, and what was tracked for it stays.
\<close>

theorem deliverable_without_delivery:
  assumes "GetDeliverable (oc_client env) (cs_repo st) (nn_Name req) (nn_Namespace req) = Ret (Some deliverable)"
    and "dl_Labels deliverable = fmempty \<or>
      GetDeliveriesForDeliverable (oc_lsel env) (oc_jp env) (de_kind env) (de_json env) (oc_client env) (cs_repo st) deliverable =
        Ret deliveries \<and> length deliveries \<noteq> 1"
    and "\<And>w obj. fst (cl_StatusUpdate (oc_client env) w obj) = None"
    and "prev = os_Conditions (dst_OwnerStatus (dl_Status deliverable))" "distinct (map cond_Type prev)"
  shows "\<exists>r conditions. deliverable_Reconcile env st req = Ret (None, st\<lparr>cs_repo := r\<rparr>) \<and>
    map cond_Type conditions = [''DeliveryReady'', ''Ready''] \<and> map cond_Status conditions = [ConditionFalse, ConditionFalse] \<and>
    cond_Reason (hd conditions) = cond_Reason (no_delivery_condition deliverable deliveries) \<and>
    (r = snd (StatusUpdate (oc_client env) (cs_repo st) (ObjDeliverable (set_deliverable_status deliverable conditions None))) \<or>
     r = cs_repo st \<and> set conditions \<subseteq> set prev \<and> os_ObservedGeneration (dst_OwnerStatus (dl_Status deliverable)) = dl_Generation deliverable)"
proof -
  let ?c = "no_delivery_condition deliverable deliveries" and ?now = "oc_now env"
  let ?m = "AddPositive ?now (NewConditionManager OwnerReady prev) ?c"
  have c: "cond_Status ?c = ConditionFalse" "cond_Type ?c = ''DeliveryReady''"
    by (simp_all add: no_delivery_condition_def delivery_failure_conditions)
  obtain msg where "getDeliveriesForDeliverable env (cs_repo st) deliverable (NewConditionManager OwnerReady prev) = Ret (Inl (ErrorString msg), ?m)"
    using no_delivery_selected [OF assms(2)] by blast
  then have run: "deliverable_Reconcile env st req =
      Ret (deliverable_completeReconciliation env deliverable None ?m (Some (ErrorString msg)) st)"
    using assms(1,4) by (simp add: deliverable_Reconcile_def reconcile_deliverable_def)
  obtain conditions changed m' where f: "Finalize ?now ?m = (conditions, changed, m')" by (cases "Finalize ?now ?m") auto
  note conds = one_failing_condition [OF f c(1)]
  let ?upd = "StatusUpdate (oc_client env) (cs_repo st) (ObjDeliverable (set_deliverable_status deliverable conditions None))"
  have "fst ?upd = None" by (simp add: StatusUpdate_def assms(3) case_prod_beta)
  then obtain u where upd: "?upd = (None, u)" by (cases ?upd) simp
  obtain r where r: "deliverable_completeReconciliation env deliverable None ?m (Some (ErrorString msg)) st = (None, st\<lparr>cs_repo := r\<rparr>)"
    "r = u \<or> r = cs_repo st \<and> \<not> changed \<and> os_ObservedGeneration (dst_OwnerStatus (dl_Status deliverable)) = dl_Generation deliverable"
  proof (cases "changed \<or> os_ObservedGeneration (dst_OwnerStatus (dl_Status deliverable)) \<noteq> dl_Generation deliverable")
    case True
    then show ?thesis by (intro that [of u]) (auto simp: deliverable_completeReconciliation_def f upd returned_error_def)
  next
    case False
    then show ?thesis by (intro that [of "cs_repo st"]) (auto simp: deliverable_completeReconciliation_def f returned_error_def)
  qed
  show ?thesis
    by (intro exI [of _ r] exI [of _ conditions] conjI) (use run r conds c(2) assms(5) upd in \<open>auto simp: OwnerReady_def\<close>)
qed

definition example_deliverable :: Deliverable where
  "example_deliverable =
     \<lparr>dl_Namespace = ''dev'', dl_Name = ''app'', dl_Labels = fmempty, dl_Generation = 1,
      dl_Spec = \<lparr>dls_Params = [], dls_ServiceAccountName = ''''\<rparr>,
      dl_Status = \<lparr>dst_OwnerStatus = \<lparr>os_ObservedGeneration = 0, os_Conditions = []\<rparr>,
        dst_DeliveryRef = \<lparr>or_Kind = '''', or_Namespace = '''', or_Name = '''', or_APIVersion = ''''\<rparr>, dst_Resources = []\<rparr>\<rparr>"

definition example_deliverable_env :: "unstructured list deliverable_env" where
  "example_deliverable_env =
     \<lparr>oc_client = empty_cluster_client\<lparr>cl_GetDeliverable := \<lambda>w n. Inr example_deliverable\<rparr>,
      oc_createToken = \<lambda>w ns name tr. (Inr tr, w), oc_rnd = 0, oc_now = 1, oc_later = 2, oc_clock = int,
      oc_lsel = \<lambda>sel. Inr (\<lambda>ls. True),
      oc_jp = se_jp example_env, oc_isForbidden = \<lambda>e. False, oc_refs = example_refs,
      oc_builder = \<lambda>token rz. Inl (ErrorString ''no client''),
      oc_realizer = \<lparr>rl_healthyConditionEvaluator = \<lambda>h rr u. Panic '''', rl_mapper = \<lambda>g. Inl (ErrorString '''')\<rparr>,
      oc_outputs = \<lparr>oe_Yaml = \<lambda>v. Inr '''', oe_Sha256 = \<lambda>b. '''', oe_ShortenString = \<lambda>b n. take n b\<rparr>,
      oc_watch = \<lambda>ws g. None, oc_GVKForObject = Inr \<lparr>gvk_Group = SchemeGroup, gvk_Version = SchemeVersion, gvk_Kind = ''ClusterDelivery''\<rparr>,
      de_kind = \<lambda>c. '''', de_json = \<lambda>w. JNull,
      de_owner = \<lambda>w. \<lparr>ow_APIVersion = '''', ow_Kind = '''', ow_UID = '''', ow_Name = '''', ow_Namespace = '''', ow_Labels = fmempty,
        ow_Object = JNull\<rparr>\<rparr>"

definition deliverable_state :: "unstructured list owner_state" where
  "deliverable_state =
     \<lparr>cs_repo = \<lparr>rg_world = [], rg_cache = NewCache, rg_events = []\<rparr>, cs_tracker = NewDependencyTracker 10, os_tokens = fmempty, os_watched = []\<rparr>"

theorem deliverable_without_delivery_witness:
  "\<exists>r. \<exists>conditions :: condition list. deliverable_Reconcile example_deliverable_env deliverable_state example_owner = Ret (None, deliverable_state\<lparr>cs_repo := r\<rparr>) \<and>
    map cond_Status conditions = [ConditionFalse, ConditionFalse] \<and> cond_Reason (hd conditions) = ''DeliverableLabelsMissing''"
proof -
  have get: "GetDeliverable (oc_client example_deliverable_env) (cs_repo deliverable_state) (nn_Name example_owner) (nn_Namespace example_owner) =
      Ret (Some example_deliverable)"
    by (simp add: GetDeliverable_def optional_object_def getObject_def example_deliverable_env_def)
  have empty: "dl_Labels example_deliverable = fmempty" "[] = os_Conditions (dst_OwnerStatus (dl_Status example_deliverable))" "distinct (map cond_Type [])"
    by (simp_all add: example_deliverable_def)
  have upd: "fst (cl_StatusUpdate (oc_client example_deliverable_env) w obj) = None" for w obj
    by (simp add: example_deliverable_env_def empty_cluster_client_def list_client_def)
  have reason: "cond_Reason (no_delivery_condition example_deliverable []) = ''DeliverableLabelsMissing''"
    by (simp add: no_delivery_condition_def example_deliverable_def DeliverableMissingLabelsCondition_def mk_condition_def api_defs)
  from deliverable_without_delivery [OF get disjI1 [OF empty(1)] upd empty(2,3), where deliveries = "[]", unfolded reason]
  show ?thesis
    apply (elim exE conjE)
    subgoal for r conditions by (rule exI [of _ r], rule exI [of _ conditions]) (intro conjI; assumption)
    done
qed

end
