(* ===== verification/Runnable_Realizer.thy ===== *)
theory Runnable_Realizer
  imports Resource_Realizer
begin

text \<open>
  \<^verbatim>\<open>pkg/realizer/runnable/realizer.go\<close>: realizing a runnable.  Every change of its inputs creates a new object; the outputs are
  those of the latest successful one.

  Library functions, the clients and the discovery client are the record \<open>runnable_env\<close>: \<open>ue_owner\<close> and \<open>ue_context\<close> are the
  runnable as an owner and the templating context as JSON, \<open>ue_gvk\<close> is \<^verbatim>\<open>schema.FromAPIVersionAndKind\<close>, \<open>ue_keys\<close> the order in which
  Go ranges over the output paths.
\<close>

section \<open>Environment\<close>

record APIResource =
  ar_Kind :: string
  ar_Namespaced :: bool

record 'w runnable_env =
  ue_stamp :: stamp_env
  ue_sprint :: "json \<Rightarrow> string"
  ue_conditions :: condition_decoder
  ue_sort :: "(ExaminedObject \<Rightarrow> ExaminedObject \<Rightarrow> bool) \<Rightarrow> ExaminedObject list \<Rightarrow> ExaminedObject list"
  ue_marshal :: "json \<Rightarrow> gerror + raw"
  ue_keys :: "(string, string) fmap \<Rightarrow> string list"
  ue_owner :: "Runnable \<Rightarrow> Owner"
  ue_context :: "Runnable \<Rightarrow> json option \<Rightarrow> json"
  ue_gvk :: "string \<Rightarrow> string \<Rightarrow> GroupVersionKind"
  ue_systemClient :: "'w api_client"
  ue_runnableClient :: "'w api_client"
  ue_discovery :: "string \<Rightarrow> gerror + APIResource list"
  ue_mapper :: rest_mapper

abbreviation ue_jp :: "'w runnable_env \<Rightarrow> jsonpath_lib" where
  "ue_jp env \<equiv> se_jp (ue_stamp env)"

section \<open>The selected object\<close>

definition resolveSelector ::
  "'w runnable_env \<Rightarrow> 'w repository \<Rightarrow> ResourceSelector option \<Rightarrow> string \<Rightarrow> json option go" where
  "resolveSelector env r selector namespace =
     (case selector of
        None \<Rightarrow> Ret None
      | Some sel \<Rightarrow>
          (case ue_discovery env (rt_APIVersion (rsel_Resource sel)) of
             Inl err \<Rightarrow> Err (WrapError ''failed to list server api resources: '' err)
           | Inr apiResources \<Rightarrow>
               (let namespaced = (case find (\<lambda>a. ar_Kind a = rt_Kind (rsel_Resource sel)) apiResources of
                                    None \<Rightarrow> False | Some a \<Rightarrow> ar_Namespaced a);
                    gvk = ue_gvk env (rt_APIVersion (rsel_Resource sel)) (rt_Kind (rsel_Resource sel))
                in go_handle
                     (ListUnstructured (ue_runnableClient env) r gvk (if namespaced then namespace else '''') (rsel_MatchingLabels sel))
                     (\<lambda>err. Err (WrapError ((if namespaced then ''failed to list objects in namespace matching selector [''
                        else ''failed to list objects at cluster scope matching selector ['')
                        @ show_string_map (rsel_MatchingLabels sel) @ '']: '') err))
                     (\<lambda>results.
                        case results of
                          [] \<Rightarrow> Err (ErrorString ''selector did not match any objects'')
                        | [obj] \<Rightarrow> Ret (Some (u_Content obj))
                        | _ \<Rightarrow> Err (ErrorString ''selector matched multiple objects'')))))"

section \<open>Realizing\<close>

record run_result =
  ru_stampedObject :: "unstructured option"
  ru_outputs :: "raw gomap"
  ru_err :: "gerror option"

definition run_return :: "unstructured option \<Rightarrow> raw gomap \<Rightarrow> gerror option \<Rightarrow> run_result" where
  "run_return u outs e = \<lparr>ru_stampedObject = u, ru_outputs = outs, ru_err = e\<rparr>"

text \<open>The runnable with the kind of its template reference set, as \<^verbatim>\<open>Realize\<close> leaves it.\<close>

definition with_template_kind :: "Runnable \<Rightarrow> Runnable" where
  "with_template_kind runnable =
     runnable\<lparr>rn_Spec := (rn_Spec runnable)\<lparr>rns_RunTemplateRef := (rns_RunTemplateRef (rn_Spec runnable))\<lparr>tref_Kind := ''ClusterRunTemplate''\<rparr>\<rparr>\<rparr>"

definition run_labels :: "Runnable \<Rightarrow> ClusterRunTemplate \<Rightarrow> labels" where
  "run_labels runnable template =
     fmap_of_list [(''carto.run/runnable-name'', rn_Name runnable), (''carto.run/run-template-name'', crt_Name template)]"

definition run_health_rule :: HealthRule where
  "run_health_rule = \<lparr>hr_AlwaysHealthy = None, hr_SingleConditionType = ''Succeeded'', hr_MultiMatch = None\<rparr>"

fun run_examine :: "'w runnable_env \<Rightarrow> unstructured list \<Rightarrow> ExaminedObject list go" where
  "run_examine env [] = Ret []"
| "run_examine env (obj # objs) =
     go_bind (DetermineStampedObjectHealth (ue_jp env) (ue_sprint env) (ue_conditions env) (Some run_health_rule) (Some obj)) (\<lambda>health.
       go_bind (run_examine env objs) (\<lambda>es. Ret (\<lparr>eo_StampedObject = obj, eo_Health = health\<rparr> # es)))"

definition run_qualified :: "rest_mapper \<Rightarrow> unstructured \<Rightarrow> string" where
  "run_qualified mapper obj =
     (case GetQualifiedResource mapper obj of
        Inl rErr \<Rightarrow> ''could not fetch - see logs for '' @ [CHR 0x27] @ ''failed to retrieve qualified resource name'' @ [CHR 0x27]
      | Inr qualifiedResource \<Rightarrow> qualifiedResource)"

text \<open>From the listed objects on: cleanup, outputs and event.  \<^verbatim>\<open>DeepEqual\<close> tells a nil map from an empty one.\<close>

definition run_outputs ::
  "'w runnable_env \<Rightarrow> Runnable \<Rightarrow> ClusterRunTemplate \<Rightarrow> unstructured \<Rightarrow> unstructured list \<Rightarrow> 'w repository \<Rightarrow>
   (run_result \<times> 'w repository) go" where
  "run_outputs env runnable template stampedObject allRunnableStampedObjects r =
     go_bind (run_examine env allRunnableStampedObjects) (\<lambda>examinedObjects.
       (let (sortedObjects, deleted) =
              CleanupRunnableStampedObjects (ue_sort env) (rns_RetentionPolicy (rn_Spec runnable)) examinedObjects;
            r1 = delete_all (ue_runnableClient env) r deleted
        in go_bind (GetLatestSuccessfulOutput (ue_jp env) (ue_marshal env) (ue_keys env (crt_Outputs template)) template
               allRunnableStampedObjects) (\<lambda>(outputs, outputSource, err).
             case err of
               Some e \<Rightarrow>
                 Ret (run_return (Some stampedObject) None
                   (Some (RunnableRetrieveOutputError e stampedObject (rns_RunTemplateRef (rn_Spec runnable))
                     (run_qualified (ue_mapper env) stampedObject))), r1)
             | None \<Rightarrow>
                 (let r2 = (if outputSource \<noteq> None \<and> rst_Outputs (rn_Status runnable) \<noteq> Some outputs
                            then repo_event r1 (CallResourceEventf NormalType ResourceOutputChangedReason
                              ''Runnable [%s] found a new output in [%Q]'' (Some stampedObject) [rn_Name runnable])
                            else r1)
                  in Ret (run_return (Some stampedObject)
                       (if fmap_len outputs = 0 then rst_Outputs (rn_Status runnable) else Some outputs) None, r2)))))"

definition run_Realize :: "'w runnable_env \<Rightarrow> Runnable \<Rightarrow> 'w repository \<Rightarrow> (run_result \<times> 'w repository) go" where
  "run_Realize env runnable0 r =
     (let runnable = with_template_kind runnable0;
          ref = rns_RunTemplateRef (rn_Spec runnable)
      in go_handle (GetRunTemplate (ue_systemClient env) r ref)
        (\<lambda>err. Ret (run_return None None (Some (RunnableGetRunTemplateError err ref)), r))
        (\<lambda>template.
      let ls = run_labels runnable template in
      go_handle (resolveSelector env r (rns_Selector (rn_Spec runnable)) (rn_Namespace runnable))
        (\<lambda>err. Ret (run_return None None (Some (RunnableResolveSelectorError err (the (rns_Selector (rn_Spec runnable))))), r))
        (\<lambda>selected.
      go_handle (Stamp (ue_stamp env) (StamperBuilder (ue_owner env runnable) (ue_context env runnable selected) ls)
          (run_GetResourceTemplate template))
        (\<lambda>err. Ret (run_return None None (Some (RunnableStampError err ref)), r))
        (\<lambda>stampedObject.
      case EnsureImmutableObjectExistsOnCluster (ue_runnableClient env) r stampedObject
          (fmap_of_list [(''carto.run/runnable-name'', rn_Name runnable)]) of
        (Some err, obj, r1) \<Rightarrow> Ret (run_return None None (Some (RunnableApplyStampedObjectError err obj ref)), r1)
      | (None, obj, r1) \<Rightarrow>
          go_handle (ListUnstructured (ue_runnableClient env) r1 (u_GVK obj) (u_Namespace obj) ls)
            (\<lambda>err. Ret (run_return (Some obj) None (Some (ListCreatedObjectsError err (u_Namespace obj) ls)), r1))
            (\<lambda>objs. run_outputs env runnable template obj objs r1)))))"

section \<open>Outputs\<close>

definition projr_opt :: "'a + 'b \<Rightarrow> 'b option" where
  "projr_opt x = (case x of Inl a \<Rightarrow> None | Inr b \<Rightarrow> Some b)"

lemma projr_opt_simps [simp]: "projr_opt (Inl a) = None" "projr_opt (Inr b) = Some b"
  by (simp_all add: projr_opt_def)

text \<open>Without an error every output path was evaluated, in whatever order.\<close>

lemma run_outputs_loop_ok:
  assumes "run_outputs_loop jp jm paths obj keys (e0, outs0) = Ret (None, outs)" "set keys \<subseteq> fmdom' paths"
  shows "e0 = None \<and>
    (\<forall>k. fmlookup outs k = (if k \<in> set keys
       then (case EvaluateJsonPath jp (the (fmlookup paths k)) (u_Content obj) of Ret v \<Rightarrow> projr_opt (jm v) | _ \<Rightarrow> None)
       else fmlookup outs0 k)) \<and>
    (\<forall>k\<in>set keys. \<exists>v raw. EvaluateJsonPath jp (the (fmlookup paths k)) (u_Content obj) = Ret v \<and> jm v = Inr raw)"
  using assms
proof (induction keys arbitrary: e0 outs0)
  case (Cons key keys)
  let ?e = "EvaluateJsonPath jp (the (fmlookup paths key)) (u_Content obj)"
  have sub: "set keys \<subseteq> fmdom' paths" using Cons.prems(2) by simp
  show ?case
  proof (cases ?e)
    case (Ret v)
    show ?thesis
    proof (cases "jm v")
      case (Inr raw)
      then show ?thesis using Cons.IH [OF _ sub, of e0 "fmupd key raw outs0"] Cons.prems Ret by (auto simp: Let_def)
    qed (use Cons Ret sub in \<open>auto simp: Let_def\<close>)
  qed (use Cons sub in \<open>auto simp: Let_def\<close>)
qed simp

text \<open>
  C21: the outputs of a runnable that is realized without an error are those of its latest successful object: with output paths in the
  template, every path was evaluated on that object and there is one output for each; without a successful object,
  or without output paths, the outputs stay as the status has them.
\<close>

theorem runnable_outputs:
  assumes "run_outputs env runnable template obj objs r = Ret (res, r')" "ru_err res = None"
    and "set (ue_keys env (crt_Outputs template)) = fmdom' (crt_Outputs template)"
  shows "\<exists>latest. getLatestSuccessfulObject (ue_jp env) objs = Ret latest \<and>
    (if latest = None \<or> crt_Outputs template = fmempty then ru_outputs res = rst_Outputs (rn_Status runnable)
     else \<exists>outs. ru_outputs res = Some outs \<and> fmdom' outs = fmdom' (crt_Outputs template) \<and>
       (\<forall>k path. fmlookup (crt_Outputs template) k = Some path \<longrightarrow>
          (\<exists>v raw. EvaluateJsonPath (ue_jp env) path (u_Content (the latest)) = Ret v \<and> ue_marshal env v = Inr raw \<and>
             fmlookup outs k = Some raw)))"
proof -
  obtain es outputs src where g: "GetLatestSuccessfulOutput (ue_jp env) (ue_marshal env) (ue_keys env (crt_Outputs template)) template objs =
      Ret (outputs, src, None)"
      and out: "ru_outputs res = (if fmap_len outputs = 0 then rst_Outputs (rn_Status runnable) else Some outputs)"
    using assms(1,2)
    by (auto simp: run_outputs_def go_bind_Ret_iff Let_def case_prod_beta run_return_def split: option.splits prod.splits)
  then obtain latest where latest: "getLatestSuccessfulObject (ue_jp env) objs = Ret latest"
    by (auto simp: GetLatestSuccessfulOutput_def go_bind_Ret_iff)
  show ?thesis
  proof (cases latest)
    case None
    then have "outputs = fmempty" using g latest by (simp add: GetLatestSuccessfulOutput_def)
    then show ?thesis using None latest out by simp
  next
    case (Some l)
    let ?paths = "crt_Outputs template"
    have "run_outputs_loop (ue_jp env) (ue_marshal env) ?paths l (ue_keys env ?paths) (None, fmempty) = Ret (None, outputs)"
      using g latest Some by (auto simp: GetLatestSuccessfulOutput_def getOutputsOfSingleObject_def go_bind_Ret_iff)
    from run_outputs_loop_ok [OF this] assms(3)
    have loop: "\<And>k. fmlookup outputs k = (if k \<in> fmdom' ?paths
          then (case EvaluateJsonPath (ue_jp env) (the (fmlookup ?paths k)) (u_Content l) of Ret v \<Rightarrow> projr_opt (ue_marshal env v) | _ \<Rightarrow> None)
          else None)"
        "\<And>k. k \<in> fmdom' ?paths \<Longrightarrow>
          \<exists>v raw. EvaluateJsonPath (ue_jp env) (the (fmlookup ?paths k)) (u_Content l) = Ret v \<and> ue_marshal env v = Inr raw"
      by simp_all
    have val: "\<exists>v raw. EvaluateJsonPath (ue_jp env) path (u_Content l) = Ret v \<and> ue_marshal env v = Inr raw \<and> fmlookup outputs k = Some raw"
      if "fmlookup ?paths k = Some path" for k path
      using loop(1) [of k] loop(2) [of k] that by (fastforce simp: fmlookup_dom'_iff)
    have dom: "fmdom' outputs = fmdom' ?paths"
    proof (intro set_eqI)
      fix k
      show "k \<in> fmdom' outputs \<longleftrightarrow> k \<in> fmdom' ?paths"
        using loop(1) [of k] val [of k] by (auto simp: fmlookup_dom'_iff split: if_splits)
    qed
    show ?thesis
    proof (cases "?paths = fmempty")
      case True
      then have "outputs = fmempty" using dom by (metis fmdom'_empty fmrestrict_set_dom fmrestrict_set_null)
      then show ?thesis using True latest out by simp
    next
      case False
      then have "outputs \<noteq> fmempty" using dom by (metis fmdom'_empty fmrestrict_set_dom fmrestrict_set_null)
      then show ?thesis using False latest Some out dom val by auto
    qed
  qed
qed

section \<open>An event without an output\<close>

text \<open>
  A runnable whose template has no output paths records the event about a new output whenever it has a successful object, on every
  realization, although its outputs stay nil: the fresh empty map is not deeply equal to the nil map of the status.
\<close>

theorem output_event_without_outputs:
  assumes "run_outputs env runnable template obj objs r = Ret (res, r')"
    and "crt_Outputs template = fmempty" "ue_keys env fmempty = []" "rst_Outputs (rn_Status runnable) = None"
    and "getLatestSuccessfulObject (ue_jp env) objs = Ret (Some l)"
  shows "ru_outputs res = None \<and> ru_err res = None \<and>
    (\<exists>before. rg_events r' = before @ [CallResourceEventf NormalType ResourceOutputChangedReason
       ''Runnable [%s] found a new output in [%Q]'' (Some obj) [rn_Name runnable]])"
proof -
  have "GetLatestSuccessfulOutput (ue_jp env) (ue_marshal env) (ue_keys env (crt_Outputs template)) template objs = Ret (fmempty, Some l, None)"
    using assms(2,3,5) by (simp add: GetLatestSuccessfulOutput_def getOutputsOfSingleObject_def)
  then show ?thesis
    using assms(1,4) by (auto simp: run_outputs_def go_bind_Ret_iff Let_def case_prod_beta run_return_def repo_event_def)
qed

section \<open>Witnesses\<close>

definition example_run_env :: "unstructured list runnable_env" where
  "example_run_env =
     \<lparr>ue_stamp = example_env\<lparr>se_jp := (se_jp example_env)\<lparr>jp_Unmarshal := \<lambda>b. Inr [JStr ''True'']\<rparr>\<rparr>, ue_sprint = \<lambda>v. '''',
      ue_conditions = \<lambda>v. Inr [], ue_sort = insertionSort, ue_marshal = \<lambda>v. Inr ''1'', ue_keys = fmap_keys,
      ue_owner = \<lambda>rn. \<lparr>ow_APIVersion = '''', ow_Kind = '''', ow_UID = '''', ow_Name = rn_Name rn, ow_Namespace = rn_Namespace rn,
        ow_Labels = fmempty, ow_Object = JNull\<rparr>,
      ue_context = \<lambda>rn sel. JNull, ue_gvk = \<lambda>a k. \<lparr>gvk_Group = '''', gvk_Version = a, gvk_Kind = k\<rparr>,
      ue_systemClient = list_client, ue_runnableClient = list_client, ue_discovery = \<lambda>a. Inr [], ue_mapper = \<lambda>g. Inl (ErrorString '''')\<rparr>"

definition example_runnable :: Runnable where
  "example_runnable =
     \<lparr>rn_Namespace = ''ns'', rn_Name = ''run'', rn_Labels = fmempty, rn_Generation = 1,
      rn_Spec = \<lparr>rns_RunTemplateRef = \<lparr>tref_Kind = '''', tref_Name = ''t''\<rparr>, rns_Selector = None, rns_Inputs = fmempty,
        rns_ServiceAccountName = '''', rns_RetentionPolicy = \<lparr>rp_MaxFailedRuns = 10, rp_MaxSuccessfulRuns = 10\<rparr>\<rparr>,
      rn_Status = \<lparr>rst_ObservedGeneration = 0, rst_Conditions = [], rst_Outputs = None\<rparr>\<rparr>"

definition example_run_object :: unstructured where
  "example_run_object = example_object\<lparr>u_CreationTimestamp := 5\<rparr>"

lemma example_run_eval: "path \<noteq> '''' \<Longrightarrow> EvaluateJsonPath (ue_jp example_run_env) path v = Ret (JStr ''True'')"
  by (simp add: EvaluateJsonPath_def SinglePathEvaluate_def example_run_env_def example_env_def)

lemma example_run_latest:
  "getLatestSuccessfulObject (ue_jp example_run_env) [example_run_object] = Ret (Some example_run_object)"
  by (simp add: getLatestSuccessfulObject_def example_run_eval SuccessStatusPath_def Let_def example_run_object_def time_After_def zero_time_def)

lemma example_run_examine:
  "\<exists>e. run_examine example_run_env [example_run_object] = Ret [e]"
  by (simp add: DetermineStampedObjectHealth_def run_health_rule_def)

definition example_run_repo :: "unstructured list repository" where
  "example_run_repo = \<lparr>rg_world = [example_run_object], rg_cache = NewCache, rg_events = []\<rparr>"

lemma example_run:
  assumes "crt_Outputs template = fmempty \<or> crt_Outputs template = fmap_of_list [(''k'', ''p'')]"
  shows "\<exists>res r'. run_outputs example_run_env example_runnable template example_run_object [example_run_object] example_run_repo = Ret (res, r') \<and>
    ru_err res = None"
proof -
  obtain e where "run_examine example_run_env [example_run_object] = Ret [e]" using example_run_examine by blast
  moreover have "\<exists>outs. GetLatestSuccessfulOutput (ue_jp example_run_env) (ue_marshal example_run_env) (ue_keys example_run_env (crt_Outputs template))
      template [example_run_object] = Ret (outs, Some example_run_object, None)"
    using assms by (auto simp: GetLatestSuccessfulOutput_def example_run_latest getOutputsOfSingleObject_def example_run_eval
        example_run_env_def [THEN arg_cong, of ue_keys] example_run_env_def [THEN arg_cong, of ue_marshal] fmap_keys_def sorted_list_of_fset.rep_eq Let_def)
  ultimately show ?thesis by (auto simp: run_outputs_def Let_def case_prod_beta run_return_def)
qed

theorem runnable_outputs_witness:
  "\<exists>res r' outs. run_outputs example_run_env example_runnable \<lparr>crt_Name = ''t'', crt_Template = '''', crt_Outputs = fmap_of_list [(''k'', ''p'')]\<rparr>
      example_run_object [example_run_object] example_run_repo = Ret (res, r') \<and>
    ru_outputs res = Some outs \<and> fmdom' outs = {''k''}"
  (is "\<exists>res r' outs. run_outputs ?env ?rn ?t ?o ?os ?r = _ \<and> _")
proof -
  obtain res r' where run: "run_outputs ?env ?rn ?t ?o ?os ?r = Ret (res, r')" "ru_err res = None"
    using example_run [of ?t] by auto
  have "set (ue_keys ?env (crt_Outputs ?t)) = fmdom' (crt_Outputs ?t)" by (simp add: example_run_env_def)
  from runnable_outputs [OF run this] run(1) show ?thesis by (auto simp: example_run_latest fmdom'_alt_def)
qed

theorem output_event_without_outputs_witness:
  "\<exists>res r' before. run_outputs example_run_env example_runnable \<lparr>crt_Name = ''t'', crt_Template = '''', crt_Outputs = fmempty\<rparr>
      example_run_object [example_run_object] example_run_repo = Ret (res, r') \<and>
    rg_events r' = before @ [CallResourceEventf NormalType ResourceOutputChangedReason
       ''Runnable [%s] found a new output in [%Q]'' (Some example_run_object) [''run'']]"
  (is "\<exists>res r' before. run_outputs ?env ?rn ?t ?o ?os ?r = _ \<and> _")
proof -
  obtain res r' where run: "run_outputs ?env ?rn ?t ?o ?os ?r = Ret (res, r')"
    using example_run [of ?t] by auto
  have "crt_Outputs ?t = fmempty" "ue_keys ?env fmempty = []" "rst_Outputs (rn_Status ?rn) = None"
    by (simp_all add: example_run_env_def example_runnable_def)
  from output_event_without_outputs [OF run this example_run_latest] run show ?thesis by (auto simp: example_runnable_def)
qed

end
