(* ===== verification/Runnable_Reconciler.thy ===== *)
theory Runnable_Reconciler
  imports Owner_Reconcilers Runnable_Realizer
begin

text \<open>
  \<^verbatim>\<open>pkg/controllers/runnable_reconciler.go\<close>: tracking what a runnable depends on, realizing it with the client of its service account, and
  its status.  The client builder yields the environment of the runnable realizer, with the client and the discovery client of the
  token; \<open>rc_conditions\<close> decodes the conditions of the stamped object.
\<close>

section \<open>Environment\<close>

record 'w run_env =
  rc_client :: "'w api_client"
  rc_createToken :: "'w token_client"
  rc_rnd :: rat
  rc_now :: time
  rc_later :: time
  rc_clientBuilder :: "string \<Rightarrow> gerror + 'w runnable_env"
  rc_isForbidden :: "gerror \<Rightarrow> bool"
  rc_conditions :: condition_decoder
  rc_watch :: "GroupVersionKind list \<Rightarrow> GroupVersionKind \<Rightarrow> gerror option"

definition runnable_name :: "Runnable \<Rightarrow> NamespacedName" where
  "runnable_name runnable = \<lparr>nn_Namespace = rn_Namespace runnable, nn_Name = rn_Name runnable\<rparr>"

section \<open>Operations\<close>

definition run_trackDependencies :: "time \<Rightarrow> tracker \<Rightarrow> Runnable \<Rightarrow> string \<Rightarrow> tracker" where
  "run_trackDependencies now t runnable serviceAccountName =
     (let owner = runnable_name runnable;
          t1 = ClearTracked t owner;
          t2 = Track now t1 (service_account_key serviceAccountName (rn_Namespace runnable)) owner
      in Track now t2 (template_key ''ClusterRunTemplate'' (tref_Name (rns_RunTemplateRef (rn_Spec runnable)))) owner)"

definition set_runnable_status :: "Runnable \<Rightarrow> condition list \<Rightarrow> raw gomap \<Rightarrow> Runnable" where
  "set_runnable_status runnable conditions outputs =
     runnable\<lparr>rn_Status := (rn_Status runnable)
       \<lparr>rst_ObservedGeneration := rn_Generation runnable, rst_Conditions := conditions, rst_Outputs := outputs\<rparr>\<rparr>"

definition run_completeReconciliation ::
  "'w run_env \<Rightarrow> Runnable \<Rightarrow> raw gomap \<Rightarrow> conditionManager \<Rightarrow> gerror option \<Rightarrow> 'w owner_state \<Rightarrow> gerror option \<times> 'w owner_state" where
  "run_completeReconciliation env runnable outputs conditionManager err st =
     (let (conditions, changed, m) = Finalize (rc_now env) conditionManager
      in if changed \<or> rst_ObservedGeneration (rn_Status runnable) \<noteq> rn_Generation runnable \<or> rst_Outputs (rn_Status runnable) \<noteq> outputs then
           (case StatusUpdate (rc_client env) (cs_repo st) (ObjRunnable (set_runnable_status runnable conditions outputs)) of
              (Some statusUpdateError, r) \<Rightarrow> (Some (WrapError ''failed to update status for runnable: '' statusUpdateError), st\<lparr>cs_repo := r\<rparr>)
            | (None, r) \<Rightarrow> (returned_error err, st\<lparr>cs_repo := r\<rparr>))
         else (returned_error err, st))"

text \<open>The type switch on an error of the realizer: the condition, and the error that the reconciliation ends with.\<close>

definition run_error :: "(gerror \<Rightarrow> bool) \<Rightarrow> gerror \<Rightarrow> condition \<times> gerror" where
  "run_error isForbidden err =
     (case err of
        RunnableGetRunTemplateError e tr \<Rightarrow> (RunTemplateMissingCondition err, NewUnhandledError err)
      | RunnableResolveSelectorError e s \<Rightarrow> (RunnableTemplateStampFailureCondition err, err)
      | RunnableStampError e tr \<Rightarrow> (RunnableTemplateStampFailureCondition err, err)
      | RunnableApplyStampedObjectError e obj tr \<Rightarrow>
          (StampedObjectRejectedByAPIServerCondition err, if \<not> isForbidden e then NewUnhandledError err else err)
      | ListCreatedObjectsError e ns ls \<Rightarrow> (FailedToListCreatedObjectsCondition err, NewUnhandledError err)
      | RunnableRetrieveOutputError e obj tr qr \<Rightarrow> (OutputPathNotSatisfiedCondition obj qr (Error err), err)
      | _ \<Rightarrow> (UnknownErrorCondition err, NewUnhandledError err))"

text \<open>The stamped object: its Succeeded condition becomes one of the runnable, and its kind is watched.\<close>

definition run_stamped ::
  "'w run_env \<Rightarrow> GroupVersionKind list \<Rightarrow> gerror option \<Rightarrow> conditionManager \<Rightarrow> unstructured option \<Rightarrow>
   gerror option \<times> GroupVersionKind list \<times> conditionManager" where
  "run_stamped env watched err m stampedObject =
     (let now = rc_now env
      in case stampedObject of
           None \<Rightarrow> (err, watched, AddPositive now m StampedObjectConditionUnknown)
         | Some obj \<Rightarrow>
             (let m1 = (case ConditionWithType (ExtractConditions (rc_conditions env) obj) ''Succeeded'' of
                          Some stampedCondition \<Rightarrow> AddPositive now m (StampedObjectConditionKnown stampedCondition)
                        | None \<Rightarrow> AddPositive now m StampedObjectConditionUnknown)
              in case rc_watch env watched (u_GVK obj) of
                   Some trackingError \<Rightarrow> (Some (NewUnhandledError trackingError), watched, m1)
                 | None \<Rightarrow> (err, watched @ [u_GVK obj], m1)))"

definition run_realized ::
  "'w run_env \<Rightarrow> Runnable \<Rightarrow> run_result \<Rightarrow> conditionManager \<Rightarrow> 'w owner_state \<Rightarrow> gerror option \<times> 'w owner_state" where
  "run_realized env runnable res m st =
     (let now = rc_now env;
          (m1, err) = (case ru_err res of
                         Some e \<Rightarrow> (case run_error (rc_isForbidden env) e of (c, e') \<Rightarrow> (AddPositive now m c, Some e'))
                       | None \<Rightarrow> (AddPositive now m RunTemplateReadyCondition, None));
          (err', watched, m2) = run_stamped env (os_watched st) err m1 (ru_stampedObject res)
      in run_completeReconciliation env runnable (ru_outputs res) m2 err' (st\<lparr>os_watched := watched\<rparr>))"

definition run_serviceAccountName :: "Runnable \<Rightarrow> string" where
  "run_serviceAccountName runnable =
     (if rns_ServiceAccountName (rn_Spec runnable) \<noteq> '''' then rns_ServiceAccountName (rn_Spec runnable) else ''default'')"

definition reconcile_runnable ::
  "'w run_env \<Rightarrow> Runnable \<Rightarrow> NamespacedName \<Rightarrow> 'w owner_state \<Rightarrow> (gerror option \<times> 'w owner_state) go" where
  "reconcile_runnable env runnable req st0 =
     (let now = rc_now env;
          m = NewConditionManager RunnableReady (rst_Conditions (rn_Status runnable));
          serviceAccountName = run_serviceAccountName runnable;
          sa = nn_Namespace req @ ''/'' @ serviceAccountName;
          st = st0\<lparr>cs_tracker := run_trackDependencies now (cs_tracker st0) runnable serviceAccountName\<rparr>
      in go_handle (GetServiceAccount (rc_client env) (cs_repo st) serviceAccountName (nn_Namespace req))
           (\<lambda>err. Ret (run_completeReconciliation env runnable None (AddPositive now m (RunnableServiceAccountNotFoundCondition err))
              (Some (WrapError (''failed to get service account ['' @ sa @ '']: '') err)) st))
           (\<lambda>serviceAccount.
              case service_account_token (rc_createToken env) now (rc_rnd env) (rc_later env) st serviceAccount of
                (Inl err, st1) \<Rightarrow>
                  Ret (run_completeReconciliation env runnable None (AddPositive now m (RunnableServiceAccountTokenErrorCondition err))
                    (Some (WrapError (''failed to get token for service account ['' @ sa @ '']: '') err)) st1)
              | (Inr saToken, st1) \<Rightarrow>
                  (case rc_clientBuilder env saToken of
                     Inl err \<Rightarrow>
                       Ret (run_completeReconciliation env runnable None (AddPositive now m (ClientBuilderErrorCondition err))
                         (Some (NewUnhandledError (WrapError ''failed to build resource realizer: '' err))) st1)
                   | Inr renv \<Rightarrow>
                       go_bind (run_Realize (renv\<lparr>ue_systemClient := rc_client env\<rparr>) runnable (cs_repo st1))
                         (\<lambda>(res, r). Ret (run_realized env (with_template_kind runnable) res m (st1\<lparr>cs_repo := r\<rparr>))))))"

definition run_Reconcile ::
  "'w run_env \<Rightarrow> 'w owner_state \<Rightarrow> NamespacedName \<Rightarrow> (gerror option \<times> 'w owner_state) go" where
  "run_Reconcile env st req =
     go_handle (GetRunnable (rc_client env) (cs_repo st) (nn_Name req) (nn_Namespace req))
       (\<lambda>err. Ret (Some (WrapError (''failed to get runnable ['' @ show_NamespacedName req @ '']: '') err), st))
       (\<lambda>res.
          case res of
            None \<Rightarrow> Ret (None, st\<lparr>cs_tracker := ClearTracked (cs_tracker st) req\<rparr>)
          | Some runnable \<Rightarrow> reconcile_runnable env runnable req st)"

section \<open>What a reconciliation tracks\<close>

lemma complete_keeps:
  "run_completeReconciliation env runnable outputs m err st = (err', st') \<Longrightarrow> cs_tracker st' = cs_tracker st"
  by (auto simp: run_completeReconciliation_def split: prod.splits option.splits if_splits)

lemma realized_keeps: "run_realized env runnable res m st = (err', st') \<Longrightarrow> cs_tracker st' = cs_tracker st"
  by (auto simp: run_realized_def case_prod_beta Let_def dest: complete_keeps)

lemma token_keeps: "service_account_token create now rnd later st sa = (res, st') \<Longrightarrow> cs_tracker st' = cs_tracker st"
  by (auto simp: service_account_token_def split: prod.splits)

lemma reconcile_tracks:
  assumes "reconcile_runnable env runnable req st = Ret (err, st')"
  shows "cs_tracker st' = run_trackDependencies (rc_now env) (cs_tracker st) runnable (run_serviceAccountName runnable)"
  using assms unfolding reconcile_runnable_def Let_def
  by (auto simp: go_handle_def go_bind_Ret_iff dest!: complete_keeps realized_keeps token_keeps split: go.splits prod.splits sum.splits)

lemma run_trackDependencies_lease:
  "lease_of (run_trackDependencies now t runnable sa) ref obj =
     (if obj = runnable_name runnable
      then (if ref = key_String (service_account_key sa (rn_Namespace runnable)) \<or>
               ref = key_String (template_key ''ClusterRunTemplate'' (tref_Name (rns_RunTemplateRef (rn_Spec runnable))))
            then Some (now + tr_leaseDuration t) else None)
      else lease_of t ref obj)"
  by (auto simp: run_trackDependencies_def Let_def lease_of_Track Clear_laws)

text \<open>
  C20: after a reconciliation of an existing runnable that returned, with an error or without, the dependency tracker returns the runnable for exactly two
  references until the duration of a lease has passed: its service account and its run template.  They need not exist: the dependencies are
  tracked before anything is fetched.  What it tracked before is forgotten.  A reconciliation that panics returns no state and is not covered.
\<close>

theorem runnable_dependencies_tracked:
  assumes "\<And>s. set (ord s) = fmdom' s" "\<And>s. distinct (ord s)"
    and "GetRunnable (rc_client env) (cs_repo st) (nn_Name req) (nn_Namespace req) = Ret (Some runnable)"
    and "run_Reconcile env st req = Ret (err, st')"
    and "later \<le> rc_now env + tr_leaseDuration (cs_tracker st)"
  shows "runnable_name runnable \<in> set (fst (Lookup ord later (cs_tracker st') k)) \<longleftrightarrow>
    key_String k = key_String (service_account_key (run_serviceAccountName runnable) (rn_Namespace runnable)) \<or>
    key_String k = key_String (template_key ''ClusterRunTemplate'' (tref_Name (rns_RunTemplateRef (rn_Spec runnable))))"
proof -
  have ord: "map_order ord" using assms(1,2) by unfold_locales
  have "cs_tracker st' = run_trackDependencies (rc_now env) (cs_tracker st) runnable (run_serviceAccountName runnable)"
    using assms(3,4) reconcile_tracks by (simp add: run_Reconcile_def)
  then show ?thesis
    using map_order.lookup_split(2) [OF ord surjective_pairing] assms(5) by (auto simp: run_trackDependencies_lease)
qed

section \<open>Failing realizations\<close>

lemma run_outputs_failed:
  assumes "run_outputs env runnable template obj objs r = Ret (res, r')" "ru_err res = Some e"
  shows "ru_outputs res = None"
proof -
  obtain sorted deleted outputs src err es where "run_examine env objs = Ret es"
      "CleanupRunnableStampedObjects (ue_sort env) (rns_RetentionPolicy (rn_Spec runnable)) es = (sorted, deleted)"
      "GetLatestSuccessfulOutput (ue_jp env) (ue_marshal env) (ue_keys env (crt_Outputs template)) template objs = Ret (outputs, src, err)"
    using assms(1) by (auto simp: run_outputs_def go_bind_Ret_iff case_prod_beta Let_def) (metis prod.collapse)
  then show ?thesis using assms by (cases err) (auto simp: run_outputs_def run_return_def Let_def)
qed

lemma run_Realize_failed:
  assumes "run_Realize env runnable r = Ret (res, r')" "ru_err res = Some e"
  shows "ru_outputs res = None"
  using assms unfolding run_Realize_def Let_def
  by (auto simp: run_return_def go_handle_def dest: run_outputs_failed split: go.splits prod.splits option.splits)

lemma run_error_False: "cond_Status (fst (run_error f e)) = ConditionFalse"
  by (cases e) (simp_all add: run_error_def RunTemplateMissingCondition_def RunnableTemplateStampFailureCondition_def
      StampedObjectRejectedByAPIServerCondition_def FailedToListCreatedObjectsCondition_def OutputPathNotSatisfiedCondition_def
      UnknownErrorCondition_def mk_condition_def)

text \<open>Which errors of the realizer are queued again.\<close>

lemma run_error_requeued:
  "IsUnhandledError (snd (run_error f e)) \<longleftrightarrow>
     (case e of RunnableResolveSelectorError e' s \<Rightarrow> False | RunnableStampError e' tr \<Rightarrow> False
      | RunnableApplyStampedObjectError e' obj tr \<Rightarrow> \<not> f e' | RunnableRetrieveOutputError e' obj tr qr \<Rightarrow> False | _ \<Rightarrow> True)"
  by (cases e) (simp_all add: run_error_def NewUnhandledError_def)

lemma run_stamped_adds:
  assumes "\<And>ws g. rc_watch env ws g = None"
  shows "\<exists>watched' d. run_stamped env watched err m obj = (err, watched', AddPositive (rc_now env) m d)"
proof (cases obj)
  case (Some u)
  then show ?thesis
    by (cases "ConditionWithType (ExtractConditions (rc_conditions env) u) ''Succeeded''") (auto simp: run_stamped_def assms)
qed (auto simp: run_stamped_def)

text \<open>
  C36: a failing realization withdraws the outputs.  The status of a runnable that had outputs is written without them, with Ready False; the
  request is queued again exactly when the watch or the update fails, or for the errors that are not expected to last: no run
  template, a rejected object unless it was forbidden, a failing list.
\<close>

theorem failed_run_withdraws_outputs:
  assumes "run_Realize renv runnable r = Ret (res, r')" "ru_err res = Some e"
    and "rst_Outputs (rn_Status runnable) \<noteq> None"
    and "\<And>w obj. fst (cl_StatusUpdate (rc_client env) w obj) = None" "\<And>ws g. rc_watch env ws g = None"
    and "run_realized env (with_template_kind runnable) res (NewConditionManager RunnableReady prev) st = (err, st')"
  shows "(\<exists>conditions. cond_Type (last conditions) = ''Ready'' \<and> cond_Status (last conditions) = ConditionFalse \<and>
      cs_repo st' = snd (StatusUpdate (rc_client env) (cs_repo st)
        (ObjRunnable (set_runnable_status (with_template_kind runnable) conditions None)))) \<and>
    (err \<noteq> None \<longleftrightarrow>
      (case e of RunnableResolveSelectorError e' s \<Rightarrow> False | RunnableStampError e' tr \<Rightarrow> False
       | RunnableApplyStampedObjectError e' obj tr \<Rightarrow> \<not> rc_isForbidden env e' | RunnableRetrieveOutputError e' obj tr qr \<Rightarrow> False | _ \<Rightarrow> True))"
proof -
  let ?now = "rc_now env" and ?w = "with_template_kind runnable"
  obtain c e' where ce: "run_error (rc_isForbidden env) e = (c, e')" by (cases "run_error (rc_isForbidden env) e")
  let ?m = "AddPositive ?now (NewConditionManager RunnableReady prev) c"
  obtain watched d where st2: "run_stamped env (os_watched st) (Some e') ?m (ru_stampedObject res) = (Some e', watched, AddPositive ?now ?m d)"
    using run_stamped_adds [OF assms(5)] by blast
  have comp: "run_completeReconciliation env ?w None (AddPositive ?now ?m d) (Some e') (st\<lparr>os_watched := watched\<rparr>) = (err, st')"
    using assms(6) by (simp add: run_realized_def assms(2) ce st2 run_Realize_failed [OF assms(1,2)] Let_def)
  obtain conditions changed m' where f: "Finalize ?now (AddPositive ?now ?m d) = (conditions, changed, m')"
    by (cases "Finalize ?now (AddPositive ?now ?m d)") auto
  let ?xs = "[(?now, c, Positive), (?now, d, Positive)]"
  have f': "Finalize ?now (add_all Add (NewConditionManager RunnableReady prev) ?xs) = (conditions, changed, m')"
    using f by (simp add: AddPositive_def add_all_Cons)
  have "cond_Status c = ConditionFalse" using run_error_False [of "rc_isForbidden env" e] ce by simp
  then have "cond_Status (last conditions) = ConditionFalse" using cm.finalize_False_iff [OF f'] by simp
  moreover have "cond_Type (last conditions) = ''Ready''"
    using cm.finalize_last_sel(1) [OF f'] by (simp add: top_condition_def mk_condition_def RunnableReady_def split: prod.split)
  moreover have "rst_Outputs (rn_Status ?w) \<noteq> None" using assms(3) by (simp add: with_template_kind_def)
  moreover have upd: "fst (StatusUpdate (rc_client env) rp obj) = None" for rp obj by (simp add: StatusUpdate_def assms(4) case_prod_beta)
  ultimately have "\<exists>conditions. cond_Type (last conditions) = ''Ready'' \<and> cond_Status (last conditions) = ConditionFalse \<and>
      cs_repo st' = snd (StatusUpdate (rc_client env) (cs_repo st) (ObjRunnable (set_runnable_status ?w conditions None)))"
    using comp by (intro exI [of _ conditions]) (auto simp: run_completeReconciliation_def f split: prod.splits option.splits if_splits)
  moreover have "err = returned_error (Some e')"
    using comp upd [of "cs_repo st"] by (auto simp: run_completeReconciliation_def f split: prod.splits option.splits if_splits) (metis fst_conv option.distinct(1))+
  ultimately show ?thesis using run_error_requeued [of "rc_isForbidden env" e] ce by (simp add: returned_error_def)
qed

section \<open>Witnesses\<close>

definition example_rc_env :: "unstructured list run_env" where
  "example_rc_env =
     \<lparr>rc_client = empty_cluster_client\<lparr>cl_GetRunnable := \<lambda>w n. Inr example_runnable\<rparr>, rc_createToken = \<lambda>w ns name tr. (Inr tr, w),
      rc_rnd = 0, rc_now = 1, rc_later = 2, rc_clientBuilder = \<lambda>token. Inr example_run_env, rc_isForbidden = \<lambda>e. False,
      rc_conditions = \<lambda>v. Inr [], rc_watch = \<lambda>ws g. None\<rparr>"

definition example_run_state :: "unstructured list owner_state" where
  "example_run_state =
     \<lparr>cs_repo = \<lparr>rg_world = [], rg_cache = NewCache, rg_events = []\<rparr>, cs_tracker = NewDependencyTracker 10, os_tokens = fmempty, os_watched = []\<rparr>"

theorem runnable_dependencies_tracked_witness:
  "\<exists>err st'. run_Reconcile example_rc_env example_run_state \<lparr>nn_Namespace = ''ns'', nn_Name = ''run''\<rparr> = Ret (err, st') \<and>
     \<lparr>nn_Namespace = ''ns'', nn_Name = ''run''\<rparr> \<in>
       set (fst (Lookup (\<lambda>s. sorted_list_of_fset (fmdom s)) 5 (cs_tracker st') (service_account_key ''default'' ''ns'')))"
proof -
  let ?req = "\<lparr>nn_Namespace = ''ns'', nn_Name = ''run''\<rparr>"
  have get: "GetRunnable (rc_client example_rc_env) (cs_repo example_run_state) (nn_Name ?req) (nn_Namespace ?req) = Ret (Some example_runnable)"
    by (simp add: GetRunnable_def optional_object_def getObject_def example_rc_env_def)
  have "\<exists>e. GetServiceAccount (rc_client example_rc_env) r name ns = Err e" for r name ns
    by (simp add: GetServiceAccount_def getObject_def example_rc_env_def empty_cluster_client_def list_client_def)
  then obtain e where "GetServiceAccount (rc_client example_rc_env) (cs_repo example_run_state) ''default'' ''ns'' = Err e" by blast
  then obtain err st' where run: "run_Reconcile example_rc_env example_run_state ?req = Ret (err, st')"
    using get by (simp add: run_Reconcile_def reconcile_runnable_def run_serviceAccountName_def example_runnable_def Let_def) (metis prod.collapse)
  have "5 \<le> rc_now example_rc_env + tr_leaseDuration (cs_tracker example_run_state)"
    by (simp add: example_rc_env_def example_run_state_def NewDependencyTracker_def)
  from runnable_dependencies_tracked [OF sorted_keys.ord_set sorted_keys.ord_distinct get run this, of "service_account_key ''default'' ''ns''"] run
  show ?thesis by (simp add: runnable_name_def example_runnable_def run_serviceAccountName_def)
qed

definition finished_runnable :: Runnable where
  "finished_runnable = example_runnable\<lparr>rn_Status := (rn_Status example_runnable)\<lparr>rst_Outputs := Some (fmap_of_list [(''k'', ''1'')])\<rparr>\<rparr>"

theorem failed_run_withdraws_outputs_witness:
  "\<exists>res r' err st' conditions. run_Realize example_run_env finished_runnable example_run_repo = Ret (res, r') \<and>
     run_realized example_rc_env (with_template_kind finished_runnable) res (NewConditionManager RunnableReady []) example_run_state = (err, st') \<and>
     err \<noteq> None \<and> cs_repo st' = snd (StatusUpdate (rc_client example_rc_env) (cs_repo example_run_state)
       (ObjRunnable (set_runnable_status (with_template_kind finished_runnable) conditions None)))"
proof -
  obtain res r' e tr where run: "run_Realize example_run_env finished_runnable example_run_repo = Ret (res, r')"
      "ru_err res = Some (RunnableGetRunTemplateError e tr)"
    by (simp add: run_Realize_def GetRunTemplate_def example_run_env_def list_client_def run_return_def Let_def)
  have outs: "rst_Outputs (rn_Status finished_runnable) \<noteq> None" by (simp add: finished_runnable_def)
  have upd: "fst (cl_StatusUpdate (rc_client example_rc_env) w obj) = None" "rc_watch example_rc_env ws g = None" for w obj ws g
    by (simp_all add: example_rc_env_def empty_cluster_client_def list_client_def)
  obtain err st' where rz: "run_realized example_rc_env (with_template_kind finished_runnable) res (NewConditionManager RunnableReady []) example_run_state = (err, st')"
    by (cases "run_realized example_rc_env (with_template_kind finished_runnable) res (NewConditionManager RunnableReady []) example_run_state")
  from failed_run_withdraws_outputs [OF run outs upd rz] run(1) rz show ?thesis by auto
qed

end
