(* ===== verification/Wiring.thy ===== *)
theory Wiring
  imports Client_Config Workload_Reconciler Deliverable_Reconciler Runnable_Reconciler
begin

text \<open>
  How the controllers are put together: the \<^verbatim>\<open>SetupWithManager\<close> functions of \<^verbatim>\<open>pkg/controllers\<close>, which create the state of a controller and
  register its watches, and \<^verbatim>\<open>pkg/cmd/cmd.go\<close>, which registers the controllers and the webhooks and starts the manager.

  controller-runtime is a parameter, the record \<open>manager\<close>.  A watch is a kind of object with the handler of its events; \<open>dispatch\<close> is
  what controller-runtime does with the watches of a controller when an object changes: it runs the handlers registered for its
  kind and queues the requests they return.
\<close>

section \<open>Watches\<close>

datatype event_handler =
    EnqueueRequestForObject
  | MapBlueprint "mapper_client \<Rightarrow> NamespacedName list"
  | MapAccount account_map_func
  | MapRBAC map_func
  | Tracked string

record controller =
  ctl_For :: string
  ctl_MaxConcurrentReconciles :: "int option"
  ctl_Watches :: "(string \<times> event_handler) list"

text \<open>A changed object: its kind and name, or as much of it as its handlers read.\<close>

datatype changed_object =
    ChangedObject string NamespacedName
  | ChangedAccount ServiceAccount
  | ChangedRBAC watched

fun changed_kind :: "changed_object \<Rightarrow> string" where
  "changed_kind (ChangedObject kind name) = kind"
| "changed_kind (ChangedAccount sa) = ''ServiceAccount''"
| "changed_kind (ChangedRBAC (WRole ns n)) = ''Role''"
| "changed_kind (ChangedRBAC (WClusterRole n)) = ''ClusterRole''"
| "changed_kind (ChangedRBAC (WRoleBinding b)) = ''RoleBinding''"
| "changed_kind (ChangedRBAC (WClusterRoleBinding b)) = ''ClusterRoleBinding''"

fun changed_name :: "changed_object \<Rightarrow> NamespacedName" where
  "changed_name (ChangedObject kind name) = name"
| "changed_name (ChangedAccount sa) = \<lparr>nn_Namespace = sa_Namespace sa, nn_Name = sa_Name sa\<rparr>"
| "changed_name (ChangedRBAC (WRole ns n)) = \<lparr>nn_Namespace = ns, nn_Name = n\<rparr>"
| "changed_name (ChangedRBAC (WClusterRole n)) = \<lparr>nn_Namespace = '''', nn_Name = n\<rparr>"
| "changed_name (ChangedRBAC (WRoleBinding b)) = \<lparr>nn_Namespace = rb_Namespace b, nn_Name = rb_Name b\<rparr>"
| "changed_name (ChangedRBAC (WClusterRoleBinding b)) = \<lparr>nn_Namespace = '''', nn_Name = crb_Name b\<rparr>"

record watch_env =
  we_client :: mapper_client
  we_ord :: "lease_set \<Rightarrow> NamespacedName list"
  we_now :: time
  we_ObjectKinds :: "string \<Rightarrow> gerror + GroupVersionKind list"

definition map_args :: "watch_env \<Rightarrow> map_env" where
  "map_args env = (we_client env, we_ord env, we_now env)"

text \<open>A watch delivers only objects of its kind, so the equations for a handler and an object of another kind are never used.\<close>

fun run_handler :: "watch_env \<Rightarrow> event_handler \<Rightarrow> tracker \<Rightarrow> changed_object \<Rightarrow> (NamespacedName list \<times> tracker) go" where
  "run_handler env EnqueueRequestForObject t obj = Ret ([changed_name obj], t)"
| "run_handler env (MapBlueprint f) t obj = Ret (f (we_client env), t)"
| "run_handler env (MapAccount f) t (ChangedAccount sa) = Ret (f (map_args env) t sa)"
| "run_handler env (MapAccount f) t obj = Ret ([], t)"
| "run_handler env (MapRBAC f) t (ChangedRBAC w) = Ret (f (map_args env) t w)"
| "run_handler env (MapRBAC f) t obj = Ret ([], t)"
| "run_handler env (Tracked kind) t obj = EnqueueTracked (we_ord env) (we_ObjectKinds env kind) (we_now env) t (changed_name obj)"

fun dispatch :: "watch_env \<Rightarrow> (string \<times> event_handler) list \<Rightarrow> tracker \<Rightarrow> changed_object \<Rightarrow> (NamespacedName list \<times> tracker) go" where
  "dispatch env [] t obj = Ret ([], t)"
| "dispatch env ((kind, handler) # ws) t obj =
     (if kind = changed_kind obj then
        go_bind (run_handler env handler t obj) (\<lambda>(requests, t1).
          go_bind (dispatch env ws t1 obj) (\<lambda>(more, t2). Ret (requests @ more, t2)))
      else dispatch env ws t obj)"

text \<open>All events of a controller: those of its own kind and those of its watches.\<close>

definition controller_dispatch :: "watch_env \<Rightarrow> controller \<Rightarrow> tracker \<Rightarrow> changed_object \<Rightarrow> (NamespacedName list \<times> tracker) go" where
  "controller_dispatch env ctl = dispatch env ((ctl_For ctl, EnqueueRequestForObject) # ctl_Watches ctl)"

section \<open>Setting up the controllers\<close>

definition ValidSupplyChainTemplates :: "string list" where
  "ValidSupplyChainTemplates = [''ClusterSourceTemplate'', ''ClusterImageTemplate'', ''ClusterConfigTemplate'', ''ClusterTemplate'']"

definition ValidDeliveryTemplates :: "string list" where
  "ValidDeliveryTemplates = [''ClusterSourceTemplate'', ''ClusterDeploymentTemplate'', ''ClusterTemplate'', ''ClusterConfigTemplate'']"

definition DefaultResyncTime :: time where
  "DefaultResyncTime = 10 * 3600 * 1000000000"

definition tracked_watches :: "string list \<Rightarrow> (string \<times> event_handler) list" where
  "tracked_watches kinds = map (\<lambda>template. (template, Tracked template)) kinds"

record 'w manager =
  mg_NewForConfig :: "gerror option"
  mg_Build :: "controller \<Rightarrow> gerror option"
  mg_SetupWebhook :: "string \<Rightarrow> gerror option"
  mg_world :: 'w

text \<open>The repository of a controller with an empty cache and no events yet.\<close>

definition NewRepository :: "'w \<Rightarrow> cache \<Rightarrow> 'w repository" where
  "NewRepository w c = \<lparr>rg_world = w, rg_cache = c, rg_events = []\<rparr>"

definition new_blueprint_state :: "'w manager \<Rightarrow> 'w controller_state" where
  "new_blueprint_state mgr =
     \<lparr>cs_repo = NewRepository (mg_world mgr) NewCache, cs_tracker = NewDependencyTracker (2 * DefaultResyncTime)\<rparr>"

definition new_owner_state :: "'w manager \<Rightarrow> 'w owner_state" where
  "new_owner_state mgr =
     \<lparr>cs_repo = NewRepository (mg_world mgr) NewCache, cs_tracker = NewDependencyTracker (2 * DefaultResyncTime),
      os_tokens = tm_cache (NewManager (mg_world mgr) None), os_watched = []\<rparr>"

definition workload_controller :: "int \<Rightarrow> controller" where
  "workload_controller concurrency =
     \<lparr>ctl_For = ''Workload'', ctl_MaxConcurrentReconciles = Some concurrency,
      ctl_Watches =
        [(''ClusterSupplyChain'', MapBlueprint ClusterSupplyChainToWorkloadRequests),
         (''ServiceAccount'', MapAccount ServiceAccountToWorkloadRequests),
         (''Role'', MapRBAC RoleToWorkloadRequests),
         (''RoleBinding'', MapRBAC RoleBindingToWorkloadRequests),
         (''ClusterRole'', MapRBAC ClusterRoleToWorkloadRequests),
         (''ClusterRoleBinding'', MapRBAC ClusterRoleBindingToWorkloadRequests)]
        @ tracked_watches ValidSupplyChainTemplates\<rparr>"

text \<open>Build a controller in a manager, after the client set of the manager.\<close>

definition workload_SetupWithManager :: "'w manager \<Rightarrow> int \<Rightarrow> gerror + 'w owner_state \<times> controller" where
  "workload_SetupWithManager mgr concurrency =
     (case mg_NewForConfig mgr of
        Some err \<Rightarrow> Inl err
      | None \<Rightarrow>
          (let ctl = workload_controller concurrency
           in case mg_Build mgr ctl of
                Some err \<Rightarrow> Inl (WrapError ''failed to build controller for workload: '' err)
              | None \<Rightarrow> Inr (new_owner_state mgr, ctl)))"

definition deliverable_controller :: "int \<Rightarrow> controller" where
  "deliverable_controller concurrency =
     \<lparr>ctl_For = ''Deliverable'', ctl_MaxConcurrentReconciles = Some concurrency,
      ctl_Watches =
        [(''ClusterDelivery'', MapBlueprint ClusterDeliveryToDeliverableRequests),
         (''ServiceAccount'', MapAccount ServiceAccountToDeliverableRequests),
         (''Role'', MapRBAC RoleToDeliverableRequests),
         (''RoleBinding'', MapRBAC RoleBindingToDeliverableRequests),
         (''ClusterRole'', MapRBAC ClusterRoleToDeliverableRequests),
         (''ClusterRoleBinding'', MapRBAC ClusterRoleBindingToDeliverableRequests)]
        @ tracked_watches ValidDeliveryTemplates\<rparr>"

definition deliverable_SetupWithManager :: "'w manager \<Rightarrow> int \<Rightarrow> gerror + 'w owner_state \<times> controller" where
  "deliverable_SetupWithManager mgr concurrency =
     (case mg_NewForConfig mgr of
        Some err \<Rightarrow> Inl err
      | None \<Rightarrow>
          (let ctl = deliverable_controller concurrency
           in case mg_Build mgr ctl of
                Some err \<Rightarrow> Inl (WrapError ''failed to build controller for deliverable: '' err)
              | None \<Rightarrow> Inr (new_owner_state mgr, ctl)))"

definition runnable_controller :: "int \<Rightarrow> controller" where
  "runnable_controller concurrency =
     \<lparr>ctl_For = ''Runnable'', ctl_MaxConcurrentReconciles = Some concurrency,
      ctl_Watches =
        tracked_watches [''ClusterRunTemplate''] @
        [(''ServiceAccount'', MapAccount ServiceAccountToRunnableRequests),
         (''Role'', MapRBAC RoleToRunnableRequests),
         (''RoleBinding'', MapRBAC RoleBindingToRunnableRequests),
         (''ClusterRole'', MapRBAC ClusterRoleToRunnableRequests),
         (''ClusterRoleBinding'', MapRBAC ClusterRoleBindingToRunnableRequests)]\<rparr>"

definition runnable_SetupWithManager :: "'w manager \<Rightarrow> int \<Rightarrow> gerror + 'w owner_state \<times> controller" where
  "runnable_SetupWithManager mgr concurrency =
     (case mg_NewForConfig mgr of
        Some err \<Rightarrow> Inl err
      | None \<Rightarrow>
          (let ctl = runnable_controller concurrency
           in case mg_Build mgr ctl of
                Some err \<Rightarrow> Inl (WrapError ''failed to build controller for runnable: '' err)
              | None \<Rightarrow> Inr (new_owner_state mgr, ctl)))"

definition supply_chain_controller :: controller where
  "supply_chain_controller =
     \<lparr>ctl_For = ''ClusterSupplyChain'', ctl_MaxConcurrentReconciles = None, ctl_Watches = tracked_watches ValidSupplyChainTemplates\<rparr>"

definition supply_chain_SetupWithManager :: "'w manager \<Rightarrow> gerror + 'w controller_state \<times> controller" where
  "supply_chain_SetupWithManager mgr =
     (case mg_Build mgr supply_chain_controller of Some err \<Rightarrow> Inl err | None \<Rightarrow> Inr (new_blueprint_state mgr, supply_chain_controller))"

definition delivery_controller :: controller where
  "delivery_controller =
     \<lparr>ctl_For = ''ClusterDelivery'', ctl_MaxConcurrentReconciles = None, ctl_Watches = tracked_watches ValidDeliveryTemplates\<rparr>"

definition delivery_SetupWithManager :: "'w manager \<Rightarrow> gerror + 'w controller_state \<times> controller" where
  "delivery_SetupWithManager mgr =
     (case mg_Build mgr delivery_controller of Some err \<Rightarrow> Inl err | None \<Rightarrow> Inr (new_blueprint_state mgr, delivery_controller))"

section \<open>The command\<close>

record Command =
  cmd_Port :: int
  cmd_CertDir :: string
  cmd_MetricsPort :: int
  cmd_PprofPort :: int
  cmd_MaxConcurrentDeliveries :: int
  cmd_MaxConcurrentWorkloads :: int
  cmd_MaxConcurrentRunnables :: int

record 'w controllers =
  cts_Workload :: "'w owner_state \<times> controller"
  cts_SupplyChain :: "'w controller_state \<times> controller"
  cts_Deliverable :: "'w owner_state \<times> controller"
  cts_Delivery :: "'w controller_state \<times> controller"
  cts_Runnable :: "'w owner_state \<times> controller"

text \<open>\<^verbatim>\<open>if err := f; err != nil { return fmt.Errorf(text + "%w", err) }\<close>, then the rest.\<close>

definition or_fail :: "string \<Rightarrow> gerror + 'a \<Rightarrow> ('a \<Rightarrow> gerror + 'b) \<Rightarrow> gerror + 'b" where
  "or_fail message res k = (case res of Inl err \<Rightarrow> Inl (WrapError message err) | Inr v \<Rightarrow> k v)"

definition registerControllers :: "Command \<Rightarrow> 'w manager \<Rightarrow> gerror + 'w controllers" where
  "registerControllers cmd mgr =
     or_fail ''failed to register workload controller: '' (workload_SetupWithManager mgr (cmd_MaxConcurrentWorkloads cmd)) (\<lambda>workload.
     or_fail ''failed to register supply chain controller: '' (supply_chain_SetupWithManager mgr) (\<lambda>supplyChain.
     or_fail ''failed to register deliverable controller: '' (deliverable_SetupWithManager mgr (cmd_MaxConcurrentDeliveries cmd)) (\<lambda>deliverable.
     or_fail ''failed to register delivery controller: '' (delivery_SetupWithManager mgr) (\<lambda>delivery.
     or_fail ''failed to register runnable controller: '' (runnable_SetupWithManager mgr (cmd_MaxConcurrentRunnables cmd)) (\<lambda>runnable.
       Inr \<lparr>cts_Workload = workload, cts_SupplyChain = supplyChain, cts_Deliverable = deliverable, cts_Delivery = delivery,
         cts_Runnable = runnable\<rparr>)))))"

definition webhooks :: "(string \<times> string) list" where
  "webhooks =
     [(''ClusterSupplyChain'', ''failed to setup cluster supply chain webhook: ''),
      (''ClusterDelivery'', ''failed to setup cluster delivery webhook: ''),
      (''ClusterConfigTemplate'', ''failed to setup cluster config template webhook: ''),
      (''ClusterDeploymentTemplate'', ''failed to setup cluster deployment template webhook: ''),
      (''ClusterImageTemplate'', ''failed to setup cluster image template webhook: ''),
      (''ClusterRunTemplate'', ''failed to setup cluster run template webhook: ''),
      (''ClusterSourceTemplate'', ''failed to setup cluster source template webhook: ''),
      (''ClusterTemplate'', ''failed to setup cluster template webhook: '')]"

fun setup_webhooks :: "'w manager \<Rightarrow> (string \<times> string) list \<Rightarrow> gerror + string list" where
  "setup_webhooks mgr [] = Inr []"
| "setup_webhooks mgr ((kind, message) # rest) =
     (case mg_SetupWebhook mgr kind of
        Some err \<Rightarrow> Inl (WrapError message err)
      | None \<Rightarrow> (case setup_webhooks mgr rest of Inl err \<Rightarrow> Inl err | Inr kinds \<Rightarrow> Inr (kind # kinds)))"

definition registerWebhooks :: "'w manager \<Rightarrow> gerror + string list" where
  "registerWebhooks mgr = setup_webhooks mgr webhooks"

record manager_options =
  mo_Port :: int
  mo_CertDir :: string
  mo_BindAddress :: string

text \<open>What \<^verbatim>\<open>Execute\<close> calls; \<open>ex_Start\<close> is \<^verbatim>\<open>mgr.Start\<close> with what has been registered with the manager.\<close>

record 'w exec_env =
  ex_GetConfig :: "gerror option"
  ex_AddToScheme :: "gerror option \<times> gerror option"
  ex_New :: "manager_options \<Rightarrow> gerror + 'w manager"
  ex_Start :: "'w controllers \<Rightarrow> string list \<Rightarrow> gerror option"
  ex_show_int :: "int \<Rightarrow> string"

definition of_err :: "gerror option \<Rightarrow> gerror + unit" where
  "of_err e = (case e of Some err \<Rightarrow> Inl err | None \<Rightarrow> Inr ())"

definition Execute :: "'w exec_env \<Rightarrow> Command \<Rightarrow> gerror + unit" where
  "Execute env cmd =
     or_fail ''get config: '' (of_err (ex_GetConfig env)) (\<lambda>_.
     or_fail ''add to scheme: '' (of_err (AddToScheme (fst (ex_AddToScheme env)) (snd (ex_AddToScheme env)))) (\<lambda>_.
     (let mgrOpts = \<lparr>mo_Port = cmd_Port cmd, mo_CertDir = cmd_CertDir cmd,
            mo_BindAddress = (if cmd_MetricsPort cmd \<noteq> 0 then '':'' @ ex_show_int env (cmd_MetricsPort cmd) else ''0'')\<rparr>
      in or_fail ''failed to create new manager: '' (ex_New env mgrOpts) (\<lambda>mgr.
         or_fail ''failed to register controllers: '' (registerControllers cmd mgr) (\<lambda>controllers.
         (if cmd_CertDir cmd \<noteq> '''' then or_fail ''failed to register webhooks: '' (registerWebhooks mgr) (\<lambda>hooks.
              or_fail ''manager start: '' (of_err (ex_Start env controllers hooks)) (\<lambda>_. Inr ()))
          else or_fail ''manager start: '' (of_err (ex_Start env controllers [])) (\<lambda>_. Inr ())))))))"

text \<open>\<^verbatim>\<open>main\<close>: an error of either call is a panic.\<close>

definition main :: "'w exec_env \<Rightarrow> string \<Rightarrow> Command \<Rightarrow> unit go" where
  "main env verbosity cmd =
     (case SetLogLevel verbosity of
        Inl err \<Rightarrow> Panic (Error err)
      | Inr level \<Rightarrow> (case Execute env cmd of Inl err \<Rightarrow> Panic (Error err) | Inr u \<Rightarrow> Ret ()))"

section \<open>Dispatching an event\<close>

lemma dispatch_none: "changed_kind obj \<notin> fst ` set ws \<Longrightarrow> dispatch env ws t obj = Ret ([], t)"
  by (induction ws) auto

lemma dispatch_one:
  assumes "distinct (map fst ws)" "(changed_kind obj, handler) \<in> set ws"
  shows "dispatch env ws t obj = run_handler env handler t obj"
  using assms
proof (induction ws)
  case (Cons w ws)
  obtain kind h where w: "w = (kind, h)" by fastforce
  show ?case
  proof (cases "kind = changed_kind obj")
    case True
    then have "h = handler" "dispatch env ws t' obj = Ret ([], t')" for t'
      using Cons.prems w dispatch_none [of obj ws] by (force dest: map_of_eq_Some_iff)+
    then show ?thesis using True w by (cases "run_handler env handler t obj") auto
  next
    case False
    then show ?thesis using Cons w by auto
  qed
qed simp

lemmas controller_defs = workload_controller_def deliverable_controller_def runnable_controller_def supply_chain_controller_def
  delivery_controller_def tracked_watches_def ValidSupplyChainTemplates_def ValidDeliveryTemplates_def

text \<open>Every controller watches a kind at most once, its own included.\<close>

lemma watches_distinct:
  "distinct (map fst ((ctl_For (workload_controller n), EnqueueRequestForObject) # ctl_Watches (workload_controller n)))"
  "distinct (map fst ((ctl_For (deliverable_controller n), EnqueueRequestForObject) # ctl_Watches (deliverable_controller n)))"
  "distinct (map fst ((ctl_For (runnable_controller n), EnqueueRequestForObject) # ctl_Watches (runnable_controller n)))"
  "distinct (map fst ((ctl_For supply_chain_controller, EnqueueRequestForObject) # ctl_Watches supply_chain_controller))"
  "distinct (map fst ((ctl_For delivery_controller, EnqueueRequestForObject) # ctl_Watches delivery_controller))"
  by (simp_all add: controller_defs)

lemma tracked_dispatch:
  assumes "distinct (map fst ((ctl_For ctl, EnqueueRequestForObject) # ctl_Watches ctl))" "(kind, Tracked kind) \<in> set (ctl_Watches ctl)"
    and "we_ObjectKinds env kind = Inr (gvk # gvks)"
  shows "controller_dispatch env ctl t (ChangedObject kind name) = Ret (Lookup (we_ord env) (we_now env) t (NewKey gvk name))"
  using dispatch_one [OF assms(1), of "ChangedObject kind name" "Tracked kind"] assms(2,3) by (simp add: controller_dispatch_def EnqueueTracked_def)

lemma blueprint_dispatch:
  assumes "distinct (map fst ((ctl_For ctl, EnqueueRequestForObject) # ctl_Watches ctl))" "(kind, MapBlueprint f) \<in> set (ctl_Watches ctl)"
  shows "controller_dispatch env ctl t (ChangedObject kind name) = Ret (f (we_client env), t)"
  using dispatch_one [OF assms(1), of "ChangedObject kind name" "MapBlueprint f"] assms(2) by (simp add: controller_dispatch_def)

lemma setup_workload:
  "workload_SetupWithManager mgr n = Inr (st, ctl) \<Longrightarrow> st = new_owner_state mgr \<and> ctl = workload_controller n"
  by (auto simp: workload_SetupWithManager_def Let_def split: option.splits)

lemma setup_supply_chain:
  "supply_chain_SetupWithManager mgr = Inr (st, ctl) \<Longrightarrow> st = new_blueprint_state mgr \<and> ctl = supply_chain_controller"
  by (auto simp: supply_chain_SetupWithManager_def split: option.splits)

lemma new_lease [simp]:
  "tr_leaseDuration (cs_tracker (new_owner_state mgr)) = 2 * DefaultResyncTime"
  "tr_leaseDuration (cs_tracker (new_blueprint_state mgr)) = 2 * DefaultResyncTime"
  by (simp_all add: new_owner_state_def new_blueprint_state_def NewDependencyTracker_def)

section \<open>Properties\<close>

text \<open>
  A workload is reconciled when a template it uses changes.  Once a workload has been reconciled and its dependencies tracked, for
  twenty hours a change of the template of any of its resources, of any kind a supply chain may use, is delivered to the
  controller that \<^verbatim>\<open>SetupWithManager\<close> has built and yields a request for the workload.
\<close>

theorem template_change_delivered:
  assumes "\<And>s. set (we_ord env s) = fmdom' s" "\<And>s. distinct (we_ord env s)"
    and "workload_SetupWithManager mgr n = Inr (st0, ctl)" "tr_leaseDuration t = tr_leaseDuration (cs_tracker st0)"
    and "r \<in> set resources" "template_of r = Some ref" "or_Kind ref \<in> set ValidSupplyChainTemplates"
    and "we_ObjectKinds env (or_Kind ref) = Inr (gvk # gvks)" "gvk_Group gvk = SchemeGroup" "gvk_Kind gvk = or_Kind ref"
    and "we_now env \<le> now + 20 * 3600 * 1000000000"
  shows "\<exists>requests t'. controller_dispatch env ctl (trackDependencies now t owner resources sa ns)
      (ChangedObject (or_Kind ref) \<lparr>nn_Namespace = '''', nn_Name = or_Name ref\<rparr>) = Ret (requests, t') \<and> owner \<in> set requests"
proof -
  have ord: "map_order (we_ord env)" using assms(1,2) by unfold_locales
  let ?t = "trackDependencies now t owner resources sa ns"
  have ctl: "ctl = workload_controller n" and lease: "tr_leaseDuration t = 2 * DefaultResyncTime"
    using setup_workload [OF assms(3)] assms(4) by simp_all
  have "(or_Kind ref, Tracked (or_Kind ref)) \<in> set (ctl_Watches ctl)"
    using assms(7) unfolding ctl by (auto simp: workload_controller_def tracked_watches_def)
  from tracked_dispatch [OF watches_distinct(1) this [unfolded ctl] assms(8)]
  have run: "controller_dispatch env ctl ?t (ChangedObject (or_Kind ref) \<lparr>nn_Namespace = '''', nn_Name = or_Name ref\<rparr>) =
      Ret (Lookup (we_ord env) (we_now env) ?t (template_key (or_Kind ref) (or_Name ref)))"
    using assms(9,10) by (simp add: ctl NewKey_def template_key_def)
  have "names_template (key_String (template_key (or_Kind ref) (or_Name ref))) r" using assms(6) by (simp add: names_template_def)
  then have "lease_of ?t (key_String (template_key (or_Kind ref) (or_Name ref))) owner = Some (now + 2 * DefaultResyncTime)"
    using assms(5) lease by (auto simp: trackDependencies_lease)
  then have "owner \<in> set (fst (Lookup (we_ord env) (we_now env) ?t (template_key (or_Kind ref) (or_Name ref))))"
    using map_order.lookup_split(2) [OF ord surjective_pairing] assms(11) by (auto simp: DefaultResyncTime_def)
  then show ?thesis using run by (metis prod.collapse)
qed

text \<open>
  C26: a template that a supply chain names but that does not exist yet reaches the workloads once it is created: a supply chain tracks its
  templates whether they exist or not, the creation of the template within twenty hours yields a request for the supply chain, and
  the change of its status yields a request for every workload of the cluster.
\<close>

theorem created_template_reaches_workloads:
  assumes "\<And>s. set (we_ord env s) = fmdom' s" "\<And>s. distinct (we_ord env s)"
    and "supply_chain_SetupWithManager mgr = Inr (st0, ctl)" "workload_SetupWithManager mgr n = Inr (wst0, wctl)"
    and "tr_leaseDuration (cs_tracker st) = tr_leaseDuration (cs_tracker st0)" "reconcileSupplyChain cl now chain st m0 = (None, m, st')"
    and "(resourceName, name, kind) \<in> set (supply_chain_templates chain)" "kind \<in> set ValidSupplyChainTemplates"
    and "we_ObjectKinds env kind = Inr [gvk]" "gvk_Group gvk = SchemeGroup" "gvk_Kind gvk = kind"
    and "we_now env \<le> now + 20 * 3600 * 1000000000" "mc_ListWorkloads (we_client env) = Inr workloads"
  shows "(\<exists>requests t'. controller_dispatch env ctl (cs_tracker st') (ChangedObject kind \<lparr>nn_Namespace = '''', nn_Name = name\<rparr>) = Ret (requests, t') \<and>
      supply_chain_name chain \<in> set requests) \<and>
    (\<forall>t. \<exists>requests. controller_dispatch env wctl t (ChangedObject ''ClusterSupplyChain'' (supply_chain_name chain)) = Ret (requests, t) \<and>
      (\<forall>w \<in> set workloads. workload_name w \<in> set requests))"
proof
  have ctl: "ctl = supply_chain_controller" and wctl: "wctl = workload_controller n"
    and lease: "tr_leaseDuration (cs_tracker st) = 2 * DefaultResyncTime"
    using setup_supply_chain [OF assms(3)] setup_workload [OF assms(4)] assms(5) by simp_all
  have "(kind, Tracked kind) \<in> set (ctl_Watches supply_chain_controller)"
    using assms(8) by (auto simp: supply_chain_controller_def tracked_watches_def)
  note run = tracked_dispatch [OF watches_distinct(4) this assms(9)]
  have "we_now env \<le> now + tr_leaseDuration (cs_tracker st)" using assms(12) lease by (simp add: DefaultResyncTime_def)
  from template_change_enqueues [OF assms(1,2,6,7,10,11) this]
  show "\<exists>requests t'. controller_dispatch env ctl (cs_tracker st') (ChangedObject kind \<lparr>nn_Namespace = '''', nn_Name = name\<rparr>) = Ret (requests, t') \<and>
      supply_chain_name chain \<in> set requests"
    unfolding ctl run by (simp add: EnqueueTracked_def)
  have "(''ClusterSupplyChain'', MapBlueprint ClusterSupplyChainToWorkloadRequests) \<in> set (ctl_Watches wctl)"
    unfolding wctl by (simp add: workload_controller_def)
  from blueprint_dispatch [OF watches_distinct(1) this [unfolded wctl]] assms(13)
  show "\<forall>t. \<exists>requests. controller_dispatch env wctl t (ChangedObject ''ClusterSupplyChain'' (supply_chain_name chain)) = Ret (requests, t) \<and>
      (\<forall>w \<in> set workloads. workload_name w \<in> set requests)"
    unfolding wctl by (auto simp: ClusterSupplyChainToWorkloadRequests_def workload_name_def)
qed

lemma setup_webhooks_Inr: "setup_webhooks mgr ws = Inr kinds \<Longrightarrow> kinds = map fst ws"
  by (induction ws arbitrary: kinds) (auto split: option.splits sum.splits)

lemma or_fail_Inr: "or_fail message res k = Inr v \<longleftrightarrow> (\<exists>x. res = Inr x \<and> k x = Inr v)"
  by (auto simp: or_fail_def split: sum.splits)

lemma of_err_Inr: "of_err e = Inr u \<longleftrightarrow> e = None"
  by (auto simp: of_err_def split: option.splits)

text \<open>
  The controller process only runs complete.  When the command ends without an error, the manager was started with all five controllers,
  each with the concurrency that was asked for, and with the webhooks of all eight blueprint and template kinds, or with none when
  there is no directory with certificates.
\<close>

theorem command_runs_complete:
  assumes "Execute env cmd = Inr ()"
  shows "\<exists>controllers hooks. ex_Start env controllers hooks = None \<and>
    snd (cts_Workload controllers) = workload_controller (cmd_MaxConcurrentWorkloads cmd) \<and>
    snd (cts_SupplyChain controllers) = supply_chain_controller \<and>
    snd (cts_Deliverable controllers) = deliverable_controller (cmd_MaxConcurrentDeliveries cmd) \<and>
    snd (cts_Delivery controllers) = delivery_controller \<and>
    snd (cts_Runnable controllers) = runnable_controller (cmd_MaxConcurrentRunnables cmd) \<and>
    set hooks = (if cmd_CertDir cmd = '''' then {} else {''ClusterSupplyChain'', ''ClusterDelivery'', ''ClusterRunTemplate'', ''ClusterDeploymentTemplate''}
      \<union> set ValidSupplyChainTemplates)"
proof -
  obtain mgr controllers hooks where reg: "registerControllers cmd mgr = Inr controllers" and start: "ex_Start env controllers hooks = None"
    and hooks: "if cmd_CertDir cmd \<noteq> '''' then registerWebhooks mgr = Inr hooks else hooks = []"
    using assms by (cases "cmd_CertDir cmd = ''''") (auto simp: Execute_def or_fail_Inr of_err_Inr Let_def)
  have "snd (cts_Workload controllers) = workload_controller (cmd_MaxConcurrentWorkloads cmd)"
      "snd (cts_SupplyChain controllers) = supply_chain_controller"
      "snd (cts_Deliverable controllers) = deliverable_controller (cmd_MaxConcurrentDeliveries cmd)"
      "snd (cts_Delivery controllers) = delivery_controller"
      "snd (cts_Runnable controllers) = runnable_controller (cmd_MaxConcurrentRunnables cmd)"
    using reg by (auto simp: registerControllers_def or_fail_Inr workload_SetupWithManager_def supply_chain_SetupWithManager_def
        deliverable_SetupWithManager_def delivery_SetupWithManager_def runnable_SetupWithManager_def Let_def split: option.splits)
  moreover have "set hooks = (if cmd_CertDir cmd = '''' then {} else {''ClusterSupplyChain'', ''ClusterDelivery'', ''ClusterRunTemplate'',
      ''ClusterDeploymentTemplate''} \<union> set ValidSupplyChainTemplates)"
  proof (cases "cmd_CertDir cmd = ''''")
    case False
    then have "hooks = map fst webhooks" using hooks setup_webhooks_Inr by (simp add: registerWebhooks_def)
    then show ?thesis using False by (auto simp: webhooks_def ValidSupplyChainTemplates_def)
  qed (use hooks in simp)
  ultimately show ?thesis using start by blast
qed

section \<open>Witnesses\<close>

definition example_manager :: "unstructured list manager" where
  "example_manager = \<lparr>mg_NewForConfig = None, mg_Build = \<lambda>c. None, mg_SetupWebhook = \<lambda>k. None, mg_world = []\<rparr>"

definition example_watch_env :: watch_env where
  "example_watch_env =
     \<lparr>we_client = example_client\<lparr>mc_ListWorkloads := Inr [example_workload]\<rparr>, we_ord = \<lambda>s. sorted_list_of_fset (fmdom s), we_now = 5,
      we_ObjectKinds = \<lambda>kind. Inr [\<lparr>gvk_Group = SchemeGroup, gvk_Version = SchemeVersion, gvk_Kind = kind\<rparr>]\<rparr>"

lemma example_setup:
  "workload_SetupWithManager example_manager 2 = Inr (new_owner_state example_manager, workload_controller 2)"
  "supply_chain_SetupWithManager example_manager = Inr (new_blueprint_state example_manager, supply_chain_controller)"
  by (simp_all add: workload_SetupWithManager_def supply_chain_SetupWithManager_def example_manager_def)

lemma example_order: "set (we_ord example_watch_env s) = fmdom' s" "distinct (we_ord example_watch_env s)"
  using sorted_keys.ord_set sorted_keys.ord_distinct by (simp_all add: example_watch_env_def)

lemma example_kinds:
  "we_ObjectKinds example_watch_env kind = Inr [\<lparr>gvk_Group = SchemeGroup, gvk_Version = SchemeVersion, gvk_Kind = kind\<rparr>]"
  by (simp add: example_watch_env_def)

theorem template_change_delivered_witness:
  "\<exists>ref requests t'. template_of (example_status ''a'') = Some ref \<and>
     controller_dispatch example_watch_env (workload_controller 2)
       (trackDependencies 0 (cs_tracker (new_owner_state example_manager)) example_owner [example_status ''a''] ''default'' ''dev'')
       (ChangedObject (or_Kind ref) \<lparr>nn_Namespace = '''', nn_Name = or_Name ref\<rparr>) = Ret (requests, t') \<and> example_owner \<in> set requests"
proof -
  obtain ref where ref: "template_of (example_status ''a'') = Some ref" "or_Kind ref \<in> set ValidSupplyChainTemplates"
    by (simp add: example_status_def ValidSupplyChainTemplates_def)
  have now: "we_now example_watch_env \<le> 0 + 20 * 3600 * 1000000000" by (simp add: example_watch_env_def)
  from template_change_delivered [OF example_order example_setup(1) refl _ ref example_kinds _ _ now,
      of "[example_status ''a'']" example_owner "''default''" "''dev''"] ref(1)
  show ?thesis by auto
qed

theorem created_template_reaches_workloads_witness:
  "\<exists>m st' requests t'. reconcileSupplyChain empty_cluster_client 0 example_chain (new_blueprint_state example_manager) (NewConditionManager BlueprintReady []) = (None, m, st') \<and>
     controller_dispatch example_watch_env supply_chain_controller (cs_tracker st') (ChangedObject ''ClusterTemplate'' \<lparr>nn_Namespace = '''', nn_Name = ''t''\<rparr>) =
       Ret (requests, t') \<and> supply_chain_name example_chain \<in> set requests"
proof -
  have "GetTemplate empty_cluster_client (cs_repo (new_blueprint_state example_manager)) ''t'' ''ClusterTemplate'' = Ret None"
    by (simp add: GetTemplate_def GetAPITemplate_def empty_cluster_client_def list_client_def getObject_def optional_object_def)
  then obtain m st' where r: "reconcileSupplyChain empty_cluster_client 0 example_chain (new_blueprint_state example_manager) (NewConditionManager BlueprintReady []) =
      (None, m, st')"
    by (simp add: reconcileSupplyChain_def reconcile_templates_def example_templates validateResource_def)
  have facts: "(''a'', ''t'', ''ClusterTemplate'') \<in> set (supply_chain_templates example_chain)" "''ClusterTemplate'' \<in> set ValidSupplyChainTemplates"
      "we_now example_watch_env \<le> 0 + 20 * 3600 * 1000000000" "mc_ListWorkloads (we_client example_watch_env) = Inr [example_workload]"
    by (simp_all add: example_templates ValidSupplyChainTemplates_def example_watch_env_def)
  from created_template_reaches_workloads [OF example_order example_setup(2,1) refl r facts(1,2) example_kinds _ _ facts(3,4)] r
  show ?thesis by auto
qed

definition example_exec_env :: "unstructured list exec_env" where
  "example_exec_env =
     \<lparr>ex_GetConfig = None, ex_AddToScheme = (None, None), ex_New = \<lambda>opts. Inr example_manager,
      ex_Start = \<lambda>cs hooks. if ''ClusterSupplyChain'' \<in> set hooks then None else Some (ErrorString ''no webhook''), ex_show_int = \<lambda>i. ''''\<rparr>"

definition example_command :: Command where
  "example_command =
     \<lparr>cmd_Port = 9443, cmd_CertDir = ''/certs'', cmd_MetricsPort = 0, cmd_PprofPort = 0, cmd_MaxConcurrentDeliveries = 2,
      cmd_MaxConcurrentWorkloads = 2, cmd_MaxConcurrentRunnables = 3\<rparr>"

theorem command_runs_complete_witness:
  "\<exists>controllers hooks. ex_Start example_exec_env controllers hooks = None \<and> snd (cts_Runnable controllers) = runnable_controller 3 \<and>
     ''ClusterTemplate'' \<in> set hooks"
proof -
  have "Execute example_exec_env example_command = Inr ()"
    by (simp add: Execute_def or_fail_def of_err_def AddToScheme_def registerControllers_def workload_SetupWithManager_def supply_chain_SetupWithManager_def
        deliverable_SetupWithManager_def delivery_SetupWithManager_def runnable_SetupWithManager_def example_manager_def registerWebhooks_def webhooks_def
        example_exec_env_def example_command_def)
  from command_runs_complete [OF this] show ?thesis by (auto simp: example_command_def ValidSupplyChainTemplates_def)
qed

end
