(* ===== verification/Controller_Runs.thy ===== *)
theory Controller_Runs
  imports Wiring
begin

text \<open>
  A controller over time: objects change and their watches queue requests, queued requests are reconciled, and the rest of the cluster
  goes on.  \<open>controller_step\<close> is one such step and \<open>controller_run\<close> a sequence of them, for any of the controllers.

  The queue is the work queue of controller-runtime, a set of requests: a request leaves it when it is reconciled and is queued again when the
  reconciliation returns an error.  A reconciliation is one step, which is what controller-runtime guarantees for the same request;
  the clock never runs backwards.
\<close>

section \<open>Steps\<close>

record 's control =
  cq_state :: 's
  cq_queue :: "NamespacedName set"
  cq_now :: time

datatype run_event = Changed watch_env changed_object | Reconciled NamespacedName | Elapsed

text \<open>\<open>ok\<close> is what a reconciliation relies on of the API server; \<open>clock\<close> is the time in its environment.\<close>

inductive controller_step ::
  "('e \<Rightarrow> ('w, 'z) controller_state_scheme \<Rightarrow> NamespacedName \<Rightarrow> bool) \<Rightarrow> ('e \<Rightarrow> time) \<Rightarrow>
   ('e \<Rightarrow> ('w, 'z) controller_state_scheme \<Rightarrow> NamespacedName \<Rightarrow> (gerror option \<times> ('w, 'z) controller_state_scheme) go) \<Rightarrow> controller \<Rightarrow>
   ('w, 'z) controller_state_scheme control \<Rightarrow> run_event \<Rightarrow> ('w, 'z) controller_state_scheme control \<Rightarrow> bool"
  for ok clock reconcile ctl where
  changed: "map_order (we_ord env) \<Longrightarrow> cq_now s \<le> we_now env \<Longrightarrow>
    controller_dispatch env ctl (cs_tracker (cq_state s)) obj = Ret (requests, t') \<Longrightarrow>
    controller_step ok clock reconcile ctl s (Changed env obj)
      \<lparr>cq_state = (cq_state s)\<lparr>cs_tracker := t'\<rparr>, cq_queue = cq_queue s \<union> set requests, cq_now = we_now env\<rparr>"
| reconciled: "req \<in> cq_queue s \<Longrightarrow> cq_now s \<le> clock e \<Longrightarrow> ok e (cq_state s) req \<Longrightarrow>
    reconcile e (cq_state s) req = Ret (err, st') \<Longrightarrow>
    controller_step ok clock reconcile ctl s (Reconciled req)
      \<lparr>cq_state = st', cq_queue = (cq_queue s - {req}) \<union> (if err = None then {} else {req}), cq_now = clock e\<rparr>"
| elapsed: "cq_now s \<le> later \<Longrightarrow>
    controller_step ok clock reconcile ctl s Elapsed
      (s\<lparr>cq_state := (cq_state s)\<lparr>cs_repo := (cs_repo (cq_state s))\<lparr>rg_world := w\<rparr>\<rparr>, cq_now := later\<rparr>)"

inductive controller_run ::
  "('e \<Rightarrow> ('w, 'z) controller_state_scheme \<Rightarrow> NamespacedName \<Rightarrow> bool) \<Rightarrow> ('e \<Rightarrow> time) \<Rightarrow>
   ('e \<Rightarrow> ('w, 'z) controller_state_scheme \<Rightarrow> NamespacedName \<Rightarrow> (gerror option \<times> ('w, 'z) controller_state_scheme) go) \<Rightarrow> controller \<Rightarrow>
   ('w, 'z) controller_state_scheme control \<Rightarrow> run_event list \<Rightarrow> ('w, 'z) controller_state_scheme control \<Rightarrow> bool"
  for ok clock reconcile ctl where
  start: "controller_run ok clock reconcile ctl s [] s"
| step: "controller_step ok clock reconcile ctl s l s1 \<Longrightarrow> controller_run ok clock reconcile ctl s1 ls s' \<Longrightarrow>
    controller_run ok clock reconcile ctl s (l # ls) s'"


section \<open>Watches keep live leases\<close>

text \<open>What a lookup may do to a tracker: drop leases that have expired, nothing else.\<close>

definition shrunk :: "time \<Rightarrow> tracker \<Rightarrow> tracker \<Rightarrow> bool" where
  "shrunk now t t' \<longleftrightarrow>
     (\<forall>d. tracker_invar d t \<longrightarrow> tracker_invar d t') \<and>
     (\<forall>ref obj e. lease_of t' ref obj = Some e \<longrightarrow> lease_of t ref obj = Some e) \<and>
     (\<forall>ref obj e. lease_of t ref obj = Some e \<longrightarrow> now \<le> e \<longrightarrow> lease_of t' ref obj = Some e)"

definition keeps :: "time \<Rightarrow> (tracker \<Rightarrow> NamespacedName list \<times> tracker) \<Rightarrow> bool" where
  "keeps now f \<longleftrightarrow> (\<forall>t. shrunk now t (snd (f t)))"

named_theorems keeps_intros \<open>handlers that keep live leases\<close>

lemma shrunk_refl [simp]: "shrunk now t t"
  by (simp add: shrunk_def)

lemma shrunk_trans: "shrunk now t t1 \<Longrightarrow> shrunk now t1 t2 \<Longrightarrow> shrunk now t t2"
  unfolding shrunk_def by blast

lemma shrunk_lease: "shrunk now t t' \<Longrightarrow> lease_of t ref obj = Some e \<Longrightarrow> now \<le> e \<Longrightarrow> lease_of t' ref obj = Some e"
  unfolding shrunk_def by blast

lemma keeps_nothing [keeps_intros]: "keeps now (\<lambda>t. (xs, t))"
  by (simp add: keeps_def)

lemma keeps_lookup [keeps_intros]: "map_order ord \<Longrightarrow> keeps now (\<lambda>t. Lookup ord now t r)"
  unfolding keeps_def
proof
  fix t
  assume ord: "map_order ord"
  note split = map_order.lookup_split(3,4) [OF ord surjective_pairing, where now = now and i = t and r = r]
  show "shrunk now t (snd (Lookup ord now t r))"
    unfolding shrunk_def using split by (auto split: option.splits if_splits)
qed

lemma keeps_append [keeps_intros]: "(\<And>x. x \<in> set xs \<Longrightarrow> keeps now (\<lambda>t. f t x)) \<Longrightarrow> keeps now (\<lambda>t. append_requests f t xs)"
proof (induction xs)
  case (Cons x xs)
  then have "keeps now (\<lambda>t. f t x)" "keeps now (\<lambda>t. append_requests f t xs)" by simp_all
  then show ?case by (auto simp: keeps_def Let_def case_prod_beta intro: shrunk_trans)
qed (simp add: keeps_def)

lemma keeps_account [keeps_intros]: "map_order ord \<Longrightarrow> keeps now (\<lambda>t. ServiceAccountToRequests (cl, ord, now) t sa)"
  by (cases "addGVK cl sa") (auto simp: ServiceAccountToRequests_def intro!: keeps_intros)

lemma keeps_bindings [keeps_intros]:
  assumes "map_order ord"
  shows "keeps now (\<lambda>t. RoleBindingToRequests (cl, ord, now) t obj)" "keeps now (\<lambda>t. ClusterRoleBindingToRequests (cl, ord, now) t obj)"
  using assms by (cases obj; auto simp: RoleBindingToRequests_def ClusterRoleBindingToRequests_def intro!: keeps_intros)+

lemma keeps_roles [keeps_intros]:
  assumes "map_order ord"
  shows "keeps now (\<lambda>t. RoleToRequests (cl, ord, now) t obj)" "keeps now (\<lambda>t. ClusterRoleToRequests (cl, ord, now) t obj)"
proof -
  show "keeps now (\<lambda>t. RoleToRequests (cl, ord, now) t obj)"
    using assms by (cases obj; cases "mc_ListRoleBindings cl (Some (role_Namespace obj))") (auto simp: RoleToRequests_def intro!: keeps_intros)
  let ?crb = "\<lambda>t xs. append_requests (\<lambda>t crb. ClusterRoleBindingToRequests (cl, ord, now) t (WClusterRoleBinding crb)) t xs"
  let ?rb = "\<lambda>t xs. append_requests (\<lambda>t rb. RoleBindingToRequests (cl, ord, now) t (WRoleBinding rb)) t xs"
  have "keeps now (\<lambda>t. ?crb t xs)" "keeps now (\<lambda>t. ?rb t ys)" for xs ys using assms by (auto intro!: keeps_intros)
  then have "shrunk now t (snd (?crb t xs))" "shrunk now t (snd (?rb (snd (?crb t xs)) ys))" for t xs ys
    using shrunk_trans unfolding keeps_def by blast+
  then show "keeps now (\<lambda>t. ClusterRoleToRequests (cl, ord, now) t obj)"
    by (auto simp: ClusterRoleToRequests_def keeps_def Let_def case_prod_beta split: watched.split sum.split)
qed

definition handler_keeps :: "event_handler \<Rightarrow> bool" where
  "handler_keeps h \<longleftrightarrow>
     (\<forall>env t obj requests t'. map_order (we_ord env) \<longrightarrow> run_handler env h t obj = Ret (requests, t') \<longrightarrow> shrunk (we_now env) t t')"

lemma dispatch_keeps:
  assumes "\<forall>(kind, h) \<in> set ws. handler_keeps h" "map_order (we_ord env)" "dispatch env ws t obj = Ret (requests, t')"
  shows "shrunk (we_now env) t t'"
  using assms
proof (induction ws arbitrary: t requests)
  case (Cons w ws)
  obtain kind h where w: "w = (kind, h)" by fastforce
  show ?case
  proof (cases "kind = changed_kind obj")
    case True
    then obtain r1 t1 r2 where s: "run_handler env h t obj = Ret (r1, t1)" "dispatch env ws t1 obj = Ret (r2, t')"
      using Cons.prems(3) w by (auto simp: go_bind_Ret_iff split: prod.splits)
    then have "shrunk (we_now env) t t1" using Cons.prems(1,2) w unfolding handler_keeps_def by fastforce
    then show ?thesis using Cons s(2) by (auto intro: shrunk_trans)
  next
    case False
    then show ?thesis using Cons w by auto
  qed
qed simp

lemma keepsD: "keeps now f \<Longrightarrow> f t = (requests, t') \<Longrightarrow> shrunk now t t'"
  unfolding keeps_def by (metis snd_conv)

lemma account_handler_keeps:
  assumes "\<And>cl ord now sa. map_order ord \<Longrightarrow> keeps now (\<lambda>t. f (cl, ord, now) t sa)"
  shows "handler_keeps (MapAccount f)"
  unfolding handler_keeps_def
proof (intro allI impI)
  fix env t obj requests t'
  assume "map_order (we_ord env)" "run_handler env (MapAccount f) t obj = Ret (requests, t')"
  then show "shrunk (we_now env) t t'" by (cases obj) (auto simp: map_args_def intro: keepsD [OF assms])
qed

lemma rbac_handler_keeps:
  assumes "\<And>cl ord now w. map_order ord \<Longrightarrow> keeps now (\<lambda>t. f (cl, ord, now) t w)"
  shows "handler_keeps (MapRBAC f)"
  unfolding handler_keeps_def
proof (intro allI impI)
  fix env t obj requests t'
  assume "map_order (we_ord env)" "run_handler env (MapRBAC f) t obj = Ret (requests, t')"
  then show "shrunk (we_now env) t t'" by (cases obj) (auto simp: map_args_def intro: keepsD [OF assms])
qed

lemma other_handler_keeps: "handler_keeps EnqueueRequestForObject" "handler_keeps (MapBlueprint g)" "handler_keeps (Tracked kind)"
  by (auto simp: handler_keeps_def EnqueueTracked_def intro: keepsD [OF keeps_lookup] split: sum.splits list.splits)

lemmas handler_keeps_intros = other_handler_keeps account_handler_keeps [OF keeps_account] rbac_handler_keeps [OF keeps_bindings(1)]
  rbac_handler_keeps [OF keeps_bindings(2)] rbac_handler_keeps [OF keeps_roles(1)] rbac_handler_keeps [OF keeps_roles(2)]

lemmas mapper_instances = ServiceAccountToWorkloadRequests_def RoleToWorkloadRequests_def RoleBindingToWorkloadRequests_def
  ClusterRoleToWorkloadRequests_def ClusterRoleBindingToWorkloadRequests_def ServiceAccountToDeliverableRequests_def RoleToDeliverableRequests_def
  RoleBindingToDeliverableRequests_def ClusterRoleToDeliverableRequests_def ClusterRoleBindingToDeliverableRequests_def
  ServiceAccountToRunnableRequests_def RoleToRunnableRequests_def RoleBindingToRunnableRequests_def ClusterRoleToRunnableRequests_def
  ClusterRoleBindingToRunnableRequests_def

lemma controllers_keep:
  "\<forall>(kind, h) \<in> set (ctl_Watches (workload_controller n)). handler_keeps h"
  "\<forall>(kind, h) \<in> set (ctl_Watches (deliverable_controller n)). handler_keeps h"
  "\<forall>(kind, h) \<in> set (ctl_Watches (runnable_controller n)). handler_keeps h"
  "\<forall>(kind, h) \<in> set (ctl_Watches supply_chain_controller). handler_keeps h"
  "\<forall>(kind, h) \<in> set (ctl_Watches delivery_controller). handler_keeps h"
  by (simp_all add: controller_defs mapper_instances handler_keeps_intros)

section \<open>No change is lost\<close>

text \<open>What a reconciliation may do to a tracker: drop leases, and take new ones that start now.\<close>

definition renewed :: "time \<Rightarrow> tracker \<Rightarrow> tracker \<Rightarrow> bool" where
  "renewed now t t' \<longleftrightarrow>
     (\<forall>d. tracker_invar d t \<longrightarrow> tracker_invar d t' \<and>
       (\<forall>ref obj e. lease_of t' ref obj = Some e \<longrightarrow> lease_of t ref obj = Some e \<or> e = now + d))"

lemma renewed_refl [simp]: "renewed now t t"
  by (simp add: renewed_def)

lemma renewed_Track: "renewed now t t1 \<Longrightarrow> renewed now t (Track now t1 k n)"
proof -
  assume t1: "renewed now t t1"
  have "tracker_invar d (Track now t1 k n) \<and>
      (\<forall>ref obj e. lease_of (Track now t1 k n) ref obj = Some e \<longrightarrow> lease_of t ref obj = Some e \<or> e = now + d)" if "tracker_invar d t" for d
  proof -
    have "tracker_invar d t1" "lease_of t1 ref obj = Some e \<Longrightarrow> lease_of t ref obj = Some e \<or> e = now + d" for ref obj e
      using t1 that unfolding renewed_def by blast+
    then show ?thesis using Track_laws [of d t1] by (auto split: if_splits)
  qed
  then show ?thesis unfolding renewed_def by blast
qed

lemma renewed_Clear: "renewed now t t1 \<Longrightarrow> renewed now t (ClearTracked t1 n)"
  by (auto simp: renewed_def Clear_laws split: if_splits)

lemma renewed_templates: "renewed now t0 t \<Longrightarrow> renewed now t0 (track_templates now t owner rs)"
  by (induction now t owner rs rule: track_templates.induct) (auto intro: renewed_Track split: option.split)

lemma renewed_dependencies: "renewed now t (trackDependencies now t owner rs sa ns)" "renewed now t (run_trackDependencies now t runnable sa)"
  by (auto simp: trackDependencies_def run_trackDependencies_def Let_def intro!: renewed_templates renewed_Track renewed_Clear)

lemma renewed_validate:
  "validate_templates cl now failure b st nf xs = (res, st') \<Longrightarrow> renewed now t0 (cs_tracker st) \<Longrightarrow> renewed now t0 (cs_tracker st')"
  by (induction cl now failure b st nf xs rule: validate_templates.induct)
    (auto simp: validateResource_def intro: renewed_Track split: go.splits)

lemma renewed_reconcile_templates: "reconcile_templates cl now failure b xs st m0 = (err, m, st') \<Longrightarrow> renewed now (cs_tracker st) (cs_tracker st')"
  by (auto simp: reconcile_templates_def dest: renewed_validate [OF _ renewed_refl] split: prod.splits sum.splits)

text \<open>The invariant of a tracker over time: it holds references with owners only, and no lease outlasts the duration.\<close>

definition leases_in_force :: "time \<Rightarrow> time \<Rightarrow> tracker \<Rightarrow> bool" where
  "leases_in_force d now t \<longleftrightarrow> tracker_invar d t \<and> (\<forall>ref obj e. lease_of t ref obj = Some e \<longrightarrow> e \<le> now + d)"

lemma shrunk_in_force:
  assumes "shrunk later t t'" "leases_in_force d now t" "now \<le> later"
  shows "leases_in_force d later t'"
proof -
  have "tracker_invar d t'" "lease_of t' ref obj = Some e \<Longrightarrow> lease_of t ref obj = Some e" for ref obj e
    using assms(1,2) unfolding shrunk_def leases_in_force_def by blast+
  then show ?thesis using assms(2,3) unfolding leases_in_force_def by force
qed

lemma renewed_in_force:
  assumes "renewed later t t'" "leases_in_force d now t" "now \<le> later"
  shows "leases_in_force d later t'"
proof -
  have "tracker_invar d t'" "lease_of t' ref obj = Some e \<Longrightarrow> lease_of t ref obj = Some e \<or> e = later + d" for ref obj e
    using assms(1,2) unfolding renewed_def leases_in_force_def by blast+
  then show ?thesis using assms(2,3) unfolding leases_in_force_def by force
qed

lemma later_in_force: "leases_in_force d now t \<Longrightarrow> now \<le> later \<Longrightarrow> leases_in_force d later t"
  by (rule shrunk_in_force [OF shrunk_refl])

text \<open>The contract between a reconciler and its queue: reconciling one request leaves the leases of the other owners alone and gives its own
  owner leases of the full duration, and the watches of the controller lose no live lease.\<close>

locale tracked_controller =
  fixes ok :: "'e \<Rightarrow> ('w, 'z) controller_state_scheme \<Rightarrow> NamespacedName \<Rightarrow> bool"
    and clock :: "'e \<Rightarrow> time"
    and reconcile :: "'e \<Rightarrow> ('w, 'z) controller_state_scheme \<Rightarrow> NamespacedName \<Rightarrow> (gerror option \<times> ('w, 'z) controller_state_scheme) go"
    and ctl :: controller
  assumes reconcile_others: "ok e st req \<Longrightarrow> reconcile e st req = Ret (err, st') \<Longrightarrow> owner \<noteq> req \<Longrightarrow>
      lease_of (cs_tracker st') ref owner = lease_of (cs_tracker st) ref owner"
    and reconcile_leases: "ok e st req \<Longrightarrow> reconcile e st req = Ret (err, st') \<Longrightarrow> renewed (clock e) (cs_tracker st) (cs_tracker st')"
    and watches_keep: "\<forall>(kind, h) \<in> set (ctl_Watches ctl). handler_keeps h"
    and watched_once: "distinct (map fst ((ctl_For ctl, EnqueueRequestForObject) # ctl_Watches ctl))"
begin

lemma step_time: "controller_step ok clock reconcile ctl s l s' \<Longrightarrow> cq_now s \<le> cq_now s'"
  by (erule controller_step.cases) auto

lemma run_time: "controller_run ok clock reconcile ctl s ls s' \<Longrightarrow> Changed env obj \<in> set ls \<Longrightarrow> cq_now s \<le> we_now env"
proof (induction rule: controller_run.induct)
  case (step s l s1 ls s')
  from step.hyps(1) have "cq_now s \<le> we_now env" if "l = Changed env obj" using that by (auto elim: controller_step.cases)
  then show ?case using step step_time [OF step.hyps(1)] by (auto intro: order_trans)
qed simp

lemma step_lease:
  assumes "controller_step ok clock reconcile ctl s l s'" "l \<noteq> Reconciled owner"
    and "lease_of (cs_tracker (cq_state s)) ref owner = Some e" "cq_now s' \<le> e"
  shows "lease_of (cs_tracker (cq_state s')) ref owner = Some e"
  using assms(1)
proof cases
  case (changed env obj requests t')
  have "\<forall>(kind, h) \<in> set ((ctl_For ctl, EnqueueRequestForObject) # ctl_Watches ctl). handler_keeps h"
    using watches_keep by (simp add: other_handler_keeps)
  from dispatch_keeps [OF this changed(3) changed(5) [unfolded controller_dispatch_def]] assms(3,4) show ?thesis
    unfolding changed(2) by (simp add: shrunk_lease)
next
  case (reconciled req env err st')
  then show ?thesis using reconcile_others assms(2,3) by auto
next
  case (elapsed later w)
  then show ?thesis using assms(3) by simp
qed

lemma step_queue: "controller_step ok clock reconcile ctl s l s' \<Longrightarrow> l \<noteq> Reconciled owner \<Longrightarrow> owner \<in> cq_queue s \<Longrightarrow> owner \<in> cq_queue s'"
  by (erule controller_step.cases) auto

lemma run_queue:
  "controller_run ok clock reconcile ctl s ls s' \<Longrightarrow> Reconciled owner \<notin> set ls \<Longrightarrow> owner \<in> cq_queue s \<Longrightarrow> owner \<in> cq_queue s'"
proof (induction rule: controller_run.induct)
  case (step s l s1 ls s')
  then show ?case using step_queue [OF step.hyps(1), of owner] by auto
qed simp

lemma step_enqueues:
  assumes "controller_step ok clock reconcile ctl s (Changed env (ChangedObject kind name)) s'"
    and "(kind, Tracked kind) \<in> set (ctl_Watches ctl)" "we_ObjectKinds env kind = Inr (gvk # gvks)"
    and "lease_of (cs_tracker (cq_state s)) (key_String (NewKey gvk name)) owner = Some e" "we_now env \<le> e"
  shows "owner \<in> cq_queue s'"
  using assms(1)
proof cases
  case (changed requests t')
  have "Lookup (we_ord env) (we_now env) (cs_tracker (cq_state s)) (NewKey gvk name) = (requests, t')"
    using tracked_dispatch [OF watched_once assms(2,3)] changed by simp
  from map_order.lookup_split(2) [OF changed(2) this] assms(4,5) have "owner \<in> set requests" by blast
  then show ?thesis using changed by simp
qed

lemma step_leases:
  assumes "controller_step ok clock reconcile ctl s l s'" "leases_in_force d (cq_now s) (cs_tracker (cq_state s))"
  shows "leases_in_force d (cq_now s') (cs_tracker (cq_state s'))"
  using assms(1)
proof cases
  case (changed env obj requests t')
  have "\<forall>(kind, h) \<in> set ((ctl_For ctl, EnqueueRequestForObject) # ctl_Watches ctl). handler_keeps h"
    using watches_keep by (simp add: other_handler_keeps)
  from dispatch_keeps [OF this changed(3) changed(5) [unfolded controller_dispatch_def]] assms(2) changed(4)
  show ?thesis unfolding changed(2) by (simp add: shrunk_in_force)
next
  case (reconciled req env err st')
  from reconcile_leases [OF reconciled(5,6)] assms(2) reconciled(4) show ?thesis unfolding reconciled(2) by (simp add: renewed_in_force)
next
  case (elapsed later w)
  then show ?thesis using assms(2) by (simp add: later_in_force)
qed

lemma run_leases:
  "controller_run ok clock reconcile ctl s ls s' \<Longrightarrow> leases_in_force d (cq_now s) (cs_tracker (cq_state s)) \<Longrightarrow>
     leases_in_force d (cq_now s') (cs_tracker (cq_state s'))"
  by (induction rule: controller_run.induct) (simp_all add: step_leases)

theorem change_not_lost:
  assumes "controller_run ok clock reconcile ctl s ls s'" "Reconciled owner \<notin> set ls" "Changed env (ChangedObject kind name) \<in> set ls"
    and "(kind, Tracked kind) \<in> set (ctl_Watches ctl)" "we_ObjectKinds env kind = Inr (gvk # gvks)"
    and "lease_of (cs_tracker (cq_state s)) (key_String (NewKey gvk name)) owner = Some e" "we_now env \<le> e"
  shows "owner \<in> cq_queue s'"
  using assms(1-3,6)
proof (induction rule: controller_run.induct)
  case (step s l s1 ls s')
  show ?case
  proof (cases "l = Changed env (ChangedObject kind name)")
    case True
    then have "owner \<in> cq_queue s1" using step.hyps(1) step.prems(3) assms(4,5,7) step_enqueues by blast
    then show ?thesis using run_queue [OF step.hyps(2)] step.prems(1) by simp
  next
    case False
    then have later: "Changed env (ChangedObject kind name) \<in> set ls" using step.prems(2) by simp
    then have "cq_now s1 \<le> e" using run_time [OF step.hyps(2)] assms(7) by fastforce
    then have "lease_of (cs_tracker (cq_state s1)) (key_String (NewKey gvk name)) owner = Some e"
      using step_lease [OF step.hyps(1)] step.prems(1,3) by auto
    then show ?thesis using step.IH step.prems(1) later by simp
  qed
qed simp

end

section \<open>The five controllers\<close>

text \<open>What every reconciler relies on: an object fetched by name and namespace has this name and namespace.\<close>

definition workload_named :: "'w workload_env \<Rightarrow> 'w owner_state \<Rightarrow> NamespacedName \<Rightarrow> bool" where
  "workload_named env st req \<longleftrightarrow>
     (\<forall>w. GetWorkload (oc_client env) (cs_repo st) (nn_Name req) (nn_Namespace req) = Ret (Some w) \<longrightarrow> workload_name w = req)"

definition deliverable_named :: "'w deliverable_env \<Rightarrow> 'w owner_state \<Rightarrow> NamespacedName \<Rightarrow> bool" where
  "deliverable_named env st req \<longleftrightarrow>
     (\<forall>d. GetDeliverable (oc_client env) (cs_repo st) (nn_Name req) (nn_Namespace req) = Ret (Some d) \<longrightarrow> deliverable_name d = req)"

definition runnable_named :: "'w run_env \<Rightarrow> 'w owner_state \<Rightarrow> NamespacedName \<Rightarrow> bool" where
  "runnable_named env st req \<longleftrightarrow>
     (\<forall>r. GetRunnable (rc_client env) (cs_repo st) (nn_Name req) (nn_Namespace req) = Ret (Some r) \<longrightarrow> runnable_name r = req)"

definition supply_chain_named :: "'w api_client \<times> time \<Rightarrow> 'w controller_state \<Rightarrow> NamespacedName \<Rightarrow> bool" where
  "supply_chain_named env st req \<longleftrightarrow>
     (\<forall>c. GetSupplyChain (fst env) (cs_repo st) (nn_Name req) = Ret (Some c) \<longrightarrow> supply_chain_name c = req)"

definition delivery_named :: "'w api_client \<times> time \<Rightarrow> 'w controller_state \<Rightarrow> NamespacedName \<Rightarrow> bool" where
  "delivery_named env st req \<longleftrightarrow>
     (\<forall>d. GetDelivery (fst env) (cs_repo st) (nn_Name req) = Ret (Some d) \<longrightarrow> delivery_name d = req)"

abbreviation workload_run where
  "workload_run n \<equiv> controller_run workload_named oc_now workload_Reconcile (workload_controller n)"

abbreviation deliverable_run where
  "deliverable_run n \<equiv> controller_run deliverable_named oc_now deliverable_Reconcile (deliverable_controller n)"

abbreviation runnable_run where
  "runnable_run n \<equiv> controller_run runnable_named rc_now run_Reconcile (runnable_controller n)"

abbreviation supply_chain_run where
  "supply_chain_run \<equiv> controller_run supply_chain_named snd (\<lambda>(cl, now) st req. Ret (supply_chain_Reconcile cl now st req)) supply_chain_controller"

abbreviation delivery_run where
  "delivery_run \<equiv> controller_run delivery_named snd (\<lambda>(cl, now) st req. Ret (delivery_Reconcile cl now st req)) delivery_controller"

lemma workload_complete_keeps: "workload_completeReconciliation env w rs m err st = (err', st') \<Longrightarrow> cs_tracker st' = cs_tracker st"
  by (auto simp: workload_completeReconciliation_def split: prod.splits option.splits if_splits)

lemma workload_realize_tracks:
  assumes "workload_realize env w chain sa ns Do m st = Ret (err, st')"
  shows "\<exists>rerr statuses r. Realize Do (oc_realizer env) (oc_outputs env) (oc_clock env) (sc_Name chain) (MakeSupplychainOwnerResources chain)
      (NewResourceStatuses (wst_Resources (wl_Status w)) AddConditionForResourceSubmittedWorkload) (cs_repo st) = Ret (rerr, statuses, r) \<and>
    cs_tracker st' = trackDependencies (oc_now env) (cs_tracker st) (workload_name w) (GetCurrent statuses) sa ns"
  using assms by (auto simp: workload_realize_def go_bind_Ret_iff Let_def case_prod_beta dest!: workload_complete_keeps)

lemma reconcile_workload_tracks:
  assumes "reconcile_workload env w req st = Ret (err, st')"
  shows "cs_tracker st' = cs_tracker st \<or>
    (\<exists>rs sa ns. cs_tracker st' = trackDependencies (oc_now env) (cs_tracker st) (workload_name w) rs sa ns)"
proof -
  note def = reconcile_workload_def Let_def
  obtain res m1 where sel: "getSupplyChainsForWorkload env (cs_repo st) w (NewConditionManager OwnerReady (os_Conditions (wst_OwnerStatus (wl_Status w)))) =
      Ret (res, m1)"
    using assms by (auto simp: def go_bind_Ret_iff)
  show ?thesis
  proof (cases res)
    case (Inl e)
    with assms sel show ?thesis by (auto simp: def dest!: workload_complete_keeps)
  next
    case chain: (Inr chain)
    show ?thesis
    proof (cases "GetObjectGVK (owner_env.truncate env)")
      case (Inl e)
      with assms sel chain show ?thesis by (auto simp: def dest!: workload_complete_keeps)
    next
      case gvk: (Inr gvk)
      let ?w = "w\<lparr>wl_Status := (wl_Status w)\<lparr>wst_SupplyChainRef := (wst_SupplyChainRef (wl_Status w))\<lparr>or_Kind := gvk_Kind gvk, or_Name := sc_Name chain\<rparr>\<rparr>\<rparr>"
      obtain sa ns where account: "getServiceAccountNameAndNamespaceForWorkload ?w chain = (sa, ns)" by fastforce
      note facts = assms [unfolded def sel chain gvk go_bind.simps prod.case sum.case account]
      have same: "workload_name ?w = workload_name w" by (simp add: workload_name_def)
      show ?thesis
        using facts same
        by (auto simp: go_handle_def dest!: workload_complete_keeps token_keeps workload_realize_tracks
            split: go.splits prod.splits sum.splits if_splits) blast+
    qed
  qed
qed

lemma workload_keeps_others:
  "workload_Reconcile env st req = Ret (err, st') \<Longrightarrow> workload_named env st req \<Longrightarrow> owner \<noteq> req \<Longrightarrow>
     lease_of (cs_tracker st') ref owner = lease_of (cs_tracker st) ref owner"
  by (auto simp: workload_Reconcile_def workload_named_def go_handle_def Clear_laws trackDependencies_lease
      dest!: reconcile_workload_tracks split: go.splits option.splits)

lemma workload_renews: "workload_Reconcile env st req = Ret (err, st') \<Longrightarrow> renewed (oc_now env) (cs_tracker st) (cs_tracker st')"
  by (auto simp: workload_Reconcile_def go_handle_def intro: renewed_Clear [OF renewed_refl] renewed_dependencies
      dest!: reconcile_workload_tracks split: go.splits option.splits)

interpretation workloads: tracked_controller workload_named oc_now workload_Reconcile "workload_controller n" for n
  by unfold_locales (blast intro: workload_keeps_others, erule workload_renews, fact controllers_keep, fact watches_distinct)

lemma deliverable_complete_keeps: "deliverable_completeReconciliation env w rs m err st = (err', st') \<Longrightarrow> cs_tracker st' = cs_tracker st"
  by (auto simp: deliverable_completeReconciliation_def split: prod.splits option.splits if_splits)

lemma deliverable_realize_tracks:
  assumes "deliverable_realize env w delivery sa ns Do m st = Ret (err, st')"
  shows "\<exists>rerr statuses r. Realize Do (oc_realizer env) (oc_outputs env) (oc_clock env) (cd_Name delivery) (MakeDeliveryOwnerResources delivery)
      (NewResourceStatuses (dst_Resources (dl_Status w)) AddConditionForResourceSubmittedDeliverable) (cs_repo st) = Ret (rerr, statuses, r) \<and>
    cs_tracker st' = trackDependencies (oc_now env) (cs_tracker st) (deliverable_name w) (GetCurrent statuses) sa ns"
  using assms by (auto simp: deliverable_realize_def deliverable_copies go_bind_Ret_iff Let_def case_prod_beta dest!: deliverable_complete_keeps)

lemma reconcile_deliverable_tracks:
  assumes "reconcile_deliverable env w req st = Ret (err, st')"
  shows "cs_tracker st' = cs_tracker st \<or>
    (\<exists>rs sa ns. cs_tracker st' = trackDependencies (oc_now env) (cs_tracker st) (deliverable_name w) rs sa ns)"
proof -
  note def = reconcile_deliverable_def Let_def
  obtain res m1 where sel: "getDeliveriesForDeliverable env (cs_repo st) w (NewConditionManager OwnerReady (os_Conditions (dst_OwnerStatus (dl_Status w)))) =
      Ret (res, m1)"
    using assms by (auto simp: def go_bind_Ret_iff)
  show ?thesis
  proof (cases res)
    case (Inl e)
    with assms sel show ?thesis by (auto simp: def dest!: deliverable_complete_keeps)
  next
    case delivery: (Inr delivery)
    show ?thesis
    proof (cases "GetObjectGVK (owner_env.truncate env)")
      case (Inl e)
      with assms sel delivery show ?thesis by (auto simp: def dest!: deliverable_complete_keeps)
    next
      case gvk: (Inr gvk)
      let ?w = "w\<lparr>dl_Status := (dl_Status w)\<lparr>dst_DeliveryRef := (dst_DeliveryRef (dl_Status w))\<lparr>or_Kind := gvk_Kind gvk, or_Name := cd_Name delivery\<rparr>\<rparr>\<rparr>"
      obtain sa ns where account: "getServiceAccountNameAndNamespaceForDeliverable ?w delivery = (sa, ns)" by fastforce
      note facts = assms [unfolded def sel delivery gvk go_bind.simps prod.case sum.case account]
      have same: "deliverable_name ?w = deliverable_name w" by (simp add: deliverable_name_def)
      show ?thesis
        using facts same
        by (auto simp: go_handle_def dest!: deliverable_complete_keeps token_keeps deliverable_realize_tracks
            split: go.splits prod.splits sum.splits if_splits) blast+
    qed
  qed
qed

lemma deliverable_keeps_others:
  "deliverable_Reconcile env st req = Ret (err, st') \<Longrightarrow> deliverable_named env st req \<Longrightarrow> owner \<noteq> req \<Longrightarrow>
     lease_of (cs_tracker st') ref owner = lease_of (cs_tracker st) ref owner"
  by (auto simp: deliverable_Reconcile_def deliverable_named_def go_handle_def Clear_laws trackDependencies_lease
      dest!: reconcile_deliverable_tracks split: go.splits option.splits)

lemma deliverable_renews: "deliverable_Reconcile env st req = Ret (err, st') \<Longrightarrow> renewed (oc_now env) (cs_tracker st) (cs_tracker st')"
  by (auto simp: deliverable_Reconcile_def go_handle_def intro: renewed_Clear [OF renewed_refl] renewed_dependencies
      dest!: reconcile_deliverable_tracks split: go.splits option.splits)

interpretation deliverables: tracked_controller deliverable_named oc_now deliverable_Reconcile "deliverable_controller n" for n
  by unfold_locales (blast intro: deliverable_keeps_others, erule deliverable_renews, fact controllers_keep, fact watches_distinct)

lemma runnable_keeps_others:
  "run_Reconcile env st req = Ret (err, st') \<Longrightarrow> runnable_named env st req \<Longrightarrow> owner \<noteq> req \<Longrightarrow>
     lease_of (cs_tracker st') ref owner = lease_of (cs_tracker st) ref owner"
  by (auto simp: run_Reconcile_def runnable_named_def go_handle_def Clear_laws run_trackDependencies_lease
      dest!: reconcile_tracks split: go.splits option.splits)

lemma runnable_renews: "run_Reconcile env st req = Ret (err, st') \<Longrightarrow> renewed (rc_now env) (cs_tracker st) (cs_tracker st')"
  by (auto simp: run_Reconcile_def go_handle_def intro: renewed_Clear [OF renewed_refl] renewed_dependencies
      dest!: reconcile_tracks split: go.splits option.splits)

interpretation runnables: tracked_controller runnable_named rc_now run_Reconcile "runnable_controller n" for n
  by unfold_locales (blast intro: runnable_keeps_others, erule runnable_renews, fact controllers_keep, fact watches_distinct)

lemma validate_templates_others:
  "validate_templates cl now failure b st nf xs = (res, st') \<Longrightarrow> owner \<noteq> b \<Longrightarrow> lease_of (cs_tracker st') k owner = lease_of (cs_tracker st) k owner"
  by (induction cl now failure b st nf xs rule: validate_templates.induct)
    (auto simp: validateResource_def lease_of_Track split: go.splits)

lemma reconcile_templates_others:
  "reconcile_templates cl now failure b xs st m0 = (err, m, st') \<Longrightarrow> owner \<noteq> b \<Longrightarrow> lease_of (cs_tracker st') k owner = lease_of (cs_tracker st) k owner"
  by (auto simp: reconcile_templates_def dest: validate_templates_others split: prod.splits sum.splits)

lemma supply_chain_complete_keeps: "supply_chain_completeReconciliation cl now chain m err st = (err', st') \<Longrightarrow> cs_tracker st' = cs_tracker st"
  by (auto simp: supply_chain_completeReconciliation_def split: prod.splits option.splits if_splits)

lemma delivery_complete_keeps: "delivery_completeReconciliation cl now delivery m err st = (err', st') \<Longrightarrow> cs_tracker st' = cs_tracker st"
  by (auto simp: delivery_completeReconciliation_def split: prod.splits option.splits if_splits)

lemma supply_chain_effect:
  assumes "supply_chain_Reconcile cl now st req = (err, st')" "supply_chain_named (cl, now) st req"
  shows "cs_tracker st' = cs_tracker st \<or>
    (\<exists>failure xs m e m1 st1. reconcile_templates cl now failure req xs st m = (e, m1, st1) \<and> cs_tracker st' = cs_tracker st1)"
  using assms
  by (auto simp: supply_chain_Reconcile_def supply_chain_named_def reconcileSupplyChain_def dest!: supply_chain_complete_keeps split: go.splits option.splits prod.splits) blast

lemma delivery_effect:
  assumes "delivery_Reconcile cl now st req = (err, st')" "delivery_named (cl, now) st req"
  shows "cs_tracker st' = cs_tracker st \<or>
    (\<exists>failure xs m e m1 st1. reconcile_templates cl now failure req xs st m = (e, m1, st1) \<and> cs_tracker st' = cs_tracker st1)"
  using assms
  by (auto simp: delivery_Reconcile_def delivery_named_def reconcileDelivery_def dest!: delivery_complete_keeps split: go.splits option.splits prod.splits) blast

interpretation supply_chains: tracked_controller supply_chain_named snd "\<lambda>(cl, now) st req. Ret (supply_chain_Reconcile cl now st req)" supply_chain_controller
  by unfold_locales
    ((auto dest!: supply_chain_effect dest: reconcile_templates_others renewed_reconcile_templates)[2], fact controllers_keep, fact watches_distinct)

interpretation deliveries: tracked_controller delivery_named snd "\<lambda>(cl, now) st req. Ret (delivery_Reconcile cl now st req)" delivery_controller
  by unfold_locales
    ((auto dest!: delivery_effect dest: reconcile_templates_others renewed_reconcile_templates)[2], fact controllers_keep, fact watches_distinct)

section \<open>Properties\<close>

text \<open>
  C8: no change of a template is lost.  After a reconciliation that realized a workload, whatever else happens for twenty hours in whatever
  order (objects change, other workloads are reconciled, the cluster goes on), if the template of one of its resources changes and
  the workload is not reconciled in between, then its request is in the queue at the end.
\<close>

theorem template_change_not_lost:
  assumes "workload_realize env workload supplyChain sa ns Do m st = Ret (err, st')"
    and "Realize Do (oc_realizer env) (oc_outputs env) (oc_clock env) (sc_Name supplyChain) (MakeSupplychainOwnerResources supplyChain)
      (NewResourceStatuses (wst_Resources (wl_Status workload)) AddConditionForResourceSubmittedWorkload) (cs_repo st) = Ret (rerr, statuses, r)"
    and "resource \<in> set (GetCurrent statuses)" "template_of resource = Some ref" "or_Kind ref \<in> set ValidSupplyChainTemplates"
    and "tr_leaseDuration (cs_tracker st) = 2 * DefaultResyncTime"
    and "workload_run n \<lparr>cq_state = st', cq_queue = queue, cq_now = oc_now env\<rparr> events s"
    and "Changed wenv (ChangedObject (or_Kind ref) \<lparr>nn_Namespace = '''', nn_Name = or_Name ref\<rparr>) \<in> set events"
    and "Reconciled (workload_name workload) \<notin> set events"
    and "we_ObjectKinds wenv (or_Kind ref) = Inr (gvk # gvks)" "gvk_Group gvk = SchemeGroup" "gvk_Kind gvk = or_Kind ref"
    and "we_now wenv \<le> oc_now env + 20 * 3600 * 1000000000"
  shows "workload_name workload \<in> cq_queue s"
proof -
  let ?key = "template_key (or_Kind ref) (or_Name ref)"
  have key: "NewKey gvk \<lparr>nn_Namespace = '''', nn_Name = or_Name ref\<rparr> = ?key"
    using assms(11,12) by (simp add: NewKey_def template_key_def)
  have "cs_tracker st' = trackDependencies (oc_now env) (cs_tracker st) (workload_name workload) (GetCurrent statuses) sa ns"
    using workload_realize_tracks [OF assms(1)] assms(2) by auto
  moreover have "names_template (key_String ?key) resource" using assms(4) by (simp add: names_template_def)
  ultimately have "lease_of (cs_tracker st') (key_String ?key) (workload_name workload) = Some (oc_now env + 2 * DefaultResyncTime)"
    using assms(3,6) by (auto simp: trackDependencies_lease)
  moreover have "we_now wenv \<le> oc_now env + 2 * DefaultResyncTime" using assms(13) by (simp add: DefaultResyncTime_def)
  moreover have "(or_Kind ref, Tracked (or_Kind ref)) \<in> set (ctl_Watches (workload_controller n))"
    using assms(5) by (auto simp: workload_controller_def tracked_watches_def)
  ultimately show ?thesis
    using workloads.change_not_lost [OF assms(7,9,8) _ assms(10)] unfolding key by simp
qed

text \<open>
  The same for a runnable and its run template, after any reconciliation of the runnable, failed or not.
\<close>

theorem run_template_change_not_lost:
  assumes "run_Reconcile env st req = Ret (err, st')"
    and "GetRunnable (rc_client env) (cs_repo st) (nn_Name req) (nn_Namespace req) = Ret (Some runnable)" "runnable_name runnable = req"
    and "tr_leaseDuration (cs_tracker st) = 2 * DefaultResyncTime"
    and "runnable_run n \<lparr>cq_state = st', cq_queue = queue, cq_now = rc_now env\<rparr> events s"
    and "Changed wenv (ChangedObject ''ClusterRunTemplate'' \<lparr>nn_Namespace = '''', nn_Name = tref_Name (rns_RunTemplateRef (rn_Spec runnable))\<rparr>) \<in> set events"
    and "Reconciled req \<notin> set events"
    and "we_ObjectKinds wenv ''ClusterRunTemplate'' = Inr (gvk # gvks)" "gvk_Group gvk = SchemeGroup" "gvk_Kind gvk = ''ClusterRunTemplate''"
    and "we_now wenv \<le> rc_now env + 20 * 3600 * 1000000000"
  shows "req \<in> cq_queue s"
proof -
  let ?name = "tref_Name (rns_RunTemplateRef (rn_Spec runnable))"
  have key: "NewKey gvk \<lparr>nn_Namespace = '''', nn_Name = ?name\<rparr> = template_key ''ClusterRunTemplate'' ?name"
    using assms(9,10) by (simp add: NewKey_def template_key_def)
  have "reconcile_runnable env runnable req st = Ret (err, st')" using assms(1,2) by (simp add: run_Reconcile_def)
  then have "lease_of (cs_tracker st') (key_String (template_key ''ClusterRunTemplate'' ?name)) req = Some (rc_now env + 2 * DefaultResyncTime)"
    using assms(3,4) by (simp add: reconcile_tracks run_trackDependencies_lease)
  moreover have "we_now wenv \<le> rc_now env + 2 * DefaultResyncTime" using assms(11) by (simp add: DefaultResyncTime_def)
  moreover have "(''ClusterRunTemplate'', Tracked ''ClusterRunTemplate'') \<in> set (ctl_Watches (runnable_controller n))"
    by (simp add: runnable_controller_def tracked_watches_def)
  ultimately show ?thesis
    using runnables.change_not_lost [OF assms(5,7,6) _ assms(8)] unfolding key by simp
qed

text \<open>
  C9: the leases of a controller never pile up.  In every state that the workload controller reaches from the state that \<^verbatim>\<open>SetupWithManager\<close> gives
  it, whatever changed and was reconciled before, the tracker holds no reference without an owner, and no lease lasts longer than twenty
  hours from then.
\<close>

theorem workload_leases_bounded:
  assumes "workload_SetupWithManager mgr n = Inr (st0, ctl)" "workload_run n \<lparr>cq_state = st0, cq_queue = queue, cq_now = start\<rparr> events s"
  shows "(\<forall>ref. fmlookup (entries (tr_mapping (cs_tracker (cq_state s)))) ref \<noteq> Some fmempty) \<and>
    (\<forall>ref owner e. lease_of (cs_tracker (cq_state s)) ref owner = Some e \<longrightarrow> e \<le> cq_now s + 20 * 3600 * 1000000000)"
proof -
  have "leases_in_force (2 * DefaultResyncTime) start (cs_tracker st0)"
    using setup_workload [OF assms(1)] by (simp add: new_owner_state_def leases_in_force_def tracker_new)
  with workloads.run_leases [OF assms(2)] show ?thesis by (simp add: leases_in_force_def tracker_invar_def DefaultResyncTime_def)
qed

section \<open>Witnesses\<close>

theorem workload_leases_bounded_witness:
  "\<exists>s. workload_run 2 \<lparr>cq_state = new_owner_state example_manager, cq_queue = {example_owner}, cq_now = 0\<rparr> [Reconciled example_owner] s \<and>
     (\<forall>ref owner e. lease_of (cs_tracker (cq_state s)) ref owner = Some e \<longrightarrow> e \<le> cq_now s + 20 * 3600 * 1000000000)"
proof -
  let ?st = "new_owner_state example_manager"
  let ?s0 = "\<lparr>cq_state = ?st, cq_queue = {example_owner}, cq_now = 0\<rparr>"
  have gone: "GetWorkload (oc_client example_workload_env) r (nn_Name example_owner) (nn_Namespace example_owner) = Ret None" for r
    by (simp add: GetWorkload_def optional_object_def getObject_def example_workload_env_def empty_cluster_client_def list_client_def)
  then have named: "workload_named example_workload_env (cq_state ?s0) example_owner" by (simp add: workload_named_def)
  obtain st' where done': "workload_Reconcile example_workload_env (cq_state ?s0) example_owner = Ret (None, st')"
    using gone by (simp add: workload_Reconcile_def)
  have "cq_now ?s0 \<le> oc_now example_workload_env" "example_owner \<in> cq_queue ?s0" by (simp_all add: example_workload_env_def)
  then obtain s where "controller_step workload_named oc_now workload_Reconcile (workload_controller 2) ?s0 (Reconciled example_owner) s"
    using controller_step.reconciled [where ok = workload_named and clock = oc_now and reconcile = workload_Reconcile and s = ?s0 and e = example_workload_env,
      OF _ _ named done'] by blast
  then have run: "workload_run 2 ?s0 [Reconciled example_owner] s" by (rule controller_run.step) (rule controller_run.start)
  with workload_leases_bounded [OF example_setup(1) run] show ?thesis by blast
qed

definition template_do :: "unstructured list resource_do" where
  "template_do = (\<lambda>resource name outs mapper r. Ret (do_return (Some (ClusterTemplate ''t'' \<lparr>ts_Template = None, ts_Ytt = '''', ts_Params = [],
     ts_HealthRule = None, ts_Lifecycle = '''', ts_RetentionPolicy = None\<rparr>)) None None False ''t'' None, r))"

definition realizing_env :: "unstructured list workload_env" where
  "realizing_env = example_workload_env\<lparr>oc_realizer := \<lparr>rl_healthyConditionEvaluator = \<lambda>h rr u. Ret (mk_condition ''Healthy'' ''True'' '''' ''''),
     rl_mapper = \<lambda>g. Inl (ErrorString '''')\<rparr>\<rparr>"

lemma example_realized:
  "\<exists>err statuses r resource ref. Realize template_do (oc_realizer realizing_env) (oc_outputs realizing_env) (oc_clock realizing_env) (sc_Name example_chain)
      (MakeSupplychainOwnerResources example_chain) (NewResourceStatuses (wst_Resources (wl_Status example_workload)) AddConditionForResourceSubmittedWorkload)
      (cs_repo (new_owner_state example_manager)) = Ret (err, statuses, r) \<and>
    resource \<in> set (GetCurrent statuses) \<and> template_of resource = Some ref \<and> or_Kind ref = ''ClusterTemplate'' \<and> or_Name ref = ''t''"
  by (simp add: Realize_def MakeSupplychainOwnerResources_def example_chain_def NewResourceStatuses_def example_workload_def GetCurrent_def
      realize_resource_def template_do_def do_return_def describe_resource_def describe_new_def GetPreviousResourceStatus_def realizing_env_def
      generateRealizedResource_def AddStatus_def Let_def List.map_filter_simps split: prod.split)

theorem template_change_not_lost_witness:
  "\<exists>err st' s. workload_realize realizing_env example_workload example_chain ''default'' ''dev'' template_do (NewConditionManager OwnerReady [])
       (new_owner_state example_manager) = Ret (err, st') \<and>
     workload_run 2 \<lparr>cq_state = st', cq_queue = {}, cq_now = oc_now realizing_env\<rparr>
       [Elapsed, Changed example_watch_env (ChangedObject ''ClusterTemplate'' \<lparr>nn_Namespace = '''', nn_Name = ''t''\<rparr>)] s \<and>
     workload_name example_workload \<in> cq_queue s"
proof -
  let ?st = "new_owner_state example_manager"
  let ?event = "ChangedObject ''ClusterTemplate'' \<lparr>nn_Namespace = '''', nn_Name = ''t''\<rparr>"
  obtain rerr statuses r resource ref where real: "Realize template_do (oc_realizer realizing_env) (oc_outputs realizing_env) (oc_clock realizing_env) (sc_Name example_chain)
      (MakeSupplychainOwnerResources example_chain) (NewResourceStatuses (wst_Resources (wl_Status example_workload)) AddConditionForResourceSubmittedWorkload)
      (cs_repo ?st) = Ret (rerr, statuses, r)"
    and res: "resource \<in> set (GetCurrent statuses)" "template_of resource = Some ref" and ref: "or_Kind ref = ''ClusterTemplate''" "or_Name ref = ''t''"
    using example_realized by blast
  have "wst_Resources (wl_Status example_workload) = []" by (simp add: example_workload_def)
  then obtain err st' where run: "workload_realize realizing_env example_workload example_chain ''default'' ''dev'' template_do (NewConditionManager OwnerReady []) ?st =
      Ret (err, st')"
    using real by (simp add: workload_realize_def cleanupOrphanedObjects_def Let_def case_prod_beta) (metis prod.collapse)
  let ?s0 = "\<lparr>cq_state = st', cq_queue = {}, cq_now = oc_now realizing_env\<rparr>"
  have "\<exists>s1. controller_step workload_named oc_now workload_Reconcile (workload_controller 2) ?s0 Elapsed s1 \<and> cq_now s1 = 3"
    by (rule exI, rule conjI, rule controller_step.elapsed [where later = 3]) (simp_all add: realizing_env_def example_workload_env_def)
  then obtain s1 where s1: "controller_step workload_named oc_now workload_Reconcile (workload_controller 2) ?s0 Elapsed s1" "cq_now s1 = 3" by blast
  obtain requests t' where dispatched: "controller_dispatch example_watch_env (workload_controller 2) (cs_tracker (cq_state s1)) ?event = Ret (requests, t')"
    using tracked_dispatch [OF watches_distinct(1) _ example_kinds, of "''ClusterTemplate''" 2]
    by (simp add: controller_defs) (metis prod.collapse)
  have "map_order (we_ord example_watch_env)" using example_order by unfold_locales
  then obtain s where s: "controller_step workload_named oc_now workload_Reconcile (workload_controller 2) s1 (Changed example_watch_env ?event) s"
    using controller_step.changed [OF _ _ dispatched] s1(2) by (force simp: example_watch_env_def)
  have events: "workload_run 2 ?s0 [Elapsed, Changed example_watch_env ?event] s"
    by (rule controller_run.step [OF s1(1)], rule controller_run.step [OF s], rule controller_run.start)
  have "we_now example_watch_env \<le> oc_now realizing_env + 20 * 3600 * 1000000000" "or_Kind ref \<in> set ValidSupplyChainTemplates"
    by (simp_all add: example_watch_env_def realizing_env_def example_workload_env_def ref ValidSupplyChainTemplates_def)
  from template_change_not_lost [OF run real res this(2) _ events _ _ example_kinds _ _ this(1)]
  have "workload_name example_workload \<in> cq_queue s" by (simp add: ref)
  with run events show ?thesis by (intro exI conjI)
qed

end
