(* ===== verification/Test_Stamping.thy ===== *)
theory Test_Stamping
  imports Workload_Reconciler
begin

text \<open>
  \<^verbatim>\<open>pkg/testing\<close>, the library for testing templates: what a test case is given, the object it stamps, with a mocked or with a
  real supply chain, and the comparison with the expected object (\<^verbatim>\<open>case.go\<close>, \<^verbatim>\<open>compare.go\<close>, \<^verbatim>\<open>expectations.go\<close>,
  \<^verbatim>\<open>templates.go\<close>, \<^verbatim>\<open>workload.go\<close>, \<^verbatim>\<open>mock-supplychain.go\<close>, \<^verbatim>\<open>supplychain.go\<close>, \<^verbatim>\<open>ytt.go\<close>, \<^verbatim>\<open>run.go\<close>).

  The files that exist, the processes that \<^verbatim>\<open>exec\<close> runs, the YAML and JSON decoders and \<^verbatim>\<open>cmp.Diff\<close> are the record \<open>test_env\<close>.  The
  temporary files that a test creates and removes are the state \<open>temp_files\<close>; \<open>te_TempName\<close> is the name that
  \<^verbatim>\<open>os.CreateTemp\<close> picks.  A call of the library that returns \<open>(error + value)\<close> with a new state is a \<open>temp\<close> computation.
\<close>

section \<open>Environment\<close>

type_synonym Values = "(string, json) fmap"

type_synonym temp_files = "(string, raw) fmap"

type_synonym json_object = "(string, json) fmap"

record Inputs =
  in_Sources :: "SourceInput gomap"
  in_Images :: "ImageInput gomap"
  in_Configs :: "ConfigInput gomap"
  in_Deployment :: "SourceInput option"

text \<open>The templating context of a mocked supply chain; it has fewer keys than the one of the realizer.\<close>

record mock_context =
  mx_workload :: json
  mx_params :: "(string, raw) fmap"
  mx_sources :: "SourceInput gomap"
  mx_images :: "ImageInput gomap"
  mx_configs :: "ConfigInput gomap"
  mx_source :: "SourceInput option"
  mx_image :: "json option"
  mx_config :: "json option"

text \<open>A template object: the API object and the kind in its \<^verbatim>\<open>TypeMeta\<close>.\<close>

record ValidatableTemplate =
  vt_Template :: api_template
  vt_Kind :: string

text \<open>The option functions: the one that \<^verbatim>\<open>info.yaml\<close> can name, and those of tests that are written in Go.\<close>

datatype CMPOption =
    ConvertNumbersToFloatsDuringComparison
  | CMPOption string

record test_env =
  te_ReadFile :: "string \<Rightarrow> gerror + raw"
  te_Stat :: "string \<Rightarrow> gerror + bool"
  te_ReadDir :: "string \<Rightarrow> gerror + (string \<times> bool) list"
  te_NotExist :: "gerror \<Rightarrow> bool"
  te_Join :: "string \<Rightarrow> string \<Rightarrow> string"
  te_TempName :: "temp_files \<Rightarrow> gerror + string"
  te_Exec :: "string list \<Rightarrow> gerror option \<times> string \<times> string"
  te_ExecNotFound :: "gerror \<Rightarrow> bool"
  te_multierror :: "gerror \<Rightarrow> gerror \<Rightarrow> gerror"
  te_EncodeValues :: "Values \<Rightarrow> gerror + raw"
  te_ShowValues :: "Values \<Rightarrow> string"
  te_YAMLToJSON :: "raw \<Rightarrow> gerror + raw"
  te_Object :: "raw \<Rightarrow> gerror + json_object"
  te_ToUnstructured :: "json \<Rightarrow> gerror + json_object"
  te_Template :: "string \<Rightarrow> raw \<Rightarrow> gerror + ValidatableTemplate"
  te_Workload :: "raw \<Rightarrow> gerror + Workload"
  te_SupplyChain :: "raw \<Rightarrow> gerror + ClusterSupplyChain"
  te_Params :: "raw \<Rightarrow> gerror + BlueprintParam list"
  te_Inputs :: "raw \<Rightarrow> gerror + Inputs"
  te_CMPError :: "string \<Rightarrow> gerror option"
  te_Diff :: "CMPOption option \<Rightarrow> json_object \<Rightarrow> json_object \<Rightarrow> string"
  te_codec :: json_codec
  te_lsel :: label_selector
  te_stamp :: stamp_env
  te_context :: "templating_context \<Rightarrow> json"
  te_mock_context :: "mock_context \<Rightarrow> json"
  te_kind :: "ClusterSupplyChain \<Rightarrow> string"
  te_json :: "Workload \<Rightarrow> json"
  te_owner :: "Workload \<Rightarrow> Owner"

type_synonym 'a temp = "temp_files \<Rightarrow> 'a go \<times> temp_files"

definition temp_bind :: "'a temp \<Rightarrow> ('a \<Rightarrow> 'b temp) \<Rightarrow> 'b temp" where
  "temp_bind m k = (\<lambda>fs. case m fs of (Ret v, fs') \<Rightarrow> k v fs' | (Err e, fs') \<Rightarrow> (Err e, fs') | (Panic p, fs') \<Rightarrow> (Panic p, fs'))"

text \<open>\<^verbatim>\<open>fmt.Errorf(text + "%w", err)\<close> on the error of a call, which is returned at once.\<close>

definition wrap_go :: "string \<Rightarrow> 'a go \<Rightarrow> 'a go" where
  "wrap_go text m = (case m of Ret v \<Rightarrow> Ret v | Err e \<Rightarrow> Err (WrapError text e) | Panic p \<Rightarrow> Panic p)"

definition wrapping :: "string \<Rightarrow> 'a temp \<Rightarrow> 'a temp" where
  "wrapping text m = (\<lambda>fs. case m fs of (r, fs') \<Rightarrow> (wrap_go text r, fs'))"

definition lift_go :: "'a go \<Rightarrow> 'a temp" where
  "lift_go m = (\<lambda>fs. (m, fs))"

definition of_sum :: "gerror + 'a \<Rightarrow> 'a go" where
  "of_sum s = (case s of Inl e \<Rightarrow> Err e | Inr v \<Rightarrow> Ret v)"

lemma of_sum_simps [simp]: "of_sum (Inl e) = Err e" "of_sum (Inr v) = Ret v"
  by (simp_all add: of_sum_def)

lemma wrap_go_simps [simp]: "wrap_go t (Ret v) = Ret v" "wrap_go t (Err e) = Err (WrapError t e)" "wrap_go t (Panic p) = Panic p"
  by (simp_all add: wrap_go_def)

lemma wrap_go_Ret_iff [simp]: "wrap_go t m = Ret v \<longleftrightarrow> m = Ret v"
  by (cases m) simp_all

lemma temp_bind_Ret_iff: "temp_bind m k fs = (Ret v, fs') \<longleftrightarrow> (\<exists>w fs1. m fs = (Ret w, fs1) \<and> k w fs1 = (Ret v, fs'))"
  by (cases "m fs" rule: prod.exhaust) (auto simp: temp_bind_def split: go.splits)

lemma wrapping_Ret_iff [simp]: "wrapping t m fs = (Ret v, fs') \<longleftrightarrow> m fs = (Ret v, fs')"
  by (cases "m fs") (auto simp: wrapping_def)

lemma lift_go_Ret_iff [simp]: "lift_go m fs = (Ret v, fs') \<longleftrightarrow> m = Ret v \<and> fs' = fs"
  by (auto simp: lift_go_def)

section \<open>Processes and ytt\<close>

text \<open>The process and its output; the contexts of the callers are never cancelled.\<close>

definition cmd_run :: "test_env \<Rightarrow> string list \<Rightarrow> (gerror option \<times> string \<times> string) go" where
  "cmd_run env argv =
     (if argv = [] then Panic ''index out of range''
      else case te_Exec env argv of (e, stdout, stderr) \<Rightarrow> Ret (map_option (WrapError ''run: '') e, stdout, stderr))"

definition cmd_Run :: "test_env \<Rightarrow> string list \<Rightarrow> (string \<times> string) go" where
  "cmd_Run env argv =
     go_bind (cmd_run env argv) (\<lambda>(e, stdout, stderr).
       case e of
         None \<Rightarrow> Ret (stdout, stderr)
       | Some err \<Rightarrow>
           (let err1 = (if stdout \<noteq> '''' then te_multierror env err (ErrorString (''stdout: '' @ stdout)) else err);
                err2 = (if stderr \<noteq> '''' then te_multierror env err1 (ErrorString (''stderr: '' @ stderr)) else err1)
            in Err err2))"

definition RunWithOutput :: "test_env \<Rightarrow> string list \<Rightarrow> (string \<times> string) go" where
  "RunWithOutput env argv = cmd_Run env argv"

definition yttNotFound :: gerror where
  "yttNotFound = ErrorString ''ytt must be installed in PATH but was not found''"

definition ensureYTTAvailable :: "test_env \<Rightarrow> unit go" where
  "ensureYTTAvailable env =
     (case RunWithOutput env [''ytt'', ''--version''] of
        Panic p \<Rightarrow> Panic p
      | Ret out \<Rightarrow> Ret ()
      | Err err \<Rightarrow> if te_ExecNotFound env err then Err yttNotFound else Err (WrapError ''run ytt test args: '' err))"

record ytt =
  yt_files :: "string list"
  yt_values :: "Values list"
  yt_argv :: "string list"
  yt_tmpFiles :: "string list"

definition YTT :: ytt where
  "YTT = \<lparr>yt_files = [], yt_values = [], yt_argv = [''ytt'', ''--ignore-unknown-comments''], yt_tmpFiles = []\<rparr>"

definition values_Set :: "string \<Rightarrow> json \<Rightarrow> Values \<Rightarrow> Values" where
  "values_Set k v m = fmupd k v m"

definition ytt_Values :: "Values \<Rightarrow> ytt \<Rightarrow> ytt" where
  "ytt_Values v y = y\<lparr>yt_values := yt_values y @ [v]\<rparr>"

definition ytt_F :: "string \<Rightarrow> ytt \<Rightarrow> ytt" where
  "ytt_F fpath y = y\<lparr>yt_files := yt_files y @ [fpath]\<rparr>"

definition CreateTemp :: "test_env \<Rightarrow> string temp" where
  "CreateTemp env fs = (case te_TempName env fs of Inl e \<Rightarrow> (Err e, fs) | Inr name \<Rightarrow> (Ret name, fmupd name '''' fs))"

definition write_file :: "string \<Rightarrow> raw \<Rightarrow> unit temp" where
  "write_file name content fs = (Ret (), fmupd name content fs)"

fun build_values :: "test_env \<Rightarrow> Values list \<Rightarrow> ytt \<Rightarrow> ytt temp" where
  "build_values env [] y = lift_go (Ret y)"
| "build_values env (v # vs) y =
     temp_bind (wrapping ''create tmp: '' (CreateTemp env)) (\<lambda>f.
       temp_bind (lift_go (wrap_go (''values '' @ [CHR 0x27] @ te_ShowValues env v @ [CHR 0x27] @ '' encode: '')
           (wrap_go ''yaml encode: '' (of_sum (te_EncodeValues env v))))) (\<lambda>content.
         temp_bind (write_file f content) (\<lambda>_.
           build_values env vs (y\<lparr>yt_argv := yt_argv y @ [''--data-values-file'', f], yt_tmpFiles := yt_tmpFiles y @ [f]\<rparr>))))"

definition ytt_build :: "test_env \<Rightarrow> ytt \<Rightarrow> ytt temp" where
  "ytt_build env y =
     temp_bind (build_values env (yt_values y) y) (\<lambda>y'.
       lift_go (Ret (y'\<lparr>yt_argv := yt_argv y' @ concat (map (\<lambda>fpath. [''-f'', fpath]) (yt_files y'))\<rparr>)))"

definition ToTempFile :: "test_env \<Rightarrow> ytt \<Rightarrow> string temp" where
  "ToTempFile env y =
     temp_bind (wrapping ''build: '' (ytt_build env y)) (\<lambda>y'.
       temp_bind (wrapping ''create temp: '' (CreateTemp env)) (\<lambda>f.
         temp_bind (lift_go (wrap_go ''ytt: '' (RunWithOutput env (yt_argv y')))) (\<lambda>(stdout, stderr).
           temp_bind (write_file f stdout) (\<lambda>_. lift_go (Ret f)))))"

text \<open>The two functions \<^verbatim>\<open>preprocessYtt\<close>, of a template file and of a set of supply chains.\<close>

definition preprocessYtt :: "test_env \<Rightarrow> Values \<Rightarrow> string \<Rightarrow> string list \<Rightarrow> string temp" where
  "preprocessYtt env values path yttFiles =
     wrapping ''failed to create temp file by ytt: ''
       (ToTempFile env (foldl (\<lambda>y f. ytt_F f y) (ytt_F path (ytt_Values values YTT)) yttFiles))"

definition ReadFile :: "test_env \<Rightarrow> string \<Rightarrow> raw temp" where
  "ReadFile env path = (\<lambda>fs. case fmlookup fs path of Some content \<Rightarrow> (Ret content, fs) | None \<Rightarrow> (of_sum (te_ReadFile env path), fs))"

text \<open>\<^verbatim>\<open>defer os.RemoveAll(f)\<close> around the rest of a function.\<close>

definition finally_remove :: "string \<Rightarrow> 'a temp \<Rightarrow> 'a temp" where
  "finally_remove f m = (\<lambda>fs. case m fs of (r, fs') \<Rightarrow> (r, fmdrop f fs'))"

text \<open>The file to read: the result of ytt when there are values or further files.\<close>

definition with_preprocessed :: "test_env \<Rightarrow> Values \<Rightarrow> string list \<Rightarrow> string \<Rightarrow> (string \<Rightarrow> 'a temp) \<Rightarrow> 'a temp" where
  "with_preprocessed env values yttFiles path k =
     (if fmap_len values \<noteq> 0 \<or> length yttFiles \<noteq> 0 then
        temp_bind (lift_go (wrap_go ''ensure ytt available: '' (ensureYTTAvailable env))) (\<lambda>_.
          temp_bind (wrapping ''failed to preprocess ytt: '' (preprocessYtt env values path yttFiles)) (\<lambda>f.
            finally_remove f (k f)))
      else k path)"

section \<open>What a test is given\<close>

record TemplateFile =
  tf_Path :: string
  tf_YttValues :: Values
  tf_YttFiles :: "string list"

datatype TestTemplate = TemplateObject ValidatableTemplate | FromTemplateFile TemplateFile

datatype TestWorkload = WorkloadObject Workload | WorkloadFile string

datatype SupplyChainParams = SupplyChainParamsObject "BlueprintParam list" | SupplyChainParamsFile string

datatype SupplyChainInputs = SupplyChainInputsObject Inputs | SupplyChainInputsFile string

record MockSupplyChain =
  ms_Params :: "SupplyChainParams option"
  ms_Inputs :: "SupplyChainInputs option"

record SupplyChainFileSet =
  fs_Paths :: "string list"
  fs_YttValues :: Values
  fs_YttFiles :: "string list"
  fs_TargetResourceName :: string
  fs_PreviousOutputs :: "Outputs option"

datatype TestSupplyChain = UseMock MockSupplyChain | UseFileSet SupplyChainFileSet

datatype Expectation = ExpectedFile string | ExpectedUnstructured "json_object option" | ExpectedObject json

record CompareOptions =
  co_IgnoreMetadata :: bool
  co_IgnoreOwnerRefs :: bool
  co_IgnoreLabels :: bool
  co_IgnoreMetadataFields :: "string list"
  co_CMPOption :: "CMPOption option"

text \<open>A nil interface or pointer is \<^const>\<open>None\<close>; calling a method of a nil interface panics.\<close>

record Given =
  gv_Template :: "TestTemplate option"
  gv_Workload :: "TestWorkload option"
  gv_SupplyChain :: "TestSupplyChain option"

record Test =
  tc_Given :: Given
  tc_Expect :: "Expectation option"
  tc_CompareOptions :: "CompareOptions option"
  tc_Focus :: bool

fun template_name :: "api_template \<Rightarrow> string" where
  "template_name (ClusterSourceTemplate n s) = n"
| "template_name (ClusterImageTemplate n s) = n"
| "template_name (ClusterConfigTemplate n s) = n"
| "template_name (ClusterDeploymentTemplate n s) = n"
| "template_name (ClusterTemplate n s) = n"

text \<open>\<^verbatim>\<open>GetKind\<close> of an unstructured object.\<close>

definition object_kind :: "json_object \<Rightarrow> string" where
  "object_kind m = (case fmlookup m ''kind'' of Some (JStr k) \<Rightarrow> k | _ \<Rightarrow> '''')"

definition decode_template :: "test_env \<Rightarrow> raw \<Rightarrow> ValidatableTemplate go" where
  "decode_template env templateData =
     go_bind (wrap_go ''convert yaml to json: '' (of_sum (te_YAMLToJSON env templateData))) (\<lambda>templateJson.
       go_bind (wrap_go ''unmarshall json: '' (of_sum (te_Object env templateJson))) (\<lambda>unknownTemplate.
         (let templateKind = object_kind unknownTemplate
          in if templateKind \<in> {''ClusterSourceTemplate'', ''ClusterImageTemplate'', ''ClusterConfigTemplate'', ''ClusterTemplate''}
             then wrap_go ''unmarshall template: '' (of_sum (te_Template env templateKind templateData))
             else Err (ErrorString ''template kind not found''))))"

definition TemplateFile_GetTemplate :: "test_env \<Rightarrow> TemplateFile \<Rightarrow> ValidatableTemplate temp" where
  "TemplateFile_GetTemplate env i =
     with_preprocessed env (tf_YttValues i) (tf_YttFiles i) (tf_Path i) (\<lambda>templateFile.
       temp_bind (wrapping ''could not read template file: '' (ReadFile env templateFile)) (\<lambda>templateData.
         lift_go (decode_template env templateData)))"

fun test_GetTemplate :: "test_env \<Rightarrow> TestTemplate \<Rightarrow> ValidatableTemplate temp" where
  "test_GetTemplate env (TemplateObject t) = lift_go (Ret t)"
| "test_GetTemplate env (FromTemplateFile i) = TemplateFile_GetTemplate env i"

fun test_GetWorkload :: "test_env \<Rightarrow> TestWorkload \<Rightarrow> Workload temp" where
  "test_GetWorkload env (WorkloadObject w) = lift_go (Ret w)"
| "test_GetWorkload env (WorkloadFile path) =
     temp_bind (wrapping ''could not read workload file: '' (ReadFile env path)) (\<lambda>workloadData.
       lift_go (wrap_go ''unmarshall template: '' (of_sum (te_Workload env workloadData))))"

fun getExpected :: "test_env \<Rightarrow> Expectation \<Rightarrow> json_object option temp" where
  "getExpected env (ExpectedUnstructured u) = lift_go (Ret u)"
| "getExpected env (ExpectedObject obj) =
     lift_go (go_bind (wrap_go ''failed to convert template to unstructured: '' (of_sum (te_ToUnstructured env obj))) (\<lambda>m. Ret (Some m)))"
| "getExpected env (ExpectedFile path) =
     temp_bind (wrapping ''could not read expected yaml: '' (ReadFile env path)) (\<lambda>yaml.
       lift_go (go_bind (wrap_go ''convert yaml to json: '' (of_sum (te_YAMLToJSON env yaml))) (\<lambda>expectedJson.
         go_bind (wrap_go ''unmarshall json: '' (of_sum (te_Object env expectedJson))) (\<lambda>m. Ret (Some m)))))"

section \<open>A mocked supply chain\<close>

fun GetParams :: "test_env \<Rightarrow> SupplyChainParams \<Rightarrow> BlueprintParam list temp" where
  "GetParams env (SupplyChainParamsObject params) = lift_go (Ret params)"
| "GetParams env (SupplyChainParamsFile path) =
     temp_bind (wrapping ''could not read supplyChainParamsFile: '' (ReadFile env path)) (\<lambda>paramsFile.
       lift_go (wrap_go ''unmarshall params: '' (of_sum (te_Params env paramsFile))))"

fun GetInputs :: "test_env \<Rightarrow> SupplyChainInputs \<Rightarrow> Inputs temp" where
  "GetInputs env (SupplyChainInputsObject inputs) = lift_go (Ret inputs)"
| "GetInputs env (SupplyChainInputsFile path) =
     temp_bind (wrapping (''could not read supplyChainInputsFile '' @ path @ '': '') (ReadFile env path)) (\<lambda>inputsFile.
       lift_go (wrap_go ''unmarshall params: '' (of_sum (te_Inputs env inputsFile))))"

definition buildBlueprintStringParam :: "string \<Rightarrow> string \<Rightarrow> string \<Rightarrow> gerror + BlueprintParam" where
  "buildBlueprintStringParam name value defaultValue =
     (if (value = '''' \<and> defaultValue = '''') \<or> value \<noteq> '''' \<and> defaultValue \<noteq> '''' then
        Inl (ErrorString ''exactly one of value or defaultValue must be set'')
      else if name = '''' then Inl (ErrorString ''name must be set'')
      else Inr (if value \<noteq> '''' then \<lparr>bp_Name = name, bp_Value = Some (show_quoted value), bp_DefaultValue = None\<rparr>
                else \<lparr>bp_Name = name, bp_Value = None, bp_DefaultValue = Some (show_quoted defaultValue)\<rparr>))"

fun BuildSupplyChainStringParams :: "(string \<times> string \<times> string) list \<Rightarrow> gerror + BlueprintParam list" where
  "BuildSupplyChainStringParams [] = Inr []"
| "BuildSupplyChainStringParams ((name, value, defaultValue) # rest) =
     (case buildBlueprintStringParam name value defaultValue of
        Inl err \<Rightarrow> Inl (WrapError ''failed to build param: '' err)
      | Inr newParam \<Rightarrow>
          (case BuildSupplyChainStringParams rest of Inl err \<Rightarrow> Inl err | Inr completeParams \<Rightarrow> Inr (newParam # completeParams)))"

definition completeLabels :: "Workload \<Rightarrow> string \<Rightarrow> string \<Rightarrow> labels" where
  "completeLabels workload name kind =
     fmap_of_list
       [(''carto.run/workload-name'', wl_Name workload),
        (''carto.run/workload-namespace'', wl_Namespace workload),
        (''carto.run/template-kind'', kind),
        (''carto.run/cluster-template-name'', name)]"

definition mock_templating_context :: "json \<Rightarrow> (string, raw) fmap \<Rightarrow> Inputs \<Rightarrow> mock_context" where
  "mock_templating_context workload params inputs =
     \<lparr>mx_workload = workload, mx_params = params,
      mx_sources = in_Sources inputs, mx_images = in_Images inputs, mx_configs = in_Configs inputs,
      mx_source = (if fmap_len (entries (in_Sources inputs)) = 1 then the_only (entries (in_Sources inputs)) else None),
      mx_image = (if fmap_len (entries (in_Images inputs)) = 1 then map_option ii_Image (the_only (entries (in_Images inputs))) else None),
      mx_config = (if fmap_len (entries (in_Configs inputs)) = 1 then map_option ci_Config (the_only (entries (in_Configs inputs))) else None)\<rparr>"

definition createTemplatingContext ::
  "test_env \<Rightarrow> MockSupplyChain \<Rightarrow> Workload \<Rightarrow> (string, raw) fmap \<Rightarrow> mock_context temp" where
  "createTemplatingContext env i workload params =
     (case ms_Inputs i of
        None \<Rightarrow> lift_go (Ret (mock_templating_context (te_json env workload) params
            \<lparr>in_Sources = None, in_Images = None, in_Configs = None, in_Deployment = None\<rparr>))
      | Some inputs \<Rightarrow>
          temp_bind (wrapping ''get supply chain inputs: '' (GetInputs env inputs)) (\<lambda>inputs.
            lift_go (Ret (mock_templating_context (te_json env workload) params inputs))))"

definition Mock_stamp :: "test_env \<Rightarrow> MockSupplyChain \<Rightarrow> Workload \<Rightarrow> ValidatableTemplate \<Rightarrow> Reader \<Rightarrow> unstructured temp" where
  "Mock_stamp env i workload apiTemplate template =
     (let ls = completeLabels workload (template_name (vt_Template apiTemplate)) (vt_Kind apiTemplate)
      in temp_bind
           (case ms_Params i of
              None \<Rightarrow> lift_go (Ret [])
            | Some params \<Rightarrow> wrapping ''get blueprint params failed: '' (GetParams env params)) (\<lambda>blueprintParams.
         temp_bind (lift_go (Merge (NewParamMerger [] blueprintParams (wls_Params (wl_Spec workload))) (Some (GetDefaultParams template)))) (\<lambda>params.
         temp_bind (wrapping ''create templating context: '' (createTemplatingContext env i workload params)) (\<lambda>templatingContext.
         lift_go (wrap_go ''could not stamp: ''
           (Stamp (te_stamp env) (StamperBuilder (te_owner env workload) (te_mock_context env templatingContext) ls)
             (GetResourceTemplate template)))))))"

section \<open>A real supply chain\<close>

definition readSupplyChainFile :: "test_env \<Rightarrow> SupplyChainFileSet \<Rightarrow> string \<Rightarrow> ClusterSupplyChain temp" where
  "readSupplyChainFile env s path =
     with_preprocessed env (fs_YttValues s) (fs_YttFiles s) path (\<lambda>supplyChainFilepath.
       temp_bind (wrapping ''could not read supplyChain file: '' (ReadFile env supplyChainFilepath)) (\<lambda>supplyChainData.
         lift_go (wrap_go ''unmarshall template: '' (of_sum (te_SupplyChain env supplyChainData)))))"

fun read_entries :: "test_env \<Rightarrow> SupplyChainFileSet \<Rightarrow> string \<Rightarrow> string list \<Rightarrow> ClusterSupplyChain list temp" where
  "read_entries env s path [] = lift_go (Ret [])"
| "read_entries env s path (name # names) =
     (let fullPath = te_Join env path name
      in temp_bind (wrapping (''read supply chain file: '' @ fullPath @ '', '') (readSupplyChainFile env s fullPath)) (\<lambda>supplyChain.
           temp_bind (read_entries env s path names) (\<lambda>supplyChains. lift_go (Ret (supplyChain # supplyChains)))))"

definition readSupplyChainDir :: "test_env \<Rightarrow> SupplyChainFileSet \<Rightarrow> string \<Rightarrow> ClusterSupplyChain list temp" where
  "readSupplyChainDir env s path =
     temp_bind (lift_go (wrap_go ''os read directory: '' (of_sum (te_ReadDir env path)))) (\<lambda>files.
       read_entries env s path (map fst files))"

fun read_paths :: "test_env \<Rightarrow> SupplyChainFileSet \<Rightarrow> string list \<Rightarrow> ClusterSupplyChain list temp" where
  "read_paths env s [] = lift_go (Ret [])"
| "read_paths env s (path # paths) =
     temp_bind (lift_go (wrap_go ''could not get fileinfo for path: '' (of_sum (te_Stat env path)))) (\<lambda>isDir.
       temp_bind
         (if isDir then wrapping ''read supply chain directory: '' (readSupplyChainDir env s path)
          else temp_bind (wrapping ''could not read supply chain file: '' (readSupplyChainFile env s path)) (\<lambda>c. lift_go (Ret [c])))
         (\<lambda>additional. temp_bind (read_paths env s paths) (\<lambda>supplyChains. lift_go (Ret (additional @ supplyChains)))))"

definition readAllPaths :: "test_env \<Rightarrow> SupplyChainFileSet \<Rightarrow> ClusterSupplyChain list temp" where
  "readAllPaths env s = read_paths env s (fs_Paths s)"

definition getSupplyChain :: "test_env \<Rightarrow> SupplyChainFileSet \<Rightarrow> Workload \<Rightarrow> ClusterSupplyChain temp" where
  "getSupplyChain env s workload =
     temp_bind (wrapping ''read all paths, '' (readAllPaths env s)) (\<lambda>allSupplyChains.
       temp_bind (lift_go (wrap_go ''get selected supply chain, ''
           (GetSelectedSupplyChain (te_lsel env) (se_jp (te_stamp env)) (te_kind env) (te_json env) allSupplyChains workload))) (\<lambda>selectedSupplyChains.
         lift_go
           (case selectedSupplyChains of
              [] \<Rightarrow> Err (ErrorString (''no supply chain ['' @ wl_Namespace workload @ ''/'' @ wl_Name workload
                @ ''] found where full selector is satisfied by labels: '' @ show_string_map (wl_Labels workload)))
            | [supplyChain] \<Rightarrow> Ret supplyChain
            | _ \<Rightarrow> Err (ErrorString (''more than one supply chain selected for workload ['' @ wl_Namespace workload @ ''/'' @ wl_Name workload
                @ '']: '' @ show_strings (GetSupplyChainNames selectedSupplyChains))))))"

definition getTargetResource :: "OwnerResource list \<Rightarrow> string \<Rightarrow> OwnerResource go" where
  "getTargetResource resources targetResourceName =
     (case find (\<lambda>resource. owr_Name resource = targetResourceName) resources of
        Some resource \<Rightarrow> Ret resource
      | None \<Rightarrow> Err (ErrorString (''did not find a supply chain resource with target name: '' @ targetResourceName)))"

definition templateMatchesResource :: "test_env \<Rightarrow> ValidatableTemplate \<Rightarrow> OwnerResource \<Rightarrow> Workload \<Rightarrow> bool go" where
  "templateMatchesResource env template resource workload =
     go_bind (wrap_go ''get template name from resource: ''
         (GetTemplateNameFromResource (te_lsel env) (se_jp (te_stamp env)) resource '''' (te_owner env workload)))
       (\<lambda>(resourceTemplateName, passThrough, templateOption).
          Ret (template_name (vt_Template template) = resourceTemplateName \<and> vt_Kind template = tref_Kind (owr_TemplateRef resource)))"

text \<open>What follows once the supply chain is found.\<close>

definition stamp_with_chain ::
  "test_env \<Rightarrow> SupplyChainFileSet \<Rightarrow> ClusterSupplyChain \<Rightarrow> Workload \<Rightarrow> ValidatableTemplate \<Rightarrow> Reader \<Rightarrow> unstructured go" where
  "stamp_with_chain env s supplyChain workload templateObject template =
     go_bind (wrap_go ''get target resource: ''
         (getTargetResource (MakeSupplychainOwnerResources supplyChain) (fs_TargetResourceName s))) (\<lambda>resource.
       go_bind (wrap_go ''template matches resource: '' (templateMatchesResource env templateObject resource workload)) (\<lambda>properTemplateProvided.
         if \<not> properTemplateProvided then
           Err (ErrorString (''template '' @ [CHR 0x27] @ template_name (vt_Template templateObject) @ [CHR 0x27]
             @ '' is not selected by resource/stage '' @ [CHR 0x27] @ owr_Name resource @ [CHR 0x27]
             @ '' in supply chain '' @ [CHR 0x27] @ sc_Name supplyChain @ [CHR 0x27]))
         else
           (let ls = BuildWorkloadResourceLabeler workload supplyChain resource template;
                outputs = (case fs_PreviousOutputs s of Some previous \<Rightarrow> previous | None \<Rightarrow> NewOutputs)
            in go_bind
                 (Generate (NewContextGenerator (te_json env workload) (wls_Params (wl_Spec workload)) (scs_Params (sc_Spec supplyChain)))
                   (Some (GetDefaultParams template)) resource outputs ls) (\<lambda>ctx.
               wrap_go ''could not stamp: ''
                 (Stamp (te_stamp env) (StamperBuilder (te_owner env workload) (te_context env ctx) ls) (GetResourceTemplate template))))))"

definition FileSet_stamp ::
  "test_env \<Rightarrow> SupplyChainFileSet \<Rightarrow> Workload \<Rightarrow> ValidatableTemplate \<Rightarrow> Reader \<Rightarrow> unstructured temp" where
  "FileSet_stamp env s workload templateObject template =
     temp_bind (wrapping ''get supplychain: '' (getSupplyChain env s workload)) (\<lambda>supplyChain.
       lift_go (stamp_with_chain env s supplyChain workload templateObject template))"

section \<open>Comparison\<close>

definition delete_field :: "string \<Rightarrow> json \<Rightarrow> json" where
  "delete_field k v = (case v of JObj m \<Rightarrow> JObj (fmdrop k m) | _ \<Rightarrow> v)"

text \<open>\<^verbatim>\<open>SetLabels(nil)\<close> of an unstructured object.\<close>

definition remove_labels :: "json_object \<Rightarrow> json_object" where
  "remove_labels m =
     (case fmlookup m ''metadata'' of None \<Rightarrow> m | Some v \<Rightarrow> fmupd ''metadata'' (delete_field ''labels'' v) m)"

text \<open>What \<^verbatim>\<open>stripIgnoredFields\<close> does with either object.  The metadata is asserted to be a map.\<close>

definition stripIgnoredFields :: "CompareOptions option \<Rightarrow> json_object \<Rightarrow> json_object go" where
  "stripIgnoredFields options object =
     (let m1 = fmdrop ''status'' object;
          m2 = (case options of Some co \<Rightarrow> if co_IgnoreLabels co then remove_labels m1 else m1 | None \<Rightarrow> m1);
          m3 = (case options of Some co \<Rightarrow> if co_IgnoreMetadata co then fmdrop ''metadata'' m2 else m2 | None \<Rightarrow> m2)
      in case fmlookup m3 ''metadata'' of
           None \<Rightarrow> Ret m3
         | Some JNull \<Rightarrow> Ret m3
         | Some (JObj metadata) \<Rightarrow>
             (let d1 = (case options of Some co \<Rightarrow> if co_IgnoreOwnerRefs co then fmdrop ''ownerReferences'' metadata else metadata
                        | None \<Rightarrow> metadata);
                  d2 = (case options of Some co \<Rightarrow> foldl (\<lambda>d field. fmdrop field d) d1 (co_IgnoreMetadataFields co) | None \<Rightarrow> d1)
              in Ret (fmupd ''metadata'' (JObj d2) m3))
         | Some _ \<Rightarrow> Panic ''interface conversion'')"

section \<open>Running a test\<close>

definition getActualObject :: "test_env \<Rightarrow> Given \<Rightarrow> unstructured temp" where
  "getActualObject env i =
     (case (gv_Workload i, gv_Template i) of
        (Some w, Some t) \<Rightarrow>
          temp_bind (wrapping ''get workload failed: '' (test_GetWorkload env w)) (\<lambda>workload.
          temp_bind (wrapping ''get populated template failed: '' (test_GetTemplate env t)) (\<lambda>apiTemplate.
          temp_bind (lift_go (case ValidateTemplate (te_codec env) (vt_Template apiTemplate) of
              Some err \<Rightarrow> Err (WrapError ''template validation failed: '' err) | None \<Rightarrow> Ret ())) (\<lambda>_.
          temp_bind (lift_go (case NewReaderFromAPI (Some (vt_Template apiTemplate)) of
              Ret r \<Rightarrow> Ret r | Err err \<Rightarrow> Err (ErrorString ''failed to get cluster template'') | Panic p \<Rightarrow> Panic p)) (\<lambda>template.
          temp_bind (lift_go (if IsYTTTemplate template then wrap_go ''ensure YTT available: '' (ensureYTTAvailable env) else Ret ())) (\<lambda>_.
          case gv_SupplyChain i of
            None \<Rightarrow> Mock_stamp env \<lparr>ms_Params = None, ms_Inputs = None\<rparr> workload apiTemplate template
          | Some (UseMock m) \<Rightarrow> Mock_stamp env m workload apiTemplate template
          | Some (UseFileSet s) \<Rightarrow> FileSet_stamp env s workload apiTemplate template)))))
      | (None, _) \<Rightarrow> lift_go (Panic ''nil pointer dereference'')
      | (Some w, None) \<Rightarrow>
          temp_bind (wrapping ''get workload failed: '' (test_GetWorkload env w)) (\<lambda>workload. lift_go (Panic ''nil pointer dereference'')))"

text \<open>\<^verbatim>\<open>errors.Is(err, yttNotFound)\<close>.\<close>

fun is_yttNotFound :: "gerror \<Rightarrow> bool" where
  "is_yttNotFound (WrapError t e) = is_yttNotFound e"
| "is_yttNotFound e = (e = yttNotFound)"

definition object_content :: "unstructured \<Rightarrow> json_object" where
  "object_content u = (case u_Content u of JObj m \<Rightarrow> m | _ \<Rightarrow> fmempty)"

text \<open>The error of the call of an option function.\<close>

fun cmp_error :: "test_env \<Rightarrow> CMPOption option \<Rightarrow> gerror option" where
  "cmp_error env None = None"
| "cmp_error env (Some ConvertNumbersToFloatsDuringComparison) = None"
| "cmp_error env (Some (CMPOption f)) = te_CMPError env f"

definition compare_objects :: "test_env \<Rightarrow> CompareOptions option \<Rightarrow> json_object \<Rightarrow> json_object \<Rightarrow> unit go" where
  "compare_objects env options expected actual =
     go_bind (stripIgnoredFields options expected) (\<lambda>expectedObject.
       go_bind (stripIgnoredFields options actual) (\<lambda>actualObject.
         (let opts = (case options of None \<Rightarrow> None | Some co \<Rightarrow> co_CMPOption co)
          in case cmp_error env opts of
               Some err \<Rightarrow> Err (WrapError ''get compare options: '' err)
             | None \<Rightarrow>
                 (let diff = te_Diff env opts expectedObject actualObject
                  in if diff \<noteq> '''' then Err (ErrorString (''expected does not equal actual: (-expected +actual):'' @ [CHR 0x0A] @ diff))
                     else Ret ()))))"

definition Test_Run :: "test_env \<Rightarrow> Test \<Rightarrow> unit temp" where
  "Test_Run env c =
     (case tc_Expect c of
        None \<Rightarrow> lift_go (Panic ''nil pointer dereference'')
      | Some e \<Rightarrow>
          temp_bind (wrapping ''failed to get expected object: '' (getExpected env e)) (\<lambda>expectedObject.
          temp_bind (\<lambda>fs. case getActualObject env (tc_Given c) fs of
              (Ret u, fs') \<Rightarrow> (Ret u, fs')
            | (Panic p, fs') \<Rightarrow> (Panic p, fs')
            | (Err err, fs') \<Rightarrow>
                (Err (if is_yttNotFound err then ErrorString ''test requires ytt, but ytt was not found in path''
                      else WrapError ''failed to get actual object: '' err), fs')) (\<lambda>actualObject.
          case expectedObject of
            None \<Rightarrow> lift_go (Panic ''nil pointer dereference'')
          | Some expected \<Rightarrow> lift_go (compare_objects env (tc_CompareOptions c) expected (object_content actualObject)))))"

section \<open>Comparing numbers\<close>

text \<open>
  The transformer of \<^const>\<open>ConvertNumbersToFloatsDuringComparison\<close> converts both numbers to \<^verbatim>\<open>float64\<close>.  Go rounds an integer to the nearest
  number with 53 significant bits, ties to even: \<open>excess_bits\<close> counts the bits to drop.
\<close>

fun excess_bits :: "nat \<Rightarrow> nat" where
  "excess_bits n = (if n < 2 ^ 53 then 0 else Suc (excess_bits (n div 2)))"

declare excess_bits.simps [simp del]

definition round_half_even :: "nat \<Rightarrow> nat \<Rightarrow> nat" where
  "round_half_even n k =
     (let q = n div 2 ^ k; r = n mod 2 ^ k
      in (if 2 * r > 2 ^ k \<or> 2 * r = 2 ^ k \<and> odd q then q + 1 else q) * 2 ^ k)"

definition float64_of_int :: "int \<Rightarrow> rat" where
  "float64_of_int i = of_int (sgn i * int (round_half_even (nat \<bar>i\<bar>) (excess_bits (nat \<bar>i\<bar>))))"

lemma float64_of_int_exact: "\<bar>i\<bar> < 2 ^ 53 \<Longrightarrow> float64_of_int i = of_int i"
  by (simp add: float64_of_int_def round_half_even_def excess_bits.simps [of "nat \<bar>i\<bar>"] nat_less_iff sgn_mult_abs)

primrec numbers_to_floats :: "json \<Rightarrow> json" where
  "numbers_to_floats JNull = JNull"
| "numbers_to_floats (JBool b) = JBool b"
| "numbers_to_floats (JInt i) = JNum (float64_of_int i)"
| "numbers_to_floats (JNum n) = JNum n"
| "numbers_to_floats (JStr s) = JStr s"
| "numbers_to_floats (JArr xs) = JArr (map numbers_to_floats xs)"
| "numbers_to_floats (JObj m) = JObj (fmmap numbers_to_floats m)"

text \<open>What the comparison sees of a value.\<close>

definition compared_as :: "CompareOptions option \<Rightarrow> json \<Rightarrow> json" where
  "compared_as options =
     (case options of
        None \<Rightarrow> (\<lambda>v. v)
      | Some co \<Rightarrow> (if co_CMPOption co = Some ConvertNumbersToFloatsDuringComparison then numbers_to_floats else (\<lambda>v. v)))"

lemma compared_as_JObj: "compared_as options (JObj m) = JObj (fmmap (compared_as options) m)"
  by (auto simp: compared_as_def fmap.map_ident split: option.split)

section \<open>When a test passes\<close>

text \<open>The metadata fields that a comparison leaves out.\<close>

definition ignored_metadata :: "CompareOptions option \<Rightarrow> string set" where
  "ignored_metadata options =
     (case options of
        None \<Rightarrow> {}
      | Some co \<Rightarrow> (if co_IgnoreLabels co then {''labels''} else {}) \<union> (if co_IgnoreOwnerRefs co then {''ownerReferences''} else {}) \<union>
          set (co_IgnoreMetadataFields co))"

definition ignores_metadata :: "CompareOptions option \<Rightarrow> bool" where
  "ignores_metadata options = (case options of None \<Rightarrow> False | Some co \<Rightarrow> co_IgnoreMetadata co)"

lemma drop_fields: "foldl (\<lambda>d field. fmdrop field d) d fs = fmfilter (\<lambda>k. k \<notin> set fs) d"
proof (induction fs arbitrary: d)
  case (Cons f fs)
  show ?case unfolding foldl.simps Cons by (rule fmap_ext) simp
qed (rule fmap_ext, simp)

lemma fmfilter_drop_fields:
  "fmfilter P (fmdrop k m) = fmfilter (\<lambda>x. x \<noteq> k \<and> P x) m" "fmdrop k (fmfilter P m) = fmfilter (\<lambda>x. x \<noteq> k \<and> P x) m"
  by (rule fmap_ext, simp)+

lemma strip_metadata:
  assumes "fmlookup object ''metadata'' = Some (JObj metadata)"
  shows "stripIgnoredFields options object =
    Ret (if ignores_metadata options then fmdrop ''metadata'' (fmdrop ''status'' object)
         else fmupd ''metadata'' (JObj (fmfilter (\<lambda>k. k \<notin> ignored_metadata options) metadata)) (fmdrop ''status'' object))"
proof (cases options)
  case None
  with assms show ?thesis
    by (auto simp: stripIgnoredFields_def ignores_metadata_def ignored_metadata_def Let_def)
next
  case (Some co)
  have lookup: "fmlookup (fmdrop ''status'' object) ''metadata'' = Some (JObj metadata)" using assms by simp
  show ?thesis
  proof (cases "co_IgnoreMetadata co")
    case True
    then show ?thesis
      using Some lookup
      by (cases "co_IgnoreLabels co") (auto simp: stripIgnoredFields_def ignores_metadata_def remove_labels_def intro: fmap_ext)
  next
    case False
    have "fmlookup (remove_labels (fmdrop ''status'' object)) ''metadata'' = Some (JObj (fmdrop ''labels'' metadata))"
      unfolding remove_labels_def lookup by (simp add: delete_field_def)
    moreover have "fmupd ''metadata'' v (remove_labels m) = fmupd ''metadata'' v m" for v m
      by (rule fmap_ext) (simp add: remove_labels_def split: option.split)
    ultimately show ?thesis
      using Some False lookup
      by (cases "co_IgnoreLabels co"; cases "co_IgnoreOwnerRefs co")
        (simp_all add: stripIgnoredFields_def ignores_metadata_def ignored_metadata_def drop_fields fmfilter_drop_fields conj_left_commute)
  qed
qed

lemma fmap_eq_iff: "m = n \<longleftrightarrow> (\<forall>k. fmlookup m k = fmlookup n k)"
  by (auto intro: fmap_ext)

text \<open>Equality of what is left of two objects, field by field and seen through \<open>f\<close>.\<close>

lemma fmmap_stripped_eq_iff:
  "fmmap f (fmdrop k m) = fmmap f (fmdrop k n) \<longleftrightarrow> (\<forall>x. x \<noteq> k \<longrightarrow> map_option f (fmlookup m x) = map_option f (fmlookup n x))"
  "fmmap f (fmupd k v m) = fmmap f (fmupd k w n) \<longleftrightarrow>
     f v = f w \<and> (\<forall>x. x \<noteq> k \<longrightarrow> map_option f (fmlookup m x) = map_option f (fmlookup n x))"
  "fmmap f (fmfilter P m) = fmmap f (fmfilter P n) \<longleftrightarrow> (\<forall>x. P x \<longrightarrow> map_option f (fmlookup m x) = map_option f (fmlookup n x))"
  unfolding fmap_eq_iff [of "fmmap f _"] by auto

text \<open>
  C30: a comparison succeeds exactly when the two objects agree on every field but the status and, unless the whole
  metadata is ignored, on every metadata field that the options do not leave out.  Without a \<^verbatim>\<open>cmp\<close> option agreeing is being
  equal with the dynamic types of numbers, so the integer of an expected YAML file differs from the float that stamping made of it; with
  \<^const>\<open>ConvertNumbersToFloatsDuringComparison\<close> numbers are compared as floats.  The first two hypotheses say this of \<^verbatim>\<open>cmp.Diff\<close>.
\<close>

theorem comparison_exact:
  assumes "\<And>x y. te_Diff env None x y = '''' \<longleftrightarrow> x = y"
    and "\<And>x y. te_Diff env (Some ConvertNumbersToFloatsDuringComparison) x y = '''' \<longleftrightarrow> fmmap numbers_to_floats x = fmmap numbers_to_floats y"
    and "\<And>co f. options = Some co \<Longrightarrow> co_CMPOption co \<noteq> Some (CMPOption f)"
    and "fmlookup expected ''metadata'' = Some (JObj em)" "fmlookup actual ''metadata'' = Some (JObj am)"
  shows "compare_objects env options expected actual = Ret () \<longleftrightarrow>
    (\<forall>k. k \<notin> {''status'', ''metadata''} \<longrightarrow>
       map_option (compared_as options) (fmlookup expected k) = map_option (compared_as options) (fmlookup actual k)) \<and>
    (ignores_metadata options \<or>
     (\<forall>k. k \<notin> ignored_metadata options \<longrightarrow> map_option (compared_as options) (fmlookup em k) = map_option (compared_as options) (fmlookup am k)))"
proof -
  let ?opt = "case options of None \<Rightarrow> None | Some co \<Rightarrow> co_CMPOption co"
  have opt: "?opt = None \<or> ?opt = Some ConvertNumbersToFloatsDuringComparison"
  proof (cases ?opt)
    case (Some c)
    with assms(3) show ?thesis by (cases c) (simp_all split: option.splits)
  qed simp
  then have "cmp_error env ?opt = None" by auto
  moreover have "te_Diff env ?opt x y = '''' \<longleftrightarrow> fmmap (compared_as options) x = fmmap (compared_as options) y" for x y
    using opt
  proof
    assume "?opt = None"
    then show ?thesis by (simp only: assms(1)) (simp add: compared_as_def fmap.map_ident split: option.splits)
  next
    assume "?opt = Some ConvertNumbersToFloatsDuringComparison"
    then show ?thesis by (simp only: assms(2)) (simp add: compared_as_def split: option.splits)
  qed
  ultimately have "compare_objects env options expected actual = Ret () \<longleftrightarrow>
      fmmap (compared_as options) (if ignores_metadata options then fmdrop ''metadata'' (fmdrop ''status'' expected)
        else fmupd ''metadata'' (JObj (fmfilter (\<lambda>k. k \<notin> ignored_metadata options) em)) (fmdrop ''status'' expected)) =
      fmmap (compared_as options) (if ignores_metadata options then fmdrop ''metadata'' (fmdrop ''status'' actual)
        else fmupd ''metadata'' (JObj (fmfilter (\<lambda>k. k \<notin> ignored_metadata options) am)) (fmdrop ''status'' actual))"
    unfolding compare_objects_def strip_metadata [OF assms(4)] strip_metadata [OF assms(5)] by (simp only: go_bind.simps Let_def option.case) simp
  also have "\<dots> \<longleftrightarrow> (\<forall>k. k \<noteq> ''metadata'' \<longrightarrow> map_option (compared_as options) (fmlookup (fmdrop ''status'' expected) k) =
        map_option (compared_as options) (fmlookup (fmdrop ''status'' actual) k)) \<and>
      (ignores_metadata options \<or> fmmap (compared_as options) (fmfilter (\<lambda>k. k \<notin> ignored_metadata options) em) =
        fmmap (compared_as options) (fmfilter (\<lambda>k. k \<notin> ignored_metadata options) am))"
    by (cases "ignores_metadata options") (simp_all only: if_True if_False fmmap_stripped_eq_iff(1,2) compared_as_JObj json.inject simp_thms, blast)
  finally show ?thesis by (auto simp: fmmap_stripped_eq_iff(3))
qed

section \<open>Tests and the controller\<close>

lemma template_name_of_any_blueprint:
  "GetTemplateNameFromResource lsel jp resource n owner = Ret x \<Longrightarrow> GetTemplateNameFromResource lsel jp resource n' owner = Ret x"
  by (auto simp: GetTemplateNameFromResource_def findMatchingTemplateOption_def split: if_splits go.splits list.splits)

lemma NewReader_template: "\<exists>reader. NewReader (Some template) ig = Ret reader"
  by (cases template) (simp_all add: NewReader_def)

text \<open>
  C27: a test with a real supply chain stamps what the controller submits.  If the test stamps \<open>obj\<close> from the template, then the
  supply chain it selected has the target resource, and the resource realizer of a workload controller for the same workload and supply
  chain, with the same outputs of earlier resources and this template in the cluster, submits exactly \<open>obj\<close>.
\<close>

theorem tested_object_submitted:
  assumes "FileSet_stamp env s workload t (vt_Template t) fs = (Ret obj, fs')"
    and "template_name (vt_Template t) \<noteq> ''''"
    and "re_stamp renv = te_stamp env" "re_lsel renv = te_lsel env" "re_context renv = te_context env"
    and "\<And>chain. rz chain =
      \<lparr>rz_owner = te_owner env workload,
       rz_templatingContext = NewContextGenerator (te_json env workload) (wls_Params (wl_Spec workload)) (scs_Params (sc_Spec chain)),
       rz_resourceLabeler = BuildWorkloadResourceLabeler workload chain\<rparr>"
    and "GetTemplate (re_systemClient renv) r (template_name (vt_Template t)) (vt_Kind t) = Ret (Some (vt_Template t))"
    and "outputs = (case fs_PreviousOutputs s of Some previous \<Rightarrow> previous | None \<Rightarrow> NewOutputs)"
  shows "\<exists>chain resource reader option ls.
    getSupplyChain env s workload fs = (Ret chain, fs') \<and>
    resource \<in> set (MakeSupplychainOwnerResources chain) \<and> owr_Name resource = fs_TargetResourceName s \<and>
    Do_resource renv (rz chain) resource (sc_Name chain) outputs mapper r =
      (if IsImmutable (GetLifecycle (vt_Template t))
       then doImmutable renv resource (sc_Name chain) obj ls (vt_Template t) False (template_name (vt_Template t)) reader mapper option r
       else doMutable renv resource (sc_Name chain) obj (vt_Template t) False (template_name (vt_Template t)) reader mapper option r)"
proof -
  let ?T = "vt_Template t"
  obtain chain where chain: "getSupplyChain env s workload fs = (Ret chain, fs')"
    and stamp: "stamp_with_chain env s chain workload t ?T = Ret obj"
    using assms(1) by (auto simp: FileSet_stamp_def temp_bind_Ret_iff)
  obtain resource where target: "getTargetResource (MakeSupplychainOwnerResources chain) (fs_TargetResourceName s) = Ret resource"
    and matches: "templateMatchesResource env t resource workload = Ret True"
    using stamp by (auto simp: stamp_with_chain_def go_bind_Ret_iff split: if_splits)
  then have resource: "resource \<in> set (MakeSupplychainOwnerResources chain)" "owr_Name resource = fs_TargetResourceName s"
    by (auto simp: getTargetResource_def find_Some_iff split: option.splits)
  obtain pt option where name: "GetTemplateNameFromResource (te_lsel env) (se_jp (te_stamp env)) resource '''' (te_owner env workload) =
      Ret (template_name ?T, pt, option)" and kind: "vt_Kind t = tref_Kind (owr_TemplateRef resource)"
    using matches by (auto simp: templateMatchesResource_def go_bind_Ret_iff)
  then have "\<not> pt" using assms(2) by (auto simp: GetTemplateNameFromResource_def split: if_splits go.splits)
  note name' = template_name_of_any_blueprint [OF name, of "sc_Name chain"]
  let ?ls = "BuildWorkloadResourceLabeler workload chain resource ?T"
  obtain ctx where ctx: "Generate (NewContextGenerator (te_json env workload) (wls_Params (wl_Spec workload)) (scs_Params (sc_Spec chain)))
      (Some (GetDefaultParams ?T)) resource outputs ?ls = Ret ctx"
    and obj: "Stamp (te_stamp env) (StamperBuilder (te_owner env workload) (te_context env ctx) ?ls) (GetResourceTemplate ?T) = Ret obj"
    using stamp by (auto simp: stamp_with_chain_def target matches go_bind_Ret_iff assms(8) Let_def)
  obtain reader where "NewReader (Some ?T) (NewInputGenerator resource outputs) = Ret reader" using NewReader_template by blast
  then have "Do_resource renv (rz chain) resource (sc_Name chain) outputs mapper r =
      (if IsImmutable (GetLifecycle ?T)
       then doImmutable renv resource (sc_Name chain) obj ?ls ?T False (template_name ?T) reader mapper option r
       else doMutable renv resource (sc_Name chain) obj ?T False (template_name ?T) reader mapper option r)"
    using \<open>\<not> pt\<close> name' kind assms(7) ctx obj by (simp add: Do_resource_def assms(3-6) NewReaderFromAPI_def Let_def)
  then show ?thesis using chain resource by blast
qed

section \<open>Temporary files\<close>

lemma readonly_template: "temp_bind (wrapping t (ReadFile env f)) (\<lambda>d. lift_go (k d)) fs = (r, fs') \<Longrightarrow> fs' = fs"
  by (auto simp: temp_bind_def wrapping_def ReadFile_def lift_go_def split: option.splits go.splits)

lemma CreateTemp_Ret: "CreateTemp env fs = (Ret f, fs') \<longleftrightarrow> te_TempName env fs = Inr f \<and> fs' = fmupd f '''' fs"
  by (auto simp: CreateTemp_def split: sum.splits)

lemma yt_values_F [simp]: "yt_values (ytt_F f y) = yt_values y"
  by (simp add: ytt_F_def)

lemma yt_values_files [simp]: "yt_values (foldl (\<lambda>y f. ytt_F f y) y fpaths) = yt_values y"
  by (induction fpaths arbitrary: y) simp_all

lemma build_one:
  assumes "build_values env [v] y fs = (Ret y', fs')"
  shows "\<exists>f content. te_TempName env fs = Inr f \<and> te_EncodeValues env v = Inr content \<and> fs' = fmupd f content fs"
proof -
  obtain f content where "te_TempName env fs = Inr f" "te_EncodeValues env v = Inr content" "fs' = fmupd f content (fmupd f '''' fs)"
    using assms by (auto simp: temp_bind_Ret_iff CreateTemp_Ret write_file_def of_sum_def split: sum.splits)
  moreover have "fmupd f content (fmupd f '''' fs) = fmupd f content fs" by (rule fmap_ext) simp
  ultimately show ?thesis by blast
qed

lemma preprocess_files:
  assumes "preprocessYtt env values path yttFiles fs = (Ret f, fs')"
  shows "\<exists>v content out. te_TempName env fs = Inr v \<and> te_EncodeValues env values = Inr content \<and>
    te_TempName env (fmupd v content fs) = Inr f \<and> fs' = fmupd f out (fmupd v content fs)"
proof -
  let ?y = "foldl (\<lambda>y f. ytt_F f y) (ytt_F path (ytt_Values values YTT)) yttFiles"
  have "yt_values ?y = [values]" by (simp add: ytt_Values_def YTT_def)
  then obtain y' fs1 out where build: "build_values env [values] ?y fs = (Ret y', fs1)" and f: "te_TempName env fs1 = Inr f"
    and fs': "fs' = fmupd f out (fmupd f '''' fs1)"
    using assms by (auto simp: preprocessYtt_def ToTempFile_def ytt_build_def temp_bind_Ret_iff CreateTemp_Ret write_file_def
        simp del: build_values.simps)
  have "fmupd f out (fmupd f '''' fs1) = fmupd f out fs1" by (rule fmap_ext) simp
  with build_one [OF build] f fs' show ?thesis by auto
qed

lemma with_preprocessed_Ret:
  assumes "with_preprocessed env values yttFiles path k fs = (Ret v, fs')" "fmap_len values \<noteq> 0 \<or> length yttFiles \<noteq> 0"
  shows "\<exists>f fs1 fs2. preprocessYtt env values path yttFiles fs = (Ret f, fs1) \<and> k f fs1 = (Ret v, fs2) \<and> fs' = fmdrop f fs2"
  using assms(1) unfolding with_preprocessed_def if_P [OF assms(2)]
  by (auto simp: temp_bind_Ret_iff finally_remove_def case_prod_beta) (metis prod.collapse)

text \<open>
  Preprocessing a template with ytt removes the output but leaves the file with the values behind: after reading a template, one
  more temporary file exists.
\<close>

theorem values_file_left:
  assumes "\<And>fs f. te_TempName env fs = Inr f \<Longrightarrow> f \<notin> fmdom' fs"
    and "TemplateFile_GetTemplate env i fs = (Ret t, fs')" "tf_YttFiles i \<noteq> []"
  shows "\<exists>f content. f \<notin> fmdom' fs \<and> te_EncodeValues env (tf_YttValues i) = Inr content \<and> fs' = fmupd f content fs"
proof -
  from assms(3) have "fmap_len (tf_YttValues i) \<noteq> 0 \<or> length (tf_YttFiles i) \<noteq> 0" by simp
  from with_preprocessed_Ret [OF assms(2) [unfolded TemplateFile_GetTemplate_def] this]
  obtain f fs1 fs2 where pre: "preprocessYtt env (tf_YttValues i) (tf_Path i) (tf_YttFiles i) fs = (Ret f, fs1)"
    and rest: "temp_bind (wrapping ''could not read template file: '' (ReadFile env f)) (\<lambda>d. lift_go (decode_template env d)) fs1 = (Ret t, fs2)"
    and fs': "fs' = fmdrop f fs2" by blast
  obtain v content out where v: "te_TempName env fs = Inr v" "te_EncodeValues env (tf_YttValues i) = Inr content"
      "te_TempName env (fmupd v content fs) = Inr f" "fs1 = fmupd f out (fmupd v content fs)"
    using preprocess_files [OF pre] by blast
  have "fs2 = fs1" using readonly_template [OF rest] .
  moreover have "f \<notin> fmdom' (fmupd v content fs)" "v \<notin> fmdom' fs" by (rule assms(1), rule v)+
  ultimately have "fs' = fmupd v content fs" using fs' v(4) by (auto intro!: fmap_ext simp: fmdom'_notD)
  then show ?thesis using v(2) \<open>v \<notin> fmdom' fs\<close> by blast
qed

section \<open>Witnesses\<close>

definition tested_chain :: ClusterSupplyChain where
  "tested_chain = ready_chain\<lparr>sc_Spec := (sc_Spec ready_chain)\<lparr>scs_Resources := scs_Resources (sc_Spec example_chain)\<rparr>\<rparr>"

definition tested_template :: ValidatableTemplate where
  "tested_template = \<lparr>vt_Template = ClusterTemplate ''t'' \<lparr>ts_Template = Some ''{}'', ts_Ytt = '''', ts_Params = [], ts_HealthRule = None,
     ts_Lifecycle = '''', ts_RetentionPolicy = None\<rparr>, vt_Kind = ''ClusterTemplate''\<rparr>"

definition example_test_env :: test_env where
  "example_test_env =
     \<lparr>te_ReadFile = \<lambda>p. Inr '''', te_Stat = \<lambda>p. Inr False, te_ReadDir = \<lambda>p. Inr [], te_NotExist = \<lambda>e. True, te_Join = \<lambda>d f. d @ ''/'' @ f,
      te_TempName = \<lambda>fs. Inr (replicate (Suc (sum_list (map length (fmap_keys fs)))) CHR ''x''),
      te_Exec = \<lambda>argv. (None, '''', ''''), te_ExecNotFound = \<lambda>e. False, te_multierror = \<lambda>a b. a, te_EncodeValues = \<lambda>v. Inr ''{}'',
      te_ShowValues = \<lambda>v. '''', te_YAMLToJSON = Inr, te_Object = \<lambda>r. Inr (fmap_of_list [(''kind'', JStr ''ClusterTemplate'')]),
      te_ToUnstructured = \<lambda>v. Inr fmempty, te_Template = \<lambda>k r. Inr tested_template,
      te_Workload = \<lambda>r. Inr example_workload, te_SupplyChain = \<lambda>r. Inr tested_chain, te_Params = \<lambda>r. Inr [],
      te_Inputs = \<lambda>r. Inr \<lparr>in_Sources = None, in_Images = None, in_Configs = None, in_Deployment = None\<rparr>,
      te_CMPError = \<lambda>c. None, te_Diff = \<lambda>opt a b. if a = b then '''' else ''diff'',
      te_codec = \<lparr>jc_Object = \<lambda>r. Inr empty_object, jc_Value = \<lambda>r. Inr JNull, jc_Show = \<lambda>v. ''''\<rparr>,
      te_lsel = \<lambda>sel. Inr (\<lambda>ls. True), te_stamp = example_env, te_context = \<lambda>c. JNull, te_mock_context = \<lambda>c. JNull,
      te_kind = \<lambda>c. '''', te_json = \<lambda>w. JNull,
      te_owner = \<lambda>w. \<lparr>ow_APIVersion = '''', ow_Kind = '''', ow_UID = '''', ow_Name = '''', ow_Namespace = '''', ow_Labels = fmempty, ow_Object = JNull\<rparr>\<rparr>"

text \<open>Three replicas, as a YAML file and as the stamper give them: equal only as floats.\<close>

theorem comparison_exact_witness:
  "let env = example_test_env\<lparr>te_Diff := \<lambda>opt a b.
         if (if opt = None then a = b else fmmap numbers_to_floats a = fmmap numbers_to_floats b) then '''' else ''diff''\<rparr>;
       expected = fmap_of_list [(''metadata'', JObj fmempty), (''replicas'', JInt 3), (''status'', JBool True)];
       actual = fmap_of_list [(''metadata'', JObj fmempty), (''replicas'', JNum 3)]
   in compare_objects env None expected actual \<noteq> Ret () \<and>
      compare_objects env (Some \<lparr>co_IgnoreMetadata = False, co_IgnoreOwnerRefs = False, co_IgnoreLabels = False, co_IgnoreMetadataFields = [],
        co_CMPOption = Some ConvertNumbersToFloatsDuringComparison\<rparr>) expected actual = Ret ()"
  (is "let env = ?env; expected = ?e; actual = ?a in compare_objects env None expected actual \<noteq> Ret () \<and>
    compare_objects env ?o expected actual = Ret ()")
proof -
  have diff: "te_Diff ?env None x y = '''' \<longleftrightarrow> x = y"
      "te_Diff ?env (Some ConvertNumbersToFloatsDuringComparison) x y = '''' \<longleftrightarrow> fmmap numbers_to_floats x = fmmap numbers_to_floats y" for x y
    by simp_all
  have meta: "fmlookup ?e ''metadata'' = Some (JObj fmempty)" "fmlookup ?a ''metadata'' = Some (JObj fmempty)" by simp_all
  have three: "float64_of_int 3 = 3" using float64_of_int_exact [of 3] by simp
  have "compare_objects ?env None ?e ?a \<noteq> Ret ()"
    by (subst comparison_exact [OF diff _ meta]) (auto simp: compared_as_def intro: exI [of _ "''replicas''"])
  moreover have "compare_objects ?env ?o ?e ?a = Ret ()"
    by (subst comparison_exact [OF diff _ meta]) (auto simp: compared_as_def three)
  ultimately show ?thesis unfolding Let_def by blast
qed

theorem values_file_left_witness:
  "\<exists>t fs' f content. TemplateFile_GetTemplate example_test_env \<lparr>tf_Path = ''template.yaml'', tf_YttValues = fmempty, tf_YttFiles = [''values.yaml'']\<rparr> fmempty =
     (Ret t, fs') \<and> fs' = fmupd f content fmempty"
proof -
  let ?i = "\<lparr>tf_Path = ''template.yaml'', tf_YttValues = fmempty, tf_YttFiles = [''values.yaml'']\<rparr>"
  have long: "length k \<le> sum_list (map length (fmap_keys fs))" if "k \<in> fmdom' fs" for k and fs :: temp_files
    using that by (intro member_le_sum_list) auto
  have fresh: "f \<notin> fmdom' fs" if "te_TempName example_test_env fs = Inr f" for fs f
    using that long [of f fs] by (auto simp: example_test_env_def)
  obtain t fs' where run: "TemplateFile_GetTemplate example_test_env ?i fmempty = (Ret t, fs')"
    by (simp add: TemplateFile_GetTemplate_def with_preprocessed_def temp_bind_def wrapping_def lift_go_def preprocessYtt_def ToTempFile_def
        ytt_build_def YTT_def ytt_Values_def ytt_F_def CreateTemp_def write_file_def finally_remove_def ReadFile_def ensureYTTAvailable_def
        RunWithOutput_def cmd_Run_def cmd_run_def decode_template_def object_kind_def example_test_env_def)
  from values_file_left [OF fresh run] run show ?thesis by auto
qed

definition example_file_set :: SupplyChainFileSet where
  "example_file_set =
     \<lparr>fs_Paths = [''chain.yaml''], fs_YttValues = fmempty, fs_YttFiles = [], fs_TargetResourceName = ''a'', fs_PreviousOutputs = None\<rparr>"

definition example_realizer_env :: "unstructured list realizer_env" where
  "example_realizer_env =
     \<lparr>re_stamp = example_env, re_lsel = \<lambda>sel. Inr (\<lambda>ls. True), re_sprint = \<lambda>v. '''', re_conditions = \<lambda>v. Inr [], re_sort = insertionSort,
      re_context = \<lambda>c. JNull, re_systemClient = list_client\<lparr>cl_GetTemplate := \<lambda>w k n. Inr (vt_Template tested_template)\<rparr>,
      re_ownerClient = list_client\<rparr>"

lemma tested_match: "BestSelectorMatch (\<lambda>sel. Inr (\<lambda>ls. True)) jp (supply_chain_selecting kind) s [tested_chain] = Ret [tested_chain]"
proof -
  have "BestSelectorMatchIndices (\<lambda>sel. Inr (\<lambda>ls. True)) jp s (selectingObjectsSelectors (supply_chain_selecting kind) [tested_chain]) = Ret [0]"
    by (simp add: BestSelectorMatchIndices_def best_loop.simps selectingObjectsSelectors_def legacySelectorToSelector_def supply_chain_selecting_def
        tested_chain_def ready_chain_def one_label Let_def del: fmap_of_list_simps)
  then show ?thesis by (simp add: BestSelectorMatch_def)
qed

lemma tested_selected: "getSupplyChain example_test_env example_file_set w fs = (Ret tested_chain, fs)"
proof -
  have "readAllPaths example_test_env example_file_set fs = (Ret [tested_chain], fs)" if "fmlookup fs ''chain.yaml'' = None"
    using that by (simp add: readAllPaths_def example_file_set_def readSupplyChainFile_def with_preprocessed_def temp_bind_def wrapping_def lift_go_def
        ReadFile_def example_test_env_def)
  moreover have "readAllPaths example_test_env example_file_set fs = (Ret [tested_chain], fs)" if "fmlookup fs ''chain.yaml'' = Some c" for c
    using that by (simp add: readAllPaths_def example_file_set_def readSupplyChainFile_def with_preprocessed_def temp_bind_def wrapping_def lift_go_def
        ReadFile_def example_test_env_def)
  ultimately have "readAllPaths example_test_env example_file_set fs = (Ret [tested_chain], fs)" by (cases "fmlookup fs ''chain.yaml''") auto
  moreover have "te_lsel example_test_env = (\<lambda>sel. Inr (\<lambda>ls. True))" by (simp add: example_test_env_def)
  ultimately show ?thesis
    by (simp add: getSupplyChain_def temp_bind_def wrapping_def lift_go_def GetSelectedSupplyChain_def tested_match)
qed

lemma tested_stamp: "\<exists>obj. FileSet_stamp example_test_env example_file_set example_workload tested_template (vt_Template tested_template) fmempty = (Ret obj, fmempty)"
proof -
  have "applyTemplate example_env st ''{}'' = Ret (empty_object\<lparr>u_Content := JObj fmempty\<rparr>)" for st
    by (simp add: applyTemplate_def example_env_def)
  then have stamp: "\<exists>obj. Stamp example_env (StamperBuilder ow c ls) (GetResourceTemplate (vt_Template tested_template)) = Ret obj" for ow c ls
    by (simp add: Stamp_def empty_object_def tested_template_def)
  define resource where "resource = hd (MakeSupplychainOwnerResources tested_chain)"
  have resource: "getTargetResource (MakeSupplychainOwnerResources tested_chain) ''a'' = Ret resource"
      "owr_TemplateOptions resource = []" "tref_Name (owr_TemplateRef resource) = ''t''" "tref_Kind (owr_TemplateRef resource) = ''ClusterTemplate''"
      "owr_Params resource = []"
    by (simp_all add: resource_def getTargetResource_def MakeSupplychainOwnerResources_def tested_chain_def ready_chain_def example_chain_def)
  have "templateMatchesResource example_test_env tested_template resource example_workload = Ret True"
    using resource by (simp add: templateMatchesResource_def GetTemplateNameFromResource_def tested_template_def)
  moreover have "\<exists>ctx. Generate (NewContextGenerator j (wls_Params (wl_Spec example_workload)) (scs_Params (sc_Spec tested_chain)))
      (Some (GetDefaultParams (vt_Template tested_template))) resource NewOutputs ls = Ret ctx" for j ls
    using resource by (simp add: Generate_def NewContextGenerator_def NewParamMerger_def Merge_def tested_chain_def ready_chain_def example_chain_def
        example_workload_def owner_overrides_def Let_def)
  ultimately have "\<exists>obj. stamp_with_chain example_test_env example_file_set tested_chain example_workload tested_template (vt_Template tested_template) = Ret obj"
    using resource stamp by (simp add: stamp_with_chain_def example_file_set_def go_bind_Ret_iff Let_def example_test_env_def)
  then show ?thesis by (auto simp: FileSet_stamp_def temp_bind_def wrapping_def tested_selected lift_go_def)
qed

theorem tested_object_submitted_witness:
  "\<exists>obj chain resource reader option.
    FileSet_stamp example_test_env example_file_set example_workload tested_template (vt_Template tested_template) fmempty = (Ret obj, fmempty) \<and>
    Do_resource example_realizer_env
      \<lparr>rz_owner = te_owner example_test_env example_workload,
       rz_templatingContext = NewContextGenerator (te_json example_test_env example_workload) (wls_Params (wl_Spec example_workload)) (scs_Params (sc_Spec chain)),
       rz_resourceLabeler = BuildWorkloadResourceLabeler example_workload chain\<rparr>
      resource (sc_Name chain) NewOutputs (\<lambda>g. Inl (ErrorString '''')) (cs_repo example_owner_state) =
    doMutable example_realizer_env resource (sc_Name chain) obj (vt_Template tested_template) False ''t'' reader (\<lambda>g. Inl (ErrorString '''')) option (cs_repo example_owner_state)"
proof -
  obtain obj where obj: "FileSet_stamp example_test_env example_file_set example_workload tested_template (vt_Template tested_template) fmempty = (Ret obj, fmempty)"
    using tested_stamp by blast
  have facts: "template_name (vt_Template tested_template) \<noteq> ''''" "re_stamp example_realizer_env = te_stamp example_test_env"
    "re_lsel example_realizer_env = te_lsel example_test_env" "re_context example_realizer_env = te_context example_test_env"
    "GetTemplate (re_systemClient example_realizer_env) (cs_repo example_owner_state) (template_name (vt_Template tested_template)) (vt_Kind tested_template) = Ret (Some (vt_Template tested_template))"
    "NewOutputs = (case fs_PreviousOutputs example_file_set of Some previous \<Rightarrow> previous | None \<Rightarrow> NewOutputs)"
    by (simp_all add: tested_template_def example_realizer_env_def example_test_env_def example_file_set_def GetTemplate_def GetAPITemplate_def getObject_def optional_object_def)
  have mutable: "\<not> IsImmutable (GetLifecycle (vt_Template tested_template))" "template_name (vt_Template tested_template) = ''t''"
    by (simp_all add: IsImmutable_def reader.lifecycle_spec convertLifecycle_def tested_template_def)
  from tested_object_submitted [OF obj facts(1-4) refl facts(5,6), of "\<lambda>g. Inl (ErrorString '''')"] obj show ?thesis
    unfolding mutable(2) using mutable(1) by auto
qed

end
