(* ===== verification/Test_Suites.thy ===== *)
theory Test_Suites
  imports Test_Stamping
begin

text \<open>
  \<^verbatim>\<open>pkg/testing\<close>, the command line tool \<^verbatim>\<open>cartotest\<close>: test cases built from a tree of directories (\<^verbatim>\<open>cli-case.go\<close>,
  \<^verbatim>\<open>cli-suite.go\<close>), run (\<^verbatim>\<open>suite.go\<close>) and reported (\<^verbatim>\<open>cli-reporter.go\<close>, \<^verbatim>\<open>cli.go\<close>).

  A test case of a directory starts as a copy of the one of its parent.  The copy is shallow: the compare options are behind a pointer that
  parent and children share, so they live in a heap, and a \<open>CliTest\<close> has the address.  The recursion over the directories
  takes fuel; \<open>build_terminates\<close> says how much is enough.
\<close>

section \<open>Test information\<close>

record testInfoCompareOptions =
  tico_IgnoreMetadata :: "bool option"
  tico_IgnoreOwnerRefs :: "bool option"
  tico_IgnoreLabels :: "bool option"
  tico_IgnoreMetadataFields :: "string slice"
  tico_NamedCMPOptionFuncs :: "string list"

record testInfo =
  ti_Name :: "string option"
  ti_Description :: "string option"
  ti_TemplatePath :: "string option"
  ti_TemplateYttPath :: "string option"
  ti_Workload :: "string option"
  ti_BlueprintInputs :: "Inputs option"
  ti_BlueprintParams :: "BlueprintParam slice"
  ti_SupplyChainPaths :: "string list"
  ti_SupplyChainYttPath :: "string option"
  ti_TargetResourceName :: "string option"
  ti_PreviousOutputs :: "Outputs option"
  ti_Expected :: "string option"
  ti_Focus :: "bool option"
  ti_CompareOptions :: testInfoCompareOptions

definition empty_info :: testInfo where
  "empty_info =
     \<lparr>ti_Name = None, ti_Description = None, ti_TemplatePath = None, ti_TemplateYttPath = None, ti_Workload = None,
      ti_BlueprintInputs = None, ti_BlueprintParams = None, ti_SupplyChainPaths = [], ti_SupplyChainYttPath = None,
      ti_TargetResourceName = None, ti_PreviousOutputs = None, ti_Expected = None, ti_Focus = None,
      ti_CompareOptions = \<lparr>tico_IgnoreMetadata = None, tico_IgnoreOwnerRefs = None, tico_IgnoreLabels = None,
        tico_IgnoreMetadataFields = None, tico_NamedCMPOptionFuncs = []\<rparr>\<rparr>"

text \<open>The decoder of an information file, writing to standard error, and the order in which Go ranges over a suite.\<close>

record CliTest =
  ct_Given :: Given
  ct_Expect :: "Expectation option"
  ct_CompareOptions :: "nat option"
  ct_Focus :: bool

type_synonym heap = "CompareOptions list"

type_synonym Suite = "(string, CliTest) fmap"

record suite_env = test_env +
  sv_Info :: "raw \<Rightarrow> gerror + testInfo"
  sv_Stderr :: "string \<Rightarrow> gerror option"
  sv_range :: "Suite \<Rightarrow> string list"
  sv_verbose :: bool

definition infoFilename :: string where
  "infoFilename = ''info.yaml''"

definition populateInfo :: "suite_env \<Rightarrow> string \<Rightarrow> testInfo go" where
  "populateInfo env directory =
     (let filePath = te_Join env directory infoFilename
      in case te_ReadFile env filePath of
           Inl err \<Rightarrow> if te_NotExist env err then Ret empty_info else Err (WrapError (''read file failed: '' @ filePath @ '': '') err)
         | Inr infoFile \<Rightarrow> wrap_go (''unmarshal failed: '' @ filePath @ '': '') (of_sum (sv_Info env infoFile)))"

section \<open>The test case of a directory\<close>

definition getLocallySpecifiedPath :: "suite_env \<Rightarrow> string \<Rightarrow> string \<Rightarrow> string option \<Rightarrow> string go" where
  "getLocallySpecifiedPath env directory filename priorityPath =
     (case priorityPath of
        Some path \<Rightarrow> Ret (te_Join env directory path)
      | None \<Rightarrow>
          (let candidatePath = te_Join env directory filename
           in case te_Stat env candidatePath of
                Inl err \<Rightarrow> if te_NotExist env err then Ret ''''
                  else Err (WrapError (''failed while getting file info on '' @ candidatePath @ '': '') err)
              | Inr info \<Rightarrow> Ret candidatePath))"

definition getFilesPrefixedSupplyChainInDir :: "suite_env \<Rightarrow> string \<Rightarrow> string list go" where
  "getFilesPrefixedSupplyChainInDir env directory =
     go_bind (wrap_go ''os read directory: '' (of_sum (te_ReadDir env directory))) (\<lambda>files.
       Ret (map (\<lambda>(name, isDir). te_Join env directory name)
         (filter (\<lambda>(name, isDir). hasPrefix name ''supply-chain'' \<and> hasSuffix name ''.yaml'') files)))"

definition fileSetNotEmpty :: "SupplyChainFileSet \<Rightarrow> bool" where
  "fileSetNotEmpty s \<longleftrightarrow>
     length (fs_YttFiles s) > 0 \<or> length (fs_Paths s) > 0 \<or> fs_TargetResourceName s \<noteq> '''' \<or> fs_PreviousOutputs s \<noteq> None"

definition populateTestCaseTemplate :: "suite_env \<Rightarrow> CliTest \<Rightarrow> string \<Rightarrow> testInfo \<Rightarrow> CliTest go" where
  "populateTestCaseTemplate env testCase directory info =
     (let newTemplateFile = (case gv_Template (ct_Given testCase) of
            Some (FromTemplateFile previous) \<Rightarrow> previous
          | _ \<Rightarrow> \<lparr>tf_Path = '''', tf_YttValues = fmempty, tf_YttFiles = []\<rparr>)
      in go_bind (wrap_go (''get template file specified in directory '' @ directory @ '': '')
             (getLocallySpecifiedPath env directory ''template.yaml'' (ti_TemplatePath info))) (\<lambda>newTemplateFilepath.
         go_bind (wrap_go (''get template ytt file specified in directory '' @ directory @ '': '')
             (getLocallySpecifiedPath env directory ''template-ytt-values.yaml'' (ti_TemplateYttPath info))) (\<lambda>yttFile.
           (let f1 = (if newTemplateFilepath \<noteq> '''' then newTemplateFile\<lparr>tf_Path := newTemplateFilepath\<rparr> else newTemplateFile);
                f2 = (if yttFile \<noteq> '''' then f1\<lparr>tf_YttFiles := [yttFile]\<rparr> else f1)
            in Ret (testCase\<lparr>ct_Given := (ct_Given testCase)\<lparr>gv_Template := Some (FromTemplateFile f2)\<rparr>\<rparr>)))))"

definition populateTestCaseWorkload :: "suite_env \<Rightarrow> CliTest \<Rightarrow> string \<Rightarrow> testInfo \<Rightarrow> CliTest go" where
  "populateTestCaseWorkload env testCase directory info =
     go_bind (wrap_go (''get workload file specified in directory '' @ directory @ '': '')
         (getLocallySpecifiedPath env directory ''workload.yaml'' (ti_Workload info))) (\<lambda>newWorkloadValue.
       Ret (if newWorkloadValue \<noteq> '''' then testCase\<lparr>ct_Given := (ct_Given testCase)\<lparr>gv_Workload := Some (WorkloadFile newWorkloadValue)\<rparr>\<rparr>
            else testCase))"

definition populateTestCaseMockSupplyChain :: "CliTest \<Rightarrow> testInfo \<Rightarrow> CliTest \<times> bool" where
  "populateTestCaseMockSupplyChain testCase info =
     (let mockSupplyChain =
            \<lparr>ms_Params = map_option SupplyChainParamsObject (ti_BlueprintParams info),
             ms_Inputs = map_option SupplyChainInputsObject (ti_BlueprintInputs info)\<rparr>;
          mockSupplyChainSpecified = (ti_BlueprintInputs info \<noteq> None \<or> ti_BlueprintParams info \<noteq> None)
      in (testCase\<lparr>ct_Given := (ct_Given testCase)\<lparr>gv_SupplyChain := Some (UseMock mockSupplyChain)\<rparr>\<rparr>, mockSupplyChainSpecified))"

definition populateTestCaseSupplyChain :: "suite_env \<Rightarrow> CliTest \<Rightarrow> string \<Rightarrow> testInfo \<Rightarrow> (CliTest \<times> bool) go" where
  "populateTestCaseSupplyChain env testCase directory info =
     (let s0 = (case gv_SupplyChain (ct_Given testCase) of
            Some (UseFileSet previous) \<Rightarrow> previous
          | _ \<Rightarrow> \<lparr>fs_Paths = [], fs_YttValues = fmempty, fs_YttFiles = [], fs_TargetResourceName = '''', fs_PreviousOutputs = None\<rparr>);
          s1 = (case ti_TargetResourceName info of None \<Rightarrow> s0 | Some n \<Rightarrow> s0\<lparr>fs_TargetResourceName := n\<rparr>);
          s2 = (case ti_PreviousOutputs info of None \<Rightarrow> s1 | Some outs \<Rightarrow> s1\<lparr>fs_PreviousOutputs := Some outs\<rparr>)
      in go_bind (wrap_go (''get supply chain ytt file specified in directory '' @ directory @ '': '')
             (getLocallySpecifiedPath env directory ''supply-chain-ytt-values.yaml'' (ti_SupplyChainYttPath info))) (\<lambda>yttFile.
           (let s3 = (if yttFile \<noteq> '''' then s2\<lparr>fs_YttFiles := [yttFile]\<rparr> else s2)
            in go_bind
                 (if length (ti_SupplyChainPaths info) > 0 then Ret (s3\<lparr>fs_Paths := ti_SupplyChainPaths info\<rparr>, True)
                  else go_bind (wrap_go ''get files prefixed with supply-chain in dir: '' (getFilesPrefixedSupplyChainInDir env directory)) (\<lambda>found.
                         Ret (if length found > 0 then (s3\<lparr>fs_Paths := found\<rparr>, True) else (s3, False))))
                 (\<lambda>(s4, supplyChainSpecified).
                    Ret (if fileSetNotEmpty s4 then testCase\<lparr>ct_Given := (ct_Given testCase)\<lparr>gv_SupplyChain := Some (UseFileSet s4)\<rparr>\<rparr>
                         else testCase, supplyChainSpecified)))))"

section \<open>Compare options\<close>

definition empty_options :: CompareOptions where
  "empty_options =
     \<lparr>co_IgnoreMetadata = False, co_IgnoreOwnerRefs = False, co_IgnoreLabels = False, co_IgnoreMetadataFields = [], co_CMPOption = None\<rparr>"

text \<open>\<^verbatim>\<open>if testCase.CompareOptions == nil { testCase.CompareOptions = &CompareOptions{} }\<close> and an assignment through the pointer.\<close>

definition assign_option :: "(CompareOptions \<Rightarrow> CompareOptions) \<Rightarrow> CliTest \<times> heap \<Rightarrow> CliTest \<times> heap" where
  "assign_option f = (\<lambda>(testCase, h).
     case ct_CompareOptions testCase of
       None \<Rightarrow> (testCase\<lparr>ct_CompareOptions := Some (length h)\<rparr>, h @ [f empty_options])
     | Some p \<Rightarrow> (testCase, h[p := f (h ! p)]))"

definition populateCompareOptions :: "CliTest \<Rightarrow> testInfo \<Rightarrow> heap \<Rightarrow> CliTest \<times> heap" where
  "populateCompareOptions testCase info h =
     (let co = ti_CompareOptions info;
          s1 = (case tico_IgnoreMetadata co of None \<Rightarrow> (testCase, h) | Some b \<Rightarrow> assign_option (\<lambda>c. c\<lparr>co_IgnoreMetadata := b\<rparr>) (testCase, h));
          s2 = (case tico_IgnoreOwnerRefs co of None \<Rightarrow> s1 | Some b \<Rightarrow> assign_option (\<lambda>c. c\<lparr>co_IgnoreOwnerRefs := b\<rparr>) s1);
          s3 = (case tico_IgnoreLabels co of None \<Rightarrow> s2 | Some b \<Rightarrow> assign_option (\<lambda>c. c\<lparr>co_IgnoreLabels := b\<rparr>) s2);
          s4 = (case tico_IgnoreMetadataFields co of None \<Rightarrow> s3 | Some fs \<Rightarrow> assign_option (\<lambda>c. c\<lparr>co_IgnoreMetadataFields := fs\<rparr>) s3)
      in foldl (\<lambda>s optionFunc. if optionFunc = ''ConvertNumbersToFloatsDuringComparison''
                  then assign_option (\<lambda>c. c\<lparr>co_CMPOption := Some ConvertNumbersToFloatsDuringComparison\<rparr>) s else s)
           s4 (tico_NamedCMPOptionFuncs co))"

text \<open>The value of a test case when it runs.\<close>

definition deref :: "heap \<Rightarrow> CliTest \<Rightarrow> Test" where
  "deref h c =
     \<lparr>tc_Given = ct_Given c, tc_Expect = ct_Expect c,
      tc_CompareOptions = map_option (\<lambda>p. h ! p) (ct_CompareOptions c), tc_Focus = ct_Focus c\<rparr>"

text \<open>The part of \<^verbatim>\<open>populateTestCase\<close> before the compare options, then the whole function.\<close>

definition populate_given :: "suite_env \<Rightarrow> CliTest \<Rightarrow> string \<Rightarrow> (testInfo \<times> CliTest) go" where
  "populate_given env testCase directory =
     go_bind (wrap_go ''populate info: '' (populateInfo env directory)) (\<lambda>info.
       go_bind (wrap_go ''populate testCase template: '' (populateTestCaseTemplate env testCase directory info)) (\<lambda>c1.
       go_bind (wrap_go ''populate testCase workload: '' (populateTestCaseWorkload env c1 directory info)) (\<lambda>c2.
       go_bind (wrap_go (''get expected file specified in directory '' @ directory @ '': '')
         (getLocallySpecifiedPath env directory ''expected.yaml'' (ti_Expected info))) (\<lambda>newExpectedFilePath.
       (let c3 = (if newExpectedFilePath \<noteq> '''' then c2\<lparr>ct_Expect := Some (ExpectedFile newExpectedFilePath)\<rparr> else c2);
            c4 = (case ti_Focus info of None \<Rightarrow> c3 | Some b \<Rightarrow> c3\<lparr>ct_Focus := b\<rparr>)
        in Ret (info, c4))))))"

definition populateTestCase :: "suite_env \<Rightarrow> CliTest \<Rightarrow> string \<Rightarrow> heap \<Rightarrow> CliTest go \<times> heap" where
  "populateTestCase env testCase directory h =
     (case populate_given env testCase directory of
        Err e \<Rightarrow> (Err e, h)
      | Panic p \<Rightarrow> (Panic p, h)
      | Ret (info, c4) \<Rightarrow>
          (let (c5, h') = populateCompareOptions c4 info h;
               (c6, mockSupplyChainSpecified) = populateTestCaseMockSupplyChain c5 info
           in (go_bind (wrap_go ''populate testCase supplychain: '' (populateTestCaseSupplyChain env c6 directory info))
                 (\<lambda>(c7, supplyChainSpecified).
                    if mockSupplyChainSpecified \<and> supplyChainSpecified
                    then Err (ErrorString ''only one of mock supply chain and real supply chain may be specified'')
                    else Ret c7), h')))"

section \<open>Suites\<close>

definition getSubdirectories :: "suite_env \<Rightarrow> string \<Rightarrow> string list go" where
  "getSubdirectories env directory =
     go_bind (wrap_go ''read dir: '' (of_sum (te_ReadDir env directory))) (\<lambda>files. Ret (map fst (filter snd files)))"

text \<open>The loop over the subdirectories, given the function that builds the suite of each.\<close>

fun build_subdirectories ::
  "(string \<Rightarrow> heap \<Rightarrow> (Suite go \<times> heap) option) \<Rightarrow> (string \<Rightarrow> string) \<Rightarrow> string list \<Rightarrow> Suite \<Rightarrow> heap \<Rightarrow> (Suite go \<times> heap) option" where
  "build_subdirectories build join [] testSuite h = Some (Ret testSuite, h)"
| "build_subdirectories build join (subdirectory # rest) testSuite h =
     (case build (join subdirectory) h of
        None \<Rightarrow> None
      | Some (Panic p, h') \<Rightarrow> Some (Panic p, h')
      | Some (Err err, h') \<Rightarrow>
          Some (Err (WrapError (''failed building test case for subdirectory: '' @ subdirectory @ '': '') err), h')
      | Some (Ret tempTestSuite, h') \<Rightarrow> build_subdirectories build join rest (testSuite ++\<^sub>f tempTestSuite) h')"

fun buildTestSuite :: "suite_env \<Rightarrow> nat \<Rightarrow> CliTest \<Rightarrow> string \<Rightarrow> heap \<Rightarrow> (Suite go \<times> heap) option" where
  "buildTestSuite env 0 testCase directory h = None"
| "buildTestSuite env (Suc fuel) testCase directory h =
     (case populateTestCase env testCase directory h of
        (Panic p, h') \<Rightarrow> Some (Panic p, h')
      | (Err err, h') \<Rightarrow> Some (Err (WrapError ''populate testCase: '' err), h')
      | (Ret testCase', h') \<Rightarrow>
          (case getSubdirectories env directory of
             Panic p \<Rightarrow> Some (Panic p, h')
           | Err err \<Rightarrow> Some (Err (WrapError ''get subdirectories: '' err), h')
           | Ret subdirectories \<Rightarrow>
               (if length subdirectories > 0 then
                  build_subdirectories (\<lambda>d h. buildTestSuite env fuel testCase' d h) (te_Join env directory) subdirectories fmempty h'
                else Some (Ret (fmupd directory testCase' fmempty), h'))))"

definition getTestsToRun :: "Suite \<Rightarrow> Suite \<times> bool" where
  "getTestsToRun s =
     (let focusedCases = fmfilter (\<lambda>name. case fmlookup s name of None \<Rightarrow> False | Some testCase \<Rightarrow> ct_Focus testCase) s
      in if fmap_len focusedCases > 0 then (focusedCases, True) else (s, False))"

definition HasFocusedTests :: "Suite \<Rightarrow> bool" where
  "HasFocusedTests s = snd (getTestsToRun s)"

text \<open>The loop of \<^verbatim>\<open>Assert\<close> over the names, in the order of the map; a panic of a test ends the program.\<close>

fun assert_tests ::
  "suite_env \<Rightarrow> heap \<Rightarrow> Suite \<Rightarrow> string list \<Rightarrow> temp_files \<Rightarrow> (string list \<times> (string \<times> gerror) list) go \<times> temp_files" where
  "assert_tests env h tests [] fs = (Ret ([], []), fs)"
| "assert_tests env h tests (name # names) fs =
     (case fmlookup tests name of
        None \<Rightarrow> assert_tests env h tests names fs
      | Some testCase \<Rightarrow>
          (case Test_Run (test_env.truncate env) (deref h testCase) fs of
             (Panic p, fs') \<Rightarrow> (Panic p, fs')
           | (Err err, fs') \<Rightarrow>
               (case assert_tests env h tests names fs' of
                  (Ret (passed, failed), fs'') \<Rightarrow> (Ret (passed, (name, err) # failed), fs'')
                | r \<Rightarrow> r)
           | (Ret u, fs') \<Rightarrow>
               (case assert_tests env h tests names fs' of
                  (Ret (passed, failed), fs'') \<Rightarrow> (Ret (name # passed, failed), fs'')
                | r \<Rightarrow> r)))"

definition suite_Assert ::
  "suite_env \<Rightarrow> heap \<Rightarrow> Suite \<Rightarrow> temp_files \<Rightarrow> (string list \<times> (string \<times> gerror) list) go \<times> temp_files" where
  "suite_Assert env h s fs =
     (let (testsToRun, focused) = getTestsToRun s in assert_tests env h testsToRun (sv_range env testsToRun) fs)"

text \<open>\<^verbatim>\<open>Run\<close>, for \<^verbatim>\<open>go test\<close>: the subtests that fail, and whether the test that runs the suite fails.\<close>

definition suite_Run :: "suite_env \<Rightarrow> heap \<Rightarrow> Suite \<Rightarrow> temp_files \<Rightarrow> (string list \<times> bool) go \<times> temp_files" where
  "suite_Run env h s fs =
     (let (testsToRun, focused) = getTestsToRun s
      in case assert_tests env h testsToRun (sv_range env testsToRun) fs of
           (Ret (passed, failed), fs') \<Rightarrow> (Ret (map fst failed, failed \<noteq> [] \<or> focused), fs')
         | (Err err, fs') \<Rightarrow> (Err err, fs')
         | (Panic p, fs') \<Rightarrow> (Panic p, fs'))"

section \<open>Reports\<close>

datatype cli_error = TestFailError | CliError gerror

record testCaseReporter =
  tcr_err :: "gerror option"
  tcr_path :: string
  tcr_info :: testInfo

definition newTestCaseReporter :: "suite_env \<Rightarrow> string \<Rightarrow> gerror option \<Rightarrow> testCaseReporter go" where
  "newTestCaseReporter env path err =
     go_bind (wrap_go ''populate test info: '' (populateInfo env path)) (\<lambda>info. Ret \<lparr>tcr_err = err, tcr_path = path, tcr_info = info\<rparr>)"

definition newline :: string where
  "newline = [CHR 0x0A]"

definition reportPassed :: "bool \<Rightarrow> testCaseReporter \<Rightarrow> string" where
  "reportPassed verbose t =
     (case ti_Name (tcr_info t) of
        Some name \<Rightarrow> if verbose then ''PASS: '' @ tcr_path t @ '' '' @ name else ''PASS: '' @ tcr_path t
      | None \<Rightarrow> ''PASS: '' @ tcr_path t)"

definition reportFailed :: "bool \<Rightarrow> testCaseReporter \<Rightarrow> string" where
  "reportFailed verbose t =
     ''FAIL: '' @ tcr_path t
     @ (if verbose then (case ti_Name (tcr_info t) of None \<Rightarrow> '''' | Some name \<Rightarrow> newline @ ''Name: '' @ name) else '''')
     @ (if verbose then (case ti_Description (tcr_info t) of None \<Rightarrow> '''' | Some d \<Rightarrow> newline @ ''Description: '' @ d) else '''')
     @ (if verbose then (case tcr_err t of None \<Rightarrow> '''' | Some e \<Rightarrow> newline @ ''Error: '' @ Error e) else '''')"

definition test_report :: "bool \<Rightarrow> testCaseReporter \<Rightarrow> string" where
  "test_report verbose t = (if tcr_err t = None then reportPassed verbose t else reportFailed verbose t)"

fun new_reporters :: "suite_env \<Rightarrow> (string \<times> gerror option) list \<Rightarrow> testCaseReporter list go" where
  "new_reporters env [] = Ret []"
| "new_reporters env ((name, err) # rest) =
     go_bind (wrap_go (''failed to create new test case reporter for test '' @ name @ '': '') (newTestCaseReporter env name err)) (\<lambda>testCase.
       go_bind (new_reporters env rest) (\<lambda>tests. Ret (testCase # tests)))"

definition reportTestResults :: "suite_env \<Rightarrow> string list \<Rightarrow> (string \<times> gerror) list \<Rightarrow> bool \<Rightarrow> cli_error option go" where
  "reportTestResults env passedTests failedTests hasFocusedTests =
     (case new_reporters env (map (\<lambda>n. (n, None)) passedTests @ map (\<lambda>(n, e). (n, Some e)) failedTests) of
        Panic p \<Rightarrow> Panic p
      | Err err \<Rightarrow> Ret (Some (CliError err))
      | Ret tests \<Rightarrow>
          (let errorOccurred = (failedTests \<noteq> [] \<or> hasFocusedTests);
               report = foldl (\<lambda>s t. s @ newline @ test_report (sv_verbose env) t) '''' tests;
               report1 = (if hasFocusedTests
                 then report @ newline @ newline @ ''test suite failed due to focused test, check individual test case status'' else report);
               report2 = report1 @ newline @ (if errorOccurred then ''FAIL'' else ''PASS'')
           in case sv_Stderr env (report2 @ newline) of
                Some err \<Rightarrow> Ret (Some (CliError (ErrorString ''write to stdErr failed'')))
              | None \<Rightarrow> Ret (if errorOccurred then Some TestFailError else None)))"

section \<open>The command\<close>

definition base_case :: CliTest where
  "base_case = \<lparr>ct_Given = \<lparr>gv_Template = None, gv_Workload = None, gv_SupplyChain = None\<rparr>, ct_Expect = None, ct_CompareOptions = None, ct_Focus = False\<rparr>"

definition CliTestCommand :: "suite_env \<Rightarrow> nat \<Rightarrow> string \<Rightarrow> temp_files \<Rightarrow> cli_error option go option" where
  "CliTestCommand env fuel directory fs =
     (case buildTestSuite env fuel base_case directory [] of
        None \<Rightarrow> None
      | Some (Panic p, h) \<Rightarrow> Some (Panic p)
      | Some (Err err, h) \<Rightarrow> Some (Ret (Some (CliError (WrapError ''build test cases: '' err))))
      | Some (Ret testSuite, h) \<Rightarrow>
          (case suite_Assert env h testSuite fs of
             (Ret (passedTests, failedTests), fs') \<Rightarrow> Some (reportTestResults env passedTests failedTests (HasFocusedTests testSuite))
           | (Err err, fs') \<Rightarrow> Some (Err err)
           | (Panic p, fs') \<Rightarrow> Some (Panic p)))"

definition root_PreRunE :: "suite_env \<Rightarrow> string \<Rightarrow> gerror option" where
  "root_PreRunE env directory =
     (case te_Stat env directory of
        Inl err \<Rightarrow> Some (ErrorString ''argument must be a valid path'')
      | Inr isDir \<Rightarrow> if \<not> isDir then Some (ErrorString ''argument must be a valid directory'') else None)"

text \<open>\<^verbatim>\<open>Execute\<close>: the exit status for the error that the command returned.\<close>

definition exit_status :: "suite_env \<Rightarrow> cli_error option \<Rightarrow> nat" where
  "exit_status env err =
     (case err of
        None \<Rightarrow> 0
      | Some TestFailError \<Rightarrow> 1
      | Some (CliError e) \<Rightarrow> (case sv_Stderr env (''error while executing: '' @ Error e @ newline) of Some _ \<Rightarrow> 3 | None \<Rightarrow> 1))"

section \<open>Building a suite ends\<close>

lemma subdirectories_listed:
  "getSubdirectories env dir = Ret ds \<Longrightarrow> \<exists>files. te_ReadDir env dir = Inr files \<and> ds = map fst (filter snd files)"
  by (auto simp: getSubdirectories_def go_bind_Ret_iff of_sum_def split: sum.splits)

lemma build_subdirectories_cong:
  assumes "\<And>d h. d \<in> set ds \<Longrightarrow> build (join d) h = build' (join d) h"
  shows "build_subdirectories build join ds s h = build_subdirectories build' join ds s h"
  using assms by (induction ds arbitrary: s h) (auto split: option.splits go.splits)

lemma build_subdirectories_total:
  assumes "\<And>d h. d \<in> set ds \<Longrightarrow> build (join d) h \<noteq> None"
  shows "build_subdirectories build join ds s h \<noteq> None"
  using assms by (induction ds arbitrary: s h) (auto split: option.splits go.splits)

lemma build_Suc_cases [case_names failed leaf inner]:
  obtains (failed) r where "\<And>fuel. buildTestSuite env (Suc fuel) testCase dir h = Some r" "\<And>s. fst r \<noteq> Ret s"
  | (leaf) c h' where "populateTestCase env testCase dir h = (Ret c, h')" "getSubdirectories env dir = Ret []"
      "\<And>fuel. buildTestSuite env (Suc fuel) testCase dir h = Some (Ret (fmupd dir c fmempty), h')"
  | (inner) c h' ds where "populateTestCase env testCase dir h = (Ret c, h')" "getSubdirectories env dir = Ret ds" "ds \<noteq> []"
      "\<And>fuel. buildTestSuite env (Suc fuel) testCase dir h =
        build_subdirectories (\<lambda>d h. buildTestSuite env fuel c d h) (te_Join env dir) ds fmempty h'"
proof (cases "populateTestCase env testCase dir h")
  case (Pair r h')
  show thesis
  proof (cases r)
    case r: (Ret c)
    show thesis
    proof (cases "getSubdirectories env dir")
      case (Ret ds)
      with Pair r show thesis by (cases "ds = []") (auto intro: leaf inner)
    next
      case (Err e)
      with Pair r show thesis by (intro failed) auto
    next
      case (Panic p)
      with Pair r show thesis by (intro failed) auto
    qed
  next
    case (Err e)
    with Pair show thesis by (intro failed) auto
  next
    case (Panic p)
    with Pair show thesis by (intro failed) auto
  qed
qed

text \<open>
  C29: building the test suite of a directory ends when directories are nested finitely deep: one unit of fuel per level is enough, and
  any further fuel gives the same suite.
\<close>

theorem build_terminates:
  assumes "\<And>dir files n. te_ReadDir env dir = Inr files \<Longrightarrow> (n, True) \<in> set files \<Longrightarrow> depth (te_Join env dir n) < (depth dir :: nat)"
    and "depth dir < fuel"
  shows "buildTestSuite env fuel testCase dir h \<noteq> None \<and>
    (\<forall>more \<ge> fuel. buildTestSuite env more testCase dir h = buildTestSuite env fuel testCase dir h)"
  using assms(2)
proof (induction fuel arbitrary: testCase dir h)
  case (Suc fuel)
  have below: "depth (te_Join env dir d) < fuel" if "getSubdirectories env dir = Ret ds" "d \<in> set ds" for d ds
  proof -
    from that obtain files where "te_ReadDir env dir = Inr files" "(d, True) \<in> set files"
      using subdirectories_listed by fastforce
    with assms(1) have "depth (te_Join env dir d) < depth dir" by blast
    with Suc.prems show ?thesis by simp
  qed
  have total: "build_subdirectories (\<lambda>d h. buildTestSuite env fuel c d h) (te_Join env dir) ds s h \<noteq> None"
    if "getSubdirectories env dir = Ret ds" for c ds s h
    using Suc.IH [OF below [OF that]] by (intro build_subdirectories_total) blast
  have same: "build_subdirectories (\<lambda>d h. buildTestSuite env more c d h) (te_Join env dir) ds s h =
      build_subdirectories (\<lambda>d h. buildTestSuite env fuel c d h) (te_Join env dir) ds s h"
    if "getSubdirectories env dir = Ret ds" "fuel \<le> more" for c ds s h more
    using Suc.IH [OF below [OF that(1)]] that(2) by (intro build_subdirectories_cong) blast
  show ?case
  proof (intro conjI allI impI)
    show "buildTestSuite env (Suc fuel) testCase dir h \<noteq> None"
      using total by (cases rule: build_Suc_cases [of env testCase dir h]) (simp_all del: buildTestSuite.simps)
  next
    fix more assume "Suc fuel \<le> more"
    then obtain m where "more = Suc m" "fuel \<le> m" by (cases more) auto
    then show "buildTestSuite env more testCase dir h = buildTestSuite env (Suc fuel) testCase dir h"
    proof (cases rule: build_Suc_cases [of env testCase dir h])
      case (inner c h' ds)
      then show ?thesis using same [OF inner(2) \<open>fuel \<le> m\<close>] \<open>more = Suc m\<close> by (simp only:)
    qed (simp_all del: buildTestSuite.simps)
  qed
qed simp

section \<open>The tests of a suite\<close>

text \<open>A directory without subdirectories below another.\<close>

inductive leaf_directory :: "suite_env \<Rightarrow> string \<Rightarrow> string \<Rightarrow> bool" for env where
  leaf: "getSubdirectories env dir = Ret [] \<Longrightarrow> leaf_directory env dir dir"
| below: "getSubdirectories env dir = Ret ds \<Longrightarrow> d \<in> set ds \<Longrightarrow> leaf_directory env (te_Join env dir d) x \<Longrightarrow> leaf_directory env dir x"

inductive_simps leaf_directory_iff: "leaf_directory env dir x"

lemma build_subdirectories_names:
  assumes "build_subdirectories build join ds s h = Some (Ret suite, h')"
    and "\<And>d h s h'. d \<in> set ds \<Longrightarrow> build (join d) h = Some (Ret s, h') \<Longrightarrow> fmdom' s = names (join d)"
  shows "fmdom' suite = fmdom' s \<union> (\<Union>d \<in> set ds. names (join d))"
  using assms
proof (induction ds arbitrary: s h)
  case (Cons d ds)
  from Cons.prems(1) obtain s1 h1 where one: "build (join d) h = Some (Ret s1, h1)"
    and rest: "build_subdirectories build join ds (s ++\<^sub>f s1) h1 = Some (Ret suite, h')"
    by (auto split: option.splits go.splits)
  have "fmdom' s1 = names (join d)" using Cons.prems(2) [OF _ one] by simp
  moreover have "fmdom' suite = fmdom' (s ++\<^sub>f s1) \<union> (\<Union>d \<in> set ds. names (join d))"
    using Cons.IH [OF rest] Cons.prems(2) by (meson list.set_intros(2))
  ultimately show ?case by auto
qed simp

lemma suite_names:
  "buildTestSuite env fuel testCase dir h = Some (Ret suite, h') \<Longrightarrow> fmdom' suite = {x. leaf_directory env dir x}"
proof (induction fuel arbitrary: testCase dir h suite h')
  case (Suc fuel)
  show ?case
  proof (cases rule: build_Suc_cases [of env testCase dir h])
    case (failed r)
    with Suc.prems show ?thesis by (auto simp del: buildTestSuite.simps)
  next
    case (leaf c h1)
    with Suc.prems have "suite = fmupd dir c fmempty" by (simp del: buildTestSuite.simps)
    with leaf(2) show ?thesis by (auto elim: leaf_directory.cases intro: leaf_directory.leaf)
  next
    case (inner c h1 ds)
    with Suc.prems have "build_subdirectories (\<lambda>d h. buildTestSuite env fuel c d h) (te_Join env dir) ds fmempty h1 = Some (Ret suite, h')"
      by (simp del: buildTestSuite.simps)
    from build_subdirectories_names [OF this, of "\<lambda>d. {x. leaf_directory env d x}"] Suc.IH
    have "fmdom' suite = (\<Union>d \<in> set ds. {x. leaf_directory env (te_Join env dir d) x})" by auto
    moreover have "leaf_directory env dir x \<longleftrightarrow> (\<exists>d \<in> set ds. leaf_directory env (te_Join env dir d) x)" for x
      using inner(2,3) by (subst leaf_directory_iff) auto
    ultimately show ?thesis by auto
  qed
qed simp

lemma assert_tests_Cons_cases [case_names skipped panicked failed passed]:
  assumes "assert_tests env h tests (name # names) fs = (r, fs')"
  obtains (skipped) "fmlookup tests name = None" "assert_tests env h tests names fs = (r, fs')"
  | (panicked) c p where "fmlookup tests name = Some c" "r = Panic p" "Test_Run (test_env.truncate env) (deref h c) fs = (Panic p, fs')"
  | (failed) c e fs1 r1 where "fmlookup tests name = Some c" "Test_Run (test_env.truncate env) (deref h c) fs = (Err e, fs1)"
      "assert_tests env h tests names fs1 = (r1, fs')"
      "r = (case r1 of Ret (ps, es) \<Rightarrow> Ret (ps, (name, e) # es) | _ \<Rightarrow> r1)"
  | (passed) c u fs1 r1 where "fmlookup tests name = Some c" "Test_Run (test_env.truncate env) (deref h c) fs = (Ret u, fs1)"
      "assert_tests env h tests names fs1 = (r1, fs')"
      "r = (case r1 of Ret (ps, es) \<Rightarrow> Ret (name # ps, es) | _ \<Rightarrow> r1)"
proof (cases "fmlookup tests name")
  case None
  with assms show thesis by (auto intro: skipped)
next
  case (Some c)
  show thesis
  proof (cases "Test_Run (test_env.truncate env) (deref h c) fs")
    case (Pair t fs1)
    obtain r1 fs2 where rest: "assert_tests env h tests names fs1 = (r1, fs2)" by fastforce
    show thesis
    proof (cases t)
      case (Ret u)
      with assms Some Pair rest show thesis by (cases r1) (auto intro!: passed)
    next
      case (Err e)
      with assms Some Pair rest show thesis by (cases r1) (auto intro!: failed)
    next
      case (Panic p)
      with assms Some Pair show thesis by (intro panicked) auto
    qed
  qed
qed

definition test_outcome :: "suite_env \<Rightarrow> heap \<Rightarrow> Suite \<Rightarrow> string \<Rightarrow> unit go \<Rightarrow> bool" where
  "test_outcome env h s name r \<longleftrightarrow>
     (\<exists>c fs fs'. fmlookup s name = Some c \<and> Test_Run (test_env.truncate env) (deref h c) fs = (r, fs'))"

lemma assert_tests_Ret:
  assumes "assert_tests env h tests names fs = (Ret (passed, failed), fs')" "set names \<subseteq> fmdom' tests"
  shows "mset (passed @ map fst failed) = mset names \<and> (\<forall>n \<in> set passed. test_outcome env h tests n (Ret ())) \<and>
    (\<forall>(n, e) \<in> set failed. test_outcome env h tests n (Err e))"
  using assms
proof (induction names arbitrary: fs passed failed)
  case (Cons name names)
  from Cons.prems(1) show ?case
  proof (cases rule: assert_tests_Cons_cases)
    case skipped
    then show ?thesis using Cons.prems(2) by (auto simp: fmdom'_notI)
  next
    case (failed c e fs1 r1)
    then obtain failed1 where "r1 = Ret (passed, failed1)" "failed = (name, e) # failed1" by (auto split: go.splits)
    then show ?thesis using failed Cons.IH [of fs1 passed failed1] Cons.prems(2) by (auto simp: test_outcome_def)
  next
    case (passed c u fs1 r1)
    then obtain passed1 where "r1 = Ret (passed1, failed)" "passed = name # passed1" by (auto split: go.splits)
    then show ?thesis using passed Cons.IH [of fs1 passed1 failed] Cons.prems(2) by (auto simp: test_outcome_def)
  qed simp
qed simp

lemma no_focus: "\<not> HasFocusedTests s \<Longrightarrow> fst (getTestsToRun s) = s \<and> (\<forall>n c. fmlookup s n = Some c \<longrightarrow> \<not> ct_Focus c)"
proof -
  let ?focused = "\<lambda>name. case fmlookup s name of None \<Rightarrow> False | Some c \<Rightarrow> ct_Focus c"
  assume "\<not> HasFocusedTests s"
  then have "fmfilter ?focused s = fmempty" and run: "fst (getTestsToRun s) = s"
    by (auto simp: HasFocusedTests_def getTestsToRun_def Let_def split: if_splits)
  then have "fmlookup (fmfilter ?focused s) n = None" for n by simp
  then have "\<not> ct_Focus c" if "fmlookup s n = Some c" for n c using that by (metis fmlookup_filter option.simps(3,5))
  with run show ?thesis by blast
qed

lemma report_passes:
  assumes "reportTestResults env passed failed focused = Ret None"
  shows "failed = [] \<and> \<not> focused"
  using assms by (auto simp: reportTestResults_def Let_def split: go.splits option.splits if_splits)

text \<open>
  C28: \<^verbatim>\<open>cartotest\<close> succeeds only if every test passed.  When the command returns no error, every directory without subdirectories below the
  given one has a test, none of the tests is focused, and the run of every one of them returned no error.
\<close>

theorem cli_success_sound:
  assumes "\<And>s. set (sv_range env s) = fmdom' s"
    and "CliTestCommand env fuel directory fs = Some (Ret None)" "leaf_directory env directory x"
  shows "\<exists>suite h c fs1 fs2. buildTestSuite env fuel base_case directory [] = Some (Ret suite, h) \<and> fmlookup suite x = Some c \<and>
    \<not> ct_Focus c \<and> Test_Run (test_env.truncate env) (deref h c) fs1 = (Ret (), fs2)"
proof -
  obtain suite h passed failed fs' where build: "buildTestSuite env fuel base_case directory [] = Some (Ret suite, h)"
    and run: "suite_Assert env h suite fs = (Ret (passed, failed), fs')" and report: "reportTestResults env passed failed (HasFocusedTests suite) = Ret None"
    using assms(2) by (auto simp: CliTestCommand_def split: option.splits go.splits prod.splits)
  from report_passes [OF report] have "failed = []" "\<not> HasFocusedTests suite" by auto
  note no_focus [OF this(2)]
  then have "assert_tests env h suite (sv_range env suite) fs = (Ret (passed, failed), fs')" and focus: "\<And>n c. fmlookup suite n = Some c \<Longrightarrow> \<not> ct_Focus c"
    using run by (auto simp: suite_Assert_def case_prod_beta)
  note outcome = assert_tests_Ret [OF this(1)] assms(1)
  then have "set passed = fmdom' suite" using \<open>failed = []\<close> by (auto dest!: mset_eq_setD)
  moreover have "x \<in> fmdom' suite" using suite_names [OF build] assms(3) by simp
  ultimately have "test_outcome env h suite x (Ret ())" using outcome by auto
  then show ?thesis using build focus by (auto simp: test_outcome_def)
qed


lemma assert_tests_panics:
  assumes "fmlookup tests name = Some c" "ct_Expect c = None"
  shows "name \<in> set names \<Longrightarrow> assert_tests env h tests names fs = (r, fs') \<Longrightarrow> \<exists>p. r = Panic p"
proof (induction names arbitrary: fs r)
  case (Cons n names)
  have run: "Test_Run env' (deref h c) fs = (Panic ''nil pointer dereference'', fs)" for env' fs
    using assms(2) by (simp add: Test_Run_def deref_def lift_go_def)
  from Cons.prems(2) show ?case
  proof (cases rule: assert_tests_Cons_cases)
    case skipped
    then show ?thesis using Cons assms(1) by auto
  next
    case (failed c' e fs1 r1)
    then have "n \<noteq> name" using run assms(1) by auto
    then show ?thesis using failed Cons.IH [OF _ failed(3)] Cons.prems(1) by auto
  next
    case (passed c' u fs1 r1)
    then have "n \<noteq> name" using run assms(1) by auto
    then show ?thesis using passed Cons.IH [OF _ passed(3)] Cons.prems(1) by auto
  qed simp
qed simp

text \<open>
  A test without an expectation, as of a directory tree without a file \<^verbatim>\<open>expected.yaml\<close>, is not a failed test: it ends the
  whole program with a panic, whatever the other tests of the suite are.
\<close>

theorem missing_expectation_panics:
  assumes "\<And>s. set (sv_range env s) = fmdom' s"
    and "buildTestSuite env fuel base_case directory [] = Some (Ret suite, h)"
    and "fmlookup suite x = Some c" "ct_Expect c = None" "\<not> HasFocusedTests suite"
  shows "\<exists>p. CliTestCommand env fuel directory fs = Some (Panic p)"
proof -
  obtain r fs' where run: "assert_tests env h suite (sv_range env suite) fs = (r, fs')" by fastforce
  have "x \<in> set (sv_range env suite)" using assms(1,3) by (simp add: fmdom'I)
  from assert_tests_panics [OF assms(3,4) this run] obtain p where "r = Panic p" by blast
  then show ?thesis using assms(2) run no_focus [OF assms(5)] by (simp add: CliTestCommand_def suite_Assert_def case_prod_beta)
qed

section \<open>What a directory takes over from its parent\<close>

abbreviation with_chain :: "TestSupplyChain option \<Rightarrow> CliTest \<Rightarrow> CliTest" where
  "with_chain sc c \<equiv> c\<lparr>ct_Given := (ct_Given c)\<lparr>gv_SupplyChain := sc\<rparr>\<rparr>"

named_theorems chain_simps \<open>how the operations on a test case commute with a change of its supply chain\<close>

lemma go_bind_map [chain_simps]: "go_bind (map_go f m) k = go_bind m (\<lambda>x. k (f x))"
  by (cases m) simp_all

lemma wrap_go_map [chain_simps]: "wrap_go t (map_go f m) = map_go f (wrap_go t m)"
  by (cases m) simp_all

lemma map_go_bind [chain_simps]: "map_go f (go_bind m k) = go_bind m (\<lambda>x. map_go f (k x))"
  by (cases m) simp_all

lemma template_with_chain [chain_simps]:
  "populateTestCaseTemplate env (with_chain sc c) dir info = map_go (with_chain sc) (populateTestCaseTemplate env c dir info)"
proof -
  have swap: "(with_chain sc c)\<lparr>ct_Given := (ct_Given (with_chain sc c))\<lparr>gv_Template := t\<rparr>\<rparr> = with_chain sc (c\<lparr>ct_Given := (ct_Given c)\<lparr>gv_Template := t\<rparr>\<rparr>)" for t
    by simp
  have same: "gv_Template (ct_Given (with_chain sc c)) = gv_Template (ct_Given c)" by simp
  show ?thesis unfolding populateTestCaseTemplate_def map_go_bind Let_def swap same go.map ..
qed

lemma workload_with_chain [chain_simps]:
  "populateTestCaseWorkload env (with_chain sc c) dir info = map_go (with_chain sc) (populateTestCaseWorkload env c dir info)"
  by (cases "getLocallySpecifiedPath env dir ''workload.yaml'' (ti_Workload info)") (auto simp: populateTestCaseWorkload_def)

lemma assign_with_chain [chain_simps]:
  "assign_option f (with_chain sc c, h) = map_prod (with_chain sc) id (assign_option f (c, h))"
  by (simp add: assign_option_def split: option.split)

lemma map_prod_id_pair [chain_simps]: "assign_option f (map_prod (with_chain sc) id s) = map_prod (with_chain sc) id (assign_option f s)"
  by (cases s) (simp add: assign_with_chain)

lemma options_loop_with_chain [chain_simps]:
  "foldl (\<lambda>s x. if P x then assign_option f s else s) (map_prod (with_chain sc) id s) xs =
     map_prod (with_chain sc) id (foldl (\<lambda>s x. if P x then assign_option f s else s) s xs)"
  by (induction xs arbitrary: s) (simp_all add: map_prod_id_pair)

lemma options_with_chain:
  "populateCompareOptions (with_chain sc c) info h = map_prod (with_chain sc) id (populateCompareOptions c info h)"
proof -
  have start: "(with_chain sc c, h) = map_prod (with_chain sc) id (c, h)" by simp
  have step: "(case opt of None \<Rightarrow> map_prod (with_chain sc) id s | Some b \<Rightarrow> assign_option (f b) (map_prod (with_chain sc) id s)) =
      map_prod (with_chain sc) id (case opt of None \<Rightarrow> s | Some b \<Rightarrow> assign_option (f b) s)" for opt :: "'o option" and f s
    by (simp add: map_prod_id_pair split: option.split)
  show ?thesis unfolding populateCompareOptions_def Let_def start step options_loop_with_chain ..
qed

lemma mock_with_chain: "populateTestCaseMockSupplyChain (with_chain sc c) info = populateTestCaseMockSupplyChain c info"
  by (simp add: populateTestCaseMockSupplyChain_def)

lemma given_with_chain: "populate_given env (with_chain sc c) dir = map_go (map_prod id (with_chain sc)) (populate_given env c dir)"
proof -
  have last: "(let c3 = (if f \<noteq> [] then (with_chain sc c2)\<lparr>ct_Expect := e\<rparr> else with_chain sc c2);
        c4 = (case focus of None \<Rightarrow> c3 | Some b \<Rightarrow> c3\<lparr>ct_Focus := b\<rparr>) in Ret (info, c4)) =
      map_go (map_prod id (with_chain sc)) (let c3 = (if f \<noteq> [] then c2\<lparr>ct_Expect := e\<rparr> else c2);
        c4 = (case focus of None \<Rightarrow> c3 | Some b \<Rightarrow> c3\<lparr>ct_Focus := b\<rparr>) in Ret (info, c4))" for f c2 e focus info
    by (simp add: Let_def split: option.split)
  show ?thesis unfolding populate_given_def chain_simps last ..
qed

lemma populate_with_chain: "populateTestCase env (with_chain sc c) dir h = populateTestCase env c dir h"
proof (cases "populate_given env c dir")
  case (Ret r)
  then obtain info c4 where given_c: "populate_given env c dir = Ret (info, c4)" by (cases r) simp
  then have given_sc: "populate_given env (with_chain sc c) dir = Ret (info, with_chain sc c4)" unfolding given_with_chain by simp
  obtain c5 h5 where options: "populateCompareOptions c4 info h = (c5, h5)" by fastforce
  then have options_sc: "populateCompareOptions (with_chain sc c4) info h = (with_chain sc c5, h5)" by (simp add: options_with_chain)
  show ?thesis
    unfolding populateTestCase_def given_c given_sc go.case prod.case options options_sc Let_def mock_with_chain ..
qed (simp_all add: populateTestCase_def given_with_chain)

text \<open>
  A supply chain given in a directory is not given to the tests of its subdirectories: whatever supply chain the test case of a
  directory has when its suite is built, the suite is the same.
\<close>

theorem supply_chain_not_inherited:
  "buildTestSuite env fuel (testCase\<lparr>ct_Given := (ct_Given testCase)\<lparr>gv_SupplyChain := chain\<rparr>\<rparr>) directory h =
     buildTestSuite env fuel testCase directory h"
  by (cases fuel) (simp_all add: populate_with_chain)

section \<open>Shared compare options\<close>

lemma assign_option_shared:
  assumes "ct_CompareOptions c = Some p" "assign_option f (c, h) = (c', h')"
  shows "ct_CompareOptions c' = Some p \<and> h' = h[p := f (h ! p)]"
  using assms by (auto simp: assign_option_def)

definition preserves_metadata :: "(CompareOptions \<Rightarrow> CompareOptions) \<Rightarrow> bool" where
  "preserves_metadata f \<longleftrightarrow> (\<forall>c. co_IgnoreMetadata (f c) = co_IgnoreMetadata c)"

definition shares :: "nat \<Rightarrow> bool \<Rightarrow> CliTest \<times> heap \<Rightarrow> bool" where
  "shares p b s \<longleftrightarrow> ct_CompareOptions (fst s) = Some p \<and> p < length (snd s) \<and> co_IgnoreMetadata (snd s ! p) = b"

lemma shares_assign: "shares p b s \<Longrightarrow> preserves_metadata f \<Longrightarrow> shares p b (assign_option f s)"
  by (cases s) (auto simp: shares_def assign_option_def preserves_metadata_def)

lemma options_loop_shares:
  "shares p b s \<Longrightarrow> preserves_metadata f \<Longrightarrow> shares p b (foldl (\<lambda>s x. if P x then assign_option f s else s) s xs)"
  by (induction xs arbitrary: s) (simp_all add: shares_assign)

lemma options_shared:
  assumes "ct_CompareOptions c = Some p" "p < length h" "tico_IgnoreMetadata (ti_CompareOptions info) = Some b"
  shows "shares p b (populateCompareOptions c info h)"
proof -
  have first: "shares p b (assign_option (\<lambda>c. c\<lparr>co_IgnoreMetadata := b\<rparr>) (c, h))" using assms(1,2) by (simp add: shares_def assign_option_def)
  have step: "shares p b (case opt of None \<Rightarrow> s | Some x \<Rightarrow> assign_option (f x) s)" if "shares p b s" "\<And>x. preserves_metadata (f x)"
    for opt :: "'o option" and f s using that by (simp add: shares_assign split: option.split)
  show ?thesis unfolding populateCompareOptions_def Let_def assms(3) option.case
    by (intro options_loop_shares step first) (simp_all add: preserves_metadata_def)
qed

lemma ct_Compare_template: "populateTestCaseTemplate env c dir info = Ret c' \<Longrightarrow> ct_CompareOptions c' = ct_CompareOptions c"
  by (auto simp: populateTestCaseTemplate_def go_bind_Ret_iff Let_def)

lemma ct_Compare_workload: "populateTestCaseWorkload env c dir info = Ret c' \<Longrightarrow> ct_CompareOptions c' = ct_CompareOptions c"
  by (auto simp: populateTestCaseWorkload_def go_bind_Ret_iff)

lemma given_keeps_options:
  assumes "populate_given env c dir = Ret (info, c')"
  shows "populateInfo env dir = Ret info \<and> ct_CompareOptions c' = ct_CompareOptions c"
proof -
  obtain c1 c2 where info: "populateInfo env dir = Ret info" and steps: "populateTestCaseTemplate env c dir info = Ret c1"
      "populateTestCaseWorkload env c1 dir info = Ret c2" and "ct_CompareOptions c' = ct_CompareOptions c2"
    using assms by (auto simp: populate_given_def go_bind_Ret_iff Let_def split: option.splits if_splits)
  with ct_Compare_template [OF steps(1)] ct_Compare_workload [OF steps(2)] show ?thesis by simp
qed

text \<open>
  The compare options of a test case belong to its whole directory tree.  When the test case of a subdirectory is built from its
  parent's, an option set by the information file of the subdirectory is set for the parent too, and so for every other subdirectory.
\<close>

theorem compare_options_shared:
  assumes "populateTestCase env parent directory h = (Ret child, h')" "ct_CompareOptions parent = Some p" "p < length h"
    and "populateInfo env directory = Ret info" "tico_IgnoreMetadata (ti_CompareOptions info) = Some b"
    and "ct_CompareOptions sibling = Some p"
  shows "\<exists>options. tc_CompareOptions (deref h' sibling) = Some options \<and> co_IgnoreMetadata options = b"
proof -
  obtain info' c4 c5 where given: "populate_given env parent directory = Ret (info', c4)" and options: "populateCompareOptions c4 info' h = (c5, h')"
    using assms(1) by (auto simp: populateTestCase_def split: go.splits prod.splits)
  from given_keeps_options [OF given] assms(2,4) have "info' = info" "ct_CompareOptions c4 = Some p" by simp_all
  with options_shared [OF this(2) assms(3), of info b] assms(5) options have "co_IgnoreMetadata (h' ! p) = b" by (simp add: shares_def)
  then show ?thesis using assms(6) by (simp add: deref_def)
qed

section \<open>Witnesses\<close>

text \<open>
  A directory with one subdirectory, in which every file exists but those with values for ytt and, on demand, the expectation; the
  information files ask for metadata to be ignored.
\<close>

definition example_info :: testInfo where
  "example_info = empty_info\<lparr>ti_CompareOptions := (ti_CompareOptions empty_info)\<lparr>tico_IgnoreMetadata := Some True\<rparr>\<rparr>"

definition example_suite_env :: "bool \<Rightarrow> suite_env" where
  "example_suite_env expected =
     test_env.extend
       (example_test_env\<lparr>te_Stat := \<lambda>p. if hasSuffix p ''ytt-values.yaml'' \<or> hasSuffix p ''expected.yaml'' \<and> \<not> expected then Inl (ErrorString ''not found'') else Inr False,
          te_ReadDir := \<lambda>p. Inr (if p = ''t'' then [(''a'', True)] else []), te_Diff := \<lambda>opt a b. ''''\<rparr>)
       \<lparr>sv_Info = \<lambda>r. Inr example_info, sv_Stderr = \<lambda>s. None, sv_range = fmap_keys, sv_verbose = False\<rparr>"

lemma example_suite_fields [simp]:
  "te_ReadDir (example_suite_env x) d = Inr (if d = ''t'' then [(''a'', True)] else [])" "te_Join (example_suite_env x) d n = d @ ''/'' @ n"
  "te_ReadFile (example_suite_env x) f = Inr ''''" "te_NotExist (example_suite_env x) e" "sv_Info (example_suite_env x) r = Inr example_info"
  "sv_range (example_suite_env x) = fmap_keys" "sv_Stderr (example_suite_env x) text = None"
  "te_Stat (example_suite_env x) f =
     (if hasSuffix f ''ytt-values.yaml'' \<or> hasSuffix f ''expected.yaml'' \<and> \<not> x then Inl (ErrorString ''not found'') else Inr False)"
  by (simp_all add: example_suite_env_def test_env.defs example_test_env_def)

lemma example_info_fields [simp]:
  "ti_TemplatePath example_info = None" "ti_TemplateYttPath example_info = None" "ti_Workload example_info = None"
  "ti_BlueprintInputs example_info = None" "ti_BlueprintParams example_info = None" "ti_SupplyChainPaths example_info = []"
  "ti_SupplyChainYttPath example_info = None" "ti_TargetResourceName example_info = None" "ti_PreviousOutputs example_info = None"
  "ti_Expected example_info = None" "ti_Focus example_info = None"
  "ti_CompareOptions example_info = \<lparr>tico_IgnoreMetadata = Some True, tico_IgnoreOwnerRefs = None, tico_IgnoreLabels = None,
     tico_IgnoreMetadataFields = None, tico_NamedCMPOptionFuncs = []\<rparr>"
  by (simp_all add: example_info_def empty_info_def)

lemma example_info_read [simp]: "populateInfo (example_suite_env x) d = Ret example_info"
  by (simp add: populateInfo_def)

lemma example_given:
  assumes "d \<in> {''t'', ''t/a''}"
  shows "populate_given (example_suite_env x) c d =
    Ret (example_info, c\<lparr>ct_Given := (ct_Given c)\<lparr>
        gv_Template := Some (FromTemplateFile ((case gv_Template (ct_Given c) of Some (FromTemplateFile f) \<Rightarrow> f
          | _ \<Rightarrow> \<lparr>tf_Path = '''', tf_YttValues = fmempty, tf_YttFiles = []\<rparr>)\<lparr>tf_Path := d @ ''/template.yaml''\<rparr>)),
        gv_Workload := Some (WorkloadFile (d @ ''/workload.yaml''))\<rparr>,
      ct_Expect := (if x then Some (ExpectedFile (d @ ''/expected.yaml'')) else ct_Expect c)\<rparr>)"
  using assms
  by (auto simp: populate_given_def populateTestCaseTemplate_def populateTestCaseWorkload_def getLocallySpecifiedPath_def hasSuffix_def hasPrefix_def)

lemma example_populate:
  assumes "d \<in> {''t'', ''t/a''}" "populate_given (example_suite_env x) c d = Ret (example_info, c1)"
    "assign_option (\<lambda>c. c\<lparr>co_IgnoreMetadata := True\<rparr>) (c1, h) = (c2, h')"
  shows "populateTestCase (example_suite_env x) c d h =
    (Ret (c2\<lparr>ct_Given := (ct_Given c2)\<lparr>gv_SupplyChain := Some (UseMock \<lparr>ms_Params = None, ms_Inputs = None\<rparr>)\<rparr>\<rparr>), h')"
  using assms
  by (auto simp: populateTestCase_def populateCompareOptions_def populateTestCaseMockSupplyChain_def populateTestCaseSupplyChain_def
      getLocallySpecifiedPath_def getFilesPrefixedSupplyChainInDir_def fileSetNotEmpty_def hasSuffix_def hasPrefix_def)

theorem build_terminates_witness:
  "\<exists>r. buildTestSuite (example_suite_env True) 2 base_case ''t'' [] = Some r \<and> buildTestSuite (example_suite_env True) 5 base_case ''t'' [] = Some r"
proof -
  have depth: "(if te_Join (example_suite_env True) d n = ''t'' then 1 else 0) < (if d = ''t'' then 1 else (0 :: nat))"
    if "te_ReadDir (example_suite_env True) d = Inr files" "(n, True) \<in> set files" for d n files
    using that by (auto split: if_splits)
  have enough: "(if ''t'' = ''t'' then 1 else 0) < (2 :: nat)" by simp
  have total: "buildTestSuite (example_suite_env True) 2 base_case ''t'' [] \<noteq> None \<and>
      (\<forall>more \<ge> 2. buildTestSuite (example_suite_env True) more base_case ''t'' [] = buildTestSuite (example_suite_env True) 2 base_case ''t'' [])"
    by (rule build_terminates [where depth = "\<lambda>d. if d = ''t'' then 1 else 0 :: nat", OF _ enough]) (erule (1) depth)
  have "buildTestSuite (example_suite_env True) 5 base_case ''t'' [] = buildTestSuite (example_suite_env True) 2 base_case ''t'' []"
    by (rule conjunct2 [OF total, rule_format]) presburger
  then show ?thesis using conjunct1 [OF total] by (metis not_None_eq)
qed

theorem compare_options_shared_witness:
  "\<exists>child h' options. populateTestCase (example_suite_env True) (base_case\<lparr>ct_CompareOptions := Some 0\<rparr>) ''t/a'' [empty_options] = (Ret child, h') \<and>
     tc_CompareOptions (deref h' (base_case\<lparr>ct_CompareOptions := Some 0\<rparr>)) = Some options \<and> co_IgnoreMetadata options"
proof -
  let ?c = "base_case\<lparr>ct_CompareOptions := Some 0\<rparr>"
  obtain child h' where run: "populateTestCase (example_suite_env True) ?c ''t/a'' [empty_options] = (Ret child, h')"
    using example_populate [OF _ example_given, of "''t/a''" True ?c "[empty_options]"] by (simp add: assign_option_def)
  from compare_options_shared [OF run _ _ example_info_read, of 0 True ?c] run show ?thesis by auto
qed

definition example_case :: "bool \<Rightarrow> string \<Rightarrow> CliTest" where
  "example_case x d =
     \<lparr>ct_Given = \<lparr>gv_Template = Some (FromTemplateFile \<lparr>tf_Path = d @ ''/template.yaml'', tf_YttValues = fmempty, tf_YttFiles = []\<rparr>),
        gv_Workload = Some (WorkloadFile (d @ ''/workload.yaml'')), gv_SupplyChain = Some (UseMock \<lparr>ms_Params = None, ms_Inputs = None\<rparr>)\<rparr>,
      ct_Expect = (if x then Some (ExpectedFile (d @ ''/expected.yaml'')) else None), ct_CompareOptions = Some 0, ct_Focus = False\<rparr>"

lemma example_suite:
  "buildTestSuite (example_suite_env x) 2 base_case ''t'' [] =
     Some (Ret (fmupd ''t/a'' (example_case x ''t/a'') fmempty), [empty_options\<lparr>co_IgnoreMetadata := True\<rparr>])"
proof -
  let ?h = "[empty_options\<lparr>co_IgnoreMetadata := True\<rparr>]"
  have "populateTestCase (example_suite_env x) base_case ''t'' [] = (Ret (example_case x ''t''), ?h)"
    using example_populate [OF _ example_given, of "''t''" x base_case "[]"] by (simp add: assign_option_def base_case_def example_case_def)
  moreover have "populateTestCase (example_suite_env x) (example_case x ''t'') ''t/a'' ?h = (Ret (example_case x ''t/a''), ?h)"
    using example_populate [OF _ example_given, of "''t/a''" x "example_case x ''t''" ?h] by (simp add: assign_option_def example_case_def cong: if_cong)
  ultimately show ?thesis by (simp add: numeral_2_eq_2 getSubdirectories_def)
qed

lemma example_not_focused: "\<not> HasFocusedTests (fmupd ''t/a'' (example_case x ''t/a'') fmempty)"
proof -
  let ?s = "fmupd ''t/a'' (example_case x ''t/a'') fmempty"
  have "fmfilter (\<lambda>n. case fmlookup ?s n of None \<Rightarrow> False | Some c \<Rightarrow> ct_Focus c) ?s = fmempty"
    by (intro fmap_ext) (auto simp: example_case_def)
  then show ?thesis unfolding HasFocusedTests_def getTestsToRun_def by simp
qed

theorem missing_expectation_panics_witness:
  "\<exists>p. CliTestCommand (example_suite_env False) 2 ''t'' fmempty = Some (Panic p)"
  using missing_expectation_panics [OF _ example_suite _ _ example_not_focused, of False "''t/a''" "example_case False ''t/a''"]
  by (simp add: example_case_def)

lemma example_test_passes:
  "Test_Run (test_env.truncate (example_suite_env True)) (deref [empty_options\<lparr>co_IgnoreMetadata := True\<rparr>] (example_case True ''t/a'')) fmempty =
     (Ret (), fmempty)"
proof -
  let ?env = "test_env.truncate (example_suite_env True)"
  have "applyTemplate example_env st ''{}'' = Ret (empty_object\<lparr>u_Content := JObj fmempty\<rparr>)" for st
    by (simp add: applyTemplate_def example_env_def)
  then have stamp: "\<exists>obj. Stamp example_env (StamperBuilder ow c ls) (GetResourceTemplate (vt_Template tested_template)) = Ret obj" for ow c ls
    by (simp add: Stamp_def empty_object_def tested_template_def)
  have fields: "te_stamp ?env = example_env" "te_ReadFile ?env f = Inr ''''" "te_YAMLToJSON ?env = Inr" "te_Workload ?env r = Inr example_workload"
    "te_Object ?env r = Inr (fmap_of_list [(''kind'', JStr ''ClusterTemplate'')])" "te_Template ?env k r = Inr tested_template" "te_Diff ?env opt a b = ''''"
    for f r k opt a b
    by (simp_all add: example_suite_env_def test_env.defs example_test_env_def)
  have "ValidateTemplate (te_codec ?env) (vt_Template tested_template) = None"
    by (simp add: tested_template_def TemplateSpec_validate_def check_def example_suite_env_def test_env.defs example_test_env_def empty_object_def)
  moreover have "NewReaderFromAPI (Some (vt_Template tested_template)) = Ret (vt_Template tested_template)" "\<not> IsYTTTemplate (vt_Template tested_template)"
    by (simp_all add: NewReaderFromAPI_def reader.ytt_spec tested_template_def)
  moreover obtain params where "Merge (NewParamMerger [] [] (wls_Params (wl_Spec example_workload))) (Some (GetDefaultParams (vt_Template tested_template))) = Ret params"
    by (simp add: Merge_def NewParamMerger_def tested_template_def example_workload_def)
  ultimately obtain obj where actual: "getActualObject ?env (ct_Given (example_case True ''t/a'')) fmempty = (Ret obj, fmempty)"
    by (auto simp: example_case_def getActualObject_def temp_bind_def wrapping_def lift_go_def ReadFile_def fields
        TemplateFile_GetTemplate_def with_preprocessed_def decode_template_def object_kind_def Mock_stamp_def createTemplatingContext_def)
      (use stamp in blast)
  have "compare_objects ?env (Some (empty_options\<lparr>co_IgnoreMetadata := True\<rparr>)) a b = Ret ()" for a b
    by (simp add: compare_objects_def stripIgnoredFields_def empty_options_def fields)
  with actual show ?thesis
    by (simp add: Test_Run_def deref_def example_case_def temp_bind_def wrapping_def lift_go_def ReadFile_def fields)
qed

lemma one_key: "fmap_keys (fmupd k v fmempty) = [k]"
  by (simp add: fmap_keys_def sorted_list_of_fset.rep_eq)

lemma example_command_passes: "CliTestCommand (example_suite_env True) 2 ''t'' fmempty = Some (Ret None)"
proof -
  let ?s = "fmupd ''t/a'' (example_case True ''t/a'') fmempty"
  have "assert_tests (example_suite_env True) [empty_options\<lparr>co_IgnoreMetadata := True\<rparr>] ?s [''t/a''] fmempty = (Ret ([''t/a''], []), fmempty)"
    by (simp add: example_test_passes)
  then have "suite_Assert (example_suite_env True) [empty_options\<lparr>co_IgnoreMetadata := True\<rparr>] ?s fmempty = (Ret ([''t/a''], []), fmempty)"
    using no_focus [OF example_not_focused [of True]] by (simp add: suite_Assert_def case_prod_beta one_key del: assert_tests.simps)
  then show ?thesis
    by (simp add: CliTestCommand_def example_suite example_not_focused reportTestResults_def newTestCaseReporter_def del: buildTestSuite.simps)
qed

theorem cli_success_sound_witness:
  "\<exists>suite h c fs1 fs2. buildTestSuite (example_suite_env True) 2 base_case ''t'' [] = Some (Ret suite, h) \<and> fmlookup suite ''t/a'' = Some c \<and>
     Test_Run (test_env.truncate (example_suite_env True)) (deref h c) fs1 = (Ret (), fs2)"
proof -
  have "leaf_directory (example_suite_env True) ''t/a'' ''t/a''" by (rule leaf_directory.leaf) (simp add: getSubdirectories_def)
  then have "leaf_directory (example_suite_env True) (te_Join (example_suite_env True) ''t'' ''a'') ''t/a''" by simp
  then have "leaf_directory (example_suite_env True) ''t'' ''t/a''"
    by (rule leaf_directory.below [rotated 2, of _ _ _ _ "[''a'']"]) (simp_all add: getSubdirectories_def)
  from cli_success_sound [OF _ example_command_passes this]
  obtain suite h c fs1 fs2 where "buildTestSuite (example_suite_env True) 2 base_case ''t'' [] = Some (Ret suite, h)" "fmlookup suite ''t/a'' = Some c"
      "Test_Run (test_env.truncate (example_suite_env True)) (deref h c) fs1 = (Ret (), fs2)"
    by (auto simp del: buildTestSuite.simps)
  then show ?thesis by (intro exI conjI)
qed

end
