(* ===== verification/Spec2Isabelle.thy ===== *)
theory Spec2Isabelle
  imports Validation Nested_Fields Deep_Copy Data_Flow Tracking_Windows Controller_Runs Test_Suites
begin

text \<open>
  Cartographer (\<^verbatim>\<open>src/pkg\<close>) is a set of Kubernetes controllers.  A \<^emph>\<open>blueprint\<close>, a ClusterSupplyChain or a ClusterDelivery, lists resources,
  each with a template; an \<^emph>\<open>owner\<close>, a Workload or a Deliverable, is matched with one blueprint by its labels and fields.  The controllers
  stamp an object for every resource from its template and the outputs of earlier resources, submit it to the API
  server, read its outputs and report conditions and health in the status of the owner.  A Runnable stamps a new immutable
  object whenever its inputs change and publishes the outputs of the latest successful one.

  \<^bold>\<open>How the code is modelled.\<close>  Structs are records, tagged values and errors are datatypes, functions keep the names of the code.  A
  function that may panic or return an error yields a value of \<open>'a go\<close>: \<open>Ret\<close>, \<open>Err\<close> or \<open>Panic\<close>.  Mutation is state passing: the
  condition manager, the caches, the trackers, the repository (cluster, cache, recorded events) and the state of a controller are records
  that the operations return updated.  A nil slice or map is told from an empty one (\<open>slice\<close>, \<open>gomap\<close>) where the code can tell them apart.
  A JSON value has the dynamic type of Go: \<^verbatim>\<open>int64\<close> and \<^verbatim>\<open>float64\<close> are different constructors, because equality of interface values tells them apart.
  Only deep copies are about sharing, so they alone have an explicit store, in which pointers, slices and maps are locations.
  Loops are structural recursions over lists.  The one exception is the walk over the directories of the template tests, \<open>buildTestSuite\<close>, which recurses on fuel;
  \<open>build_terminates\<close> shows that the depth of the directory tree plus one is enough.  Times are integers in nanoseconds and the readings of
  the clock are arguments; the arithmetic of the token manager is on 64 bit words.  Third party code is an argument: the
  API client over an abstract cluster \<open>'w\<close>, the JSONPath engine, the conversion of label selectors, JSON and YAML
  codecs, the ytt process, the REST mapper, \<^verbatim>\<open>sort.Sort\<close>, the token API, and the order in which Go ranges over a map.  What a theorem needs of
  them it states as a hypothesis.  Logging is left out.

  \<^bold>\<open>The theories.\<close>
  \<^item> \<open>Prelude\<close>, \<open>Api_Types\<close> (\<^verbatim>\<open>apis/v1alpha1\<close>), \<open>Go_Errors\<close> (\<^verbatim>\<open>errors\<close>): Go values, the API types, every error with its text and the
    distinction of handled errors, which end a reconciliation, and unhandled ones, which queue it again.
  \<^item> \<open>Json_Path\<close> (\<^verbatim>\<open>eval\<close>, \<^verbatim>\<open>utils/json_path.go\<close>), \<open>Selector_Matching\<close> (\<^verbatim>\<open>selector\<close>, \<^verbatim>\<open>repository/selector_matcher.go\<close>): the best match is exactly
    the list of indices of the matching selectors with the most requirements.
  \<^item> \<open>Condition_Manager\<close>, \<open>Resource_Conditions\<close> (\<^verbatim>\<open>conditions\<close>): the locale \<open>condition_manager\<close> states what \<^verbatim>\<open>Finalize\<close> returns after any additions, and
    \<open>submission_conditions\<close> what the functions from errors to conditions keep; both are interpreted on the code.
  \<^item> \<open>Go_Store\<close>, \<open>Api_Schema\<close>, \<open>Deep_Copy\<close> (the struct declarations and the deep copies of \<^verbatim>\<open>apis/v1alpha1\<close>, \<^verbatim>\<open>groupversion_info.go\<close>): values and types of Go
    over a store, the declarations of the API types, and their copies, written statement for statement with combinators for slices, maps and
    pointers.  The locales \<open>deep_copier\<close> and \<open>listed_kind\<close> are interpreted on every registered kind.
  \<^item> \<open>Validation\<close>, \<open>Admission\<close> (the webhooks of \<^verbatim>\<open>apis/v1alpha1\<close>): which blueprints and templates are accepted on creation and update, stated as
    well-formedness of the object (\<open>wf_template_spec\<close>, \<open>wf_run_template\<close>, \<open>wf_supply_chain\<close>, \<open>wf_delivery\<close>), and what acceptance buys the realizer.
  \<^item> \<open>Realizer_Inputs\<close>, \<open>Stamp_Reader\<close> (\<^verbatim>\<open>stamp\<close>), \<open>Health\<close> (\<^verbatim>\<open>realizer/healthcheck\<close>), \<open>Resource_Statuses\<close>, \<open>Gc\<close> (\<^verbatim>\<open>runnable/gc\<close>): parameters and inputs of a
    template, outputs of an object, its health, the change detection of statuses, retention of old objects.  \<open>Gc\<close> has the locale \<open>go_sort\<close>, interpreted by
    the insertion sort that Go runs on short slices.
  \<^item> \<open>Repo_Cache\<close>, \<open>Events\<close>, \<open>Repository\<close> (\<^verbatim>\<open>repository\<close>, \<^verbatim>\<open>events\<close>): locale \<open>repo_cache\<close>; submitting is idempotent and does not create twice.
  \<^item> \<open>Template_Reader\<close>, \<open>Stamper\<close> (\<^verbatim>\<open>templates\<close>): interpolation and stamping; a stamped object belongs to its owner.
  \<^item> \<open>Resource_Realizer\<close>, \<open>Realizer\<close> (\<^verbatim>\<open>realizer/component.go\<close>, \<^verbatim>\<open>realizer.go\<close>), \<open>Runnable_Realizer\<close>: one resource, all resources of a blueprint in
    order, one runnable.  The locale \<open>resource_realizer\<close> is what \<^verbatim>\<open>Realize\<close> relies on of \<^verbatim>\<open>Do\<close>; it is interpreted on the component.
  \<^item> \<open>Data_Flow\<close>: a whole realization; a resource reads its inputs from the outputs of the resources before it and from nowhere else.
  \<^item> \<open>Tracker\<close> (\<^verbatim>\<open>tracker/dependency\<close>, \<^verbatim>\<open>enqueuer\<close>), \<open>Mapper\<close>, \<open>Token_Manager\<close> (\<^verbatim>\<open>satoken\<close>): leases refine a function from references and owners to
    expiry times (locales \<open>dependency_tracker\<close>, \<open>map_order\<close>); the mapper turns a changed object into the owners to reconcile; the token
    cache is a step relation \<open>token_step\<close> in which the locked steps of any number of goroutines interleave.
  \<^item> \<open>Orphans\<close>, \<open>Blueprint_Reconcilers\<close>, \<open>Owner_Reconcilers\<close>, \<open>Workload_Reconciler\<close>, \<open>Deliverable_Reconciler\<close>, \<open>Runnable_Reconciler\<close>
    (\<^verbatim>\<open>controllers\<close>): the five \<^verbatim>\<open>Reconcile\<close> functions composed of all of the above: which status is written, which error goes back to the work queue, what is
    tracked and therefore reconciled later, which orphaned objects are deleted.  \<open>Owner_Reconcilers\<close> holds what the workload and the deliverable reconciler
    have in common; the code repeats it.
  \<^item> \<open>Client_Config\<close> (\<^verbatim>\<open>realizer/client\<close>, the client, scheme, logger and kubeconfig helpers of \<^verbatim>\<open>utils\<close>), \<open>Wiring\<close> (\<^verbatim>\<open>SetupWithManager\<close> of the five controllers,
    \<^verbatim>\<open>cmd\<close>): with whose credentials an object is submitted; which kinds each controller watches, with which mapping function, and what a
    change of a watched object puts on the work queue.
  \<^item> \<open>Controller_Runs\<close>: whole histories of one controller, a sequence of events of the API server and of reconciliations with its work queue and trackers.
    The locale \<open>tracked_controller\<close> states what a reconciliation promises (it tracks what it used, time does not go back, leases are for its own owner) and is
    interpreted on the five \<^verbatim>\<open>Reconcile\<close> functions.
  \<^item> \<open>Tracking_Windows\<close>: \<^verbatim>\<open>trackDependencies\<close> cut into its calls of the tracker, mixed with the calls of other goroutines, and what a watch sees in between.
  \<^item> \<open>Test_Stamping\<close>, \<open>Test_Suites\<close> (\<^verbatim>\<open>testing\<close>): the tool for template authors.  The first stamps and compares one test case, the second reads the
    \<^verbatim>\<open>info.yaml\<close> files of a directory tree, passes settings down to the cases, runs them and reports.
  \<^item> \<open>Nested_Fields\<close> (\<^verbatim>\<open>utils/util.go\<close>): setting a field deep inside an object; it can be read back and the last write wins.

  \<^bold>\<open>Properties.\<close>  They are numbered C1 to C40 in the theories.  C1 to C7 are the core: aggregation of conditions, selection, parameters,
  retention, realizing, the flow of outputs to inputs, tracking.  C8 and C9 are about histories of the workload controller: a change of a template that a
  workload uses is never lost, and every lease is bounded by the clock.  C10 to C13 are about what surrounds the controllers: every registered kind is copied
  without sharing, the webhooks accept exactly the valid blueprints and templates, the health rules of these can be evaluated, and a watch that fires between two calls of
  the tracker sees the clearing of the owner.  C14 to C26 span components: the status of a reconciled workload, orphans, tokens, the liveness of
  tracking, runnables, submission, acceptance of supply chains, the watches.  C27 to C30 say that the testing tool stamps what the controller would submit, that
  success means that every test passed, that its walk ends and that its comparison is exact.  C31 to C37 complete single components.  C38 to C40 are
  about failures: a role change enqueues nothing, which is hardly intended, the cleanup of orphans stops at the first deletion that fails, and a workload whose
  service account is missing is not tracked for it.
  Further theorems of this kind stand beside the code they are about: a test case does not inherit the supply chain of its directory
  (\<open>supply_chain_not_inherited\<close>), a missing template blocks the cleanup (\<open>missing_template_blocks_cleanup\<close>; the tests of the controllers replace the
  repository by a fake that reports it as an error), the comparison options that one test sets apply to its siblings (\<open>compare_options_shared\<close>), and a resource that names itself as an
  input is accepted (\<open>self_reference_accepted\<close>).

  \<^bold>\<open>Not modelled.\<close>  Command line flags and the profiling server; the informers and caches of controller-runtime; the generated fakes, which only record
  the calls of unit tests; the helpers of the repository's own tests; the benchmark.  Concurrency is modelled for the token
  manager, where locked steps interleave, and for the calls that a reconciliation makes to the tracker.  The tracker and the repository cache hold their lock
  for a whole operation, so their operations are sequences of calls.  In \<open>Controller_Runs\<close> a reconciliation is one step of the history;
  \<open>Tracking_Windows\<close> says what that leaves out.  Two reconciliations of the same owner never run at once, which controller-runtime guarantees.
\<close>

end
